(* ===== verification/Prelude.thy ===== *)
theory Prelude
  imports Main "HOL-Library.AList" "HOL-Library.Word"
begin

text \<open>
  Shared vocabulary of the development.

  A C++ operation that may throw is a function from a state to a pair of an outcome and
  the state it leaves behind: \<open>Inl what\<close> is a \<open>std::runtime_error\<close> with its \<open>what()\<close> text
  (also what \<open>log_fatal\<close> throws), \<open>Inr v\<close> a normal return.  State changes made before a
  throw stay visible, as they do in the program.
\<close>

section \<open>Outcomes and state passing\<close>

type_synonym what = string
type_synonym 'a outcome = "what + 'a"
type_synonym ('s, 'a) op = "'s \<Rightarrow> 'a outcome \<times> 's"

text \<open>Undefined behaviour of the language, made visible as an outcome of its own.\<close>

definition undefined_behaviour :: what where
  "undefined_behaviour = ''undefined behaviour''"

named_theorems op_defs \<open>definitions of the state-passing combinators\<close>
named_theorems store_defs \<open>definitions of the small state updates of the store\<close>

definition bindE :: "'a outcome \<Rightarrow> ('a \<Rightarrow> 'b outcome) \<Rightarrow> 'b outcome" where
  "bindE x f = (case x of Inl e \<Rightarrow> Inl e | Inr a \<Rightarrow> f a)"

definition ret :: "'a \<Rightarrow> ('s, 'a) op" where
  "ret a s = (Inr a, s)"

definition throw :: "what \<Rightarrow> ('s, 'a) op" where
  "throw e s = (Inl e, s)"

definition bindM :: "('s, 'a) op \<Rightarrow> ('a \<Rightarrow> ('s, 'b) op) \<Rightarrow> ('s, 'b) op" where
  "bindM m f s = (case m s of (Inl e, s') \<Rightarrow> (Inl e, s') | (Inr a, s') \<Rightarrow> f a s')"

definition modify :: "('s \<Rightarrow> 's) \<Rightarrow> ('s, unit) op" where
  "modify f s = (Inr (), f s)"

declare bindE_def [op_defs] ret_def [op_defs] throw_def [op_defs] bindM_def [op_defs]
  modify_def [op_defs]

lemma bindE_simps [simp]:
  "bindE (Inl e) f = Inl e" "bindE (Inr a) f = f a"
  by (simp_all add: bindE_def)

lemma bindE_Inr_iff: "bindE x f = Inr b \<longleftrightarrow> (\<exists>a. x = Inr a \<and> f a = Inr b)"
  by (cases x) auto

lemma bindM_Inl [simp]: "m s = (Inl e, s') \<Longrightarrow> bindM m f s = (Inl e, s')"
  by (simp add: bindM_def)

lemma bindM_Inr [simp]: "m s = (Inr a, s') \<Longrightarrow> bindM m f s = f a s'"
  by (simp add: bindM_def)

lemma bindM_Inr_iff:
  "bindM m f s = (Inr b, t) \<longleftrightarrow> (\<exists>a s'. m s = (Inr a, s') \<and> f a s' = (Inr b, t))"
  by (auto simp: bindM_def split: prod.splits sum.splits)

text \<open>A loop over a vector that calls an operation for each element and keeps the results.\<close>

fun mapM :: "('a \<Rightarrow> ('s, 'b) op) \<Rightarrow> 'a list \<Rightarrow> ('s, 'b list) op" where
  "mapM f [] s = (Inr [], s)"
| "mapM f (x # xs) s =
     (case f x s of
        (Inl e, s') \<Rightarrow> (Inl e, s')
      | (Inr y, s') \<Rightarrow>
          (case mapM f xs s' of
             (Inl e, s'') \<Rightarrow> (Inl e, s'')
           | (Inr ys, s'') \<Rightarrow> (Inr (y # ys), s'')))"

text \<open>The same with an accumulator that the loop body updates.\<close>

fun foldM :: "('a \<Rightarrow> 'b \<Rightarrow> ('s, 'b) op) \<Rightarrow> 'a list \<Rightarrow> 'b \<Rightarrow> ('s, 'b) op" where
  "foldM f [] acc s = (Inr acc, s)"
| "foldM f (x # xs) acc s =
     (case f x acc s of
        (Inl e, s') \<Rightarrow> (Inl e, s')
      | (Inr acc', s') \<Rightarrow> foldM f xs acc' s')"

text \<open>
  An invariant of the state that every loop body keeps, whether it returns or throws, is kept
  by the loop.
\<close>

lemma mapM_invariant:
  assumes "\<And>x s r s'. x \<in> set xs \<Longrightarrow> I s \<Longrightarrow> f x s = (r, s') \<Longrightarrow> I s'"
    and "I s" and "mapM f xs s = (r, s')"
  shows "I s'"
  using assms
proof (induction xs arbitrary: s r s')
  case Nil
  then show ?case by simp
next
  case (Cons x xs)
  obtain r1 s1 where f: "f x s = (r1, s1)" by (cases "f x s")
  have I1: "I s1" using Cons.prems(1) [OF _ Cons.prems(2) f] by simp
  obtain r2 s2 where m: "mapM f xs s1 = (r2, s2)" by (cases "mapM f xs s1")
  have "I s2" by (rule Cons.IH [OF _ I1 m]) (rule Cons.prems(1) [OF list.set_intros(2)])
  with I1 f m Cons.prems(3) show ?case by (auto split: sum.splits)
qed

lemma foldM_invariant:
  assumes "\<And>x acc s r s'. x \<in> set xs \<Longrightarrow> I s \<Longrightarrow> f x acc s = (r, s') \<Longrightarrow> I s'"
    and "I s" and "foldM f xs acc s = (r, s')"
  shows "I s'"
  using assms
proof (induction xs arbitrary: acc s r s')
  case Nil
  then show ?case by simp
next
  case (Cons x xs)
  obtain r1 s1 where f: "f x acc s = (r1, s1)" by (cases "f x acc s")
  have I1: "I s1" using Cons.prems(1) [OF _ Cons.prems(2) f] by simp
  show ?case
  proof (cases r1)
    case (Inl e)
    with f I1 Cons.prems(3) show ?thesis by simp
  next
    case (Inr acc')
    with f Cons.prems(3) have loop: "foldM f xs acc' s1 = (r, s')" by simp
    show ?thesis by (rule Cons.IH [OF _ I1 loop]) (rule Cons.prems(1) [OF list.set_intros(2)])
  qed
qed

section \<open>Strings\<close>

text \<open>\<open>s.find(p)==0\<close>, the test the code uses for "begins with".\<close>

definition begins_with :: "string \<Rightarrow> string \<Rightarrow> bool" where
  "begins_with p s \<longleftrightarrow> take (length p) s = p"

lemma begins_with_append [simp]: "begins_with p (p @ s)"
  by (simp add: begins_with_def)

lemma begins_with_iff: "begins_with p s \<longleftrightarrow> (\<exists>t. s = p @ t)"
  by (metis append_take_drop_id begins_with_append begins_with_def)

text \<open>\<open>s.find(p)!=npos\<close>.\<close>

fun occurs_in :: "string \<Rightarrow> string \<Rightarrow> bool" where
  "occurs_in p [] \<longleftrightarrow> p = []"
| "occurs_in p (c # s) \<longleftrightarrow> begins_with p (c # s) \<or> occurs_in p s"

text \<open>Decimal rendering of an unsigned value, as \<open>operator<<\<close> prints it.\<close>

fun show_nat :: "nat \<Rightarrow> string" where
  "show_nat n =
     (if n < 10 then [char_of (48 + n)] else show_nat (n div 10) @ [char_of (48 + n mod 10)])"

declare show_nat.simps [simp del]

definition show_int :: "int \<Rightarrow> string" where
  "show_int i = (if i < 0 then ''-'' @ show_nat (nat (- i)) else show_nat (nat i))"

section \<open>Association lists\<close>

lemma map_of_AList_update [simp]:
  "map_of (AList.update k v m) = (map_of m)(k \<mapsto> v)"
  by (rule update_conv')

lemma map_of_AList_delete [simp]:
  "map_of (AList.delete k m) = (map_of m)(k := None)"
  by (rule delete_conv')

end
