(* ===== verification/Entities.thy ===== *)
theory Entities
  imports Prelude
begin

text \<open>
  The plain data of the server (\<open>include/Entities.h\<close>, \<open>src/Entities.cpp\<close>): one record per
  struct, with the fields in the order of the source and a prefix naming the struct, the
  default-constructed (invalid) object of each, the comparison operators (most entities compare
  by ID only), the stream operators used in log lines, the textual form of S3 credentials and
  of the volume enums, and the random identifiers of \<open>IDGenerator\<close>.
\<close>

section \<open>Structs\<close>

record User =
  u_valid :: bool
  u_id :: string
  u_name :: string
  u_email :: string
  u_phone :: string
  u_institution :: string
  u_token :: string
  u_globusID :: string
  u_admin :: bool

definition no_user :: User where
  "no_user = \<lparr>u_valid = False, u_id = '''', u_name = '''', u_email = '''', u_phone = '''',
     u_institution = '''', u_token = '''', u_globusID = '''', u_admin = False\<rparr>"

record Group =
  g_valid :: bool
  g_id :: string
  g_name :: string
  g_email :: string
  g_phone :: string
  g_scienceField :: string
  g_description :: string

definition no_group :: Group where
  "no_group = \<lparr>g_valid = False, g_id = '''', g_name = '''', g_email = '''', g_phone = '''',
     g_scienceField = '''', g_description = ''''\<rparr>"

definition namespacePrefix :: string where
  "namespacePrefix = ''slate-group-''"

definition namespaceName :: "Group \<Rightarrow> string" where
  "namespaceName g = namespacePrefix @ g_name g"

record S3Credential =
  s3_accessKey :: string
  s3_secretKey :: string
  s3_inUse :: bool
  s3_revoked :: bool

definition no_cred :: S3Credential where
  "no_cred = \<lparr>s3_accessKey = '''', s3_secretKey = '''', s3_inUse = False, s3_revoked = False\<rparr>"

definition make_cred :: "string \<Rightarrow> string \<Rightarrow> S3Credential" where
  "make_cred ak sk = \<lparr>s3_accessKey = ak, s3_secretKey = sk, s3_inUse = False, s3_revoked = False\<rparr>"

text \<open>\<open>operator bool\<close>: both halves of the key pair are present.\<close>

definition s3_ok :: "S3Credential \<Rightarrow> bool" where
  "s3_ok c \<longleftrightarrow> s3_accessKey c \<noteq> [] \<and> s3_secretKey c \<noteq> []"

record Cluster =
  c_valid :: bool
  c_id :: string
  c_name :: string
  c_config :: string
  c_systemNamespace :: string
  c_owningGroup :: string
  c_owningOrganization :: string
  c_monitoringCredential :: S3Credential

definition no_cluster :: Cluster where
  "no_cluster = \<lparr>c_valid = False, c_id = '''', c_name = '''', c_config = '''',
     c_systemNamespace = '''', c_owningGroup = '''', c_owningOrganization = '''',
     c_monitoringCredential = no_cred\<rparr>"

record Application =
  a_valid :: bool
  a_name :: string
  a_version :: string
  a_chartVersion :: string
  a_description :: string

definition no_application :: Application where
  "no_application = \<lparr>a_valid = False, a_name = '''', a_version = '''', a_chartVersion = '''',
     a_description = ''''\<rparr>"

record ApplicationInstance =
  i_valid :: bool
  i_id :: string
  i_name :: string
  i_application :: string
  i_owningGroup :: string
  i_cluster :: string
  i_config :: string
  i_ctime :: string

definition no_instance :: ApplicationInstance where
  "no_instance = \<lparr>i_valid = False, i_id = '''', i_name = '''', i_application = '''',
     i_owningGroup = '''', i_cluster = '''', i_config = '''', i_ctime = ''''\<rparr>"

record Secret =
  s_valid :: bool
  s_id :: string
  s_name :: string
  s_group :: string
  s_cluster :: string
  s_ctime :: string
  s_data :: string

definition no_secret :: Secret where
  "no_secret = \<lparr>s_valid = False, s_id = '''', s_name = '''', s_group = '''', s_cluster = '''',
     s_ctime = '''', s_data = ''''\<rparr>"

datatype AccessMode = ReadWriteOnce | ReadOnlyMany | ReadWriteMany

datatype VolumeMode = Filesystem | Block

record PersistentVolumeClaim =
  v_valid :: bool
  v_id :: string
  v_name :: string
  v_group :: string
  v_cluster :: string
  v_storageRequest :: string
  v_accessMode :: AccessMode
  v_volumeMode :: VolumeMode
  v_storageClass :: string
  v_selectorMatchLabel :: string
  v_ctime :: string
  v_selectorLabelExpressions :: "string list"

text \<open>
  \<open>PersistentVolumeClaim()\<close> leaves the two enums uninitialised; the model fixes them at
  their first enumerator.  Nothing reads them in an invalid claim.
\<close>

definition no_volume :: PersistentVolumeClaim where
  "no_volume = \<lparr>v_valid = False, v_id = '''', v_name = '''', v_group = '''', v_cluster = '''',
     v_storageRequest = '''', v_accessMode = ReadWriteOnce, v_volumeMode = Filesystem,
     v_storageClass = '''', v_selectorMatchLabel = '''', v_ctime = '''',
     v_selectorLabelExpressions = []\<rparr>"

section \<open>Comparison\<close>

definition user_eq :: "User \<Rightarrow> User \<Rightarrow> bool" where
  "user_eq u1 u2 \<longleftrightarrow> u_valid u1 = u_valid u2 \<and> u_id u1 = u_id u2"

definition group_eq :: "Group \<Rightarrow> Group \<Rightarrow> bool" where
  "group_eq v1 v2 \<longleftrightarrow> g_id v1 = g_id v2"

definition cluster_eq :: "Cluster \<Rightarrow> Cluster \<Rightarrow> bool" where
  "cluster_eq c1 c2 \<longleftrightarrow> c_id c1 = c_id c2"

definition cred_eq :: "S3Credential \<Rightarrow> S3Credential \<Rightarrow> bool" where
  "cred_eq c1 c2 \<longleftrightarrow> s3_accessKey c1 = s3_accessKey c2 \<and> s3_secretKey c1 = s3_secretKey c2"

definition application_eq :: "Application \<Rightarrow> Application \<Rightarrow> bool" where
  "application_eq a1 a2 \<longleftrightarrow> a_name a1 = a_name a2 \<and> a_chartVersion a1 = a_chartVersion a2"

definition instance_eq :: "ApplicationInstance \<Rightarrow> ApplicationInstance \<Rightarrow> bool" where
  "instance_eq i1 i2 \<longleftrightarrow> i_id i1 = i_id i2"

definition secret_eq :: "Secret \<Rightarrow> Secret \<Rightarrow> bool" where
  "secret_eq s1 s2 \<longleftrightarrow> s_id s1 = s_id s2"

definition volume_eq :: "PersistentVolumeClaim \<Rightarrow> PersistentVolumeClaim \<Rightarrow> bool" where
  "volume_eq v1 v2 \<longleftrightarrow> v_id v1 = v_id v2"

section \<open>Log text\<close>

text \<open>\<open>os << id; if(!name.empty()) os << " (" << name << ')'\<close>, shared by six operators.\<close>

definition id_and_name :: "string \<Rightarrow> string \<Rightarrow> string" where
  "id_and_name i n = i @ (if n \<noteq> [] then '' ('' @ n @ '')'' else [])"

definition show_user :: "User \<Rightarrow> string" where
  "show_user u = (if \<not> u_valid u then ''invalid user'' else id_and_name (u_id u) (u_name u))"

definition show_group :: "Group \<Rightarrow> string" where
  "show_group g = (if \<not> g_valid g then ''invalid Group'' else id_and_name (g_id g) (g_name g))"

definition show_cluster :: "Cluster \<Rightarrow> string" where
  "show_cluster c = (if \<not> c_valid c then ''invalid cluster'' else id_and_name (c_id c) (c_name c))"

definition show_cred :: "S3Credential \<Rightarrow> string" where
  "show_cred c = (if \<not> s3_ok c then ''invalid S3 credential'' else s3_accessKey c)"

definition show_application :: "Application \<Rightarrow> string" where
  "show_application a = (if \<not> a_valid a then ''invalid application'' else a_name a)"

definition show_instance :: "ApplicationInstance \<Rightarrow> string" where
  "show_instance i =
     (if \<not> i_valid i then ''invalid application instance'' else id_and_name (i_id i) (i_name i))"

definition show_secret :: "Secret \<Rightarrow> string" where
  "show_secret s = (if \<not> s_valid s then ''invalid secret'' else id_and_name (s_id s) (s_name s))"

definition show_volume :: "PersistentVolumeClaim \<Rightarrow> string" where
  "show_volume v =
     (if \<not> v_valid v then ''invalid volume claim'' else id_and_name (v_id v) (v_name v))"

section \<open>Textual forms\<close>

definition s3_serialize :: "S3Credential \<Rightarrow> string" where
  "s3_serialize c = s3_accessKey c @ '' '' @ s3_secretKey c"

text \<open>
  \<open>data.find(' ')\<close> is the length of the longest prefix without a space; \<open>npos\<close> when that is
  everything.
\<close>

definition s3_deserialize :: "string \<Rightarrow> S3Credential" where
  "s3_deserialize d =
     (let pos = length (takeWhile (\<lambda>c. c \<noteq> CHR '' '') d)
      in if pos \<noteq> length d \<and> 0 < pos \<and> pos < length d - 1
         then no_cred\<lparr>s3_accessKey := take pos d, s3_secretKey := drop (pos + 1) d\<rparr>
         else no_cred)"

fun accessMode_to_string :: "AccessMode \<Rightarrow> string" where
  "accessMode_to_string ReadWriteOnce = ''ReadWriteOnce''"
| "accessMode_to_string ReadOnlyMany = ''ReadOnlyMany''"
| "accessMode_to_string ReadWriteMany = ''ReadWriteMany''"

definition accessModeFromString :: "string \<Rightarrow> AccessMode outcome" where
  "accessModeFromString s =
     (if s = ''ReadWriteOnce'' \<or> s = ''RWO'' then Inr ReadWriteOnce
      else if s = ''ReadOnlyMany'' \<or> s = ''ROX'' then Inr ReadOnlyMany
      else if s = ''ReadWriteMany'' \<or> s = ''RWX'' then Inr ReadWriteMany
      else Inl (''Unrecognized volume access mode: '' @ s))"

fun volumeMode_to_string :: "VolumeMode \<Rightarrow> string" where
  "volumeMode_to_string Filesystem = ''Filesystem''"
| "volumeMode_to_string Block = ''Block''"

definition volumeModeFromString :: "string \<Rightarrow> VolumeMode outcome" where
  "volumeModeFromString s =
     (if s = ''Filesystem'' then Inr Filesystem
      else if s = ''Block'' then Inr Block
      else Inl (''Unrecognized volume mode: '' @ s))"

section \<open>Identifiers\<close>

definition userIDPrefix :: string where "userIDPrefix = ''user_''"
definition clusterIDPrefix :: string where "clusterIDPrefix = ''cluster_''"
definition groupIDPrefix :: string where "groupIDPrefix = ''group_''"
definition instanceIDPrefix :: string where "instanceIDPrefix = ''instance_''"
definition secretIDPrefix :: string where "secretIDPrefix = ''secret_''"
definition volumeIDPrefix :: string where "volumeIDPrefix = ''volume_''"

text \<open>
  \<open>generateRawID\<close> reads the eight bytes of a random 64-bit value in memory order (little
  endian) and writes them in base64, six bits at a time with the last group filled up with
  zeros and no padding characters, then replaces \<open>+\<close> and \<open>/\<close> by \<open>-\<close> and \<open>_\<close>.  The random value
  is the argument of the model.
\<close>

definition memory_bytes :: "64 word \<Rightarrow> nat list" where
  "memory_bytes w = map (\<lambda>i. (unat w div 256 ^ i) mod 256) [0..<8]"

definition byte_bits :: "nat \<Rightarrow> bool list" where
  "byte_bits b = map (\<lambda>i. odd (b div 2 ^ (7 - i))) [0..<8]"

fun bits_value :: "bool list \<Rightarrow> nat" where
  "bits_value [] = 0"
| "bits_value (b # bs) = (if b then 2 ^ length bs else 0) + bits_value bs"

fun sextets :: "bool list \<Rightarrow> nat list" where
  "sextets [] = []"
| "sextets (a # b # c # d # e # f # rest) = bits_value [a, b, c, d, e, f] # sextets rest"
| "sextets rest = [bits_value (take 6 (rest @ replicate 6 False))]"

definition base64_char :: "nat \<Rightarrow> char" where
  "base64_char n =
     (if n < 26 then char_of (65 + n)
      else if n < 52 then char_of (97 + (n - 26))
      else if n < 62 then char_of (48 + (n - 52))
      else if n = 62 then CHR ''+'' else CHR ''/'')"

definition url_safe :: "char \<Rightarrow> char" where
  "url_safe c = (if c = CHR ''+'' then CHR ''-'' else if c = CHR ''/'' then CHR ''_'' else c)"

definition generateRawID :: "64 word \<Rightarrow> string" where
  "generateRawID value =
     map url_safe (map base64_char (sextets (concat (map byte_bits (memory_bytes value)))))"

definition generateUserID :: "64 word \<Rightarrow> string" where
  "generateUserID r = userIDPrefix @ generateRawID r"
definition generateClusterID :: "64 word \<Rightarrow> string" where
  "generateClusterID r = clusterIDPrefix @ generateRawID r"
definition generateGroupID :: "64 word \<Rightarrow> string" where
  "generateGroupID r = groupIDPrefix @ generateRawID r"
definition generateInstanceID :: "64 word \<Rightarrow> string" where
  "generateInstanceID r = instanceIDPrefix @ generateRawID r"
definition generateSecretID :: "64 word \<Rightarrow> string" where
  "generateSecretID r = secretIDPrefix @ generateRawID r"
definition generateVolumeID :: "64 word \<Rightarrow> string" where
  "generateVolumeID r = volumeIDPrefix @ generateRawID r"
definition generateUserToken :: "64 word \<Rightarrow> 64 word \<Rightarrow> string" where
  "generateUserToken r1 r2 = generateRawID r1 @ generateRawID r2"

end
