(* ===== verification/Caches.thy ===== *)
theory Caches
  imports Entities
begin

text \<open>
  The server's in-memory caches: \<open>CacheRecord\<close> (\<open>include/PersistentStore.h\<close>), a value with the
  time after which it must not be used, and \<open>concurrent_multimap\<close>
  (\<open>include/concurrent_multimap.h\<close>), which keeps under each key a set of values with an
  expiration time for the set as a whole.  Both sit on libcuckoo's hash map, a third-party
  container that is modelled by an association list with its documented operations (find,
  upsert, erase, each under the lock of the key's bucket, so each is one atomic step here).
  Iteration order of a hash container is unspecified; the model iterates in list order and no
  property depends on it.

  Times are the steady clock's nanosecond counts, as unbounded integers.
\<close>

section \<open>Cache records\<close>

type_synonym time = int

definition time_min :: time where
  "time_min = - (2 ^ 63)"

definition seconds :: "int \<Rightarrow> time" where
  "seconds n = n * 1000000000"

record 'a CacheRecord =
  cr_record :: 'a
  cr_expirationTime :: time

text \<open>A record made from a value alone counts as expired; one made with a duration is good
  until that long after the present.\<close>

definition cr_stale :: "'a \<Rightarrow> 'a CacheRecord" where
  "cr_stale v = \<lparr>cr_record = v, cr_expirationTime = time_min\<rparr>"

definition cr_until :: "'a \<Rightarrow> time \<Rightarrow> 'a CacheRecord" where
  "cr_until v t = \<lparr>cr_record = v, cr_expirationTime = t\<rparr>"

definition cr_fresh :: "'a \<Rightarrow> time \<Rightarrow> time \<Rightarrow> 'a CacheRecord" where
  "cr_fresh v now validity = \<lparr>cr_record = v, cr_expirationTime = now + validity\<rparr>"

definition cr_expired :: "time \<Rightarrow> 'a CacheRecord \<Rightarrow> bool" where
  "cr_expired now r \<longleftrightarrow> now > cr_expirationTime r"

definition cr_good :: "time \<Rightarrow> 'a CacheRecord \<Rightarrow> bool" where
  "cr_good now r \<longleftrightarrow> now \<le> cr_expirationTime r"

definition cr_eq :: "('a \<Rightarrow> 'a \<Rightarrow> bool) \<Rightarrow> 'a CacheRecord \<Rightarrow> 'a CacheRecord \<Rightarrow> bool" where
  "cr_eq eq r1 r2 \<longleftrightarrow> eq (cr_record r1) (cr_record r2)"

lemma cr_simps [simp]:
  "cr_record (cr_stale v) = v" "cr_expirationTime (cr_stale v) = time_min"
  "cr_record (cr_until v t) = v" "cr_expirationTime (cr_until v t) = t"
  "cr_record (cr_fresh v t d) = v" "cr_expirationTime (cr_fresh v t d) = t + d"
  by (simp_all add: cr_stale_def cr_until_def cr_fresh_def)

lemma cr_good_fresh [simp]: "cr_good t (cr_fresh v t' d) \<longleftrightarrow> t \<le> t' + d"
  by (simp add: cr_good_def)

lemma cr_expired_iff: "cr_expired t r \<longleftrightarrow> \<not> cr_good t r"
  by (auto simp: cr_expired_def cr_good_def)

section \<open>The hash map\<close>

type_synonym ('k, 'v) cuckoo = "('k \<times> 'v) list"

definition cuckoo_find :: "('k, 'v) cuckoo \<Rightarrow> 'k \<Rightarrow> 'v option" where
  "cuckoo_find m k = map_of m k"

definition cuckoo_upsert :: "'k \<Rightarrow> ('v \<Rightarrow> 'v) \<Rightarrow> 'v \<Rightarrow> ('k, 'v) cuckoo \<Rightarrow> ('k, 'v) cuckoo" where
  "cuckoo_upsert k f v m =
     (case map_of m k of None \<Rightarrow> AList.update k v m | Some x \<Rightarrow> AList.update k (f x) m)"

definition cuckoo_insert :: "'k \<Rightarrow> 'v \<Rightarrow> ('k, 'v) cuckoo \<Rightarrow> ('k, 'v) cuckoo" where
  "cuckoo_insert k v m = cuckoo_upsert k (\<lambda>x. x) v m"

definition cuckoo_update_fn :: "'k \<Rightarrow> ('v \<Rightarrow> 'v) \<Rightarrow> ('k, 'v) cuckoo \<Rightarrow> ('k, 'v) cuckoo" where
  "cuckoo_update_fn k f m =
     (case map_of m k of None \<Rightarrow> m | Some x \<Rightarrow> AList.update k (f x) m)"

definition cuckoo_erase :: "'k \<Rightarrow> ('k, 'v) cuckoo \<Rightarrow> ('k, 'v) cuckoo" where
  "cuckoo_erase k m = AList.delete k m"

text \<open>\<open>replaceCacheRecord\<close> of \<open>src/PersistentStore.cpp\<close>: store a record, over an old one if there.\<close>

definition replaceCacheRecord :: "('k, 'v) cuckoo \<Rightarrow> 'k \<Rightarrow> 'v \<Rightarrow> ('k, 'v) cuckoo" where
  "replaceCacheRecord cache key value = cuckoo_upsert key (\<lambda>existing. value) value cache"

lemma cuckoo_find_upsert [simp]:
  "cuckoo_find (cuckoo_upsert k f v m) k' =
     (if k' = k then Some (case cuckoo_find m k of None \<Rightarrow> v | Some x \<Rightarrow> f x)
      else cuckoo_find m k')"
  by (simp add: cuckoo_find_def cuckoo_upsert_def split: option.split)

lemma cuckoo_find_replace [simp]:
  "cuckoo_find (replaceCacheRecord m k v) k' = (if k' = k then Some v else cuckoo_find m k')"
  by (simp add: replaceCacheRecord_def split: option.split)

lemma cuckoo_find_erase [simp]:
  "cuckoo_find (cuckoo_erase k m) k' = (if k' = k then None else cuckoo_find m k')"
  by (simp add: cuckoo_find_def cuckoo_erase_def)

lemma cuckoo_find_update_fn [simp]:
  "cuckoo_find (cuckoo_update_fn k f m) k' =
     (if k' = k then map_option f (cuckoo_find m k) else cuckoo_find m k')"
  by (simp add: cuckoo_find_def cuckoo_update_fn_def split: option.split)

lemma cuckoo_find_Nil [simp]: "cuckoo_find [] k = None"
  by (simp add: cuckoo_find_def)

text \<open>
  The lookup idiom of every single-record cache: \<open>if(cache.find(k,record)) if(record) ...\<close>.
\<close>

definition cached :: "time \<Rightarrow> ('k, 'a CacheRecord) cuckoo \<Rightarrow> 'k \<Rightarrow> 'a option" where
  "cached now m k =
     (case cuckoo_find m k of
        None \<Rightarrow> None
      | Some r \<Rightarrow> if cr_good now r then Some (cr_record r) else None)"

lemma cached_Some_iff:
  "cached now m k = Some v \<longleftrightarrow>
     (\<exists>r. cuckoo_find m k = Some r \<and> cr_good now r \<and> cr_record r = v)"
  by (auto simp: cached_def split: option.splits)

lemma cached_replace:
  "cached now (replaceCacheRecord m k r) k' =
     (if k' = k then if cr_good now r then Some (cr_record r) else None else cached now m k')"
  by (simp add: cached_def)

lemma cached_erase:
  "cached now (cuckoo_erase k m) k' = (if k' = k then None else cached now m k')"
  by (simp add: cached_def)

lemma cached_mono:
  "cached now' m k = Some v \<Longrightarrow> now \<le> now' \<Longrightarrow> cached now m k = Some v"
  by (auto simp: cached_Some_iff cr_good_def)

section \<open>The multimap\<close>

text \<open>
  An \<open>unordered_set\<close> whose notion of equality is \<open>eq\<close>, as a list without \<open>eq\<close>-duplicates.
\<close>

definition us_count :: "('v \<Rightarrow> 'v \<Rightarrow> bool) \<Rightarrow> 'v \<Rightarrow> 'v list \<Rightarrow> bool" where
  "us_count eq v xs = list_ex (eq v) xs"

definition us_erase :: "('v \<Rightarrow> 'v \<Rightarrow> bool) \<Rightarrow> 'v \<Rightarrow> 'v list \<Rightarrow> 'v list" where
  "us_erase eq v xs = filter (\<lambda>x. \<not> eq v x) xs"

definition us_emplace :: "('v \<Rightarrow> 'v \<Rightarrow> bool) \<Rightarrow> 'v \<Rightarrow> 'v list \<Rightarrow> 'v list" where
  "us_emplace eq v xs = (if us_count eq v xs then xs else xs @ [v])"

type_synonym 'v category = "'v list \<times> time"
type_synonym ('k, 'v) multimap = "('k, 'v category) cuckoo"

definition mm_clear :: "('k, 'v) multimap \<Rightarrow> ('k, 'v) multimap" where
  "mm_clear m = []"

definition mm_erase_key :: "'k \<Rightarrow> ('k, 'v) multimap \<Rightarrow> nat \<times> ('k, 'v) multimap" where
  "mm_erase_key k m =
     (case cuckoo_find m k of None \<Rightarrow> (0, m) | Some c \<Rightarrow> (length (fst c), cuckoo_erase k m))"

text \<open>Erasing one value drops the whole category, with its expiration time, once it is empty.\<close>

definition mm_erase ::
  "('v \<Rightarrow> 'v \<Rightarrow> bool) \<Rightarrow> 'k \<Rightarrow> 'v \<Rightarrow> ('k, 'v) multimap \<Rightarrow> nat \<times> ('k, 'v) multimap" where
  "mm_erase eq k v m =
     (case cuckoo_find m k of
        None \<Rightarrow> (0, m)
      | Some c \<Rightarrow>
          (let rest = us_erase eq v (fst c); erased = length (fst c) - length rest
           in (erased, if rest = [] then cuckoo_erase k m
                       else cuckoo_update_fn k (\<lambda>cat. (rest, snd cat)) m)))"

definition mm_find :: "('k, 'v) multimap \<Rightarrow> 'k \<Rightarrow> 'v category" where
  "mm_find m k = (case cuckoo_find m k of None \<Rightarrow> ([], 0) | Some c \<Rightarrow> c)"

definition mm_insert_or_assign ::
  "('v \<Rightarrow> 'v \<Rightarrow> bool) \<Rightarrow> time \<Rightarrow> 'k \<Rightarrow> 'v \<Rightarrow> ('k, 'v) multimap \<Rightarrow> bool \<times> ('k, 'v) multimap" where
  "mm_insert_or_assign eq now key val m =
     ((case cuckoo_find m key of None \<Rightarrow> True | Some c \<Rightarrow> \<not> us_count eq val (fst c)),
      cuckoo_upsert key
        (\<lambda>cat. (us_emplace eq val
                  (if us_count eq val (fst cat) then us_erase eq val (fst cat) else fst cat),
                snd cat))
        ([val], now) m)"

definition mm_insert ::
  "('v \<Rightarrow> 'v \<Rightarrow> bool) \<Rightarrow> time \<Rightarrow> 'k \<Rightarrow> 'v \<Rightarrow> ('k, 'v) multimap \<Rightarrow> bool \<times> ('k, 'v) multimap" where
  "mm_insert eq now key val m =
     ((case cuckoo_find m key of None \<Rightarrow> True | Some c \<Rightarrow> \<not> us_count eq val (fst c)),
      cuckoo_upsert key (\<lambda>cat. (us_emplace eq val (fst cat), snd cat)) ([val], now) m)"

definition mm_update ::
  "('v \<Rightarrow> 'v \<Rightarrow> bool) \<Rightarrow> 'k \<Rightarrow> 'v \<Rightarrow> ('k, 'v) multimap \<Rightarrow> bool \<times> ('k, 'v) multimap" where
  "mm_update eq key val m =
     ((case cuckoo_find m key of None \<Rightarrow> False | Some c \<Rightarrow> us_count eq val (fst c)),
      cuckoo_update_fn key
        (\<lambda>cat. if us_count eq val (fst cat)
               then (us_emplace eq val (us_erase eq val (fst cat)), snd cat) else cat) m)"

definition mm_update_expiration ::
  "'k \<Rightarrow> time \<Rightarrow> ('k, 'v) multimap \<Rightarrow> bool \<times> ('k, 'v) multimap" where
  "mm_update_expiration key t m =
     (cuckoo_find m key \<noteq> None, cuckoo_update_fn key (\<lambda>cat. (fst cat, t)) m)"

definition mm_contains_key :: "('k, 'v) multimap \<Rightarrow> 'k \<Rightarrow> bool" where
  "mm_contains_key m k \<longleftrightarrow> \<not> Option.is_none (cuckoo_find m k)"

definition mm_contains :: "('v \<Rightarrow> 'v \<Rightarrow> bool) \<Rightarrow> ('k, 'v) multimap \<Rightarrow> 'k \<Rightarrow> 'v \<Rightarrow> bool" where
  "mm_contains eq m k v \<longleftrightarrow>
     (case cuckoo_find m k of None \<Rightarrow> False | Some c \<Rightarrow> us_count eq v (fst c))"

definition mm_count_key :: "('k, 'v) multimap \<Rightarrow> 'k \<Rightarrow> nat" where
  "mm_count_key m k = (case cuckoo_find m k of None \<Rightarrow> 0 | Some c \<Rightarrow> length (fst c))"

definition mm_count :: "('v \<Rightarrow> 'v \<Rightarrow> bool) \<Rightarrow> ('k, 'v) multimap \<Rightarrow> 'k \<Rightarrow> 'v \<Rightarrow> nat" where
  "mm_count eq m k v =
     (case cuckoo_find m k of None \<Rightarrow> 0 | Some c \<Rightarrow> if us_count eq v (fst c) then 1 else 0)"

text \<open>The pair lookup fills in the stored copy of the value it is given.\<close>

definition mm_find_value ::
  "('v \<Rightarrow> 'v \<Rightarrow> bool) \<Rightarrow> ('k, 'v) multimap \<Rightarrow> 'k \<Rightarrow> 'v \<Rightarrow> 'v option" where
  "mm_find_value eq m k v =
     (case cuckoo_find m k of None \<Rightarrow> None | Some c \<Rightarrow> List.find (eq v) (fst c))"

text \<open>
  \<open>maybeReturnCachedCategoryMembers\<close> of \<open>src/PersistentStore.cpp\<close>: the unexpired members of a
  category whose own expiration time has not passed; \<open>None\<close> when the macro falls through.
\<close>

definition cachedCategoryMembers ::
  "time \<Rightarrow> ('k, 'a CacheRecord) multimap \<Rightarrow> 'k \<Rightarrow> 'a list option" where
  "cachedCategoryMembers now cache key =
     (let cachedCategory = mm_find cache key
      in if snd cachedCategory > now
         then Some (map cr_record (filter (cr_good now) (fst cachedCategory)))
         else None)"

section \<open>The contract of the multimap\<close>

text \<open>
  What the store relies on, for any container of values under keys: a pair inserted is found,
  a pair deleted is not, and other pairs are left alone.  Values that the container's equality
  identifies share one slot.
\<close>

locale value_eq =
  fixes eq :: "'v \<Rightarrow> 'v \<Rightarrow> bool"
  assumes eq_refl: "eq x x"
    and eq_sym: "eq x y \<Longrightarrow> eq y x"
    and eq_trans: "eq x y \<Longrightarrow> eq y z \<Longrightarrow> eq x z"

locale pair_store =
  fixes eq :: "'v \<Rightarrow> 'v \<Rightarrow> bool"
    and find :: "'m \<Rightarrow> 'k \<Rightarrow> 'v \<Rightarrow> 'v option"
    and ins :: "time \<Rightarrow> 'k \<Rightarrow> 'v \<Rightarrow> 'm \<Rightarrow> 'm"
    and del :: "'k \<Rightarrow> 'v \<Rightarrow> 'm \<Rightarrow> 'm"
  assumes same: "eq v v"
    and find_ins:
      "find (ins t k v m) k' v' = (if k' = k \<and> eq v v' then Some v else find m k' v')"
    and find_del:
      "find (del k v m) k' v' = (if k' = k \<and> eq v v' then None else find m k' v')"
begin

lemma find_ins_same: "find (ins t k v m) k v = Some v"
  by (simp add: find_ins same)

lemma find_del_same: "find (del k v m) k v = None"
  by (simp add: find_del same)

lemma find_ins_other: "k' \<noteq> k \<or> \<not> eq v v' \<Longrightarrow> find (ins t k v m) k' v' = find m k' v'"
  by (auto simp: find_ins)

lemma find_del_other: "k' \<noteq> k \<or> \<not> eq v v' \<Longrightarrow> find (del k v m) k' v' = find m k' v'"
  by (auto simp: find_del)

lemma del_ins: "find (del k v (ins t k v m)) k' v' = find (del k v m) k' v'"
  by (simp add: find_ins find_del)

lemma ins_ins: "find (ins t k v (ins t' k v m)) k' v' = find (ins t k v m) k' v'"
  by (simp add: find_ins)

end

lemma find_filter_other:
  assumes "value_eq eq" and "\<not> eq v v'"
  shows "List.find (eq v') (filter (\<lambda>x. \<not> eq v x) xs) = List.find (eq v') xs"
proof (induction xs)
  case Nil
  then show ?case by simp
next
  case (Cons x xs)
  from assms have "\<not> eq v x" if "eq v' x"
    using that by (meson value_eq.eq_sym value_eq.eq_trans)
  with Cons show ?case by auto
qed

lemma find_filter_same:
  assumes "value_eq eq" and "eq v v'"
  shows "List.find (eq v') (filter (\<lambda>x. \<not> eq v x) xs) = None"
  using assms by (induction xs) (auto dest: value_eq.eq_trans)

lemma find_append: "List.find P (xs @ ys) = (case List.find P xs of None \<Rightarrow> List.find P ys | r \<Rightarrow> r)"
  by (induction xs) auto

lemma find_us_emplace_erase:
  assumes "value_eq eq"
  shows "List.find (eq v')
      (us_emplace eq v (if us_count eq v xs then us_erase eq v xs else xs)) =
    (if eq v v' then Some v else List.find (eq v') xs)"
proof -
  have none: "\<not> us_count eq v (us_erase eq v xs)"
    by (auto simp: us_count_def us_erase_def list_ex_iff)
  have id: "us_erase eq v xs = xs" if "\<not> us_count eq v xs"
    using that by (auto simp: us_count_def us_erase_def list_ex_iff intro: filter_True)
  have sym: "eq v' v = eq v v'"
    using assms by (auto dest: value_eq.eq_sym)
  have "us_emplace eq v (if us_count eq v xs then us_erase eq v xs else xs)
      = us_erase eq v xs @ [v]"
    using none id by (simp add: us_emplace_def)
  then show ?thesis
    using assms
    by (auto simp: find_append us_erase_def sym find_filter_same find_filter_other
        split: option.split)
qed

lemma find_us_erase:
  assumes "value_eq eq"
  shows "List.find (eq v') (us_erase eq v xs) = (if eq v v' then None else List.find (eq v') xs)"
  using assms by (simp add: us_erase_def find_filter_same find_filter_other)

lemma mm_find_value_insert_or_assign:
  assumes "value_eq eq"
  shows "mm_find_value eq (snd (mm_insert_or_assign eq t k v m)) k' v' =
    (if k' = k \<and> eq v v' then Some v else mm_find_value eq m k' v')"
  using assms value_eq.eq_sym [OF assms]
  by (auto simp: mm_find_value_def mm_insert_or_assign_def find_us_emplace_erase
      split: option.split)

lemma mm_find_value_erase:
  assumes "value_eq eq"
  shows "mm_find_value eq (snd (mm_erase eq k v m)) k' v' =
    (if k' = k \<and> eq v v' then None else mm_find_value eq m k' v')"
proof (cases "cuckoo_find m k")
  case None
  then show ?thesis by (auto simp: mm_find_value_def mm_erase_def)
next
  case (Some c)
  note erase = find_us_erase [OF assms, of v' v "fst c"]
  show ?thesis
    using Some erase
    by (cases "us_erase eq v (fst c) = []") (auto simp: mm_find_value_def mm_erase_def Let_def)
qed

lemma value_eq_cr: "value_eq eq \<Longrightarrow> value_eq (cr_eq eq)"
  by unfold_locales (auto simp: cr_eq_def intro: value_eq.eq_refl value_eq.eq_sym
      value_eq.eq_trans)

sublocale value_eq \<subseteq> multimap: pair_store "cr_eq eq" "mm_find_value (cr_eq eq)"
  "\<lambda>t k v m. snd (mm_insert_or_assign (cr_eq eq) t k v m)"
  "\<lambda>k v m. snd (mm_erase (cr_eq eq) k v m)"
proof -
  have eq: "value_eq (cr_eq eq)"
    using value_eq_axioms by (rule value_eq_cr)
  then show "pair_store (cr_eq eq) (mm_find_value (cr_eq eq))
      (\<lambda>t k v m. snd (mm_insert_or_assign (cr_eq eq) t k v m))
      (\<lambda>k v m. snd (mm_erase (cr_eq eq) k v m))"
    by unfold_locales
      (simp_all add: mm_find_value_insert_or_assign mm_find_value_erase
        value_eq.eq_refl)
qed

interpretation str: value_eq "(=) :: string \<Rightarrow> string \<Rightarrow> bool"
  by unfold_locales auto

interpretation grp: value_eq group_eq
  by unfold_locales (auto simp: group_eq_def)

interpretation cls: value_eq cluster_eq
  by unfold_locales (auto simp: cluster_eq_def)

interpretation ins: value_eq instance_eq
  by unfold_locales (auto simp: instance_eq_def)

interpretation sec: value_eq secret_eq
  by unfold_locales (auto simp: secret_eq_def)

interpretation vol: value_eq volume_eq
  by unfold_locales (auto simp: volume_eq_def)

interpretation app: value_eq application_eq
  by unfold_locales (auto simp: application_eq_def)

end
