(* ===== verification/Environment.thy ===== *)
theory Environment
  imports Caches
begin

text \<open>
  What the store uses that is not in this repository.  The database is Amazon's DynamoDB,
  reached through the AWS SDK; cluster configurations go to the file system; application
  catalogues come from the \<open>helm\<close> program.  All of it, with the steady clock, is one record of
  functions over an unknown world \<open>'w\<close>: every call may change the world, and with it the time.
  Nothing here says how the service works.  \<open>dynamo_rw\<close>, \<open>dynamo_conditional\<close> and \<open>clock_ok\<close>
  name the documented behaviour that some properties assume; each such property has a witness
  on the small in-memory service of theory \<open>MemoryService\<close>.

  The second part is the part of \<open>PersistentStore\<close> every operation shares: the world, the
  usage counters, and the helpers \<open>findOrThrow\<close> and \<open>findOrDefault\<close> of
  \<open>include/ServerUtilities.h\<close>.
\<close>

section \<open>Requests to the database\<close>

text \<open>
  The SDK's tagged attribute values.  As its documentation says, an accessor for another type
  returns that type's empty value.
\<close>

datatype AttributeValue = AV_S string | AV_BOOL bool | AV_SS "string list" | AV_B string

fun GetS :: "AttributeValue \<Rightarrow> string" where
  "GetS (AV_S s) = s" | "GetS _ = []"

fun GetBool :: "AttributeValue \<Rightarrow> bool" where
  "GetBool (AV_BOOL b) = b" | "GetBool _ = False"

fun GetSS :: "AttributeValue \<Rightarrow> string list" where
  "GetSS (AV_SS ss) = ss" | "GetSS _ = []"

fun GetB :: "AttributeValue \<Rightarrow> string" where
  "GetB (AV_B b) = b" | "GetB _ = []"

type_synonym item = "(string \<times> AttributeValue) list"

text \<open>Condition, key and filter expressions, with their \<open>#\<close> and \<open>:\<close> placeholders filled in.\<close>

datatype condition =
    Attr_exists string
  | Attr_not_exists string
  | Attr_eq string AttributeValue
  | Attr_begins_with string string
  | Attr_contains string string
  | Cond_and condition condition
  | Cond_or condition condition

fun holds :: "condition \<Rightarrow> item \<Rightarrow> bool" where
  "holds (Attr_exists a) it \<longleftrightarrow> map_of it a \<noteq> None"
| "holds (Attr_not_exists a) it \<longleftrightarrow> map_of it a = None"
| "holds (Attr_eq a v) it \<longleftrightarrow> map_of it a = Some v"
| "holds (Attr_begins_with a p) it \<longleftrightarrow>
     (case map_of it a of Some (AV_S s) \<Rightarrow> begins_with p s | _ \<Rightarrow> False)"
| "holds (Attr_contains a p) it \<longleftrightarrow>
     (case map_of it a of Some (AV_S s) \<Rightarrow> occurs_in p s | _ \<Rightarrow> False)"
| "holds (Cond_and c d) it \<longleftrightarrow> holds c it \<and> holds d it"
| "holds (Cond_or c d) it \<longleftrightarrow> holds c it \<or> holds d it"

record query =
  q_table :: string
  q_index :: "string option"
  q_key :: condition
  q_filter :: "condition option"

text \<open>One page of a scan: the items, and the key to continue from (empty at the end).\<close>

record scan =
  sc_table :: string
  sc_filter :: "condition option"
  sc_startKey :: item

record page =
  pg_items :: "item list"
  pg_lastKey :: item

record command_result =
  cmd_output :: string
  cmd_error :: string
  cmd_status :: int

record 'w env =
  e_now :: "'w \<Rightarrow> time"
  e_put :: "string \<Rightarrow> item \<Rightarrow> 'w \<Rightarrow> unit outcome \<times> 'w"
  e_get :: "string \<Rightarrow> item \<Rightarrow> 'w \<Rightarrow> item outcome \<times> 'w"
  e_update :: "string \<Rightarrow> item \<Rightarrow> item \<Rightarrow> condition option \<Rightarrow> 'w \<Rightarrow> unit outcome \<times> 'w"
  e_delete :: "string \<Rightarrow> item \<Rightarrow> condition option \<Rightarrow> 'w \<Rightarrow> unit outcome \<times> 'w"
  e_query :: "query \<Rightarrow> 'w \<Rightarrow> item list outcome \<times> 'w"
  e_scan :: "scan \<Rightarrow> 'w \<Rightarrow> page outcome \<times> 'w"
  e_writeTemporaryFile :: "string \<Rightarrow> string \<Rightarrow> 'w \<Rightarrow> string outcome \<times> 'w"
  e_runCommand :: "string \<Rightarrow> string list \<Rightarrow> 'w \<Rightarrow> command_result outcome \<times> 'w"
  e_scryptEnc :: "string \<Rightarrow> string \<Rightarrow> nat \<Rightarrow> 'w \<Rightarrow> (int + string) \<times> 'w"
  e_scryptDec :: "string \<Rightarrow> string \<Rightarrow> int + string"

section \<open>Documented behaviour, as hypotheses\<close>

text \<open>
  \<open>view w t k\<close> is the item stored in table \<open>t\<close> under primary key \<open>k\<close>.  Every table of the store
  has a partition key (\<open>ID\<close>, or \<open>accessKey\<close> for monitoring credentials) and a sort key.
\<close>

type_synonym 'w view = "'w \<Rightarrow> string \<Rightarrow> item \<Rightarrow> item option"

definition primary_key :: "item \<Rightarrow> item" where
  "primary_key it = filter (\<lambda>(a, v). a = ''ID'' \<or> a = ''accessKey'' \<or> a = ''sortKey'') it"

definition with_updates :: "item \<Rightarrow> item \<Rightarrow> item" where
  "with_updates upd it = fold (\<lambda>(a, v). AList.update a v) upd it"

definition condition_met :: "condition option \<Rightarrow> item option \<Rightarrow> bool" where
  "condition_met c stored \<longleftrightarrow>
     (case c of None \<Rightarrow> True
      | Some c' \<Rightarrow> holds c' (case stored of None \<Rightarrow> [] | Some it \<Rightarrow> it))"

text \<open>
  Single-item reads and writes: a successful write is what the next read of that item
  returns, a failed call changes nothing, and reads change nothing.  The store never asks for
  strongly consistent reads, so this, like the index law below, describes the service without
  replication lag (as DynamoDB Local, which the tests use, behaves) and failures that are
  reported before anything is written.
\<close>

definition dynamo_rw :: "'w env \<Rightarrow> 'w view \<Rightarrow> bool" where
  "dynamo_rw E view \<longleftrightarrow>
     (\<forall>t it w r w'. e_put E t it w = (r, w') \<longrightarrow>
        view w' = (case r of Inl _ \<Rightarrow> view w
                   | Inr _ \<Rightarrow> (view w)(t := (view w t)(primary_key it \<mapsto> it)))) \<and>
     (\<forall>t k w r w'. e_get E t k w = (r, w') \<longrightarrow>
        view w' = view w \<and>
        (\<forall>it. r = Inr it \<longrightarrow> it = (case view w t k of None \<Rightarrow> [] | Some i \<Rightarrow> i))) \<and>
     (\<forall>t k c w r w'. e_delete E t k c w = (r, w') \<longrightarrow>
        view w' = (case r of Inl _ \<Rightarrow> view w
                   | Inr _ \<Rightarrow> (view w)(t := (view w t)(k := None)))) \<and>
     (\<forall>t k u c w r w'. e_update E t k u c w = (r, w') \<longrightarrow>
        view w' = (case r of Inl _ \<Rightarrow> view w
                   | Inr _ \<Rightarrow> (view w)(t := (view w t)
                       (k \<mapsto> with_updates u (case view w t k of None \<Rightarrow> k | Some i \<Rightarrow> i)))))"

text \<open>A conditional write or delete succeeds only if its condition holds of the stored item.\<close>

definition dynamo_conditional :: "'w env \<Rightarrow> 'w view \<Rightarrow> bool" where
  "dynamo_conditional E view \<longleftrightarrow>
     (\<forall>t k u c w w'. e_update E t k u c w = (Inr (), w') \<longrightarrow> condition_met c (view w t k)) \<and>
     (\<forall>t k c w w'. e_delete E t k c w = (Inr (), w') \<longrightarrow> condition_met c (view w t k))"

text \<open>Queries and scans change nothing, and return (projections of) stored matching items.\<close>

definition projection_of :: "item \<Rightarrow> item \<Rightarrow> bool" where
  "projection_of it stored \<longleftrightarrow> map_of it \<subseteq>\<^sub>m map_of stored"

definition filter_met :: "condition option \<Rightarrow> item \<Rightarrow> bool" where
  "filter_met c it \<longleftrightarrow> (case c of None \<Rightarrow> True | Some c' \<Rightarrow> holds c' it)"

definition dynamo_search :: "'w env \<Rightarrow> 'w view \<Rightarrow> bool" where
  "dynamo_search E view \<longleftrightarrow>
     (\<forall>q w r w'. e_query E q w = (r, w') \<longrightarrow>
        view w' = view w \<and>
        (\<forall>its it. r = Inr its \<longrightarrow> it \<in> set its \<longrightarrow>
          (\<exists>k stored. view w (q_table q) k = Some stored \<and> projection_of it stored \<and>
             holds (q_key q) stored \<and> filter_met (q_filter q) stored))) \<and>
     (\<forall>q w r w'. e_scan E q w = (r, w') \<longrightarrow>
        view w' = view w \<and>
        (\<forall>pg it. r = Inr pg \<longrightarrow> it \<in> set (pg_items pg) \<longrightarrow>
          (\<exists>k. view w (sc_table q) k = Some it \<and> filter_met (sc_filter q) it)))"

text \<open>
  Queries of an index whose projection includes the given attributes.
\<close>

definition dynamo_index ::
  "'w env \<Rightarrow> 'w view \<Rightarrow> string \<Rightarrow> string \<Rightarrow> string set \<Rightarrow> bool" where
  "dynamo_index E view table index attrs \<longleftrightarrow>
     (\<forall>q w r w'. e_query E q w = (r, w') \<longrightarrow> q_table q = table \<longrightarrow> q_index q = Some index \<longrightarrow>
        view w' = view w \<and>
        (\<forall>its it. r = Inr its \<longrightarrow> it \<in> set its \<longrightarrow>
          (\<exists>k stored. view w table k = Some stored \<and> holds (q_key q) stored \<and>
             (\<forall>a\<in>attrs. map_of it a = map_of stored a))))"

text \<open>The clock starts after its epoch and no call sets it back.\<close>

definition clock_ok :: "'w env \<Rightarrow> bool" where
  "clock_ok E \<longleftrightarrow>
     (\<forall>w. 0 \<le> e_now E w) \<and>
     (\<forall>t it w. e_now E w \<le> e_now E (snd (e_put E t it w))) \<and>
     (\<forall>t k w. e_now E w \<le> e_now E (snd (e_get E t k w))) \<and>
     (\<forall>t k u c w. e_now E w \<le> e_now E (snd (e_update E t k u c w))) \<and>
     (\<forall>t k c w. e_now E w \<le> e_now E (snd (e_delete E t k c w))) \<and>
     (\<forall>q w. e_now E w \<le> e_now E (snd (e_query E q w))) \<and>
     (\<forall>q w. e_now E w \<le> e_now E (snd (e_scan E q w))) \<and>
     (\<forall>p c w. e_now E w \<le> e_now E (snd (e_writeTemporaryFile E p c w))) \<and>
     (\<forall>p a w. e_now E w \<le> e_now E (snd (e_runCommand E p a w)))"

section \<open>The store's common part\<close>

record 'w base_store =
  world :: 'w
  cacheHits :: "64 word"
  databaseQueries :: "64 word"
  databaseScans :: "64 word"

definition steady_now :: "'w env \<Rightarrow> ('w, 'z) base_store_scheme \<Rightarrow> time" where
  "steady_now E s = e_now E (world s)"

definition count_hits :: "nat \<Rightarrow> ('w, 'z) base_store_scheme \<Rightarrow> ('w, 'z) base_store_scheme" where
  "count_hits n s = s\<lparr>cacheHits := cacheHits s + of_nat n\<rparr>"

definition count_query :: "('w, 'z) base_store_scheme \<Rightarrow> ('w, 'z) base_store_scheme" where
  "count_query s = s\<lparr>databaseQueries := databaseQueries s + 1\<rparr>"

definition count_scan :: "('w, 'z) base_store_scheme \<Rightarrow> ('w, 'z) base_store_scheme" where
  "count_scan s = s\<lparr>databaseScans := databaseScans s + 1\<rparr>"

text \<open>
  \<open>call f\<close> runs an external call on the world of the store.  Its result is an SDK outcome: a
  value the code inspects, never an exception.
\<close>

definition call :: "('w \<Rightarrow> 'r \<times> 'w) \<Rightarrow> ('w, 'z) base_store_scheme \<Rightarrow> 'r \<times> ('w, 'z) base_store_scheme" where
  "call f s = (case f (world s) of (r, w) \<Rightarrow> (r, s\<lparr>world := w\<rparr>))"

text \<open>External calls that return a value, and those whose failure is an exception.\<close>

definition callM :: "('w \<Rightarrow> 'a \<times> 'w) \<Rightarrow> (('w, 'z) base_store_scheme, 'a) op" where
  "callM f s = (case call f s of (a, s') \<Rightarrow> (Inr a, s'))"

definition callE :: "('w \<Rightarrow> 'a outcome \<times> 'w) \<Rightarrow> (('w, 'z) base_store_scheme, 'a) op" where
  "callE f s = call f s"

text \<open>
  The loop of the listing operations: scan page by page until there is no key to continue from.
  A failed scan makes the whole operation return what it has so far (\<open>Returned\<close>); after the
  last page it goes on (\<open>Finished\<close>).  How many pages there are is up to the service, so the loop
  has a page budget, and \<open>None\<close> says that it was not enough.
\<close>

datatype 'a loop_exit = Returned 'a | Finished 'a

fun scan_loop :: "nat \<Rightarrow> 'w env \<Rightarrow> string \<Rightarrow> condition option \<Rightarrow>
    (item \<Rightarrow> 'a \<Rightarrow> (('w, 'z) base_store_scheme, 'a) op) \<Rightarrow> item \<Rightarrow> 'a \<Rightarrow>
    ('w, 'z) base_store_scheme \<Rightarrow> ('a loop_exit outcome \<times> ('w, 'z) base_store_scheme) option" where
  "scan_loop 0 E table flt body startKey collected s = None"
| "scan_loop (Suc budget) E table flt body startKey collected s =
     (case call (e_scan E \<lparr>sc_table = table, sc_filter = flt, sc_startKey = startKey\<rparr>) s of
        (Inl err, s1) \<Rightarrow> Some (Inr (Returned collected), s1)
      | (Inr result, s1) \<Rightarrow>
          (case foldM body (pg_items result) collected s1 of
             (Inl e, s2) \<Rightarrow> Some (Inl e, s2)
           | (Inr collected', s2) \<Rightarrow>
               if pg_lastKey result \<noteq> []
               then scan_loop budget E table flt body (pg_lastKey result) collected' s2
               else Some (Inr (Finished collected'), s2)))"

definition getStatistics :: "('w, 'z) base_store_scheme \<Rightarrow> string" where
  "getStatistics s =
     ''Cache hits: '' @ show_nat (unat (cacheHits s)) @ ''\<newline>'' @
     ''Database queries: '' @ show_nat (unat (databaseQueries s)) @ ''\<newline>'' @
     ''Database scans: '' @ show_nat (unat (databaseScans s)) @ ''\<newline>''"

definition findOrDefault :: "item \<Rightarrow> string \<Rightarrow> AttributeValue \<Rightarrow> AttributeValue" where
  "findOrDefault container key def =
     (case map_of container key of None \<Rightarrow> def | Some v \<Rightarrow> v)"

definition findOrThrow :: "item \<Rightarrow> string \<Rightarrow> what \<Rightarrow> AttributeValue outcome" where
  "findOrThrow container key err =
     (case map_of container key of None \<Rightarrow> Inl err | Some v \<Rightarrow> Inr v)"

text \<open>
  \<open>item.find(key)->second\<close> without a check: undefined behaviour when the key is missing, made
  visible as an outcome of its own.
\<close>

definition findUnchecked :: "item \<Rightarrow> string \<Rightarrow> AttributeValue outcome" where
  "findUnchecked container key = findOrThrow container key ''undefined behaviour''"

definition missingString :: AttributeValue where
  "missingString = AV_S '' ''"

text \<open>Every entity's own record has its ID as the sort key too.\<close>

definition entity_key :: "string \<Rightarrow> item" where
  "entity_key i = [(''ID'', AV_S i), (''sortKey'', AV_S i)]"

definition row_key :: "string \<Rightarrow> string \<Rightarrow> item" where
  "row_key i sk = [(''ID'', AV_S i), (''sortKey'', AV_S sk)]"

lemma count_simps [simp]:
  "world (count_hits n s) = world s" "world (count_query s) = world s"
  "world (count_scan s) = world s"
  "steady_now E (count_hits n s) = steady_now E s" "steady_now E (count_query s) = steady_now E s"
  "steady_now E (count_scan s) = steady_now E s"
  by (simp_all add: count_hits_def count_query_def count_scan_def steady_now_def)

lemma call_cases:
  assumes "call f s = (r, s')"
  obtains w where "f (world s) = (r, w)" and "s' = s\<lparr>world := w\<rparr>"
  using assms by (auto simp: call_def split: prod.splits)

lemma scan_loop_more_budget:
  "scan_loop n E t flt body k acc s = Some x \<Longrightarrow> n \<le> m \<Longrightarrow>
     scan_loop m E t flt body k acc s = Some x"
proof (induction n arbitrary: m k acc s)
  case 0
  then show ?case by simp
next
  case (Suc n)
  then obtain m' where "m = Suc m'" and "n \<le> m'" by (cases m) auto
  with Suc show ?case by (auto split: prod.splits sum.splits if_splits)
qed

lemma scan_loop_invariant_items:
  assumes body: "\<And>q s0 pg s1 x acc s r s'. sc_table q = t \<Longrightarrow> sc_filter q = flt \<Longrightarrow> I s0 \<Longrightarrow>
      call (e_scan E q) s0 = (Inr pg, s1) \<Longrightarrow> x \<in> set (pg_items pg) \<Longrightarrow> I s \<Longrightarrow>
      body x acc s = (r, s') \<Longrightarrow> I s'"
    and scan: "\<And>q s r s'. I s \<Longrightarrow> call (e_scan E q) s = (r, s') \<Longrightarrow> I s'"
    and "I s" and "scan_loop n E t flt body k acc s = Some (r, s')"
  shows "I s'"
  using assms(3,4)
proof (induction n arbitrary: k acc s)
  case 0
  then show ?case by simp
next
  case (Suc n)
  let ?q = "\<lparr>sc_table = t, sc_filter = flt, sc_startKey = k\<rparr>"
  obtain r1 s1 where page: "call (e_scan E ?q) s = (r1, s1)"
    by (cases "call (e_scan E ?q) s")
  have I1: "I s1" by (rule scan [OF Suc.prems(1) page])
  show ?case
  proof (cases r1)
    case (Inl e)
    with page Suc.prems I1 show ?thesis by simp
  next
    case (Inr pg)
    obtain r2 s2 where fold: "foldM body (pg_items pg) acc s1 = (r2, s2)"
      by (cases "foldM body (pg_items pg) acc s1")
    have I2: "I s2"
      by (rule foldM_invariant [where I = I, OF _ I1 fold])
        (rule body [OF _ _ Suc.prems(1) page [unfolded Inr]], simp_all)
    show ?thesis
      using Suc.prems(2) page Inr fold I2 Suc.IH [OF I2]
      by (auto split: sum.splits if_splits)
  qed
qed

lemma clock_okD:
  assumes "clock_ok E"
  shows "0 \<le> e_now E w"
    and "e_put E t it w = (r1, w') \<Longrightarrow> e_now E w \<le> e_now E w'"
    and "e_get E t k w = (r2, w') \<Longrightarrow> e_now E w \<le> e_now E w'"
    and "e_update E t k u c w = (r1, w') \<Longrightarrow> e_now E w \<le> e_now E w'"
    and "e_delete E t k c w = (r1, w') \<Longrightarrow> e_now E w \<le> e_now E w'"
    and "e_query E q w = (r3, w') \<Longrightarrow> e_now E w \<le> e_now E w'"
    and "e_scan E sc w = (r4, w') \<Longrightarrow> e_now E w \<le> e_now E w'"
    and "e_writeTemporaryFile E p cont w = (r5, w') \<Longrightarrow> e_now E w \<le> e_now E w'"
    and "e_runCommand E p args w = (r6, w') \<Longrightarrow> e_now E w \<le> e_now E w'"
  using assms unfolding clock_ok_def by (metis snd_conv)+

lemma dynamo_getD:
  assumes "dynamo_rw E view" and "e_get E t k w = (r, w')"
  shows "view w' = view w"
    and "r = Inr it \<Longrightarrow> it = (case view w t k of None \<Rightarrow> [] | Some i \<Rightarrow> i)"
  using assms unfolding dynamo_rw_def by metis+

lemma dynamo_putD:
  assumes "dynamo_rw E view" and "e_put E t it w = (r, w')"
  shows "view w' = (case r of Inl _ \<Rightarrow> view w
                   | Inr _ \<Rightarrow> (view w)(t := (view w t)(primary_key it \<mapsto> it)))"
  using assms unfolding dynamo_rw_def by metis

lemma dynamo_deleteD:
  assumes "dynamo_rw E view" and "e_delete E t k c w = (r, w')"
  shows "view w' = (case r of Inl _ \<Rightarrow> view w | Inr _ \<Rightarrow> (view w)(t := (view w t)(k := None)))"
  using assms unfolding dynamo_rw_def by metis

lemma dynamo_updateD:
  assumes "dynamo_rw E view" and "e_update E t k u c w = (r, w')"
  shows "view w' = (case r of Inl _ \<Rightarrow> view w
     | Inr _ \<Rightarrow> (view w)(t := (view w t)
         (k \<mapsto> with_updates u (case view w t k of None \<Rightarrow> k | Some i \<Rightarrow> i))))"
  using assms unfolding dynamo_rw_def by metis

lemma dynamo_indexD:
  assumes "dynamo_index E view table index attrs" and "e_query E q w = (r, w')"
    and "q_table q = table" and "q_index q = Some index"
  shows "view w' = view w"
    and "r = Inr its \<Longrightarrow> it \<in> set its \<Longrightarrow>
      \<exists>k stored. view w table k = Some stored \<and> holds (q_key q) stored \<and>
        (\<forall>a\<in>attrs. map_of it a = map_of stored a)"
  using assms unfolding dynamo_index_def by metis+

lemma scan_page:
  assumes "dynamo_search E view" and "call (e_scan E q) s = (r, s')"
  shows "view (world s') = view (world s)" and "s' = s\<lparr>world := world s'\<rparr>"
    and "r = Inr pg \<Longrightarrow> it \<in> set (pg_items pg) \<Longrightarrow> \<exists>k. view (world s) (sc_table q) k = Some it"
proof -
  obtain w where w: "e_scan E q (world s) = (r, w)" and s': "s' = s\<lparr>world := w\<rparr>"
    using assms(2) by (rule call_cases)
  have *: "view w = view (world s)"
    "r = Inr pg \<Longrightarrow> it \<in> set (pg_items pg) \<Longrightarrow> \<exists>k. view (world s) (sc_table q) k = Some it"
    for pg it
    using assms(1) w unfolding dynamo_search_def by metis+
  from * s' show "view (world s') = view (world s)" "s' = s\<lparr>world := world s'\<rparr>"
    "r = Inr pg \<Longrightarrow> it \<in> set (pg_items pg) \<Longrightarrow> \<exists>k. view (world s) (sc_table q) k = Some it"
    by simp_all
qed

end
