(* ===== verification/Lookup.thy ===== *)
theory Lookup
  imports Environment
begin

text \<open>
  The contract that the store's components keep toward the request handlers: a lookup is
  answered from memory while its cache entry is good, a valid answer leaves a good entry behind,
  a successful write is what the next lookup returns, and a removal leaves no entry.  Handlers
  rely on it when they look the same entity up several times while serving one request.
\<close>

lemma count_hits_add [simp]: "count_hits m (count_hits n s) = count_hits (n + m) s"
  by (simp add: count_hits_def add.assoc)

locale cached_lookup =
  fixes lookup :: "'k \<Rightarrow> (('w, 'z) base_store_scheme, 'v) op"
    and entry :: "('w, 'z) base_store_scheme \<Rightarrow> 'k \<Rightarrow> 'v option"
    and valid :: "'v \<Rightarrow> bool"
  assumes hit: "entry s k = Some v \<Longrightarrow> lookup k s = (Inr v, count_hits 1 s)"
    and counts: "entry (count_hits n s) = entry s"
    and fill: "lookup k s = (Inr v, s') \<Longrightarrow> valid v \<Longrightarrow> entry s' k = Some v"
begin

lemma again: "lookup k s = (Inr v, s') \<Longrightarrow> valid v \<Longrightarrow> lookup k s' = (Inr v, count_hits 1 s')"
  by (rule hit) (rule fill)

lemma hits: "entry s k = Some v \<Longrightarrow> mapM lookup (replicate n k) s = (Inr (replicate n v), count_hits n s)"
proof (induction n arbitrary: s)
  case 0
  then show ?case by (simp add: count_hits_def)
next
  case (Suc n)
  have "entry (count_hits 1 s) k = Some v" using Suc.prems by (simp only: counts)
  from Suc.IH [OF this] have "mapM lookup (replicate n k) (count_hits 1 s) =
      (Inr (replicate n v), count_hits (Suc n) s)"
    by simp
  with hit [OF Suc.prems] show ?case by simp
qed

lemma again_many:
  "lookup k s = (Inr v, s') \<Longrightarrow> valid v \<Longrightarrow>
     mapM lookup (replicate n k) s' = (Inr (replicate n v), count_hits n s')"
  by (rule hits) (rule fill)

end

locale stored_entity = cached_lookup lookup entry valid
  for lookup :: "'k \<Rightarrow> (('w, 'z) base_store_scheme, 'v) op"
    and entry :: "('w, 'z) base_store_scheme \<Rightarrow> 'k \<Rightarrow> 'v option"
    and valid :: "'v \<Rightarrow> bool" +
  fixes put :: "'v \<Rightarrow> (('w, 'z) base_store_scheme, bool) op"
    and key_of :: "'v \<Rightarrow> 'k"
    and remove :: "'k \<Rightarrow> (('w, 'z) base_store_scheme, bool) op"
  assumes put_fills: "put v s = (Inr True, s') \<Longrightarrow> entry s' (key_of v) = Some v"
    and remove_clears: "remove k s = (r, s') \<Longrightarrow> entry s' k = None"
begin

lemma read_your_write:
  "put v s = (Inr True, s') \<Longrightarrow> lookup (key_of v) s' = (Inr v, count_hits 1 s')"
  by (rule hit) (rule put_fills)

lemma put_then_hits:
  "put v s = (Inr True, s') \<Longrightarrow>
     mapM lookup (replicate n (key_of v)) s' = (Inr (replicate n v), count_hits n s')"
  by (rule hits) (rule put_fills)

lemma removed_not_cached: "remove k s = (r, s') \<Longrightarrow> entry (count_hits n s') k = None"
  by (simp only: remove_clears counts)

end

lemma call_world: "call f s = (r, s') \<Longrightarrow> \<exists>w. s' = s\<lparr>world := w\<rparr>"
  by (auto elim: call_cases)

end
