(* ===== verification/UserStore.thy ===== *)
theory UserStore
  imports Environment
begin

text \<open>
  User accounts in \<open>PersistentStore\<close> (\<open>src/PersistentStore.cpp\<close>): the users table with its three
  single-record caches (by ID, access token and Globus ID), the cache of group members, and the
  operations on accounts.  Log output and tracing spans have no effect on the results and are
  left out.
\<close>

section \<open>State\<close>

definition userTableName :: string where "userTableName = ''SLATE_users''"

definition userCacheValidity :: time where "userCacheValidity = seconds (5 * 60)"

record 'w user_store = "'w base_store" +
  userCacheExpirationTime :: time
  userCache :: "(string, User CacheRecord) cuckoo"
  userByTokenCache :: "(string, User CacheRecord) cuckoo"
  userByGlobusIDCache :: "(string, User CacheRecord) cuckoo"
  userByGroupCache :: "(string, string CacheRecord) multimap"

text \<open>The three \<open>replaceCacheRecord\<close> calls that follow every successful read or write.\<close>

definition cache_user ::
  "'w env \<Rightarrow> User \<Rightarrow> ('w, 'z) user_store_scheme \<Rightarrow> ('w, 'z) user_store_scheme" where
  "cache_user E user s =
     (let record = cr_fresh user (steady_now E s) userCacheValidity
      in s\<lparr>userCache := replaceCacheRecord (userCache s) (u_id user) record,
           userByTokenCache := replaceCacheRecord (userByTokenCache s) (u_token user) record,
           userByGlobusIDCache :=
             replaceCacheRecord (userByGlobusIDCache s) (u_globusID user) record\<rparr>)"

section \<open>Operations\<close>

definition user_item :: "User \<Rightarrow> item" where
  "user_item user =
     [(''ID'', AV_S (u_id user)),
      (''sortKey'', AV_S (u_id user)),
      (''name'', AV_S (u_name user)),
      (''globusID'', AV_S (u_globusID user)),
      (''token'', AV_S (u_token user)),
      (''email'', AV_S (u_email user)),
      (''phone'', AV_S (u_phone user)),
      (''institution'', AV_S (u_institution user)),
      (''admin'', AV_BOOL (u_admin user))]"

definition addUser :: "'w env \<Rightarrow> User \<Rightarrow> (('w, 'z) user_store_scheme, bool) op" where
  "addUser E user s =
     (case call (e_put E userTableName (user_item user)) s of
        (Inl err, s1) \<Rightarrow> (Inr False, s1)
      | (Inr _, s1) \<Rightarrow> (Inr True, cache_user E user s1))"

definition user_of_ID_item :: "string \<Rightarrow> item \<Rightarrow> User outcome" where
  "user_of_ID_item uid it =
     bindE (findOrThrow it ''name'' ''user record missing name attribute'') (\<lambda>name.
     bindE (findOrThrow it ''email'' ''user record missing email attribute'') (\<lambda>email.
     bindE (findOrThrow it ''token'' ''user record missing token attribute'') (\<lambda>token.
     bindE (findOrThrow it ''globusID'' ''user record missing globusID attribute'') (\<lambda>globusID.
     bindE (findOrThrow it ''admin'' ''user record missing admin attribute'') (\<lambda>admin.
     Inr \<lparr>u_valid = True, u_id = uid, u_name = GetS name, u_email = GetS email,
          u_phone = GetS (findOrDefault it ''phone'' missingString),
          u_institution = GetS (findOrDefault it ''institution'' missingString),
          u_token = GetS token, u_globusID = GetS globusID, u_admin = GetBool admin\<rparr>)))))"

definition getUser :: "'w env \<Rightarrow> string \<Rightarrow> (('w, 'z) user_store_scheme, User) op" where
  "getUser E uid s =
     (case cached (steady_now E s) (userCache s) uid of
        Some user \<Rightarrow> (Inr user, count_hits 1 s)
      | None \<Rightarrow>
          (case call (e_get E userTableName (entity_key uid)) (count_query s) of
             (Inl err, s1) \<Rightarrow> (Inr no_user, s1)
           | (Inr it, s1) \<Rightarrow>
               if it = [] then (Inr no_user, s1)
               else (case user_of_ID_item uid it of
                       Inl e \<Rightarrow> (Inl e, s1)
                     | Inr user \<Rightarrow> (Inr user, cache_user E user s1))))"

definition user_of_token_item :: "string \<Rightarrow> item \<Rightarrow> User outcome" where
  "user_of_token_item token it =
     bindE (findOrThrow it ''ID'' ''user record missing ID attribute'') (\<lambda>uid.
     bindE (findOrThrow it ''name'' ''user record missing name attribute'') (\<lambda>name.
     bindE (findOrThrow it ''globusID'' ''user record missing globusID attribute'') (\<lambda>globusID.
     bindE (findOrThrow it ''email'' ''user record missing email attribute'') (\<lambda>email.
     bindE (findOrThrow it ''admin'' ''user record missing admin attribute'') (\<lambda>admin.
     Inr \<lparr>u_valid = True, u_id = GetS uid, u_name = GetS name, u_email = GetS email,
          u_phone = GetS (findOrDefault it ''phone'' missingString),
          u_institution = GetS (findOrDefault it ''institution'' missingString),
          u_token = token, u_globusID = GetS globusID, u_admin = GetBool admin\<rparr>)))))"

definition findUserByToken :: "'w env \<Rightarrow> string \<Rightarrow> (('w, 'z) user_store_scheme, User) op" where
  "findUserByToken E token s =
     (case cached (steady_now E s) (userByTokenCache s) token of
        Some user \<Rightarrow> (Inr user, count_hits 1 s)
      | None \<Rightarrow>
          (case call (e_query E \<lparr>q_table = userTableName, q_index = Some ''ByToken'',
                  q_key = Attr_eq ''token'' (AV_S token), q_filter = None\<rparr>) (count_query s) of
             (Inl err, s1) \<Rightarrow> (Inr no_user, s1)
           | (Inr [], s1) \<Rightarrow> (Inr no_user, s1)
           | (Inr [it], s1) \<Rightarrow>
               (case user_of_token_item token it of
                  Inl e \<Rightarrow> (Inl e, s1)
                | Inr user \<Rightarrow> (Inr user, cache_user E user s1))
           | (Inr _, s1) \<Rightarrow>
               (Inl (''Multiple user records are associated with token '' @ token @ ''!''), s1)))"

definition user_of_globusID_item :: "string \<Rightarrow> item \<Rightarrow> User outcome" where
  "user_of_globusID_item globusID it =
     bindE (findOrThrow it ''ID'' ''user record missing name attribute'') (\<lambda>uid.
     bindE (findOrThrow it ''name'' ''user record missing name attribute'') (\<lambda>name.
     bindE (findOrThrow it ''token'' ''user record missing token attribute'') (\<lambda>token.
     bindE (findOrThrow it ''email'' ''user record missing email attribute'') (\<lambda>email.
     bindE (findOrThrow it ''admin'' ''user record missing admin attribute'') (\<lambda>admin.
     Inr \<lparr>u_valid = True, u_id = GetS uid, u_name = GetS name, u_email = GetS email,
          u_phone = GetS (findOrDefault it ''phone'' missingString),
          u_institution = GetS (findOrDefault it ''institution'' missingString),
          u_token = GetS token, u_globusID = globusID, u_admin = GetBool admin\<rparr>)))))"

definition findUserByGlobusID ::
  "'w env \<Rightarrow> string \<Rightarrow> (('w, 'z) user_store_scheme, User) op" where
  "findUserByGlobusID E globusID s =
     (case cached (steady_now E s) (userByGlobusIDCache s) globusID of
        Some user \<Rightarrow> (Inr user, count_hits 1 s)
      | None \<Rightarrow>
          (case call (e_query E \<lparr>q_table = userTableName, q_index = Some ''ByGlobusID'',
                  q_key = Attr_eq ''globusID'' (AV_S globusID), q_filter = None\<rparr>)
                  (count_query s) of
             (Inl err, s1) \<Rightarrow> (Inr no_user, s1)
           | (Inr [], s1) \<Rightarrow> (Inr no_user, s1)
           | (Inr [it], s1) \<Rightarrow>
               (case user_of_globusID_item globusID it of
                  Inl e \<Rightarrow> (Inl e, s1)
                | Inr user \<Rightarrow> (Inr user, cache_user E user s1))
           | (Inr _, s1) \<Rightarrow>
               (Inl (''Multiple user records are associated with Globus ID '' @ globusID @ ''!''),
                s1)))"

definition user_updates :: "User \<Rightarrow> item" where
  "user_updates user =
     [(''name'', AV_S (u_name user)),
      (''globusID'', AV_S (u_globusID user)),
      (''token'', AV_S (u_token user)),
      (''email'', AV_S (u_email user)),
      (''phone'', AV_S (u_phone user)),
      (''institution'', AV_S (u_institution user)),
      (''admin'', AV_BOOL (u_admin user))]"

definition updateUser :: "'w env \<Rightarrow> User \<Rightarrow> User \<Rightarrow> (('w, 'z) user_store_scheme, bool) op" where
  "updateUser E user oldUser s =
     (case call (e_update E userTableName (entity_key (u_id user)) (user_updates user) None) s of
        (Inl err, s1) \<Rightarrow> (Inr False, s1)
      | (Inr _, s1) \<Rightarrow>
          (let record = cr_fresh user (steady_now E s1) userCacheValidity;
               s2 = s1\<lparr>userCache := replaceCacheRecord (userCache s1) (u_id user) record\<rparr>;
               s3 = (if u_token oldUser \<noteq> u_token user
                     then s2\<lparr>userByTokenCache :=
                            cuckoo_erase (u_token oldUser) (userByTokenCache s2)\<rparr>
                     else s2)
           in (Inr True,
               s3\<lparr>userByTokenCache := replaceCacheRecord (userByTokenCache s3) (u_token user) record,
                  userByGlobusIDCache :=
                    replaceCacheRecord (userByGlobusIDCache s3) (u_globusID user) record\<rparr>)))"

text \<open>The cache entries go first, whether or not the deletion then succeeds.\<close>

definition uncache_user ::
  "string \<Rightarrow> ('w, 'z) user_store_scheme \<Rightarrow> ('w, 'z) user_store_scheme" where
  "uncache_user uid s =
     (let s1 = (case cuckoo_find (userCache s) uid of
                  None \<Rightarrow> s
                | Some record \<Rightarrow>
                    s\<lparr>userByTokenCache :=
                        cuckoo_erase (u_token (cr_record record)) (userByTokenCache s),
                      userByGlobusIDCache :=
                        cuckoo_erase (u_globusID (cr_record record)) (userByGlobusIDCache s)\<rparr>)
      in s1\<lparr>userCache := cuckoo_erase uid (userCache s1)\<rparr>)"

definition removeUser :: "'w env \<Rightarrow> string \<Rightarrow> (('w, 'z) user_store_scheme, bool) op" where
  "removeUser E uid s =
     (case call (e_delete E userTableName (entity_key uid) None) (uncache_user uid s) of
        (Inl err, s1) \<Rightarrow> (Inr False, s1)
      | (Inr _, s1) \<Rightarrow> (Inr True, s1))"

definition user_of_scan_item :: "item \<Rightarrow> User outcome" where
  "user_of_scan_item it =
     bindE (findUnchecked it ''ID'') (\<lambda>uid.
     bindE (findUnchecked it ''globusID'') (\<lambda>globusID.
     bindE (findUnchecked it ''token'') (\<lambda>token.
     bindE (findUnchecked it ''name'') (\<lambda>name.
     bindE (findUnchecked it ''email'') (\<lambda>email.
     bindE (findUnchecked it ''admin'') (\<lambda>admin.
     Inr \<lparr>u_valid = True, u_id = GetS uid, u_name = GetS name, u_email = GetS email,
          u_phone = GetS (findOrDefault it ''phone'' missingString),
          u_institution = GetS (findOrDefault it ''institution'' missingString),
          u_token = GetS token, u_globusID = GetS globusID, u_admin = GetBool admin\<rparr>))))))"

definition cache_user_by_ID ::
  "'w env \<Rightarrow> User \<Rightarrow> ('w, 'z) user_store_scheme \<Rightarrow> ('w, 'z) user_store_scheme" where
  "cache_user_by_ID E user s =
     s\<lparr>userCache := replaceCacheRecord (userCache s) (u_id user)
         (cr_fresh user (steady_now E s) userCacheValidity)\<rparr>"

definition listUsers_body ::
  "'w env \<Rightarrow> item \<Rightarrow> User list \<Rightarrow> (('w, 'z) user_store_scheme, User list) op" where
  "listUsers_body E it collected s =
     (case user_of_scan_item it of
        Inl e \<Rightarrow> (Inl e, s)
      | Inr user \<Rightarrow> (Inr (collected @ [user]), cache_user_by_ID E user s))"

definition listUsers :: "'w env \<Rightarrow> nat \<Rightarrow> ('w, 'z) user_store_scheme \<Rightarrow>
    (User list outcome \<times> ('w, 'z) user_store_scheme) option" where
  "listUsers E budget s =
     (if userCacheExpirationTime s > steady_now E s
      then Some (Inr (map (cr_record \<circ> snd) (userCache s)), count_hits (length (userCache s)) s)
      else case scan_loop budget E userTableName (Some (Attr_not_exists ''groupID''))
                  (listUsers_body E) [] [] (count_scan s) of
             None \<Rightarrow> None
           | Some (Inl e, s1) \<Rightarrow> Some (Inl e, s1)
           | Some (Inr (Returned collected), s1) \<Rightarrow> Some (Inr collected, s1)
           | Some (Inr (Finished collected), s1) \<Rightarrow>
               Some (Inr collected,
                 s1\<lparr>userCacheExpirationTime := steady_now E s1 + userCacheValidity\<rparr>))"

definition cached_member :: "'w env \<Rightarrow> string CacheRecord \<Rightarrow> (('w, 'z) user_store_scheme, User) op" where
  "cached_member E record s = getUser E (cr_record record) (count_hits 1 s)"

definition queried_member ::
  "'w env \<Rightarrow> string \<Rightarrow> item \<Rightarrow> User list \<Rightarrow> (('w, 'z) user_store_scheme, User list) op" where
  "queried_member E gid it users =
     bindM (\<lambda>s. (findOrThrow it ''ID'' ''User record missing ID attribute'', s)) (\<lambda>uid.
     bindM (getUser E (GetS uid)) (\<lambda>user s.
       (Inr (users @ [user]),
        (let s1 = cache_user_by_ID E user s;
             groupRecord = cr_fresh (u_id user) (steady_now E s1) userCacheValidity
         in s1\<lparr>userByGroupCache := snd (mm_insert_or_assign (cr_eq (=)) (steady_now E s1) gid
                  groupRecord (userByGroupCache s1))\<rparr>))))"

definition listUsersByGroup ::
  "'w env \<Rightarrow> string \<Rightarrow> (('w, 'z) user_store_scheme, User list) op" where
  "listUsersByGroup E gid s =
     (let cat = mm_find (userByGroupCache s) gid
      in if snd cat > steady_now E s
         then mapM (cached_member E) (fst cat) s
         else
           (case call (e_query E \<lparr>q_table = userTableName, q_index = Some ''ByGroup'',
                   q_key = Attr_eq ''groupID'' (AV_S gid), q_filter = None\<rparr>) (count_query s) of
              (Inl err, s1) \<Rightarrow> (Inr [], s1)
            | (Inr items, s1) \<Rightarrow>
                if items = [] then (Inr [], s1)
                else
                  (case foldM (queried_member E gid) items [] s1 of
                     (Inl e, s2) \<Rightarrow> (Inl e, s2)
                   | (Inr users, s2) \<Rightarrow>
                       (Inr users,
                        s2\<lparr>userByGroupCache := snd (mm_update_expiration gid
                             (steady_now E s2 + userCacheValidity) (userByGroupCache s2))\<rparr>))))"

text \<open>No token (a null pointer) authenticates nobody.\<close>

definition authenticateUser ::
  "'w env \<Rightarrow> string option \<Rightarrow> (('w, 'z) user_store_scheme, User) op" where
  "authenticateUser E token s =
     (case token of None \<Rightarrow> (Inr no_user, s) | Some t \<Rightarrow> findUserByToken E t s)"

end
