(* ===== verification/GroupStore.thy ===== *)
theory GroupStore
  imports UserStore
begin

text \<open>
  Groups and group membership in \<open>PersistentStore\<close> (\<open>src/PersistentStore.cpp\<close>): the groups
  table with its caches by ID, by name and by member, the membership rows of the users table,
  and \<open>normalizeGroupID\<close>, with which every other component accepts a group's name in place of
  its ID.
\<close>

section \<open>State\<close>

definition groupTableName :: string where "groupTableName = ''SLATE_groups''"

definition groupCacheValidity :: time where "groupCacheValidity = seconds (30 * 60)"

definition wildcard :: string where "wildcard = ''*''"
definition wildcardName :: string where "wildcardName = ''<all>''"

record 'w group_store = "'w user_store" +
  groupCacheExpirationTime :: time
  groupCache :: "(string, Group CacheRecord) cuckoo"
  groupByNameCache :: "(string, Group CacheRecord) cuckoo"
  groupByUserCache :: "(string, Group CacheRecord) multimap"

definition cache_group ::
  "'w env \<Rightarrow> Group \<Rightarrow> ('w, 'z) group_store_scheme \<Rightarrow> ('w, 'z) group_store_scheme" where
  "cache_group E g s =
     (let record = cr_fresh g (steady_now E s) groupCacheValidity
      in s\<lparr>groupCache := replaceCacheRecord (groupCache s) (g_id g) record,
           groupByNameCache := replaceCacheRecord (groupByNameCache s) (g_name g) record\<rparr>)"

section \<open>Looking groups up\<close>

definition group_details :: "string \<Rightarrow> string \<Rightarrow> item \<Rightarrow> Group" where
  "group_details gid name it =
     \<lparr>g_valid = True, g_id = gid, g_name = name,
      g_email = GetS (findOrDefault it ''email'' missingString),
      g_phone = GetS (findOrDefault it ''phone'' missingString),
      g_scienceField = GetS (findOrDefault it ''scienceField'' missingString),
      g_description = GetS (findOrDefault it ''description'' missingString)\<rparr>"

definition group_of_ID_item :: "string \<Rightarrow> item \<Rightarrow> Group outcome" where
  "group_of_ID_item gid it =
     bindE (findOrThrow it ''name'' ''Group record missing name attribute'') (\<lambda>name.
     Inr (group_details gid (GetS name) it))"

definition findGroupByID :: "'w env \<Rightarrow> string \<Rightarrow> (('w, 'z) group_store_scheme, Group) op" where
  "findGroupByID E gid s =
     (case cached (steady_now E s) (groupCache s) gid of
        Some g \<Rightarrow> (Inr g, count_hits 1 s)
      | None \<Rightarrow>
          (case call (e_get E groupTableName (entity_key gid)) (count_query s) of
             (Inl err, s1) \<Rightarrow> (Inr no_group, s1)
           | (Inr it, s1) \<Rightarrow>
               if it = [] then (Inr no_group, s1)
               else (case group_of_ID_item gid it of
                       Inl e \<Rightarrow> (Inl e, s1)
                     | Inr g \<Rightarrow> (Inr g, cache_group E g s1))))"

definition group_of_name_item :: "string \<Rightarrow> item \<Rightarrow> Group outcome" where
  "group_of_name_item name it =
     bindE (findOrThrow it ''ID'' ''Group record missing ID attribute'') (\<lambda>gid.
     Inr (group_details (GetS gid) name it))"

definition findGroupByName :: "'w env \<Rightarrow> string \<Rightarrow> (('w, 'z) group_store_scheme, Group) op" where
  "findGroupByName E name s =
     (case cached (steady_now E s) (groupByNameCache s) name of
        Some g \<Rightarrow> (Inr g, count_hits 1 s)
      | None \<Rightarrow>
          (case call (e_query E \<lparr>q_table = groupTableName, q_index = Some ''ByName'',
                  q_key = Attr_eq ''name'' (AV_S name), q_filter = None\<rparr>) (count_query s) of
             (Inl err, s1) \<Rightarrow> (Inr no_group, s1)
           | (Inr [], s1) \<Rightarrow> (Inr no_group, s1)
           | (Inr [it], s1) \<Rightarrow>
               (case group_of_name_item name it of
                  Inl e \<Rightarrow> (Inl e, s1)
                | Inr g \<Rightarrow> (Inr g, cache_group E g s1))
           | (Inr _, s1) \<Rightarrow>
               (Inl (''Group name '' @ [CHR 34] @ name @ [CHR 34] @ '' is not unique!''), s1)))"

definition getGroup :: "'w env \<Rightarrow> string \<Rightarrow> (('w, 'z) group_store_scheme, Group) op" where
  "getGroup E idOrName =
     (if begins_with groupIDPrefix idOrName then findGroupByID E idOrName
      else findGroupByName E idOrName)"

text \<open>
  The C++ function changes its argument in place and says whether it could; the model returns
  the normalized ID, or \<open>None\<close> for \<open>false\<close>.
\<close>

definition normalizeGroupID ::
  "'w env \<Rightarrow> string \<Rightarrow> bool \<Rightarrow> (('w, 'z) group_store_scheme, string option) op" where
  "normalizeGroupID E groupID allowWildcard s =
     (if allowWildcard \<and> groupID = wildcard then (Inr (Some groupID), s)
      else if allowWildcard \<and> groupID = wildcardName then (Inr (Some wildcard), s)
      else if \<not> begins_with groupIDPrefix groupID then
        (case findGroupByName E groupID s of
           (Inl e, s1) \<Rightarrow> (Inl e, s1)
         | (Inr g, s1) \<Rightarrow> (Inr (if g_valid g then Some (g_id g) else None), s1))
      else (Inr (Some groupID), s))"

section \<open>Group records\<close>

definition group_item :: "Group \<Rightarrow> item" where
  "group_item g =
     [(''ID'', AV_S (g_id g)),
      (''sortKey'', AV_S (g_id g)),
      (''name'', AV_S (g_name g)),
      (''email'', AV_S (g_email g)),
      (''phone'', AV_S (g_phone g)),
      (''scienceField'', AV_S (g_scienceField g)),
      (''description'', AV_S (g_description g))]"

definition addGroup :: "'w env \<Rightarrow> Group \<Rightarrow> (('w, 'z) group_store_scheme, bool) op" where
  "addGroup E g s =
     (if g_email g = [] then (Inl ''Group email must not be empty because Dynamo'', s)
      else if g_phone g = [] then (Inl ''Group phone must not be empty because Dynamo'', s)
      else if g_scienceField g = []
        then (Inl ''Group scienceField must not be empty because Dynamo'', s)
      else if g_description g = []
        then (Inl ''Group description must not be empty because Dynamo'', s)
      else
        (case call (e_put E groupTableName (group_item g)) s of
           (Inl err, s1) \<Rightarrow> (Inr False, s1)
         | (Inr _, s1) \<Rightarrow> (Inr True, cache_group E g s1)))"

definition group_updates :: "Group \<Rightarrow> item" where
  "group_updates g =
     [(''name'', AV_S (g_name g)),
      (''email'', AV_S (g_email g)),
      (''phone'', AV_S (g_phone g)),
      (''scienceField'', AV_S (g_scienceField g)),
      (''description'', AV_S (g_description g))]"

definition updateGroup :: "'w env \<Rightarrow> Group \<Rightarrow> (('w, 'z) group_store_scheme, bool) op" where
  "updateGroup E g s =
     (case call (e_update E groupTableName (entity_key (g_id g)) (group_updates g) None) s of
        (Inl err, s1) \<Rightarrow> (Inr False, s1)
      | (Inr _, s1) \<Rightarrow> (Inr True, cache_group E g s1))"

definition getMembersOfGroup ::
  "'w env \<Rightarrow> string \<Rightarrow> (('w, 'z) user_store_scheme, string list) op" where
  "getMembersOfGroup E groupID s =
     (case call (e_query E \<lparr>q_table = userTableName, q_index = Some ''ByGroup'',
             q_key = Attr_eq ''groupID'' (AV_S groupID), q_filter = None\<rparr>) (count_query s) of
        (Inl err, s1) \<Rightarrow> (Inr [], s1)
      | (Inr items, s1) \<Rightarrow>
          mapM (\<lambda>it s. (bindE (findUnchecked it ''ID'') (\<lambda>v. Inr (GetS v)), s)) items s1)"

section \<open>Membership\<close>

definition membership_sortKey :: "string \<Rightarrow> string \<Rightarrow> string" where
  "membership_sortKey uid gid = uid @ '':'' @ gid"

definition membership_item :: "string \<Rightarrow> string \<Rightarrow> item" where
  "membership_item uid gid =
     [(''ID'', AV_S uid),
      (''sortKey'', AV_S (membership_sortKey uid gid)),
      (''groupID'', AV_S gid)]"

definition cache_membership ::
  "'w env \<Rightarrow> string \<Rightarrow> string \<Rightarrow> ('w, 'z) user_store_scheme \<Rightarrow> ('w, 'z) user_store_scheme" where
  "cache_membership E uid gid s =
     s\<lparr>userByGroupCache := snd (mm_insert_or_assign (cr_eq (=)) (steady_now E s) gid
         (cr_fresh uid (steady_now E s) userCacheValidity) (userByGroupCache s))\<rparr>"

definition cache_group_of_user ::
  "'w env \<Rightarrow> string \<Rightarrow> Group \<Rightarrow> ('w, 'z) group_store_scheme \<Rightarrow> ('w, 'z) group_store_scheme" where
  "cache_group_of_user E uid g s =
     s\<lparr>groupByUserCache := snd (mm_insert_or_assign (cr_eq group_eq) (steady_now E s) uid
         (cr_fresh g (steady_now E s) groupCacheValidity) (groupByUserCache s))\<rparr>"

definition put_membership ::
  "'w env \<Rightarrow> string \<Rightarrow> string \<Rightarrow> Group \<Rightarrow> User \<Rightarrow> (('w, 'z) group_store_scheme, bool) op" where
  "put_membership E uID groupID g user s =
     (case call (e_put E userTableName (membership_item uID groupID)) s of
        (Inl err, s1) \<Rightarrow> (Inr False, s1)
      | (Inr _, s1) \<Rightarrow>
          (Inr True, cache_group_of_user E (u_id user) g (cache_membership E uID groupID s1)))"

definition addUserToGroup ::
  "'w env \<Rightarrow> string \<Rightarrow> string \<Rightarrow> (('w, 'z) group_store_scheme, bool) op" where
  "addUserToGroup E uID groupID =
     bindM (normalizeGroupID E groupID False) (\<lambda>normalized.
       case normalized of
         None \<Rightarrow> ret False
       | Some gid \<Rightarrow>
           bindM (findGroupByID E gid) (\<lambda>g.
           bindM (getUser E uID) (\<lambda>user.
             put_membership E uID gid g user)))"

definition uncache_membership ::
  "string \<Rightarrow> string \<Rightarrow> ('w, 'z) group_store_scheme \<Rightarrow> ('w, 'z) group_store_scheme" where
  "uncache_membership uID groupID s =
     (let s1 = s\<lparr>userByGroupCache :=
                  snd (mm_erase (cr_eq (=)) groupID (cr_stale uID) (userByGroupCache s))\<rparr>
      in case cuckoo_find (groupCache s1) groupID of
           None \<Rightarrow> s1
         | Some record \<Rightarrow>
             s1\<lparr>groupByUserCache :=
                  snd (mm_erase (cr_eq group_eq) uID record (groupByUserCache s1))\<rparr>)"

definition removeUserFromGroup ::
  "'w env \<Rightarrow> string \<Rightarrow> string \<Rightarrow> (('w, 'z) group_store_scheme, bool) op" where
  "removeUserFromGroup E uID groupID =
     bindM (normalizeGroupID E groupID False) (\<lambda>normalized.
       case normalized of
         None \<Rightarrow> ret False
       | Some gid \<Rightarrow> (\<lambda>s.
           (case call (e_delete E userTableName (row_key uID (membership_sortKey uID gid)) None)
                   (uncache_membership uID gid s) of
              (Inl err, s1) \<Rightarrow> (Inr False, s1)
            | (Inr _, s1) \<Rightarrow> (Inr True, s1))))"

definition groupIDs_of_items :: "item list \<Rightarrow> string list" where
  "groupIDs_of_items items =
     map (\<lambda>it. GetS (the (map_of it ''groupID'')))
       (filter (\<lambda>it. map_of it ''groupID'' \<noteq> None) items)"

definition group_name_for :: "'w env \<Rightarrow> string \<Rightarrow> (('w, 'z) group_store_scheme, string) op" where
  "group_name_for E groupStr = bindM (findGroupByID E groupStr) (\<lambda>g. ret (g_name g))"

definition getUserGroupMemberships ::
  "'w env \<Rightarrow> string \<Rightarrow> bool \<Rightarrow> (('w, 'z) group_store_scheme, string list) op" where
  "getUserGroupMemberships E uID useNames s =
     (case call (e_query E \<lparr>q_table = userTableName, q_index = None,
             q_key = Cond_and (Attr_eq ''ID'' (AV_S uID))
                       (Attr_begins_with ''sortKey'' (uID @ '':'' @ groupIDPrefix)),
             q_filter = None\<rparr>) (count_query s) of
        (Inl err, s1) \<Rightarrow> (Inr [], s1)
      | (Inr items, s1) \<Rightarrow>
          (let vos = groupIDs_of_items items
           in if useNames then mapM (group_name_for E) vos s1 else (Inr vos, s1)))"

definition membership_cached ::
  "'w env \<Rightarrow> string \<Rightarrow> string \<Rightarrow> ('w, 'z) user_store_scheme \<Rightarrow> bool" where
  "membership_cached E uID groupID s =
     (case mm_find_value (cr_eq (=)) (userByGroupCache s) groupID (cr_stale uID) of
        None \<Rightarrow> False
      | Some record \<Rightarrow> cr_good (steady_now E s) record)"

definition check_membership ::
  "'w env \<Rightarrow> string \<Rightarrow> string \<Rightarrow> (('w, 'z) user_store_scheme, bool) op" where
  "check_membership E uID groupID s =
     (if membership_cached E uID groupID s then (Inr True, count_hits 1 s)
      else
        (case call (e_get E userTableName (row_key uID (membership_sortKey uID groupID)))
                (count_query s) of
           (Inl err, s1) \<Rightarrow> (Inr False, s1)
         | (Inr it, s1) \<Rightarrow>
             if it = [] then (Inr False, s1)
             else (Inr True, cache_membership E uID groupID s1)))"

definition userInGroup ::
  "'w env \<Rightarrow> string \<Rightarrow> string \<Rightarrow> (('w, 'z) group_store_scheme, bool) op" where
  "userInGroup E uID groupID =
     bindM (normalizeGroupID E groupID False) (\<lambda>normalized.
       case normalized of
         None \<Rightarrow> ret False
       | Some gid \<Rightarrow> check_membership E uID gid)"

section \<open>Deleting and listing groups\<close>

fun remove_members ::
  "'w env \<Rightarrow> string \<Rightarrow> string list \<Rightarrow> (('w, 'z) group_store_scheme, bool) op" where
  "remove_members E groupID [] s = (Inr True, s)"
| "remove_members E groupID (uID # rest) s =
     (case removeUserFromGroup E uID groupID s of
        (Inl e, s1) \<Rightarrow> (Inl e, s1)
      | (Inr False, s1) \<Rightarrow> (Inr False, s1)
      | (Inr True, s1) \<Rightarrow> remove_members E groupID rest s1)"

definition uncache_group ::
  "string \<Rightarrow> ('w, 'z) group_store_scheme \<Rightarrow> ('w, 'z) group_store_scheme" where
  "uncache_group groupID s =
     (let s1 = (case cuckoo_find (groupCache s) groupID of
                  None \<Rightarrow> s
                | Some record \<Rightarrow>
                    s\<lparr>groupByNameCache :=
                        cuckoo_erase (g_name (cr_record record)) (groupByNameCache s)\<rparr>)
      in s1\<lparr>groupCache := cuckoo_erase groupID (groupCache s1)\<rparr>)"

definition delete_group_record ::
  "'w env \<Rightarrow> string \<Rightarrow> (('w, 'z) group_store_scheme, bool) op" where
  "delete_group_record E groupID s =
     (case call (e_delete E groupTableName (entity_key groupID) None) (uncache_group groupID s) of
        (Inl err, s1) \<Rightarrow> (Inr False, s1)
      | (Inr _, s1) \<Rightarrow> (Inr True, s1))"

definition removeGroup :: "'w env \<Rightarrow> string \<Rightarrow> (('w, 'z) group_store_scheme, bool) op" where
  "removeGroup E groupID =
     bindM (getMembersOfGroup E groupID) (\<lambda>members.
     bindM (remove_members E groupID members) (\<lambda>removed.
       if removed then delete_group_record E groupID else ret False))"

definition group_of_scan_item :: "item \<Rightarrow> Group outcome" where
  "group_of_scan_item it =
     bindE (findOrThrow it ''ID'' ''Group record missing ID attribute'') (\<lambda>gid.
     bindE (findOrThrow it ''name'' ''Group record missing name attribute'') (\<lambda>name.
     Inr (group_details (GetS gid) (GetS name) it)))"

definition listGroups_body ::
  "'w env \<Rightarrow> item \<Rightarrow> Group list \<Rightarrow> (('w, 'z) group_store_scheme, Group list) op" where
  "listGroups_body E it collected s =
     (case group_of_scan_item it of
        Inl e \<Rightarrow> (Inl e, s)
      | Inr g \<Rightarrow> (Inr (collected @ [g]), cache_group E g s))"

definition listGroups :: "'w env \<Rightarrow> nat \<Rightarrow> ('w, 'z) group_store_scheme \<Rightarrow>
    (Group list outcome \<times> ('w, 'z) group_store_scheme) option" where
  "listGroups E budget s =
     (if groupCacheExpirationTime s > steady_now E s
      then Some (Inr (map (cr_record \<circ> snd) (groupCache s)), count_hits (length (groupCache s)) s)
      else case scan_loop budget E groupTableName (Some (Attr_exists ''name''))
                  (listGroups_body E) [] [] (count_scan s) of
             None \<Rightarrow> None
           | Some (Inl e, s1) \<Rightarrow> Some (Inl e, s1)
           | Some (Inr (Returned collected), s1) \<Rightarrow> Some (Inr collected, s1)
           | Some (Inr (Finished collected), s1) \<Rightarrow>
               Some (Inr collected,
                 s1\<lparr>groupCacheExpirationTime := steady_now E s1 + groupCacheValidity\<rparr>))"

definition queried_group ::
  "'w env \<Rightarrow> string \<Rightarrow> item \<Rightarrow> Group list \<Rightarrow> (('w, 'z) group_store_scheme, Group list) op" where
  "queried_group E uid it vos =
     bindM (\<lambda>s. (findOrThrow it ''groupID'' ''User record missing groupID attribute'', s)) (\<lambda>gid.
     bindM (findGroupByID E (GetS gid)) (\<lambda>g s.
       (Inr (vos @ [g]), cache_group_of_user E uid g (cache_group E g s))))"

definition listGroupsForUser ::
  "'w env \<Rightarrow> string \<Rightarrow> (('w, 'z) group_store_scheme, Group list) op" where
  "listGroupsForUser E uid s =
     (case cachedCategoryMembers (steady_now E s) (groupByUserCache s) uid of
        Some results \<Rightarrow> (Inr results, count_hits (length results) s)
      | None \<Rightarrow>
          (case call (e_query E \<lparr>q_table = userTableName, q_index = None,
                  q_key = Attr_eq ''ID'' (AV_S uid),
                  q_filter = Some (Attr_exists ''groupID'')\<rparr>) (count_query s) of
             (Inl err, s1) \<Rightarrow> (Inr [], s1)
           | (Inr items, s1) \<Rightarrow>
               if items = [] then (Inr [], s1)
               else
                 (case foldM (queried_group E uid) items [] s1 of
                    (Inl e, s2) \<Rightarrow> (Inl e, s2)
                  | (Inr vos, s2) \<Rightarrow>
                      (Inr vos,
                       s2\<lparr>groupByUserCache := snd (mm_update_expiration uid
                            (steady_now E s2 + groupCacheValidity) (groupByUserCache s2))\<rparr>))))"

end
