(* ===== verification/ClusterStore.thy ===== *)
theory ClusterStore
  imports GroupStore
begin

text \<open>
  Cluster records in \<open>PersistentStore\<close> (\<open>src/PersistentStore.cpp\<close>): the clusters table, its
  caches by ID, by name and by owning group, the configuration files written out for
  \<open>kubectl\<close> and \<open>helm\<close>, the monitoring credential attached to a cluster, and the cached
  reachability of clusters.  Who may use a cluster is in theory \<open>AccessStore\<close>.
\<close>

section \<open>State\<close>

definition clusterTableName :: string where "clusterTableName = ''SLATE_clusters''"

definition clusterCacheValidity :: time where "clusterCacheValidity = seconds (30 * 60)"

text \<open>A location's coordinates are kept as the bits of a \<open>double\<close>.\<close>

record GeoLocation =
  gl_lat :: "64 word"
  gl_lon :: "64 word"
  gl_description :: string

record 'w cluster_store = "'w group_store" +
  clusterConfigDir :: string
  clusterCacheExpirationTime :: time
  clusterCache :: "(string, Cluster CacheRecord) cuckoo"
  clusterByNameCache :: "(string, Cluster CacheRecord) cuckoo"
  clusterByGroupCache :: "(string, Cluster CacheRecord) multimap"
  clusterConfigs :: "(string, string) cuckoo"
  clusterGroupAccessCache :: "(string, string CacheRecord) multimap"
  clusterGroupApplicationCache :: "(string, string set CacheRecord) cuckoo"
  clusterLocationCache :: "(string, GeoLocation list CacheRecord) cuckoo"
  clusterConnectivityCache :: "(string, bool CacheRecord) cuckoo"

definition cache_cluster ::
  "'w env \<Rightarrow> Cluster \<Rightarrow> ('w, 'z) cluster_store_scheme \<Rightarrow> ('w, 'z) cluster_store_scheme" where
  "cache_cluster E c s =
     (let record = cr_fresh c (steady_now E s) clusterCacheValidity
      in s\<lparr>clusterCache := replaceCacheRecord (clusterCache s) (c_id c) record,
           clusterByNameCache := replaceCacheRecord (clusterByNameCache s) (c_name c) record,
           clusterByGroupCache := snd (mm_insert_or_assign (cr_eq cluster_eq) (steady_now E s)
             (c_owningGroup c) record (clusterByGroupCache s))\<rparr>)"

text \<open>
  Creating the file, opening it and writing it are one external call; whichever fails, the
  function throws.  A handle is represented by its path; that the file behind a replaced
  handle is deleted is not modelled.
\<close>

definition writeClusterConfigToDisk ::
  "'w env \<Rightarrow> Cluster \<Rightarrow> (('w, 'z) cluster_store_scheme, unit) op" where
  "writeClusterConfigToDisk E c s =
     (case call (e_writeTemporaryFile E (clusterConfigDir s @ ''/'' @ c_id c @ ''_v'') (c_config c)) s of
        (Inl err, s1) \<Rightarrow> (Inl err, s1)
      | (Inr path, s1) \<Rightarrow>
          (Inr (), s1\<lparr>clusterConfigs := replaceCacheRecord (clusterConfigs s1) (c_id c) path\<rparr>))"

text \<open>The end of every successful read or write: cache the record and write its configuration.\<close>

definition keep_cluster ::
  "'w env \<Rightarrow> Cluster \<Rightarrow> 'r \<Rightarrow> (('w, 'z) cluster_store_scheme, 'r) op" where
  "keep_cluster E c result s =
     (case writeClusterConfigToDisk E c (cache_cluster E c s) of
        (Inl e, s1) \<Rightarrow> (Inl e, s1)
      | (Inr _, s1) \<Rightarrow> (Inr result, s1))"

section \<open>Looking clusters up\<close>

definition cluster_details :: "string \<Rightarrow> string \<Rightarrow> item \<Rightarrow> Cluster outcome" where
  "cluster_details cid name it =
     bindE (findOrThrow it ''owningGroup'' ''Cluster record missing owningGroup attribute'') (\<lambda>owner.
     bindE (findOrThrow it ''config'' ''Cluster record missing config attribute'') (\<lambda>config.
     bindE (findOrThrow it ''systemNamespace''
              ''Cluster record missing systemNamespace attribute'') (\<lambda>ns.
     Inr \<lparr>c_valid = True, c_id = cid, c_name = name, c_config = GetS config,
          c_systemNamespace = GetS ns, c_owningGroup = GetS owner,
          c_owningOrganization = GetS (findOrDefault it ''owningOrganization'' missingString),
          c_monitoringCredential =
            s3_deserialize (GetS (findOrDefault it ''monCredential'' missingString))\<rparr>)))"

definition cluster_of_ID_item :: "string \<Rightarrow> item \<Rightarrow> Cluster outcome" where
  "cluster_of_ID_item cID it =
     bindE (findOrThrow it ''name'' ''Cluster record missing name attribute'') (\<lambda>name.
     cluster_details cID (GetS name) it)"

definition findClusterByID ::
  "'w env \<Rightarrow> string \<Rightarrow> (('w, 'z) cluster_store_scheme, Cluster) op" where
  "findClusterByID E cID s =
     (case cached (steady_now E s) (clusterCache s) cID of
        Some c \<Rightarrow> (Inr c, count_hits 1 s)
      | None \<Rightarrow>
          (case call (e_get E clusterTableName (entity_key cID)) (count_query s) of
             (Inl err, s1) \<Rightarrow> (Inr no_cluster, s1)
           | (Inr it, s1) \<Rightarrow>
               if it = [] then (Inr no_cluster, s1)
               else (case cluster_of_ID_item cID it of
                       Inl e \<Rightarrow> (Inl e, s1)
                     | Inr c \<Rightarrow> keep_cluster E c c s1)))"

definition cluster_of_name_item :: "string \<Rightarrow> item \<Rightarrow> Cluster outcome" where
  "cluster_of_name_item name it =
     bindE (findOrThrow it ''ID'' ''Cluster record missing ID attribute'') (\<lambda>cid.
     cluster_details (GetS cid) name it)"

definition findClusterByName ::
  "'w env \<Rightarrow> string \<Rightarrow> (('w, 'z) cluster_store_scheme, Cluster) op" where
  "findClusterByName E name s =
     (case cached (steady_now E s) (clusterByNameCache s) name of
        Some c \<Rightarrow> (Inr c, count_hits 1 s)
      | None \<Rightarrow>
          (case call (e_query E \<lparr>q_table = clusterTableName, q_index = Some ''ByName'',
                  q_key = Attr_eq ''name'' (AV_S name), q_filter = None\<rparr>) (count_query s) of
             (Inl err, s1) \<Rightarrow> (Inr no_cluster, s1)
           | (Inr [], s1) \<Rightarrow> (Inr no_cluster, s1)
           | (Inr [it], s1) \<Rightarrow>
               (case cluster_of_name_item name it of
                  Inl e \<Rightarrow> (Inl e, s1)
                | Inr c \<Rightarrow> keep_cluster E c c s1)
           | (Inr _, s1) \<Rightarrow>
               (Inl (''Cluster name '' @ [CHR 34] @ name @ [CHR 34] @ '' is not unique!''), s1)))"

definition getCluster :: "'w env \<Rightarrow> string \<Rightarrow> (('w, 'z) cluster_store_scheme, Cluster) op" where
  "getCluster E idOrName =
     (if begins_with clusterIDPrefix idOrName then findClusterByID E idOrName
      else findClusterByName E idOrName)"

definition normalizeClusterID ::
  "'w env \<Rightarrow> string \<Rightarrow> (('w, 'z) cluster_store_scheme, string option) op" where
  "normalizeClusterID E cID s =
     (if \<not> begins_with clusterIDPrefix cID then
        (case findClusterByName E cID s of
           (Inl e, s1) \<Rightarrow> (Inl e, s1)
         | (Inr c, s1) \<Rightarrow> (Inr (if c_valid c then Some (c_id c) else None), s1))
      else (Inr (Some cID), s))"

definition configPathForCluster ::
  "'w env \<Rightarrow> string \<Rightarrow> (('w, 'z) cluster_store_scheme, string) op" where
  "configPathForCluster E cID =
     bindM (findClusterByID E cID) (\<lambda>c s.
       if \<not> c_valid c then (Inl (cID @ '' does not exist; cannot get config data''), s)
       else (case cuckoo_find (clusterConfigs s) cID of
               None \<Rightarrow> (Inl ''key not found in table'', s)
             | Some path \<Rightarrow> (Inr path, s)))"

definition clustersOwnedByGroup ::
  "'w env \<Rightarrow> string \<Rightarrow> (('w, 'z) cluster_store_scheme, string list) op" where
  "clustersOwnedByGroup E groupID s =
     (case call (e_query E \<lparr>q_table = clusterTableName, q_index = Some ''ByGroup'',
             q_key = Attr_eq ''owningGroup'' (AV_S groupID), q_filter = None\<rparr>) (count_query s) of
        (Inl err, s1) \<Rightarrow> (Inr [], s1)
      | (Inr items, s1) \<Rightarrow>
          mapM (\<lambda>it s. (bindE (findUnchecked it ''ID'') (\<lambda>v. Inr (GetS v)), s)) items s1)"

section \<open>Changing cluster records\<close>

definition cluster_updates :: "Cluster \<Rightarrow> item" where
  "cluster_updates c =
     [(''name'', AV_S (c_name c)),
      (''config'', AV_S (c_config c)),
      (''systemNamespace'', AV_S (c_systemNamespace c)),
      (''owningGroup'', AV_S (c_owningGroup c)),
      (''owningOrganization'', AV_S (c_owningOrganization c)),
      (''monCredential'', AV_S (s3_serialize (c_monitoringCredential c)))]"

definition cluster_item :: "Cluster \<Rightarrow> item" where
  "cluster_item c = entity_key (c_id c) @ cluster_updates c"

definition addCluster :: "'w env \<Rightarrow> Cluster \<Rightarrow> (('w, 'z) cluster_store_scheme, bool) op" where
  "addCluster E c s =
     (case call (e_put E clusterTableName (cluster_item c)) s of
        (Inl err, s1) \<Rightarrow> (Inr False, s1)
      | (Inr _, s1) \<Rightarrow> keep_cluster E c True s1)"

definition updateCluster :: "'w env \<Rightarrow> Cluster \<Rightarrow> (('w, 'z) cluster_store_scheme, bool) op" where
  "updateCluster E c s =
     (case call (e_update E clusterTableName (entity_key (c_id c)) (cluster_updates c) None) s of
        (Inl err, s1) \<Rightarrow> (Inr False, s1)
      | (Inr _, s1) \<Rightarrow> keep_cluster E c True s1)"

definition cluster_of_scan_item :: "item \<Rightarrow> Cluster outcome" where
  "cluster_of_scan_item it =
     bindE (findOrThrow it ''ID'' ''Cluster record missing ID attribute'') (\<lambda>cid.
     bindE (findOrThrow it ''name'' ''Cluster record missing name attribute'') (\<lambda>name.
     cluster_details (GetS cid) (GetS name) it))"

definition listClusters_body ::
  "'w env \<Rightarrow> item \<Rightarrow> Cluster list \<Rightarrow> (('w, 'z) cluster_store_scheme, Cluster list) op" where
  "listClusters_body E it collected s =
     (case cluster_of_scan_item it of
        Inl e \<Rightarrow> (Inl e, s)
      | Inr c \<Rightarrow> keep_cluster E c (collected @ [c]) s)"

definition listClusters :: "'w env \<Rightarrow> nat \<Rightarrow> ('w, 'z) cluster_store_scheme \<Rightarrow>
    (Cluster list outcome \<times> ('w, 'z) cluster_store_scheme) option" where
  "listClusters E budget s =
     (if clusterCacheExpirationTime s > steady_now E s
      then Some (Inr (map (cr_record \<circ> snd) (clusterCache s)),
                 count_hits (length (clusterCache s)) s)
      else case scan_loop budget E clusterTableName
                  (Some (Cond_and (Attr_not_exists ''groupID'') (Attr_exists ''name'')))
                  (listClusters_body E) [] [] (count_scan s) of
             None \<Rightarrow> None
           | Some (Inl e, s1) \<Rightarrow> Some (Inl e, s1)
           | Some (Inr (Returned collected), s1) \<Rightarrow> Some (Inr collected, s1)
           | Some (Inr (Finished collected), s1) \<Rightarrow>
               Some (Inr collected,
                 s1\<lparr>clusterCacheExpirationTime := steady_now E s1 + clusterCacheValidity\<rparr>))"

section \<open>The monitoring credential of a cluster\<close>

definition reload_cluster :: "'w env \<Rightarrow> string \<Rightarrow> (('w, 'z) cluster_store_scheme, bool) op" where
  "reload_cluster E cID s =
     (case findClusterByID E cID (s\<lparr>clusterCache := cuckoo_erase cID (clusterCache s)\<rparr>) of
        (Inl e, s1) \<Rightarrow> (Inl e, s1)
      | (Inr _, s1) \<Rightarrow> (Inr True, s1))"

definition setClusterMonitoringCredential ::
  "'w env \<Rightarrow> string \<Rightarrow> S3Credential \<Rightarrow> (('w, 'z) cluster_store_scheme, bool) op" where
  "setClusterMonitoringCredential E cID cred s =
     (case call (e_update E clusterTableName (entity_key cID)
             [(''monCredential'', AV_S (s3_serialize cred))]
             (Some (Cond_or (Attr_not_exists ''monCredential'')
                            (Attr_eq ''monCredential'' (AV_S (s3_serialize no_cred)))))) s of
        (Inl err, s1) \<Rightarrow> (Inr False, s1)
      | (Inr _, s1) \<Rightarrow> reload_cluster E cID s1)"

definition removeClusterMonitoringCredential ::
  "'w env \<Rightarrow> string \<Rightarrow> (('w, 'z) cluster_store_scheme, bool) op" where
  "removeClusterMonitoringCredential E cID s =
     (case call (e_update E clusterTableName (entity_key cID)
             [(''monCredential'', AV_S (s3_serialize no_cred))]
             (Some (Attr_exists ''monCredential''))) s of
        (Inl err, s1) \<Rightarrow> (Inr False, s1)
      | (Inr _, s1) \<Rightarrow> reload_cluster E cID s1)"

text \<open>Only the first page of the scan is looked at, and only its first match.\<close>

definition findClusterUsingCredential ::
  "'w env \<Rightarrow> S3Credential \<Rightarrow> (('w, 'z) cluster_store_scheme, Cluster) op" where
  "findClusterUsingCredential E cred s =
     (case call (e_scan E \<lparr>sc_table = clusterTableName,
             sc_filter = Some (Attr_eq ''monCredential'' (AV_S (s3_serialize cred))),
             sc_startKey = []\<rparr>) (count_scan s) of
        (Inl err, s1) \<Rightarrow> (Inr no_cluster, s1)
      | (Inr result, s1) \<Rightarrow>
          (case pg_items result of
             [] \<Rightarrow> (Inr no_cluster, s1)
           | it # _ \<Rightarrow>
               (case cluster_of_scan_item it of
                  Inl e \<Rightarrow> (Inl e, s1)
                | Inr c \<Rightarrow> keep_cluster E c c s1)))"

section \<open>Reachability\<close>

definition getCachedClusterReachability ::
  "'w env \<Rightarrow> string \<Rightarrow> (('w, 'z) cluster_store_scheme, bool CacheRecord) op" where
  "getCachedClusterReachability E cID =
     bindM (normalizeClusterID E cID) (\<lambda>normalized s.
       case normalized of
         None \<Rightarrow> (Inr (cr_stale False), s)
       | Some cid \<Rightarrow>
           (Inr (case cuckoo_find (clusterConnectivityCache s) cid of
                   None \<Rightarrow> cr_stale False | Some record \<Rightarrow> record), s))"

definition cacheClusterReachability ::
  "'w env \<Rightarrow> string \<Rightarrow> bool \<Rightarrow> (('w, 'z) cluster_store_scheme, unit) op" where
  "cacheClusterReachability E cID reachable =
     bindM (normalizeClusterID E cID) (\<lambda>normalized s.
       case normalized of
         None \<Rightarrow> (Inr (), s)
       | Some cid \<Rightarrow>
           (Inr (), s\<lparr>clusterConnectivityCache := replaceCacheRecord (clusterConnectivityCache s) cid
                       (cr_fresh reachable (steady_now E s) clusterCacheValidity)\<rparr>))"

definition dnsNameForCluster :: "string \<Rightarrow> Cluster \<Rightarrow> string" where
  "dnsNameForCluster baseDomain c = c_name c @ ''.'' @ baseDomain"

end
