(* ===== verification/AccessStore.thy ===== *)
theory AccessStore
  imports ClusterStore "HOL-Library.Char_ord" "HOL-Library.List_Lexorder"
begin

text \<open>
  Who may use a cluster and what they may install there, in \<open>PersistentStore\<close>
  (\<open>src/PersistentStore.cpp\<close>): the rows of the clusters table that grant a group, or all groups,
  access; the cache of such grants, which also remembers refusals under the group's ID with a
  dash appended; the sets of applications a group may use on a cluster; and the deletion of a
  cluster, which first withdraws the grants.
\<close>

section \<open>Access of groups to clusters\<close>

definition access_sortKey :: "string \<Rightarrow> string \<Rightarrow> string" where
  "access_sortKey cid gid = cid @ '':'' @ gid"

definition access_item :: "string \<Rightarrow> string \<Rightarrow> item" where
  "access_item cid gid =
     [(''ID'', AV_S cid), (''sortKey'', AV_S (access_sortKey cid gid)), (''groupID'', AV_S gid)]"

definition denied :: "string \<Rightarrow> string" where
  "denied gid = gid @ ''-''"

definition cache_access ::
  "'w env \<Rightarrow> string \<Rightarrow> string \<Rightarrow> ('w, 'z) cluster_store_scheme \<Rightarrow> ('w, 'z) cluster_store_scheme" where
  "cache_access E cid entry s =
     s\<lparr>clusterGroupAccessCache := snd (mm_insert_or_assign (cr_eq (=)) (steady_now E s) cid
         (cr_fresh entry (steady_now E s) clusterCacheValidity) (clusterGroupAccessCache s))\<rparr>"

definition uncache_access ::
  "string \<Rightarrow> string \<Rightarrow> ('w, 'z) cluster_store_scheme \<Rightarrow> ('w, 'z) cluster_store_scheme" where
  "uncache_access cid entry s =
     s\<lparr>clusterGroupAccessCache :=
         snd (mm_erase (cr_eq (=)) cid (cr_stale entry) (clusterGroupAccessCache s))\<rparr>"

definition access_cached ::
  "'w env \<Rightarrow> string \<Rightarrow> string \<Rightarrow> ('w, 'z) cluster_store_scheme \<Rightarrow> bool" where
  "access_cached E cid entry s =
     (case mm_find_value (cr_eq (=)) (clusterGroupAccessCache s) cid (cr_stale entry) of
        None \<Rightarrow> False
      | Some record \<Rightarrow> cr_good (steady_now E s) record)"

text \<open>The part of four operations that turns a group and a cluster, by ID or name, into IDs.\<close>

definition normalized_pair ::
  "'w env \<Rightarrow> string \<Rightarrow> bool \<Rightarrow> string \<Rightarrow> 'r \<Rightarrow>
     (string \<Rightarrow> string \<Rightarrow> (('w, 'z) cluster_store_scheme, 'r) op) \<Rightarrow>
     (('w, 'z) cluster_store_scheme, 'r) op" where
  "normalized_pair E groupID allowWildcard cID otherwise k =
     bindM (normalizeGroupID E groupID allowWildcard) (\<lambda>ng.
       case ng of
         None \<Rightarrow> ret otherwise
       | Some gid \<Rightarrow>
           bindM (normalizeClusterID E cID) (\<lambda>nc.
             case nc of None \<Rightarrow> ret otherwise | Some cid \<Rightarrow> k gid cid))"

definition grant_access ::
  "'w env \<Rightarrow> string \<Rightarrow> string \<Rightarrow> (('w, 'z) cluster_store_scheme, bool) op" where
  "grant_access E gid cid s =
     (case call (e_put E clusterTableName (access_item cid gid))
             (uncache_access cid (denied gid) s) of
        (Inl err, s1) \<Rightarrow> (Inr False, s1)
      | (Inr _, s1) \<Rightarrow> (Inr True, cache_access E cid gid s1))"

definition addGroupToCluster ::
  "'w env \<Rightarrow> string \<Rightarrow> string \<Rightarrow> (('w, 'z) cluster_store_scheme, bool) op" where
  "addGroupToCluster E groupID cID = normalized_pair E groupID True cID False (grant_access E)"

definition withdraw_access ::
  "'w env \<Rightarrow> string \<Rightarrow> string \<Rightarrow> (('w, 'z) cluster_store_scheme, bool) op" where
  "withdraw_access E gid cid s =
     (case call (e_delete E clusterTableName (row_key cid (access_sortKey cid gid)) None)
             (uncache_access cid gid s) of
        (Inl err, s1) \<Rightarrow> (Inr False, s1)
      | (Inr _, s1) \<Rightarrow> (Inr True, cache_access E cid (denied gid) s1))"

definition removeGroupFromCluster ::
  "'w env \<Rightarrow> string \<Rightarrow> string \<Rightarrow> (('w, 'z) cluster_store_scheme, bool) op" where
  "removeGroupFromCluster E groupID cID =
     normalized_pair E groupID True cID False (withdraw_access E)"

text \<open>
  The lookup shared by \<open>clusterAllowsAllGroups\<close> (for the wildcard) and the last part of
  \<open>groupAllowedOnCluster\<close>: the positive cache entry, the negative one, then the database.
\<close>

definition lookup_access ::
  "'w env \<Rightarrow> string \<Rightarrow> string \<Rightarrow> (('w, 'z) cluster_store_scheme, bool) op" where
  "lookup_access E gid cid s =
     (if access_cached E cid gid s then (Inr True, count_hits 1 s)
      else if access_cached E cid (denied gid) s then (Inr False, count_hits 1 s)
      else
        (case call (e_get E clusterTableName (row_key cid (access_sortKey cid gid)))
                (count_query s) of
           (Inl err, s1) \<Rightarrow> (Inr False, s1)
         | (Inr it, s1) \<Rightarrow>
             if it = [] then (Inr False, cache_access E cid (denied gid) s1)
             else (Inr True, cache_access E cid gid s1)))"

definition clusterAllowsAllGroups ::
  "'w env \<Rightarrow> string \<Rightarrow> (('w, 'z) cluster_store_scheme, bool) op" where
  "clusterAllowsAllGroups E cID = lookup_access E wildcard cID"

definition allowed_on_cluster ::
  "'w env \<Rightarrow> string \<Rightarrow> string \<Rightarrow> (('w, 'z) cluster_store_scheme, bool) op" where
  "allowed_on_cluster E gid cid =
     bindM (clusterAllowsAllGroups E cid) (\<lambda>all_groups.
       if all_groups then ret True else lookup_access E gid cid)"

definition groupAllowedOnCluster ::
  "'w env \<Rightarrow> string \<Rightarrow> string \<Rightarrow> (('w, 'z) cluster_store_scheme, bool) op" where
  "groupAllowedOnCluster E groupID cID =
     normalized_pair E groupID False cID False (allowed_on_cluster E)"

definition query_allowed_groups ::
  "'w env \<Rightarrow> string \<Rightarrow> bool \<Rightarrow> (('w, 'z) cluster_store_scheme, string list) op" where
  "query_allowed_groups E cid useNames s =
     (case call (e_query E \<lparr>q_table = clusterTableName, q_index = None,
             q_key = Cond_and (Attr_eq ''ID'' (AV_S cid))
                       (Attr_begins_with ''sortKey'' (cid @ '':'' @ groupIDPrefix)),
             q_filter = None\<rparr>) (count_query s) of
        (Inl err, s1) \<Rightarrow> (Inr [], s1)
      | (Inr items, s1) \<Rightarrow>
          (let vos = groupIDs_of_items items
           in if useNames then mapM (group_name_for E) vos s1 else (Inr vos, s1)))"

definition listGroupsAllowedOnCluster ::
  "'w env \<Rightarrow> string \<Rightarrow> bool \<Rightarrow> (('w, 'z) cluster_store_scheme, string list) op" where
  "listGroupsAllowedOnCluster E cID useNames =
     bindM (normalizeClusterID E cID) (\<lambda>nc.
       case nc of
         None \<Rightarrow> ret []
       | Some cid \<Rightarrow>
           bindM (clusterAllowsAllGroups E cid) (\<lambda>all_groups.
             if all_groups then ret [if useNames then wildcardName else wildcard]
             else query_allowed_groups E cid useNames))"

text \<open>The clusters a group owns or may use, out of all clusters.\<close>

fun clusters_for_group ::
  "'w env \<Rightarrow> string \<Rightarrow> Cluster list \<Rightarrow> (('w, 'z) cluster_store_scheme, Cluster list) op" where
  "clusters_for_group E gid [] s = (Inr [], s)"
| "clusters_for_group E gid (c # rest) s =
     (if gid = c_owningGroup c
      then (case clusters_for_group E gid rest s of
              (Inl e, s1) \<Rightarrow> (Inl e, s1) | (Inr cs, s1) \<Rightarrow> (Inr (c # cs), s1))
      else
        (case groupAllowedOnCluster E gid (c_id c) s of
           (Inl e, s1) \<Rightarrow> (Inl e, s1)
         | (Inr allowed, s1) \<Rightarrow>
             (case clusters_for_group E gid rest s1 of
                (Inl e, s2) \<Rightarrow> (Inl e, s2)
              | (Inr cs, s2) \<Rightarrow> (Inr (if allowed then c # cs else cs), s2))))"

definition clusters_of_group ::
  "'w env \<Rightarrow> nat \<Rightarrow> string \<Rightarrow> ('w, 'z) cluster_store_scheme \<Rightarrow>
    (Cluster list outcome \<times> ('w, 'z) cluster_store_scheme) option" where
  "clusters_of_group E budget gid s =
     (case listClusters E budget s of
        None \<Rightarrow> None
      | Some (Inl e, s1) \<Rightarrow> Some (Inl e, s1)
      | Some (Inr allClusters, s1) \<Rightarrow> Some (clusters_for_group E gid allClusters s1))"

definition listClustersByGroup ::
  "'w env \<Rightarrow> nat \<Rightarrow> string \<Rightarrow> ('w, 'z) cluster_store_scheme \<Rightarrow>
    (Cluster list outcome \<times> ('w, 'z) cluster_store_scheme) option" where
  "listClustersByGroup E budget g s =
     (if g \<noteq> [] \<and> \<not> begins_with groupIDPrefix g then
        (case findGroupByName E g s of
           (Inl e, s1) \<Rightarrow> Some (Inl e, s1)
         | (Inr found, s1) \<Rightarrow>
             if \<not> g_valid found then Some (Inr [], s1)
             else clusters_of_group E budget (g_id found) s1)
      else clusters_of_group E budget g s)"

section \<open>Deleting a cluster\<close>

fun withdraw_all ::
  "'w env \<Rightarrow> string \<Rightarrow> string list \<Rightarrow> (('w, 'z) cluster_store_scheme, unit) op" where
  "withdraw_all E cID [] s = (Inr (), s)"
| "withdraw_all E cID (guest # rest) s =
     (case removeGroupFromCluster E guest cID s of
        (Inl e, s1) \<Rightarrow> (Inl e, s1)
      | (Inr _, s1) \<Rightarrow> withdraw_all E cID rest s1)"

definition uncache_cluster ::
  "string \<Rightarrow> ('w, 'z) cluster_store_scheme \<Rightarrow> ('w, 'z) cluster_store_scheme" where
  "uncache_cluster cID s =
     (let s1 = (case cuckoo_find (clusterCache s) cID of
                  None \<Rightarrow> s
                | Some record \<Rightarrow>
                    s\<lparr>clusterByNameCache :=
                        cuckoo_erase (c_name (cr_record record)) (clusterByNameCache s),
                      clusterByGroupCache := snd (mm_erase (cr_eq cluster_eq)
                        (c_owningGroup (cr_record record)) record (clusterByGroupCache s))\<rparr>)
      in s1\<lparr>clusterCache := cuckoo_erase cID (clusterCache s1),
            clusterConfigs := cuckoo_erase cID (clusterConfigs s1),
            clusterLocationCache := cuckoo_erase cID (clusterLocationCache s1)\<rparr>)"

definition delete_cluster_records ::
  "'w env \<Rightarrow> string \<Rightarrow> (('w, 'z) cluster_store_scheme, bool) op" where
  "delete_cluster_records E cID s =
     (case call (e_delete E clusterTableName (entity_key cID) None) s of
        (Inl err, s1) \<Rightarrow> (Inr False, s1)
      | (Inr _, s1) \<Rightarrow>
          (case call (e_delete E clusterTableName (row_key cID (cID @ '':Locations'')) None) s1 of
             (Inl err, s2) \<Rightarrow> (Inr False, s2)
           | (Inr _, s2) \<Rightarrow> (Inr True, s2)))"

definition removeCluster :: "'w env \<Rightarrow> string \<Rightarrow> (('w, 'z) cluster_store_scheme, bool) op" where
  "removeCluster E cID =
     bindM (listGroupsAllowedOnCluster E cID False) (\<lambda>guests.
     bindM (withdraw_all E cID guests) (\<lambda>_ s.
       delete_cluster_records E cID (uncache_cluster cID s)))"

section \<open>Applications a group may use on a cluster\<close>

definition applications_sortKey :: "string \<Rightarrow> string \<Rightarrow> string" where
  "applications_sortKey cid gid = cid @ '':'' @ gid @ '':Applications''"

definition cache_applications ::
  "'w env \<Rightarrow> string \<Rightarrow> string set \<Rightarrow> ('w, 'z) cluster_store_scheme \<Rightarrow> ('w, 'z) cluster_store_scheme" where
  "cache_applications E sortKey apps s =
     s\<lparr>clusterGroupApplicationCache := replaceCacheRecord (clusterGroupApplicationCache s) sortKey
         (cr_fresh apps (steady_now E s) clusterCacheValidity)\<rparr>"

text \<open>No row means that everything is allowed; the marker \<open><none>\<close> stands for the empty set,
  which DynamoDB cannot store.\<close>

definition applications_of_item :: "item \<Rightarrow> string set outcome" where
  "applications_of_item it =
     (if it = [] then Inr {wildcardName}
      else bindE (findOrThrow it ''applications'' ''Cluster record missing applications attribute'')
             (\<lambda>v. let result = set (GetSS v) in Inr (if ''<none>'' \<in> result then {} else result)))"

definition list_applications ::
  "'w env \<Rightarrow> string \<Rightarrow> string \<Rightarrow> (('w, 'z) cluster_store_scheme, string set) op" where
  "list_applications E gid cid s =
     (let sortKey = applications_sortKey cid gid
      in case cached (steady_now E s) (clusterGroupApplicationCache s) sortKey of
           Some apps \<Rightarrow> (Inr apps, count_hits 1 s)
         | None \<Rightarrow>
             (case call (e_get E clusterTableName (row_key cid sortKey)) (count_query s) of
                (Inl err, s1) \<Rightarrow> (Inr {}, s1)
              | (Inr it, s1) \<Rightarrow>
                  (case applications_of_item it of
                     Inl e \<Rightarrow> (Inl e, s1)
                   | Inr apps \<Rightarrow> (Inr apps, cache_applications E sortKey apps s1))))"

definition listApplicationsGroupMayUseOnCluster ::
  "'w env \<Rightarrow> string \<Rightarrow> string \<Rightarrow> (('w, 'z) cluster_store_scheme, string set) op" where
  "listApplicationsGroupMayUseOnCluster E groupID cID =
     normalized_pair E groupID True cID {} (list_applications E)"

definition put_applications ::
  "'w env \<Rightarrow> string \<Rightarrow> string \<Rightarrow> string list \<Rightarrow> string set \<Rightarrow> (('w, 'z) cluster_store_scheme, bool) op" where
  "put_applications E cid sortKey stored apps s =
     (case call (e_put E clusterTableName
             [(''ID'', AV_S cid), (''sortKey'', AV_S sortKey), (''applications'', AV_SS stored)]) s of
        (Inl err, s1) \<Rightarrow> (Inr False, s1)
      | (Inr _, s1) \<Rightarrow> (Inr True, cache_applications E sortKey apps s1))"

definition with_permission :: "string \<Rightarrow> string set \<Rightarrow> string set" where
  "with_permission appName allowed =
     (let allowed = (if wildcardName \<in> allowed then {} else allowed)
      in if appName = wildcardName then {wildcardName} else insert appName allowed)"

definition full_name :: "string \<Rightarrow> string" where
  "full_name appName = (if appName = wildcard then wildcardName else appName)"

definition allowVoToUseApplication ::
  "'w env \<Rightarrow> string \<Rightarrow> string \<Rightarrow> string \<Rightarrow> (('w, 'z) cluster_store_scheme, bool) op" where
  "allowVoToUseApplication E groupID cID appName =
     normalized_pair E groupID True cID False (\<lambda>gid cid.
       bindM (listApplicationsGroupMayUseOnCluster E gid cid) (\<lambda>allowed.
         let allowed = with_permission (full_name appName) allowed
         in put_applications E cid (applications_sortKey cid gid)
              (sorted_list_of_set allowed) allowed))"

text \<open>\<open>None\<close>: the request makes no sense and nothing is changed.\<close>

definition without_permission :: "string \<Rightarrow> string set \<Rightarrow> string set option" where
  "without_permission appName allowed =
     (if appName = wildcardName then Some {}
      else if wildcardName \<in> allowed then None
      else if appName \<notin> allowed then None
      else Some (allowed - {appName}))"

definition denyGroupUseOfApplication ::
  "'w env \<Rightarrow> string \<Rightarrow> string \<Rightarrow> string \<Rightarrow> (('w, 'z) cluster_store_scheme, bool) op" where
  "denyGroupUseOfApplication E groupID cID appName =
     normalized_pair E groupID True cID False (\<lambda>gid cid.
       bindM (listApplicationsGroupMayUseOnCluster E gid cid) (\<lambda>allowed.
         case without_permission (full_name appName) allowed of
           None \<Rightarrow> ret False
         | Some allowed \<Rightarrow>
             put_applications E cid (applications_sortKey cid gid)
               (if allowed = {} then [''<none>''] else sorted_list_of_set allowed) allowed))"

definition groupMayUseApplication ::
  "'w env \<Rightarrow> string \<Rightarrow> string \<Rightarrow> string \<Rightarrow> (('w, 'z) cluster_store_scheme, bool) op" where
  "groupMayUseApplication E groupID cID appName =
     bindM (listApplicationsGroupMayUseOnCluster E groupID cID) (\<lambda>allowed.
       ret (wildcardName \<in> allowed \<or> appName \<in> allowed))"

end
