(* ===== verification/InstanceStore.thy ===== *)
theory InstanceStore
  imports AccessStore
begin

text \<open>
  Application instances in \<open>PersistentStore\<close> (\<open>src/PersistentStore.cpp\<close>): the instances table,
  where each instance has one row for its record and another for its configuration, the caches
  by ID, group, name, cluster, and group and cluster together, and the listing operations.
\<close>

section \<open>State\<close>

definition instanceTableName :: string where "instanceTableName = ''SLATE_instances''"

definition instanceCacheValidity :: time where "instanceCacheValidity = seconds (5 * 60)"

record 'w instance_store = "'w cluster_store" +
  instanceCacheExpirationTime :: time
  instanceCache :: "(string, ApplicationInstance CacheRecord) cuckoo"
  instanceConfigCache :: "(string, string CacheRecord) cuckoo"
  instanceByGroupCache :: "(string, ApplicationInstance CacheRecord) multimap"
  instanceByNameCache :: "(string, ApplicationInstance CacheRecord) multimap"
  instanceByClusterCache :: "(string, ApplicationInstance CacheRecord) multimap"
  instanceByGroupAndClusterCache :: "(string, ApplicationInstance CacheRecord) multimap"

definition pair_key :: "string \<Rightarrow> string \<Rightarrow> string" where
  "pair_key g c = g @ '':'' @ c"

definition cache_instance ::
  "'w env \<Rightarrow> ApplicationInstance \<Rightarrow> ('w, 'z) instance_store_scheme \<Rightarrow>
     ('w, 'z) instance_store_scheme" where
  "cache_instance E i s =
     (let now = steady_now E s;
          record = cr_fresh i now instanceCacheValidity;
          add = (\<lambda>key cache. snd (mm_insert_or_assign (cr_eq instance_eq) now key record cache))
      in s\<lparr>instanceCache := replaceCacheRecord (instanceCache s) (i_id i) record,
           instanceByGroupCache := add (i_owningGroup i) (instanceByGroupCache s),
           instanceByNameCache := add (i_name i) (instanceByNameCache s),
           instanceByClusterCache := add (i_cluster i) (instanceByClusterCache s),
           instanceByGroupAndClusterCache :=
             add (pair_key (i_owningGroup i) (i_cluster i)) (instanceByGroupAndClusterCache s)\<rparr>)"

section \<open>Adding and removing\<close>

definition instance_item :: "ApplicationInstance \<Rightarrow> item" where
  "instance_item i =
     [(''ID'', AV_S (i_id i)),
      (''sortKey'', AV_S (i_id i)),
      (''name'', AV_S (i_name i)),
      (''application'', AV_S (i_application i)),
      (''owningGroup'', AV_S (i_owningGroup i)),
      (''cluster'', AV_S (i_cluster i)),
      (''ctime'', AV_S (i_ctime i))]"

definition config_sortKey :: "string \<Rightarrow> string" where
  "config_sortKey iid = iid @ '':config''"

definition instance_config_item :: "ApplicationInstance \<Rightarrow> item" where
  "instance_config_item i =
     [(''ID'', AV_S (i_id i)),
      (''sortKey'', AV_S (config_sortKey (i_id i))),
      (''config'', AV_S (i_config i))]"

definition addApplicationInstance ::
  "'w env \<Rightarrow> ApplicationInstance \<Rightarrow> (('w, 'z) instance_store_scheme, bool) op" where
  "addApplicationInstance E i s =
     (case call (e_put E instanceTableName (instance_item i)) s of
        (Inl err, s1) \<Rightarrow> (Inr False, s1)
      | (Inr _, s1) \<Rightarrow>
          (case call (e_put E instanceTableName (instance_config_item i)) s1 of
             (Inl err, s2) \<Rightarrow> (Inr False, s2)
           | (Inr _, s2) \<Rightarrow>
               (let s3 = cache_instance E i s2
                in (Inr True,
                    s3\<lparr>instanceConfigCache := cuckoo_insert (i_id i)
                         (cr_fresh (i_config i) (steady_now E s3) instanceCacheValidity)
                         (instanceConfigCache s3)\<rparr>))))"

definition uncache_instance ::
  "string \<Rightarrow> ('w, 'z) instance_store_scheme \<Rightarrow> ('w, 'z) instance_store_scheme" where
  "uncache_instance iid s =
     (let s1 = (case cuckoo_find (instanceCache s) iid of
                  None \<Rightarrow> s
                | Some record \<Rightarrow>
                    (let i = cr_record record;
                         drop_from = (\<lambda>key cache.
                           snd (mm_erase (cr_eq instance_eq) key record cache))
                     in s\<lparr>instanceByGroupCache :=
                            drop_from (i_owningGroup i) (instanceByGroupCache s),
                          instanceByNameCache := drop_from (i_name i) (instanceByNameCache s),
                          instanceByClusterCache :=
                            drop_from (i_cluster i) (instanceByClusterCache s),
                          instanceByGroupAndClusterCache :=
                            drop_from (pair_key (i_owningGroup i) (i_cluster i))
                              (instanceByGroupAndClusterCache s)\<rparr>))
      in s1\<lparr>instanceCache := cuckoo_erase iid (instanceCache s1),
            instanceConfigCache := cuckoo_erase iid (instanceConfigCache s1)\<rparr>)"

definition removeApplicationInstance ::
  "'w env \<Rightarrow> string \<Rightarrow> (('w, 'z) instance_store_scheme, bool) op" where
  "removeApplicationInstance E iid s =
     (case call (e_delete E instanceTableName (entity_key iid) None) (uncache_instance iid s) of
        (Inl err, s1) \<Rightarrow> (Inr False, s1)
      | (Inr _, s1) \<Rightarrow>
          (case call (e_delete E instanceTableName (row_key iid (config_sortKey iid)) None) s1 of
             (Inl err, s2) \<Rightarrow> (Inr False, s2)
           | (Inr _, s2) \<Rightarrow> (Inr True, s2)))"

section \<open>Looking instances up\<close>

text \<open>The configuration is not part of the record: \<open>i_config\<close> stays empty.\<close>

definition instance_of_ID_item :: "string \<Rightarrow> item \<Rightarrow> ApplicationInstance outcome" where
  "instance_of_ID_item iid it =
     bindE (findOrThrow it ''name'' ''Instance record missing name attribute'') (\<lambda>name.
     bindE (findOrThrow it ''application''
              ''Instance record missing application attribute'') (\<lambda>application.
     bindE (findOrThrow it ''owningGroup''
              ''Instance record missing owningGroup attribute'') (\<lambda>owner.
     bindE (findOrThrow it ''cluster'' ''Instance record missing cluster attribute'') (\<lambda>cluster.
     bindE (findOrThrow it ''ctime'' ''Instance record missing ctime attribute'') (\<lambda>ctime.
     Inr \<lparr>i_valid = True, i_id = iid, i_name = GetS name, i_application = GetS application,
          i_owningGroup = GetS owner, i_cluster = GetS cluster, i_config = '''',
          i_ctime = GetS ctime\<rparr>)))))"

definition getApplicationInstance ::
  "'w env \<Rightarrow> string \<Rightarrow> (('w, 'z) instance_store_scheme, ApplicationInstance) op" where
  "getApplicationInstance E iid s =
     (case cached (steady_now E s) (instanceCache s) iid of
        Some i \<Rightarrow> (Inr i, count_hits 1 s)
      | None \<Rightarrow>
          (case call (e_get E instanceTableName (entity_key iid)) (count_query s) of
             (Inl err, s1) \<Rightarrow> (Inr no_instance, s1)
           | (Inr it, s1) \<Rightarrow>
               if it = [] then (Inr no_instance, s1)
               else (case instance_of_ID_item iid it of
                       Inl e \<Rightarrow> (Inl e, s1)
                     | Inr i \<Rightarrow> (Inr i, cache_instance E i s1))))"

definition getApplicationInstanceConfig ::
  "'w env \<Rightarrow> string \<Rightarrow> (('w, 'z) instance_store_scheme, string) op" where
  "getApplicationInstanceConfig E iid s =
     (case cached (steady_now E s) (instanceConfigCache s) iid of
        Some config \<Rightarrow> (Inr config, count_hits 1 s)
      | None \<Rightarrow>
          (case call (e_get E instanceTableName (row_key iid (config_sortKey iid)))
                  (count_query s) of
             (Inl err, s1) \<Rightarrow> (Inr [], s1)
           | (Inr it, s1) \<Rightarrow>
               if it = [] then (Inr [], s1)
               else (case findOrThrow it ''config''
                            ''Instance config record missing config attribute'' of
                       Inl e \<Rightarrow> (Inl e, s1)
                     | Inr config \<Rightarrow>
                         (Inr (GetS config),
                          s1\<lparr>instanceConfigCache := replaceCacheRecord (instanceConfigCache s1) iid
                               (cr_fresh (GetS config) (steady_now E s1) instanceCacheValidity)\<rparr>))))"

section \<open>Listing\<close>

definition instance_of_scan_item :: "item \<Rightarrow> ApplicationInstance outcome" where
  "instance_of_scan_item it =
     bindE (findOrThrow it ''ID'' ''Instance record missing ID attribute'') (\<lambda>iid.
     bindE (findOrThrow it ''name'' ''Instance record missing name attribute'') (\<lambda>name.
     bindE (findOrThrow it ''application''
              ''Instance record missing application attribute'') (\<lambda>application.
     bindE (findOrThrow it ''owningGroup'' ''Instance record missing ID attribute'') (\<lambda>owner.
     bindE (findOrThrow it ''cluster'' ''Instance record missing ID attribute'') (\<lambda>cluster.
     bindE (findOrThrow it ''ctime'' ''Instance record missing ID attribute'') (\<lambda>ctime.
     Inr \<lparr>i_valid = True, i_id = GetS iid, i_name = GetS name, i_application = GetS application,
          i_owningGroup = GetS owner, i_cluster = GetS cluster, i_config = '''',
          i_ctime = GetS ctime\<rparr>))))))"

definition listApplicationInstances_body ::
  "'w env \<Rightarrow> item \<Rightarrow> ApplicationInstance list \<Rightarrow>
     (('w, 'z) instance_store_scheme, ApplicationInstance list) op" where
  "listApplicationInstances_body E it collected s =
     (case instance_of_scan_item it of
        Inl e \<Rightarrow> (Inl e, s)
      | Inr i \<Rightarrow> (Inr (collected @ [i]), cache_instance E i s))"

definition listApplicationInstances :: "'w env \<Rightarrow> nat \<Rightarrow> ('w, 'z) instance_store_scheme \<Rightarrow>
    (ApplicationInstance list outcome \<times> ('w, 'z) instance_store_scheme) option" where
  "listApplicationInstances E budget s =
     (if instanceCacheExpirationTime s > steady_now E s
      then Some (Inr (map (cr_record \<circ> snd) (instanceCache s)),
                 count_hits (length (instanceCache s)) s)
      else case scan_loop budget E instanceTableName (Some (Attr_exists ''ctime''))
                  (listApplicationInstances_body E) [] [] (count_scan s) of
             None \<Rightarrow> None
           | Some (Inl e, s1) \<Rightarrow> Some (Inl e, s1)
           | Some (Inr (Returned collected), s1) \<Rightarrow> Some (Inr collected, s1)
           | Some (Inr (Finished collected), s1) \<Rightarrow>
               Some (Inr collected,
                 s1\<lparr>instanceCacheExpirationTime := steady_now E s1 + instanceCacheValidity\<rparr>))"

text \<open>Empty strings mean "any"; a group or cluster that does not exist has no instances.\<close>

definition normalized_filter ::
  "'w env \<Rightarrow> string \<Rightarrow> string \<Rightarrow> 'r \<Rightarrow>
     (string \<Rightarrow> string \<Rightarrow> (('w, 'z) cluster_store_scheme, 'r) op) \<Rightarrow>
     (('w, 'z) cluster_store_scheme, 'r) op" where
  "normalized_filter E g c otherwise k =
     bindM (if g = [] then ret (Some []) else normalizeGroupID E g False) (\<lambda>ng.
       case ng of
         None \<Rightarrow> ret otherwise
       | Some gid \<Rightarrow>
           bindM (if c = [] then ret (Some []) else normalizeClusterID E c) (\<lambda>nc.
             case nc of None \<Rightarrow> ret otherwise | Some cid \<Rightarrow> k gid cid))"

text \<open>
  The query of the listings by group, by cluster or by both; \<open>None\<close> stands for the
  default-constructed, failed outcome that is left when neither is given.
\<close>

definition group_cluster_query :: "string \<Rightarrow> string \<Rightarrow> string \<Rightarrow> query option" where
  "group_cluster_query table gid cid =
     (if gid \<noteq> [] \<and> cid \<noteq> [] then
        Some \<lparr>q_table = table, q_index = Some ''ByGroup'',
              q_key = Attr_eq ''owningGroup'' (AV_S gid),
              q_filter = Some (Attr_contains ''cluster'' cid)\<rparr>
      else if gid \<noteq> [] then
        Some \<lparr>q_table = table, q_index = Some ''ByGroup'',
              q_key = Attr_eq ''owningGroup'' (AV_S gid), q_filter = None\<rparr>
      else if cid \<noteq> [] then
        Some \<lparr>q_table = table, q_index = Some ''ByCluster'',
              q_key = Attr_eq ''cluster'' (AV_S cid), q_filter = None\<rparr>
      else None)"

definition run_query ::
  "'w env \<Rightarrow> query option \<Rightarrow> ('w, 'z) base_store_scheme \<Rightarrow>
     item list outcome \<times> ('w, 'z) base_store_scheme" where
  "run_query E q s =
     (case q of None \<Rightarrow> (Inl '''', s) | Some q' \<Rightarrow> call (e_query E q') s)"

definition cached_instances ::
  "'w env \<Rightarrow> string \<Rightarrow> string \<Rightarrow> ('w, 'z) instance_store_scheme \<Rightarrow> ApplicationInstance list option" where
  "cached_instances E gid cid s =
     (if gid \<noteq> [] \<and> cid \<noteq> [] then
        cachedCategoryMembers (steady_now E s) (instanceByGroupAndClusterCache s) (pair_key gid cid)
      else if gid \<noteq> [] then
        cachedCategoryMembers (steady_now E s) (instanceByGroupCache s) gid
      else if cid \<noteq> [] then
        cachedCategoryMembers (steady_now E s) (instanceByClusterCache s) cid
      else None)"

definition instance_of_query_item :: "item \<Rightarrow> ApplicationInstance outcome" where
  "instance_of_query_item it =
     bindE (findOrThrow it ''name'' ''Instance record missing name attribute'') (\<lambda>name.
     bindE (findOrThrow it ''ID'' ''Instance record missing ID attribute'') (\<lambda>iid.
     bindE (findOrThrow it ''application''
              ''Instance record missing application attribute'') (\<lambda>application.
     bindE (findOrThrow it ''owningGroup''
              ''Instance record missing owning Group attribute'') (\<lambda>owner.
     bindE (findOrThrow it ''cluster'' ''Instance record missing cluster attribute'') (\<lambda>cluster.
     bindE (findOrThrow it ''ctime'' ''Instance record missing ctime attribute'') (\<lambda>ctime.
     Inr \<lparr>i_valid = True, i_id = GetS iid, i_name = GetS name, i_application = GetS application,
          i_owningGroup = GetS owner, i_cluster = GetS cluster, i_config = '''',
          i_ctime = GetS ctime\<rparr>))))))"

definition queried_instance ::
  "'w env \<Rightarrow> item \<Rightarrow> ApplicationInstance list \<Rightarrow>
     (('w, 'z) instance_store_scheme, ApplicationInstance list) op" where
  "queried_instance E it collected s =
     (case instance_of_query_item it of
        Inl e \<Rightarrow> (Inl e, s)
      | Inr i \<Rightarrow> (Inr (collected @ [i]), cache_instance E i s))"

definition complete_instances ::
  "'w env \<Rightarrow> string \<Rightarrow> string \<Rightarrow> ('w, 'z) instance_store_scheme \<Rightarrow> ('w, 'z) instance_store_scheme" where
  "complete_instances E gid cid s =
     (let expirationTime = steady_now E s + instanceCacheValidity
      in if gid \<noteq> [] \<and> cid \<noteq> [] then
           s\<lparr>instanceByGroupAndClusterCache := snd (mm_update_expiration (pair_key gid cid)
               expirationTime (instanceByGroupAndClusterCache s))\<rparr>
         else if gid \<noteq> [] then
           s\<lparr>instanceByGroupCache :=
               snd (mm_update_expiration gid expirationTime (instanceByGroupCache s))\<rparr>
         else if cid \<noteq> [] then
           s\<lparr>instanceByClusterCache :=
               snd (mm_update_expiration cid expirationTime (instanceByClusterCache s))\<rparr>
         else s)"

definition list_instances ::
  "'w env \<Rightarrow> string \<Rightarrow> string \<Rightarrow> (('w, 'z) instance_store_scheme, ApplicationInstance list) op" where
  "list_instances E gid cid s =
     (case cached_instances E gid cid s of
        Some results \<Rightarrow> (Inr results, count_hits (length results) s)
      | None \<Rightarrow>
          (case run_query E (group_cluster_query instanceTableName gid cid) (count_query s) of
             (Inl err, s1) \<Rightarrow> (Inr [], s1)
           | (Inr items, s1) \<Rightarrow>
               if items = [] then (Inr [], s1)
               else
                 (case foldM (queried_instance E) items [] s1 of
                    (Inl e, s2) \<Rightarrow> (Inl e, s2)
                  | (Inr instances, s2) \<Rightarrow> (Inr instances, complete_instances E gid cid s2))))"

definition listApplicationInstancesByClusterOrGroup ::
  "'w env \<Rightarrow> string \<Rightarrow> string \<Rightarrow> (('w, 'z) instance_store_scheme, ApplicationInstance list) op" where
  "listApplicationInstancesByClusterOrGroup E g c = normalized_filter E g c [] (list_instances E)"

definition instance_of_name_item :: "string \<Rightarrow> item \<Rightarrow> ApplicationInstance outcome" where
  "instance_of_name_item name it =
     bindE (findOrThrow it ''ID'' ''Instance record missing ID attribute'') (\<lambda>iid.
     bindE (findOrThrow it ''application''
              ''Instance record missing application attribute'') (\<lambda>application.
     bindE (findOrThrow it ''owningGroup''
              ''Instance record missing owning Group attribute'') (\<lambda>owner.
     bindE (findOrThrow it ''cluster'' ''Instance record missing cluster attribute'') (\<lambda>cluster.
     bindE (findOrThrow it ''ctime'' ''Instance record missing ctime attribute'') (\<lambda>ctime.
     Inr \<lparr>i_valid = True, i_id = GetS iid, i_name = name, i_application = GetS application,
          i_owningGroup = GetS owner, i_cluster = GetS cluster, i_config = '''',
          i_ctime = GetS ctime\<rparr>)))))"

definition named_instance ::
  "'w env \<Rightarrow> string \<Rightarrow> item \<Rightarrow> ApplicationInstance list \<Rightarrow>
     (('w, 'z) instance_store_scheme, ApplicationInstance list) op" where
  "named_instance E name it collected s =
     (case instance_of_name_item name it of
        Inl e \<Rightarrow> (Inl e, s)
      | Inr i \<Rightarrow> (Inr (collected @ [i]), cache_instance E i s))"

definition findInstancesByName ::
  "'w env \<Rightarrow> string \<Rightarrow> (('w, 'z) instance_store_scheme, ApplicationInstance list) op" where
  "findInstancesByName E name s =
     (case call (e_query E \<lparr>q_table = instanceTableName, q_index = Some ''ByName'',
             q_key = Attr_eq ''name'' (AV_S name), q_filter = None\<rparr>) (count_query s) of
        (Inl err, s1) \<Rightarrow> (Inr [], s1)
      | (Inr items, s1) \<Rightarrow> foldM (named_instance E name) items [] s1)"

end
