(* ===== verification/SecretStore.thy ===== *)
theory SecretStore
  imports InstanceStore
begin

text \<open>
  Secrets in \<open>PersistentStore\<close> (\<open>src/PersistentStore.cpp\<close>): the key they are encrypted with,
  encryption and decryption through scrypt (an external library: \<open>e_scryptEnc\<close> and
  \<open>e_scryptDec\<close> of the environment), the secrets table and its caches.
\<close>

section \<open>State\<close>

definition secretTableName :: string where "secretTableName = ''SLATE_secrets''"

definition secretCacheValidity :: time where "secretCacheValidity = seconds (5 * 60)"

record 'w secret_store = "'w instance_store" +
  secretKey :: string
  secretCache :: "(string, Secret CacheRecord) cuckoo"
  secretByGroupCache :: "(string, Secret CacheRecord) multimap"
  secretByGroupAndClusterCache :: "(string, Secret CacheRecord) multimap"

definition cache_secret ::
  "'w env \<Rightarrow> Secret \<Rightarrow> ('w, 'z) secret_store_scheme \<Rightarrow> ('w, 'z) secret_store_scheme" where
  "cache_secret E secret s =
     (let now = steady_now E s;
          record = cr_fresh secret now secretCacheValidity
      in s\<lparr>secretCache := replaceCacheRecord (secretCache s) (s_id secret) record,
           secretByGroupCache := snd (mm_insert_or_assign (cr_eq secret_eq) now
             (s_group secret) record (secretByGroupCache s)),
           secretByGroupAndClusterCache := snd (mm_insert_or_assign (cr_eq secret_eq) now
             (pair_key (s_group secret) (s_cluster secret)) record
             (secretByGroupAndClusterCache s))\<rparr>)"

section \<open>Encryption\<close>

text \<open>At most 1024 bytes of the key file are used; the argument is its content, if it opens.\<close>

definition loadEncryptionKey ::
  "string \<Rightarrow> string option \<Rightarrow> (('w, 'z) secret_store_scheme, unit) op" where
  "loadEncryptionKey fileName content s =
     (case content of
        None \<Rightarrow> (Inl (''Unable to open '' @ fileName @ '' to read encryption key''), s)
      | Some bytes \<Rightarrow>
          if take 1024 bytes = [] then (Inl ''Failed to read encryption key'', s)
          else (Inr (), s\<lparr>secretKey := take 1024 bytes\<rparr>))"

definition encryptSecret ::
  "'w env \<Rightarrow> string \<Rightarrow> (('w, 'z) secret_store_scheme, string) op" where
  "encryptSecret E d s =
     (case call (e_scryptEnc E (secretKey s) d (length d + 128)) s of
        (Inl err, s1) \<Rightarrow> (Inl (''Failed to encrypt with scrypt: error '' @ show_int err), s1)
      | (Inr result, s1) \<Rightarrow> (Inr result, s1))"

definition decryptSecret ::
  "'w env \<Rightarrow> Secret \<Rightarrow> (('w, 'z) secret_store_scheme, string) op" where
  "decryptSecret E secret s =
     (if length (s_data secret) < 128
      then (Inl ''Invalid encrypted data: too short to contain header'', s)
      else case e_scryptDec E (secretKey s) (s_data secret) of
             Inl err \<Rightarrow> (Inl (''Failed to decrypt with scrypt: error '' @ show_int err), s)
           | Inr output \<Rightarrow> (Inr output, s))"

section \<open>Adding and removing\<close>

definition secret_item :: "Secret \<Rightarrow> item" where
  "secret_item secret =
     [(''ID'', AV_S (s_id secret)),
      (''sortKey'', AV_S (s_id secret)),
      (''name'', AV_S (s_name secret)),
      (''owningGroup'', AV_S (s_group secret)),
      (''cluster'', AV_S (s_cluster secret)),
      (''ctime'', AV_S (s_ctime secret)),
      (''contents'', AV_B (s_data secret))]"

definition addSecret :: "'w env \<Rightarrow> Secret \<Rightarrow> (('w, 'z) secret_store_scheme, bool) op" where
  "addSecret E secret s =
     (if take 6 (s_data secret) \<noteq> ''scrypt''
      then (Inl ''Secret data does not have valid encryption header'', s)
      else if length (s_data secret) < 128
      then (Inl ''Secret data does not have valid encryption header'', s)
      else
        (case call (e_put E secretTableName (secret_item secret)) s of
           (Inl err, s1) \<Rightarrow> (Inr False, s1)
         | (Inr _, s1) \<Rightarrow> (Inr True, cache_secret E secret s1)))"

text \<open>From the cache by group and cluster the whole category is dropped.\<close>

definition uncache_secret ::
  "string \<Rightarrow> ('w, 'z) secret_store_scheme \<Rightarrow> ('w, 'z) secret_store_scheme" where
  "uncache_secret sid s =
     (let s1 = (case cuckoo_find (secretCache s) sid of
                  None \<Rightarrow> s
                | Some record \<Rightarrow>
                    s\<lparr>secretByGroupCache := snd (mm_erase (cr_eq secret_eq)
                        (s_group (cr_record record)) record (secretByGroupCache s)),
                      secretByGroupAndClusterCache := snd (mm_erase_key
                        (pair_key (s_group (cr_record record)) (s_cluster (cr_record record)))
                        (secretByGroupAndClusterCache s))\<rparr>)
      in s1\<lparr>secretCache := cuckoo_erase sid (secretCache s1)\<rparr>)"

definition removeSecret :: "'w env \<Rightarrow> string \<Rightarrow> (('w, 'z) secret_store_scheme, bool) op" where
  "removeSecret E sid s =
     (case call (e_delete E secretTableName (entity_key sid) None) (uncache_secret sid s) of
        (Inl err, s1) \<Rightarrow> (Inr False, s1)
      | (Inr _, s1) \<Rightarrow> (Inr True, s1))"

section \<open>Looking secrets up\<close>

definition secret_of_ID_item :: "string \<Rightarrow> item \<Rightarrow> Secret outcome" where
  "secret_of_ID_item sid it =
     bindE (findOrThrow it ''name'' ''Secret record missing name attribute'') (\<lambda>name.
     bindE (findOrThrow it ''owningGroup''
              ''Secret record missing owning group attribute'') (\<lambda>owner.
     bindE (findOrThrow it ''cluster'' ''Secret record missing cluster attribute'') (\<lambda>cluster.
     bindE (findOrThrow it ''ctime'' ''Secret record missing ctime attribute'') (\<lambda>ctime.
     bindE (findOrThrow it ''contents'' ''Secret record missing contents attribute'') (\<lambda>d.
     Inr \<lparr>s_valid = True, s_id = sid, s_name = GetS name, s_group = GetS owner,
          s_cluster = GetS cluster, s_ctime = GetS ctime, s_data = GetB d\<rparr>)))))"

definition getSecret :: "'w env \<Rightarrow> string \<Rightarrow> (('w, 'z) secret_store_scheme, Secret) op" where
  "getSecret E sid s =
     (case cached (steady_now E s) (secretCache s) sid of
        Some secret \<Rightarrow> (Inr secret, count_hits 1 s)
      | None \<Rightarrow>
          (case call (e_get E secretTableName (entity_key sid)) (count_query s) of
             (Inl err, s1) \<Rightarrow> (Inr no_secret, s1)
           | (Inr it, s1) \<Rightarrow>
               if it = [] then (Inr no_secret, s1)
               else (case secret_of_ID_item sid it of
                       Inl e \<Rightarrow> (Inl e, s1)
                     | Inr secret \<Rightarrow> (Inr secret, cache_secret E secret s1))))"

definition secret_of_query_item :: "string \<Rightarrow> string \<Rightarrow> item \<Rightarrow> Secret outcome" where
  "secret_of_query_item gid cid it =
     bindE (findOrThrow it ''name'' ''Secret record missing name attribute'') (\<lambda>name.
     bindE (findOrThrow it ''ID'' ''Secret record missing ID attribute'') (\<lambda>sid.
     bindE (if gid = []
            then findOrThrow it ''owningGroup'' ''Secret record missing owning group attribute''
            else Inr (AV_S gid)) (\<lambda>owner.
     bindE (if cid = []
            then findOrThrow it ''cluster'' ''Secret record missing cluster attribute''
            else Inr (AV_S cid)) (\<lambda>cluster.
     bindE (findOrThrow it ''ctime'' ''Secret record missing ctime attribute'') (\<lambda>ctime.
     bindE (findOrThrow it ''contents'' ''Secret record missing contents attribute'') (\<lambda>d.
     Inr \<lparr>s_valid = True, s_id = GetS sid, s_name = GetS name, s_group = GetS owner,
          s_cluster = GetS cluster, s_ctime = GetS ctime, s_data = GetB d\<rparr>))))))"

definition queried_secret ::
  "'w env \<Rightarrow> string \<Rightarrow> string \<Rightarrow> item \<Rightarrow> Secret list \<Rightarrow>
     (('w, 'z) secret_store_scheme, Secret list) op" where
  "queried_secret E gid cid it secrets s =
     (case secret_of_query_item gid cid it of
        Inl e \<Rightarrow> (Inl e, s)
      | Inr secret \<Rightarrow> (Inr (secrets @ [secret]), cache_secret E secret s))"

text \<open>There is no cache for all secrets of a cluster.\<close>

definition cached_secrets ::
  "'w env \<Rightarrow> string \<Rightarrow> string \<Rightarrow> ('w, 'z) secret_store_scheme \<Rightarrow> Secret list option" where
  "cached_secrets E gid cid s =
     (if gid \<noteq> [] \<and> cid \<noteq> [] then
        cachedCategoryMembers (steady_now E s) (secretByGroupAndClusterCache s) (pair_key gid cid)
      else if gid \<noteq> [] then
        cachedCategoryMembers (steady_now E s) (secretByGroupCache s) gid
      else None)"

definition complete_secrets ::
  "'w env \<Rightarrow> string \<Rightarrow> string \<Rightarrow> ('w, 'z) secret_store_scheme \<Rightarrow> ('w, 'z) secret_store_scheme" where
  "complete_secrets E gid cid s =
     (let expirationTime = steady_now E s + secretCacheValidity
      in if cid \<noteq> [] then
           s\<lparr>secretByGroupAndClusterCache := snd (mm_update_expiration (pair_key gid cid)
               expirationTime (secretByGroupAndClusterCache s))\<rparr>
         else
           s\<lparr>secretByGroupCache :=
               snd (mm_update_expiration gid expirationTime (secretByGroupCache s))\<rparr>)"

definition list_secrets ::
  "'w env \<Rightarrow> string \<Rightarrow> string \<Rightarrow> (('w, 'z) secret_store_scheme, Secret list) op" where
  "list_secrets E gid cid s =
     (case cached_secrets E gid cid s of
        Some results \<Rightarrow> (Inr results, count_hits (length results) s)
      | None \<Rightarrow>
          (case run_query E (group_cluster_query secretTableName gid cid) (count_query s) of
             (Inl err, s1) \<Rightarrow> (Inr [], s1)
           | (Inr items, s1) \<Rightarrow>
               (case foldM (queried_secret E gid cid) items [] s1 of
                  (Inl e, s2) \<Rightarrow> (Inl e, s2)
                | (Inr secrets, s2) \<Rightarrow> (Inr secrets, complete_secrets E gid cid s2))))"

text \<open>
  The assertion that a group or a cluster is given is compiled out in release builds; without
  either, the outcome of no query counts as a failed one.
\<close>

definition listSecrets ::
  "'w env \<Rightarrow> string \<Rightarrow> string \<Rightarrow> (('w, 'z) secret_store_scheme, Secret list) op" where
  "listSecrets E g c = normalized_filter E g c [] (list_secrets E)"

definition findSecretByName ::
  "'w env \<Rightarrow> string \<Rightarrow> string \<Rightarrow> string \<Rightarrow> (('w, 'z) secret_store_scheme, Secret) op" where
  "findSecretByName E g c name =
     bindM (listSecrets E g c) (\<lambda>secrets.
       ret (case List.find (\<lambda>secret. s_name secret = name) secrets of
              None \<Rightarrow> no_secret | Some secret \<Rightarrow> secret))"

end
