(* ===== verification/VolumeStore.thy ===== *)
theory VolumeStore
  imports SecretStore
begin

text \<open>
  Persistent volume claims in \<open>PersistentStore\<close> (\<open>src/PersistentStore.cpp\<close>): the volumes table,
  its caches by ID, by group, by cluster and by both, and the listing operations.  The
  selector labels of a claim are not stored (the source has them commented out), so a claim
  read back has none.
\<close>

section \<open>State\<close>

definition volumeTableName :: string where "volumeTableName = ''SLATE_volumes''"

definition volumeCacheValidity :: time where "volumeCacheValidity = seconds (5 * 60)"

record 'w volume_store = "'w secret_store" +
  volumeCacheExpirationTime :: time
  volumeCache :: "(string, PersistentVolumeClaim CacheRecord) cuckoo"
  volumeByGroupCache :: "(string, PersistentVolumeClaim CacheRecord) multimap"
  volumeByClusterCache :: "(string, PersistentVolumeClaim CacheRecord) multimap"
  volumeByGroupAndClusterCache :: "(string, PersistentVolumeClaim CacheRecord) multimap"

definition add_volume ::
  "time \<Rightarrow> string \<Rightarrow> PersistentVolumeClaim CacheRecord \<Rightarrow>
     (string, PersistentVolumeClaim CacheRecord) multimap \<Rightarrow>
     (string, PersistentVolumeClaim CacheRecord) multimap" where
  "add_volume now key record cache =
     snd (mm_insert_or_assign (cr_eq volume_eq) now key record cache)"

definition cache_volume ::
  "'w env \<Rightarrow> PersistentVolumeClaim \<Rightarrow> ('w, 'z) volume_store_scheme \<Rightarrow>
     ('w, 'z) volume_store_scheme" where
  "cache_volume E pvc s =
     (let now = steady_now E s;
          record = cr_fresh pvc now volumeCacheValidity
      in s\<lparr>volumeCache := replaceCacheRecord (volumeCache s) (v_id pvc) record,
           volumeByGroupCache := add_volume now (v_group pvc) record (volumeByGroupCache s),
           volumeByClusterCache := add_volume now (v_cluster pvc) record (volumeByClusterCache s),
           volumeByGroupAndClusterCache := add_volume now (pair_key (v_group pvc) (v_cluster pvc))
             record (volumeByGroupAndClusterCache s)\<rparr>)"

section \<open>Adding and removing\<close>

definition volume_item :: "PersistentVolumeClaim \<Rightarrow> item" where
  "volume_item pvc =
     [(''ID'', AV_S (v_id pvc)),
      (''sortKey'', AV_S (v_id pvc)),
      (''name'', AV_S (v_name pvc)),
      (''owningGroup'', AV_S (v_group pvc)),
      (''cluster'', AV_S (v_cluster pvc)),
      (''storageRequest'', AV_S (v_storageRequest pvc)),
      (''accessMode'', AV_S (accessMode_to_string (v_accessMode pvc))),
      (''volumeMode'', AV_S (volumeMode_to_string (v_volumeMode pvc))),
      (''storageClass'', AV_S (v_storageClass pvc)),
      (''ctime'', AV_S (v_ctime pvc))]"

definition addPersistentVolumeClaim ::
  "'w env \<Rightarrow> PersistentVolumeClaim \<Rightarrow> (('w, 'z) volume_store_scheme, bool) op" where
  "addPersistentVolumeClaim E pvc s =
     (case call (e_put E volumeTableName (volume_item pvc)) s of
        (Inl err, s1) \<Rightarrow> (Inr False, s1)
      | (Inr _, s1) \<Rightarrow> (Inr True, cache_volume E pvc s1))"

definition uncache_volume ::
  "string \<Rightarrow> ('w, 'z) volume_store_scheme \<Rightarrow> ('w, 'z) volume_store_scheme" where
  "uncache_volume vid s =
     (let s1 = (case cuckoo_find (volumeCache s) vid of
                  None \<Rightarrow> s
                | Some record \<Rightarrow>
                    (let pvc = cr_record record
                     in s\<lparr>volumeByGroupCache :=
                            snd (mm_erase (cr_eq volume_eq) (v_group pvc) record
                              (volumeByGroupCache s)),
                          volumeByClusterCache :=
                            snd (mm_erase (cr_eq volume_eq) (v_cluster pvc) record
                              (volumeByClusterCache s)),
                          volumeByGroupAndClusterCache :=
                            snd (mm_erase_key (pair_key (v_group pvc) (v_cluster pvc))
                              (volumeByGroupAndClusterCache s))\<rparr>))
      in s1\<lparr>volumeCache := cuckoo_erase vid (volumeCache s1)\<rparr>)"

definition removePersistentVolumeClaim ::
  "'w env \<Rightarrow> string \<Rightarrow> (('w, 'z) volume_store_scheme, bool) op" where
  "removePersistentVolumeClaim E vid s =
     (case call (e_delete E volumeTableName (entity_key vid) None) (uncache_volume vid s) of
        (Inl err, s1) \<Rightarrow> (Inr False, s1)
      | (Inr _, s1) \<Rightarrow> (Inr True, s1))"

section \<open>Looking claims up\<close>

text \<open>
  The attributes after the identifier, in the order in which the lookup by ID checks them.  The
  listings read the creation time before the storage class.
\<close>

definition volume_record ::
  "string \<Rightarrow> AttributeValue \<Rightarrow> AttributeValue \<Rightarrow> AttributeValue \<Rightarrow> AttributeValue \<Rightarrow> AccessMode \<Rightarrow>
     VolumeMode \<Rightarrow> AttributeValue \<Rightarrow> AttributeValue \<Rightarrow> PersistentVolumeClaim" where
  "volume_record vid name owner cluster storage am vm storageClass ctime =
     \<lparr>v_valid = True, v_id = vid, v_name = GetS name, v_group = GetS owner,
      v_cluster = GetS cluster, v_storageRequest = GetS storage, v_accessMode = am,
      v_volumeMode = vm, v_storageClass = GetS storageClass, v_selectorMatchLabel = '''',
      v_ctime = GetS ctime, v_selectorLabelExpressions = []\<rparr>"

definition volume_of_ID_item :: "string \<Rightarrow> item \<Rightarrow> PersistentVolumeClaim outcome" where
  "volume_of_ID_item vid it =
     bindE (findOrThrow it ''name'' ''Volume record missing name attribute'') (\<lambda>name.
     bindE (findOrThrow it ''owningGroup''
              ''Volume record missing owning group attribute'') (\<lambda>owner.
     bindE (findOrThrow it ''cluster'' ''Volume record missing cluster attribute'') (\<lambda>cluster.
     bindE (findOrThrow it ''storageRequest''
              ''Volume record missing storageRequest attribute'') (\<lambda>storage.
     bindE (findOrThrow it ''accessMode''
              ''Volume record missing accessMode attribute'') (\<lambda>ams.
     bindE (accessModeFromString (GetS ams)) (\<lambda>am.
     bindE (findOrThrow it ''volumeMode''
              ''Volume record missing volumeMode attribute'') (\<lambda>vms.
     bindE (volumeModeFromString (GetS vms)) (\<lambda>vm.
     bindE (findOrThrow it ''storageClass''
              ''Volume record missing storageClass attribute'') (\<lambda>storageClass.
     bindE (findOrThrow it ''ctime'' ''Volume missing ctime attribute'') (\<lambda>ctime.
     Inr (volume_record vid name owner cluster storage am vm storageClass ctime)))))))))))"

definition getPersistentVolumeClaim ::
  "'w env \<Rightarrow> string \<Rightarrow> (('w, 'z) volume_store_scheme, PersistentVolumeClaim) op" where
  "getPersistentVolumeClaim E vid s =
     (case cached (steady_now E s) (volumeCache s) vid of
        Some pvc \<Rightarrow> (Inr pvc, count_hits 1 s)
      | None \<Rightarrow>
          (case call (e_get E volumeTableName (entity_key vid)) (count_query s) of
             (Inl err, s1) \<Rightarrow> (Inr no_volume, s1)
           | (Inr it, s1) \<Rightarrow>
               if it = [] then (Inr no_volume, s1)
               else (case volume_of_ID_item vid it of
                       Inl e \<Rightarrow> (Inl e, s1)
                     | Inr pvc \<Rightarrow> (Inr pvc, cache_volume E pvc s1))))"

definition volume_of_list_item :: "item \<Rightarrow> PersistentVolumeClaim outcome" where
  "volume_of_list_item it =
     bindE (findOrThrow it ''ID'' ''Volume record missing ID attribute'') (\<lambda>vid.
     bindE (findOrThrow it ''name'' ''Volume record missing name attribute'') (\<lambda>name.
     bindE (findOrThrow it ''owningGroup''
              ''Volume record missing owning group attribute'') (\<lambda>owner.
     bindE (findOrThrow it ''cluster'' ''Volume record missing cluster attribute'') (\<lambda>cluster.
     bindE (findOrThrow it ''storageRequest''
              ''Volume record missing storageRequest attribute'') (\<lambda>storage.
     bindE (findOrThrow it ''accessMode''
              ''Volume record missing accessMode attribute'') (\<lambda>ams.
     bindE (accessModeFromString (GetS ams)) (\<lambda>am.
     bindE (findOrThrow it ''volumeMode''
              ''Volume record missing volumeMode attribute'') (\<lambda>vms.
     bindE (volumeModeFromString (GetS vms)) (\<lambda>vm.
     bindE (findOrThrow it ''ctime'' ''Volume missing ctime attribute'') (\<lambda>ctime.
     bindE (findOrThrow it ''storageClass''
              ''Volume record missing storageClass attribute'') (\<lambda>storageClass.
     Inr (volume_record (GetS vid) name owner cluster storage am vm storageClass ctime))))))))))))"

section \<open>Listing\<close>

text \<open>The scan also collects the groups and clusters it has seen.\<close>

type_synonym volume_scan = "PersistentVolumeClaim list \<times> string set \<times> string set"

definition listPersistentVolumeClaims_body ::
  "'w env \<Rightarrow> item \<Rightarrow> volume_scan \<Rightarrow> (('w, 'z) volume_store_scheme, volume_scan) op" where
  "listPersistentVolumeClaims_body E it acc s =
     (case acc of (collected, allGroups, allClusters) \<Rightarrow>
        (case volume_of_list_item it of
           Inl e \<Rightarrow> (Inl e, s)
         | Inr pvc \<Rightarrow>
             (Inr (collected @ [pvc], insert (v_group pvc) allGroups,
                   insert (v_cluster pvc) allClusters),
              cache_volume E pvc s)))"

definition set_expirations ::
  "time \<Rightarrow> string list \<Rightarrow> (string, PersistentVolumeClaim CacheRecord) multimap \<Rightarrow>
     (string, PersistentVolumeClaim CacheRecord) multimap" where
  "set_expirations t keys cache = fold (\<lambda>k m. snd (mm_update_expiration k t m)) keys cache"

definition complete_all_volumes ::
  "'w env \<Rightarrow> string set \<Rightarrow> string set \<Rightarrow> ('w, 'z) volume_store_scheme \<Rightarrow> ('w, 'z) volume_store_scheme" where
  "complete_all_volumes E allGroups allClusters s =
     (let expirationTime = steady_now E s + volumeCacheValidity;
          groups = sorted_list_of_set allGroups;
          clusters = sorted_list_of_set allClusters
      in s\<lparr>volumeCacheExpirationTime := expirationTime,
           volumeByGroupCache := set_expirations expirationTime groups (volumeByGroupCache s),
           volumeByClusterCache := set_expirations expirationTime clusters (volumeByClusterCache s),
           volumeByGroupAndClusterCache :=
             set_expirations expirationTime
               (concat (map (\<lambda>c. map (\<lambda>g. pair_key g c) groups) clusters))
               (volumeByGroupAndClusterCache s)\<rparr>)"

definition listPersistentVolumeClaims :: "'w env \<Rightarrow> nat \<Rightarrow> ('w, 'z) volume_store_scheme \<Rightarrow>
    (PersistentVolumeClaim list outcome \<times> ('w, 'z) volume_store_scheme) option" where
  "listPersistentVolumeClaims E budget s =
     (if volumeCacheExpirationTime s > steady_now E s
      then Some (Inr (map (cr_record \<circ> snd) (volumeCache s)),
                 count_hits (length (volumeCache s)) s)
      else case scan_loop budget E volumeTableName None
                  (listPersistentVolumeClaims_body E) [] ([], {}, {}) (count_scan s) of
             None \<Rightarrow> None
           | Some (Inl e, s1) \<Rightarrow> Some (Inl e, s1)
           | Some (Inr (Returned (collected, _, _)), s1) \<Rightarrow> Some (Inr collected, s1)
           | Some (Inr (Finished (collected, allGroups, allClusters)), s1) \<Rightarrow>
               Some (Inr collected, complete_all_volumes E allGroups allClusters s1))"

definition cached_volumes ::
  "'w env \<Rightarrow> string \<Rightarrow> string \<Rightarrow> ('w, 'z) volume_store_scheme \<Rightarrow> PersistentVolumeClaim list option" where
  "cached_volumes E gid cid s =
     (if gid \<noteq> [] \<and> cid \<noteq> [] then
        cachedCategoryMembers (steady_now E s) (volumeByGroupAndClusterCache s) (pair_key gid cid)
      else if gid \<noteq> [] then
        cachedCategoryMembers (steady_now E s) (volumeByGroupCache s) gid
      else if cid \<noteq> [] then
        cachedCategoryMembers (steady_now E s) (volumeByClusterCache s) cid
      else None)"

text \<open>
  Unlike every other place that caches a claim, this one does not add it to the cache by
  cluster.
\<close>

definition queried_volume ::
  "'w env \<Rightarrow> item \<Rightarrow> PersistentVolumeClaim list \<Rightarrow>
     (('w, 'z) volume_store_scheme, PersistentVolumeClaim list) op" where
  "queried_volume E it volumes s =
     (case volume_of_list_item it of
        Inl e \<Rightarrow> (Inl e, s)
      | Inr pvc \<Rightarrow>
          (let now = steady_now E s;
               record = cr_fresh pvc now volumeCacheValidity
           in (Inr (volumes @ [pvc]),
               s\<lparr>volumeCache := replaceCacheRecord (volumeCache s) (v_id pvc) record,
                 volumeByGroupCache := add_volume now (v_group pvc) record (volumeByGroupCache s),
                 volumeByGroupAndClusterCache := add_volume now
                   (pair_key (v_group pvc) (v_cluster pvc)) record
                   (volumeByGroupAndClusterCache s)\<rparr>)))"

definition complete_volumes ::
  "'w env \<Rightarrow> string \<Rightarrow> string \<Rightarrow> ('w, 'z) volume_store_scheme \<Rightarrow> ('w, 'z) volume_store_scheme" where
  "complete_volumes E gid cid s =
     (let expirationTime = steady_now E s + volumeCacheValidity
      in if gid \<noteq> [] \<and> cid \<noteq> [] then
           s\<lparr>volumeByGroupAndClusterCache := snd (mm_update_expiration (pair_key gid cid)
               expirationTime (volumeByGroupAndClusterCache s))\<rparr>
         else if gid \<noteq> [] then
           s\<lparr>volumeByGroupCache :=
               snd (mm_update_expiration gid expirationTime (volumeByGroupCache s))\<rparr>
         else if cid \<noteq> [] then
           s\<lparr>volumeByClusterCache :=
               snd (mm_update_expiration cid expirationTime (volumeByClusterCache s))\<rparr>
         else s)"

definition list_volumes ::
  "'w env \<Rightarrow> string \<Rightarrow> string \<Rightarrow>
     (('w, 'z) volume_store_scheme, PersistentVolumeClaim list) op" where
  "list_volumes E gid cid s =
     (case cached_volumes E gid cid s of
        Some results \<Rightarrow> (Inr results, count_hits (length results) s)
      | None \<Rightarrow>
          (case run_query E (group_cluster_query volumeTableName gid cid) (count_query s) of
             (Inl err, s1) \<Rightarrow> (Inr [], s1)
           | (Inr items, s1) \<Rightarrow>
               if items = [] then (Inr [], s1)
               else
                 (case foldM (queried_volume E) items [] s1 of
                    (Inl e, s2) \<Rightarrow> (Inl e, s2)
                  | (Inr volumes, s2) \<Rightarrow> (Inr volumes, complete_volumes E gid cid s2))))"

definition listPersistentVolumeClaimsByClusterOrGroup ::
  "'w env \<Rightarrow> string \<Rightarrow> string \<Rightarrow>
     (('w, 'z) volume_store_scheme, PersistentVolumeClaim list) op" where
  "listPersistentVolumeClaimsByClusterOrGroup E g c = normalized_filter E g c [] (list_volumes E)"

definition findPersistentVolumeClaimByName ::
  "'w env \<Rightarrow> string \<Rightarrow> string \<Rightarrow> string \<Rightarrow>
     (('w, 'z) volume_store_scheme, PersistentVolumeClaim) op" where
  "findPersistentVolumeClaimByName E g c name =
     bindM (listPersistentVolumeClaimsByClusterOrGroup E g c) (\<lambda>volumes.
       ret (case List.find (\<lambda>volume. v_name volume = name) volumes of
              None \<Rightarrow> no_volume | Some volume \<Rightarrow> volume))"

end
