(* ===== verification/TextUtil.thy ===== *)
theory TextUtil
  imports Prelude
begin

text \<open>
  The string routines of \<open>src/ServerUtilities.cpp\<close> and \<open>src/Utilities.cpp\<close>: trimming and
  splitting command output, quoting and unquoting, removal of terminal escapes, memory
  quantities, version comparison, and the two name validators.  Character classes are those of
  the C locale, in which the server runs.  Positions are natural numbers; the code's own
  \<open>size_t\<close> positions never exceed a string's length, so they do not wrap.
\<close>

section \<open>Character classes\<close>

definition code :: "char \<Rightarrow> nat" where
  "code c = of_char c"

definition isdigit :: "char \<Rightarrow> bool" where
  "isdigit c \<longleftrightarrow> 48 \<le> code c \<and> code c \<le> 57"

definition islower :: "char \<Rightarrow> bool" where
  "islower c \<longleftrightarrow> 97 \<le> code c \<and> code c \<le> 122"

definition isupper :: "char \<Rightarrow> bool" where
  "isupper c \<longleftrightarrow> 65 \<le> code c \<and> code c \<le> 90"

definition isalpha :: "char \<Rightarrow> bool" where
  "isalpha c \<longleftrightarrow> islower c \<or> isupper c"

definition isalnum :: "char \<Rightarrow> bool" where
  "isalnum c \<longleftrightarrow> isalpha c \<or> isdigit c"

definition isspace :: "char \<Rightarrow> bool" where
  "isspace c \<longleftrightarrow> code c = 32 \<or> (9 \<le> code c \<and> code c \<le> 13)"

definition tolower :: "char \<Rightarrow> char" where
  "tolower c = (if isupper c then char_of (code c + 32) else c)"

named_theorems char_class \<open>the character classes of the C locale\<close>

declare code_def [char_class] isdigit_def [char_class] islower_def [char_class]
  isupper_def [char_class] isalpha_def [char_class] isalnum_def [char_class]
  isspace_def [char_class]

section \<open>Searching\<close>

text \<open>\<open>s.find(p)\<close>, with \<open>None\<close> for \<open>npos\<close>.\<close>

fun find_sub :: "string \<Rightarrow> string \<Rightarrow> nat option" where
  "find_sub p [] = (if p = [] then Some 0 else None)"
| "find_sub p (c # s) = (if begins_with p (c # s) then Some 0 else map_option Suc (find_sub p s))"

lemma find_sub_bound: "find_sub p s = Some i \<Longrightarrow> i + length p \<le> length s"
proof (induction s arbitrary: i)
  case Nil
  then show ?case by (simp split: if_splits)
next
  case (Cons c s)
  have "length p \<le> length (c # s)" if "begins_with p (c # s)"
    using that by (metis begins_with_def length_take min.cobounded1)
  with Cons show ?case by (auto split: if_splits)
qed

lemma find_sub_None_iff: "find_sub p s = None \<longleftrightarrow> \<not> occurs_in p s"
  by (induction s) auto

lemma find_sub_at: "find_sub p s = Some i \<Longrightarrow> take (length p) (drop i s) = p"
  by (induction s arbitrary: i) (auto simp: begins_with_def split: if_splits)

section \<open>Trimming and splitting\<close>

definition trim :: "string \<Rightarrow> string" where
  "trim s = rev (dropWhile isspace (rev (dropWhile isspace s)))"

text \<open>Repeated \<open>getline\<close>: a delimiter ends a piece, and nothing after the last one is no piece.\<close>

function getlines :: "char \<Rightarrow> string \<Rightarrow> string list" where
  "getlines d [] = []"
| "getlines d (c # s) =
     takeWhile (\<lambda>x. x \<noteq> d) (c # s) # getlines d (tl (dropWhile (\<lambda>x. x \<noteq> d) (c # s)))"
  by pat_completeness auto
termination
proof (relation "measure (length \<circ> snd)")
  fix d c and s :: string
  have "length (dropWhile (\<lambda>x. x \<noteq> d) (c # s)) \<le> Suc (length s)"
    using length_dropWhile_le [of "\<lambda>x. x \<noteq> d" "c # s"] by simp
  then show "((d, tl (dropWhile (\<lambda>x. x \<noteq> d) (c # s))), d, c # s) \<in> measure (length \<circ> snd)"
    by (simp add: le_imp_less_Suc)
qed simp

definition string_split_lines :: "string \<Rightarrow> string list" where
  "string_split_lines text = getlines (CHR 0x0A) text"

definition string_split_columns :: "string \<Rightarrow> char \<Rightarrow> bool \<Rightarrow> string list" where
  "string_split_columns line delim keepEmpty =
     filter (\<lambda>token. token \<noteq> [] \<or> keepEmpty) (map trim (getlines delim line))"

section \<open>Escapes and quotes\<close>

text \<open>
  One round of \<open>unescape\<close>: replace the first occurrence of a backslash and \<open>c\<close> by \<open>d\<close>, and
  search again from the start, so that text made by a replacement can be replaced too.
\<close>

function unescape_item :: "char \<Rightarrow> char \<Rightarrow> string \<Rightarrow> string" where
  "unescape_item c d s =
     (case find_sub [CHR 0x5C, c] s of
        None \<Rightarrow> s
      | Some i \<Rightarrow> unescape_item c d (take i s @ [d] @ drop (i + 2) s))"
  by pat_completeness auto
termination
  by (relation "measure (\<lambda>(c, d, s). length s)") (auto dest!: find_sub_bound)

declare unescape_item.simps [simp del]

definition unescape :: "string \<Rightarrow> string" where
  "unescape message =
     unescape_item (CHR 0x22) (CHR 0x22)
       (unescape_item (CHR 0x5C) (CHR 0x5C)
         (unescape_item (CHR ''t'') (CHR 0x09)
           (unescape_item (CHR ''n'') (CHR 0x0A) message)))"

text \<open>
  Each single quote at position \<open>i\<close> of a string of length \<open>n\<close> closes the quoted text before
  it and opens the one after it, where there is any.
\<close>

definition escaped_quote :: "nat \<Rightarrow> nat \<Rightarrow> string" where
  "escaped_quote n i =
     (if i \<noteq> 0 then [CHR 0x27] else []) @ [CHR 0x5C, CHR 0x27] @
     (if i < n - 1 then [CHR 0x27] else [])"

fun escape_from :: "nat \<Rightarrow> nat \<Rightarrow> string \<Rightarrow> string" where
  "escape_from n i [] = []"
| "escape_from n i (c # s) =
     (if c = CHR 0x27 then escaped_quote n i else [c]) @ escape_from n (Suc i) s"

definition shellEscapeSingleQuotes :: "string \<Rightarrow> string" where
  "shellEscapeSingleQuotes raw = (if raw = [] then raw else escape_from (length raw) 0 raw)"

text \<open>
  \<open>replaceString\<close> also searches from the start after each replacement, and so never ends when
  the replacement brings back the target: the loop is a partial function, with \<open>None\<close> for that.
\<close>

partial_function (option) replace_loop ::
  "string \<Rightarrow> string \<Rightarrow> nat \<Rightarrow> nat \<Rightarrow> string \<Rightarrow> string option" where
  "replace_loop target replacement subs replacements src =
     (case find_sub target src of
        None \<Rightarrow> Some src
      | Some pos \<Rightarrow>
          (let src' = take pos src @ replacement @ drop (pos + length target) src
           in if subs \<noteq> 0 \<and> replacements + 1 \<ge> subs then Some src'
              else replace_loop target replacement subs (replacements + 1) src'))"

definition replaceString :: "string \<Rightarrow> string \<Rightarrow> string \<Rightarrow> nat \<Rightarrow> string option" where
  "replaceString src target replacement subs =
     (if src = [] then Some src else if target = [] then Some src
      else replace_loop target replacement subs 0 src)"

function unquoteString :: "string \<Rightarrow> string" where
  "unquoteString src =
     (if length src \<le> 2 then src
      else if (hd src = CHR 0x27 \<or> hd src = CHR 0x22) \<and> last src = hd src
        then unquoteString (take (length src - 2) (drop 1 src))
      else src)"
  by pat_completeness auto
termination by (relation "measure length") auto

declare unquoteString.simps [simp del]

text \<open>Escape, bracket, and everything up to the next \<open>m\<close>, or to the end if there is none.\<close>

function removeShellEscapeSequences :: "string \<Rightarrow> string" where
  "removeShellEscapeSequences s =
     (case find_sub [CHR 0x1B, CHR ''[''] s of
        None \<Rightarrow> s
      | Some pos \<Rightarrow>
          (case find_sub ''m'' (drop pos s) of
             None \<Rightarrow> take pos s
           | Some e \<Rightarrow> take pos s @ removeShellEscapeSequences (drop (pos + e + 1) s)))"
  by pat_completeness auto
termination
proof (relation "measure length")
  fix s pos e
  assume "find_sub [CHR 0x1B, CHR ''[''] s = Some pos"
  then show "(drop (pos + e + 1) s, s) \<in> measure length"
    by (auto dest!: find_sub_bound)
qed simp

declare removeShellEscapeSequences.simps [simp del]

section \<open>Memory quantities\<close>

fun digits_value :: "nat \<Rightarrow> string \<Rightarrow> nat" where
  "digits_value acc [] = acc"
| "digits_value acc (c # s) = digits_value (10 * acc + (code c - 48)) s"

definition suffix_scale :: "string \<Rightarrow> nat" where
  "suffix_scale suffix =
     (if suffix = ''ki'' then 2 ^ 10 else if suffix = ''mi'' then 2 ^ 20
      else if suffix = ''gi'' then 2 ^ 30 else if suffix = ''ti'' then 2 ^ 40 else 1)"

text \<open>
  The match against \<open>[[:digit:]]+([[:alpha:]]{2})?\<close>; \<open>std::stoi\<close> throws for a number that is
  not an \<open>int\<close>, and the product of two \<open>long\<close>s is undefined when it does not fit.
\<close>

definition parseStringSuffix :: "string \<Rightarrow> int outcome" where
  "parseStringSuffix input =
     (let buffer = map tolower input;
          digits = takeWhile isdigit buffer;
          suffix = dropWhile isdigit buffer
      in if digits \<noteq> [] \<and>
            (suffix = [] \<or> length suffix = 2 \<and> list_all isalpha suffix)
         then if digits_value 0 digits \<ge> 2 ^ 31 then Inl ''stoi''
              else (let product = digits_value 0 digits * suffix_scale suffix
                    in if product \<ge> 2 ^ 63 then Inl ''undefined behaviour''
                       else Inr (int product))
         else Inr 0)"

section \<open>Version comparison\<close>

text \<open>
  \<open>a[pos]\<close> of a constant \<open>std::string\<close> is the null character at the end of the string.
  \<open>skip P s i\<close> is the position at which a loop \<open>while(i<s.size() && P(s[i])) i++\<close> stops.
\<close>

definition char_at :: "string \<Rightarrow> nat \<Rightarrow> char" where
  "char_at s i = (if i < length s then s ! i else CHR 0x00)"

definition skip :: "(char \<Rightarrow> bool) \<Rightarrow> string \<Rightarrow> nat \<Rightarrow> nat" where
  "skip P s i = i + length (takeWhile P (drop i s))"

text \<open>The characters from position \<open>i\<close> up to, but not including, \<open>j\<close>.\<close>

definition between :: "string \<Rightarrow> nat \<Rightarrow> nat \<Rightarrow> string" where
  "between s i j = take (j - i) (drop i s)"

text \<open>Step 2.8: the first difference decides, then the longer segment (\<open>char\<close> is signed).\<close>

definition signed_code :: "char \<Rightarrow> int" where
  "signed_code c = (if code c < 128 then int (code c) else int (code c) - 256)"

fun compare_segments :: "string \<Rightarrow> string \<Rightarrow> int" where
  "compare_segments [] [] = 0"
| "compare_segments [] (y # ys) = - 1"
| "compare_segments (x # xs) [] = 1"
| "compare_segments (x # xs) (y # ys) =
     (if signed_code x < signed_code y then - 1
      else if signed_code x > signed_code y then 1
      else compare_segments xs ys)"

text \<open>
  Steps 2.6 to 2.8 on the popped segments \<open>[aseg, apos)\<close> and \<open>[bseg, bpos)\<close>; a result of zero
  means that the loop goes on.
\<close>

definition compare_popped :: "string \<Rightarrow> string \<Rightarrow> nat \<Rightarrow> nat \<Rightarrow> nat \<Rightarrow> nat \<Rightarrow> int" where
  "compare_popped a b apos bpos aseg bseg =
     (if bpos = bseg \<and> isdigit (char_at a aseg) then 1
      else if bpos = bseg \<and> isalpha (char_at a aseg) then - 1
      else if isdigit (char_at a aseg) then
        (let sa = dropWhile (\<lambda>c. c = CHR ''0'') (between a aseg apos);
             sb = dropWhile (\<lambda>c. c = CHR ''0'') (between b bseg bpos)
         in if length sa > length sb then 1 else if length sb > length sa then - 1
            else compare_segments sa sb)
      else compare_segments (between a aseg apos) (between b bseg bpos))"

definition compare_remaining :: "string \<Rightarrow> string \<Rightarrow> nat \<Rightarrow> nat \<Rightarrow> int" where
  "compare_remaining a b apos bpos =
     (if length a - apos > length b - bpos then 1
      else if length a - apos < length b - bpos then - 1 else 0)"

text \<open>
  Step 2.5: pop the leading digits, and then, with a second test of its own, the leading
  letters.  The segment starts are kept from one iteration to the next, and are not initialised
  before the first (\<open>None\<close>).
\<close>

definition pop_class ::
  "(char \<Rightarrow> bool) \<Rightarrow> string \<Rightarrow> string \<Rightarrow> nat \<times> nat \<times> (nat \<times> nat) option \<Rightarrow>
     nat \<times> nat \<times> (nat \<times> nat) option" where
  "pop_class P a b st =
     (case st of (apos, bpos, seg) \<Rightarrow>
        if P (char_at a apos) \<and> apos < length a
        then (skip P a (apos + 1), skip P b bpos, Some (apos, bpos))
        else (apos, bpos, seg))"

text \<open>
  The loop.  \<open>fuel\<close> bounds the iterations: every one that goes on consumes a character of
  \<open>a\<close>, so its length is enough (\<open>compareVersions_total\<close>).
\<close>

primrec compare_loop :: "nat \<Rightarrow> string \<Rightarrow> string \<Rightarrow> nat \<Rightarrow> nat \<Rightarrow> (nat \<times> nat) option \<Rightarrow>
    int outcome option" where
  "compare_loop 0 a b apos bpos seg = None"
| "compare_loop (Suc fuel) a b apos bpos seg =
     (if \<not> (apos < length a \<and> bpos < length b)
      then Some (Inr (compare_remaining a b apos bpos))
      else
        (let apos = skip (\<lambda>c. \<not> (isalnum c \<or> c = CHR ''~'')) a apos;
             bpos = skip (\<lambda>c. \<not> (isalnum c \<or> c = CHR ''~'')) b bpos;
             tilde_a = (char_at a apos = CHR ''~'');
             tilde_b = (char_at b bpos = CHR ''~'')
         in if tilde_a \<and> tilde_b \<and> (apos + 1 = length a \<or> bpos + 1 = length b)
            then Some (Inr (compare_remaining a b (apos + 1) (bpos + 1)))
            else if tilde_a \<and> \<not> tilde_b then Some (Inr (- 1))
            else if tilde_b \<and> \<not> tilde_a then Some (Inr 1)
            else
              (let skipped = (if tilde_a then 1 else 0)
               in case pop_class isalpha a b
                         (pop_class isdigit a b (apos + skipped, bpos + skipped, seg)) of
                    (apos, bpos, None) \<Rightarrow> Some (Inl ''undefined behaviour'')
                  | (apos, bpos, Some (aseg, bseg)) \<Rightarrow>
                      (let order = compare_popped a b apos bpos aseg bseg
                       in if order \<noteq> 0 then Some (Inr order)
                          else compare_loop fuel a b apos bpos (Some (apos, bpos))))))"

definition compareVersions :: "string \<Rightarrow> string \<Rightarrow> int outcome option" where
  "compareVersions a b =
     (if a = b then Some (Inr 0) else compare_loop (length a + 1) a b 0 0 None)"

section \<open>Names\<close>

definition validDnsToken :: "string \<Rightarrow> bool" where
  "validDnsToken token \<longleftrightarrow> list_all (\<lambda>c. isalnum c \<or> c = CHR ''-'') token"

definition validTagGroupName :: "string \<Rightarrow> bool" where
  "validTagGroupName token \<longleftrightarrow> list_all (\<lambda>c. islower c \<or> isdigit c \<or> c = CHR ''-'') token"

end
