(* ===== verification/ApplicationCatalog.thy ===== *)
theory ApplicationCatalog
  imports VolumeStore TextUtil
begin

text \<open>
  The catalogue of applications: \<open>findApplication\<close>, \<open>fetchApplications\<close> and \<open>listApplications\<close> of
  \<open>src/PersistentStore.cpp\<close>, which run \<open>helm search\<close> and read its table, and
  \<open>getHelmMajorVersion\<close> of \<open>src/KubeInterface.cpp\<close>.  With its cache the state of
  \<open>PersistentStore\<close> is complete: \<open>persistent_store\<close> has every data member of the class that
  changes after construction.
\<close>

record 'w persistent_store = "'w volume_store" +
  applicationCache :: "(string, Application CacheRecord) multimap"

section \<open>The version of helm\<close>

text \<open>
  \<open>std::stoul\<close> in base ten: white space, an optional sign, digits; \<open>None\<close> when it throws.
  A negative number is taken modulo \<open>2 ^ 64\<close>.
\<close>

definition stoul :: "string \<Rightarrow> nat option" where
  "stoul s =
     (let t = dropWhile isspace s;
          negative = (t \<noteq> [] \<and> hd t = CHR ''-'');
          unsigned = (if t \<noteq> [] \<and> (hd t = CHR ''-'' \<or> hd t = CHR ''+'') then tl t else t);
          digits = takeWhile isdigit unsigned;
          v = digits_value 0 digits
      in if digits = [] \<or> v \<ge> 2 ^ 64 then None
         else Some (if negative then (2 ^ 64 - v) mod 2 ^ 64 else v))"

definition semver_marker :: string where
  "semver_marker = ''SemVer:'' @ [CHR 0x22] @ ''v''"

definition version_marker :: string where
  "version_marker = ''Version:'' @ [CHR 0x22] @ ''v''"

text \<open>
  The position just after the version marker of a line; \<open>None\<close> where the code skips the line.
\<close>

definition version_start :: "string \<Rightarrow> nat option" where
  "version_start line =
     (if begins_with ''Server: '' line then None
      else
        (let found = (case find_sub semver_marker line of
                        Some p \<Rightarrow> Some (p + length semver_marker)
                      | None \<Rightarrow> map_option (\<lambda>p. p + length version_marker)
                                  (find_sub version_marker line))
         in case found of
              None \<Rightarrow> None
            | Some startPos \<Rightarrow> if startPos \<ge> length line - 1 then None else Some startPos))"

definition version_text :: "string \<Rightarrow> nat \<Rightarrow> string" where
  "version_text line startPos =
     (case find_sub ''.'' (drop (startPos + 1) line) of
        None \<Rightarrow> drop startPos line
      | Some e \<Rightarrow> take (e + 1) (drop startPos line))"

fun helm_version_of_lines :: "string list \<Rightarrow> nat \<Rightarrow> nat outcome" where
  "helm_version_of_lines [] v = Inr v"
| "helm_version_of_lines (line # rest) v =
     (case version_start line of
        None \<Rightarrow> helm_version_of_lines rest v
      | Some startPos \<Rightarrow>
          (case stoul (version_text line startPos) of
             None \<Rightarrow> Inl ''Unable to extract helm version''
           | Some n \<Rightarrow> helm_version_of_lines rest (n mod 2 ^ 32)))"

definition helm_version_of_output :: "string \<Rightarrow> nat outcome" where
  "helm_version_of_output output =
     bindE (helm_version_of_lines (string_split_lines output) 0) (\<lambda>v.
       if v = 0 then Inl ''Unable to extract helm version'' else Inr v)"

definition getHelmMajorVersion :: "'w env \<Rightarrow> (('w, 'z) base_store_scheme, nat) op" where
  "getHelmMajorVersion E =
     bindM (call (e_runCommand E ''helm'' [''version''])) (\<lambda>result s.
       (helm_version_of_output (cmd_output result), s))"

section \<open>Searching\<close>

definition cache_application ::
  "'w env \<Rightarrow> string \<Rightarrow> Application \<Rightarrow> ('w, 'z) persistent_store_scheme \<Rightarrow>
     ('w, 'z) persistent_store_scheme" where
  "cache_application E repository app s =
     s\<lparr>applicationCache := snd (mm_insert_or_assign (cr_eq application_eq) (steady_now E s)
         repository (cr_fresh app (steady_now E s) instanceCacheValidity) (applicationCache s))\<rparr>"

text \<open>A cached record is looked for by name only, whatever chart version is asked for.\<close>

definition cached_application ::
  "'w env \<Rightarrow> string \<Rightarrow> string \<Rightarrow> ('w, 'z) persistent_store_scheme \<Rightarrow> Application option" where
  "cached_application E repository appName s =
     (let cat = mm_find (applicationCache s) repository
      in if snd cat > steady_now E s
         then map_option cr_record
                (List.find (\<lambda>r. a_name (cr_record r) = appName \<and> cr_good (steady_now E s) r)
                  (fst cat))
         else None)"

text \<open>
  The lines after the header, up to the one whose first column is the target.  A line without
  columns makes \<open>tokens.front()\<close> undefined.
\<close>

fun application_in_lines :: "string \<Rightarrow> string \<Rightarrow> string list \<Rightarrow> Application outcome" where
  "application_in_lines target appName [] = Inr no_application"
| "application_in_lines target appName (line # rest) =
     (case string_split_columns line (CHR 0x09) True of
        [] \<Rightarrow> Inl ''undefined behaviour''
      | first # tokens \<Rightarrow>
          if trim first = target then
            Inr (if length tokens \<ge> 3
                 then \<lparr>a_valid = True, a_name = appName, a_version = tokens ! 1,
                       a_chartVersion = tokens ! 0, a_description = tokens ! 2\<rparr>
                 else \<lparr>a_valid = True, a_name = appName, a_version = ''unknown'',
                       a_chartVersion = ''unknown'', a_description = ''''\<rparr>)
          else application_in_lines target appName rest)"

definition search_args :: "nat \<Rightarrow> string list \<Rightarrow> string list" where
  "search_args version args = ''search'' # (if version = 3 then ''repo'' # args else args)"

definition findApplication ::
  "'w env \<Rightarrow> string \<Rightarrow> string \<Rightarrow> string \<Rightarrow> (('w, 'z) persistent_store_scheme, Application) op" where
  "findApplication E repository appName chartVersion s =
     (case cached_application E repository appName s of
        Some app \<Rightarrow> (Inr app, s)
      | None \<Rightarrow>
          (let target = repository @ ''/'' @ appName in
           bindM (getHelmMajorVersion E) (\<lambda>version.
           bindM (call (e_runCommand E ''helm''
                   (search_args version [target, ''--version'', chartVersion]))) (\<lambda>result.
             if cmd_status result \<noteq> 0 then
               throw (''Command failed: helm search '' @ target @ '': [err] '' @
                        cmd_error result @ '' [out] '' @ cmd_output result)
             else if occurs_in ''No results found'' (cmd_output result) then ret no_application
             else
               bindM (\<lambda>s. (application_in_lines target appName
                              (drop 1 (string_split_lines (cmd_output result))), s)) (\<lambda>app s.
                 (Inr app, cache_application E repository app s)))) s))"

text \<open>One row of the table: \<open>substr\<close> throws when the first column is too short, and the missing
  columns of a short row are undefined.\<close>

definition application_of_line :: "string \<Rightarrow> string \<Rightarrow> Application outcome" where
  "application_of_line repository line =
     (case string_split_columns line (CHR 0x09) True of
        [] \<Rightarrow> Inl ''undefined behaviour''
      | first # tokens \<Rightarrow>
          if length repository + 1 > length first then Inl ''basic_string::substr''
          else if length tokens < 3 then Inl ''undefined behaviour''
          else Inr \<lparr>a_valid = True, a_name = drop (length repository + 1) first,
                    a_version = tokens ! 1, a_chartVersion = tokens ! 0,
                    a_description = tokens ! 2\<rparr>)"

definition fetched_application ::
  "'w env \<Rightarrow> string \<Rightarrow> string \<Rightarrow> (('w, 'z) persistent_store_scheme, Application) op" where
  "fetched_application E repository line s =
     (case application_of_line repository line of
        Inl e \<Rightarrow> (Inl e, s)
      | Inr app \<Rightarrow> (Inr app, cache_application E repository app s))"

definition fetch_args :: "nat \<Rightarrow> string \<Rightarrow> string list" where
  "fetch_args version repository =
     search_args version ([repository @ ''/''] @
       (if version = 2 then [''--col-width=1024'']
        else if version = 3 then [''--max-col-width=1024''] else []))"

definition fetchApplications ::
  "'w env \<Rightarrow> string \<Rightarrow> (('w, 'z) persistent_store_scheme, Application list) op" where
  "fetchApplications E repository =
     bindM (getHelmMajorVersion E) (\<lambda>version.
     bindM (call (e_runCommand E ''helm'' (fetch_args version repository))) (\<lambda>result.
       if cmd_status result \<noteq> 0 then
         throw (''helm search failed: [err] '' @ cmd_error result @ '' [out] '' @ cmd_output result)
       else
         bindM (mapM (fetched_application E repository)
                  (drop 1 (string_split_lines (cmd_output result)))) (\<lambda>results s.
           (Inr results,
            s\<lparr>applicationCache := snd (mm_update_expiration repository
                (steady_now E s + instanceCacheValidity) (applicationCache s))\<rparr>))))"

definition listApplications ::
  "'w env \<Rightarrow> string \<Rightarrow> (('w, 'z) persistent_store_scheme, Application list) op" where
  "listApplications E repository s =
     (case cachedCategoryMembers (steady_now E s) (applicationCache s) repository of
        Some results \<Rightarrow> (Inr results, count_hits (length results) s)
      | None \<Rightarrow> fetchApplications E repository s)"

section \<open>A new store\<close>

text \<open>
  What the member initialisers of the constructor set up: empty caches that count as expired, no
  statistics, and an encryption key of 1024 zero bytes until the key file is loaded.
\<close>

definition new_store :: "'w env \<Rightarrow> string \<Rightarrow> 'w \<Rightarrow> 'w persistent_store" where
  "new_store E configDir w =
     \<lparr>world = w, cacheHits = 0, databaseQueries = 0, databaseScans = 0,
      userCacheExpirationTime = e_now E w, userCache = [], userByTokenCache = [],
      userByGlobusIDCache = [], userByGroupCache = [],
      groupCacheExpirationTime = e_now E w, groupCache = [], groupByNameCache = [],
      groupByUserCache = [],
      clusterConfigDir = configDir, clusterCacheExpirationTime = e_now E w, clusterCache = [],
      clusterByNameCache = [], clusterByGroupCache = [], clusterConfigs = [],
      clusterGroupAccessCache = [], clusterGroupApplicationCache = [], clusterLocationCache = [],
      clusterConnectivityCache = [],
      instanceCacheExpirationTime = e_now E w, instanceCache = [], instanceConfigCache = [],
      instanceByGroupCache = [], instanceByNameCache = [], instanceByClusterCache = [],
      instanceByGroupAndClusterCache = [],
      secretKey = replicate 1024 (CHR 0x00), secretCache = [], secretByGroupCache = [],
      secretByGroupAndClusterCache = [],
      volumeCacheExpirationTime = e_now E w, volumeCache = [], volumeByGroupCache = [],
      volumeByClusterCache = [], volumeByGroupAndClusterCache = [],
      applicationCache = []\<rparr>"

lemma new_store_simps [simp]:
  "world (new_store E d w) = w" "userCache (new_store E d w) = []"
  "userByTokenCache (new_store E d w) = []" "userByGlobusIDCache (new_store E d w) = []"
  "userByGroupCache (new_store E d w) = []" "groupCache (new_store E d w) = []"
  "groupByNameCache (new_store E d w) = []" "groupByUserCache (new_store E d w) = []"
  "clusterCache (new_store E d w) = []" "clusterByNameCache (new_store E d w) = []"
  "clusterByGroupCache (new_store E d w) = []" "clusterConfigs (new_store E d w) = []"
  "clusterGroupAccessCache (new_store E d w) = []"
  "clusterGroupApplicationCache (new_store E d w) = []"
  "clusterLocationCache (new_store E d w) = []" "clusterConnectivityCache (new_store E d w) = []"
  "instanceCache (new_store E d w) = []" "instanceConfigCache (new_store E d w) = []"
  "instanceByGroupCache (new_store E d w) = []" "instanceByNameCache (new_store E d w) = []"
  "instanceByClusterCache (new_store E d w) = []"
  "instanceByGroupAndClusterCache (new_store E d w) = []"
  "secretCache (new_store E d w) = []" "secretByGroupCache (new_store E d w) = []"
  "secretByGroupAndClusterCache (new_store E d w) = []" "volumeCache (new_store E d w) = []"
  "volumeByGroupCache (new_store E d w) = []" "volumeByClusterCache (new_store E d w) = []"
  "volumeByGroupAndClusterCache (new_store E d w) = []" "applicationCache (new_store E d w) = []"
  "userCacheExpirationTime (new_store E d w) = e_now E w"
  "clusterConfigDir (new_store E d w) = d"
  by (simp_all add: new_store_def)

end
