(* ===== verification/MemoryService.thy ===== *)
theory MemoryService
  imports Environment
begin

text \<open>
  A small in-memory service on which witnesses are evaluated: every call takes one second, the
  database is one association list, a schedule says which of the next database calls fail, and
  another what the next programs that are run print.  It has the documented behaviour that the
  properties assume.  It is an instance of the parameter \<open>env\<close>, not a model of DynamoDB.
\<close>

record mem_world =
  mw_time :: time
  mw_rows :: "((string \<times> item) \<times> item) list"
  mw_failures :: "bool list"
  mw_replies :: "command_result list"

definition mem_view :: "mem_world view" where
  "mem_view w t k = map_of (mw_rows w) (t, k)"

definition mem_tick :: "mem_world \<Rightarrow> mem_world" where
  "mem_tick w = w\<lparr>mw_time := mw_time w + seconds 1, mw_failures := tl (mw_failures w)\<rparr>"

definition mem_fails :: "mem_world \<Rightarrow> bool" where
  "mem_fails w \<longleftrightarrow> (case mw_failures w of [] \<Rightarrow> False | b # _ \<Rightarrow> b)"

definition mem_now :: "mem_world \<Rightarrow> time" where
  "mem_now w = max 0 (mw_time w)"

definition mem_put :: "string \<Rightarrow> item \<Rightarrow> mem_world \<Rightarrow> unit outcome \<times> mem_world" where
  "mem_put t it w =
     (if mem_fails w then (Inl ''request failed'', mem_tick w)
      else (Inr (), (mem_tick w)\<lparr>mw_rows := AList.update (t, primary_key it) it (mw_rows w)\<rparr>))"

definition mem_get :: "string \<Rightarrow> item \<Rightarrow> mem_world \<Rightarrow> item outcome \<times> mem_world" where
  "mem_get t k w =
     (if mem_fails w then (Inl ''request failed'', mem_tick w)
      else (Inr (case mem_view w t k of None \<Rightarrow> [] | Some it \<Rightarrow> it), mem_tick w))"

definition mem_update ::
  "string \<Rightarrow> item \<Rightarrow> item \<Rightarrow> condition option \<Rightarrow> mem_world \<Rightarrow> unit outcome \<times> mem_world" where
  "mem_update t k u c w =
     (if mem_fails w \<or> \<not> condition_met c (mem_view w t k)
      then (Inl ''request failed'', mem_tick w)
      else (Inr (), (mem_tick w)\<lparr>mw_rows := AList.update (t, k)
              (with_updates u (case mem_view w t k of None \<Rightarrow> k | Some i \<Rightarrow> i)) (mw_rows w)\<rparr>))"

definition mem_delete ::
  "string \<Rightarrow> item \<Rightarrow> condition option \<Rightarrow> mem_world \<Rightarrow> unit outcome \<times> mem_world" where
  "mem_delete t k c w =
     (if mem_fails w \<or> \<not> condition_met c (mem_view w t k)
      then (Inl ''request failed'', mem_tick w)
      else (Inr (), (mem_tick w)\<lparr>mw_rows := AList.delete (t, k) (mw_rows w)\<rparr>))"

definition mem_matches :: "string \<Rightarrow> condition option \<Rightarrow> mem_world \<Rightarrow> item list" where
  "mem_matches t c w =
     map snd (filter (\<lambda>((t', k), it). t' = t \<and> filter_met c it) (AList.clearjunk (mw_rows w)))"

definition mem_query :: "query \<Rightarrow> mem_world \<Rightarrow> item list outcome \<times> mem_world" where
  "mem_query q w =
     (if mem_fails w then (Inl ''request failed'', mem_tick w)
      else (Inr (filter (filter_met (q_filter q)) (mem_matches (q_table q) (Some (q_key q)) w)),
            mem_tick w))"

definition mem_scan :: "scan \<Rightarrow> mem_world \<Rightarrow> page outcome \<times> mem_world" where
  "mem_scan q w =
     (if mem_fails w then (Inl ''request failed'', mem_tick w)
      else (Inr \<lparr>pg_items = mem_matches (sc_table q) (sc_filter q) w, pg_lastKey = []\<rparr>, mem_tick w))"

definition mem_run :: "string \<Rightarrow> string list \<Rightarrow> mem_world \<Rightarrow> command_result outcome \<times> mem_world" where
  "mem_run program args w =
     (case mw_replies w of
        [] \<Rightarrow> (Inl ''cannot run'', mem_tick w)
      | r # rs \<Rightarrow> (Inr r, (mem_tick w)\<lparr>mw_replies := rs\<rparr>))"

text \<open>Encryption here only adds a header of 128 characters that ends with the length of the key.\<close>

definition mem_header :: "string \<Rightarrow> string" where
  "mem_header key = ''scrypt'' @ replicate 121 (CHR ''-'') @ [char_of (length key)]"

definition mem_encrypt :: "string \<Rightarrow> string \<Rightarrow> nat \<Rightarrow> mem_world \<Rightarrow> (int + string) \<times> mem_world" where
  "mem_encrypt key d n w = (Inr (mem_header key @ d), w)"

definition mem_decrypt :: "string \<Rightarrow> string \<Rightarrow> int + string" where
  "mem_decrypt key d = (if take 128 d = mem_header key then Inr (drop 128 d) else Inl 11)"

definition mem_env :: "mem_world env" where
  "mem_env =
     \<lparr>e_now = mem_now, e_put = mem_put, e_get = mem_get, e_update = mem_update,
      e_delete = mem_delete, e_query = mem_query, e_scan = mem_scan,
      e_writeTemporaryFile = (\<lambda>p c w. (Inr (p @ ''0''), mem_tick w)),
      e_runCommand = mem_run, e_scryptEnc = mem_encrypt, e_scryptDec = mem_decrypt\<rparr>"

definition mem_start :: mem_world where
  "mem_start = \<lparr>mw_time = seconds 1000, mw_rows = [], mw_failures = [], mw_replies = []\<rparr>"

named_theorems mem_defs \<open>definitions to evaluate the in-memory service\<close>

lemma mem_env_simps [simp]:
  "e_now mem_env = mem_now" "e_put mem_env = mem_put" "e_get mem_env = mem_get"
  "e_update mem_env = mem_update" "e_delete mem_env = mem_delete" "e_query mem_env = mem_query"
  "e_scan mem_env = mem_scan" "e_writeTemporaryFile mem_env = (\<lambda>p c w. (Inr (p @ ''0''), mem_tick w))"
  "e_runCommand mem_env = mem_run" "e_scryptEnc mem_env = mem_encrypt"
  "e_scryptDec mem_env = mem_decrypt"
  by (simp_all add: mem_env_def)

declare mem_view_def [mem_defs] mem_tick_def [mem_defs] mem_fails_def [mem_defs]
  mem_now_def [mem_defs] mem_put_def [mem_defs] mem_get_def [mem_defs] mem_update_def [mem_defs]
  mem_delete_def [mem_defs] mem_matches_def [mem_defs] mem_query_def [mem_defs]
  mem_scan_def [mem_defs] mem_run_def [mem_defs] mem_start_def [mem_defs]
  seconds_def [mem_defs] primary_key_def [mem_defs] condition_met_def [mem_defs]
  filter_met_def [mem_defs] with_updates_def [mem_defs]

lemma mem_view_tick [simp]: "mem_view (mem_tick w) = mem_view w"
  by (intro ext) (simp add: mem_view_def mem_tick_def)

lemma mem_view_rows:
  "mem_view ((mem_tick w)\<lparr>mw_rows := AList.update (t, k) it (mw_rows w)\<rparr>) =
     (mem_view w)(t := (mem_view w t)(k \<mapsto> it))"
  "mem_view ((mem_tick w)\<lparr>mw_rows := AList.delete (t, k) (mw_rows w)\<rparr>) =
     (mem_view w)(t := (mem_view w t)(k := None))"
  by (auto simp: mem_view_def fun_eq_iff)

lemma mem_now_tick:
  "mem_now w \<le> mem_now (mem_tick w)" "mem_now w \<le> mem_now ((mem_tick w)\<lparr>mw_rows := r\<rparr>)"
  "mem_now w \<le> mem_now ((mem_tick w)\<lparr>mw_replies := c\<rparr>)"
  by (simp_all add: mem_now_def mem_tick_def seconds_def)

lemma mem_clock_ok: "clock_ok mem_env"
  by (simp add: clock_ok_def mem_put_def mem_get_def mem_update_def mem_delete_def mem_query_def
      mem_scan_def mem_run_def mem_now_tick split: list.split)
    (simp add: mem_now_def)

lemma mem_rw: "dynamo_rw mem_env mem_view"
  by (auto simp: dynamo_rw_def mem_put_def mem_get_def mem_update_def mem_delete_def mem_view_rows
      split: if_splits)

lemma mem_conditional: "dynamo_conditional mem_env mem_view"
  by (auto simp: dynamo_conditional_def mem_update_def mem_delete_def split: if_splits)

lemma mem_matches_stored:
  assumes "it \<in> set (mem_matches t c w)"
  shows "\<exists>k. mem_view w t k = Some it \<and> filter_met c it"
proof -
  obtain k where "((t, k), it) \<in> set (AList.clearjunk (mw_rows w))" and c: "filter_met c it"
    using assms by (auto simp: mem_matches_def)
  then have "map_of (AList.clearjunk (mw_rows w)) (t, k) = Some it"
    by (intro map_of_is_SomeI) (simp_all add: distinct_clearjunk)
  then have "mem_view w t k = Some it"
    by (simp add: mem_view_def map_of_clearjunk)
  with c show ?thesis by blast
qed

lemma mem_search: "dynamo_search mem_env mem_view"
proof -
  have "projection_of it it" for it by (simp add: projection_of_def)
  then show ?thesis
    unfolding dynamo_search_def mem_env_simps mem_query_def mem_scan_def
    by (fastforce dest: mem_matches_stored simp: filter_met_def split: if_splits)
qed

lemma mem_index: "dynamo_index mem_env mem_view table index attrs"
  unfolding dynamo_index_def mem_env_simps mem_query_def
  by (fastforce dest: mem_matches_stored simp: filter_met_def split: if_splits)

end
