(* ===== verification/Samples.thy ===== *)
theory Samples
  imports ApplicationCatalog MemoryService
begin

text \<open>
  The concrete inputs on which the witnesses of the properties are evaluated: a new store on the
  in-memory service, and one entity of each kind.
\<close>

definition sample_store :: "mem_world persistent_store" where
  "sample_store = new_store mem_env ''/var/tmp/slate'' mem_start"

definition sample_user :: User where
  "sample_user = \<lparr>u_valid = True, u_id = ''user_A'', u_name = ''Ann'', u_email = ''ann@x.org'',
     u_phone = ''1'', u_institution = ''X'', u_token = ''T1'', u_globusID = ''G1'', u_admin = False\<rparr>"

definition sample_group :: Group where
  "sample_group = \<lparr>g_valid = True, g_id = ''group_B'', g_name = ''phys'', g_email = ''p@x.org'',
     g_phone = ''2'', g_scienceField = ''Physics'', g_description = ''test''\<rparr>"

definition sample_cluster :: Cluster where
  "sample_cluster = \<lparr>c_valid = True, c_id = ''cluster_C'', c_name = ''farm'', c_config = ''cfg'',
     c_systemNamespace = ''slate-system'', c_owningGroup = ''group_B'',
     c_owningOrganization = ''X'', c_monitoringCredential = no_cred\<rparr>"

lemma steady_now_sample [simp]: "steady_now mem_env s = mem_now (world s)"
  by (simp add: steady_now_def)

lemmas sample_defs = mem_defs call_def cached_def count_hits_def count_query_def count_scan_def
  findOrThrow_def findOrDefault_def entity_key_def row_key_def cr_good_def

definition with_user :: "mem_world persistent_store" where
  "with_user = snd (addUser mem_env sample_user sample_store)"

lemma with_user_added: "addUser mem_env sample_user sample_store = (Inr True, with_user)"
  by (simp add: with_user_def addUser_def sample_store_def sample_defs sample_user_def)

lemma getUser_sample: "fst (getUser mem_env ''user_A'' with_user) = Inr sample_user"
  by (simp add: with_user_def addUser_def sample_store_def sample_defs sample_user_def getUser_def cache_user_def
    user_of_ID_item_def userCacheValidity_def Let_def user_item_def)

end
