(* ===== verification/UserCorrect.thy ===== *)
theory UserCorrect
  imports Samples
begin

text \<open>
  Correctness of the account operations (theory \<open>UserStore\<close>).  The users table is abstracted to a
  map from IDs to users (\<open>stored_user\<close>); the operations on accounts act on it as map updates
  and lookups, and in every reachable state of a server that alone writes the table
  (\<open>user_reachable\<close>) the three caches agree with it, so a cached answer is the table's answer.
\<close>

section \<open>The users table as a map\<close>

definition stored_user :: "'w view \<Rightarrow> 'w \<Rightarrow> string \<Rightarrow> User option" where
  "stored_user view w uid =
     (case view w userTableName (entity_key uid) of
        None \<Rightarrow> None
      | Some it \<Rightarrow> (case user_of_ID_item uid it of Inl e \<Rightarrow> None | Inr u \<Rightarrow> Some u))"

lemma user_item_roundtrip:
  assumes "u_valid u"
  shows "user_of_ID_item (u_id u) (user_item u) = Inr u"
  using assms by (simp add: user_of_ID_item_def user_item_def findOrThrow_def findOrDefault_def)

lemma user_of_ID_item_fields:
  "user_of_ID_item uid it = Inr u \<Longrightarrow>
     u_valid u \<and> u_id u = uid \<and> map_of it ''token'' \<noteq> None \<and> map_of it ''globusID'' \<noteq> None"
  by (auto simp: user_of_ID_item_def findOrThrow_def bindE_Inr_iff split: option.splits)

lemma stored_user_fields: "stored_user view w uid = Some u \<Longrightarrow> u_valid u \<and> u_id u = uid"
  by (auto simp: stored_user_def dest: user_of_ID_item_fields split: option.splits sum.splits)

lemma stored_user_cong:
  "view w userTableName = view w' userTableName \<Longrightarrow> stored_user view w = stored_user view w'"
  by (auto simp: stored_user_def)

text \<open>
  Rows that carry a token or a Globus ID are account records, stored under their ID, which is not
  empty (the database does not accept empty keys).
\<close>

definition account_rows :: "'w view \<Rightarrow> 'w \<Rightarrow> bool" where
  "account_rows view w \<longleftrightarrow>
     (\<forall>k it. view w userTableName k = Some it \<longrightarrow>
        map_of it ''token'' \<noteq> None \<or> map_of it ''globusID'' \<noteq> None \<longrightarrow>
        (\<exists>uid. uid \<noteq> '''' \<and> k = entity_key uid \<and> map_of it ''ID'' = Some (AV_S uid)))"

text \<open>
  What the caches may hold.  Under the empty ID the cache may have the invalid user: that is what
  \<open>listUsersByGroup\<close> puts there for a member without an account.
\<close>

definition user_coherent :: "'w view \<Rightarrow> ('w, 'z) user_store_scheme \<Rightarrow> bool" where
  "user_coherent view s \<longleftrightarrow>
     account_rows view (world s) \<and>
     (\<forall>uid r. cuckoo_find (userCache s) uid = Some r \<longrightarrow>
        stored_user view (world s) uid = Some (cr_record r) \<or> uid = '''' \<and> cr_record r = no_user) \<and>
     (\<forall>t r. cuckoo_find (userByTokenCache s) t = Some r \<longrightarrow>
        u_token (cr_record r) = t \<and> cuckoo_find (userCache s) (u_id (cr_record r)) \<noteq> None \<and>
        stored_user view (world s) (u_id (cr_record r)) = Some (cr_record r)) \<and>
     (\<forall>g r. cuckoo_find (userByGlobusIDCache s) g = Some r \<longrightarrow>
        u_globusID (cr_record r) = g \<and> cuckoo_find (userCache s) (u_id (cr_record r)) \<noteq> None \<and>
        stored_user view (world s) (u_id (cr_record r)) = Some (cr_record r))"

lemma user_coherent_cong:
  assumes "user_coherent view s" and "view (world s') userTableName = view (world s) userTableName"
    and "userCache s' = userCache s" and "userByTokenCache s' = userByTokenCache s"
    and "userByGlobusIDCache s' = userByGlobusIDCache s"
  shows "user_coherent view s'"
  using assms(1) stored_user_cong [of view "world s'" "world s"] assms(2-)
  by (simp add: user_coherent_def account_rows_def)

lemma user_coherent_world:
  assumes "user_coherent view s" and "view w = view (world s)"
  shows "user_coherent view (s\<lparr>world := w\<rparr>)"
  by (rule user_coherent_cong [OF assms(1)]) (simp_all add: assms(2))

lemma user_coherent_count [simp]:
  "user_coherent view (count_hits n s) = user_coherent view s"
  "user_coherent view (count_query s) = user_coherent view s"
  "user_coherent view (count_scan s) = user_coherent view s"
  by (simp_all add: user_coherent_def count_hits_def count_query_def count_scan_def)

lemma user_coherent_cache_user:
  assumes "user_coherent view s" and "stored_user view (world s) (u_id u) = Some u"
  shows "user_coherent view (cache_user E u s)"
  using assms by (auto simp: user_coherent_def cache_user_def Let_def)

lemma user_coherent_cache_by_ID:
  assumes "user_coherent view s" and "stored_user view (world s) (u_id u) = Some u"
  shows "user_coherent view (cache_user_by_ID E u s)"
  using assms by (auto simp: user_coherent_def cache_user_by_ID_def Let_def)

lemma user_coherent_cache_nobody:
  "user_coherent view s \<Longrightarrow> user_coherent view (cache_user_by_ID E no_user s)"
  by (auto simp: user_coherent_def cache_user_by_ID_def Let_def no_user_def)

lemma cache_user_world [simp]:
  "world (cache_user E u s) = world s" "world (cache_user_by_ID E u s) = world s"
  "world (uncache_user uid s) = world s"
  by (simp_all add: cache_user_def cache_user_by_ID_def uncache_user_def Let_def split: option.split)


lemma entity_key_inject [simp]: "entity_key a = entity_key b \<longleftrightarrow> a = b"
  by (simp add: entity_key_def)

lemma primary_key_user_item [simp]: "primary_key (user_item u) = entity_key (u_id u)"
  by (simp add: primary_key_def user_item_def entity_key_def)

lemma user_of_updated_item:
  assumes "u_valid u"
  shows "user_of_ID_item (u_id u) (with_updates (user_updates u) it) = Inr u"
  using assms
  by (simp add: user_of_ID_item_def user_updates_def with_updates_def findOrThrow_def
      findOrDefault_def)

lemma with_updates_ID [simp]: "map_of (with_updates (user_updates u) it) ''ID'' = map_of it ''ID''"
  by (simp add: user_updates_def with_updates_def)

lemma stored_user_put:
  assumes "view w' = (view w)(userTableName := (view w userTableName)(entity_key uid \<mapsto> it))"
  shows "stored_user view w' = (stored_user view w)(uid :=
    (case user_of_ID_item uid it of Inl e \<Rightarrow> None | Inr u \<Rightarrow> Some u))"
  using assms by (auto simp: stored_user_def fun_eq_iff split: option.split)

lemma stored_user_delete:
  assumes "view w' = (view w)(userTableName := (view w userTableName)(entity_key uid := None))"
  shows "stored_user view w' = (stored_user view w)(uid := None)"
  using assms by (auto simp: stored_user_def fun_eq_iff split: option.split)

text \<open>What a finished operation does to the table, as a map from IDs to users.\<close>

lemma addUser_stored:
  assumes "dynamo_rw E view" and "u_valid user" and "addUser E user s = (r, s')"
  shows "(r = Inr True \<and> stored_user view (world s') = (stored_user view (world s))(u_id user \<mapsto> user))
       \<or> (r = Inr False \<and> view (world s') = view (world s))"
proof -
  obtain x s1 where c: "call (e_put E userTableName (user_item user)) s = (x, s1)"
    by (cases "call (e_put E userTableName (user_item user)) s")
  then obtain w where w: "e_put E userTableName (user_item user) (world s) = (x, w)"
    and s1: "s1 = s\<lparr>world := w\<rparr>" by (rule call_cases)
  note put = dynamo_putD [OF assms(1) w]
  show ?thesis
  proof (cases x)
    case (Inl e)
    with c assms(3) put s1 show ?thesis by (auto simp: addUser_def)
  next
    case (Inr u)
    have "stored_user view w = (stored_user view (world s))(u_id user \<mapsto> user)"
      using stored_user_put [of view w "world s" "u_id user" "user_item user"] put Inr
        user_item_roundtrip [OF assms(2)] by simp
    with c assms(3) s1 Inr show ?thesis by (auto simp: addUser_def)
  qed
qed

lemma updateUser_stored:
  assumes "dynamo_rw E view" and "u_valid user" and "updateUser E user old s = (r, s')"
  shows "(r = Inr True \<and> stored_user view (world s') = (stored_user view (world s))(u_id user \<mapsto> user))
       \<or> (r = Inr False \<and> view (world s') = view (world s))"
proof -
  let ?f = "e_update E userTableName (entity_key (u_id user)) (user_updates user) None"
  obtain x s1 where c: "call ?f s = (x, s1)" by (cases "call ?f s")
  then obtain w where w: "?f (world s) = (x, w)" and s1: "s1 = s\<lparr>world := w\<rparr>"
    by (rule call_cases)
  note upd = dynamo_updateD [OF assms(1) w]
  show ?thesis
  proof (cases x)
    case (Inl e)
    with c assms(3) upd s1 show ?thesis by (auto simp: updateUser_def)
  next
    case (Inr u)
    have "stored_user view w = (stored_user view (world s))(u_id user \<mapsto> user)"
      using upd Inr user_of_updated_item [OF assms(2)] by (subst stored_user_put) auto
    with c assms(3) s1 Inr show ?thesis by (auto simp: updateUser_def Let_def)
  qed
qed

lemma removeUser_stored:
  assumes "dynamo_rw E view" and "removeUser E uid s = (r, s')"
  shows "(r = Inr True \<and> stored_user view (world s') = (stored_user view (world s))(uid := None))
       \<or> (r = Inr False \<and> view (world s') = view (world s))"
proof -
  let ?f = "e_delete E userTableName (entity_key uid) None"
  obtain x s1 where c: "call ?f (uncache_user uid s) = (x, s1)"
    by (cases "call ?f (uncache_user uid s)")
  then obtain w where w: "?f (world s) = (x, w)" and s1: "s1 = (uncache_user uid s)\<lparr>world := w\<rparr>"
    by (rule call_cases) simp
  note del = dynamo_deleteD [OF assms(1) w]
  show ?thesis
  proof (cases x)
    case (Inl e)
    with c assms(2) del s1 show ?thesis by (auto simp: removeUser_def)
  next
    case (Inr u)
    have "stored_user view w = (stored_user view (world s))(uid := None)"
      using del Inr by (subst stored_user_delete) auto
    with c assms(2) s1 Inr show ?thesis by (auto simp: removeUser_def)
  qed
qed


section \<open>The caches agree with the table\<close>

lemma user_coherentD:
  assumes "user_coherent view s"
  shows "cuckoo_find (userCache s) uid = Some r \<Longrightarrow>
      stored_user view (world s) uid = Some (cr_record r) \<or> uid = '''' \<and> cr_record r = no_user"
    and "cuckoo_find (userByTokenCache s) t = Some r \<Longrightarrow> u_token (cr_record r) = t \<and>
      cuckoo_find (userCache s) (u_id (cr_record r)) \<noteq> None \<and>
      stored_user view (world s) (u_id (cr_record r)) = Some (cr_record r)"
    and "cuckoo_find (userByGlobusIDCache s) g = Some r \<Longrightarrow> u_globusID (cr_record r) = g \<and>
      cuckoo_find (userCache s) (u_id (cr_record r)) \<noteq> None \<and>
      stored_user view (world s) (u_id (cr_record r)) = Some (cr_record r)"
    and "account_rows view (world s)"
  using assms unfolding user_coherent_def by blast+

lemma no_empty_account: "account_rows view w \<Longrightarrow> stored_user view w '''' = None"
  by (fastforce simp: account_rows_def stored_user_def dest: user_of_ID_item_fields
      split: option.splits sum.splits)

lemma account_rows_put_user:
  assumes "account_rows view w" and "u_id u \<noteq> ''''"
    and "view w' = (view w)(userTableName := (view w userTableName)(entity_key (u_id u) \<mapsto> user_item u))"
  shows "account_rows view w'"
  using assms by (auto simp: account_rows_def user_item_def)

lemma user_coherentI:
  assumes "account_rows view (world s)"
    and "\<And>uid r. cuckoo_find (userCache s) uid = Some r \<Longrightarrow>
      stored_user view (world s) uid = Some (cr_record r) \<or> uid = '''' \<and> cr_record r = no_user"
    and "\<And>t r. cuckoo_find (userByTokenCache s) t = Some r \<Longrightarrow> u_token (cr_record r) = t \<and>
      cuckoo_find (userCache s) (u_id (cr_record r)) \<noteq> None \<and>
      stored_user view (world s) (u_id (cr_record r)) = Some (cr_record r)"
    and "\<And>g r. cuckoo_find (userByGlobusIDCache s) g = Some r \<Longrightarrow> u_globusID (cr_record r) = g \<and>
      cuckoo_find (userCache s) (u_id (cr_record r)) \<noteq> None \<and>
      stored_user view (world s) (u_id (cr_record r)) = Some (cr_record r)"
  shows "user_coherent view s"
  using assms unfolding user_coherent_def by blast

text \<open>What the caches by token and by Globus ID hold is in the cache by ID as well.\<close>

lemma account_cached:
  assumes "user_coherent view s" and "stored_user view (world s) uid = Some u"
    and "cuckoo_find (userCache s) uid \<noteq> None"
  shows "\<exists>c. cuckoo_find (userCache s) uid = Some c \<and> cr_record c = u"
  using user_coherentD(1) [OF assms(1), of uid] no_empty_account [OF user_coherentD(4) [OF assms(1)]]
    assms(2,3)
  by auto

lemma token_entry_cached:
  assumes "user_coherent view s" and "cuckoo_find (userByTokenCache s) t = Some r"
  shows "u_token (cr_record r) = t \<and>
    (\<exists>c. cuckoo_find (userCache s) (u_id (cr_record r)) = Some c \<and> cr_record c = cr_record r)"
  using user_coherentD(2) [OF assms] account_cached [OF assms(1), of "u_id (cr_record r)"] by blast

lemma globusID_entry_cached:
  assumes "user_coherent view s" and "cuckoo_find (userByGlobusIDCache s) g = Some r"
  shows "u_globusID (cr_record r) = g \<and>
    (\<exists>c. cuckoo_find (userCache s) (u_id (cr_record r)) = Some c \<and> cr_record c = cr_record r)"
  using user_coherentD(3) [OF assms] account_cached [OF assms(1), of "u_id (cr_record r)"] by blast

text \<open>After \<open>uncache_user\<close> no cache entry speaks of the user.\<close>

lemma uncache_user_gone:
  assumes "user_coherent view s"
  shows "cuckoo_find (userCache (uncache_user uid s)) uid = None"
    and "cuckoo_find (userByTokenCache (uncache_user uid s)) t = Some r \<Longrightarrow> u_id (cr_record r) \<noteq> uid"
    and "cuckoo_find (userByGlobusIDCache (uncache_user uid s)) g = Some r \<Longrightarrow> u_id (cr_record r) \<noteq> uid"
proof -
  show "cuckoo_find (userCache (uncache_user uid s)) uid = None"
    by (simp add: uncache_user_def Let_def)
  show "u_id (cr_record r) \<noteq> uid" if "cuckoo_find (userByTokenCache (uncache_user uid s)) t = Some r"
  proof
    assume uid: "u_id (cr_record r) = uid"
    from that have "cuckoo_find (userByTokenCache s) t = Some r"
      by (auto simp: uncache_user_def Let_def split: option.splits if_splits)
    with token_entry_cached [OF assms this] uid that show False
      by (auto simp: uncache_user_def Let_def)
  qed
  show "u_id (cr_record r) \<noteq> uid" if "cuckoo_find (userByGlobusIDCache (uncache_user uid s)) g = Some r"
  proof
    assume uid: "u_id (cr_record r) = uid"
    from that have "cuckoo_find (userByGlobusIDCache s) g = Some r"
      by (auto simp: uncache_user_def Let_def split: option.splits if_splits)
    with globusID_entry_cached [OF assms this] uid that show False
      by (auto simp: uncache_user_def Let_def)
  qed
qed

lemma uncache_user_find:
  "cuckoo_find (userCache (uncache_user uid s)) x = (if x = uid then None else cuckoo_find (userCache s) x)"
  "cuckoo_find (userByTokenCache (uncache_user uid s)) t = Some r \<Longrightarrow>
     cuckoo_find (userByTokenCache s) t = Some r"
  "cuckoo_find (userByGlobusIDCache (uncache_user uid s)) g = Some r \<Longrightarrow>
     cuckoo_find (userByGlobusIDCache s) g = Some r"
  by (auto simp: uncache_user_def Let_def split: option.splits if_splits)

lemma uncache_user_coherent:
  assumes "user_coherent view s"
  shows "user_coherent view (uncache_user uid s)"
proof (rule user_coherentI)
  show "account_rows view (world (uncache_user uid s))" using user_coherentD(4) [OF assms] by simp
next
  fix x r assume "cuckoo_find (userCache (uncache_user uid s)) x = Some r"
  with user_coherentD(1) [OF assms] show "stored_user view (world (uncache_user uid s)) x =
      Some (cr_record r) \<or> x = '''' \<and> cr_record r = no_user"
    by (simp add: uncache_user_find(1) split: if_splits)
next
  fix t r assume t: "cuckoo_find (userByTokenCache (uncache_user uid s)) t = Some r"
  with user_coherentD(2) [OF assms uncache_user_find(2) [OF t]] uncache_user_gone(2) [OF assms t]
  show "u_token (cr_record r) = t \<and>
      cuckoo_find (userCache (uncache_user uid s)) (u_id (cr_record r)) \<noteq> None \<and>
      stored_user view (world (uncache_user uid s)) (u_id (cr_record r)) = Some (cr_record r)"
    by (simp add: uncache_user_find(1))
next
  fix g r assume g: "cuckoo_find (userByGlobusIDCache (uncache_user uid s)) g = Some r"
  with user_coherentD(3) [OF assms uncache_user_find(3) [OF g]] uncache_user_gone(3) [OF assms g]
  show "u_globusID (cr_record r) = g \<and>
      cuckoo_find (userCache (uncache_user uid s)) (u_id (cr_record r)) \<noteq> None \<and>
      stored_user view (world (uncache_user uid s)) (u_id (cr_record r)) = Some (cr_record r)"
    by (simp add: uncache_user_find(1))
qed

lemma user_coherent_delete:
  assumes "user_coherent view s" and "cuckoo_find (userCache s) uid = None"
    and "view w = (view (world s))(userTableName := (view (world s) userTableName)(entity_key uid := None))"
  shows "user_coherent view (s\<lparr>world := w\<rparr>)"
proof -
  have "stored_user view w = (stored_user view (world s))(uid := None)"
    by (rule stored_user_delete [OF assms(3)])
  moreover have "account_rows view w"
    using user_coherentD(4) [OF assms(1)] assms(3)
    by (auto simp: account_rows_def split: if_splits)
  ultimately show ?thesis
    using user_coherentD(1-3) [OF assms(1)] assms(2)
    by (intro user_coherentI) (simp; fastforce)+
qed

lemma removeUser_coherent:
  assumes "dynamo_rw E view" and "user_coherent view s" and "removeUser E uid s = (r, s')"
  shows "user_coherent view s'"
proof -
  let ?f = "e_delete E userTableName (entity_key uid) None"
  obtain x s1 where c: "call ?f (uncache_user uid s) = (x, s1)"
    by (cases "call ?f (uncache_user uid s)")
  then obtain w where w: "?f (world s) = (x, w)" and s1: "s1 = (uncache_user uid s)\<lparr>world := w\<rparr>"
    by (rule call_cases) simp
  have s': "s' = s1" using c assms(3) by (auto simp: removeUser_def split: sum.splits)
  note coh = uncache_user_coherent [OF assms(2), of uid]
  note del = dynamo_deleteD [OF assms(1) w]
  show ?thesis
  proof (cases x)
    case (Inl e)
    with del s1 s' show ?thesis by (intro user_coherent_cong [OF coh]) auto
  next
    case (Inr u)
    with del s1 s' show ?thesis
      using user_coherent_delete [OF coh, of uid w] by (simp add: uncache_user_find(1))
  qed
qed

lemma addUser_coherent:
  assumes "dynamo_rw E view" and "user_coherent view s" and "u_valid user" and ID: "u_id user \<noteq> ''''"
    and fresh: "view (world s) userTableName (entity_key (u_id user)) = None"
    and "addUser E user s = (r, s')"
  shows "user_coherent view s'"
proof -
  let ?f = "e_put E userTableName (user_item user)"
  obtain x s1 where c: "call ?f s = (x, s1)" by (cases "call ?f s")
  then obtain w where w: "?f (world s) = (x, w)" and s1: "s1 = s\<lparr>world := w\<rparr>" by (rule call_cases)
  note put = dynamo_putD [OF assms(1) w]
  show ?thesis
  proof (cases x)
    case (Inl e)
    with put s1 c assms(6) show ?thesis
      by (intro user_coherent_cong [OF assms(2)]) (auto simp: addUser_def)
  next
    case (Inr u)
    then have view: "view w = (view (world s))(userTableName :=
        (view (world s) userTableName)(entity_key (u_id user) \<mapsto> user_item user))"
      using put by simp
    have st: "stored_user view w = (stored_user view (world s))(u_id user \<mapsto> user)"
      using stored_user_put [OF view] user_item_roundtrip [OF assms(3)] by simp
    have "stored_user view (world s) (u_id user) = None"
      using fresh by (simp add: stored_user_def)
    then have "user_coherent view s1"
      using user_coherentD(1-3) [OF assms(2)] st
        account_rows_put_user [OF user_coherentD(4) [OF assms(2)] ID view]
      unfolding s1 by (intro user_coherentI) (simp; fastforce)+
    then show ?thesis
      using c assms(6) Inr st s1 user_coherent_cache_user [of view s1 user E]
      by (auto simp: addUser_def)
  qed
qed


lemma account_rows_update_user:
  assumes "account_rows view w" and "stored_user view w (u_id u) = Some old"
    and "view w' = (view w)(userTableName := (view w userTableName)
      (entity_key (u_id u) \<mapsto> with_updates (user_updates u)
         (case view w userTableName (entity_key (u_id u)) of None \<Rightarrow> entity_key (u_id u) | Some i \<Rightarrow> i)))"
  shows "account_rows view w'"
proof -
  obtain it where it: "view w userTableName (entity_key (u_id u)) = Some it"
    and "user_of_ID_item (u_id u) it = Inr old"
    using assms(2) by (auto simp: stored_user_def split: option.splits sum.splits)
  then have "map_of it ''token'' \<noteq> None" using user_of_ID_item_fields by blast
  with assms(1) it have "map_of it ''ID'' = Some (AV_S (u_id u)) \<and> u_id u \<noteq> ''''"
    unfolding account_rows_def by fastforce
  with assms it show ?thesis by (auto simp: account_rows_def)
qed

lemma updateUser_coherent:
  assumes "dynamo_rw E view" and coh: "user_coherent view s" and "u_valid user"
    and old: "stored_user view (world s) (u_id user) = Some oldUser"
    and same: "u_globusID oldUser = u_globusID user"
    and "updateUser E user oldUser s = (r, s')"
  shows "user_coherent view s'"
proof -
  let ?f = "e_update E userTableName (entity_key (u_id user)) (user_updates user) None"
  obtain x s1 where c: "call ?f s = (x, s1)" by (cases "call ?f s")
  then obtain w where w: "?f (world s) = (x, w)" and s1: "s1 = s\<lparr>world := w\<rparr>" by (rule call_cases)
  note upd = dynamo_updateD [OF assms(1) w]
  note cohD = user_coherentD [OF coh]
  show ?thesis
  proof (cases x)
    case (Inl e)
    with upd s1 c assms(6) show ?thesis
      by (intro user_coherent_cong [OF coh]) (auto simp: updateUser_def)
  next
    case (Inr u)
    have st: "stored_user view w = (stored_user view (world s))(u_id user \<mapsto> user)"
      using upd Inr user_of_updated_item [OF assms(3)] by (subst stored_user_put) auto
    have rows: "account_rows view w"
      by (rule account_rows_update_user [OF cohD(4) old]) (use upd Inr in simp)
    have tok: "t = u_token oldUser" if "cuckoo_find (userByTokenCache s) t = Some c"
      and "u_id (cr_record c) = u_id user" for t c
      using cohD(2) [OF that(1)] that(2) old by auto
    have glob: "g = u_globusID user" if "cuckoo_find (userByGlobusIDCache s) g = Some c"
      and "u_id (cr_record c) = u_id user" for g c
      using cohD(3) [OF that(1)] that(2) old same by auto
    have s': "s' = (let record = cr_fresh user (steady_now E s1) userCacheValidity in
        s1\<lparr>userCache := replaceCacheRecord (userCache s1) (u_id user) record,
           userByTokenCache := replaceCacheRecord
             (if u_token oldUser \<noteq> u_token user
              then cuckoo_erase (u_token oldUser) (userByTokenCache s1) else userByTokenCache s1)
             (u_token user) record,
           userByGlobusIDCache :=
             replaceCacheRecord (userByGlobusIDCache s1) (u_globusID user) record\<rparr>)"
      using c assms(6) Inr by (auto simp: updateUser_def Let_def)
    show ?thesis
      unfolding user_coherent_def s' s1 Let_def
      using rows st cohD(1-3) tok glob
      by (auto split: if_splits)
  qed
qed

lemma getUser_coherent:
  assumes "dynamo_rw E view" and coh: "user_coherent view s" and "getUser E uid s = (r, s')"
  shows "user_coherent view s'"
proof (cases "cached (steady_now E s) (userCache s) uid")
  case (Some u)
  with coh assms(3) show ?thesis by (auto simp: getUser_def)
next
  case None
  let ?f = "e_get E userTableName (entity_key uid)"
  obtain x s1 where c: "call ?f (count_query s) = (x, s1)" by (cases "call ?f (count_query s)")
  then obtain w where w: "?f (world s) = (x, w)" and s1: "s1 = (count_query s)\<lparr>world := w\<rparr>"
    by (rule call_cases) simp
  note get = dynamo_getD [OF assms(1) w]
  have coh1: "user_coherent view s1"
    by (rule user_coherent_cong [of view "count_query s"]) (use coh s1 get in auto)
  show ?thesis
  proof (cases "\<exists>it u. x = Inr it \<and> it \<noteq> [] \<and> user_of_ID_item uid it = Inr u")
    case True
    then obtain it u where x: "x = Inr it" "it \<noteq> []" "user_of_ID_item uid it = Inr u" by blast
    then have "stored_user view (world s1) (u_id u) = Some u"
      using get(2) [of it] get(1) s1 user_of_ID_item_fields [OF x(3)]
      by (auto simp: stored_user_def split: option.splits)
    with x c None assms(3) show ?thesis
      by (auto simp: getUser_def intro: user_coherent_cache_user [OF coh1])
  next
    case False
    with c None assms(3) coh1 show ?thesis
      by (auto simp: getUser_def split: sum.splits if_splits)
  qed
qed


definition user_attributes :: "string set" where
  "user_attributes = {''ID'', ''name'', ''token'', ''globusID'', ''email'', ''phone'', ''institution'', ''admin''}"

definition user_indices :: "'w env \<Rightarrow> 'w view \<Rightarrow> bool" where
  "user_indices E view \<longleftrightarrow>
     dynamo_index E view userTableName ''ByToken'' user_attributes \<and>
     dynamo_index E view userTableName ''ByGlobusID'' user_attributes"

lemma user_of_token_item_stored:
  assumes rows: "account_rows view w" and st: "view w userTableName k = Some stored"
    and tok: "map_of stored ''token'' = Some (AV_S t)"
    and same: "\<forall>a\<in>user_attributes. map_of it a = map_of stored a"
    and u: "user_of_token_item t it = Inr u"
  shows "stored_user view w (u_id u) = Some u \<and> u_token u = t"
proof -
  obtain uid where k: "k = entity_key uid" and uid: "map_of stored ''ID'' = Some (AV_S uid)"
    using rows st tok unfolding account_rows_def by fastforce
  have "user_of_ID_item uid stored = Inr u \<and> u_id u = uid \<and> u_token u = t"
    using u same uid tok
    by (auto simp: user_of_token_item_def user_of_ID_item_def user_attributes_def findOrThrow_def
        findOrDefault_def bindE_Inr_iff split: option.splits)
  with st k show ?thesis by (simp add: stored_user_def)
qed

lemma user_of_globusID_item_stored:
  assumes rows: "account_rows view w" and st: "view w userTableName k = Some stored"
    and glob: "map_of stored ''globusID'' = Some (AV_S g)"
    and same: "\<forall>a\<in>user_attributes. map_of it a = map_of stored a"
    and u: "user_of_globusID_item g it = Inr u"
  shows "stored_user view w (u_id u) = Some u \<and> u_globusID u = g"
proof -
  obtain uid where k: "k = entity_key uid" and uid: "map_of stored ''ID'' = Some (AV_S uid)"
    using rows st glob unfolding account_rows_def by fastforce
  have "user_of_ID_item uid stored = Inr u \<and> u_id u = uid \<and> u_globusID u = g"
    using u same uid glob
    by (auto simp: user_of_globusID_item_def user_of_ID_item_def user_attributes_def findOrThrow_def
        findOrDefault_def bindE_Inr_iff split: option.splits)
  with st k show ?thesis by (simp add: stored_user_def)
qed

text \<open>The outcomes of the two lookups through an index.\<close>

lemma findUserByToken_cases:
  assumes "user_indices E view" and coh: "user_coherent view s"
    and "findUserByToken E t s = (r, s')"
  obtains u where "cached (steady_now E s) (userByTokenCache s) t = Some u" "r = Inr u"
      "s' = count_hits 1 s"
  | w where "cached (steady_now E s) (userByTokenCache s) t = None" "view w = view (world s)"
      "s' = (count_query s)\<lparr>world := w\<rparr>" "\<forall>u. r = Inr u \<longrightarrow> u = no_user"
  | w u where "cached (steady_now E s) (userByTokenCache s) t = None" "view w = view (world s)"
      "s' = cache_user E u ((count_query s)\<lparr>world := w\<rparr>)" "r = Inr u"
      "stored_user view w (u_id u) = Some u" "u_token u = t"
proof (cases "cached (steady_now E s) (userByTokenCache s) t")
  case (Some u)
  with assms(3) that(1) show ?thesis by (auto simp: findUserByToken_def)
next
  case None
  let ?q = "\<lparr>q_table = userTableName, q_index = Some ''ByToken'',
      q_key = Attr_eq ''token'' (AV_S t), q_filter = None\<rparr>"
  obtain x s1 where c: "call (e_query E ?q) (count_query s) = (x, s1)"
    by (cases "call (e_query E ?q) (count_query s)")
  then obtain w where w: "e_query E ?q (world s) = (x, w)" and s1: "s1 = (count_query s)\<lparr>world := w\<rparr>"
    by (rule call_cases) simp
  have idx: "dynamo_index E view userTableName ''ByToken'' user_attributes"
    using assms(1) by (simp add: user_indices_def)
  note D = dynamo_indexD [OF idx w]
  have view: "view w = view (world s)" by (rule D(1)) simp_all
  show ?thesis
  proof (cases "\<exists>it u. x = Inr [it] \<and> user_of_token_item t it = Inr u")
    case True
    then obtain it u where x: "x = Inr [it]" "user_of_token_item t it = Inr u" by blast
    obtain k stored where st: "view (world s) userTableName k = Some stored"
      "map_of stored ''token'' = Some (AV_S t)" "\<forall>a\<in>user_attributes. map_of it a = map_of stored a"
      using D(2) [OF _ _ x(1), of it] by auto
    have "stored_user view (world s) (u_id u) = Some u \<and> u_token u = t"
      by (rule user_of_token_item_stored [OF user_coherentD(4) [OF coh] st x(2)])
    then have "stored_user view w (u_id u) = Some u" "u_token u = t"
      using stored_user_cong [of view w "world s"] view by simp_all
    with that(3) [OF None view] show ?thesis
      using x c None assms(3) s1 by (auto simp: findUserByToken_def)
  next
    case False
    have "s' = (count_query s)\<lparr>world := w\<rparr> \<and> (\<forall>u. r = Inr u \<longrightarrow> u = no_user)"
      using False c None assms(3) s1
      by (auto simp: findUserByToken_def split: sum.splits list.splits)
    with that(2) [OF None view] show ?thesis by blast
  qed
qed

lemma findUserByGlobusID_cases:
  assumes "user_indices E view" and coh: "user_coherent view s"
    and "findUserByGlobusID E g s = (r, s')"
  obtains u where "cached (steady_now E s) (userByGlobusIDCache s) g = Some u" "r = Inr u"
      "s' = count_hits 1 s"
  | w where "cached (steady_now E s) (userByGlobusIDCache s) g = None" "view w = view (world s)"
      "s' = (count_query s)\<lparr>world := w\<rparr>" "\<forall>u. r = Inr u \<longrightarrow> u = no_user"
  | w u where "cached (steady_now E s) (userByGlobusIDCache s) g = None" "view w = view (world s)"
      "s' = cache_user E u ((count_query s)\<lparr>world := w\<rparr>)" "r = Inr u"
      "stored_user view w (u_id u) = Some u" "u_globusID u = g"
proof (cases "cached (steady_now E s) (userByGlobusIDCache s) g")
  case (Some u)
  with assms(3) that(1) show ?thesis by (auto simp: findUserByGlobusID_def)
next
  case None
  let ?q = "\<lparr>q_table = userTableName, q_index = Some ''ByGlobusID'',
      q_key = Attr_eq ''globusID'' (AV_S g), q_filter = None\<rparr>"
  obtain x s1 where c: "call (e_query E ?q) (count_query s) = (x, s1)"
    by (cases "call (e_query E ?q) (count_query s)")
  then obtain w where w: "e_query E ?q (world s) = (x, w)" and s1: "s1 = (count_query s)\<lparr>world := w\<rparr>"
    by (rule call_cases) simp
  have idx: "dynamo_index E view userTableName ''ByGlobusID'' user_attributes"
    using assms(1) by (simp add: user_indices_def)
  note D = dynamo_indexD [OF idx w]
  have view: "view w = view (world s)" by (rule D(1)) simp_all
  show ?thesis
  proof (cases "\<exists>it u. x = Inr [it] \<and> user_of_globusID_item g it = Inr u")
    case True
    then obtain it u where x: "x = Inr [it]" "user_of_globusID_item g it = Inr u" by blast
    obtain k stored where st: "view (world s) userTableName k = Some stored"
      "map_of stored ''globusID'' = Some (AV_S g)" "\<forall>a\<in>user_attributes. map_of it a = map_of stored a"
      using D(2) [OF _ _ x(1), of it] by auto
    have "stored_user view (world s) (u_id u) = Some u \<and> u_globusID u = g"
      by (rule user_of_globusID_item_stored [OF user_coherentD(4) [OF coh] st x(2)])
    then have "stored_user view w (u_id u) = Some u" "u_globusID u = g"
      using stored_user_cong [of view w "world s"] view by simp_all
    with that(3) [OF None view] show ?thesis
      using x c None assms(3) s1 by (auto simp: findUserByGlobusID_def)
  next
    case False
    have "s' = (count_query s)\<lparr>world := w\<rparr> \<and> (\<forall>u. r = Inr u \<longrightarrow> u = no_user)"
      using False c None assms(3) s1
      by (auto simp: findUserByGlobusID_def split: sum.splits list.splits)
    with that(2) [OF None view] show ?thesis by blast
  qed
qed

lemma findUserByToken_coherent:
  assumes "user_indices E view" and coh: "user_coherent view s"
    and "findUserByToken E t s = (r, s')"
  shows "user_coherent view s'"
  using assms
  by (cases rule: findUserByToken_cases [OF assms])
    (auto intro!: user_coherent_cache_user user_coherent_world)

lemma findUserByGlobusID_coherent:
  assumes "user_indices E view" and coh: "user_coherent view s"
    and "findUserByGlobusID E g s = (r, s')"
  shows "user_coherent view s'"
  using assms
  by (cases rule: findUserByGlobusID_cases [OF assms])
    (auto intro!: user_coherent_cache_user user_coherent_world)

lemma user_of_scan_item_stored:
  assumes rows: "account_rows view w" and st: "view w userTableName k = Some it"
    and u: "user_of_scan_item it = Inr u"
  shows "stored_user view w (u_id u) = Some u"
proof -
  have "map_of it ''token'' \<noteq> None"
    using u by (auto simp: user_of_scan_item_def findUnchecked_def findOrThrow_def bindE_Inr_iff
        split: option.splits)
  then obtain uid where k: "k = entity_key uid" and uid: "map_of it ''ID'' = Some (AV_S uid)"
    using rows st unfolding account_rows_def by fastforce
  have "user_of_ID_item uid it = Inr u \<and> u_id u = uid"
    using u uid by (auto simp: user_of_scan_item_def user_of_ID_item_def findUnchecked_def
        findOrThrow_def bindE_Inr_iff split: option.splits)
  with st k show ?thesis by (simp add: stored_user_def)
qed

lemma listUsers_coherent:
  assumes search: "dynamo_search E view" and coh: "user_coherent view s"
    and run: "listUsers E n s = Some (r, s')"
  shows "user_coherent view s'"
proof (cases "userCacheExpirationTime s > steady_now E s")
  case True
  with coh run show ?thesis by (auto simp: listUsers_def)
next
  case False
  let ?I = "\<lambda>x. user_coherent view x \<and> view (world x) = view (world s)"
  let ?loop = "scan_loop n E userTableName (Some (Attr_not_exists ''groupID''))
      (listUsers_body E) [] [] (count_scan s)"
  obtain e s1 where loop: "?loop = Some (e, s1)"
    using run False by (auto simp: listUsers_def split: option.splits)
  have "?I s1"
  proof (rule scan_loop_invariant_items [where I = ?I, OF _ _ _ loop])
    fix q s0 pg s2 x acc s3 r3 s4
    assume "sc_table q = userTableName" and "?I s0" and "call (e_scan E q) s0 = (Inr pg, s2)"
      and "x \<in> set (pg_items pg)" and I3: "?I s3" and body: "listUsers_body E x acc s3 = (r3, s4)"
    then obtain k where "view (world s3) userTableName k = Some x"
      using scan_page(3) [OF search, of q s0 "Inr pg" s2 pg x] by auto
    then have "user_of_scan_item x = Inr u \<Longrightarrow> stored_user view (world s3) (u_id u) = Some u" for u
      using user_of_scan_item_stored [of view "world s3" k x u] user_coherentD(4) [of view s3] I3
      by simp
    with body I3 show "?I s4"
      by (auto simp: listUsers_body_def intro: user_coherent_cache_by_ID split: sum.splits)
  next
    fix q s3 r3 s4
    assume I3: "?I s3" and scan: "call (e_scan E q) s3 = (r3, s4)"
    then obtain w where "s4 = s3\<lparr>world := w\<rparr>" by (elim call_cases)
    with I3 scan_page(1) [OF search scan] show "?I s4"
      by (auto intro: user_coherent_world)
  next
    show "?I (count_scan s)" using coh by simp
  qed
  then have "user_coherent view s1" by simp
  then have "user_coherent view (s1\<lparr>userCacheExpirationTime := t\<rparr>)" for t
    by (rule user_coherent_cong) simp_all
  moreover have "s' = s1 \<or> (\<exists>t. s' = s1\<lparr>userCacheExpirationTime := t\<rparr>)"
    using run False loop by (auto simp: listUsers_def split: sum.splits loop_exit.splits)
  ultimately show ?thesis using \<open>user_coherent view s1\<close> by auto
qed


lemma cached_found:
  "cached now m k = Some v \<Longrightarrow> \<exists>r. cuckoo_find m k = Some r \<and> cr_record r = v"
  by (auto simp: cached_Some_iff)

lemma getUser_cases:
  assumes "dynamo_rw E view" and coh: "user_coherent view s" and "getUser E uid s = (r, s')"
  shows "view (world s') = view (world s) \<and>
    (\<forall>u. r = Inr u \<longrightarrow> u = no_user \<or> stored_user view (world s) uid = Some u) \<and>
    (stored_user view (world s) uid = None \<longrightarrow> (\<forall>u. r = Inr u \<longrightarrow> u = no_user))"
proof (cases "cached (steady_now E s) (userCache s) uid")
  case (Some u)
  then obtain c where "cuckoo_find (userCache s) uid = Some c" and "cr_record c = u"
    using cached_found [OF Some] by auto
  then have "stored_user view (world s) uid = Some u \<or> uid = '''' \<and> u = no_user"
    using user_coherentD(1) [OF coh] by blast
  with assms(3) Some show ?thesis by (auto simp: getUser_def)
next
  case None
  let ?f = "e_get E userTableName (entity_key uid)"
  obtain x s1 where c: "call ?f (count_query s) = (x, s1)" by (cases "call ?f (count_query s)")
  then obtain w where w: "?f (world s) = (x, w)" and s1: "s1 = (count_query s)\<lparr>world := w\<rparr>"
    by (rule call_cases) simp
  note get = dynamo_getD [OF assms(1) w]
  show ?thesis
    using c None assms(3) s1 get
    by (auto simp: getUser_def stored_user_def split: sum.splits if_splits option.splits)
qed

lemma user_coherent_members [simp]:
  fixes s :: "('w, 'z) user_store_scheme"
  shows "user_coherent view (s\<lparr>userByGroupCache := c\<rparr>) = user_coherent view s"
  by (simp add: user_coherent_def)

lemma listUsersByGroup_coherent:
  fixes s s' :: "('w, 'z) user_store_scheme"
  assumes rw: "dynamo_rw E view" and search: "dynamo_search E view" and coh: "user_coherent view s"
    and run: "listUsersByGroup E gid s = (r, s')"
  shows "user_coherent view s'"
proof -
  have queried: "user_coherent view s'"
    if "user_coherent view s" and "queried_member E gid it us s = (r, s')"
    for s s' :: "('w, 'z) user_store_scheme" and it us r
  proof (cases "findOrThrow it ''ID'' ''User record missing ID attribute''")
    case (Inl e)
    with that show ?thesis by (auto simp: queried_member_def bindM_def)
  next
    case (Inr v)
    obtain u s1 where get: "getUser E (GetS v) s = (u, s1)" by (cases "getUser E (GetS v) s")
    note coh1 = getUser_coherent [OF rw that(1) get]
    have "u = Inr user \<Longrightarrow> user_coherent view (cache_user_by_ID E user s1)" for user
      using getUser_cases [OF rw that(1) get] user_coherent_cache_nobody [OF coh1]
        user_coherent_cache_by_ID [OF coh1, of user] stored_user_cong [of view "world s1" "world s"]
        stored_user_fields [of view "world s" "GetS v" user]
      by auto
    with that Inr get coh1 show ?thesis
      by (cases u) (auto simp: queried_member_def bindM_def Let_def)
  qed
  have loop: "user_coherent view s'"
    if "user_coherent view s" and "foldM (queried_member E gid) items us s = (r, s')"
    for s s' :: "('w, 'z) user_store_scheme" and items us r
    using that queried
    by (intro foldM_invariant [of items "user_coherent view" "queried_member E gid" s us r s']) blast+
  have cached: "user_coherent view s'"
    if "user_coherent view s" and "mapM (cached_member E) xs s = (r, s')"
    for s s' :: "('w, 'z) user_store_scheme" and xs r
    using that
    by (intro mapM_invariant [of xs "user_coherent view" "cached_member E" s r s'])
      (auto simp: cached_member_def dest!: getUser_coherent [OF rw, rotated])
  let ?q = "\<lparr>q_table = userTableName, q_index = Some ''ByGroup'',
      q_key = Attr_eq ''groupID'' (AV_S gid), q_filter = None\<rparr>"
  obtain x s1 where c: "call (e_query E ?q) (count_query s) = (x, s1)"
    by (cases "call (e_query E ?q) (count_query s)")
  have coh1: "user_coherent view s1"
  proof -
    obtain w where w: "e_query E ?q (world s) = (x, w)" and s1: "s1 = (count_query s)\<lparr>world := w\<rparr>"
      using c by (rule call_cases) simp
    have "view w = view (world s)" using search w unfolding dynamo_search_def by blast
    then have "view w = view (world (count_query s))" by simp
    moreover have "user_coherent view (count_query s)" using coh by simp
    ultimately show ?thesis unfolding s1 by (rule user_coherent_world [rotated])
  qed
  show ?thesis
  proof (cases "snd (mm_find (userByGroupCache s) gid) > steady_now E s")
    case True
    with run cached [OF coh] show ?thesis by (simp add: listUsersByGroup_def Let_def)
  next
    case False
    show ?thesis
    proof (cases "\<exists>items. x = Inr items \<and> items \<noteq> []")
      case True
      then obtain items where x: "x = Inr items" "items \<noteq> []" by blast
      obtain us s2 where f: "foldM (queried_member E gid) items [] s1 = (us, s2)"
        by (cases "foldM (queried_member E gid) items [] s1")
      have "user_coherent view s2" by (rule loop [OF coh1 f])
      with run False c x f show ?thesis
        by (cases us) (auto simp: listUsersByGroup_def Let_def)
    next
      case none: False
      with run False c coh1 show ?thesis
        by (cases x) (auto simp: listUsersByGroup_def Let_def)
    qed
  qed
qed

section \<open>Reachable states\<close>

text \<open>
  The steps of a running server that is the only writer of the accounts: the operations, called
  as the user commands call them.  A new account has a fresh ID; an update starts from the
  stored account and keeps its Globus ID.  Anything else (other components, other tables, time)
  may change the rest of the world and of the state.
\<close>

inductive user_step ::
  "'w env \<Rightarrow> 'w view \<Rightarrow> ('w, 'z) user_store_scheme \<Rightarrow> ('w, 'z) user_store_scheme \<Rightarrow> bool"
  for E view where
  add: "u_valid user \<Longrightarrow> u_id user \<noteq> '''' \<Longrightarrow> view (world s) userTableName (entity_key (u_id user)) = None \<Longrightarrow>
     addUser E user s = (b, s') \<Longrightarrow> user_step E view s s'"
| update: "u_valid user \<Longrightarrow> stored_user view (world s) (u_id user) = Some oldUser \<Longrightarrow>
     u_globusID oldUser = u_globusID user \<Longrightarrow>
     updateUser E user oldUser s = (b, s') \<Longrightarrow> user_step E view s s'"
| remove: "removeUser E uid s = (b, s') \<Longrightarrow> user_step E view s s'"
| lookup: "getUser E uid s = (r, s') \<Longrightarrow> user_step E view s s'"
| by_token: "findUserByToken E t s = (r, s') \<Longrightarrow> user_step E view s s'"
| by_globusID: "findUserByGlobusID E g s = (r, s') \<Longrightarrow> user_step E view s s'"
| list_all: "listUsers E n s = Some (rs, s') \<Longrightarrow> user_step E view s s'"
| list_group: "listUsersByGroup E gid s = (us, s') \<Longrightarrow> user_step E view s s'"
| other: "view (world s') userTableName = view (world s) userTableName \<Longrightarrow>
     userCache s' = userCache s \<Longrightarrow> userByTokenCache s' = userByTokenCache s \<Longrightarrow>
     userByGlobusIDCache s' = userByGlobusIDCache s \<Longrightarrow> user_step E view s s'"

inductive user_reachable ::
  "'w env \<Rightarrow> 'w view \<Rightarrow> ('w, 'z) user_store_scheme \<Rightarrow> bool" for E view where
  start: "account_rows view (world s) \<Longrightarrow> userCache s = [] \<Longrightarrow> userByTokenCache s = [] \<Longrightarrow>
     userByGlobusIDCache s = [] \<Longrightarrow> user_reachable E view s"
| step: "user_reachable E view s \<Longrightarrow> user_step E view s s' \<Longrightarrow> user_reachable E view s'"

definition user_service :: "'w env \<Rightarrow> 'w view \<Rightarrow> bool" where
  "user_service E view \<longleftrightarrow> dynamo_rw E view \<and> dynamo_search E view \<and> user_indices E view"

lemma mem_user_service: "user_service mem_env mem_view"
  by (simp add: user_service_def mem_rw mem_search user_indices_def mem_index)

lemma user_step_coherent:
  assumes "user_service E view" and "user_step E view s s'" and "user_coherent view s"
  shows "user_coherent view s'"
  using assms(2,3,1)
proof (induction rule: user_step.induct)
  case (other s' s)
  then show ?case by (auto intro: user_coherent_cong [of view s])
qed (auto simp: user_service_def intro: addUser_coherent updateUser_coherent removeUser_coherent
    getUser_coherent findUserByToken_coherent findUserByGlobusID_coherent listUsers_coherent
    listUsersByGroup_coherent)

lemma user_reachable_coherent:
  assumes "user_reachable E view s" and "user_service E view"
  shows "user_coherent view s"
  using assms
proof (induction rule: user_reachable.induct)
  case (start s)
  then show ?case by (simp add: user_coherent_def)
next
  case (step s s')
  then show ?case by (blast intro: user_step_coherent)
qed

lemma start_reachable:
  assumes "mw_rows w = []"
  shows "user_reachable E mem_view (new_store E d w)"
  by (rule user_reachable.start) (simp_all add: account_rows_def mem_view_def assms)

lemma with_user_reachable: "user_reachable mem_env mem_view with_user"
proof (rule user_reachable.step)
  show "user_reachable mem_env mem_view sample_store"
    unfolding sample_store_def by (rule start_reachable) (simp add: mem_start_def)
  show "user_step mem_env mem_view sample_store with_user"
    by (rule user_step.add [OF _ _ _ with_user_added])
      (simp_all add: sample_user_def sample_store_def mem_start_def mem_view_def)
qed

lemma stored_sample_user: "stored_user mem_view (world with_user) ''user_A'' = Some sample_user"
  using addUser_stored [OF mem_rw _ with_user_added] by (auto simp: sample_user_def)

definition sample_user' :: User where
  "sample_user' = sample_user\<lparr>u_token := ''T2'', u_name := ''Anne''\<rparr>"

definition with_new_token :: "mem_world persistent_store" where
  "with_new_token = snd (updateUser mem_env sample_user' sample_user with_user)"

lemma with_new_token_updated:
  "updateUser mem_env sample_user' sample_user with_user = (Inr True, with_new_token)"
  by (simp add: with_new_token_def with_user_def updateUser_def addUser_def sample_store_def
      sample_defs Let_def)

definition without_user :: "mem_world persistent_store" where
  "without_user = snd (removeUser mem_env ''user_A'' with_user)"

lemma without_user_removed: "removeUser mem_env ''user_A'' with_user = (Inr True, without_user)"
  by (simp add: without_user_def with_user_def removeUser_def addUser_def sample_store_def
      sample_defs Let_def)

text \<open>
  In every reachable state of a server that alone writes the accounts, \<open>getUser\<close> answers from
  the users table, whether or not it answers from its cache: what it returns is the account
  stored under that ID or, if there is none or the request fails, the invalid user.
\<close>

theorem getUser_refines_table:
  assumes "user_service E view" and "user_reachable E view s"
    and "getUser E uid s = (Inr u, s')"
  shows "(u = no_user \<or> stored_user view (world s) uid = Some u) \<and>
    (stored_user view (world s) uid = None \<longrightarrow> u = no_user) \<and>
    stored_user view (world s') = stored_user view (world s)"
  using getUser_cases [OF _ user_reachable_coherent [OF assms(2,1)] assms(3)] assms(1)
    stored_user_cong [of view "world s'" "world s"]
  by (simp add: user_service_def)

theorem getUser_refines_table_witness:
  "fst (getUser mem_env ''user_A'' with_user) = Inr sample_user \<and>
   stored_user mem_view (world with_user) ''user_A'' = Some sample_user"
proof -
  obtain s' where get: "getUser mem_env ''user_A'' with_user = (Inr sample_user, s')"
    using getUser_sample by (metis prod.collapse)
  then show ?thesis
    using getUser_refines_table [OF mem_user_service with_user_reachable get]
    by (auto simp: sample_user_def no_user_def)
qed

text \<open>
  C1: the effect of the account operations on the abstract table, with their errors: adding and
  updating an account overwrite exactly its entry, removing it clears exactly its entry, and an
  operation that reports failure changes nothing.
\<close>

theorem account_operations_refine_map:
  assumes "dynamo_rw E view" and "u_valid user"
  shows "(\<forall>r s'. addUser E user s = (r, s') \<longrightarrow>
      r = Inr True \<and> stored_user view (world s') = (stored_user view (world s))(u_id user \<mapsto> user) \<or>
      r = Inr False \<and> stored_user view (world s') = stored_user view (world s)) \<and>
    (\<forall>r s'. updateUser E user oldUser s = (r, s') \<longrightarrow>
      r = Inr True \<and> stored_user view (world s') = (stored_user view (world s))(u_id user \<mapsto> user) \<or>
      r = Inr False \<and> stored_user view (world s') = stored_user view (world s)) \<and>
    (\<forall>r s'. removeUser E uid s = (r, s') \<longrightarrow>
      r = Inr True \<and> stored_user view (world s') = (stored_user view (world s))(uid := None) \<or>
      r = Inr False \<and> stored_user view (world s') = stored_user view (world s))"
proof -
  have same: "stored_user view (world s') = stored_user view (world s)"
    if "view (world s') = view (world s)" for s'
    by (rule stored_user_cong) (simp add: that)
  show ?thesis
    by (intro conjI allI impI)
      (use addUser_stored [OF assms] updateUser_stored [OF assms] removeUser_stored [OF assms(1)]
        same in blast)+
qed

theorem account_operations_refine_map_witness:
  "stored_user mem_view (world with_user) = [''user_A'' \<mapsto> sample_user]"
proof -
  have "stored_user mem_view (world sample_store) = Map.empty"
    by (auto simp: stored_user_def sample_store_def mem_start_def mem_view_def)
  then show ?thesis
    using account_operations_refine_map [OF mem_rw, of sample_user sample_store undefined undefined]
      with_user_added
    by (auto simp: sample_user_def)
qed

lemma findUserByToken_stored:
  assumes "user_service E view" and "user_coherent view s" and "findUserByToken E t s = (Inr u, s')"
  shows "u = no_user \<or> stored_user view (world s) (u_id u) = Some u \<and> u_token u = t"
proof -
  have ui: "user_indices E view" using assms(1) by (simp add: user_service_def)
  show ?thesis
  proof (cases rule: findUserByToken_cases [OF ui assms(2,3)])
    case (1 u')
    then show ?thesis using user_coherentD(2) [OF assms(2)] by (auto dest!: cached_found)
  next
    case (2 w)
    then show ?thesis by auto
  next
    case (3 w u')
    then show ?thesis using stored_user_cong [of view w "world s"] by auto
  qed
qed

lemma findUserByGlobusID_stored:
  assumes "user_service E view" and "user_coherent view s" and "findUserByGlobusID E g s = (Inr u, s')"
  shows "u = no_user \<or> stored_user view (world s) (u_id u) = Some u \<and> u_globusID u = g"
proof -
  have ui: "user_indices E view" using assms(1) by (simp add: user_service_def)
  show ?thesis
  proof (cases rule: findUserByGlobusID_cases [OF ui assms(2,3)])
    case (1 u')
    then show ?thesis using user_coherentD(3) [OF assms(2)] by (auto dest!: cached_found)
  next
    case (2 w)
    then show ?thesis by auto
  next
    case (3 w u')
    then show ?thesis using stored_user_cong [of view w "world s"] by auto
  qed
qed



text \<open>
  Replacing an account's token takes effect at once: the old token no longer leads to the
  account, and the new one is answered from the cache, without asking the database.
\<close>

theorem token_rotation:
  assumes service: "user_service E view" and "user_reachable E view s" and "u_valid user"
    and "stored_user view (world s) (u_id user) = Some oldUser"
    and "u_globusID oldUser = u_globusID user" and new: "u_token oldUser \<noteq> u_token user"
    and updated: "updateUser E user oldUser s = (Inr True, s1)"
  shows "(\<forall>u s2. findUserByToken E (u_token oldUser) s1 = (Inr u, s2) \<longrightarrow>
      u = no_user \<or> u_id u \<noteq> u_id user) \<and>
    findUserByToken E (u_token user) s1 = (Inr user, count_hits 1 s1)"
proof -
  have rw: "dynamo_rw E view" using service by (simp add: user_service_def)
  have coh: "user_coherent view s1"
    by (rule updateUser_coherent [OF rw user_reachable_coherent [OF assms(2) service] assms(3-5)
          updated])
  have st: "stored_user view (world s1) (u_id user) = Some user"
    using updateUser_stored [OF rw assms(3) updated] by simp
  have "cached (steady_now E s1) (userByTokenCache s1) (u_token user) = Some user"
    using updated
    by (auto simp: updateUser_def Let_def steady_now_def cached_replace userCacheValidity_def
        seconds_def split: prod.splits sum.splits)
  then have "findUserByToken E (u_token user) s1 = (Inr user, count_hits 1 s1)"
    by (simp add: findUserByToken_def)
  moreover have "u = no_user \<or> u_id u \<noteq> u_id user"
    if "findUserByToken E (u_token oldUser) s1 = (Inr u, s2)" for u s2
    using findUserByToken_stored [OF service coh that] st new by (metis option.inject)
  ultimately show ?thesis by blast
qed

theorem token_rotation_witness:
  "findUserByToken mem_env ''T2'' with_new_token = (Inr sample_user', count_hits 1 with_new_token)"
  using token_rotation [OF mem_user_service with_user_reachable _ _ _ _ with_new_token_updated]
    stored_sample_user
  by (simp add: sample_user'_def sample_user_def)



text \<open>
  What goes wrong when an update does change the Globus ID: the entry under the old Globus
  ID stays in its cache, and the old record is served under it until that entry expires.
\<close>

theorem updateUser_keeps_old_globusID:
  assumes "updateUser E user oldUser s = (Inr True, s1)"
    and "u_globusID user \<noteq> u_globusID oldUser"
    and "cached (steady_now E s1) (userByGlobusIDCache s) (u_globusID oldUser) = Some oldUser"
  shows "findUserByGlobusID E (u_globusID oldUser) s1 = (Inr oldUser, count_hits 1 s1)"
proof -
  have "cached (steady_now E s1) (userByGlobusIDCache s1) (u_globusID oldUser) = Some oldUser"
    using assms
    by (auto simp: updateUser_def Let_def steady_now_def cached_replace call_def
        split: prod.splits sum.splits)
  then show ?thesis by (simp add: findUserByGlobusID_def)
qed

definition with_new_globusID :: "mem_world persistent_store" where
  "with_new_globusID =
     snd (updateUser mem_env (sample_user\<lparr>u_globusID := ''G2''\<rparr>) sample_user with_user)"

theorem updateUser_keeps_old_globusID_witness:
  "findUserByGlobusID mem_env ''G1'' with_new_globusID =
     (Inr sample_user, count_hits 1 with_new_globusID)"
proof -
  have "updateUser mem_env (sample_user\<lparr>u_globusID := ''G2''\<rparr>) sample_user with_user =
      (Inr True, with_new_globusID)"
    by (simp add: with_new_globusID_def with_user_def updateUser_def addUser_def sample_store_def
        sample_defs Let_def)
  moreover have "cached (steady_now mem_env with_new_globusID) (userByGlobusIDCache with_user) ''G1''
      = Some sample_user"
    by (simp add: with_new_globusID_def with_user_def updateUser_def addUser_def sample_store_def
        sample_defs Let_def cache_user_def sample_user_def userCacheValidity_def user_item_def)
  ultimately show ?thesis
    using updateUser_keeps_old_globusID [of mem_env "sample_user\<lparr>u_globusID := ''G2''\<rparr>"
        sample_user with_user with_new_globusID]
    by (simp add: sample_user_def)
qed

end
