(* ===== verification/EntityCaches.thy ===== *)
theory EntityCaches
  imports Lookup UserCorrect
begin

text \<open>
  The components of the store keep the contract of theory \<open>Lookup\<close>: its locales are interpreted
  on the lookups, writes and removals of users, groups, instances, secrets and volume claims,
  on the lookup of an instance's configuration and on the positive answers about membership and
  access.
\<close>

section \<open>Users\<close>

definition user_entry where
  "user_entry E s uid = cached (steady_now E s) (userCache s) uid"

lemma validity_pos [simp]:
  "0 < userCacheValidity" "0 < groupCacheValidity" "0 < clusterCacheValidity"
  "0 < instanceCacheValidity" "0 < secretCacheValidity" "0 < volumeCacheValidity"
  by (simp_all add: userCacheValidity_def groupCacheValidity_def clusterCacheValidity_def
      instanceCacheValidity_def secretCacheValidity_def volumeCacheValidity_def seconds_def)

lemma validity_nonneg [simp]:
  "0 \<le> userCacheValidity" "0 \<le> groupCacheValidity" "0 \<le> clusterCacheValidity"
  "0 \<le> instanceCacheValidity" "0 \<le> secretCacheValidity" "0 \<le> volumeCacheValidity"
  by (simp_all add: less_imp_le)

lemma entry_cached_user [simp]: "user_entry E (cache_user E u s) (u_id u) = Some u"
  by (simp add: user_entry_def cache_user_def Let_def steady_now_def cached_replace)

interpretation users: stored_entity "getUser E" "user_entry E" u_valid "addUser E" u_id "removeUser E"
proof unfold_locales
  show "user_entry E s k = Some v \<Longrightarrow> getUser E k s = (Inr v, count_hits 1 s)" for s k v
    by (simp add: user_entry_def getUser_def)
  show "user_entry E (count_hits n s) = user_entry E s" for n s
    by (simp add: user_entry_def fun_eq_iff) (simp add: count_hits_def)
  show "user_entry E s' k = Some v" if "getUser E k s = (Inr v, s')" and "u_valid v" for k s v s'
  proof (cases "user_entry E s k")
    case None
    with that show ?thesis
      by (auto simp: getUser_def user_entry_def [symmetric] no_user_def split: prod.splits sum.splits if_splits
          dest: user_of_ID_item_fields)
  next
    case (Some u)
    with that show ?thesis
      by (auto simp: getUser_def user_entry_def) (simp add: count_hits_def)
  qed
  show "addUser E v s = (Inr True, s') \<Longrightarrow> user_entry E s' (u_id v) = Some v" for v s s'
    by (auto simp: addUser_def split: prod.splits sum.splits)
  show "removeUser E k s = (r, s') \<Longrightarrow> user_entry E s' k = None" for k s r s'
    by (auto simp: removeUser_def user_entry_def cached_def uncache_user_def Let_def call_def
        split: prod.splits sum.splits option.splits)
qed


section \<open>Groups\<close>

definition group_entry where
  "group_entry E s i = cached (steady_now E s) (groupCache s) i"

lemma group_entry_count: "group_entry E (count_hits n s) = group_entry E s"
  by (simp add: group_entry_def fun_eq_iff) (simp add: count_hits_def)

lemma entry_cached_group [simp]: "group_entry E (cache_group E v s) (g_id v) = Some v"
  by (simp add: group_entry_def cache_group_def Let_def steady_now_def cached_replace)

lemma group_item_fields: "group_of_ID_item i it = Inr v \<Longrightarrow> g_valid v \<and> g_id v = i"
  by (auto simp: group_of_ID_item_def group_details_def findOrThrow_def bindE_Inr_iff split: option.splits)

interpretation groups: stored_entity "findGroupByID E" "group_entry E" g_valid "addGroup E" g_id "delete_group_record E"
proof unfold_locales
  show "group_entry E s k = Some v \<Longrightarrow> findGroupByID E k s = (Inr v, count_hits 1 s)" for s k v
    by (simp add: group_entry_def findGroupByID_def)
  show "group_entry E (count_hits n s) = group_entry E s" for n s
    by (rule group_entry_count)
  show "group_entry E s' k = Some v" if "findGroupByID E k s = (Inr v, s')" and "g_valid v" for k s v s'
  proof (cases "group_entry E s k")
    case None
    with that show ?thesis
      by (auto simp: findGroupByID_def group_entry_def [symmetric] no_group_def
          split: prod.splits sum.splits if_splits dest: group_item_fields)
  next
    case (Some u)
    with that show ?thesis
      by (auto simp: findGroupByID_def group_entry_count group_entry_def [symmetric])
  qed
  show "addGroup E v s = (Inr True, s') \<Longrightarrow> group_entry E s' (g_id v) = Some v" for v s s'
    by (auto simp: addGroup_def  split: prod.splits sum.splits if_splits)
  show "delete_group_record E k s = (r, s') \<Longrightarrow> group_entry E s' k = None" for k s r s'
    by (auto simp: delete_group_record_def group_entry_def cached_def uncache_group_def Let_def call_def
        split: prod.splits sum.splits option.splits)
qed

section \<open>Application instances\<close>

definition instance_entry where
  "instance_entry E s i = cached (steady_now E s) (instanceCache s) i"

lemma instance_entry_count: "instance_entry E (count_hits n s) = instance_entry E s"
  by (simp add: instance_entry_def fun_eq_iff) (simp add: count_hits_def)

lemma entry_cached_instance [simp]: "instance_entry E (cache_instance E v s) (i_id v) = Some v"
  by (simp add: instance_entry_def cache_instance_def Let_def steady_now_def cached_replace)

lemma instance_item_fields: "instance_of_ID_item i it = Inr v \<Longrightarrow> i_valid v \<and> i_id v = i"
  by (auto simp: instance_of_ID_item_def  findOrThrow_def bindE_Inr_iff split: option.splits)

interpretation instances: stored_entity "getApplicationInstance E" "instance_entry E" i_valid "addApplicationInstance E" i_id "removeApplicationInstance E"
proof unfold_locales
  show "instance_entry E s k = Some v \<Longrightarrow> getApplicationInstance E k s = (Inr v, count_hits 1 s)" for s k v
    by (simp add: instance_entry_def getApplicationInstance_def)
  show "instance_entry E (count_hits n s) = instance_entry E s" for n s
    by (rule instance_entry_count)
  show "instance_entry E s' k = Some v" if "getApplicationInstance E k s = (Inr v, s')" and "i_valid v" for k s v s'
  proof (cases "instance_entry E s k")
    case None
    with that show ?thesis
      by (auto simp: getApplicationInstance_def instance_entry_def [symmetric] no_instance_def
          split: prod.splits sum.splits if_splits dest: instance_item_fields)
  next
    case (Some u)
    with that show ?thesis
      by (auto simp: getApplicationInstance_def instance_entry_count instance_entry_def [symmetric])
  qed
  show "addApplicationInstance E v s = (Inr True, s') \<Longrightarrow> instance_entry E s' (i_id v) = Some v" for v s s'
    by (auto simp: addApplicationInstance_def Let_def instance_entry_def steady_now_def cache_instance_def cached_replace split: prod.splits sum.splits if_splits)
  show "removeApplicationInstance E k s = (r, s') \<Longrightarrow> instance_entry E s' k = None" for k s r s'
    by (auto simp: removeApplicationInstance_def instance_entry_def cached_def uncache_instance_def Let_def call_def
        split: prod.splits sum.splits option.splits)
qed

section \<open>Secrets\<close>

definition secret_entry where
  "secret_entry E s i = cached (steady_now E s) (secretCache s) i"

lemma secret_entry_count: "secret_entry E (count_hits n s) = secret_entry E s"
  by (simp add: secret_entry_def fun_eq_iff) (simp add: count_hits_def)

lemma entry_cached_secret [simp]: "secret_entry E (cache_secret E v s) (s_id v) = Some v"
  by (simp add: secret_entry_def cache_secret_def Let_def steady_now_def cached_replace)

lemma secret_item_fields: "secret_of_ID_item i it = Inr v \<Longrightarrow> s_valid v \<and> s_id v = i"
  by (auto simp: secret_of_ID_item_def  findOrThrow_def bindE_Inr_iff split: option.splits)

interpretation secrets: stored_entity "getSecret E" "secret_entry E" s_valid "addSecret E" s_id "removeSecret E"
proof unfold_locales
  show "secret_entry E s k = Some v \<Longrightarrow> getSecret E k s = (Inr v, count_hits 1 s)" for s k v
    by (simp add: secret_entry_def getSecret_def)
  show "secret_entry E (count_hits n s) = secret_entry E s" for n s
    by (rule secret_entry_count)
  show "secret_entry E s' k = Some v" if "getSecret E k s = (Inr v, s')" and "s_valid v" for k s v s'
  proof (cases "secret_entry E s k")
    case None
    with that show ?thesis
      by (auto simp: getSecret_def secret_entry_def [symmetric] no_secret_def
          split: prod.splits sum.splits if_splits dest: secret_item_fields)
  next
    case (Some u)
    with that show ?thesis
      by (auto simp: getSecret_def secret_entry_count secret_entry_def [symmetric])
  qed
  show "addSecret E v s = (Inr True, s') \<Longrightarrow> secret_entry E s' (s_id v) = Some v" for v s s'
    by (auto simp: addSecret_def  split: prod.splits sum.splits if_splits)
  show "removeSecret E k s = (r, s') \<Longrightarrow> secret_entry E s' k = None" for k s r s'
    by (auto simp: removeSecret_def secret_entry_def cached_def uncache_secret_def Let_def call_def
        split: prod.splits sum.splits option.splits)
qed

section \<open>Volume claims\<close>

definition volume_entry where
  "volume_entry E s i = cached (steady_now E s) (volumeCache s) i"

lemma volume_entry_count: "volume_entry E (count_hits n s) = volume_entry E s"
  by (simp add: volume_entry_def fun_eq_iff) (simp add: count_hits_def)

lemma entry_cached_volume [simp]: "volume_entry E (cache_volume E v s) (v_id v) = Some v"
  by (simp add: volume_entry_def cache_volume_def Let_def steady_now_def cached_replace)

lemma volume_item_fields: "volume_of_ID_item i it = Inr v \<Longrightarrow> v_valid v \<and> v_id v = i"
  by (auto simp: volume_of_ID_item_def volume_record_def findOrThrow_def bindE_Inr_iff split: option.splits)

interpretation volumes: stored_entity "getPersistentVolumeClaim E" "volume_entry E" v_valid "addPersistentVolumeClaim E" v_id "removePersistentVolumeClaim E"
proof unfold_locales
  show "volume_entry E s k = Some v \<Longrightarrow> getPersistentVolumeClaim E k s = (Inr v, count_hits 1 s)" for s k v
    by (simp add: volume_entry_def getPersistentVolumeClaim_def)
  show "volume_entry E (count_hits n s) = volume_entry E s" for n s
    by (rule volume_entry_count)
  show "volume_entry E s' k = Some v" if "getPersistentVolumeClaim E k s = (Inr v, s')" and "v_valid v" for k s v s'
  proof (cases "volume_entry E s k")
    case None
    with that show ?thesis
      by (auto simp: getPersistentVolumeClaim_def volume_entry_def [symmetric] no_volume_def
          split: prod.splits sum.splits if_splits dest: volume_item_fields)
  next
    case (Some u)
    with that show ?thesis
      by (auto simp: getPersistentVolumeClaim_def volume_entry_count volume_entry_def [symmetric])
  qed
  show "addPersistentVolumeClaim E v s = (Inr True, s') \<Longrightarrow> volume_entry E s' (v_id v) = Some v" for v s s'
    by (auto simp: addPersistentVolumeClaim_def  split: prod.splits sum.splits if_splits)
  show "removePersistentVolumeClaim E k s = (r, s') \<Longrightarrow> volume_entry E s' k = None" for k s r s'
    by (auto simp: removePersistentVolumeClaim_def volume_entry_def cached_def uncache_volume_def Let_def call_def
        split: prod.splits sum.splits option.splits)
qed


section \<open>Lookups through another key\<close>

definition group_name_entry where
  "group_name_entry E s name = cached (steady_now E s) (groupByNameCache s) name"

lemma entry_cached_group_name: "g_name g = k \<Longrightarrow> group_name_entry E (cache_group E g s) k = Some g"
  by (auto simp: group_name_entry_def cache_group_def Let_def steady_now_def cached_replace)

interpretation group_names: cached_lookup "findGroupByName E" "group_name_entry E" g_valid
proof unfold_locales
  show "group_name_entry E s k = Some v \<Longrightarrow> findGroupByName E k s = (Inr v, count_hits 1 s)" for s k v
    by (simp add: group_name_entry_def findGroupByName_def)
  show count: "group_name_entry E (count_hits n s) = group_name_entry E s" for n s
    by (simp add: group_name_entry_def fun_eq_iff) (simp add: count_hits_def)
  show "group_name_entry E s' k = Some v" if "findGroupByName E k s = (Inr v, s')" and "g_valid v"
    for k s v s'
  proof (cases "group_name_entry E s k")
    case None
    have "g_name g = k" if "group_of_name_item k it = Inr g" for it g
      using that by (auto simp: group_of_name_item_def group_details_def bindE_Inr_iff)
    with None that show ?thesis
      by (auto simp: findGroupByName_def group_name_entry_def [symmetric] no_group_def
          split: prod.splits sum.splits list.splits intro: entry_cached_group_name)
  next
    case (Some u)
    with that show ?thesis
      by (auto simp: findGroupByName_def count group_name_entry_def [symmetric])
  qed
qed

definition token_entry where
  "token_entry E s t = cached (steady_now E s) (userByTokenCache s) t"

lemma entry_cached_token: "u_token u = t \<Longrightarrow> token_entry E (cache_user E u s) t = Some u"
  by (auto simp: token_entry_def cache_user_def Let_def steady_now_def cached_replace)

interpretation user_tokens: cached_lookup "findUserByToken E" "token_entry E" u_valid
proof unfold_locales
  show "token_entry E s k = Some v \<Longrightarrow> findUserByToken E k s = (Inr v, count_hits 1 s)" for s k v
    by (simp add: token_entry_def findUserByToken_def)
  show count: "token_entry E (count_hits n s) = token_entry E s" for n s
    by (simp add: token_entry_def fun_eq_iff) (simp add: count_hits_def)
  show "token_entry E s' k = Some v" if "findUserByToken E k s = (Inr v, s')" and "u_valid v"
    for k s v s'
  proof (cases "token_entry E s k")
    case None
    have "u_token u = k" if "user_of_token_item k it = Inr u" for it u
      using that by (auto simp: user_of_token_item_def bindE_Inr_iff)
    with None that show ?thesis
      by (auto simp: findUserByToken_def token_entry_def [symmetric] no_user_def
          split: prod.splits sum.splits list.splits intro: entry_cached_token)
  next
    case (Some u)
    with that show ?thesis
      by (auto simp: findUserByToken_def count token_entry_def [symmetric])
  qed
qed

definition config_entry where
  "config_entry E s i = cached (steady_now E s) (instanceConfigCache s) i"

interpretation instance_configs:
  cached_lookup "getApplicationInstanceConfig E" "config_entry E" "\<lambda>config. config \<noteq> []"
proof unfold_locales
  show "config_entry E s k = Some v \<Longrightarrow> getApplicationInstanceConfig E k s = (Inr v, count_hits 1 s)"
    for s k v
    by (simp add: config_entry_def getApplicationInstanceConfig_def)
  show count: "config_entry E (count_hits n s) = config_entry E s" for n s
    by (simp add: config_entry_def fun_eq_iff) (simp add: count_hits_def)
  show "config_entry E s' k = Some v"
    if "getApplicationInstanceConfig E k s = (Inr v, s')" and "v \<noteq> []" for k s v s'
  proof (cases "config_entry E s k")
    case None
    with that show ?thesis
      by (auto simp: getApplicationInstanceConfig_def config_entry_def cached_replace steady_now_def
          split: prod.splits sum.splits if_splits)
  next
    case (Some u)
    with that show ?thesis
      by (auto simp: getApplicationInstanceConfig_def count config_entry_def [symmetric])
  qed
qed

text \<open>
  A lookup of a user that found one is answered from memory when it is repeated at once, any
  number of times: the same user, one more cache hit each time, and no request to the database.
\<close>

theorem getUser_repeated:
  assumes "getUser E uid s = (Inr user, s')" and "u_valid user"
  shows "mapM (getUser E) (replicate n uid) s' = (Inr (replicate n user), count_hits n s')"
  using assms by (rule users.again_many)

theorem getUser_repeated_witness:
  "mapM (getUser mem_env) (replicate 3 ''user_A'') (snd (getUser mem_env ''user_A'' with_user)) =
     (Inr (replicate 3 sample_user), count_hits 3 (snd (getUser mem_env ''user_A'' with_user)))"
  by (rule getUser_repeated [where s = with_user])
    (use getUser_sample in \<open>auto simp: prod_eq_iff sample_user_def\<close>)

text \<open>
  A secret that was added is what lookups of its ID return, and a removed secret is no longer
  in the cache, even when the deletion of its record failed.
\<close>

theorem secret_read_your_writes:
  shows "(addSecret E secret s = (Inr True, s1) \<longrightarrow>
      getSecret E (s_id secret) s1 = (Inr secret, count_hits 1 s1)) \<and>
    (removeSecret E sid s = (r, s2) \<longrightarrow> cached (steady_now E s2) (secretCache s2) sid = None)"
  using secrets.read_your_write [of E secret s s1] secrets.remove_clears [of E sid s r s2]
  by (simp add: secret_entry_def)

definition sample_secret :: Secret where
  "sample_secret = \<lparr>s_valid = True, s_id = ''secret_D'', s_name = ''pw'', s_group = ''group_B'',
     s_cluster = ''cluster_C'', s_ctime = ''now'', s_data = mem_header ''key'' @ ''x''\<rparr>"

theorem secret_read_your_writes_witness:
  "fst (getSecret mem_env ''secret_D'' (snd (addSecret mem_env sample_secret sample_store))) =
     Inr sample_secret"
proof -
  have "fst (addSecret mem_env sample_secret sample_store) = Inr True"
    by (simp add: addSecret_def sample_secret_def mem_header_def sample_store_def sample_defs)
  then have "addSecret mem_env sample_secret sample_store =
      (Inr True, snd (addSecret mem_env sample_secret sample_store))"
    by (metis prod.collapse)
  then show ?thesis
    using secret_read_your_writes [of mem_env sample_secret sample_store] by (simp add: sample_secret_def)
qed

end
