(* ===== verification/GroupCorrect.thy ===== *)
theory GroupCorrect
  imports EntityCaches
begin

text \<open>
  Correctness of group membership (theory \<open>GroupStore\<close>).  A membership is a row of the users
  table, abstracted to the relation \<open>stored_member\<close>; the cache only ever holds memberships that
  are stored, and the operations act on the relation as insertion, deletion and test.
\<close>

definition stored_member :: "'w view \<Rightarrow> 'w \<Rightarrow> string \<Rightarrow> string \<Rightarrow> bool" where
  "stored_member view w uid gid \<longleftrightarrow>
     view w userTableName (row_key uid (membership_sortKey uid gid)) \<noteq> None"

definition cached_membership where
  "cached_membership s gid uid = mm_find_value (cr_eq (=)) (userByGroupCache s) gid (cr_stale uid)"

text \<open>No request to read this item fails.\<close>

definition reads_succeed :: "'w env \<Rightarrow> string \<Rightarrow> item \<Rightarrow> bool" where
  "reads_succeed E t k \<longleftrightarrow> (\<forall>w. \<exists>it w'. e_get E t k w = (Inr it, w'))"

text \<open>An item of the database has at least its keys.\<close>

definition items_nonempty :: "'w view \<Rightarrow> 'w \<Rightarrow> string \<Rightarrow> bool" where
  "items_nonempty view w t \<longleftrightarrow> (\<forall>k. view w t k \<noteq> Some [])"

text \<open>
  The empty ID is left out: \<open>listUsersByGroup\<close> records it for a member without an account.
\<close>

definition member_coherent :: "'w view \<Rightarrow> ('w, 'z) user_store_scheme \<Rightarrow> bool" where
  "member_coherent view s \<longleftrightarrow>
     (\<forall>gid uid. uid \<noteq> '''' \<longrightarrow> cached_membership s gid uid \<noteq> None \<longrightarrow>
        stored_member view (world s) uid gid)"

lemma cr_eq_stale [simp]:
  "cr_eq (=) (cr_fresh x t d) (cr_stale y) \<longleftrightarrow> x = y" "cr_eq (=) (cr_stale x) (cr_stale y) \<longleftrightarrow> x = y"
  by (simp_all add: cr_eq_def)

lemma row_key_inject [simp]:
  "row_key a x = row_key b y \<longleftrightarrow> a = b \<and> x = y"
  "entity_key a = row_key b y \<longleftrightarrow> a = b \<and> y = a"
  "row_key b y = entity_key a \<longleftrightarrow> a = b \<and> y = a"
  by (auto simp: row_key_def entity_key_def)

lemma membership_sortKey_simps [simp]:
  "membership_sortKey u g = membership_sortKey u g' \<longleftrightarrow> g = g'" "membership_sortKey u g \<noteq> u"
  by (auto simp: membership_sortKey_def)

lemma primary_key_membership [simp]:
  "primary_key (membership_item uid gid) = row_key uid (membership_sortKey uid gid)"
  by (simp add: primary_key_def membership_item_def row_key_def)

lemma cached_membership_cache [simp]:
  "cached_membership (cache_membership E uid gid s) gid' uid' =
     (if gid' = gid \<and> uid' = uid then Some (cr_fresh uid (steady_now E s) userCacheValidity)
      else cached_membership s gid' uid')"
  by (simp add: cached_membership_def cache_membership_def str.multimap.find_ins)

lemma cached_membership_group_of_user [simp]:
  "cached_membership (cache_group_of_user E uid g s) = cached_membership s"
  by (simp add: cached_membership_def fun_eq_iff cache_group_of_user_def)

lemma cached_membership_other [simp]:
  "cached_membership (count_hits n s) = cached_membership s"
  "cached_membership (count_query s) = cached_membership s"
  "cached_membership (s\<lparr>world := w\<rparr>) = cached_membership s"
  by (simp_all add: cached_membership_def fun_eq_iff count_hits_def count_query_def)

lemma cached_membership_uncache [simp]:
  "cached_membership (uncache_membership uid gid s) gid' uid' =
     (if gid' = gid \<and> uid' = uid then None else cached_membership s gid' uid')"
  by (simp add: cached_membership_def uncache_membership_def Let_def str.multimap.find_del
      split: option.split)

lemma world_cache_membership [simp]: "world (cache_membership E uid gid s) = world s"
  by (simp add: cache_membership_def)

lemma world_membership [simp]:
  "world (cache_group_of_user E uid g s) = world s"
  "world (uncache_membership uid gid s) = world s"
  by (simp_all add: cache_group_of_user_def uncache_membership_def Let_def
      split: option.split)

lemma membership_cached_iff:
  "membership_cached E uid gid s \<longleftrightarrow>
     (\<exists>r. cached_membership s gid uid = Some r \<and> cr_good (steady_now E s) r)"
  by (simp add: membership_cached_def cached_membership_def split: option.split)

lemma stored_member_put:
  "view w' = (view w)(userTableName := (view w userTableName)
      (row_key uid (membership_sortKey uid gid) \<mapsto> it)) \<Longrightarrow>
   stored_member view w' uid' gid' \<longleftrightarrow> uid' = uid \<and> gid' = gid \<or> stored_member view w uid' gid'"
  by (auto simp: stored_member_def)

lemma stored_member_delete:
  "view w' = (view w)(userTableName := (view w userTableName)
      (row_key uid (membership_sortKey uid gid) := None)) \<Longrightarrow>
   stored_member view w' uid' gid' \<longleftrightarrow> \<not> (uid' = uid \<and> gid' = gid) \<and> stored_member view w uid' gid'"
  by (auto simp: stored_member_def)

section \<open>The three operations on memberships\<close>

lemma put_membership_correct:
  assumes "dynamo_rw E view" and "member_coherent view s"
    and "put_membership E uid gid g user s = (r, s')"
  shows "member_coherent view s' \<and>
    (r = Inr True \<and> (\<forall>u h. stored_member view (world s') u h \<longleftrightarrow>
        u = uid \<and> h = gid \<or> stored_member view (world s) u h) \<and> membership_cached E uid gid s' \<or>
     r = Inr False \<and> view (world s') = view (world s))"
proof -
  let ?f = "e_put E userTableName (membership_item uid gid)"
  obtain x s1 where c: "call ?f s = (x, s1)" by (cases "call ?f s")
  then obtain w where w: "?f (world s) = (x, w)" and s1: "s1 = s\<lparr>world := w\<rparr>" by (rule call_cases)
  note put = dynamo_putD [OF assms(1) w]
  show ?thesis
  proof (cases x)
    case (Inl e)
    with put have view: "view w = view (world s)" by simp
    then have "member_coherent view s1"
      using assms(2) s1 by (simp add: member_coherent_def stored_member_def)
    with Inl c assms(3) view s1 show ?thesis by (auto simp: put_membership_def)
  next
    case (Inr u)
    then have st: "stored_member view w u h \<longleftrightarrow> u = uid \<and> h = gid \<or> stored_member view (world s) u h"
      for u h
      using put by (intro stored_member_put) simp
    have now: "steady_now E (cache_group_of_user E (u_id user) g (cache_membership E uid gid s1)) =
        steady_now E s1"
      by (simp add: steady_now_def)
    have s': "s' = cache_group_of_user E (u_id user) g (cache_membership E uid gid s1)"
      and r: "r = Inr True"
      using Inr c assms(3) by (auto simp: put_membership_def)
    have "member_coherent view s'"
      using assms(2) st unfolding member_coherent_def s' s1 by auto
    moreover have "membership_cached E uid gid s'"
      using now by (simp add: s' membership_cached_iff)
    ultimately show ?thesis using st r by (simp add: s' s1)
  qed
qed

definition delete_membership ::
  "'w env \<Rightarrow> string \<Rightarrow> string \<Rightarrow> (('w, 'z) group_store_scheme, bool) op" where
  "delete_membership E uid gid s =
     (case call (e_delete E userTableName (row_key uid (membership_sortKey uid gid)) None)
             (uncache_membership uid gid s) of
        (Inl err, s1) \<Rightarrow> (Inr False, s1)
      | (Inr _, s1) \<Rightarrow> (Inr True, s1))"

lemma delete_membership_correct:
  assumes "dynamo_rw E view" and "member_coherent view s"
    and "delete_membership E uid gid s = (r, s')"
  shows "member_coherent view s' \<and>
    (r = Inr True \<and> (\<forall>u h. stored_member view (world s') u h \<longleftrightarrow>
        \<not> (u = uid \<and> h = gid) \<and> stored_member view (world s) u h) \<or>
     r = Inr False \<and> view (world s') = view (world s))"
proof -
  let ?f = "e_delete E userTableName (row_key uid (membership_sortKey uid gid)) None"
  obtain x s1 where c: "call ?f (uncache_membership uid gid s) = (x, s1)"
    by (cases "call ?f (uncache_membership uid gid s)")
  then obtain w where w: "?f (world s) = (x, w)"
    and s1: "s1 = (uncache_membership uid gid s)\<lparr>world := w\<rparr>"
    by (rule call_cases) simp
  note del = dynamo_deleteD [OF assms(1) w]
  have s': "s' = s1" using c assms(3) by (auto simp: delete_membership_def split: sum.splits)
  show ?thesis
  proof (cases x)
    case (Inl e)
    with del have view: "view w = view (world s)" by simp
    then have "member_coherent view s1"
      using assms(2) s1 by (auto simp: member_coherent_def stored_member_def split: if_splits)
    with Inl c assms(3) view s1 s' show ?thesis by (auto simp: delete_membership_def)
  next
    case (Inr u)
    then have st: "stored_member view w u h \<longleftrightarrow> \<not> (u = uid \<and> h = gid) \<and> stored_member view (world s) u h"
      for u h
      using del by (intro stored_member_delete) simp
    have "member_coherent view s1"
      using assms(2) st unfolding member_coherent_def s1 by (auto split: if_splits)
    with st Inr c assms(3) s' s1 show ?thesis by (auto simp: delete_membership_def)
  qed
qed

lemma check_membership_correct:
  assumes "dynamo_rw E view" and "member_coherent view s" and uid: "uid \<noteq> ''''"
    and "check_membership E uid gid s = (r, s')"
  shows "member_coherent view s' \<and> view (world s') = view (world s) \<and>
    (r = Inr True \<longrightarrow> stored_member view (world s) uid gid) \<and>
    (reads_succeed E userTableName (row_key uid (membership_sortKey uid gid)) \<longrightarrow>
      items_nonempty view (world s) userTableName \<longrightarrow> r = Inr (stored_member view (world s) uid gid))"
proof (cases "membership_cached E uid gid s")
  case True
  then have "stored_member view (world s) uid gid"
    using assms(2) uid by (auto simp: member_coherent_def membership_cached_iff)
  with True assms(2,4) show ?thesis
    by (auto simp: check_membership_def member_coherent_def)
next
  case False
  let ?f = "e_get E userTableName (row_key uid (membership_sortKey uid gid))"
  obtain x s1 where c: "call ?f (count_query s) = (x, s1)" by (cases "call ?f (count_query s)")
  then obtain w where w: "?f (world s) = (x, w)" and s1: "s1 = (count_query s)\<lparr>world := w\<rparr>"
    by (rule call_cases) simp
  note get = dynamo_getD [OF assms(1) w]
  have view: "view w = view (world s)" by (rule get(1))
  have st: "stored_member view w = stored_member view (world s)"
    by (simp add: stored_member_def view fun_eq_iff)
  have coh: "member_coherent view s1"
    using assms(2) st by (simp add: member_coherent_def s1)
  show ?thesis
  proof (cases "\<exists>it. x = Inr it \<and> it \<noteq> []")
    case True
    then obtain it where it: "x = Inr it" "it \<noteq> []" by blast
    with get(2) [of it] have "stored_member view (world s) uid gid"
      by (auto simp: stored_member_def split: option.splits)
    moreover have "member_coherent view (cache_membership E uid gid s1)"
      using coh calculation st by (auto simp: member_coherent_def s1)
    ultimately show ?thesis
      using it c False assms(4) view s1 by (auto simp: check_membership_def)
  next
    case none: False
    have "s' = s1 \<and> r = Inr False"
      using none c False assms(4) by (auto simp: check_membership_def split: sum.splits)
    moreover have "\<not> stored_member view (world s) uid gid"
      if ok: "reads_succeed E userTableName (row_key uid (membership_sortKey uid gid))"
        and full: "items_nonempty view (world s) userTableName"
    proof -
      obtain it where it: "x = Inr it" using ok w unfolding reads_succeed_def by (metis prod.inject)
      with none have "it = []" by simp
      with get(2) [OF it] full show ?thesis
        by (auto simp: stored_member_def items_nonempty_def split: option.splits)
    qed
    ultimately show ?thesis
      using coh view s1 by auto
  qed
qed

text \<open>The frame part holds for every ID.\<close>

lemma member_coherent_nobody [simp]:
  "member_coherent view (cache_membership E '''' gid s) = member_coherent view s"
  "member_coherent view (s\<lparr>world := w\<rparr>) \<longleftrightarrow> (\<forall>gid uid. uid \<noteq> '''' \<longrightarrow>
     cached_membership s gid uid \<noteq> None \<longrightarrow> stored_member view w uid gid)"
  by (simp_all add: member_coherent_def)

lemma check_membership_frame:
  assumes "dynamo_rw E view" and "member_coherent view s" and "check_membership E uid gid s = (r, s')"
  shows "member_coherent view s' \<and> view (world s') = view (world s)"
proof (cases "uid = ''''")
  case False
  then show ?thesis using check_membership_correct [OF assms(1,2) _ assms(3)] by blast
next
  case True
  obtain x w where w: "e_get E userTableName (row_key uid (membership_sortKey uid gid)) (world s) = (x, w)"
    by (cases "e_get E userTableName (row_key uid (membership_sortKey uid gid)) (world s)")
  have "view w = view (world s)" by (rule dynamo_getD(1) [OF assms(1) w])
  then have "stored_member view w = stored_member view (world s)"
    by (simp add: stored_member_def fun_eq_iff)
  with True w assms(2,3) \<open>view w = view (world s)\<close> show ?thesis
    by (auto simp: check_membership_def call_def member_coherent_def
        split: if_splits sum.splits)
qed

section \<open>Reachable states\<close>

text \<open>The steps that touch memberships, by a server that alone writes them.\<close>

inductive member_step ::
  "'w env \<Rightarrow> 'w view \<Rightarrow> ('w, 'z) group_store_scheme \<Rightarrow> ('w, 'z) group_store_scheme \<Rightarrow> bool"
  for E view where
  add: "put_membership E uid gid g user s = (b, s') \<Longrightarrow> member_step E view s s'"
| remove: "delete_membership E uid gid s = (b, s') \<Longrightarrow> member_step E view s s'"
| check: "check_membership E uid gid s = (b, s') \<Longrightarrow> member_step E view s s'"
| other: "stored_member view (world s') = stored_member view (world s) \<Longrightarrow>
     userByGroupCache s' = userByGroupCache s \<Longrightarrow> member_step E view s s'"

inductive member_reachable ::
  "'w env \<Rightarrow> 'w view \<Rightarrow> ('w, 'z) group_store_scheme \<Rightarrow> bool" for E view where
  start: "userByGroupCache s = [] \<Longrightarrow> member_reachable E view s"
| step: "member_reachable E view s \<Longrightarrow> member_step E view s s' \<Longrightarrow> member_reachable E view s'"

lemma member_reachable_coherent:
  assumes "member_reachable E view s" and "dynamo_rw E view"
  shows "member_coherent view s"
  using assms
proof (induction rule: member_reachable.induct)
  case (start s)
  then show ?case by (simp add: member_coherent_def cached_membership_def mm_find_value_def)
next
  case (step s s')
  then have coh: "member_coherent view s" by blast
  from step(2) show ?case
  proof cases
    case (add uid gid g user b)
    show ?thesis using put_membership_correct [OF step.prems coh add] by blast
  next
    case (remove uid gid b)
    show ?thesis using delete_membership_correct [OF step.prems coh remove] by blast
  next
    case (check uid gid b)
    show ?thesis using check_membership_frame [OF step.prems coh check] by blast
  next
    case other
    with coh show ?thesis by (simp add: member_coherent_def cached_membership_def)
  qed
qed

section \<open>The public operations\<close>

lemma normalizeGroupID_ID [simp]:
  "begins_with groupIDPrefix gid \<Longrightarrow> normalizeGroupID E gid False s = (Inr (Some gid), s)"
  by (simp add: normalizeGroupID_def)

lemma userInGroup_ID:
  "begins_with groupIDPrefix gid \<Longrightarrow> userInGroup E uid gid s = check_membership E uid gid s"
  by (simp add: userInGroup_def bindM_def)

lemma removeUserFromGroup_ID:
  "begins_with groupIDPrefix gid \<Longrightarrow> removeUserFromGroup E uid gid s = delete_membership E uid gid s"
  by (simp add: removeUserFromGroup_def bindM_def delete_membership_def)



lemma getUser_frame:
  assumes "getUser E uid s = (r, s')" and "dynamo_rw E view"
  shows "view (world s') = view (world s) \<and> userByGroupCache s' = userByGroupCache s"
proof (cases "cached (steady_now E s) (userCache s) uid")
  case (Some u)
  with assms(1) show ?thesis by (auto simp: getUser_def count_hits_def)
next
  case None
  obtain x w where w: "e_get E userTableName (entity_key uid) (world s) = (x, w)"
    by (cases "e_get E userTableName (entity_key uid) (world s)")
  have "view w = view (world s)" by (rule dynamo_getD(1) [OF assms(2) w])
  with None w assms(1) show ?thesis
    by (auto simp: getUser_def call_def count_query_def cache_user_def Let_def
        split: sum.splits if_splits)
qed

lemma findGroupByID_frame:
  assumes "findGroupByID E gid s = (r, s')" and "dynamo_rw E view"
  shows "view (world s') = view (world s) \<and> userByGroupCache s' = userByGroupCache s"
proof (cases "cached (steady_now E s) (groupCache s) gid")
  case (Some u)
  with assms(1) show ?thesis by (auto simp: findGroupByID_def count_hits_def)
next
  case None
  obtain x w where w: "e_get E groupTableName (entity_key gid) (world s) = (x, w)"
    by (cases "e_get E groupTableName (entity_key gid) (world s)")
  have "view w = view (world s)" by (rule dynamo_getD(1) [OF assms(2) w])
  with None w assms(1) show ?thesis
    by (auto simp: findGroupByID_def call_def count_query_def cache_group_def Let_def
        split: sum.splits if_splits)
qed

lemma member_coherent_frame:
  "member_coherent view s \<Longrightarrow> view (world s') = view (world s) \<Longrightarrow>
     userByGroupCache s' = userByGroupCache s \<Longrightarrow> member_coherent view s'"
  by (simp add: member_coherent_def cached_membership_def stored_member_def)

lemma check_membership_hit:
  "membership_cached E uid gid s \<Longrightarrow> check_membership E uid gid s = (Inr True, count_hits 1 s)"
  by (simp add: check_membership_def)

text \<open>
  A user added to a group is in at once, and the next membership test says so from the cache,
  without a request; exactly that one membership row is new.
\<close>

theorem addUserToGroup_grants:
  assumes rw: "dynamo_rw E view" and "member_reachable E view s"
    and gid: "begins_with groupIDPrefix gid"
    and added: "addUserToGroup E uid gid s = (Inr True, s1)"
  shows "userInGroup E uid gid s1 = (Inr True, count_hits 1 s1) \<and>
    (\<forall>u h. stored_member view (world s1) u h \<longleftrightarrow>
       u = uid \<and> h = gid \<or> stored_member view (world s) u h)"
proof -
  obtain g s2 u s3 where g: "findGroupByID E gid s = (Inr g, s2)"
    and u: "getUser E uid s2 = (Inr u, s3)" and put: "put_membership E uid gid g u s3 = (Inr True, s1)"
    using added gid by (auto simp: addUserToGroup_def bindM_Inr_iff)
  have frame: "view (world s3) = view (world s)" "userByGroupCache s3 = userByGroupCache s"
    using findGroupByID_frame [OF g rw] getUser_frame [OF u rw] by simp_all
  have "member_coherent view s3"
    by (rule member_coherent_frame [OF member_reachable_coherent [OF assms(2) rw] frame])
  from put_membership_correct [OF rw this put] frame(1) show ?thesis
    using gid by (simp add: userInGroup_ID check_membership_hit stored_member_def)
qed

section \<open>Group records\<close>

definition stored_group :: "'w view \<Rightarrow> 'w \<Rightarrow> string \<Rightarrow> Group option" where
  "stored_group view w gid =
     (case view w groupTableName (entity_key gid) of
        None \<Rightarrow> None
      | Some it \<Rightarrow> (case group_of_ID_item gid it of Inl e \<Rightarrow> None | Inr g \<Rightarrow> Some g))"

lemma group_item_roundtrip: "g_valid g \<Longrightarrow> group_of_ID_item (g_id g) (group_item g) = Inr g"
  by (simp add: group_of_ID_item_def group_item_def group_details_def findOrThrow_def
      findOrDefault_def)

text \<open>
  Adding a group: an empty email, phone, science field or description is refused with
  nothing changed; a failed request changes nothing in the table; success stores exactly the
  given group, which reads back as it was given.
\<close>

theorem addGroup_correct:
  assumes "dynamo_rw E view" and "g_valid g" and "addGroup E g s = (r, s')"
  shows "(\<exists>e. r = Inl e) \<and> s' = s \<and> [] \<in> {g_email g, g_phone g, g_scienceField g, g_description g} \<or>
    r = Inr False \<and> view (world s') = view (world s) \<or>
    r = Inr True \<and> [] \<notin> {g_email g, g_phone g, g_scienceField g, g_description g} \<and>
      stored_group view (world s') = (stored_group view (world s))(g_id g \<mapsto> g)"
proof (cases "[] \<in> {g_email g, g_phone g, g_scienceField g, g_description g}")
  case True
  with assms(3) show ?thesis by (auto simp: addGroup_def split: if_splits)
next
  case False
  obtain x w where w: "e_put E groupTableName (group_item g) (world s) = (x, w)"
    by (cases "e_put E groupTableName (group_item g) (world s)")
  note put = dynamo_putD [OF assms(1) w]
  have key: "primary_key (group_item g) = entity_key (g_id g)"
    by (simp add: primary_key_def group_item_def entity_key_def)
  have [simp]: "world (cache_group E g s1) = world s1" for s1
    by (simp add: cache_group_def Let_def)
  show ?thesis
    using False assms(3) w put key group_item_roundtrip [OF assms(2)]
    by (cases x) (auto simp: addGroup_def call_def stored_group_def fun_eq_iff)
qed

lemma remove_members_correct:
  assumes rw: "dynamo_rw E view" and gid: "begins_with groupIDPrefix gid"
  shows "member_coherent view s \<Longrightarrow> remove_members E gid ms s = (Inr True, s') \<Longrightarrow>
    member_coherent view s' \<and> (\<forall>u h. stored_member view (world s') u h \<longleftrightarrow>
      \<not> (u \<in> set ms \<and> h = gid) \<and> stored_member view (world s) u h)"
proof (induction ms arbitrary: s)
  case Nil
  then show ?case by simp
next
  case (Cons m ms)
  obtain r s1 where del: "delete_membership E m gid s = (r, s1)" by (cases "delete_membership E m gid s")
  with Cons.prems(2) gid have r: "r = Inr True" and rest: "remove_members E gid ms s1 = (Inr True, s')"
    by (auto simp: removeUserFromGroup_ID split: sum.splits bool.splits)
  note D = delete_membership_correct [OF rw Cons.prems(1) del]
  from Cons.IH [OF _ rest] D r show ?case by auto
qed

lemma query_frame:
  assumes "dynamo_search E view" and "call (e_query E q) s = (r, s')"
  shows "view (world s') = view (world s)"
  using assms unfolding dynamo_search_def by (metis base_store.select_convs(1) base_store.surjective
      base_store.update_convs(1) call_cases)

lemma world_uncache_group [simp]: "world (uncache_group gid s) = world s"
  by (simp add: uncache_group_def Let_def split: option.split)

lemma delete_group_record_frame:
  assumes "dynamo_rw E view" and "delete_group_record E gid s = (r, s')"
  shows "view (world s') userTableName = view (world s) userTableName"
    and "r = Inr True \<Longrightarrow> stored_group view (world s') gid = None"
    and "cuckoo_find (groupCache s') gid = None"
proof -
  obtain x w where w: "e_delete E groupTableName (entity_key gid) None (world s) = (x, w)"
    by (cases "e_delete E groupTableName (entity_key gid) None (world s)")
  have [simp]: "groupTableName \<noteq> userTableName" "userTableName \<noteq> groupTableName"
    by (simp_all add: groupTableName_def userTableName_def)
  note del = dynamo_deleteD [OF assms(1) w]
  show "view (world s') userTableName = view (world s) userTableName"
    and "r = Inr True \<Longrightarrow> stored_group view (world s') gid = None"
    using assms(2) w del
    by (auto simp: delete_group_record_def call_def stored_group_def split: sum.splits)
  show "cuckoo_find (groupCache s') gid = None"
    using assms(2) by (auto simp: delete_group_record_def call_def uncache_group_def Let_def
        split: sum.splits prod.splits option.splits)
qed


text \<open>
  What goes wrong when the member query fails: the deletion goes on as if the group had no
  members, so the record of the group can go while every membership row stays.
\<close>

theorem removeGroup_ignores_failed_query:
  assumes rw: "dynamo_rw E view"
    and failed: "e_query E \<lparr>q_table = userTableName, q_index = Some ''ByGroup'',
      q_key = Attr_eq ''groupID'' (AV_S gid), q_filter = None\<rparr> (world s) = (Inl err, w)"
    and same: "view w = view (world s)"
    and removed: "removeGroup E gid s = (Inr True, s')"
  shows "stored_group view (world s') gid = None \<and>
    stored_member view (world s') = stored_member view (world s)"
proof -
  let ?s0 = "(count_query s)\<lparr>world := w\<rparr>"
  have "getMembersOfGroup E gid s = (Inr [], ?s0)"
    using failed by (simp add: getMembersOfGroup_def call_def)
  then have del: "delete_group_record E gid ?s0 = (Inr True, s')"
    using removed by (simp add: removeGroup_def bindM_def)
  show ?thesis
    using delete_group_record_frame [OF rw del] same
    by (simp add: stored_member_def fun_eq_iff)
qed

section \<open>Witnesses\<close>

definition with_group :: "mem_world persistent_store" where
  "with_group = snd (addGroup mem_env sample_group sample_store)"

lemma with_group_added: "addGroup mem_env sample_group sample_store = (Inr True, with_group)"
  by (simp add: with_group_def addGroup_def sample_store_def sample_defs sample_group_def)

theorem addGroup_correct_witness:
  "stored_group mem_view (world with_group) ''group_B'' = Some sample_group"
  using addGroup_correct [OF mem_rw _ with_group_added]
  by (auto simp: sample_group_def)

lemma sample_member_reachable: "member_reachable mem_env mem_view sample_store"
  by (rule member_reachable.start) (simp add: sample_store_def)

definition with_member :: "mem_world persistent_store" where
  "with_member = snd (addUserToGroup mem_env ''user_A'' ''group_B'' sample_store)"

lemma sample_group_ID: "begins_with groupIDPrefix ''group_B''"
  by (simp add: begins_with_def groupIDPrefix_def)

lemma with_member_added:
  "addUserToGroup mem_env ''user_A'' ''group_B'' sample_store = (Inr True, with_member)"
  by (simp add: with_member_def addUserToGroup_def bindM_def sample_group_ID findGroupByID_def
      getUser_def put_membership_def sample_store_def sample_defs)

theorem addUserToGroup_grants_witness:
  "userInGroup mem_env ''user_A'' ''group_B'' with_member = (Inr True, count_hits 1 with_member) \<and>
   stored_member mem_view (world with_member) ''user_A'' ''group_B''"
  using addUserToGroup_grants [OF mem_rw sample_member_reachable sample_group_ID with_member_added]
  by simp

lemma with_member_reachable: "member_reachable mem_env mem_view with_member"
proof -
  obtain g s2 where g: "findGroupByID mem_env ''group_B'' sample_store = (Inr g, s2)"
    and s2: "s2 = snd (findGroupByID mem_env ''group_B'' sample_store)"
    by (simp add: findGroupByID_def sample_store_def sample_defs)
  obtain u s3 where u: "getUser mem_env ''user_A'' s2 = (Inr u, s3)"
    by (simp add: s2 getUser_def findGroupByID_def sample_store_def sample_defs)
  have put: "put_membership mem_env ''user_A'' ''group_B'' g u s3 = (Inr True, with_member)"
    using with_member_added g u sample_group_ID by (simp add: addUserToGroup_def bindM_def)
  have "userByGroupCache s3 = []"
    using findGroupByID_frame [OF g mem_rw] getUser_frame [OF u mem_rw] by (simp add: sample_store_def)
  then have "member_reachable mem_env mem_view s3"
    by (rule member_reachable.start)
  then show ?thesis
    by (rule member_reachable.step) (rule member_step.add [OF put])
qed

definition without_member :: "mem_world persistent_store" where
  "without_member = snd (removeUserFromGroup mem_env ''user_A'' ''group_B'' with_member)"

lemma without_member_removed:
  "removeUserFromGroup mem_env ''user_A'' ''group_B'' with_member = (Inr True, without_member)"
proof -
  have "mw_failures (world with_member) = []"
    by (simp add: with_member_def addUserToGroup_def bindM_def sample_group_ID findGroupByID_def
      getUser_def put_membership_def sample_store_def sample_defs)
  then have "fst (removeUserFromGroup mem_env ''user_A'' ''group_B'' with_member) = Inr True"
    by (simp add: removeUserFromGroup_ID [OF sample_group_ID] delete_membership_def call_def mem_delete_def
        mem_fails_def condition_met_def)
  then show ?thesis by (simp add: without_member_def prod_eq_iff)
qed



definition without_group :: "mem_world persistent_store" where
  "without_group = snd (removeGroup mem_env ''group_B'' with_member)"

lemmas member_eval = with_member_def addUserToGroup_def bindM_def sample_group_ID findGroupByID_def
  getUser_def put_membership_def sample_store_def sample_defs

lemma with_member_world:
  "mw_failures (world with_member) = []"
  "mw_rows (world with_member) =
     [((userTableName, row_key ''user_A'' (membership_sortKey ''user_A'' ''group_B'')),
       membership_item ''user_A'' ''group_B'')]"
  by (simp_all add: member_eval membership_item_def userTableName_def)

lemma with_member_members:
  "getMembersOfGroup mem_env ''group_B'' with_member =
     (Inr [''user_A''], (count_query with_member)\<lparr>world := mem_tick (world with_member)\<rparr>)"
  by (simp add: getMembersOfGroup_def call_def mem_query_def mem_fails_def with_member_world
      mem_matches_def filter_met_def membership_item_def findUnchecked_def findOrThrow_def)

lemma without_group_removed: "removeGroup mem_env ''group_B'' with_member = (Inr True, without_group)"
proof -
  have "fst (removeGroup mem_env ''group_B'' with_member) = Inr True"
    by (simp add: removeGroup_def bindM_def with_member_members removeUserFromGroup_ID
        [OF sample_group_ID] delete_membership_def call_def mem_delete_def mem_fails_def
        condition_met_def mem_tick_def with_member_world delete_group_record_def)
  then show ?thesis by (simp add: without_group_def prod_eq_iff)
qed


definition failing_query :: "mem_world persistent_store" where
  "failing_query = with_member\<lparr>world := (world with_member)\<lparr>mw_failures := [True]\<rparr>\<rparr>"

definition orphaned :: "mem_world persistent_store" where
  "orphaned = snd (removeGroup mem_env ''group_B'' failing_query)"

theorem removeGroup_ignores_failed_query_witness:
  "removeGroup mem_env ''group_B'' failing_query = (Inr True, orphaned) \<and>
   stored_group mem_view (world orphaned) ''group_B'' = None \<and>
   stored_member mem_view (world orphaned) ''user_A'' ''group_B''"
proof -
  let ?q = "\<lparr>q_table = userTableName, q_index = Some ''ByGroup'',
      q_key = Attr_eq ''groupID'' (AV_S ''group_B''), q_filter = None\<rparr>"
  have failed: "e_query mem_env ?q (world failing_query) =
      (Inl ''request failed'', mem_tick (world failing_query))"
    by (simp add: failing_query_def mem_query_def mem_fails_def)
  have "fst (removeGroup mem_env ''group_B'' failing_query) = Inr True"
    by (simp add: removeGroup_def bindM_def getMembersOfGroup_def call_def mem_query_def
        delete_group_record_def mem_delete_def mem_fails_def condition_met_def mem_tick_def
        failing_query_def)
  then have removed: "removeGroup mem_env ''group_B'' failing_query = (Inr True, orphaned)"
    by (simp add: orphaned_def prod_eq_iff)
  have "stored_member mem_view (world failing_query) ''user_A'' ''group_B''"
    by (simp add: failing_query_def stored_member_def mem_view_def with_member_world)
  with removed removeGroup_ignores_failed_query [OF mem_rw failed _ removed] show ?thesis
    by simp
qed

end
