(* ===== verification/AccessCorrect.thy ===== *)
theory AccessCorrect
  imports GroupCorrect
begin

text \<open>
  Correctness of access control (theory \<open>AccessStore\<close>).  The grants are rows of the clusters table,
  abstracted to the relation \<open>granted\<close>.  The cache holds positive entries (a group's ID) and
  negative ones (the ID with a dash appended); \<open>access_coherent\<close> says that both agree with the
  rows, so that no group can be both allowed and refused, and the decisions are shown to be those
  of the rows.  The permissions to use applications are abstracted to a set with "all" as an
  element of its own.
\<close>

section \<open>Keys\<close>

text \<open>
  IDs contain no colon and do not end in a dash (see \<open>generated_ids_are_plain\<close> for the generated
  ones), so the keys made of several IDs, and the negative entries, are unambiguous.
\<close>

definition plain :: "string \<Rightarrow> bool" where
  "plain x \<longleftrightarrow> CHR '':'' \<notin> set x \<and> (x = [] \<or> last x \<noteq> CHR ''-'')"

text \<open>What the access operations are given as a group: a generated ID or the wildcard.\<close>

definition group_key :: "string \<Rightarrow> bool" where
  "group_key gid \<longleftrightarrow> gid = wildcard \<or> begins_with groupIDPrefix gid \<and> plain gid"

lemma colon_split:
  "CHR '':'' \<notin> set a \<Longrightarrow> CHR '':'' \<notin> set b \<Longrightarrow> a @ CHR '':'' # x = b @ CHR '':'' # y \<longleftrightarrow> a = b \<and> x = y"
  by (auto simp: append_eq_append_conv2 Cons_eq_append_conv append_eq_Cons_conv)

lemma plain_denied: "plain g \<Longrightarrow> g \<noteq> denied h"
  by (auto simp: plain_def denied_def)

lemma denied_inject [simp]: "denied g = denied h \<longleftrightarrow> g = h"
  by (simp add: denied_def)

lemma group_key_plain: "group_key g \<Longrightarrow> plain g"
  by (auto simp: group_key_def plain_def wildcard_def)

lemma group_key_wildcard [simp]: "group_key wildcard"
  by (simp add: group_key_def)

lemma group_key_not_denied: "group_key g \<Longrightarrow> g \<noteq> denied h"
  by (simp add: plain_denied group_key_plain)

lemma access_sortKey_simps [simp]:
  "access_sortKey c g = access_sortKey c h \<longleftrightarrow> g = h" "access_sortKey c g \<noteq> c"
  by (auto simp: access_sortKey_def)

lemma applications_sortKey_other:
  "group_key g \<Longrightarrow> access_sortKey c g \<noteq> applications_sortKey c h"
proof
  assume g: "group_key g" and "access_sortKey c g = applications_sortKey c h"
  then have "g = h @ '':Applications''"
    by (simp add: access_sortKey_def applications_sortKey_def)
  with group_key_plain [OF g] show False by (simp add: plain_def)
qed

lemma locations_sortKey_other: "group_key g \<Longrightarrow> access_sortKey c g \<noteq> c @ '':Locations''"
  by (auto simp: access_sortKey_def group_key_def wildcard_def begins_with_def groupIDPrefix_def)

section \<open>Grants\<close>

definition granted :: "'w view \<Rightarrow> 'w \<Rightarrow> string \<Rightarrow> string \<Rightarrow> bool" where
  "granted view w gid cid \<longleftrightarrow> view w clusterTableName (row_key cid (access_sortKey cid gid)) \<noteq> None"

definition access_entry where
  "access_entry s cid x = mm_find_value (cr_eq (=)) (clusterGroupAccessCache s) cid (cr_stale x)"

definition access_coherent :: "'w view \<Rightarrow> ('w, 'z) cluster_store_scheme \<Rightarrow> bool" where
  "access_coherent view s \<longleftrightarrow>
     items_nonempty view (world s) clusterTableName \<and>
     (\<forall>cid gid. group_key gid \<longrightarrow>
        (access_entry s cid gid \<noteq> None \<longrightarrow> granted view (world s) gid cid) \<and>
        (access_entry s cid (denied gid) \<noteq> None \<longrightarrow> \<not> granted view (world s) gid cid))"

lemma access_cached_iff:
  "access_cached E cid x s \<longleftrightarrow>
     (\<exists>r. access_entry s cid x = Some r \<and> cr_good (steady_now E s) r)"
  by (simp add: access_cached_def access_entry_def split: option.split)

lemma access_entry_cache [simp]:
  "access_entry (cache_access E cid x s) cid' y =
     (if cid' = cid \<and> y = x then Some (cr_fresh x (steady_now E s) clusterCacheValidity)
      else access_entry s cid' y)"
  by (simp add: access_entry_def cache_access_def str.multimap.find_ins)

lemma access_entry_uncache [simp]:
  "access_entry (uncache_access cid x s) cid' y =
     (if cid' = cid \<and> y = x then None else access_entry s cid' y)"
  by (simp add: access_entry_def uncache_access_def str.multimap.find_del)

lemma access_entry_other [simp]:
  "access_entry (count_hits n s) = access_entry s" "access_entry (count_query s) = access_entry s"
  "access_entry (s\<lparr>world := w\<rparr>) = access_entry s"
  by (simp_all add: access_entry_def fun_eq_iff count_hits_def count_query_def)

lemma world_access [simp]:
  "world (cache_access E cid x s) = world s" "world (uncache_access cid x s) = world s"
  by (simp_all add: cache_access_def uncache_access_def)

lemma primary_key_access [simp]:
  "primary_key (access_item cid gid) = row_key cid (access_sortKey cid gid)"
  by (simp add: primary_key_def access_item_def row_key_def)

lemma granted_put:
  "view w' = (view w)(clusterTableName := (view w clusterTableName)
      (row_key cid (access_sortKey cid gid) \<mapsto> it)) \<Longrightarrow>
   granted view w' g c \<longleftrightarrow> g = gid \<and> c = cid \<or> granted view w g c"
  by (auto simp: granted_def)

lemma granted_delete:
  "view w' = (view w)(clusterTableName := (view w clusterTableName)
      (row_key cid (access_sortKey cid gid) := None)) \<Longrightarrow>
   granted view w' g c \<longleftrightarrow> \<not> (g = gid \<and> c = cid) \<and> granted view w g c"
  by (auto simp: granted_def)

lemma granted_cong: "view w = view w' \<Longrightarrow> granted view w = granted view w'"
  by (simp add: granted_def fun_eq_iff)

lemma access_coherent_frame:
  "access_coherent view s \<Longrightarrow> items_nonempty view (world s') clusterTableName \<Longrightarrow> granted view (world s') = granted view (world s) \<Longrightarrow>
     clusterGroupAccessCache s' = clusterGroupAccessCache s \<Longrightarrow> access_coherent view s'"
  by (simp add: access_coherent_def access_entry_def)

lemma grant_access_correct:
  assumes "dynamo_rw E view" and coh: "access_coherent view s" and key: "group_key gid"
    and "grant_access E gid cid s = (r, s')"
  shows "access_coherent view s' \<and>
    (r = Inr True \<and> (\<forall>g c. granted view (world s') g c \<longleftrightarrow> g = gid \<and> c = cid \<or> granted view (world s) g c) \<or>
     r = Inr False \<and> granted view (world s') = granted view (world s))"
proof -
  let ?f = "e_put E clusterTableName (access_item cid gid)"
  obtain x s1 where c: "call ?f (uncache_access cid (denied gid) s) = (x, s1)"
    by (cases "call ?f (uncache_access cid (denied gid) s)")
  then obtain w where w: "?f (world s) = (x, w)"
    and s1: "s1 = (uncache_access cid (denied gid) s)\<lparr>world := w\<rparr>"
    by (rule call_cases) simp
  note put = dynamo_putD [OF assms(1) w]
  show ?thesis
  proof (cases x)
    case (Inl e)
    with put have view: "view w = view (world s)" by simp
    have same: "granted view w = granted view (world s)" by (rule granted_cong) (simp add: view)
    have "access_coherent view s1"
      using coh same view unfolding access_coherent_def s1 by (auto simp: items_nonempty_def)
    with Inl c assms(4) same s1 show ?thesis by (auto simp: grant_access_def)
  next
    case (Inr u)
    then have st: "granted view w g c \<longleftrightarrow> g = gid \<and> c = cid \<or> granted view (world s) g c" for g c
      using put by (intro granted_put) simp
    have s': "s' = cache_access E cid gid s1" and r: "r = Inr True"
      using Inr c assms(4) by (auto simp: grant_access_def)
    have nd: "denied g \<noteq> gid" for g using group_key_not_denied [OF key] by metis
    have "items_nonempty view w clusterTableName"
      using coh put Inr by (auto simp: items_nonempty_def access_coherent_def access_item_def)
    then have "access_coherent view s'"
      using coh st nd unfolding access_coherent_def s' s1 by auto
    with st r show ?thesis by (simp add: s' s1)
  qed
qed

lemma withdraw_access_correct:
  assumes "dynamo_rw E view" and coh: "access_coherent view s" and key: "group_key gid"
    and "withdraw_access E gid cid s = (r, s')"
  shows "access_coherent view s' \<and>
    (r = Inr True \<and> (\<forall>g c. granted view (world s') g c \<longleftrightarrow> \<not> (g = gid \<and> c = cid) \<and> granted view (world s) g c) \<or>
     r = Inr False \<and> granted view (world s') = granted view (world s))"
proof -
  let ?f = "e_delete E clusterTableName (row_key cid (access_sortKey cid gid)) None"
  obtain x s1 where c: "call ?f (uncache_access cid gid s) = (x, s1)"
    by (cases "call ?f (uncache_access cid gid s)")
  then obtain w where w: "?f (world s) = (x, w)"
    and s1: "s1 = (uncache_access cid gid s)\<lparr>world := w\<rparr>"
    by (rule call_cases) simp
  note del = dynamo_deleteD [OF assms(1) w]
  show ?thesis
  proof (cases x)
    case (Inl e)
    with del have view: "view w = view (world s)" by simp
    have same: "granted view w = granted view (world s)" by (rule granted_cong) (simp add: view)
    have "access_coherent view s1"
      using coh same view unfolding access_coherent_def s1 by (auto simp: items_nonempty_def)
    with Inl c assms(4) same s1 show ?thesis by (auto simp: withdraw_access_def)
  next
    case (Inr u)
    then have st: "granted view w g c \<longleftrightarrow> \<not> (g = gid \<and> c = cid) \<and> granted view (world s) g c" for g c
      using del by (intro granted_delete) simp
    have s': "s' = cache_access E cid (denied gid) s1" and r: "r = Inr True"
      using Inr c assms(4) by (auto simp: withdraw_access_def)
    have nd: "g \<noteq> denied gid" if "group_key g" for g using group_key_not_denied [OF that] .
    have "items_nonempty view w clusterTableName"
      using coh del Inr by (auto simp: items_nonempty_def access_coherent_def)
    then have "access_coherent view s'"
      using coh st nd unfolding access_coherent_def s' s1 by (auto split: if_splits)
    with st r show ?thesis by (simp add: s' s1)
  qed
qed

lemma lookup_access_correct:
  assumes "dynamo_rw E view" and coh: "access_coherent view s" and key: "group_key gid"
    and "lookup_access E gid cid s = (r, s')"
  shows "access_coherent view s' \<and> view (world s') = view (world s) \<and>
    (\<exists>b. r = Inr b \<and> (b \<longrightarrow> granted view (world s) gid cid) \<and>
      (reads_succeed E clusterTableName (row_key cid (access_sortKey cid gid)) \<longrightarrow>
       b = granted view (world s) gid cid))"
proof -
  consider (pos) "access_cached E cid gid s"
    | (neg) "\<not> access_cached E cid gid s" "access_cached E cid (denied gid) s"
    | (db) "\<not> access_cached E cid gid s" "\<not> access_cached E cid (denied gid) s"
    by blast
  then show ?thesis
  proof cases
    case pos
    then have "granted view (world s) gid cid"
      using coh key by (auto simp: access_coherent_def access_cached_iff)
    with pos coh assms(4) show ?thesis
      by (auto simp: lookup_access_def access_coherent_def)
  next
    case neg
    then have "\<not> granted view (world s) gid cid"
      using coh key by (auto simp: access_coherent_def access_cached_iff)
    with neg coh assms(4) show ?thesis
      by (auto simp: lookup_access_def access_coherent_def)
  next
    case db
    let ?f = "e_get E clusterTableName (row_key cid (access_sortKey cid gid))"
    obtain x s1 where c: "call ?f (count_query s) = (x, s1)" by (cases "call ?f (count_query s)")
    then obtain w where w: "?f (world s) = (x, w)" and s1: "s1 = (count_query s)\<lparr>world := w\<rparr>"
      by (rule call_cases) simp
    note get = dynamo_getD [OF assms(1) w]
    have view: "view w = view (world s)" by (rule get(1))
    have same: "granted view w = granted view (world s)" by (rule granted_cong [OF view])
    have nd: "denied g \<noteq> gid" "group_key g \<Longrightarrow> g \<noteq> denied h" for g h
      using group_key_not_denied [OF key, of g] group_key_not_denied [of g h] by metis+
    have coh1: "access_coherent view s1" using coh same view by (simp add: access_coherent_def items_nonempty_def s1)
    show ?thesis
    proof (cases x)
      case (Inl e)
      have "\<not> reads_succeed E clusterTableName (row_key cid (access_sortKey cid gid))"
        using w Inl unfolding reads_succeed_def by (metis Inl_Inr_False prod.inject)
      with Inl db c assms(4) coh1 view s1 show ?thesis by (auto simp: lookup_access_def)
    next
      case (Inr it)
      note it = get(2) [OF Inr]
      show ?thesis
      proof (cases "it = []")
        case True
        have ng: "\<not> granted view (world s) gid cid"
          using coh it True by (auto simp: granted_def items_nonempty_def access_coherent_def
              split: option.splits)
        then have "access_coherent view (cache_access E cid (denied gid) s1)"
          using coh1 nd same unfolding access_coherent_def s1 by auto
        with ng True Inr db c assms(4) view s1 show ?thesis by (auto simp: lookup_access_def)
      next
        case False
        then have g: "granted view (world s) gid cid"
          using it by (auto simp: granted_def split: option.splits)
        then have "access_coherent view (cache_access E cid gid s1)"
          using coh1 nd same unfolding access_coherent_def s1 by auto
        with g False Inr db c assms(4) view s1 show ?thesis by (auto simp: lookup_access_def)
      qed
    qed
  qed
qed

section \<open>Reachable states\<close>

inductive access_step ::
  "'w env \<Rightarrow> 'w view \<Rightarrow> ('w, 'z) cluster_store_scheme \<Rightarrow> ('w, 'z) cluster_store_scheme \<Rightarrow> bool"
  for E view where
  grant: "group_key gid \<Longrightarrow> grant_access E gid cid s = (b, s') \<Longrightarrow> access_step E view s s'"
| withdraw: "group_key gid \<Longrightarrow> withdraw_access E gid cid s = (b, s') \<Longrightarrow> access_step E view s s'"
| lookup: "group_key gid \<Longrightarrow> lookup_access E gid cid s = (b, s') \<Longrightarrow> access_step E view s s'"
| other: "items_nonempty view (world s') clusterTableName \<Longrightarrow>
     granted view (world s') = granted view (world s) \<Longrightarrow>
     clusterGroupAccessCache s' = clusterGroupAccessCache s \<Longrightarrow> access_step E view s s'"

inductive access_reachable ::
  "'w env \<Rightarrow> 'w view \<Rightarrow> ('w, 'z) cluster_store_scheme \<Rightarrow> bool" for E view where
  start: "items_nonempty view (world s) clusterTableName \<Longrightarrow> clusterGroupAccessCache s = [] \<Longrightarrow>
     access_reachable E view s"
| step: "access_reachable E view s \<Longrightarrow> access_step E view s s' \<Longrightarrow> access_reachable E view s'"

lemma access_reachable_coherent:
  assumes "access_reachable E view s" and "dynamo_rw E view"
  shows "access_coherent view s"
  using assms
proof (induction rule: access_reachable.induct)
  case (start s)
  then show ?case by (simp add: access_coherent_def access_entry_def mm_find_value_def)
next
  case (step s s')
  then have coh: "access_coherent view s" by blast
  from step(2) show ?case
  proof cases
    case (grant gid cid b)
    show ?thesis using grant_access_correct [OF step.prems coh grant] by blast
  next
    case (withdraw gid cid b)
    show ?thesis using withdraw_access_correct [OF step.prems coh withdraw] by blast
  next
    case (lookup gid cid b)
    show ?thesis using lookup_access_correct [OF step.prems coh lookup] by blast
  next
    case other
    show ?thesis by (rule access_coherent_frame [OF coh other])
  qed
qed

section \<open>Decisions\<close>

lemma normalizeGroupID_key [simp]:
  "group_key gid \<Longrightarrow> normalizeGroupID E gid True s = (Inr (Some gid), s)"
  by (auto simp: normalizeGroupID_def group_key_def wildcardName_def begins_with_def groupIDPrefix_def)

lemma normalizeClusterID_ID [simp]:
  "begins_with clusterIDPrefix cid \<Longrightarrow> normalizeClusterID E cid s = (Inr (Some cid), s)"
  by (simp add: normalizeClusterID_def)

lemma normalized_pair_key:
  "group_key gid \<Longrightarrow> begins_with clusterIDPrefix cid \<Longrightarrow>
     normalized_pair E gid True cid d k s = k gid cid s"
  by (simp add: normalized_pair_def bindM_def)

lemma normalized_pair_ID:
  "begins_with groupIDPrefix gid \<Longrightarrow> begins_with clusterIDPrefix cid \<Longrightarrow>
     normalized_pair E gid False cid d k s = k gid cid s"
  by (simp add: normalized_pair_def bindM_def)

lemma groupAllowedOnCluster_correct:
  assumes "dynamo_rw E view" and coh: "access_coherent view s" and key: "group_key gid"
    and "begins_with groupIDPrefix gid" and "begins_with clusterIDPrefix cid"
    and "groupAllowedOnCluster E gid cid s = (r, s')"
  shows "\<exists>b. r = Inr b \<and>
    (b \<longrightarrow> granted view (world s) wildcard cid \<or> granted view (world s) gid cid) \<and>
    ((\<forall>k. reads_succeed E clusterTableName k) \<longrightarrow>
       b = (granted view (world s) wildcard cid \<or> granted view (world s) gid cid))"
proof -
  obtain r1 s1 where l1: "lookup_access E wildcard cid s = (r1, s1)"
    by (cases "lookup_access E wildcard cid s")
  note L1 = lookup_access_correct [OF assms(1) coh group_key_wildcard l1]
  then obtain b1 where b1: "r1 = Inr b1" by blast
  obtain r2 s2 where l2: "lookup_access E gid cid s1 = (r2, s2)"
    by (cases "lookup_access E gid cid s1")
  have coh1: "access_coherent view s1" and view: "view (world s1) = view (world s)"
    using L1 by simp_all
  have same: "granted view (world s1) = granted view (world s)"
    by (rule granted_cong) (simp add: view)
  note L2 = lookup_access_correct [OF assms(1) coh1 key l2, unfolded same]
  have run: "groupAllowedOnCluster E gid cid s = (if b1 then (Inr True, s1) else (r2, s2))"
    using l1 l2 b1 assms(4,5)
    by (simp add: groupAllowedOnCluster_def normalized_pair_ID allowed_on_cluster_def bindM_def
        clusterAllowsAllGroups_def ret_def)
  show ?thesis
    using run L1 L2 b1 assms(6) by (cases b1) auto
qed


text \<open>
  The cache of access decisions never contradicts itself: no group has a positive and a
  negative entry for the same cluster, expired or not.
\<close>

theorem access_cache_exclusive:
  assumes "dynamo_rw E view" and "access_reachable E view s" and "group_key gid"
  shows "access_entry s cid gid = None \<or> access_entry s cid (denied gid) = None"
  using access_reachable_coherent [OF assms(2,1)] assms(3) unfolding access_coherent_def by blast


section \<open>Permissions to use applications\<close>

text \<open>What a set of permissions means.\<close>

definition may_use :: "string \<Rightarrow> string set \<Rightarrow> bool" where
  "may_use app apps \<longleftrightarrow> wildcardName \<in> apps \<or> app \<in> apps"

definition stored_permissions :: "'w view \<Rightarrow> 'w \<Rightarrow> string \<Rightarrow> string \<Rightarrow> string set outcome" where
  "stored_permissions view w gid cid =
     applications_of_item (case view w clusterTableName (row_key cid (applications_sortKey cid gid)) of
       None \<Rightarrow> [] | Some it \<Rightarrow> it)"

definition applications_coherent :: "'w view \<Rightarrow> ('w, 'z) cluster_store_scheme \<Rightarrow> bool" where
  "applications_coherent view s \<longleftrightarrow>
     (\<forall>cid gid r. CHR '':'' \<notin> set cid \<longrightarrow>
        cuckoo_find (clusterGroupApplicationCache s) (applications_sortKey cid gid) = Some r \<longrightarrow>
        stored_permissions view (world s) gid cid = Inr (cr_record r))"

definition application_row :: "string \<Rightarrow> string \<Rightarrow> string list \<Rightarrow> item" where
  "application_row cid sortKey stored =
     [(''ID'', AV_S cid), (''sortKey'', AV_S sortKey), (''applications'', AV_SS stored)]"

lemma applications_sortKey_inject:
  "CHR '':'' \<notin> set c \<Longrightarrow> CHR '':'' \<notin> set d \<Longrightarrow>
     applications_sortKey c g = applications_sortKey d h \<longleftrightarrow> c = d \<and> g = h"
  by (auto simp: applications_sortKey_def colon_split)

lemma world_cache_applications [simp]: "world (cache_applications E k apps s) = world s"
  by (simp add: cache_applications_def)

lemma find_cache_applications [simp]:
  "cuckoo_find (clusterGroupApplicationCache (cache_applications E k apps s)) k' =
     (if k' = k then Some (cr_fresh apps (steady_now E s) clusterCacheValidity)
      else cuckoo_find (clusterGroupApplicationCache s) k')"
  by (simp add: cache_applications_def)

text \<open>
  The two encodings of a set of permissions that the store writes: its elements, or the marker
  for the empty set.
\<close>

definition encodes :: "string list \<Rightarrow> string set \<Rightarrow> bool" where
  "encodes stored apps \<longleftrightarrow>
     (if apps = {} then stored = [''<none>''] else set stored = apps \<and> ''<none>'' \<notin> apps)"

lemma applications_of_row:
  "encodes stored apps \<Longrightarrow> applications_of_item (application_row cid k stored) = Inr apps"
  by (auto simp: encodes_def applications_of_item_def application_row_def findOrThrow_def
      Let_def split: if_splits)

lemma put_applications_correct:
  assumes "dynamo_rw E view" and coh: "applications_coherent view s" and cid: "CHR '':'' \<notin> set cid"
    and enc: "encodes stored apps"
    and "put_applications E cid (applications_sortKey cid gid) stored apps s = (r, s')"
  shows "applications_coherent view s' \<and>
    (r = Inr True \<and> stored_permissions view (world s') gid cid = Inr apps \<and>
       cached (steady_now E s') (clusterGroupApplicationCache s') (applications_sortKey cid gid) = Some apps \<or>
     r = Inr False \<and> view (world s') = view (world s))"
proof -
  let ?row = "application_row cid (applications_sortKey cid gid) stored"
  let ?f = "e_put E clusterTableName ?row"
  obtain x s1 where c: "call ?f s = (x, s1)" by (cases "call ?f s")
  then obtain w where w: "?f (world s) = (x, w)" and s1: "s1 = s\<lparr>world := w\<rparr>" by (rule call_cases)
  note put = dynamo_putD [OF assms(1) w]
  have run: "(r, s') = (case x of Inl err \<Rightarrow> (Inr False, s1)
      | Inr _ \<Rightarrow> (Inr True, cache_applications E (applications_sortKey cid gid) apps s1))"
    using c assms(5) by (simp add: put_applications_def application_row_def)
  show ?thesis
  proof (cases x)
    case (Inl e)
    with put have view: "view w = view (world s)" by simp
    then have "applications_coherent view s1"
      using coh by (simp add: applications_coherent_def stored_permissions_def s1)
    with Inl run view s1 show ?thesis by simp
  next
    case (Inr u)
    have key: "primary_key ?row = row_key cid (applications_sortKey cid gid)"
      by (simp add: primary_key_def application_row_def row_key_def)
    have st: "stored_permissions view w g c =
        (if g = gid \<and> c = cid then Inr apps else stored_permissions view (world s) g c)"
      if "CHR '':'' \<notin> set c" for g c
      using put Inr key applications_of_row [OF enc, of cid "applications_sortKey cid gid"]
        applications_sortKey_inject [OF that cid, of g gid]
      by (auto simp: stored_permissions_def)
    have s': "s' = cache_applications E (applications_sortKey cid gid) apps s1" and r: "r = Inr True"
      using Inr run by simp_all
    have "applications_coherent view s'"
      using coh st cid applications_sortKey_inject [OF _ cid]
      unfolding applications_coherent_def s' s1 by auto
    moreover have "cached (steady_now E s') (clusterGroupApplicationCache s') (applications_sortKey cid gid)
        = Some apps"
      by (simp add: s' cached_def) (simp add: cache_applications_def steady_now_def)
    ultimately show ?thesis using st [OF cid] r by (simp add: s' s1)
  qed
qed

lemma list_applications_correct:
  assumes "dynamo_rw E view" and coh: "applications_coherent view s" and cid: "CHR '':'' \<notin> set cid"
    and "list_applications E gid cid s = (r, s')"
  shows "applications_coherent view s' \<and> view (world s') = view (world s) \<and>
    (r = Inr {} \<or> r = stored_permissions view (world s) gid cid) \<and>
    (reads_succeed E clusterTableName (row_key cid (applications_sortKey cid gid)) \<longrightarrow>
       r = stored_permissions view (world s) gid cid)"
proof (cases "cached (steady_now E s) (clusterGroupApplicationCache s) (applications_sortKey cid gid)")
  case (Some apps)
  then have "stored_permissions view (world s) gid cid = Inr apps"
    using coh cid by (auto simp: applications_coherent_def dest!: cached_found)
  moreover have "applications_coherent view (count_hits 1 s)"
    using coh by (simp add: applications_coherent_def) (simp add: count_hits_def)
  ultimately show ?thesis
    using Some assms(4) by (auto simp: list_applications_def Let_def)
next
  case None
  let ?f = "e_get E clusterTableName (row_key cid (applications_sortKey cid gid))"
  obtain x s1 where c: "call ?f (count_query s) = (x, s1)" by (cases "call ?f (count_query s)")
  then obtain w where w: "?f (world s) = (x, w)" and s1: "s1 = (count_query s)\<lparr>world := w\<rparr>"
    by (rule call_cases) simp
  note get = dynamo_getD [OF assms(1) w]
  have view: "view w = view (world s)" by (rule get(1))
  have st: "stored_permissions view w = stored_permissions view (world s)"
    by (simp add: stored_permissions_def view fun_eq_iff)
  have coh1: "applications_coherent view s1"
    using coh st by (simp add: applications_coherent_def s1) (simp add: count_query_def)
  show ?thesis
  proof (cases x)
    case (Inl e)
    have "\<not> reads_succeed E clusterTableName (row_key cid (applications_sortKey cid gid))"
      using w Inl unfolding reads_succeed_def by (metis Inl_Inr_False prod.inject)
    with Inl None c assms(4) coh1 view s1 show ?thesis
      by (auto simp: list_applications_def Let_def)
  next
    case (Inr it)
    have it: "stored_permissions view (world s) gid cid = applications_of_item it"
      using get(2) [OF Inr] by (simp add: stored_permissions_def)
    show ?thesis
    proof (cases "applications_of_item it")
      case (Inl e)
      with Inr None c assms(4) coh1 view s1 it show ?thesis
        by (auto simp: list_applications_def Let_def)
    next
      case (Inr apps)
      have "applications_coherent view (cache_applications E (applications_sortKey cid gid) apps s1)"
        using coh1 st it Inr cid applications_sortKey_inject [OF _ cid]
        unfolding applications_coherent_def by (auto simp: s1)
      with \<open>x = Inr it\<close> Inr None c assms(4) view s1 it show ?thesis
        by (auto simp: list_applications_def Let_def)
    qed
  qed
qed

inductive permission_step ::
  "'w env \<Rightarrow> 'w view \<Rightarrow> ('w, 'z) cluster_store_scheme \<Rightarrow> ('w, 'z) cluster_store_scheme \<Rightarrow> bool"
  for E view where
  list: "CHR '':'' \<notin> set cid \<Longrightarrow> list_applications E gid cid s = (b, s') \<Longrightarrow>
     permission_step E view s s'"
| put: "CHR '':'' \<notin> set cid \<Longrightarrow> encodes stored apps \<Longrightarrow>
     put_applications E cid (applications_sortKey cid gid) stored apps s = (c, s') \<Longrightarrow>
     permission_step E view s s'"
| other: "stored_permissions view (world s') = stored_permissions view (world s) \<Longrightarrow>
     clusterGroupApplicationCache s' = clusterGroupApplicationCache s \<Longrightarrow> permission_step E view s s'"

inductive permission_reachable ::
  "'w env \<Rightarrow> 'w view \<Rightarrow> ('w, 'z) cluster_store_scheme \<Rightarrow> bool" for E view where
  start: "clusterGroupApplicationCache s = [] \<Longrightarrow> permission_reachable E view s"
| step: "permission_reachable E view s \<Longrightarrow> permission_step E view s s' \<Longrightarrow>
     permission_reachable E view s'"

lemma permission_reachable_coherent:
  assumes "permission_reachable E view s" and "dynamo_rw E view"
  shows "applications_coherent view s"
  using assms
proof (induction rule: permission_reachable.induct)
  case (start s)
  then show ?case by (simp add: applications_coherent_def)
next
  case (step s s')
  then have coh: "applications_coherent view s" by blast
  from step(2) show ?case
  proof cases
    case (list cid gid b)
    show ?thesis using list_applications_correct [OF step.prems coh list] by blast
  next
    case (put cid stored apps gid c)
    show ?thesis using put_applications_correct [OF step.prems coh put] by blast
  next
    case other
    with coh show ?thesis by (simp add: applications_coherent_def)
  qed
qed

lemma may_use_with_permission:
  "a \<noteq> wildcardName \<Longrightarrow> may_use a (with_permission app apps) \<longleftrightarrow>
     app = wildcardName \<or> a = app \<or> wildcardName \<notin> apps \<and> a \<in> apps"
  by (auto simp: may_use_def with_permission_def Let_def)

lemma groupMayUseApplication_cached:
  assumes "group_key gid" and "begins_with clusterIDPrefix cid"
    and "cached (steady_now E s) (clusterGroupApplicationCache s) (applications_sortKey cid gid) = Some apps"
  shows "groupMayUseApplication E gid cid a s = (Inr (may_use a apps), count_hits 1 s)"
  using assms
  by (simp add: groupMayUseApplication_def listApplicationsGroupMayUseOnCluster_def normalized_pair_key
      list_applications_def Let_def bindM_def ret_def may_use_def)


text \<open>
  Denying an application takes effect at once: if the permissions could be read, afterwards the
  group may not use it, or nothing at all if the wildcard was denied, and keeps its other
  permissions.  The empty set survives its encoding in the table as a marker.
\<close>

theorem deny_application_effect:
  assumes rw: "dynamo_rw E view" and reach: "permission_reachable E view s" and key: "group_key gid"
    and cid: "begins_with clusterIDPrefix cid" "CHR '':'' \<notin> set cid"
    and reads: "reads_succeed E clusterTableName (row_key cid (applications_sortKey cid gid))"
    and before: "stored_permissions view (world s) gid cid = Inr apps" "finite apps" "''<none>'' \<notin> apps"
    and a: "a \<noteq> wildcardName"
    and denied: "denyGroupUseOfApplication E gid cid app s = (Inr True, s')"
  shows "groupMayUseApplication E gid cid a s' =
      (Inr (app \<notin> {wildcard, wildcardName} \<and> a \<noteq> app \<and> a \<in> apps), count_hits 1 s') \<and>
    stored_permissions view (world s') gid cid =
      Inr (if app \<in> {wildcard, wildcardName} then {} else apps - {app})"
proof -
  obtain r s1 where l: "list_applications E gid cid s = (r, s1)" by (cases "list_applications E gid cid s")
  note L = list_applications_correct [OF rw permission_reachable_coherent [OF reach rw] cid(2) l]
  have r: "r = Inr apps" using L reads before(1) by simp
  obtain new where new: "without_permission (full_name app) apps = Some new"
    and put: "put_applications E cid (applications_sortKey cid gid)
      (if new = {} then [''<none>''] else sorted_list_of_set new) new s1 = (Inr True, s')"
    using denied l r
    by (cases "without_permission (full_name app) apps")
      (auto simp: denyGroupUseOfApplication_def normalized_pair_key [OF key cid(1)]
        listApplicationsGroupMayUseOnCluster_def bindM_def ret_def)
  have new': "new = (if app \<in> {wildcard, wildcardName} then {} else apps - {app})"
    "app \<in> {wildcard, wildcardName} \<or> wildcardName \<notin> apps"
    using new by (auto simp: without_permission_def full_name_def wildcardName_def wildcard_def
        split: if_splits)
  have enc: "encodes (if new = {} then [''<none>''] else sorted_list_of_set new) new"
    using before new'(1) by (auto simp: encodes_def split: if_splits)
  note P = put_applications_correct [OF rw _ cid(2) enc put]
  have "cached (steady_now E s') (clusterGroupApplicationCache s') (applications_sortKey cid gid) = Some new"
    and stored: "stored_permissions view (world s') gid cid = Inr new"
    using P L by auto
  from groupMayUseApplication_cached [OF key cid(1) this(1)] stored show ?thesis
    using new' a by (auto simp: may_use_def)
qed

text \<open>
  What goes wrong when the permissions cannot be read: allowing an application then counts
  the group as having none, and overwrites whatever it had.
\<close>

theorem allow_application_after_failed_read:
  assumes rw: "dynamo_rw E view" and reach: "permission_reachable E view s" and key: "group_key gid"
    and cid: "begins_with clusterIDPrefix cid" "CHR '':'' \<notin> set cid"
    and uncached: "cached (steady_now E s) (clusterGroupApplicationCache s) (applications_sortKey cid gid) = None"
    and failed: "e_get E clusterTableName (row_key cid (applications_sortKey cid gid)) (world s) = (Inl err, w)"
    and app: "app \<notin> {''<none>'', wildcard, wildcardName}"
    and allowed: "allowVoToUseApplication E gid cid app s = (Inr True, s')"
  shows "stored_permissions view (world s') gid cid = Inr {app}"
proof -
  let ?s1 = "(count_query s)\<lparr>world := w\<rparr>"
  have l: "list_applications E gid cid s = (Inr {}, ?s1)"
    using uncached failed by (simp add: list_applications_def Let_def call_def)
  note L = list_applications_correct [OF rw permission_reachable_coherent [OF reach rw] cid(2) l]
  have new: "with_permission (full_name app) {} = {app}"
    using app by (auto simp: with_permission_def full_name_def)
  have put: "put_applications E cid (applications_sortKey cid gid) [app] {app} ?s1 = (Inr True, s')"
    using allowed l new
    by (simp add: allowVoToUseApplication_def normalized_pair_key [OF key cid(1)]
        listApplicationsGroupMayUseOnCluster_def bindM_def Let_def)
  have "encodes [app] {app}" using app by (auto simp: encodes_def)
  from put_applications_correct [OF rw _ cid(2) this put] L show ?thesis by auto
qed

section \<open>Witnesses\<close>

text \<open>The in-memory service without a failure schedule: every read succeeds.\<close>

definition sound_env :: "mem_world env" where
  "sound_env = mem_env\<lparr>e_get := (\<lambda>t k w. mem_get t k (w\<lparr>mw_failures := []\<rparr>))\<rparr>"

lemma sound_env_simps [simp]:
  "e_now sound_env = mem_now" "e_put sound_env = mem_put" "e_delete sound_env = mem_delete"
  "e_update sound_env = mem_update" "e_query sound_env = mem_query" "e_scan sound_env = mem_scan"
  "e_get sound_env = (\<lambda>t k w. mem_get t k (w\<lparr>mw_failures := []\<rparr>))"
  by (simp_all add: sound_env_def)

lemma sound_reads [simp]: "reads_succeed sound_env t k"
  by (simp add: reads_succeed_def mem_get_def mem_fails_def)

lemma sound_rw: "dynamo_rw sound_env mem_view"
proof -
  have "mem_view (w\<lparr>mw_failures := []\<rparr>) = mem_view w" for w
    by (simp add: mem_view_def fun_eq_iff)
  then show ?thesis
    using mem_rw by (auto simp: dynamo_rw_def mem_get_def mem_fails_def)
qed

lemma steady_now_sound [simp]: "steady_now sound_env s = mem_now (world s)"
  by (simp add: steady_now_def)

definition guest :: string where "guest = ''group_B''"
definition site :: string where "site = ''cluster_C''"

lemma guest_site [simp]:
  "group_key guest" "begins_with groupIDPrefix guest" "begins_with clusterIDPrefix site"
  "CHR '':'' \<notin> set site"
  by (simp_all add: group_key_def guest_def site_def begins_with_def groupIDPrefix_def plain_def
      clusterIDPrefix_def)

lemma sample_access_reachable: "access_reachable E mem_view sample_store"
  by (rule access_reachable.start)
    (simp_all add: sample_store_def mem_start_def items_nonempty_def mem_view_def)

definition with_grant :: "mem_world persistent_store" where
  "with_grant = snd (addGroupToCluster sound_env guest site sample_store)"

lemma with_grant_added: "addGroupToCluster sound_env guest site sample_store = (Inr True, with_grant)"
proof -
  have "fst (addGroupToCluster sound_env guest site sample_store) = Inr True"
    by (simp add: addGroupToCluster_def normalized_pair_key grant_access_def call_def mem_put_def
        mem_fails_def) (simp add: sample_store_def mem_start_def)
  then show ?thesis by (simp add: with_grant_def prod_eq_iff)
qed


lemma with_grant_grant: "grant_access sound_env guest site sample_store = (Inr True, with_grant)"
  using with_grant_added by (simp add: addGroupToCluster_def normalized_pair_key)

lemma with_grant_granted: "granted mem_view (world with_grant) guest site"
  using grant_access_correct [OF sound_rw access_reachable_coherent [OF sample_access_reachable sound_rw]
      guest_site(1) with_grant_grant] by simp

lemma with_grant_entry: "access_entry with_grant site guest \<noteq> None"
proof -
  obtain t where t: "cache_access sound_env site guest t = with_grant"
    using with_grant_grant by (auto simp: grant_access_def split: prod.splits sum.splits)
  have "access_entry (cache_access sound_env site guest t) site guest \<noteq> None" by simp
  with t show ?thesis by simp
qed

lemma with_grant_reachable: "access_reachable sound_env mem_view with_grant"
  using with_grant_added
  by (intro access_reachable.step [OF sample_access_reachable] access_step.grant)
    (auto simp: addGroupToCluster_def normalized_pair_key)


theorem access_cache_exclusive_witness:
  "access_entry with_grant site (denied guest) = None"
  using access_cache_exclusive [OF sound_rw with_grant_reachable, of guest site] with_grant_entry
  by simp

lemma sample_permission_reachable: "permission_reachable E view sample_store"
  by (rule permission_reachable.start) (simp add: sample_store_def)

lemma sample_permissions: "stored_permissions mem_view (world sample_store) guest site = Inr {wildcardName}"
  by (simp add: stored_permissions_def applications_of_item_def sample_store_def mem_start_def mem_view_def)

definition with_permission_for_nginx :: "mem_world persistent_store" where
  "with_permission_for_nginx = snd (allowVoToUseApplication sound_env guest site ''nginx'' sample_store)"

lemmas permission_eval = allowVoToUseApplication_def denyGroupUseOfApplication_def normalized_pair_key
  listApplicationsGroupMayUseOnCluster_def bindM_def list_applications_def Let_def call_def
  mem_get_def mem_put_def mem_fails_def applications_of_item_def put_applications_def ret_def

lemma nginx_allowed:
  "allowVoToUseApplication sound_env guest site ''nginx'' sample_store = (Inr True, with_permission_for_nginx)"
proof -
  have "fst (allowVoToUseApplication sound_env guest site ''nginx'' sample_store) = Inr True"
    by (simp add: permission_eval cached_def sample_store_def mem_start_def mem_view_def mem_tick_def
        count_query_def)
  then show ?thesis by (simp add: with_permission_for_nginx_def prod_eq_iff)
qed


definition with_nothing :: "mem_world persistent_store" where
  "with_nothing = snd (denyGroupUseOfApplication sound_env guest site wildcardName sample_store)"

lemma all_denied:
  "denyGroupUseOfApplication sound_env guest site wildcardName sample_store = (Inr True, with_nothing)"
proof -
  have "fst (denyGroupUseOfApplication sound_env guest site wildcardName sample_store) = Inr True"
    by (simp add: permission_eval cached_def sample_store_def mem_start_def mem_view_def mem_tick_def
        count_query_def without_permission_def full_name_def)
  then show ?thesis by (simp add: with_nothing_def prod_eq_iff)
qed

theorem deny_application_effect_witness:
  "fst (groupMayUseApplication sound_env guest site ''nginx'' with_nothing) = Inr False \<and>
   stored_permissions mem_view (world with_nothing) guest site = Inr {}"
  using deny_application_effect [OF sound_rw sample_permission_reachable guest_site(1,3,4) sound_reads
      sample_permissions _ _ _ all_denied, of "''nginx''"]
  by (simp add: wildcardName_def)

definition unreadable :: "mem_world persistent_store" where
  "unreadable = sample_store\<lparr>world := mem_start\<lparr>mw_failures := [True]\<rparr>\<rparr>"

definition overwritten :: "mem_world persistent_store" where
  "overwritten = snd (allowVoToUseApplication mem_env guest site ''nginx'' unreadable)"

theorem allow_application_after_failed_read_witness:
  "allowVoToUseApplication mem_env guest site ''nginx'' unreadable = (Inr True, overwritten) \<and>
   stored_permissions mem_view (world overwritten) guest site = Inr {''nginx''}"
proof -
  have "fst (allowVoToUseApplication mem_env guest site ''nginx'' unreadable) = Inr True"
    by (simp add: permission_eval cached_def unreadable_def sample_store_def mem_start_def
        mem_view_def mem_tick_def count_query_def)
  then have run: "allowVoToUseApplication mem_env guest site ''nginx'' unreadable = (Inr True, overwritten)"
    by (simp add: overwritten_def prod_eq_iff)
  have reach: "permission_reachable mem_env mem_view unreadable"
    by (rule permission_reachable.start) (simp add: unreadable_def sample_store_def)
  have uncached: "cached (steady_now mem_env unreadable) (clusterGroupApplicationCache unreadable)
      (applications_sortKey site guest) = None"
    by (simp add: unreadable_def sample_store_def cached_def)
  have failed: "e_get mem_env clusterTableName (row_key site (applications_sortKey site guest))
      (world unreadable) = (Inl ''request failed'', mem_tick (world unreadable))"
    by (simp add: unreadable_def mem_get_def mem_fails_def)
  from allow_application_after_failed_read [OF mem_rw reach guest_site(1,3,4) uncached failed _ run] run
  show ?thesis by (simp add: wildcard_def wildcardName_def)
qed

end
