(* ===== verification/IdentifierCorrect.thy ===== *)
theory IdentifierCorrect
  imports AccessCorrect
begin

text \<open>
  Correctness of the generated identifiers and of the textual forms of entities (theory
  \<open>Entities\<close> and the items of the store): identifiers have a fixed, URL-safe form, distinct
  random values give distinct identifiers, and the records of every table read back as written.
\<close>

section \<open>Digits\<close>

lemma digits_determine:
  fixes m n B :: nat
  assumes "\<And>i. i < k \<Longrightarrow> (m div B ^ i) mod B = (n div B ^ i) mod B"
  shows "m mod B ^ k = n mod B ^ k"
  using assms
proof (induction k)
  case 0
  then show ?case by simp
next
  case (Suc k)
  have split: "x mod B ^ Suc k = B ^ k * (x div B ^ k mod B) + x mod B ^ k" for x
    using mod_mult2_eq [of x "B ^ k" B] by (simp add: mult.commute)
  from Suc.IH Suc.prems show ?case unfolding split by simp
qed

lemma memory_bytes_inject: "memory_bytes v = memory_bytes w \<longleftrightarrow> v = w"
proof
  assume eq: "memory_bytes v = memory_bytes w"
  have "(unat v div 256 ^ i) mod 256 = (unat w div 256 ^ i) mod 256" if "i < 8" for i
    using arg_cong [OF eq, of "\<lambda>l. l ! i"] that by (simp add: memory_bytes_def)
  then have "unat v mod 256 ^ 8 = unat w mod 256 ^ 8" by (rule digits_determine)
  moreover have "unat x < 256 ^ 8" for x :: "64 word" using unsigned_less [of x] by simp
  ultimately show "v = w" by (simp add: unsigned_word_eqI)
qed simp

lemma length_memory_bytes [simp]: "length (memory_bytes w) = 8"
  by (simp add: memory_bytes_def)

lemma memory_bytes_bound: "b \<in> set (memory_bytes w) \<Longrightarrow> b < 256"
  by (auto simp: memory_bytes_def)

lemma length_byte_bits [simp]: "length (byte_bits b) = 8"
  by (simp add: byte_bits_def)

lemma byte_bits_inject:
  assumes "byte_bits a = byte_bits b" and "a < 256" and "b < 256"
  shows "a = b"
proof -
  have "(a div 2 ^ i) mod 2 = (b div 2 ^ i) mod 2" if "i < 8" for i
  proof -
    have "odd (a div 2 ^ (7 - j)) = odd (b div 2 ^ (7 - j))" if "j < 8" for j
      using arg_cong [OF assms(1), of "\<lambda>l. l ! j"] that by (simp add: byte_bits_def)
    from this [of "7 - i"] that show ?thesis by (simp add: parity_cases mod2_eq_if)
  qed
  then have "a mod 2 ^ 8 = b mod 2 ^ 8" by (rule digits_determine)
  with assms(2,3) show ?thesis by simp
qed

lemma concat_bits_inject:
  "map byte_bits xs = map byte_bits ys \<longleftrightarrow> concat (map byte_bits xs) = concat (map byte_bits ys)"
  if "length xs = length ys"
  using that
proof (induction xs ys rule: list_induct2)
  case (Cons x xs y ys)
  then show ?case by (simp add: append_eq_append_conv)
qed simp

section \<open>Groups of six bits\<close>

lemma bits_value_bound: "bits_value bs < 2 ^ length bs"
  by (induction bs) auto

lemma bits_value_inject: "length xs = length ys \<Longrightarrow> bits_value xs = bits_value ys \<longleftrightarrow> xs = ys"
proof (induction xs ys rule: list_induct2)
  case (Cons x xs y ys)
  then show ?case
    using bits_value_bound [of xs] bits_value_bound [of ys] by auto
qed simp

lemma bits_value_zeros [simp]: "bits_value (replicate n False) = 0"
  by (induction n) auto

lemma length_sextets: "length (sextets bs) = (length bs + 5) div 6"
  by (induction bs rule: sextets.induct) simp_all

lemma sextets_bound: "n \<in> set (sextets bs) \<Longrightarrow> n < 64"
proof (induction bs rule: sextets.induct)
  case (2 a b c d e f rest)
  then show ?case using bits_value_bound [of "[a, b, c, d, e, f]"] by auto
qed (auto split: if_splits)

lemma sextets_inject: "sextets bs = sextets cs \<Longrightarrow> length bs = length cs \<Longrightarrow> bs = cs"
proof (induction bs arbitrary: cs rule: sextets.induct)
  case (2 a b c d e f rest)
  then obtain a' b' c' d' e' f' rest' where cs: "cs = a' # b' # c' # d' # e' # f' # rest'"
    by (auto simp: length_Suc_conv Suc_length_conv)
  with 2 bits_value_inject [of "[a, b, c, d, e, f]" "[a', b', c', d', e', f']"] show ?case
    by auto
qed (auto simp: length_Suc_conv Suc_length_conv split: if_splits)

lemma last_sextet: "length bs mod 6 = 4 \<Longrightarrow> bs \<noteq> [] \<and> 4 dvd last (sextets bs)"
proof (induction bs rule: sextets.induct)
  case (2 a b c d e f rest)
  then have "rest \<noteq> []" and IH: "4 dvd last (sextets rest)" by (auto simp: mod_Suc split: if_splits)
  moreover have "sextets rest \<noteq> []"
    using length_sextets [of rest] \<open>rest \<noteq> []\<close> by (cases rest) auto
  ultimately show ?case by simp
qed (auto split: if_splits)

section \<open>The alphabet\<close>

lemma char_of_is: "m < 256 \<Longrightarrow> char_of (m :: nat) = c \<longleftrightarrow> m = of_char c"
  by (metis char_of_char of_char_of mod_less)

lemma base64_code:
  assumes "n < 64"
  shows "code (url_safe (base64_char n)) =
     (if n < 26 then 65 + n else if n < 52 then 71 + n else if n < 62 then n - 4
      else if n = 62 then 45 else 95)"
  using assms by (auto simp: code_def url_safe_def base64_char_def char_of_is)

lemma url_safe_base64_inject:
  assumes "m < 64" and "n < 64" and "url_safe (base64_char m) = url_safe (base64_char n)"
  shows "m = n"
proof -
  have "code (url_safe (base64_char m)) = code (url_safe (base64_char n))" using assms(3) by simp
  then show ?thesis
    unfolding base64_code [OF assms(1)] base64_code [OF assms(2)]
    using assms(1,2) by (auto split: if_splits)
qed

lemma char_code_eq: "c = d \<longleftrightarrow> code c = code d"
  by (auto simp: code_def)

lemma code_dashes [simp]: "code (CHR ''-'') = 45" "code (CHR ''_'') = 95"
  by (simp_all add: code_def)

lemma url_safe_char:
  assumes "n < 64"
  shows "isalnum (url_safe (base64_char n)) \<or> url_safe (base64_char n) \<in> {CHR ''-'', CHR ''_''}"
  using base64_code [OF assms]
  by (auto simp: isalnum_def isalpha_def isdigit_def islower_def isupper_def char_code_eq split: if_splits)

section \<open>Identifiers\<close>

lemma ID_bits: "length (concat (map byte_bits (memory_bytes r))) = 64"
  by (simp add: length_concat comp_def sum_list_triv)

text \<open>
  A generated raw identifier has eleven characters, all of them letters, digits, dashes or
  underscores, and the last one is neither a dash nor an underscore; and distinct random values
  give distinct identifiers.
\<close>

theorem generateRawID_format:
  "length (generateRawID r) = 11 \<and>
   list_all (\<lambda>c. isalnum c \<or> c \<in> {CHR ''-'', CHR ''_''}) (generateRawID r) \<and>
   last (generateRawID r) \<notin> {CHR ''-'', CHR ''_''} \<and>
   inj generateRawID"
proof (intro conjI)
  let ?s = "sextets (concat (map byte_bits (memory_bytes r)))"
  have id: "generateRawID r = map (url_safe \<circ> base64_char) ?s" by (simp add: generateRawID_def)
  have len: "length ?s = 11" unfolding length_sextets ID_bits by simp
  then show "length (generateRawID r) = 11" by (simp add: id)
  show "list_all (\<lambda>c. isalnum c \<or> c \<in> {CHR ''-'', CHR ''_''}) (generateRawID r)"
    unfolding id list_all_iff using url_safe_char sextets_bound by fastforce
  have ne: "?s \<noteq> []" using len by auto
  have "4 dvd last ?s" using last_sextet [of "concat (map byte_bits (memory_bytes r))"] ID_bits [of r] by simp
  moreover have b: "last ?s < 64" using sextets_bound last_in_set [OF ne] by blast
  ultimately have "last ?s < 61" by presburger
  then show "last (generateRawID r) \<notin> {CHR ''-'', CHR ''_''}"
    using base64_code [OF b] ne by (auto simp: id last_map char_code_eq split: if_splits)
  show "inj generateRawID"
  proof (rule injI)
    fix v w assume eq: "generateRawID v = generateRawID w"
    let ?b = "\<lambda>x. concat (map byte_bits (memory_bytes x))"
    have "inj_on (url_safe \<circ> base64_char) (set (sextets (?b v)) \<union> set (sextets (?b w)))"
    proof (rule inj_onI)
      fix m n assume "m \<in> set (sextets (?b v)) \<union> set (sextets (?b w))"
        and "n \<in> set (sextets (?b v)) \<union> set (sextets (?b w))"
        and f: "(url_safe \<circ> base64_char) m = (url_safe \<circ> base64_char) n"
      then have "m < 64" and "n < 64" using sextets_bound by blast+
      with f show "m = n" by (simp add: url_safe_base64_inject)
    qed
    moreover have "map (url_safe \<circ> base64_char) (sextets (?b v)) = map (url_safe \<circ> base64_char) (sextets (?b w))"
      using eq unfolding generateRawID_def map_map .
    ultimately have "sextets (?b v) = sextets (?b w)" by (simp only: inj_on_map_eq_map)
    then have "?b v = ?b w" by (rule sextets_inject) (simp only: ID_bits)
    then have "map byte_bits (memory_bytes v) = map byte_bits (memory_bytes w)"
      using concat_bits_inject [of "memory_bytes v" "memory_bytes w"] by simp
    then have "memory_bytes v = memory_bytes w"
      by (rule map_inj_on) (auto intro!: inj_onI byte_bits_inject dest: memory_bytes_bound)
    then show "v = w" by (simp add: memory_bytes_inject)
  qed
qed

lemma generateRawID_plain: "plain (generateRawID r)" "CHR '':'' \<notin> set (generateRawID r)"
  "generateRawID r \<noteq> []"
proof -
  let ?s = "sextets (concat (map byte_bits (memory_bytes r)))"
  have id: "generateRawID r = map (url_safe \<circ> base64_char) ?s" by (simp add: generateRawID_def)
  have len: "length ?s = 11" unfolding length_sextets ID_bits by simp
  then have ne: "?s \<noteq> []" by auto
  then show "generateRawID r \<noteq> []" by (simp add: id)
  have "c \<noteq> CHR '':''" if mem: "c \<in> set (generateRawID r)" for c
  proof -
    have colon: "code (CHR '':'') = 58" by (simp add: code_def)
    obtain n where n: "n \<in> set ?s" and c: "c = url_safe (base64_char n)"
      using mem unfolding id by auto
    from base64_code [OF sextets_bound [OF n]] c show ?thesis by (auto simp: char_code_eq colon split: if_splits)
  qed
  then show nc: "CHR '':'' \<notin> set (generateRawID r)" by blast
  have "4 dvd last ?s" using last_sextet [of "concat (map byte_bits (memory_bytes r))"] ID_bits [of r] by simp
  moreover have b: "last ?s < 64" using sextets_bound last_in_set [OF ne] by blast
  ultimately have "last ?s < 61" by presburger
  then have "last (generateRawID r) \<noteq> CHR ''-''"
    using base64_code [OF b] ne by (auto simp: id last_map char_code_eq split: if_splits)
  with nc show "plain (generateRawID r)" by (simp add: plain_def)
qed

text \<open>
  The identifiers generated for groups and clusters are of the form on which the composite
  keys and the negative access entries rely: no colon in them and no dash at the end, so a
  group's identifier is never the negative entry of another.
\<close>

theorem generated_ids_are_plain:
  "group_key (generateGroupID r) \<and> CHR '':'' \<notin> set (generateClusterID r) \<and>
   (\<forall>g. generateGroupID r \<noteq> denied g)"
proof -
  have "plain (generateGroupID r)"
    using generateRawID_plain [of r] by (auto simp: generateGroupID_def plain_def groupIDPrefix_def)
  then have "group_key (generateGroupID r)"
    by (simp add: group_key_def generateGroupID_def)
  moreover have "CHR '':'' \<notin> set (generateClusterID r)"
    using generateRawID_plain [of r] by (simp add: generateClusterID_def clusterIDPrefix_def)
  ultimately show ?thesis using group_key_not_denied by blast
qed

section \<open>Textual forms\<close>

lemma takeWhile_until: "x \<notin> set a \<Longrightarrow> takeWhile (\<lambda>c. c \<noteq> x) (a @ x # b) = a"
  by (induction a) auto

lemma split_at_first:
  "length (takeWhile (\<lambda>c. c \<noteq> x) d) \<noteq> length d \<Longrightarrow>
     d = takeWhile (\<lambda>c. c \<noteq> x) d @ x # drop (length (takeWhile (\<lambda>c. c \<noteq> x) d) + 1) d"
  by (induction d) auto

lemma s3_roundtrip:
  assumes "ak \<noteq> []" and "sk \<noteq> []" and "CHR '' '' \<notin> set ak"
  shows "s3_deserialize (s3_serialize (make_cred ak sk)) = make_cred ak sk"
  using assms takeWhile_until [OF assms(3), of sk]
  by (cases sk) (simp_all add: s3_deserialize_def s3_serialize_def make_cred_def no_cred_def Let_def)

lemma s3_serialize_keys:
  "s3_serialize c = s3_serialize (make_cred (s3_accessKey c) (s3_secretKey c))"
  by (simp add: s3_serialize_def make_cred_def)

lemma s3_no_cred: "s3_deserialize (s3_serialize no_cred) = no_cred"
  by (simp add: s3_deserialize_def s3_serialize_def no_cred_def)

text \<open>
  A credential written into a cluster record reads back as the same key pair, provided its
  access key has no space and neither key is empty; the text of "no credential" reads back as no
  credential; and any text that is read as a credential is the one that would be written for it.
\<close>

theorem s3_text_roundtrip:
  "(s3_ok c \<and> CHR '' '' \<notin> set (s3_accessKey c) \<longrightarrow>
      s3_deserialize (s3_serialize c) = make_cred (s3_accessKey c) (s3_secretKey c)) \<and>
   s3_deserialize (s3_serialize no_cred) = no_cred \<and>
   (s3_deserialize d \<noteq> no_cred \<longrightarrow> s3_serialize (s3_deserialize d) = d)"
proof (intro conjI impI)
  assume "s3_ok c \<and> CHR '' '' \<notin> set (s3_accessKey c)"
  then show "s3_deserialize (s3_serialize c) = make_cred (s3_accessKey c) (s3_secretKey c)"
    unfolding s3_serialize_keys [of c] by (intro s3_roundtrip) (simp_all add: s3_ok_def)
next
  show "s3_deserialize (s3_serialize no_cred) = no_cred" by (rule s3_no_cred)
next
  assume "s3_deserialize d \<noteq> no_cred"
  then have ne: "length (takeWhile (\<lambda>c. c \<noteq> CHR '' '') d) \<noteq> length d"
    and d: "s3_deserialize d = no_cred\<lparr>
      s3_accessKey := take (length (takeWhile (\<lambda>c. c \<noteq> CHR '' '') d)) d,
      s3_secretKey := drop (length (takeWhile (\<lambda>c. c \<noteq> CHR '' '') d) + 1) d\<rparr>"
    by (auto simp: s3_deserialize_def Let_def split: if_splits)
  have "take (length (takeWhile (\<lambda>c. c \<noteq> CHR '' '') d)) d = takeWhile (\<lambda>c. c \<noteq> CHR '' '') d"
    by (metis takeWhile_eq_take)
  with split_at_first [OF ne] show "s3_serialize (s3_deserialize d) = d"
    unfolding d by (simp add: s3_serialize_def)
qed

theorem s3_text_roundtrip_witness:
  "s3_deserialize (s3_serialize (make_cred ''AK'' ''S K'')) = make_cred ''AK'' ''S K''"
  using s3_text_roundtrip [of "make_cred ''AK'' ''S K''"] by (simp add: make_cred_def s3_ok_def)

lemma accessMode_roundtrip [simp]: "accessModeFromString (accessMode_to_string am) = Inr am"
  by (cases am) (simp_all add: accessModeFromString_def)

lemma volumeMode_roundtrip [simp]: "volumeModeFromString (volumeMode_to_string vm) = Inr vm"
  by (cases vm) (simp_all add: volumeModeFromString_def)

text \<open>
  C35: the records of every kind of entity read back from the item written for them as they were,
  except for what the code does not store with them: an instance's configuration (it has an item
  of its own), a claim's selector labels, and the in-use and revoked marks of a cluster's
  credential.
\<close>

theorem entity_items_roundtrip:
  assumes "u_valid u" and "g_valid g" and "c_valid c" and "i_valid i" and "s_valid x" and "v_valid v"
    and "c_monitoringCredential c = no_cred \<or>
      (\<exists>ak sk. c_monitoringCredential c = make_cred ak sk \<and> ak \<noteq> [] \<and> sk \<noteq> [] \<and> CHR '' '' \<notin> set ak)"
  shows "user_of_ID_item (u_id u) (user_item u) = Inr u \<and>
    group_of_ID_item (g_id g) (group_item g) = Inr g \<and>
    cluster_of_ID_item (c_id c) (cluster_item c) = Inr c \<and>
    instance_of_ID_item (i_id i) (instance_item i) = Inr (i\<lparr>i_config := ''''\<rparr>) \<and>
    secret_of_ID_item (s_id x) (secret_item x) = Inr x \<and>
    volume_of_ID_item (v_id v) (volume_item v) =
      Inr (v\<lparr>v_selectorMatchLabel := '''', v_selectorLabelExpressions := []\<rparr>)"
proof (intro conjI)
  have cred: "s3_deserialize (s3_serialize (c_monitoringCredential c)) = c_monitoringCredential c"
    using assms(7) s3_no_cred s3_roundtrip by auto
  show "user_of_ID_item (u_id u) (user_item u) = Inr u" by (rule user_item_roundtrip [OF assms(1)])
  show "group_of_ID_item (g_id g) (group_item g) = Inr g" by (rule group_item_roundtrip [OF assms(2)])
  show "cluster_of_ID_item (c_id c) (cluster_item c) = Inr c"
    using assms(3) cred
    by (simp add: cluster_of_ID_item_def cluster_details_def cluster_item_def cluster_updates_def
        entity_key_def findOrThrow_def findOrDefault_def)
  show "instance_of_ID_item (i_id i) (instance_item i) = Inr (i\<lparr>i_config := ''''\<rparr>)"
    using assms(4) by (simp add: instance_of_ID_item_def instance_item_def findOrThrow_def)
  show "secret_of_ID_item (s_id x) (secret_item x) = Inr x"
    using assms(5) by (simp add: secret_of_ID_item_def secret_item_def findOrThrow_def)
  show "volume_of_ID_item (v_id v) (volume_item v) =
      Inr (v\<lparr>v_selectorMatchLabel := '''', v_selectorLabelExpressions := []\<rparr>)"
    using assms(6)
    by (simp add: volume_of_ID_item_def volume_item_def volume_record_def findOrThrow_def)
qed

definition sample_instance :: ApplicationInstance where
  "sample_instance = \<lparr>i_valid = True, i_id = ''instance_E'', i_name = ''web'', i_application = ''nginx'',
     i_owningGroup = ''group_B'', i_cluster = ''cluster_C'', i_config = '''', i_ctime = ''now''\<rparr>"

definition sample_volume :: PersistentVolumeClaim where
  "sample_volume = no_volume\<lparr>v_valid := True, v_id := ''volume_F'', v_name := ''disk'',
     v_group := ''group_B'', v_cluster := ''cluster_C'', v_storageRequest := ''1Gi''\<rparr>"

theorem entity_items_roundtrip_witness:
  "cluster_of_ID_item ''cluster_C'' (cluster_item sample_cluster) = Inr sample_cluster \<and>
   volume_of_ID_item ''volume_F'' (volume_item sample_volume) = Inr sample_volume"
  using entity_items_roundtrip [of sample_user sample_group sample_cluster sample_instance
      sample_secret sample_volume]
  by (simp add: sample_user_def sample_group_def sample_cluster_def sample_instance_def
      sample_secret_def sample_volume_def no_volume_def)

section \<open>Encryption of secrets\<close>

text \<open>The documented behaviour of the scrypt library: a header, and decryption undoes encryption.\<close>

definition scrypt_law :: "'w env \<Rightarrow> bool" where
  "scrypt_law E \<longleftrightarrow>
     (\<forall>key d n w out w'. e_scryptEnc E key d n w = (Inr out, w') \<longrightarrow>
        length out = length d + 128 \<and> take 6 out = ''scrypt'' \<and> e_scryptDec E key out = Inr d)"

text \<open>
  What \<open>encryptSecret\<close> produces passes the header check of \<open>addSecret\<close> and is decrypted by
  \<open>decryptSecret\<close> to the original data, as long as the key stays the same; data too short for
  a header is refused without calling the library.
\<close>

theorem secret_encryption_roundtrip:
  assumes "scrypt_law E" and "encryptSecret E d s = (Inr enc, s1)" and "s_data secret = enc"
  shows "decryptSecret E secret s1 = (Inr d, s1) \<and>
    (\<forall>e t. addSecret E secret s1 \<noteq> (Inl e, t)) \<and>
    (length (s_data other) < 128 \<longrightarrow>
      decryptSecret E other s1 = (Inl ''Invalid encrypted data: too short to contain header'', s1))"
proof -
  obtain w where enc: "e_scryptEnc E (secretKey s) d (length d + 128) (world s) = (Inr enc, w)"
    and s1: "s1 = s\<lparr>world := w\<rparr>"
    using assms(2) by (auto simp: encryptSecret_def call_def split: prod.splits sum.splits)
  have law: "length enc = length d + 128" "take 6 enc = ''scrypt''" "e_scryptDec E (secretKey s) enc = Inr d"
    using assms(1) enc unfolding scrypt_law_def by blast+
  show ?thesis
    using law assms(3) s1
    by (auto simp: decryptSecret_def addSecret_def split: prod.splits sum.splits)
qed

lemma mem_scrypt: "scrypt_law mem_env"
  by (simp add: scrypt_law_def mem_encrypt_def mem_decrypt_def mem_header_def)

theorem secret_encryption_roundtrip_witness:
  "fst (decryptSecret mem_env (no_secret\<lparr>s_data := mem_header (replicate 1024 (CHR 0x00)) @ ''x''\<rparr>)
     sample_store) = Inr ''x''"
proof -
  have "encryptSecret mem_env ''x'' sample_store =
      (Inr (mem_header (replicate 1024 (CHR 0x00)) @ ''x''), sample_store)"
    by (simp add: encryptSecret_def call_def mem_encrypt_def sample_store_def new_store_def)
  from secret_encryption_roundtrip [OF mem_scrypt this,
      of "no_secret\<lparr>s_data := mem_header (replicate 1024 (CHR 0x00)) @ ''x''\<rparr>" no_secret]
  show ?thesis by simp
qed

end
