(* ===== verification/ListingCorrect.thy ===== *)
theory ListingCorrect
  imports IdentifierCorrect
begin

text \<open>
  Correctness of the listings that are answered from the multimap caches: a listing of the
  secrets of a group, or of a group on a cluster, never shows a secret of another; what is kept
  under a key and what is not, for the cache of groups; how the page budget of the scans works;
  and the incomplete listing of a cluster's volume claims.
\<close>

section \<open>Caches whose records belong to their key\<close>

definition mm_keyed :: "('v \<Rightarrow> 'k) \<Rightarrow> ('k, 'v CacheRecord) multimap \<Rightarrow> bool" where
  "mm_keyed f m \<longleftrightarrow>
     (\<forall>k c r. cuckoo_find m k = Some c \<longrightarrow> r \<in> set (fst c) \<longrightarrow> f (cr_record r) = k)"

lemma mm_keyed_Nil [simp]: "mm_keyed f []"
  by (simp add: mm_keyed_def)

lemma set_us_erase: "set (us_erase eq v xs) \<subseteq> set xs"
  by (auto simp: us_erase_def)

lemma set_us_emplace: "set (us_emplace eq v xs) \<subseteq> insert v (set xs)"
  by (auto simp: us_emplace_def)

lemma mm_keyed_insert:
  assumes "mm_keyed f m" and "f (cr_record r) = k"
  shows "mm_keyed f (snd (mm_insert_or_assign eq t k r m))"
  using assms set_us_erase set_us_emplace
  by (fastforce simp: mm_keyed_def mm_insert_or_assign_def split: option.splits if_splits)

lemma mm_keyed_erase: "mm_keyed f m \<Longrightarrow> mm_keyed f (snd (mm_erase eq k r m))"
  using set_us_erase
  by (fastforce simp: mm_keyed_def mm_erase_def Let_def split: option.splits if_splits)

lemma mm_keyed_erase_key: "mm_keyed f m \<Longrightarrow> mm_keyed f (snd (mm_erase_key k m))"
  by (auto simp: mm_keyed_def mm_erase_key_def split: option.splits if_splits)

lemma mm_keyed_expiration: "mm_keyed f m \<Longrightarrow> mm_keyed f (snd (mm_update_expiration k t m))"
  by (auto simp: mm_keyed_def mm_update_expiration_def split: if_splits)

lemmas mm_keyed_intros = mm_keyed_insert mm_keyed_erase mm_keyed_erase_key mm_keyed_expiration

lemma cachedCategoryMembers_keyed:
  assumes "mm_keyed f m" and "cachedCategoryMembers now m k = Some vs" and "v \<in> set vs"
  shows "f v = k"
  using assms
  by (auto simp: cachedCategoryMembers_def Let_def mm_find_def mm_keyed_def split: if_splits option.splits)

section \<open>Secrets\<close>

definition secret_pair :: "Secret \<Rightarrow> string" where
  "secret_pair x = pair_key (s_group x) (s_cluster x)"

definition secrets_keyed :: "('w, 'z) secret_store_scheme \<Rightarrow> bool" where
  "secrets_keyed s \<longleftrightarrow>
     mm_keyed s_group (secretByGroupCache s) \<and> mm_keyed secret_pair (secretByGroupAndClusterCache s)"

lemma secrets_keyed_frame:
  "secrets_keyed s \<Longrightarrow> secretByGroupCache s' = secretByGroupCache s \<Longrightarrow>
     secretByGroupAndClusterCache s' = secretByGroupAndClusterCache s \<Longrightarrow> secrets_keyed s'"
  by (simp add: secrets_keyed_def)

lemma secrets_keyed_world [simp]: "secrets_keyed (s\<lparr>world := w\<rparr>) = secrets_keyed s"
  by (simp add: secrets_keyed_def)

lemma secrets_keyed_count [simp]:
  "secrets_keyed (count_hits n s) = secrets_keyed s" "secrets_keyed (count_query s) = secrets_keyed s"
  by (simp_all add: secrets_keyed_def count_hits_def count_query_def)

lemma secrets_keyed_cache: "secrets_keyed s \<Longrightarrow> secrets_keyed (cache_secret E x s)"
  by (auto simp: secrets_keyed_def cache_secret_def Let_def secret_pair_def intro!: mm_keyed_intros)

lemma secrets_keyed_uncache: "secrets_keyed s \<Longrightarrow> secrets_keyed (uncache_secret i s)"
  by (auto simp: secrets_keyed_def uncache_secret_def Let_def intro!: mm_keyed_intros
      split: option.split)

lemma secrets_keyed_complete: "secrets_keyed s \<Longrightarrow> secrets_keyed (complete_secrets E g c s)"
  by (auto simp: secrets_keyed_def complete_secrets_def Let_def intro!: mm_keyed_intros)

lemma secrets_keyed_call: "secrets_keyed s \<Longrightarrow> call f s = (r, s') \<Longrightarrow> secrets_keyed s'"
  by (auto elim!: call_cases)

lemma queried_secrets:
  assumes "secrets_keyed s" and "foldM (queried_secret E g c) items acc s = (r, s')"
  shows "secrets_keyed s' \<and>
    (\<forall>xs. r = Inr xs \<longrightarrow> (\<forall>x\<in>set xs. x \<in> set acc \<or>
       (g \<noteq> [] \<longrightarrow> s_group x = g) \<and> (c \<noteq> [] \<longrightarrow> s_cluster x = c)))"
  using assms
proof (induction items arbitrary: acc s)
  case Nil
  then show ?case by auto
next
  case (Cons it items)
  show ?case
  proof (cases "secret_of_query_item g c it")
    case (Inl e)
    with Cons.prems show ?thesis by (auto simp: queried_secret_def)
  next
    case (Inr x)
    have x: "(g \<noteq> [] \<longrightarrow> s_group x = g) \<and> (c \<noteq> [] \<longrightarrow> s_cluster x = c)"
      using Inr by (auto simp: secret_of_query_item_def bindE_Inr_iff split: if_splits)
    have "queried_secret E g c it acc s = (Inr (acc @ [x]), cache_secret E x s)"
      using Inr by (simp add: queried_secret_def)
    with Cons.prems have run:
      "foldM (queried_secret E g c) items (acc @ [x]) (cache_secret E x s) = (r, s')"
      by simp
    from Cons.IH [OF secrets_keyed_cache [OF Cons.prems(1)] run] x show ?thesis by auto
  qed
qed

lemma run_query_cases: "run_query E q s = (r, s') \<Longrightarrow> s' = s \<or> (\<exists>w. s' = s\<lparr>world := w\<rparr>)"
  by (auto simp: run_query_def split: option.splits dest: call_world)

lemma pair_key_plain:
  assumes "pair_key a b = pair_key g c" and "CHR '':'' \<notin> set g" and "CHR '':'' \<notin> set c"
  shows "a = g \<and> b = c"
proof -
  have "filter (\<lambda>x. x = CHR '':'') (pair_key a b) = filter (\<lambda>x. x = CHR '':'') (pair_key g c)"
    using assms(1) by simp
  moreover have "filter (\<lambda>x. x = CHR '':'') g = []" "filter (\<lambda>x. x = CHR '':'') c = []"
    using assms(2,3) by (auto simp: filter_empty_conv)
  then have "filter (\<lambda>x. x = CHR '':'') (pair_key g c) = [CHR '':'']"
    by (simp add: pair_key_def)
  ultimately have "CHR '':'' \<notin> set a"
    by (auto simp: pair_key_def append_eq_Cons_conv filter_empty_conv)
  with assms(1,2) show ?thesis by (simp add: pair_key_def colon_split)
qed

lemma list_secrets_keyed:
  assumes keyed: "secrets_keyed s" and run: "list_secrets E g c s = (r, s')"
  shows "secrets_keyed s' \<and>
    (CHR '':'' \<notin> set g \<longrightarrow> CHR '':'' \<notin> set c \<longrightarrow> (\<forall>xs. r = Inr xs \<longrightarrow> (\<forall>x\<in>set xs.
       (g \<noteq> [] \<longrightarrow> s_group x = g) \<and> (c \<noteq> [] \<longrightarrow> s_cluster x = c))))"
proof (cases "cached_secrets E g c s")
  case (Some xs)
  have "(g \<noteq> [] \<longrightarrow> s_group x = g) \<and> (c \<noteq> [] \<longrightarrow> s_cluster x = c)"
    if "CHR '':'' \<notin> set g" and "CHR '':'' \<notin> set c" and "x \<in> set xs" for x
    using Some that keyed pair_key_plain [OF _ that(1,2), of "s_group x" "s_cluster x"]
      cachedCategoryMembers_keyed [of secret_pair "secretByGroupAndClusterCache s" "steady_now E s"
        "pair_key g c" xs x]
      cachedCategoryMembers_keyed [of s_group "secretByGroupCache s" "steady_now E s" g xs x]
    by (auto simp: cached_secrets_def secrets_keyed_def secret_pair_def split: if_splits)
  with Some run keyed show ?thesis by (auto simp: list_secrets_def)
next
  case None
  obtain q s1 where q: "run_query E (group_cluster_query secretTableName g c) (count_query s) = (q, s1)"
    by (cases "run_query E (group_cluster_query secretTableName g c) (count_query s)")
  have k1: "secrets_keyed s1" using run_query_cases [OF q] keyed by auto
  show ?thesis
  proof (cases q)
    case (Inl e)
    with None q run k1 show ?thesis by (auto simp: list_secrets_def)
  next
    case (Inr items)
    obtain f s2 where f: "foldM (queried_secret E g c) items [] s1 = (f, s2)"
      by (cases "foldM (queried_secret E g c) items [] s1")
    from queried_secrets [OF k1 f] Inr None q run f show ?thesis
      by (auto simp: list_secrets_def secrets_keyed_complete split: sum.splits)
  qed
qed

inductive secret_step :: "'w env \<Rightarrow> ('w, 'z) secret_store_scheme \<Rightarrow> ('w, 'z) secret_store_scheme \<Rightarrow> bool"
  for E where
  add: "addSecret E x s = (r, s') \<Longrightarrow> secret_step E s s'"
| remove: "removeSecret E i s = (r, s') \<Longrightarrow> secret_step E s s'"
| lookup: "getSecret E i s = (q, s') \<Longrightarrow> secret_step E s s'"
| list: "list_secrets E g c s = (l, s') \<Longrightarrow> secret_step E s s'"
| other: "secretByGroupCache s' = secretByGroupCache s \<Longrightarrow>
     secretByGroupAndClusterCache s' = secretByGroupAndClusterCache s \<Longrightarrow> secret_step E s s'"

inductive secret_reachable :: "'w env \<Rightarrow> ('w, 'z) secret_store_scheme \<Rightarrow> bool" for E where
  start: "secretByGroupCache s = [] \<Longrightarrow> secretByGroupAndClusterCache s = [] \<Longrightarrow> secret_reachable E s"
| step: "secret_reachable E s \<Longrightarrow> secret_step E s s' \<Longrightarrow> secret_reachable E s'"

lemma secret_step_keyed: "secret_step E s s' \<Longrightarrow> secrets_keyed s \<Longrightarrow> secrets_keyed s'"
proof (induction rule: secret_step.induct)
  case (add x s r s')
  then show ?case
    by (auto simp: addSecret_def intro: secrets_keyed_call secrets_keyed_cache
        split: if_splits prod.splits sum.splits)
next
  case (remove i s r s')
  then show ?case
    by (auto simp: removeSecret_def intro: secrets_keyed_call secrets_keyed_uncache
        split: prod.splits sum.splits)
next
  case (lookup i s q s')
  then show ?case
    by (auto simp: getSecret_def dest: secrets_keyed_call [rotated] intro: secrets_keyed_cache
        split: if_splits prod.splits sum.splits option.splits)
next
  case (list g c s l s')
  then show ?case using list_secrets_keyed by blast
next
  case (other s' s)
  then show ?case by (blast intro: secrets_keyed_frame)
qed

lemma secret_reachable_keyed: "secret_reachable E s \<Longrightarrow> secrets_keyed s"
proof (induction rule: secret_reachable.induct)
  case (start s)
  then show ?case by (simp add: secrets_keyed_def)
next
  case (step s s')
  then show ?case by (blast intro: secret_step_keyed)
qed


definition with_secret :: "mem_world persistent_store" where
  "with_secret = snd (addSecret mem_env sample_secret sample_store)"

lemma with_secret_reachable: "secret_reachable mem_env with_secret"
proof -
  have "secret_reachable mem_env sample_store"
    by (rule secret_reachable.start) (simp_all add: sample_store_def)
  moreover have "secret_step mem_env sample_store with_secret"
    unfolding with_secret_def
    by (rule secret_step.add [where r = "fst (addSecret mem_env sample_secret sample_store)"]) simp
  ultimately show ?thesis by (rule secret_reachable.step)
qed


section \<open>The cache of a user's groups\<close>

text \<open>
  The cache of the groups of a user is a store of pairs: a group inserted for a user is found
  for that user under its ID, with the newest details; erasing it removes exactly that pair; and
  no other user's groups and no other group are affected.
\<close>

theorem group_multimap_laws:
  "mm_find_value (cr_eq group_eq) (snd (mm_insert_or_assign (cr_eq group_eq) t uid r m)) uid' q =
     (if uid' = uid \<and> g_id (cr_record q) = g_id (cr_record r) then Some r
      else mm_find_value (cr_eq group_eq) m uid' q) \<and>
   mm_find_value (cr_eq group_eq) (snd (mm_erase (cr_eq group_eq) uid r m)) uid' q =
     (if uid' = uid \<and> g_id (cr_record q) = g_id (cr_record r) then None
      else mm_find_value (cr_eq group_eq) m uid' q)"
  by (auto simp: grp.multimap.find_ins grp.multimap.find_del cr_eq_def group_eq_def)

section \<open>Page budgets\<close>

text \<open>
  The result of listing the users does not depend on the page budget of the model: once some
  budget is enough, every larger one gives the same answer and the same state.
\<close>

theorem listUsers_budget:
  assumes "listUsers E n s = Some (r, s')" and "n \<le> m"
  shows "listUsers E m s = Some (r, s')"
proof (cases "userCacheExpirationTime s > steady_now E s")
  case True
  with assms(1) show ?thesis by (simp add: listUsers_def)
next
  case False
  let ?loop = "\<lambda>b. scan_loop b E userTableName (Some (Attr_not_exists ''groupID''))
      (listUsers_body E) [] [] (count_scan s)"
  obtain x where x: "?loop n = Some x"
    using assms(1) False by (auto simp: listUsers_def split: option.splits)
  from scan_loop_more_budget [OF x assms(2)] x assms(1) False show ?thesis
    by (simp add: listUsers_def)
qed

theorem listUsers_budget_witness:
  "fst (the (listUsers mem_env 5 with_user)) = Inr [sample_user]"
proof -
  have "\<exists>s'. listUsers mem_env 1 with_user = Some (Inr [sample_user], s')"
    by (simp add: listUsers_def with_user_def addUser_def sample_store_def sample_defs new_store_def
        cache_user_def Let_def count_scan_def user_item_def listUsers_body_def user_of_scan_item_def
        findUnchecked_def sample_user_def userTableName_def)
  then obtain s' where "listUsers mem_env 1 with_user = Some (Inr [sample_user], s')" ..
  from listUsers_budget [OF this, of 5] show ?thesis by simp
qed

section \<open>Volume claims of a cluster\<close>

lemma queried_volumes_by_cluster:
  "foldM (queried_volume E) items acc s = (r, s') \<Longrightarrow>
     volumeByClusterCache s' = volumeByClusterCache s \<and> world s' = world s"
proof (induction items arbitrary: acc s)
  case Nil
  then show ?case by simp
next
  case (Cons it items)
  obtain q s1 where q: "queried_volume E it acc s = (q, s1)" by (cases "queried_volume E it acc s")
  have s1: "volumeByClusterCache s1 = volumeByClusterCache s \<and> world s1 = world s"
    using q by (auto simp: queried_volume_def Let_def split: sum.splits)
  with Cons q show ?case by (auto split: sum.splits)
qed

text \<open>
  What goes wrong with the listing of a cluster's volume claims: a listing by cluster alone
  does not put what it finds into the cache by cluster, but does mark that cache as complete, so
  the next listing shows just the claims that happened to be there before.
\<close>

theorem cluster_volume_listing_incomplete:
  assumes "cid \<noteq> []" and "cached_volumes E [] cid s = None"
    and "list_volumes E [] cid s = (Inr vs, s1)" and "vs \<noteq> []"
    and "cuckoo_find (volumeByClusterCache s) cid = Some (ms, t)"
  shows "list_volumes E [] cid s1 =
    (let known = map cr_record (filter (cr_good (steady_now E s1)) ms)
     in (Inr known, count_hits (length known) s1))"
proof -
  obtain items s0 s2 where q: "run_query E (group_cluster_query volumeTableName [] cid) (count_query s)
      = (Inr items, s0)"
    and f: "foldM (queried_volume E) items [] s0 = (Inr vs, s2)"
    and s1: "s1 = complete_volumes E [] cid s2"
    using assms(2-4) by (auto simp: list_volumes_def split: prod.splits sum.splits if_splits)
  have "volumeByClusterCache s0 = volumeByClusterCache s"
    using run_query_cases [OF q] by (auto simp: count_query_def)
  with queried_volumes_by_cluster [OF f]
  have c2: "cuckoo_find (volumeByClusterCache s2) cid = Some (ms, t)" using assms(5) by simp
  have now: "steady_now E s1 = steady_now E s2"
    using assms(1) by (simp add: s1 complete_volumes_def Let_def steady_now_def)
  have "cuckoo_find (volumeByClusterCache s1) cid = Some (ms, steady_now E s2 + volumeCacheValidity)"
    using c2 assms(1) by (simp add: s1 complete_volumes_def Let_def mm_update_expiration_def)
  then show ?thesis
    using assms(1)
    by (simp add: list_volumes_def cached_volumes_def cachedCategoryMembers_def mm_find_def now Let_def)
qed

text \<open>Two claims on a cluster, of which this server has created the first.\<close>

definition other_volume :: PersistentVolumeClaim where
  "other_volume = sample_volume\<lparr>v_id := ''volume_G'', v_name := ''tape''\<rparr>"

definition two_volumes :: "mem_world persistent_store" where
  "two_volumes =
     (let s = snd (addPersistentVolumeClaim mem_env sample_volume sample_store)
      in s\<lparr>world := snd (mem_put volumeTableName (volume_item other_volume) (world s))\<rparr>)"

definition volumes_listed :: "mem_world persistent_store" where
  "volumes_listed = snd (list_volumes mem_env [] ''cluster_C'' two_volumes)"

lemmas volume_eval = two_volumes_def addPersistentVolumeClaim_def sample_volume_def other_volume_def
  no_volume_def sample_store_def sample_defs Let_def cache_volume_def add_volume_def
  mm_insert_or_assign_def volume_item_def volumeCacheValidity_def volumeTableName_def

lemma two_volumes_by_cluster:
  "cuckoo_find (volumeByClusterCache two_volumes) ''cluster_C'' =
     Some ([cr_fresh sample_volume 1001000000000 volumeCacheValidity], 1001000000000)"
  by (simp add: volume_eval)

theorem cluster_volume_listing_incomplete_witness:
  "fst (list_volumes mem_env [] ''cluster_C'' two_volumes) = Inr [sample_volume, other_volume] \<and>
   fst (list_volumes mem_env [] ''cluster_C'' volumes_listed) = Inr [sample_volume]"
proof -
  have uncached: "cached_volumes mem_env [] ''cluster_C'' two_volumes = None"
    by (simp add: cached_volumes_def cachedCategoryMembers_def mm_find_def two_volumes_by_cluster)
      (simp add: volume_eval)
  have first: "fst (list_volumes mem_env [] ''cluster_C'' two_volumes) = Inr [sample_volume, other_volume]"
    unfolding list_volumes_def uncached option.case
    by (simp add: run_query_def group_cluster_query_def volume_eval
        queried_volume_def volume_of_list_item_def volume_record_def accessModeFromString_def
        volumeModeFromString_def)
  then have run: "list_volumes mem_env [] ''cluster_C'' two_volumes =
      (Inr [sample_volume, other_volume], volumes_listed)"
    by (simp add: volumes_listed_def prod_eq_iff)
  have now: "steady_now mem_env volumes_listed \<le> 1003000000000"
    unfolding volumes_listed_def list_volumes_def uncached option.case
    by (simp add: run_query_def group_cluster_query_def volume_eval
        queried_volume_def volume_of_list_item_def volume_record_def complete_volumes_def
        accessModeFromString_def volumeModeFromString_def)
  have "fst (list_volumes mem_env [] ''cluster_C'' volumes_listed) = Inr [sample_volume]"
    using cluster_volume_listing_incomplete [OF _ uncached run _ two_volumes_by_cluster] now
    by (simp add: volumeCacheValidity_def seconds_def)
  with first show ?thesis by simp
qed

end
