(* ===== verification/CredentialStore.thy ===== *)
theory CredentialStore
  imports Environment
begin

text \<open>
  The pool of monitoring credentials in \<open>PersistentStore\<close> (\<open>src/PersistentStore.cpp\<close>).  They are
  never cached: each operation is a (conditional) request to the table, and the table is what
  keeps two clusters from being given the same credential.
\<close>

section \<open>Operations\<close>

definition monCredTableName :: string where "monCredTableName = ''SLATE_moncreds''"

definition cred_key :: "string \<Rightarrow> item" where
  "cred_key accessKey = [(''accessKey'', AV_S accessKey), (''sortKey'', AV_S accessKey)]"

definition cred_item :: "S3Credential \<Rightarrow> item" where
  "cred_item cred = cred_key (s3_accessKey cred) @
     [(''secretKey'', AV_S (s3_secretKey cred)),
      (''inUse'', AV_BOOL False),
      (''revoked'', AV_BOOL False)]"

definition addMonitoringCredential ::
  "'w env \<Rightarrow> S3Credential \<Rightarrow> (('w, 'z) base_store_scheme, bool) op" where
  "addMonitoringCredential E cred s =
     (if \<not> s3_ok cred then (Inl ''Cannot store invalid S3 credentials in Dynamo'', s)
      else if s3_inUse cred then (Inl ''Already in-use credentials should not be added'', s)
      else if s3_revoked cred then (Inl ''Already revoked credentials should not be added'', s)
      else
        (case call (e_put E monCredTableName (cred_item cred)) s of
           (Inl err, s1) \<Rightarrow> (Inr False, s1)
         | (Inr _, s1) \<Rightarrow> (Inr True, s1)))"

definition cred_details :: "string \<Rightarrow> item \<Rightarrow> S3Credential outcome" where
  "cred_details accessKey it =
     bindE (findOrThrow it ''secretKey''
              ''Monitoring credential record missing secretKey attribute'') (\<lambda>sk.
     bindE (findOrThrow it ''inUse''
              ''Monitoring credential record missing inUse attribute'') (\<lambda>inUse.
     bindE (findOrThrow it ''revoked''
              ''Monitoring credential record missing revoked attribute'') (\<lambda>revoked.
     Inr \<lparr>s3_accessKey = accessKey, s3_secretKey = GetS sk, s3_inUse = GetBool inUse,
          s3_revoked = GetBool revoked\<rparr>)))"

definition getMonitoringCredential ::
  "'w env \<Rightarrow> string \<Rightarrow> (('w, 'z) base_store_scheme, S3Credential) op" where
  "getMonitoringCredential E accessKey s =
     (case call (e_get E monCredTableName (cred_key accessKey)) (count_query s) of
        (Inl err, s1) \<Rightarrow> (Inr no_cred, s1)
      | (Inr it, s1) \<Rightarrow>
          if it = [] then (Inr no_cred, s1) else (cred_details accessKey it, s1))"

definition cred_of_scan_item :: "item \<Rightarrow> S3Credential outcome" where
  "cred_of_scan_item it =
     bindE (findOrThrow it ''accessKey''
              ''Monitoring credential record missing accessKey attribute'') (\<lambda>ak.
     cred_details (GetS ak) it)"

definition listMonitoringCredentials_body ::
  "item \<Rightarrow> S3Credential list \<Rightarrow> (('w, 'z) base_store_scheme, S3Credential list) op" where
  "listMonitoringCredentials_body it creds s =
     (case cred_of_scan_item it of Inl e \<Rightarrow> (Inl e, s) | Inr cred \<Rightarrow> (Inr (creds @ [cred]), s))"

definition listMonitoringCredentials :: "'w env \<Rightarrow> nat \<Rightarrow> ('w, 'z) base_store_scheme \<Rightarrow>
    (S3Credential list outcome \<times> ('w, 'z) base_store_scheme) option" where
  "listMonitoringCredentials E budget s =
     (case scan_loop budget E monCredTableName None listMonitoringCredentials_body [] []
             (count_scan s) of
        None \<Rightarrow> None
      | Some (Inl e, s1) \<Rightarrow> Some (Inl e, s1)
      | Some (Inr (Returned creds), s1) \<Rightarrow> Some (Inr creds, s1)
      | Some (Inr (Finished creds), s1) \<Rightarrow> Some (Inr creds, s1))"

definition available :: condition where
  "available = Cond_and (Attr_eq ''inUse'' (AV_BOOL False)) (Attr_eq ''revoked'' (AV_BOOL False))"

text \<open>
  One pass over the candidates: the first one whose conditional update succeeds is taken.
  \<open>Inr None\<close> says that none could be acquired.
\<close>

fun acquire_one ::
  "'w env \<Rightarrow> item list \<Rightarrow> (('w, 'z) base_store_scheme, S3Credential option) op" where
  "acquire_one E [] s = (Inr None, s)"
| "acquire_one E (it # rest) s =
     (case findOrThrow it ''accessKey''
             ''Monitoring credential record missing accessKey attribute'' of
        Inl e \<Rightarrow> (Inl e, s)
      | Inr ak \<Rightarrow>
          (case call (e_update E monCredTableName (cred_key (GetS ak))
                  [(''inUse'', AV_BOOL True)] (Some available)) s of
             (Inl err, s1) \<Rightarrow> acquire_one E rest s1
           | (Inr _, s1) \<Rightarrow>
               (case findOrThrow it ''secretKey''
                       ''Monitoring credential record missing secretKey attribute'' of
                  Inl e \<Rightarrow> (Inl e, s1)
                | Inr sk \<Rightarrow>
                    (Inr (Some \<lparr>s3_accessKey = GetS ak, s3_secretKey = GetS sk,
                               s3_inUse = True, s3_revoked = False\<rparr>), s1))))"

text \<open>
  The search is repeated until it finds nothing, fails, or yields a credential; the first
  argument bounds the rounds, and \<open>None\<close> says that the bound was reached.
\<close>

fun allocateMonitoringCredential :: "nat \<Rightarrow> 'w env \<Rightarrow> ('w, 'z) base_store_scheme \<Rightarrow>
    ((S3Credential \<times> string) outcome \<times> ('w, 'z) base_store_scheme) option" where
  "allocateMonitoringCredential 0 E s = None"
| "allocateMonitoringCredential (Suc rounds) E s =
     (case call (e_scan E \<lparr>sc_table = monCredTableName, sc_filter = Some available,
             sc_startKey = []\<rparr>) (count_scan s) of
        (Inl err, s1) \<Rightarrow>
          Some (Inr (no_cred, ''Failed to look up available monitoring credentials: '' @ err), s1)
      | (Inr result, s1) \<Rightarrow>
          if pg_items result = []
          then Some (Inr (no_cred, ''No monitoring credentials available for allocation''), s1)
          else
            (case acquire_one E (pg_items result) s1 of
               (Inl e, s2) \<Rightarrow> Some (Inl e, s2)
             | (Inr (Some cred), s2) \<Rightarrow> Some (Inr (cred, ''''), s2)
             | (Inr None, s2) \<Rightarrow> allocateMonitoringCredential rounds E s2))"

definition revokeMonitoringCredential ::
  "'w env \<Rightarrow> string \<Rightarrow> (('w, 'z) base_store_scheme, bool) op" where
  "revokeMonitoringCredential E accessKey s =
     (case call (e_update E monCredTableName (cred_key accessKey)
             [(''inUse'', AV_BOOL False), (''revoked'', AV_BOOL True)]
             (Some (Attr_exists ''inUse''))) s of
        (Inl err, s1) \<Rightarrow> (Inr False, s1)
      | (Inr _, s1) \<Rightarrow> (Inr True, s1))"

definition deleteMonitoringCredential ::
  "'w env \<Rightarrow> string \<Rightarrow> (('w, 'z) base_store_scheme, bool) op" where
  "deleteMonitoringCredential E accessKey s =
     (case call (e_delete E monCredTableName (cred_key accessKey)
             (Some (Attr_eq ''inUse'' (AV_BOOL False)))) s of
        (Inl err, s1) \<Rightarrow> (Inr False, s1)
      | (Inr _, s1) \<Rightarrow> (Inr True, s1))"

end
