(* ===== verification/CredentialCorrect.thy ===== *)
theory CredentialCorrect
  imports CredentialStore Samples
begin

text \<open>
  Correctness of the pool of monitoring credentials (theory \<open>CredentialStore\<close>): every stored
  credential is in one of three states, the operations are transitions of this state machine, and
  a credential is never handed out twice.
\<close>

section \<open>The states of a credential\<close>

datatype cred_status = Absent | Available | InUse | Revoked

definition item_status :: "item \<Rightarrow> cred_status" where
  "item_status it =
     (if map_of it ''revoked'' = Some (AV_BOOL True) then Revoked
      else if map_of it ''inUse'' = Some (AV_BOOL True) then InUse
      else if map_of it ''inUse'' = Some (AV_BOOL False) \<and> map_of it ''revoked'' = Some (AV_BOOL False)
        then Available
      else Absent)"

definition cred_status :: "'w view \<Rightarrow> 'w \<Rightarrow> string \<Rightarrow> cred_status" where
  "cred_status view w ak =
     (case view w monCredTableName (cred_key ak) of None \<Rightarrow> Absent | Some it \<Rightarrow> item_status it)"

text \<open>What may happen to a credential.\<close>

inductive cred_transition :: "cred_status \<Rightarrow> cred_status \<Rightarrow> bool" where
  added: "cred_transition any Available"
| allocated: "cred_transition Available InUse"
| revoked: "cred_transition any Revoked"
| deleted: "st \<noteq> InUse \<Longrightarrow> cred_transition st Absent"

inductive_cases allocated_cases: "cred_transition st InUse"
inductive_cases deleted_cases: "cred_transition InUse st"

lemma cred_key_inject [simp]: "cred_key a = cred_key b \<longleftrightarrow> a = b"
  by (simp add: cred_key_def)

lemma cred_status_cong: "view w monCredTableName = view w' monCredTableName \<Longrightarrow> cred_status view w = cred_status view w'"
  by (simp add: cred_status_def fun_eq_iff)

lemma cred_status_put:
  "view w' = (view w)(monCredTableName := (view w monCredTableName)(cred_key ak \<mapsto> it)) \<Longrightarrow>
     cred_status view w' = (cred_status view w)(ak := item_status it)"
  by (auto simp: cred_status_def fun_eq_iff)

lemma cred_status_delete:
  "view w' = (view w)(monCredTableName := (view w monCredTableName)(cred_key ak := None)) \<Longrightarrow>
     cred_status view w' = (cred_status view w)(ak := Absent)"
  by (auto simp: cred_status_def fun_eq_iff)

lemma primary_key_cred [simp]: "primary_key (cred_item c) = cred_key (s3_accessKey c)"
  by (simp add: primary_key_def cred_item_def cred_key_def)

text \<open>The condition of an allocation holds of available credentials only.\<close>

lemma condition_available:
  "condition_met (Some available) (view w monCredTableName (cred_key ak)) \<Longrightarrow>
     cred_status view w ak = Available"
  by (auto simp: condition_met_def available_def cred_status_def item_status_def split: option.splits)

section \<open>The operations\<close>

lemma try_acquire:
  assumes "dynamo_rw E view" and "dynamo_conditional E view"
    and "e_update E monCredTableName (cred_key ak) [(''inUse'', AV_BOOL True)] (Some available) w = (r, w')"
  shows "(\<exists>e. r = Inl e) \<and> view w' = view w \<or>
    r = Inr () \<and> cred_status view w ak = Available \<and>
      cred_status view w' = (cred_status view w)(ak := InUse)"
proof (cases r)
  case (Inl e)
  with dynamo_updateD [OF assms(1,3)] show ?thesis by simp
next
  case (Inr u)
  then have "e_update E monCredTableName (cred_key ak) [(''inUse'', AV_BOOL True)] (Some available) w
      = (Inr (), w')"
    using assms(3) by simp
  then have "condition_met (Some available) (view w monCredTableName (cred_key ak))"
    using assms(2) unfolding dynamo_conditional_def by blast
  then have av: "cred_status view w ak = Available" by (rule condition_available)
  then obtain it where it: "view w monCredTableName (cred_key ak) = Some it"
    and "item_status it = Available"
    by (auto simp: cred_status_def split: option.splits)
  then have "item_status (with_updates [(''inUse'', AV_BOOL True)] it) = InUse"
    by (auto simp: item_status_def with_updates_def split: if_splits)
  moreover have "cred_status view w' = (cred_status view w)(ak :=
      item_status (with_updates [(''inUse'', AV_BOOL True)] it))"
    by (rule cred_status_put) (use dynamo_updateD [OF assms(1,3)] Inr it in simp)
  ultimately show ?thesis using Inr av by simp
qed

lemma acquire_one_correct:
  assumes rw: "dynamo_rw E view" and cond: "dynamo_conditional E view"
  shows "acquire_one E its s = (r, s') \<Longrightarrow>
    (case r of
       Inr None \<Rightarrow> view (world s') = view (world s)
     | Inr (Some c) \<Rightarrow> cred_status view (world s) (s3_accessKey c) = Available \<and>
         cred_status view (world s') = (cred_status view (world s))(s3_accessKey c := InUse) \<and>
         s3_inUse c \<and> \<not> s3_revoked c
     | Inl e \<Rightarrow> cred_status view (world s') = cred_status view (world s) \<or>
         (\<exists>ak. cred_status view (world s) ak = Available \<and>
            cred_status view (world s') = (cred_status view (world s))(ak := InUse)))"
proof (induction its arbitrary: s)
  case Nil
  then show ?case by auto
next
  case (Cons it its)
  show ?case
  proof (cases "map_of it ''accessKey''")
    case None
    with Cons.prems show ?thesis by (auto simp: findOrThrow_def)
  next
    case (Some v)
    let ?f = "e_update E monCredTableName (cred_key (GetS v)) [(''inUse'', AV_BOOL True)] (Some available)"
    obtain x s1 where c: "call ?f s = (x, s1)" by (cases "call ?f s")
    then obtain w where w: "?f (world s) = (x, w)" and s1: "s1 = s\<lparr>world := w\<rparr>" by (rule call_cases)
    note T = try_acquire [OF rw cond w]
    show ?thesis
    proof (cases x)
      case (Inl e)
      with Some c Cons.prems have run: "acquire_one E its s1 = (r, s')" by (simp add: findOrThrow_def)
      have view: "view (world s1) = view (world s)" using T Inl s1 by simp
      have same: "cred_status view (world s1) = cred_status view (world s)"
        by (rule cred_status_cong) (simp add: view)
      show ?thesis using Cons.IH [OF run] unfolding same view .
    next
      case (Inr u)
      show ?thesis
      proof (cases "map_of it ''secretKey''")
        case None
        with Some Inr c Cons.prems T s1 show ?thesis by (auto simp: findOrThrow_def)
      next
        case (Some sk)
        with \<open>map_of it ''accessKey'' = Some v\<close> Inr c Cons.prems T s1 show ?thesis
          by (auto simp: findOrThrow_def)
      qed
    qed
  qed
qed

definition pool_service :: "'w env \<Rightarrow> 'w view \<Rightarrow> bool" where
  "pool_service E view \<longleftrightarrow> dynamo_rw E view \<and> dynamo_conditional E view \<and> dynamo_search E view"

lemma mem_pool_service: "pool_service mem_env mem_view"
  by (simp add: pool_service_def mem_rw mem_conditional mem_search)

lemma allocate_correct:
  assumes service: "pool_service E view"
  shows "allocateMonitoringCredential n E s = Some (Inr (c, msg), s') \<Longrightarrow>
    (c = no_cred \<and> msg \<noteq> [] \<and> view (world s') = view (world s)) \<or>
    (msg = [] \<and> s3_inUse c \<and> \<not> s3_revoked c \<and>
      cred_status view (world s) (s3_accessKey c) = Available \<and>
      cred_status view (world s') = (cred_status view (world s))(s3_accessKey c := InUse))"
proof (induction n arbitrary: s)
  case 0
  then show ?case by simp
next
  case (Suc n)
  have search: "dynamo_search E view" and rw: "dynamo_rw E view" and cond: "dynamo_conditional E view"
    using service by (simp_all add: pool_service_def)
  let ?q = "\<lparr>sc_table = monCredTableName, sc_filter = Some available, sc_startKey = []\<rparr>"
  obtain x s1 where c: "call (e_scan E ?q) (count_scan s) = (x, s1)"
    by (cases "call (e_scan E ?q) (count_scan s)")
  have view: "view (world s1) = view (world s)" using scan_page(1) [OF search c] by simp
  have same: "cred_status view (world s1) = cred_status view (world s)"
    by (rule cred_status_cong) (simp add: view)
  show ?case
  proof (cases "\<exists>pg. x = Inr pg \<and> pg_items pg \<noteq> []")
    case False
    with c Suc.prems view show ?thesis by (auto split: sum.splits if_splits)
  next
    case True
    then obtain pg where x: "x = Inr pg" "pg_items pg \<noteq> []" by blast
    obtain r s2 where a: "acquire_one E (pg_items pg) s1 = (r, s2)"
      by (cases "acquire_one E (pg_items pg) s1")
    note A = acquire_one_correct [OF rw cond a, unfolded same view]
    show ?thesis
    proof (cases "r = Inr None")
      case True
      with a x c Suc.prems have "allocateMonitoringCredential n E s2 = Some (Inr (c, msg), s')" by simp
      from Suc.IH [OF this] show ?thesis
      proof -
        have v2: "view (world s2) = view (world s)" using A True by simp
        have "cred_status view (world s2) = cred_status view (world s)"
          by (rule cred_status_cong) (simp add: v2)
        with Suc.IH [OF \<open>allocateMonitoringCredential n E s2 = _\<close>] v2 show ?thesis by simp
      qed
    next
      case False
      with a x c Suc.prems A show ?thesis by (auto split: sum.splits option.splits)
    qed
  qed
qed

text \<open>
  A credential is only handed out when nobody has it: if allocation returns one, it was
  available in the table until then, is marked as in use from then on, and no other credential
  changed; otherwise nothing changed and there is an error message.
\<close>

theorem allocate_takes_available:
  assumes "pool_service E view" and "allocateMonitoringCredential n E s = Some (Inr (c, msg), s')"
  shows "c = no_cred \<and> msg \<noteq> [] \<and> view (world s') = view (world s) \<or>
    msg = [] \<and> s3_inUse c \<and> \<not> s3_revoked c \<and>
      cred_status view (world s) (s3_accessKey c) = Available \<and>
      cred_status view (world s') = (cred_status view (world s))(s3_accessKey c := InUse)"
  using allocate_correct [OF assms] .

lemma addMonitoringCredential_status:
  assumes "dynamo_rw E view" and "addMonitoringCredential E c s = (r, s')"
  shows "(\<exists>e. r = Inl e) \<and> s' = s \<and> (\<not> s3_ok c \<or> s3_inUse c \<or> s3_revoked c) \<or>
    r = Inr False \<and> view (world s') = view (world s) \<or>
    r = Inr True \<and> s3_ok c \<and> \<not> s3_inUse c \<and> \<not> s3_revoked c \<and>
      cred_status view (world s') = (cred_status view (world s))(s3_accessKey c := Available)"
proof (cases "\<not> s3_ok c \<or> s3_inUse c \<or> s3_revoked c")
  case True
  with assms(2) show ?thesis by (auto simp: addMonitoringCredential_def split: if_splits)
next
  case False
  obtain x w where w: "e_put E monCredTableName (cred_item c) (world s) = (x, w)"
    by (cases "e_put E monCredTableName (cred_item c) (world s)")
  note put = dynamo_putD [OF assms(1) w]
  show ?thesis
  proof (cases x)
    case (Inl e)
    with False w put assms(2) show ?thesis by (auto simp: addMonitoringCredential_def call_def)
  next
    case (Inr u)
    have "cred_status view w = (cred_status view (world s))(s3_accessKey c := item_status (cred_item c))"
      by (rule cred_status_put) (use put Inr in simp)
    moreover have "item_status (cred_item c) = Available"
      by (simp add: item_status_def cred_item_def cred_key_def)
    ultimately show ?thesis
      using False w Inr assms(2) by (auto simp: addMonitoringCredential_def call_def)
  qed
qed

lemma revokeMonitoringCredential_status:
  assumes "dynamo_rw E view" and "revokeMonitoringCredential E ak s = (r, s')"
  shows "r = Inr False \<and> view (world s') = view (world s) \<or>
    r = Inr True \<and> cred_status view (world s') = (cred_status view (world s))(ak := Revoked)"
proof -
  let ?f = "e_update E monCredTableName (cred_key ak)
      [(''inUse'', AV_BOOL False), (''revoked'', AV_BOOL True)] (Some (Attr_exists ''inUse''))"
  obtain x w where w: "?f (world s) = (x, w)" by (cases "?f (world s)")
  note upd = dynamo_updateD [OF assms(1) w]
  show ?thesis
  proof (cases x)
    case (Inl e)
    with w upd assms(2) show ?thesis by (auto simp: revokeMonitoringCredential_def call_def)
  next
    case (Inr u)
    have "item_status (with_updates [(''inUse'', AV_BOOL False), (''revoked'', AV_BOOL True)] it) = Revoked"
      for it by (simp add: item_status_def with_updates_def)
    then have "cred_status view w = (cred_status view (world s))(ak := Revoked)"
      using upd Inr by (subst cred_status_put) auto
    with w Inr assms(2) show ?thesis by (auto simp: revokeMonitoringCredential_def call_def)
  qed
qed

lemma deleteMonitoringCredential_status:
  assumes "dynamo_rw E view" and "dynamo_conditional E view"
    and "deleteMonitoringCredential E ak s = (r, s')"
  shows "r = Inr False \<and> view (world s') = view (world s) \<or>
    r = Inr True \<and> cred_status view (world s) ak \<noteq> InUse \<and>
      cred_status view (world s') = (cred_status view (world s))(ak := Absent)"
proof -
  let ?f = "e_delete E monCredTableName (cred_key ak) (Some (Attr_eq ''inUse'' (AV_BOOL False)))"
  obtain x w where w: "?f (world s) = (x, w)" by (cases "?f (world s)")
  note del = dynamo_deleteD [OF assms(1) w]
  show ?thesis
  proof (cases x)
    case (Inl e)
    with w del assms(3) show ?thesis by (auto simp: deleteMonitoringCredential_def call_def)
  next
    case (Inr u)
    then have "?f (world s) = (Inr (), w)" using w by simp
    then have "condition_met (Some (Attr_eq ''inUse'' (AV_BOOL False)))
        (view (world s) monCredTableName (cred_key ak))"
      using assms(2) unfolding dynamo_conditional_def by blast
    then have "cred_status view (world s) ak \<noteq> InUse"
      by (auto simp: cred_status_def item_status_def condition_met_def split: option.splits)
    moreover have "cred_status view w = (cred_status view (world s))(ak := Absent)"
      by (rule cred_status_delete) (use del Inr in simp)
    ultimately show ?thesis
      using w Inr assms(3) by (auto simp: deleteMonitoringCredential_def call_def)
  qed
qed


section \<open>No credential is handed out twice\<close>

text \<open>
  A run of the server: allocations, whose credentials are collected, mixed with revocations,
  deletions and anything that leaves the pool alone.
\<close>

inductive pool_run ::
  "'w env \<Rightarrow> 'w view \<Rightarrow> ('w, 'z) base_store_scheme \<Rightarrow> S3Credential list \<Rightarrow>
     ('w, 'z) base_store_scheme \<Rightarrow> bool" for E view where
  idle: "pool_run E view s [] s"
| allocate: "allocateMonitoringCredential n E s = Some (Inr (c, []), s1) \<Longrightarrow>
     pool_run E view s1 cs s2 \<Longrightarrow> pool_run E view s (c # cs) s2"
| revoke: "revokeMonitoringCredential E ak s = (r, s1) \<Longrightarrow> pool_run E view s1 cs s2 \<Longrightarrow>
     pool_run E view s cs s2"
| delete: "deleteMonitoringCredential E ak s = (r, s1) \<Longrightarrow> pool_run E view s1 cs s2 \<Longrightarrow>
     pool_run E view s cs s2"
| other: "view (world s1) monCredTableName = view (world s) monCredTableName \<Longrightarrow>
     pool_run E view s1 cs s2 \<Longrightarrow> pool_run E view s cs s2"

lemma pool_run_allocates_available:
  assumes "pool_run E view s cs s'" and service: "pool_service E view"
  shows "distinct (map s3_accessKey cs) \<and>
    (\<forall>c\<in>set cs. cred_status view (world s) (s3_accessKey c) = Available)"
  using assms(1)
proof induction
  case (idle s)
  then show ?case by simp
next
  case (allocate n s c s1 cs s2)
  from allocate_correct [OF service allocate(1)] allocate.IH show ?case
    by (auto split: if_splits)
next
  case (revoke ak s r s1 cs s2)
  have "dynamo_rw E view" using service by (simp add: pool_service_def)
  from revokeMonitoringCredential_status [OF this revoke(1)] revoke.IH
    cred_status_cong [of view "world s1" "world s"] show ?case by (auto split: if_splits)
next
  case (delete ak s r s1 cs s2)
  have "dynamo_rw E view" "dynamo_conditional E view" using service by (simp_all add: pool_service_def)
  from deleteMonitoringCredential_status [OF this delete(1)] delete.IH
    cred_status_cong [of view "world s1" "world s"] show ?case by (auto split: if_splits)
next
  case (other s1 s cs s2)
  then show ?case using cred_status_cong [of view "world s1" "world s"] by simp
qed

text \<open>
  C5: no credential is handed out twice: however allocations, revocations and deletions are
  mixed, the credentials allocated in a run are distinct, and each was available at the start.
\<close>

theorem no_double_allocation:
  assumes "pool_service E view" and "pool_run E view s cs s'"
  shows "distinct (map s3_accessKey cs) \<and>
    (\<forall>c\<in>set cs. cred_status view (world s) (s3_accessKey c) = Available)"
  by (rule pool_run_allocates_available [OF assms(2,1)])

text \<open>
  Adding a credential that is already in the pool puts it back: even one that is in use or
  revoked becomes available again, so this is what would let it be handed out a second time.
\<close>

theorem adding_again_makes_available:
  assumes "dynamo_rw E view" and "addMonitoringCredential E c s = (Inr True, s')"
  shows "cred_status view (world s') (s3_accessKey c) = Available"
  using addMonitoringCredential_status [OF assms] by auto

lemma acquire_one_fails:
  assumes fail: "\<And>k u c w. \<exists>e w'. e_update E monCredTableName k u c w = (Inl e, w')"
    and keys: "\<forall>it\<in>set its. map_of it ''accessKey'' \<noteq> None"
  shows "\<exists>s'. acquire_one E its s = (Inr None, s')"
  using keys
proof (induction its arbitrary: s)
  case Nil
  then show ?case by simp
next
  case (Cons it its)
  then obtain ak where ak: "map_of it ''accessKey'' = Some ak" by auto
  obtain e w' where "e_update E monCredTableName (cred_key (GetS ak)) [(''inUse'', AV_BOOL True)]
      (Some available) (world s) = (Inl e, w')"
    using fail by blast
  with ak Cons show ?case by (simp add: call_def findOrThrow_def)
qed

text \<open>
  C38: allocation has no limit of its own: while the scan keeps offering credentials and every
  update fails, as under a lasting write failure, no number of rounds is enough for it to return.
\<close>

theorem allocation_may_never_end:
  assumes "\<And>k u c w. \<exists>e w'. e_update E monCredTableName k u c w = (Inl e, w')"
    and "\<And>q w. \<exists>pg w'. e_scan E q w = (Inr pg, w') \<and> pg_items pg \<noteq> [] \<and>
      (\<forall>it\<in>set (pg_items pg). map_of it ''accessKey'' \<noteq> None)"
  shows "allocateMonitoringCredential n E s = None"
proof (induction n arbitrary: s)
  case 0
  then show ?case by simp
next
  case (Suc n)
  let ?q = "\<lparr>sc_table = monCredTableName, sc_filter = Some available, sc_startKey = []\<rparr>"
  obtain pg w' where scan: "e_scan E ?q (world s) = (Inr pg, w')" "pg_items pg \<noteq> []"
    and keys: "\<forall>it\<in>set (pg_items pg). map_of it ''accessKey'' \<noteq> None"
    using assms(2) by blast
  obtain s2 where "acquire_one E (pg_items pg) ((count_scan s)\<lparr>world := w'\<rparr>) = (Inr None, s2)"
    using acquire_one_fails [OF assms(1) keys] by blast
  with scan Suc.IH show ?case by (simp add: call_def)
qed

section \<open>Witnesses\<close>

definition key_pair :: S3Credential where
  "key_pair = make_cred ''AK'' ''SK''"

definition with_key_pair :: "mem_world persistent_store" where
  "with_key_pair = snd (addMonitoringCredential mem_env key_pair sample_store)"

lemma key_pair_added: "addMonitoringCredential mem_env key_pair sample_store = (Inr True, with_key_pair)"
  by (simp add: with_key_pair_def addMonitoringCredential_def key_pair_def make_cred_def s3_ok_def
      sample_store_def sample_defs)

theorem adding_again_makes_available_witness:
  "cred_status mem_view (world with_key_pair) ''AK'' = Available"
  using adding_again_makes_available [OF mem_rw key_pair_added] by (simp add: key_pair_def make_cred_def)


definition with_allocation :: "mem_world persistent_store" where
  "with_allocation =
     (case allocateMonitoringCredential 1 mem_env with_key_pair of Some (_, s) \<Rightarrow> s)"

lemma key_pair_allocated:
  "allocateMonitoringCredential 1 mem_env with_key_pair =
     Some (Inr (key_pair\<lparr>s3_inUse := True\<rparr>, []), with_allocation)"
proof -
  have "\<exists>s. allocateMonitoringCredential 1 mem_env with_key_pair =
      Some (Inr (key_pair\<lparr>s3_inUse := True\<rparr>, []), s)"
    by (simp add: with_key_pair_def addMonitoringCredential_def key_pair_def make_cred_def s3_ok_def
        sample_store_def sample_defs count_scan_def available_def cred_item_def cred_key_def
        monCredTableName_def)
  then show ?thesis by (auto simp: with_allocation_def)
qed

theorem allocate_takes_available_witness:
  "cred_status mem_view (world with_key_pair) ''AK'' = Available \<and>
   cred_status mem_view (world with_allocation) ''AK'' = InUse"
  using allocate_takes_available [OF mem_pool_service key_pair_allocated]
  by (simp add: key_pair_def make_cred_def no_cred_def)

theorem no_double_allocation_witness:
  "\<exists>cs s'. pool_run mem_env mem_view with_key_pair cs s' \<and> cs \<noteq> [] \<and> distinct (map s3_accessKey cs)"
proof -
  have "pool_run mem_env mem_view with_key_pair [key_pair\<lparr>s3_inUse := True\<rparr>] with_allocation"
    by (rule pool_run.allocate [OF key_pair_allocated pool_run.idle])
  with no_double_allocation [OF mem_pool_service this] show ?thesis by blast
qed

definition stuck_env :: "mem_world env" where
  "stuck_env = mem_env\<lparr>
     e_update := (\<lambda>t k u c w. (Inl ''throttled'', w)),
     e_scan := (\<lambda>q w. (Inr \<lparr>pg_items = [cred_item key_pair], pg_lastKey = []\<rparr>, w))\<rparr>"

theorem allocation_may_never_end_witness:
  "allocateMonitoringCredential 1000 stuck_env sample_store = None"
  by (rule allocation_may_never_end) (simp_all add: stuck_env_def cred_item_def cred_key_def)

end
