(* ===== verification/TextCorrect.thy ===== *)
theory TextCorrect
  imports ApplicationCatalog
begin

text \<open>
  Correctness of the string routines (theory \<open>TextUtil\<close>): what trimming and splitting keep and
  drop, when replacement ends, memory quantities, and that the comparison of versions always
  ends, agrees with the numbers in simple versions, and where it goes wrong.
\<close>

section \<open>Trimming and splitting\<close>

lemma trim_parts: "\<exists>a b. s = a @ trim s @ b \<and> list_all isspace a \<and> list_all isspace b"
proof -
  let ?t = "dropWhile isspace s"
  have "s = takeWhile isspace s @ ?t" by simp
  moreover have "?t = trim s @ rev (takeWhile isspace (rev ?t))"
    by (metis rev_append rev_rev_ident takeWhile_dropWhile_id trim_def)
  moreover have "list_all isspace (takeWhile isspace s)" "list_all isspace (rev (takeWhile isspace (rev ?t)))"
    by (auto simp: list_all_iff dest: set_takeWhileD)
  ultimately show ?thesis by metis
qed

lemma trim_ends:
  assumes "trim s \<noteq> []"
  shows "\<not> isspace (hd (trim s))" and "\<not> isspace (last (trim s))"
proof -
  let ?t = "dropWhile isspace s"
  have ne: "dropWhile isspace (rev ?t) \<noteq> []" using assms by (simp add: trim_def)
  show "\<not> isspace (last (trim s))"
    using hd_dropWhile [OF ne] by (simp add: trim_def last_rev)
  obtain b where b: "?t = trim s @ b"
    by (metis rev_append rev_rev_ident takeWhile_dropWhile_id trim_def)
  with assms have "?t \<noteq> []" by auto
  from hd_dropWhile [OF this] b assms show "\<not> isspace (hd (trim s))" by simp
qed

lemma dropWhile_hd: "xs \<noteq> [] \<Longrightarrow> \<not> P (hd xs) \<Longrightarrow> dropWhile P xs = xs"
  by (cases xs) auto

text \<open>
  Trimming removes exactly the white space at both ends: the text is its trimmed version with
  only white space around it, the trimmed version neither starts nor ends with any, and trimming
  again changes nothing.
\<close>

theorem trim_spec:
  "(\<exists>a b. s = a @ trim s @ b \<and> list_all isspace a \<and> list_all isspace b) \<and>
   (trim s = [] \<or> \<not> isspace (hd (trim s)) \<and> \<not> isspace (last (trim s))) \<and>
   trim (trim s) = trim s"
proof (intro conjI)
  show "\<exists>a b. s = a @ trim s @ b \<and> list_all isspace a \<and> list_all isspace b" by (rule trim_parts)
  show "trim s = [] \<or> \<not> isspace (hd (trim s)) \<and> \<not> isspace (last (trim s))" using trim_ends by blast
  show "trim (trim s) = trim s"
  proof (cases "trim s = []")
    case True
    then show ?thesis unfolding True by (simp add: trim_def)
  next
    case False
    with trim_ends [OF False] show ?thesis
      by (simp add: trim_def [of "trim s"] dropWhile_hd hd_rev)
  qed
qed

lemma getlines_unlines:
  "d \<notin> set l \<Longrightarrow> getlines d (l @ d # s) = l # getlines d s"
proof -
  assume d: "d \<notin> set l"
  then have t: "takeWhile (\<lambda>x. x \<noteq> d) (l @ d # s) = l" "dropWhile (\<lambda>x. x \<noteq> d) (l @ d # s) = d # s"
    by (induction l) auto
  show ?thesis
  proof (cases l)
    case Nil
    then show ?thesis by simp
  next
    case (Cons c l')
    with t show ?thesis by simp
  qed
qed

lemma getlines_no_delim: "x \<in> set (getlines d s) \<Longrightarrow> d \<notin> set x"
  by (induction d s rule: getlines.induct) (auto dest: set_takeWhileD)

lemma getlines_last: "d \<notin> set l \<Longrightarrow> l \<noteq> [] \<Longrightarrow> getlines d l = [l]"
proof (cases l)
  case (Cons c l')
  assume "d \<notin> set l"
  with Cons have "takeWhile (\<lambda>x. x \<noteq> d) (c # l') = c # l'" "dropWhile (\<lambda>x. x \<noteq> d) (c # l') = []"
    by (auto simp: takeWhile_eq_all_conv)
  with Cons show ?thesis by simp
qed simp

text \<open>
  Lines written out one after the other, each with its newline, are read back as they were;
  an unfinished last line counts as a line if there is anything in it; and no line read contains
  a newline.
\<close>

theorem split_lines_roundtrip:
  assumes "\<forall>l\<in>set ls. CHR 0x0A \<notin> set l" and "CHR 0x0A \<notin> set rest"
  shows "string_split_lines (concat (map (\<lambda>l. l @ [CHR 0x0A]) ls) @ rest) =
      ls @ (if rest = [] then [] else [rest]) \<and>
    (\<forall>l\<in>set (string_split_lines text). CHR 0x0A \<notin> set l)"
proof
  show "string_split_lines (concat (map (\<lambda>l. l @ [CHR 0x0A]) ls) @ rest) =
      ls @ (if rest = [] then [] else [rest])"
    using assms
    by (induction ls) (auto simp: string_split_lines_def getlines_unlines getlines_last)
  show "\<forall>l\<in>set (string_split_lines text). CHR 0x0A \<notin> set l"
    using getlines_no_delim by (auto simp: string_split_lines_def)
qed

theorem split_lines_roundtrip_witness:
  "string_split_lines (''ab'' @ [CHR 0x0A] @ [CHR 0x0A] @ ''c'') = [''ab'', [], ''c'']"
  using split_lines_roundtrip [of "[''ab'', []]" "''c''" "[]"] by simp

section \<open>Replacement\<close>

lemma occurs_in_iff: "occurs_in p s \<longleftrightarrow> (\<exists>a b. s = a @ p @ b)"
proof (induction s)
  case Nil
  then show ?case by auto
next
  case IH: (Cons c s)
  show ?case
  proof
    assume "occurs_in p (c # s)"
    then consider "begins_with p (c # s)" | "occurs_in p s" by auto
    then show "\<exists>a b. c # s = a @ p @ b"
    proof cases
      case 1
      then obtain b where "c # s = p @ b" using begins_with_iff by blast
      then have "c # s = [] @ p @ b" by simp
      then show ?thesis by blast
    next
      case 2
      with IH obtain a b where "s = a @ p @ b" by blast
      then have "c # s = (c # a) @ p @ b" by simp
      then show ?thesis by blast
    qed
  next
    assume "\<exists>a b. c # s = a @ p @ b"
    then obtain a b where ab: "c # s = a @ p @ b" by blast
    show "occurs_in p (c # s)"
    proof (cases a)
      case Nil
      with ab have "begins_with p (c # s)" unfolding begins_with_iff by auto
      then show ?thesis by simp
    next
      case (Cons d a')
      with ab have "s = a' @ p @ b" by simp
      then have "occurs_in p s" using IH by blast
      then show ?thesis by simp
    qed
  qed
qed

lemma replace_loop_result:
  assumes "replace_loop target replacement subs n src = Some out"
  shows "subs = 0 \<longrightarrow> \<not> occurs_in target out"
  using assms
proof (rule replace_loop.raw_induct [rotated])
  fix f :: "string \<Rightarrow> string \<Rightarrow> nat \<Rightarrow> nat \<Rightarrow> string \<Rightarrow> string option"
    and t r k n s out
  assume "\<And>t r k n s out. f t r k n s = Some out \<Longrightarrow> k = 0 \<longrightarrow> \<not> occurs_in t out"
    and "(case find_sub t s of None \<Rightarrow> Some s
      | Some pos \<Rightarrow> let src' = take pos s @ r @ drop (pos + length t) s
          in if k \<noteq> 0 \<and> k \<le> n + 1 then Some src' else f t r k (n + 1) src') = Some out"
  then show "k = 0 \<longrightarrow> \<not> occurs_in t out"
    by (auto simp: find_sub_None_iff Let_def split: option.splits if_splits)
qed

lemma replace_loop_diverges:
  assumes "replace_loop target replacement subs n src = Some out"
  shows "subs = 0 \<and> occurs_in target replacement \<and> occurs_in target src \<longrightarrow> False"
  using assms
proof (rule replace_loop.raw_induct [rotated])
  fix f :: "string \<Rightarrow> string \<Rightarrow> nat \<Rightarrow> nat \<Rightarrow> string \<Rightarrow> string option"
    and t r k n s out
  assume IH: "\<And>t r k n s out. f t r k n s = Some out \<Longrightarrow>
      k = 0 \<and> occurs_in t r \<and> occurs_in t s \<longrightarrow> False"
    and run: "(case find_sub t s of None \<Rightarrow> Some s
      | Some pos \<Rightarrow> let src' = take pos s @ r @ drop (pos + length t) s
          in if k \<noteq> 0 \<and> k \<le> n + 1 then Some src' else f t r k (n + 1) src') = Some out"
  show "k = 0 \<and> occurs_in t r \<and> occurs_in t s \<longrightarrow> False"
  proof (intro impI, elim conjE)
    assume k: "k = 0" and r: "occurs_in t r" and s: "occurs_in t s"
    obtain pos where pos: "find_sub t s = Some pos"
      using s find_sub_None_iff [of t s] by (cases "find_sub t s") auto
    have "f t r k (n + 1) (take pos s @ r @ drop (pos + length t) s) = Some out"
      using run pos k by (simp add: Let_def)
    moreover have "occurs_in t (take pos s @ r @ drop (pos + length t) s)"
      using r unfolding occurs_in_iff by (metis append.assoc)
    ultimately show False using IH k r by blast
  qed
qed

lemma replace_loop_shrinks:
  assumes "length replacement < length target"
  shows "\<exists>out. replace_loop target replacement subs n src = Some out"
proof (induction "length src" arbitrary: src n rule: less_induct)
  case less
  show ?case
  proof (cases "find_sub target src")
    case None
    then show ?thesis by (subst replace_loop.simps) simp
  next
    case (Some pos)
    let ?src = "take pos src @ replacement @ drop (pos + length target) src"
    have "length ?src < length src"
      using find_sub_bound [OF Some] assms by simp
    with less Some show ?thesis by (subst replace_loop.simps) (simp add: Let_def)
  qed
qed

text \<open>
  C37: \<open>replaceString\<close> without a limit: what it returns contains no occurrence of the target; it
  returns whenever the replacement is shorter than the target; and it never returns when the
  target occurs both in the text and in the replacement.
\<close>

theorem replaceString_spec:
  assumes "src \<noteq> []" and "target \<noteq> []"
  shows "(replaceString src target replacement 0 = Some out \<longrightarrow> \<not> occurs_in target out) \<and>
    (length replacement < length target \<longrightarrow>
      (\<exists>out. replaceString src target replacement 0 = Some out)) \<and>
    (occurs_in target src \<and> occurs_in target replacement \<longrightarrow>
      replaceString src target replacement 0 = None)"
proof (intro conjI impI)
  show "\<not> occurs_in target out" if "replaceString src target replacement 0 = Some out"
    using that assms replace_loop_result by (simp add: replaceString_def)
  show "\<exists>out. replaceString src target replacement 0 = Some out"
    if "length replacement < length target"
    using that assms replace_loop_shrinks by (simp add: replaceString_def)
  show "replaceString src target replacement 0 = None"
    if "occurs_in target src \<and> occurs_in target replacement"
  proof (cases "replaceString src target replacement 0")
    case (Some out)
    with assms have "replace_loop target replacement 0 0 src = Some out" by (simp add: replaceString_def)
    with replace_loop_diverges that show ?thesis by blast
  qed simp
qed

theorem replaceString_spec_witness:
  "replaceString ''a/b'' ''/'' ''//'' 0 = None"
  using replaceString_spec [of "''a/b''" "''/''" "''//''"] by (simp add: begins_with_def)

section \<open>Memory quantities\<close>

lemma code_digit: "n < 10 \<Longrightarrow> code (char_of (48 + n)) = 48 + n"
  by (simp add: code_def)

lemma digits_value_append: "digits_value acc (s @ t) = digits_value (digits_value acc s) t"
  by (induction s arbitrary: acc) auto

lemma show_nat_digits: "list_all isdigit (show_nat n) \<and> show_nat n \<noteq> [] \<and> digits_value 0 (show_nat n) = n"
proof (induction n rule: show_nat.induct)
  case (1 n)
  show ?case
  proof (cases "n < 10")
    case True
    then show ?thesis by (subst (1 2 3) show_nat.simps) (simp add: isdigit_def code_digit)
  next
    case False
    with 1 have IH: "list_all isdigit (show_nat (n div 10))" "digits_value 0 (show_nat (n div 10)) = n div 10"
      by simp_all
    have d: "n mod 10 < 10" by simp
    from False have "show_nat n = show_nat (n div 10) @ [char_of (48 + n mod 10)]"
      by (subst show_nat.simps) simp
    moreover have "isdigit (char_of (48 + n mod 10))" "code (char_of (48 + n mod 10)) = 48 + n mod 10"
      using code_digit [OF d] d by (simp_all add: isdigit_def)
    ultimately show ?thesis using IH by (simp add: digits_value_append)
  qed
qed

lemma tolower_digit: "isdigit c \<Longrightarrow> tolower c = c"
  by (simp add: tolower_def isupper_def isdigit_def)

lemma suffix_letters:
  "map tolower ''Ki'' = ''ki''" "map tolower ''Mi'' = ''mi''" "map tolower ''Gi'' = ''gi''"
  "list_all isalpha ''ki''" "list_all isalpha ''mi''" "list_all isalpha ''gi''"
  "\<not> isdigit (CHR ''k'')" "\<not> isdigit (CHR ''m'')" "\<not> isdigit (CHR ''g'')"
  by code_simp+

text \<open>
  A memory quantity with a binary suffix is read as the number times the suffix's scale, for
  every number that is an \<open>int\<close>; a larger number makes the parser throw.
\<close>

theorem parseStringSuffix_value:
  assumes "suffix \<in> {''Ki'', ''Mi'', ''Gi''}"
  shows "parseStringSuffix (show_nat n @ suffix) =
    (if n < 2 ^ 31 then Inr (int (n * suffix_scale (map tolower suffix))) else Inl ''stoi'')"
proof -
  let ?d = "show_nat n"
  have low: "map tolower ?d = ?d"
    using show_nat_digits [of n] by (intro map_idI) (simp add: list_all_iff tolower_digit)
  have suf: "map tolower suffix \<in> {''ki'', ''mi'', ''gi''}"
    using assms suffix_letters by auto
  then have nd: "\<not> isdigit (hd (map tolower suffix))" "length (map tolower suffix) = 2"
    "list_all isalpha (map tolower suffix)" "map tolower suffix \<noteq> []"
    using suffix_letters by auto
  have "takeWhile isdigit (?d @ map tolower suffix) = ?d \<and>
      dropWhile isdigit (?d @ map tolower suffix) = map tolower suffix"
    using show_nat_digits [of n] nd(1,4)
    by (cases "map tolower suffix")
      (auto simp: list_all_iff takeWhile_append dropWhile_append)
  moreover have "suffix_scale (map tolower suffix) \<le> 2 ^ 30"
    using suf by (auto simp: suffix_scale_def)
  then have "n * suffix_scale (map tolower suffix) < 2 ^ 63" if "n < 2 ^ 31"
    using mult_le_mono [of n "2 ^ 31 - 1" "suffix_scale (map tolower suffix)" "2 ^ 30"] that by simp
  ultimately show ?thesis
    using show_nat_digits [of n] nd low
    by (cases "n < 2 ^ 31") (simp_all add: parseStringSuffix_def Let_def)
qed

theorem parseStringSuffix_value_witness: "parseStringSuffix (show_nat 3 @ ''Gi'') = Inr 3221225472"
  using parseStringSuffix_value [of "''Gi''" 3]
  using suffix_letters by (simp add: suffix_scale_def)

section \<open>Version comparison\<close>

lemma skip_ge: "i \<le> skip P s i"
  by (simp add: skip_def)

lemma skip_progress: "i < length s \<Longrightarrow> P (s ! i) \<Longrightarrow> i < skip P s i"
  by (simp add: skip_def Cons_nth_drop_Suc [symmetric])

lemma pop_class_ge: "pop_class P a b (i, j, seg) = (i', j', seg') \<Longrightarrow> i \<le> i' \<and> j \<le> j'"
  by (auto simp: pop_class_def intro: skip_ge Suc_leD split: if_splits)

lemma pop_class_progress:
  "pop_class P a b (i, j, seg) = (i', j', seg') \<Longrightarrow> P (char_at a i) \<Longrightarrow> i < length a \<Longrightarrow> i < i'"
  by (auto simp: pop_class_def) (metis Suc_le_eq skip_ge)

text \<open>One iteration that goes on moves forward in the first string.\<close>

lemma iteration_progress:
  assumes "i < length a"
    and i': "i' = skip (\<lambda>c. \<not> (isalnum c \<or> c = CHR ''~'')) a i"
    and pop: "pop_class isalpha a b (pop_class isdigit a b
        (i' + (if char_at a i' = CHR ''~'' then 1 else 0), j', seg)) = (k, l, seg')"
  shows "i < k"
proof -
  obtain m n s where m: "pop_class isdigit a b
      (i' + (if char_at a i' = CHR ''~'' then 1 else 0), j', seg) = (m, n, s)"
    by (metis prod_cases3)
  have le: "i' + (if char_at a i' = CHR ''~'' then 1 else 0) \<le> m" "m \<le> k"
    using pop_class_ge [OF m] pop_class_ge [OF pop [unfolded m]] by simp_all
  have "i \<le> i'" unfolding i' by (rule skip_ge)
  show ?thesis
  proof (cases "isalnum (a ! i) \<or> a ! i = CHR ''~''")
    case False
    then have "i < i'" unfolding i' using assms(1) by (intro skip_progress) auto
    with le show ?thesis by simp
  next
    case True
    then have [simp]: "i' = i" unfolding i' skip_def
      using assms(1) by (simp add: Cons_nth_drop_Suc [symmetric])
    show ?thesis
    proof (cases "a ! i = CHR ''~''")
      case True
      with le assms(1) show ?thesis by (simp add: char_at_def)
    next
      case False
      with True consider "isdigit (char_at a i)" | "isalpha (char_at a i)"
        using assms(1) by (auto simp: isalnum_def char_at_def)
      then show ?thesis
      proof cases
        case 1
        with pop_class_progress [OF m] False assms(1) have "i < m" by (simp add: char_at_def)
        with le show ?thesis by simp
      next
        case 2
        show ?thesis
        proof (cases "m = i")
          case True
          with pop_class_progress [OF pop [unfolded m]] 2 assms(1) show ?thesis by simp
        next
          case False
          with le \<open>i \<le> i'\<close> show ?thesis by simp
        qed
      qed
    qed
  qed
qed

lemma compare_segments_sign: "compare_segments x y \<in> {- 1, 0, 1}"
  by (induction x y rule: compare_segments.induct) auto

lemma compare_popped_sign: "compare_popped a b i j k l \<in> {- 1, 0, 1}"
  using compare_segments_sign by (simp add: compare_popped_def Let_def)

lemma compare_remaining_sign: "compare_remaining a b i j \<in> {- 1, 0, 1}"
  by (simp add: compare_remaining_def)

abbreviation comparison_results :: "int outcome set" where
  "comparison_results \<equiv> {Inr (- 1), Inr 0, Inr 1} \<union> range Inl"

lemma sign_result: "v \<in> {- 1, 0, 1} \<Longrightarrow> Inr v \<in> comparison_results"
  by auto

text \<open>The loop's body after the tilde tests, as a rule.\<close>

lemma compare_body:
  assumes pop: "pop_class isalpha a b st = (k, l, seg')"
    and rec: "\<And>s. P (compare_loop fuel a b k l s)"
    and ub: "P (Some (Inl ''undefined behaviour''))"
    and sign: "\<And>v. v \<in> {- 1, 0, 1} \<Longrightarrow> P (Some (Inr v))"
  shows "P (case pop_class isalpha a b st of
      (apos, bpos, None) \<Rightarrow> Some (Inl ''undefined behaviour'')
    | (apos, bpos, Some (aseg, bseg)) \<Rightarrow>
        (let order = compare_popped a b apos bpos aseg bseg
         in if order \<noteq> 0 then Some (Inr order)
            else compare_loop fuel a b apos bpos (Some (apos, bpos))))"
proof (cases seg')
  case None
  with pop ub show ?thesis by simp
next
  case (Some s)
  obtain u v where [simp]: "s = (u, v)" by (cases s)
  show ?thesis
  proof (cases "compare_popped a b k l u v = 0")
    case True
    with pop Some rec show ?thesis by simp
  next
    case False
    with pop Some sign [OF compare_popped_sign, of a b k l u v] show ?thesis by simp
  qed
qed

lemma compare_loop_ends:
  "length a - i < fuel \<Longrightarrow> \<exists>r\<in>comparison_results. compare_loop fuel a b i j seg = Some r"
proof (induction fuel arbitrary: i j seg)
  case 0
  then show ?case by simp
next
  case (Suc fuel)
  define i' where "i' = skip (\<lambda>c. \<not> (isalnum c \<or> c = CHR ''~'')) a i"
  define j' where "j' = skip (\<lambda>c. \<not> (isalnum c \<or> c = CHR ''~'')) b j"
  define s :: nat where "s = (if char_at a i' = CHR ''~'' then 1 else 0)"
  let ?P = "\<lambda>x. \<exists>r\<in>comparison_results. x = Some r"
  have sign: "?P (Some (Inr v))" if "v \<in> {- 1, 0, 1}" for v
    using sign_result [OF that] by blast
  have remaining: "?P (Some (Inr (compare_remaining a b x y)))" for x y
    by (rule sign) (rule compare_remaining_sign)
  show ?case
  proof (cases "i < length a \<and> j < length b")
    case False
    then show ?thesis using remaining [of i j] by (simp only: compare_loop.simps if_True simp_thms)
  next
    case True
    obtain k l seg' where pop:
      "pop_class isalpha a b (pop_class isdigit a b (i' + s, j' + s, seg)) = (k, l, seg')"
      by (metis prod_cases3)
    have "i < k"
      by (rule iteration_progress [OF conjunct1 [OF True] i'_def pop [unfolded s_def]])
    with Suc.prems True have "length a - k < fuel" by linarith
    then have IH: "?P (compare_loop fuel a b k l x)" for x by (rule Suc.IH)
    have body: "?P (case pop_class isalpha a b (pop_class isdigit a b (i' + s, j' + s, seg)) of
        (apos, bpos, None) \<Rightarrow> Some (Inl ''undefined behaviour'')
      | (apos, bpos, Some (aseg, bseg)) \<Rightarrow>
          (let order = compare_popped a b apos bpos aseg bseg
           in if order \<noteq> 0 then Some (Inr order)
              else compare_loop fuel a b apos bpos (Some (apos, bpos))))"
      by (rule compare_body [where P = ?P, OF pop IH _ sign]) auto
    have less: "?P (Some (Inr (- 1)))" and greater: "?P (Some (Inr 1))"
      by (rule sign, simp)+
    show ?thesis
      using True remaining [of "i' + 1" "j' + 1"] less greater body
      unfolding compare_loop.simps Let_def i'_def [symmetric] j'_def [symmetric] s_def [symmetric]
      by (simp only: simp_thms if_True if_False split: if_split)
  qed
qed

text \<open>
  Comparing two versions always ends: the loop makes at most as many iterations as the first
  string has characters; the only values it returns are -1, 0 and 1; and a version equals itself.
\<close>

theorem compareVersions_total:
  "(\<exists>r. compareVersions a b = Some r \<and> r \<in> {Inr (- 1), Inr 0, Inr 1} \<union> range Inl) \<and>
   compareVersions a a = Some (Inr 0)"
proof -
  have "length a - 0 < length a + 1" by simp
  then have "\<exists>r\<in>comparison_results. compare_loop (length a + 1) a b 0 0 None = Some r"
    by (rule compare_loop_ends)
  then have "\<exists>r. compareVersions a b = Some r \<and> r \<in> comparison_results"
    unfolding compareVersions_def by (cases "a = b") (simp, simp only: if_False, blast)
  then show ?thesis by (simp only: compareVersions_def if_True refl simp_thms)
qed

text \<open>Decimal numbers: how digits compare.\<close>

lemma digits_value_acc: "digits_value acc s = acc * 10 ^ length s + digits_value 0 s"
proof (induction s arbitrary: acc)
  case Nil
  then show ?case by simp
next
  case (Cons c s)
  from Cons [of "10 * acc + (code c - 48)"] Cons [of "code c - 48"] show ?case
    by (simp add: algebra_simps)
qed

lemma digits_value_Cons: "digits_value 0 (c # s) = (code c - 48) * 10 ^ length s + digits_value 0 s"
  using digits_value_acc [of "code c - 48" s] by simp

lemma digits_value_bound: "list_all isdigit s \<Longrightarrow> digits_value 0 s < 10 ^ length s"
proof (induction s)
  case Nil
  then show ?case by simp
next
  case (Cons c s)
  then have "isdigit c" by simp
  then have "code c - 48 \<le> 9" unfolding isdigit_def by linarith
  then have "(code c - 48) * 10 ^ length s \<le> 9 * 10 ^ length s" by (rule mult_le_mono1)
  moreover have "digits_value 0 s < 10 ^ length s" using Cons by simp
  ultimately have "(code c - 48) * 10 ^ length s + digits_value 0 s < 9 * 10 ^ length s + 10 ^ length s"
    by (rule add_le_less_mono)
  then show ?case unfolding digits_value_Cons by simp
qed

lemma digits_value_strip: "digits_value 0 (dropWhile (\<lambda>c. c = CHR ''0'') s) = digits_value 0 s"
  by (induction s) (auto simp: code_def)

lemma digits_value_lower:
  assumes "list_all isdigit s" and "s \<noteq> []" and "hd s \<noteq> CHR ''0''"
  shows "10 ^ (length s - 1) \<le> digits_value 0 s"
proof -
  obtain c t where [simp]: "s = c # t" using assms(2) by (cases s) auto
  have "code c \<noteq> 48"
  proof
    assume "code c = 48"
    then have "(of_char c :: nat) = of_char (CHR ''0'')" by (simp add: code_def)
    then have "c = CHR ''0''" by (simp only: of_char_eq_iff)
    with assms(3) show False by simp
  qed
  moreover have "48 \<le> code c" using assms(1) by (simp add: isdigit_def)
  ultimately have "1 \<le> code c - 48" by linarith
  then have "1 * 10 ^ length t \<le> (code c - 48) * 10 ^ length t" by (rule mult_le_mono1)
  then have "10 ^ length t \<le> (code c - 48) * 10 ^ length t + digits_value 0 t" by linarith
  then show ?thesis by (simp add: digits_value_Cons del: digits_value.simps)
qed

lemma longer_is_greater:
  assumes "list_all isdigit s" and "list_all isdigit t" and "length s < length t"
    and "t \<noteq> [] \<longrightarrow> hd t \<noteq> CHR ''0''"
  shows "digits_value 0 s < digits_value 0 t"
proof -
  have "digits_value 0 s < 10 ^ length s" using assms(1) by (rule digits_value_bound)
  also have "(10::nat) ^ length s \<le> 10 ^ (length t - 1)"
    using assms(3) by (intro power_increasing) auto
  also have "\<dots> \<le> digits_value 0 t"
    using assms by (intro digits_value_lower) auto
  finally show ?thesis .
qed

lemma compare_segments_value:
  "length s = length t \<Longrightarrow> list_all isdigit s \<Longrightarrow> list_all isdigit t \<Longrightarrow>
   compare_segments s t = sgn (int (digits_value 0 s) - int (digits_value 0 t))"
proof (induction s t rule: compare_segments.induct)
  case (4 x xs y ys)
  have signed: "signed_code x = int (code x)" "signed_code y = int (code y)"
    and range: "48 \<le> code x" "48 \<le> code y"
    using 4 by (auto simp: signed_code_def isdigit_def)
  have bounds: "digits_value 0 xs < 10 ^ length xs" "digits_value 0 ys < 10 ^ length xs"
    using 4 digits_value_bound [of xs] digits_value_bound [of ys] by auto
  have step: "digits_value 0 (u # us) < digits_value 0 (v # vs)"
    if "code u < code v" "48 \<le> code u" "digits_value 0 us < 10 ^ length us" "length us = length vs"
    for u v us vs
  proof -
    have "Suc (code u - 48) \<le> code v - 48" using that by simp
    then have "Suc (code u - 48) * 10 ^ length us \<le> (code v - 48) * 10 ^ length us"
      by (rule mult_le_mono1)
    with that show ?thesis unfolding digits_value_Cons by simp
  qed
  consider "code x < code y" | "code y < code x" | "code x = code y" by linarith
  then show ?case
  proof cases
    case 1
    with step [of x y xs ys] bounds range signed 4 show ?thesis by (simp del: digits_value.simps)
  next
    case 2
    with step [of y x ys xs] bounds range signed 4 show ?thesis by (simp del: digits_value.simps)
  next
    case 3
    with signed 4 show ?thesis by (simp add: digits_value_Cons del: digits_value.simps)
  qed
qed auto

lemma strip_digits:
  "list_all isdigit s \<Longrightarrow> list_all isdigit (dropWhile (\<lambda>c. c = CHR ''0'') s)"
  by (auto simp: list_all_iff dest: set_dropWhileD)

lemma strip_hd:
  "dropWhile (\<lambda>c. c = CHR ''0'') s \<noteq> [] \<longrightarrow> hd (dropWhile (\<lambda>c. c = CHR ''0'') s) \<noteq> CHR ''0''"
  using hd_dropWhile [of "\<lambda>c. c = CHR ''0''" s] by blast

text \<open>Steps 2.6 to 2.8 on two numbers compare their values.\<close>

lemma compare_popped_numbers:
  assumes s: "between a i k = s" "list_all isdigit s" "s \<noteq> []" "char_at a i = hd s"
    and t: "between b j l = t" "list_all isdigit t" "t \<noteq> []"
  shows "compare_popped a b k l i j = sgn (int (digits_value 0 s) - int (digits_value 0 t))"
proof -
  let ?s = "dropWhile (\<lambda>c. c = CHR ''0'') s" and ?t = "dropWhile (\<lambda>c. c = CHR ''0'') t"
  have d: "isdigit (char_at a i)" using s by (cases s) auto
  have lj: "l \<noteq> j" using t by (auto simp: between_def)
  have digits: "list_all isdigit ?s" "list_all isdigit ?t" using s t strip_digits by auto
  have hds: "?s \<noteq> [] \<longrightarrow> hd ?s \<noteq> CHR ''0''" "?t \<noteq> [] \<longrightarrow> hd ?t \<noteq> CHR ''0''"
    by (rule strip_hd)+
  have v: "digits_value 0 ?s = digits_value 0 s" "digits_value 0 ?t = digits_value 0 t"
    by (rule digits_value_strip)+
  consider "length ?s > length ?t" | "length ?t > length ?s" | "length ?s = length ?t" by linarith
  then show ?thesis
  proof cases
    case 1
    with longer_is_greater [OF digits(2) digits(1) 1 hds(1)] v d lj s(1) t(1) show ?thesis
      by (simp add: compare_popped_def)
  next
    case 2
    with longer_is_greater [OF digits 2 hds(2)] v d lj s(1) t(1) show ?thesis
      by (simp add: compare_popped_def)
  next
    case 3
    with compare_segments_value [OF 3 digits] v d lj s(1) t(1) show ?thesis
      by (simp add: compare_popped_def)
  qed
qed

text \<open>
  A dotted version is its numbers in decimal, separated by points; \<open>dotted_rest\<close> is what follows
  the first number.  \<open>compare_numbers\<close> is the order meant: the first difference decides, and of
  two versions of which one begins the other the longer is newer.
\<close>

definition dotted_rest :: "nat list \<Rightarrow> string" where
  "dotted_rest ns = concat (map (\<lambda>n. CHR ''.'' # show_nat n) ns)"

definition dotted :: "nat list \<Rightarrow> string" where
  "dotted ns = tl (dotted_rest ns)"

fun compare_numbers :: "nat list \<Rightarrow> nat list \<Rightarrow> int" where
  "compare_numbers [] [] = 0"
| "compare_numbers [] (n # ns) = - 1"
| "compare_numbers (m # ms) [] = 1"
| "compare_numbers (m # ms) (n # ns) =
     (if m = n then compare_numbers ms ns else sgn (int m - int n))"

lemma dotted_rest_simps [simp]:
  "dotted_rest [] = []"
  "dotted_rest (n # ns) = CHR ''.'' # show_nat n @ dotted_rest ns"
  by (simp_all add: dotted_rest_def)

lemma dotted_Cons: "dotted (n # ns) = show_nat n @ dotted_rest ns"
  by (simp add: dotted_def)

lemma point_class: "\<not> isdigit (CHR ''.'')" "\<not> isalpha (CHR ''.'')" "\<not> isalnum (CHR ''.'')"
    "\<not> isdigit (CHR 0x00)" "\<not> isalpha (CHR 0x00)" "\<not> isdigit (CHR ''~'')"
  by code_simp+

lemma digit_class: "isdigit c \<Longrightarrow> isalnum c \<and> c \<noteq> CHR ''~'' \<and> c \<noteq> CHR ''.''"
  using point_class by (auto simp: isalnum_def)

text \<open>At a number: what the pieces of an iteration see, in a string whose rest is given.\<close>

definition at_number :: "string \<Rightarrow> nat \<Rightarrow> nat \<Rightarrow> string \<Rightarrow> bool" where
  "at_number a i n rest \<longleftrightarrow> drop i a = show_nat n @ rest \<and> i < length a \<and>
     (rest = [] \<or> hd rest = CHR ''.'')"

lemma at_number_facts:
  assumes "at_number a i n rest"
  defines "k \<equiv> i + length (show_nat n)"
  shows "skip isdigit a i = k" and "skip isdigit a (i + 1) = k" and "drop k a = rest"
    and "between a i k = show_nat n" and "char_at a i = hd (show_nat n)" and "isdigit (char_at a i)"
    and "\<not> isalpha (char_at a k)" and "k = i \<longleftrightarrow> False"
proof -
  obtain c s where cs: "show_nat n = c # s" "isdigit c" "list_all isdigit s"
    using show_nat_digits [of n] by (cases "show_nat n") auto
  have d: "drop i a = c # s @ rest" and i: "i < length a" and rest: "rest = [] \<or> hd rest = CHR ''.''"
    using assms(1) cs by (auto simp: at_number_def)
  have tw: "takeWhile isdigit (s @ rest) = s"
    using cs(3) rest point_class by (cases rest) (auto simp: list_all_iff takeWhile_append)
  have d1: "drop (i + 1) a = s @ rest" using d by (metis drop_Suc drop_tl list.sel(3) Suc_eq_plus1)
  show "skip isdigit a i = k" using d cs tw by (simp add: skip_def k_def)
  show "skip isdigit a (i + 1) = k" using d1 cs tw by (simp add: skip_def k_def)
  have "drop k a = drop (length (c # s)) (drop i a)" by (simp add: k_def cs add.commute)
  then show k: "drop k a = rest" using d by simp
  show "between a i k = show_nat n" using d cs by (simp add: between_def k_def)
  show at: "char_at a i = hd (show_nat n)"
    using d i cs by (simp add: char_at_def) (metis hd_drop_conv_nth list.sel(1))
  show "isdigit (char_at a i)" using at cs by simp
  show "\<not> isalpha (char_at a k)"
  proof (cases "k < length a")
    case True
    then have "char_at a k = hd rest" "rest \<noteq> []"
      using k by (auto simp: char_at_def hd_drop_conv_nth)
    with rest point_class show ?thesis by simp
  qed (simp add: char_at_def point_class)
  show "k = i \<longleftrightarrow> False" using cs by (simp add: k_def)
qed

lemma compare_number_iteration:
  assumes a: "i < length a" "skip (\<lambda>c. \<not> (isalnum c \<or> c = CHR ''~'')) a i = i'" "at_number a i' m ra"
    and b: "j < length b" "skip (\<lambda>c. \<not> (isalnum c \<or> c = CHR ''~'')) b j = j'" "at_number b j' n rb"
  shows "compare_loop (Suc fuel) a b i j seg =
    (if m = n then compare_loop fuel a b (i' + length (show_nat m)) (j' + length (show_nat n))
        (Some (i' + length (show_nat m), j' + length (show_nat n)))
     else Some (Inr (sgn (int m - int n))))"
proof -
  note fa = at_number_facts [OF a(3)] and fb = at_number_facts [OF b(3)]
  let ?k = "i' + length (show_nat m)" and ?l = "j' + length (show_nat n)"
  have tilde: "char_at a i' \<noteq> CHR ''~''" "char_at b j' \<noteq> CHR ''~''"
    using fa(6) fb(6) digit_class by blast+
  have len: "i' < length a" using a(3) by (simp add: at_number_def)
  have pop: "pop_class isalpha a b (pop_class isdigit a b (i', j', seg)) = (?k, ?l, Some (i', j'))"
    using fa fb len by (simp add: pop_class_def)
  have cmp: "compare_popped a b ?k ?l i' j' = sgn (int m - int n)"
    using compare_popped_numbers [of a i' ?k "show_nat m" b j' ?l "show_nat n"] fa(4,5) fb(4)
      show_nat_digits by simp
  show ?thesis
    unfolding compare_loop.simps Let_def a(2) b(2)
    using a(1) b(1) tilde pop cmp by (simp add: sgn_if)
qed

lemma at_dotted_rest:
  assumes "drop i a = dotted_rest (m # ms)"
  shows "i < length a" and "skip (\<lambda>c. \<not> (isalnum c \<or> c = CHR ''~'')) a i = Suc i"
    and "at_number a (Suc i) m (dotted_rest ms)"
proof -
  obtain c s where cs: "show_nat m = c # s" "isdigit c"
    using show_nat_digits [of m] by (cases "show_nat m") auto
  show i: "i < length a" using assms by (cases "i < length a") auto
  show "skip (\<lambda>c. \<not> (isalnum c \<or> c = CHR ''~'')) a i = Suc i"
    using assms cs digit_class [of c] point_class by (simp add: skip_def)
  have "drop (Suc i) a = show_nat m @ dotted_rest ms"
    using assms by (metis drop_Suc drop_tl list.sel(3) dotted_rest_simps(2))
  moreover have "dotted_rest ms = [] \<or> hd (dotted_rest ms) = CHR ''.''" by (cases ms) auto
  ultimately show "at_number a (Suc i) m (dotted_rest ms)"
    using cs by (cases "Suc i < length a") (auto simp: at_number_def)
qed

lemma at_dotted:
  "0 < length (dotted (m # ms))"
  "skip (\<lambda>c. \<not> (isalnum c \<or> c = CHR ''~'')) (dotted (m # ms)) 0 = 0"
  "at_number (dotted (m # ms)) 0 m (dotted_rest ms)"
proof -
  obtain c s where cs: "show_nat m = c # s" "isdigit c"
    using show_nat_digits [of m] by (cases "show_nat m") auto
  show l: "0 < length (dotted (m # ms))" by (simp add: dotted_Cons cs)
  show "skip (\<lambda>c. \<not> (isalnum c \<or> c = CHR ''~'')) (dotted (m # ms)) 0 = 0"
    using cs digit_class [of c] by (simp add: dotted_Cons skip_def)
  have "dotted_rest ms = [] \<or> hd (dotted_rest ms) = CHR ''.''" by (cases ms) auto
  with l show "at_number (dotted (m # ms)) 0 m (dotted_rest ms)"
    by (simp add: at_number_def dotted_Cons)
qed

lemma compare_rest:
  "drop i a = dotted_rest ms \<Longrightarrow> drop j b = dotted_rest ns \<Longrightarrow> length ms < fuel \<Longrightarrow>
   compare_loop fuel a b i j seg = Some (Inr (compare_numbers ms ns))"
proof (induction ms ns arbitrary: i j seg fuel rule: compare_numbers.induct)
  case 1
  then show ?case by (cases fuel) (simp_all add: compare_remaining_def)
next
  case (2 n ns)
  from at_dotted_rest(1) [OF 2(2)] 2 show ?case by (cases fuel) (simp_all add: compare_remaining_def)
next
  case (3 m ms)
  from at_dotted_rest(1) [OF 3(1)] 3 show ?case by (cases fuel) (simp_all add: compare_remaining_def)
next
  case (4 m ms n ns)
  note a = at_dotted_rest [OF 4(2)] and b = at_dotted_rest [OF 4(3)]
  obtain f where f: "fuel = Suc f" "length ms < f" using 4(4) by (cases fuel) auto
  show ?case
    using compare_number_iteration [OF a b, of f seg] f
      4(1) [OF _ at_number_facts(3) [OF a(3)] at_number_facts(3) [OF b(3)] f(2)]
    by simp
qed

lemma length_dotted_rest: "length ms \<le> length (dotted_rest ms)"
  by (induction ms) auto

lemma compare_dotted_loop:
  "compare_loop (Suc (length (dotted (m # ms)))) (dotted (m # ms)) (dotted (n # ns)) 0 0 None =
     Some (Inr (compare_numbers (m # ms) (n # ns)))"
proof -
  note a = at_dotted [of m ms] and b = at_dotted [of n ns]
  have "length ms < length (dotted (m # ms))"
    using length_dotted_rest [of ms] show_nat_digits [of m]
    by (cases "show_nat m") (auto simp: dotted_Cons)
  then show ?thesis
    unfolding compare_number_iteration [OF a b]
    using compare_rest [OF at_number_facts(3) [OF a(3)] at_number_facts(3) [OF b(3)]]
    by (cases "m = n") simp_all
qed

lemma compare_numbers_same: "compare_numbers ns ns = 0"
  by (induction ns) auto

text \<open>
  C36: versions made of decimal numbers separated by points are compared number by number, for
  any length and any size of the numbers, so that \<open>1.10\<close> is newer than \<open>1.9\<close> and \<open>1.9.1\<close>
  newer than \<open>1.9\<close>.
\<close>

theorem compareVersions_dotted:
  "compareVersions (dotted (m # ms)) (dotted (n # ns)) =
     Some (Inr (compare_numbers (m # ms) (n # ns)))"
proof (cases "dotted (m # ms) = dotted (n # ns)")
  case True
  with compare_dotted_loop [of m ms n ns] compare_dotted_loop [of m ms m ms]
  show ?thesis by (simp add: compareVersions_def compare_numbers_same)
next
  case False
  with compare_dotted_loop [of m ms n ns] show ?thesis by (simp add: compareVersions_def)
qed

text \<open>
  A digit segment that is followed by a letter is dropped without being compared, because the
  second test of step 2.5 looks at the position after the digits: versions \<open>1a\<close> and \<open>2a\<close> are
  taken to be equal, although \<open>1\<close> and \<open>2\<close> are not; and strings without any letter or digit make
  the routine read variables that were never set.
\<close>

theorem compareVersions_drops_digits:
  "compareVersions ''1a'' ''2a'' = Some (Inr 0) \<and>
   compareVersions ''1'' ''2'' = Some (Inr (- 1)) \<and>
   compareVersions ''.'' ''-'' = Some (Inl ''undefined behaviour'')"
  by code_simp

end
