(* ===== verification/Files.thy ===== *)
theory Files
  imports Environment TextUtil
begin

text \<open>
  \<open>src/FileSystem.cpp\<close>, the temporary directories of \<open>src/FileHandle.cpp\<close>, and \<open>realpathHyp\<close> of
  \<open>src/Archive.cpp\<close>.  The file system is a record of the system calls the code makes; an error
  is its number.  A directory is read when it is opened, as the list of its entries.
\<close>

section \<open>System calls\<close>

datatype file_type = DT_REG | DT_DIR | DT_LNK | DT_other

record 'w filesystem =
  fs_getcwd :: "'w \<Rightarrow> (nat + string) \<times> 'w"
  fs_readlink :: "string \<Rightarrow> 'w \<Rightarrow> (nat + string) \<times> 'w"
  fs_stat :: "string \<Rightarrow> 'w \<Rightarrow> nat option \<times> 'w"
  fs_mkdir :: "string \<Rightarrow> nat \<Rightarrow> 'w \<Rightarrow> nat option \<times> 'w"
  fs_symlink :: "string \<Rightarrow> string \<Rightarrow> 'w \<Rightarrow> nat option \<times> 'w"
  fs_writeFile :: "string \<Rightarrow> string \<Rightarrow> 'w \<Rightarrow> bool \<times> 'w"
  fs_readFile :: "string \<Rightarrow> 'w \<Rightarrow> string option \<times> 'w"
  fs_readdir :: "string \<Rightarrow> 'w \<Rightarrow> (string \<times> file_type) list option \<times> 'w"
  fs_unlink :: "string \<Rightarrow> 'w \<Rightarrow> nat option \<times> 'w"
  fs_rmdir :: "string \<Rightarrow> 'w \<Rightarrow> nat option \<times> 'w"
  fs_mkdtemp :: "string \<Rightarrow> 'w \<Rightarrow> (nat + string) \<times> 'w"

text \<open>
  The library that compresses: one call of \<open>inflate\<close> or \<open>deflate\<close> gets the bytes that wait for
  it, and says what it made of them: its result, how many it used, what it put into the output
  buffer, and perhaps a message.
\<close>

record zlib_result =
  zr_result :: int
  zr_used :: nat
  zr_output :: string
  zr_message :: "string option"

record 'w zlib =
  z_inflateInit :: "'w \<Rightarrow> int \<times> 'w"
  z_inflate :: "string \<Rightarrow> 'w \<Rightarrow> zlib_result \<times> 'w"
  z_deflateInit :: "'w \<Rightarrow> int \<times> 'w"
  z_deflate :: "string \<Rightarrow> bool \<Rightarrow> 'w \<Rightarrow> zlib_result \<times> 'w"

definition ENOENT :: nat where "ENOENT = 2"
definition EACCES :: nat where "EACCES = 13"
definition ENOTDIR :: nat where "ENOTDIR = 20"
definition EINVAL :: nat where "EINVAL = 22"
definition ENAMETOOLONG :: nat where "ENAMETOOLONG = 36"
definition ELOOP :: nat where "ELOOP = 40"

section \<open>Directories\<close>

definition item_path :: "string \<Rightarrow> string \<Rightarrow> string" where
  "item_path directory name = directory @ ''/'' @ name"

text \<open>Every loop over a directory skips the directory itself and its parent.\<close>

definition dot_entry :: "string \<times> file_type \<Rightarrow> bool" where
  "dot_entry e \<longleftrightarrow> fst e = ''.'' \<or> fst e = ''..''"

definition makeIfNonexistent ::
  "'w filesystem \<Rightarrow> nat \<Rightarrow> string \<Rightarrow> (('w, 'z) base_store_scheme, unit) op" where
  "makeIfNonexistent F mode path =
     bindM (callM (fs_stat F path)) (\<lambda>problem.
     case problem of
       None \<Rightarrow> ret ()
     | Some err \<Rightarrow>
         if err \<noteq> ENOENT then throw (''Unable to stat '' @ path)
         else bindM (callM (fs_mkdir F path mode)) (\<lambda>failed.
              case failed of
                None \<Rightarrow> ret ()
              | Some e \<Rightarrow> throw (''Unable to create directory '' @ path @ '': error '' @ show_nat e)))"

text \<open>The paths that end before a slash, the leading one excepted, and the path itself.\<close>

definition parent_paths :: "string \<Rightarrow> string list" where
  "parent_paths path =
     map (\<lambda>i. take i path) (filter (\<lambda>i. path ! i = CHR ''/'') [1..<length path])"

definition mkdir_p :: "'w filesystem \<Rightarrow> string \<Rightarrow> nat \<Rightarrow> (('w, 'z) base_store_scheme, unit) op" where
  "mkdir_p F path mode =
     (if path = [] then throw ''The empty path is not a valid argument to mkdir''
      else if mode > 511 then throw ''mkdir does not permit setting any mode bits above the lowest 9''
      else bindM (mapM (makeIfNonexistent F mode) (parent_paths path)) (\<lambda>_.
           if last path \<noteq> CHR ''/'' then makeIfNonexistent F mode path else ret ()))"

text \<open>
  Removing what is in a directory, down to a depth that is given: \<open>None\<close> says that it was not
  enough.  The result is zero or an error number.
\<close>

fun destroy_entries ::
  "(string \<Rightarrow> 's \<Rightarrow> (nat \<times> 's) option) \<Rightarrow> (string \<Rightarrow> 's \<Rightarrow> nat \<times> 's) \<Rightarrow> (string \<Rightarrow> 's \<Rightarrow> nat \<times> 's) \<Rightarrow>
     string \<Rightarrow> (string \<times> file_type) list \<Rightarrow> 's \<Rightarrow> (nat \<times> 's) option" where
  "destroy_entries clear_dir remove_dir remove path [] s = Some (0, s)"
| "destroy_entries clear_dir remove_dir remove path (e # es) s =
     (if dot_entry e then destroy_entries clear_dir remove_dir remove path es s
      else if snd e = DT_DIR then
        (case clear_dir (item_path path (fst e)) s of
           None \<Rightarrow> None
         | Some (err, s1) \<Rightarrow>
             if err \<noteq> 0 then Some (err, s1)
             else (case remove_dir (item_path path (fst e)) s1 of
                     (err2, s2) \<Rightarrow>
                       if err2 \<noteq> 0 then Some (err2, s2)
                       else destroy_entries clear_dir remove_dir remove path es s2))
      else (case remove (item_path path (fst e)) s of
              (err, s1) \<Rightarrow>
                if err \<noteq> 0 then Some (err, s1)
                else destroy_entries clear_dir remove_dir remove path es s1))"

definition errno_of :: "('w \<Rightarrow> nat option \<times> 'w) \<Rightarrow> ('w, 'z) base_store_scheme \<Rightarrow>
    nat \<times> ('w, 'z) base_store_scheme" where
  "errno_of f s = (case call f s of (r, s') \<Rightarrow> (case r of None \<Rightarrow> 0 | Some e \<Rightarrow> e, s'))"

primrec recursivelyDestroyDirectory :: "nat \<Rightarrow> 'w filesystem \<Rightarrow> string \<Rightarrow>
    ('w, 'z) base_store_scheme \<Rightarrow> (nat \<times> ('w, 'z) base_store_scheme) option" where
  "recursivelyDestroyDirectory 0 F path s = None"
| "recursivelyDestroyDirectory (Suc depth) F path s =
     (case call (fs_readdir F path) s of
        (None, s1) \<Rightarrow> Some (ENOTDIR, s1)
      | (Some entries, s1) \<Rightarrow>
          destroy_entries (recursivelyDestroyDirectory depth F) (\<lambda>p. errno_of (fs_rmdir F p))
            (\<lambda>p. errno_of (fs_unlink F p)) path entries s1)"

definition makeTemporaryDir ::
  "'w filesystem \<Rightarrow> string \<Rightarrow> (('w, 'z) base_store_scheme, string) op" where
  "makeTemporaryDir F nameBase =
     bindM (callM (fs_mkdtemp F (nameBase @ ''XXXXXXXX''))) (\<lambda>made.
     case made of
       Inl err \<Rightarrow> throw (''Creating temporary directory failed with error '' @ show_nat err)
     | Inr path \<Rightarrow> ret path)"

section \<open>Paths that may not exist\<close>

text \<open>\<open>orig.find(c,from)\<close>.\<close>

definition find_from :: "char \<Rightarrow> string \<Rightarrow> nat \<Rightarrow> nat option" where
  "find_from c s from = find (\<lambda>i. s ! i = c) [from..<length s]"

record pathComponent =
  pc_text :: string
  pc_hypothetical :: bool

definition isHypothetical :: "pathComponent list \<Rightarrow> bool" where
  "isHypothetical components \<longleftrightarrow> list_ex pc_hypothetical components"

definition assemble :: "pathComponent list \<Rightarrow> string" where
  "assemble components =
     (if components = [] then ''/'' else concat (map (\<lambda>c. CHR ''/'' # pc_text c) components))"

text \<open>
  What processing a component comes to: the loop goes on, with or without moving \<open>last\<close> up to
  the current position, or a symbolic link has been followed and the path under consideration,
  the components and the positions are new.
\<close>

datatype progress =
    Onward "pathComponent list" bool
  | Followed string "pathComponent list" nat

text \<open>\<open>orig.substr(pos)\<close> at the position \<open>npos\<close> throws.\<close>

definition bad_substr :: "string \<Rightarrow> what" where
  "bad_substr s =
     ''basic_string::substr: __pos (which is 18446744073709551615) > this->size() (which is '' @
     show_nat (length s) @ '')''"

definition follow_link :: "string \<Rightarrow> pathComponent list \<Rightarrow> nat option \<Rightarrow> nat \<Rightarrow> string \<Rightarrow> progress outcome" where
  "follow_link orig components pos lst linkPath =
     (case pos of
        None \<Rightarrow> Inl (bad_substr orig)
      | Some p \<Rightarrow>
          if linkPath \<noteq> [] \<and> hd linkPath = CHR ''/''
          then Inr (Followed (linkPath @ drop p orig) [] 0)
          else Inr (Followed (take (lst + 1) orig @ linkPath @ drop p orig) components lst))"

definition link_error :: "nat \<Rightarrow> string \<Rightarrow> what" where
  "link_error err path =
     (if err = EACCES then ''Permission to search '' @ path @ '' denied''
      else if err = ELOOP then ''Too many levels of indirection examining '' @ path
      else if err = ENAMETOOLONG
        then ''A path component of the symbolically expanded full path was too long in '' @ path
      else ''Error checking whether '' @ path @ '' is a symbolic link: '' @ show_nat err)"

definition processComponent :: "'w filesystem \<Rightarrow> string \<Rightarrow> pathComponent list \<Rightarrow> nat option \<Rightarrow> nat \<Rightarrow>
    string \<Rightarrow> (('w, 'z) base_store_scheme, progress) op" where
  "processComponent F orig components pos lst component =
     (if component = ''.'' then ret (Onward components True)
      else if component = ''..'' then ret (Onward (butlast components) True)
      else if isHypothetical components
        then ret (Onward (components @ [\<lparr>pc_text = component, pc_hypothetical = True\<rparr>]) False)
      else let extended = components @ [\<lparr>pc_text = component, pc_hypothetical = False\<rparr>]
           in bindM (callM (fs_readlink F (assemble extended))) (\<lambda>link.
              case link of
                Inl err \<Rightarrow>
                  if err = EINVAL then ret (Onward extended True)
                  else if err = ENOENT
                    then ret (Onward (components @ [\<lparr>pc_text = component, pc_hypothetical = True\<rparr>]) True)
                  else throw (link_error err (assemble extended))
              | Inr linkPath \<Rightarrow>
                  (\<lambda>s. (follow_link orig components pos lst linkPath, s))))"

text \<open>
  The loop stops with an error after 1025 rounds; the number counts them down.  The component
  ends before the slash at \<open>pos\<close>, or at the end of the path when there is none.
\<close>

primrec realpath_loop :: "nat \<Rightarrow> 'w filesystem \<Rightarrow> string \<Rightarrow> pathComponent list \<Rightarrow> nat \<Rightarrow> nat \<Rightarrow>
    (('w, 'z) base_store_scheme, string) op" where
  "realpath_loop 0 F orig components pos lst =
     throw (''Too many levels of indirection examining '' @ orig)"
| "realpath_loop (Suc n) F orig components pos lst =
     (case find_from (CHR ''/'') orig (pos + 1) of
        None \<Rightarrow>
          bindM (processComponent F orig components None lst (drop (lst + 1) orig)) (\<lambda>r.
            case r of
              Onward components' moved \<Rightarrow> ret (assemble components')
            | Followed orig' components' pos' \<Rightarrow> realpath_loop n F orig' components' pos' pos')
      | Some p \<Rightarrow>
          if p \<le> lst + 1 then realpath_loop n F orig components p p
          else bindM (processComponent F orig components (Some p) lst
                        (take (p - lst - 1) (drop (lst + 1) orig))) (\<lambda>r.
            case r of
              Onward components' moved \<Rightarrow>
                realpath_loop n F orig components' p (if moved then p else lst)
            | Followed orig' components' pos' \<Rightarrow> realpath_loop n F orig' components' pos' pos'))"

definition realpathHyp :: "'w filesystem \<Rightarrow> string \<Rightarrow> (('w, 'z) base_store_scheme, string) op" where
  "realpathHyp F orig =
     bindM (if orig = [] \<or> hd orig \<noteq> CHR ''/''
            then bindM (callM (fs_getcwd F)) (\<lambda>cwd.
                 case cwd of
                   Inl err \<Rightarrow> throw (''getcwd failed with error '' @ show_nat err)
                 | Inr path \<Rightarrow> ret (path @ ''/'' @ orig))
            else ret orig) (\<lambda>path.
     realpath_loop 1025 F path [] 0 0)"

end
