(* ===== verification/Web.thy ===== *)
theory Web
  imports ApplicationCatalog Files
begin

text \<open>
  What the request handlers share: JSON documents with the preconditions of rapidjson's
  accessors, the checks of a request body (which pass, reject the request with a response, or
  trip over a precondition), responses and \<open>generateError\<close> (\<open>src/ServerUtilities.cpp\<close>),
  \<open>sendEmail\<close> (\<open>src/PersistentStore.cpp\<close>), exceptions that a handler catches, and operations
  that need a budget of database pages.

  The services that only the handlers use are a second record of functions over the world:
  random numbers, the time of day, sleeping, HTTP for mail and geocoding, programs run with an
  environment, the DNS service, files and compression, the settings of the server, and the vendored
  parsers and printers of JSON, YAML and query strings.  The telemetry spans and log lines of the
  handlers carry no state of the program and are left out.
\<close>

section \<open>Services of the handlers\<close>

record EmailClient =
  mailgunEndpoint :: string
  mailgunKey :: string
  emailDomain :: string
  mail_valid :: bool

record Email =
  fromAddress :: string
  toAddresses :: "string list"
  ccAddresses :: "string list"
  bccAddresses :: "string list"
  replyTo :: string
  subject :: string
  mail_body :: string

definition no_email :: Email where
  "no_email = \<lparr>fromAddress = '''', toAddresses = [], ccAddresses = [], bccAddresses = [],
     replyTo = '''', subject = '''', mail_body = ''''\<rparr>"

text \<open>
  JSON values.  A number that is not an integer is the bit pattern of a \<open>double\<close>.
\<close>

datatype json =
    J_null
  | J_bool bool
  | J_int int
  | J_double "64 word"
  | J_string string
  | J_array "json list"
  | J_object "(string \<times> json) list"

text \<open>
  DNS records: of an IPv4 address, of an IPv6 address, and text; and what the server knows about
  its name service.
\<close>

datatype rr_type = RR_A | RR_AAAA | RR_TXT

datatype dns_action = Upsert | Delete_record

type_synonym dns_change = "dns_action \<times> string \<times> rr_type \<times> string"

record DNSManipulator =
  hostedZones :: "(string \<times> string) list"
  validServer :: bool

text \<open>
  The service that knows where a place is; and the floating point text of the language: what
  \<open>operator<<\<close>, \<open>std::to_string\<close> and \<open>operator>>\<close> without skipping spaces do, the last with
  the characters it leaves, the conversion of an integer, and \<open>operator<<\<close> of
  \<open>m + double(r) / s\<close> for integers.
\<close>

record Geocoder =
  serviceURL :: string
  serviceAuthToken :: string

record double_text =
  d_print :: "64 word \<Rightarrow> string"
  d_to_string :: "64 word \<Rightarrow> string"
  d_read :: "string \<Rightarrow> (64 word \<times> string) option"
  d_of_int :: "int \<Rightarrow> 64 word"
  d_mixed :: "int \<Rightarrow> int \<Rightarrow> int \<Rightarrow> string"

text \<open>
  Documents of the configuration language of helm, as \<open>yaml-cpp\<close> has them: an empty document is
  null, and every scalar is text.
\<close>

datatype yaml =
    Y_null
  | Y_scalar string
  | Y_sequence "yaml list"
  | Y_map "(yaml \<times> yaml) list"

record 'w services =
  x_random64 :: "'w \<Rightarrow> 64 word \<times> 'w"
  x_timestamp :: "'w \<Rightarrow> string \<times> 'w"
  x_httpPostForm :: "string \<Rightarrow> (string \<times> string) list \<Rightarrow> 'w \<Rightarrow> (nat \<times> string) outcome \<times> 'w"
  x_runCommand :: "string \<Rightarrow> string list \<Rightarrow> (string \<times> string) list \<Rightarrow> 'w \<Rightarrow>
    command_result outcome \<times> 'w"
  x_parse :: "string \<Rightarrow> json"
  x_print :: "json \<Rightarrow> string"
  x_mail :: EmailClient
  x_queryString :: "string \<Rightarrow> string \<Rightarrow> string option"
  x_serverVersion :: string
  x_opsEmail :: string
  x_baseDomain :: string
  x_dns :: DNSManipulator
  x_testDNSAnswer :: "string \<Rightarrow> string \<Rightarrow> rr_type \<Rightarrow> 'w \<Rightarrow> string list outcome \<times> 'w"
  x_changeDNSRecords :: "string \<Rightarrow> dns_change list \<Rightarrow> 'w \<Rightarrow> bool \<times> 'w"
  x_httpGet :: "string \<Rightarrow> 'w \<Rightarrow> (nat \<times> string) outcome \<times> 'w"
  x_geocoder :: Geocoder
  x_doubles :: double_text
  x_sleep :: "nat \<Rightarrow> 'w \<Rightarrow> unit \<times> 'w"
  x_yaml :: "json \<Rightarrow> string"
  x_loadYaml :: "string \<Rightarrow> yaml list outcome"
  x_emitYaml :: "yaml list \<Rightarrow> string"
  x_loadFirstYaml :: "string \<Rightarrow> yaml outcome"
  x_writeFile :: "string \<Rightarrow> string \<Rightarrow> 'w \<Rightarrow> (string \<times> bool) outcome \<times> 'w"
  x_files :: "'w filesystem"
  x_zlib :: "'w zlib"
  x_appLoggingServer :: "string \<times> nat"

section \<open>Text\<close>

text \<open>A C string ends at its first NUL character.\<close>

definition c_str :: "string \<Rightarrow> string" where
  "c_str s = takeWhile (\<lambda>c. c \<noteq> CHR 0x00) s"

text \<open>\<open>rapidjson::StringRef(s.c_str())\<close> as a value.\<close>

definition J_text :: "string \<Rightarrow> json" where
  "J_text s = J_string (c_str s)"

section \<open>Responses\<close>

datatype body = No_body | Document json | Plain string

record response =
  rsp_code :: nat
  rsp_body :: body

record request =
  req_params :: "string \<Rightarrow> string option"
  req_body :: string

definition generateError :: "string \<Rightarrow> json" where
  "generateError message =
     J_object [(''kind'', J_string ''Error''), (''message'', J_text message)]"

definition failure :: "nat \<Rightarrow> string \<Rightarrow> response" where
  "failure c message = \<lparr>rsp_code = c, rsp_body = Document (generateError message)\<rparr>"

definition reply :: "json \<Rightarrow> response" where
  "reply doc = \<lparr>rsp_code = 200, rsp_body = Document doc\<rparr>"

definition okay :: response where
  "okay = \<lparr>rsp_code = 200, rsp_body = No_body\<rparr>"

definition silent_failure :: response where
  "silent_failure = \<lparr>rsp_code = 500, rsp_body = No_body\<rparr>"

section \<open>Checking a request\<close>

text \<open>
  Most of a handler's checks need no state.  A check passes with a value, ends the request with
  a response, or violates a precondition of rapidjson, which is an \<open>assert\<close> there.
\<close>

datatype 'a check = Pass 'a | Reject response | Abort what

definition bindC :: "'a check \<Rightarrow> ('a \<Rightarrow> 'b check) \<Rightarrow> 'b check" where
  "bindC c f = (case c of Pass a \<Rightarrow> f a | Reject r \<Rightarrow> Reject r | Abort e \<Rightarrow> Abort e)"

lemma bindC_simps [simp]:
  "bindC (Pass a) f = f a" "bindC (Reject r) f = Reject r" "bindC (Abort e) f = Abort e"
  by (simp_all add: bindC_def)

lemma bindC_Pass_iff: "bindC c f = Pass b \<longleftrightarrow> (\<exists>a. c = Pass a \<and> f a = Pass b)"
  by (cases c) auto

definition demand :: "bool \<Rightarrow> nat \<Rightarrow> string \<Rightarrow> unit check" where
  "demand b c message = (if b then Pass () else Reject (failure c message))"

definition assertion_failed :: what where
  "assertion_failed = ''assertion failed''"

fun IsObject :: "json \<Rightarrow> bool" where
  "IsObject (J_object ms) \<longleftrightarrow> True" | "IsObject _ \<longleftrightarrow> False"

fun IsString :: "json \<Rightarrow> bool" where
  "IsString (J_string s) \<longleftrightarrow> True" | "IsString _ \<longleftrightarrow> False"

fun IsBool :: "json \<Rightarrow> bool" where
  "IsBool (J_bool b) \<longleftrightarrow> True" | "IsBool _ \<longleftrightarrow> False"

fun IsArray :: "json \<Rightarrow> bool" where
  "IsArray (J_array xs) \<longleftrightarrow> True" | "IsArray _ \<longleftrightarrow> False"

fun HasMember :: "json \<Rightarrow> string \<Rightarrow> bool check" where
  "HasMember (J_object ms) name = Pass (map_of ms name \<noteq> None)"
| "HasMember _ name = Abort assertion_failed"

text \<open>\<open>operator[]\<close> with a member name.\<close>

fun the_member :: "json \<Rightarrow> string \<Rightarrow> json check" where
  "the_member (J_object ms) name =
     (case map_of ms name of None \<Rightarrow> Abort assertion_failed | Some v \<Rightarrow> Pass v)"
| "the_member _ name = Abort assertion_failed"

text \<open>\<open>GetString\<close> where its result becomes a \<open>std::string\<close>.\<close>

fun GetString :: "json \<Rightarrow> string check" where
  "GetString (J_string s) = Pass (c_str s)" | "GetString _ = Abort assertion_failed"

fun GetBoolean :: "json \<Rightarrow> bool check" where
  "GetBoolean (J_bool b) = Pass b" | "GetBoolean _ = Abort assertion_failed"

fun GetArray :: "json \<Rightarrow> json list check" where
  "GetArray (J_array xs) = Pass xs" | "GetArray _ = Abort assertion_failed"

fun GetObject :: "json \<Rightarrow> (string \<times> json) list check" where
  "GetObject (J_object ms) = Pass ms" | "GetObject _ = Abort assertion_failed"

text \<open>\<open>body["metadata"]["name"].IsString()\<close> for a member that must be there.\<close>

definition string_member :: "json \<Rightarrow> string \<Rightarrow> bool check" where
  "string_member obj name = bindC (the_member obj name) (\<lambda>v. Pass (IsString v))"

definition text_of :: "json \<Rightarrow> string \<Rightarrow> string check" where
  "text_of obj name = bindC (the_member obj name) GetString"

primrec foldC :: "('x \<Rightarrow> 'a \<Rightarrow> 'a check) \<Rightarrow> 'x list \<Rightarrow> 'a \<Rightarrow> 'a check" where
  "foldC f [] acc = Pass acc"
| "foldC f (x # xs) acc = bindC (f x acc) (foldC f xs)"

primrec mapC :: "('x \<Rightarrow> 'a check) \<Rightarrow> 'x list \<Rightarrow> 'a list check" where
  "mapC f [] = Pass []"
| "mapC f (x # xs) = bindC (f x) (\<lambda>a. bindC (mapC f xs) (\<lambda>rest. Pass (a # rest)))"

text \<open>A member of a member.\<close>

primrec member_at :: "json \<Rightarrow> string list \<Rightarrow> json check" where
  "member_at v [] = Pass v"
| "member_at v (k # ks) = bindC (the_member v k) (\<lambda>u. member_at u ks)"

definition text_at :: "json \<Rightarrow> string list \<Rightarrow> string check" where
  "text_at v ks = bindC (member_at v ks) GetString"

definition array_at :: "json \<Rightarrow> string list \<Rightarrow> json list check" where
  "array_at v ks = bindC (member_at v ks) GetArray"

text \<open>The two checks that many handlers make of a string they require, one after the other.\<close>

definition require_string :: "json \<Rightarrow> string \<Rightarrow> string \<Rightarrow> string \<Rightarrow> unit check" where
  "require_string obj name missing wrong =
     bindC (HasMember obj name) (\<lambda>has.
     bindC (demand has 400 missing) (\<lambda>_.
     bindC (string_member obj name) (\<lambda>str.
     demand str 400 wrong)))"

text \<open>
  How most handlers start to unpack a body: it must have parsed to something other than null, and
  its member \<open>metadata\<close> must be an object.  \<open>Parse\<close> does not throw; it leaves a null document
  when the text is not JSON.
\<close>

definition metadata_of :: "json \<Rightarrow> string \<Rightarrow> string \<Rightarrow> json check" where
  "metadata_of doc missing wrong =
     bindC (demand (doc \<noteq> J_null) 400 ''Invalid JSON in request body'') (\<lambda>_.
     bindC (HasMember doc ''metadata'') (\<lambda>has.
     bindC (demand has 400 missing) (\<lambda>_.
     bindC (the_member doc ''metadata'') (\<lambda>metadata.
     bindC (demand (IsObject metadata) 400 wrong) (\<lambda>_.
     Pass metadata)))))"

section \<open>Handlers\<close>

text \<open>A handler goes on with what a check passed, answers, or fails with the assertion.\<close>

definition checked :: "'a check \<Rightarrow> ('a \<Rightarrow> ('s, response) op) \<Rightarrow> ('s, response) op" where
  "checked c k =
     (case c of Pass a \<Rightarrow> k a | Reject r \<Rightarrow> ret r | Abort e \<Rightarrow> throw e)"

lemma checked_simps [simp]:
  "checked (Pass a) k = k a" "checked (Reject r) k = ret r" "checked (Abort e) k = throw e"
  by (simp_all add: checked_def)

text \<open>
  \<open>catch(std::runtime_error&)\<close>.  A failed assertion ends the process, undefined behaviour is no
  exception, and what the hash map throws for a missing key is a \<open>std::out_of_range\<close>.
\<close>

definition runtime_error :: "what \<Rightarrow> bool" where
  "runtime_error e \<longleftrightarrow>
     e \<noteq> assertion_failed \<and> e \<noteq> ''undefined behaviour'' \<and> e \<noteq> ''key not found in table''"

definition catchM :: "('s, 'a) op \<Rightarrow> (what \<Rightarrow> ('s, 'a) op) \<Rightarrow> ('s, 'a) op" where
  "catchM m h s =
     (case m s of
        (Inl e, s') \<Rightarrow> if runtime_error e then h e s' else (Inl e, s')
      | (Inr a, s') \<Rightarrow> (Inr a, s'))"

text \<open>An exception that is looked at, and goes no further.\<close>

definition attemptM :: "('s, 'a) op \<Rightarrow> ('s, 'a outcome) op" where
  "attemptM m = catchM (bindM m (\<lambda>a. ret (Inr a))) (\<lambda>e. ret (Inl e))"

text \<open>A check outside of a request: there is nobody to answer.\<close>

definition checkM :: "'a check \<Rightarrow> ('s, 'a) op" where
  "checkM c = (case c of Pass a \<Rightarrow> ret a | Reject r \<Rightarrow> throw '''' | Abort e \<Rightarrow> throw e)"

text \<open>
  Operations that may run out of their budget of database pages (\<open>None\<close>), and ordinary ones
  among them.
\<close>

type_synonym ('s, 'a) paged = "'s \<Rightarrow> ('a outcome \<times> 's) option"

definition whole :: "('s, 'a) op \<Rightarrow> ('s, 'a) paged" where
  "whole m s = Some (m s)"

definition bindP :: "('s, 'a) paged \<Rightarrow> ('a \<Rightarrow> ('s, 'b) paged) \<Rightarrow> ('s, 'b) paged" where
  "bindP m f s =
     (case m s of
        None \<Rightarrow> None
      | Some (Inl e, s') \<Rightarrow> Some (Inl e, s')
      | Some (Inr a, s') \<Rightarrow> f a s')"

text \<open>The first lines of every handler: who is asking?  \<open>requester\<close> answers a stranger with 403.\<close>

definition token_user ::
  "'w env \<Rightarrow> request \<Rightarrow> (('w, 'z) user_store_scheme, User) op" where
  "token_user E req = authenticateUser E (req_params req ''token'')"

definition requester :: "'w env \<Rightarrow> request \<Rightarrow> string \<Rightarrow>
    (User \<Rightarrow> (('w, 'z) user_store_scheme, response) op) \<Rightarrow> (('w, 'z) user_store_scheme, response) op" where
  "requester E req message k =
     bindM (token_user E req) (\<lambda>user.
       if \<not> u_valid user then ret (failure 403 message) else k user)"

definition requesterP :: "'w env \<Rightarrow> request \<Rightarrow> string \<Rightarrow>
    (User \<Rightarrow> (('w, 'z) user_store_scheme, response) paged) \<Rightarrow>
    (('w, 'z) user_store_scheme, response) paged" where
  "requesterP E req message k =
     bindP (whole (token_user E req)) (\<lambda>user.
       if \<not> u_valid user then whole (ret (failure 403 message)) else k user)"

section \<open>Email\<close>

text \<open>The form is a \<open>multimap\<close>, so it is sent in the order of its keys.\<close>

definition email_form :: "Email \<Rightarrow> (string \<times> string) list" where
  "email_form email =
     map (Pair ''bcc'') (bccAddresses email) @ map (Pair ''cc'') (ccAddresses email) @
     [(''from'', fromAddress email), (''subject'', subject email), (''text'', mail_body email)] @
     map (Pair ''to'') (toAddresses email)"

definition sendEmail :: "'w services \<Rightarrow> Email \<Rightarrow> (('w, 'z) base_store_scheme, bool) op" where
  "sendEmail X email =
     (if \<not> mail_valid (x_mail X) then ret False
      else bindM (callE (x_httpPostForm X
               (''https://api:'' @ mailgunKey (x_mail X) @ ''@'' @ mailgunEndpoint (x_mail X) @
                ''/v3/'' @ emailDomain (x_mail X) @ ''/messages'') (email_form email)))
             (\<lambda>(status, _). ret (status = 200)))"

text \<open>Every handler parses the body up to its first NUL character.\<close>

definition request_json :: "'w services \<Rightarrow> request \<Rightarrow> json" where
  "request_json X req = x_parse X (c_str (req_body req))"

section \<open>Random identifiers\<close>

definition new_id :: "'w services \<Rightarrow> (64 word \<Rightarrow> string) \<Rightarrow> (('w, 'z) base_store_scheme, string) op" where
  "new_id X generate = bindM (callM (x_random64 X)) (\<lambda>r. ret (generate r))"

definition new_token :: "'w services \<Rightarrow> (('w, 'z) base_store_scheme, string) op" where
  "new_token X =
     bindM (callM (x_random64 X)) (\<lambda>r1.
     bindM (callM (x_random64 X)) (\<lambda>r2. ret (generateUserToken r1 r2)))"

end
