(* ===== verification/Kept.thy ===== *)
theory Kept
  imports Web
begin

text \<open>
  Reasoning about operations by assertions: \<open>triple P m Q X\<close> says that from a state with \<open>P\<close> the
  operation leaves a state with \<open>Q a\<close> when it returns \<open>a\<close>, and one with \<open>X\<close> when it throws.
  \<open>keeps I m\<close> is the special case of an invariant, kept whether the operation returns or throws;
  its rules (the collection \<open>keeps\<close>) follow the structure of the handlers.
\<close>

named_theorems keeps \<open>rules that take a kept invariant apart\<close>

section \<open>Assertions before and after\<close>

definition triple ::
  "('s \<Rightarrow> bool) \<Rightarrow> ('s, 'a) op \<Rightarrow> ('a \<Rightarrow> 's \<Rightarrow> bool) \<Rightarrow> ('s \<Rightarrow> bool) \<Rightarrow> bool" where
  "triple P m Q X \<longleftrightarrow>
     (\<forall>s. P s \<longrightarrow> (case m s of (Inl e, s') \<Rightarrow> X s' | (Inr a, s') \<Rightarrow> Q a s'))"

definition keeps :: "('s \<Rightarrow> bool) \<Rightarrow> ('s, 'a) op \<Rightarrow> bool" where
  "keeps I m \<longleftrightarrow> triple I m (\<lambda>_. I) I"

lemma tripleI:
  assumes "\<And>s e s'. P s \<Longrightarrow> m s = (Inl e, s') \<Longrightarrow> X s'"
    and "\<And>s a s'. P s \<Longrightarrow> m s = (Inr a, s') \<Longrightarrow> Q a s'"
  shows "triple P m Q X"
  using assms by (auto simp: triple_def split: prod.split sum.split)

lemma tripleD:
  assumes "triple P m Q X" and "P s"
  shows "m s = (Inl e, s') \<Longrightarrow> X s'" and "m s = (Inr a, s') \<Longrightarrow> Q a s'"
  using assms by (auto simp: triple_def dest: spec [of _ s])

lemma keepsI: "(\<And>s r s'. I s \<Longrightarrow> m s = (r, s') \<Longrightarrow> I s') \<Longrightarrow> keeps I m"
  unfolding keeps_def by (rule tripleI) blast+

lemma keepsD: "keeps I m \<Longrightarrow> I s \<Longrightarrow> m s = (r, s') \<Longrightarrow> I s'"
  unfolding keeps_def by (cases r) (auto dest: tripleD)

lemma triple_weaken:
  "triple P m Q X \<Longrightarrow> (\<And>s. P' s \<Longrightarrow> P s) \<Longrightarrow> (\<And>a s. Q a s \<Longrightarrow> Q' a s) \<Longrightarrow>
     (\<And>s. X s \<Longrightarrow> X' s) \<Longrightarrow> triple P' m Q' X'"
  by (rule tripleI) (blast dest: tripleD)+

lemma keeps_triple: "keeps I m \<Longrightarrow> (\<And>a s. I s \<Longrightarrow> Q a s) \<Longrightarrow> triple I m Q I"
  unfolding keeps_def by (erule triple_weaken)

text \<open>A state-independent fact \<open>p\<close> may be carried along in the precondition.\<close>

lemma triple_pure: "(p \<Longrightarrow> triple P m Q X) \<Longrightarrow> triple (\<lambda>s. P s \<and> p) m Q X"
  by (auto simp: triple_def)

lemma triple_bind:
  "triple P m R X \<Longrightarrow> (\<And>a. triple (R a) (f a) Q X) \<Longrightarrow> triple P (bindM m f) Q X"
  by (fastforce simp: triple_def bindM_def split: prod.splits sum.splits)

lemma triple_keeps_bind: "triple I m R I \<Longrightarrow> (\<And>a. triple (R a) (f a) (\<lambda>_. I) I) \<Longrightarrow> keeps I (bindM m f)"
  unfolding keeps_def by (rule triple_bind)

lemma triple_of_keeps: "keeps I m \<Longrightarrow> triple I m (\<lambda>_. I) I"
  by (simp add: keeps_def)

lemma triple_strengthen:
  "keeps I m \<Longrightarrow> (\<And>s. P s \<Longrightarrow> I s) \<Longrightarrow> triple P m (\<lambda>_. I) I"
  unfolding keeps_def by (erule triple_weaken)

section \<open>Rules for kept invariants\<close>

lemma keeps_ret [keeps]: "keeps I (ret a)"
  by (rule keepsI) (simp add: ret_def)

lemma keeps_throw [keeps]: "keeps I (throw e)"
  by (rule keepsI) (simp add: throw_def)

lemma keeps_bind [keeps]: "keeps I m \<Longrightarrow> (\<And>a. keeps I (f a)) \<Longrightarrow> keeps I (bindM m f)"
  unfolding keeps_def by (rule triple_bind)

lemma keeps_if [keeps]: "(b \<Longrightarrow> keeps I m) \<Longrightarrow> (\<not> b \<Longrightarrow> keeps I m') \<Longrightarrow> keeps I (if b then m else m')"
  by simp

lemma keeps_option [keeps]:
  "(x = None \<Longrightarrow> keeps I m) \<Longrightarrow> (\<And>a. x = Some a \<Longrightarrow> keeps I (f a)) \<Longrightarrow>
     keeps I (case x of None \<Rightarrow> m | Some a \<Rightarrow> f a)"
  by (cases x) simp_all

lemma keeps_sum [keeps]:
  "(\<And>e. x = Inl e \<Longrightarrow> keeps I (f e)) \<Longrightarrow> (\<And>a. x = Inr a \<Longrightarrow> keeps I (g a)) \<Longrightarrow>
     keeps I (case x of Inl e \<Rightarrow> f e | Inr a \<Rightarrow> g a)"
  by (cases x) simp_all

lemma keeps_prod [keeps]: "(\<And>a b. x = (a, b) \<Longrightarrow> keeps I (f a b)) \<Longrightarrow> keeps I (case x of (a, b) \<Rightarrow> f a b)"
  by (cases x) simp

lemma keeps_check [keeps]:
  "(\<And>a. x = Pass a \<Longrightarrow> keeps I (f a)) \<Longrightarrow> (\<And>r. x = Reject r \<Longrightarrow> keeps I (g r)) \<Longrightarrow>
     (\<And>e. x = Abort e \<Longrightarrow> keeps I (h e)) \<Longrightarrow>
     keeps I (case x of Pass a \<Rightarrow> f a | Reject r \<Rightarrow> g r | Abort e \<Rightarrow> h e)"
  by (cases x) simp_all

lemma keeps_checked [keeps]: "(\<And>a. c = Pass a \<Longrightarrow> keeps I (k a)) \<Longrightarrow> keeps I (checked c k)"
  by (cases c) (simp_all add: keeps_ret keeps_throw)

lemma keeps_catchM [keeps]: "keeps I m \<Longrightarrow> (\<And>e. keeps I (h e)) \<Longrightarrow> keeps I (catchM m h)"
  by (rule keepsI) (auto simp: catchM_def dest: keepsD split: prod.splits sum.splits if_splits)

lemma keeps_Let [keeps]: "keeps I (f x) \<Longrightarrow> keeps I (let y = x in f y)"
  by simp

lemma keeps_mapM [keeps]:
  assumes "\<And>x. x \<in> set xs \<Longrightarrow> keeps I (f x)"
  shows "keeps I (mapM f xs)"
proof (rule keepsI)
  fix s r s' assume "I s" and "mapM f xs s = (r, s')"
  with assms show "I s'" by (intro mapM_invariant [of xs I f s r s']) (blast dest: keepsD)+
qed

lemma keeps_foldM [keeps]:
  assumes "\<And>x acc. x \<in> set xs \<Longrightarrow> keeps I (f x acc)"
  shows "keeps I (foldM f xs acc)"
proof (rule keepsI)
  fix s r s' assume "I s" and "foldM f xs acc s = (r, s')"
  with assms show "I s'" by (intro foldM_invariant [of xs I f s acc r s']) (blast dest: keepsD)+
qed

section \<open>Operations with a budget\<close>

definition keepsP :: "('s \<Rightarrow> bool) \<Rightarrow> ('s, 'a) paged \<Rightarrow> bool" where
  "keepsP I m \<longleftrightarrow> (\<forall>s r s'. I s \<longrightarrow> m s = Some (r, s') \<longrightarrow> I s')"

lemma keepsPI: "(\<And>s r s'. I s \<Longrightarrow> m s = Some (r, s') \<Longrightarrow> I s') \<Longrightarrow> keepsP I m"
  by (auto simp: keepsP_def)

lemma keepsPD: "keepsP I m \<Longrightarrow> I s \<Longrightarrow> m s = Some (r, s') \<Longrightarrow> I s'"
  by (auto simp: keepsP_def)

lemma keepsP_whole [keeps]: "keeps I m \<Longrightarrow> keepsP I (whole m)"
  by (auto simp: keepsP_def whole_def dest: keepsD)

lemma keepsP_bind [keeps]: "keepsP I m \<Longrightarrow> (\<And>a. keepsP I (f a)) \<Longrightarrow> keepsP I (bindP m f)"
proof (rule keepsPI)
  fix s r s' assume m: "keepsP I m" and f: "\<And>a. keepsP I (f a)" and I: "I s"
    and run: "bindP m f s = Some (r, s')"
  obtain x t where x: "m s = Some (x, t)" using run by (auto simp: bindP_def split: option.splits)
  have "I t" using keepsPD [OF m I x] .
  with x run f show "I s'" by (cases x) (auto simp: bindP_def dest: keepsPD)
qed

lemma keepsP_if [keeps]:
  "(b \<Longrightarrow> keepsP I m) \<Longrightarrow> (\<not> b \<Longrightarrow> keepsP I m') \<Longrightarrow> keepsP I (if b then m else m')"
  by simp

lemma keepsP_option [keeps]:
  "(x = None \<Longrightarrow> keepsP I m) \<Longrightarrow> (\<And>a. x = Some a \<Longrightarrow> keepsP I (f a)) \<Longrightarrow>
     keepsP I (case x of None \<Rightarrow> m | Some a \<Rightarrow> f a)"
  by (cases x) simp_all

lemma keepsP_None [keeps]: "keepsP I (\<lambda>s. None)"
  by (simp add: keepsP_def)

lemma keepsP_Let [keeps]: "keepsP I (f x) \<Longrightarrow> keepsP I (let y = x in f y)"
  by simp

section \<open>The beginning of a handler\<close>

lemma keeps_requester [keeps]:
  "keeps I (token_user E req) \<Longrightarrow> (\<And>user. u_valid user \<Longrightarrow> keeps I (k user)) \<Longrightarrow>
     keeps I (requester E req message k)"
  unfolding requester_def by (intro keeps) auto

lemma keepsP_requester [keeps]:
  "keeps I (token_user E req) \<Longrightarrow> (\<And>user. u_valid user \<Longrightarrow> keepsP I (k user)) \<Longrightarrow>
     keepsP I (requesterP E req message k)"
  unfolding requesterP_def by (intro keeps) auto

end
