(* ===== verification/CredentialCommands.thy ===== *)
theory CredentialCommands
  imports Web CredentialStore
begin

text \<open>
  The handlers of \<open>src/MonitoringCredentialCommands.cpp\<close>.  All of them are for administrators
  only, and a stranger gets the same answer as an ordinary user.
\<close>

definition do_listMonitoringCredentials ::
  "'w env \<Rightarrow> nat \<Rightarrow> request \<Rightarrow> (('w, 'z) user_store_scheme, response) paged" where
  "do_listMonitoringCredentials E budget req =
     requesterP E req ''User not authorized'' (\<lambda>user.
     if \<not> u_admin user then whole (ret (failure 403 ''User not authorized''))
     else bindP (listMonitoringCredentials E budget) (\<lambda>credentials.
     whole (ret (reply (J_object
       [(''apiVersion'', J_string ''v1alpha3''),
        (''items'', J_array (map (\<lambda>cred. J_object
           [(''apiVersion'', J_string ''v1alpha3''),
            (''kind'', J_string ''MonitoringCredential''),
            (''metadata'', J_object
               [(''accessKey'', J_string (s3_accessKey cred)),
                (''secretKey'', J_string (s3_secretKey cred)),
                (''inUse'', J_bool (s3_inUse cred)),
                (''revoked'', J_bool (s3_revoked cred))])]) credentials))])))))"

definition unpack_credential :: "json \<Rightarrow> S3Credential check" where
  "unpack_credential doc =
     bindC (metadata_of doc ''Missing metadata in request''
              ''Incorrect type for metadata member'') (\<lambda>md.
     bindC (require_string md ''accessKey'' ''Missing access key in request''
              ''Incorrect type for access key'') (\<lambda>_.
     bindC (require_string md ''secretKey'' ''Missing secret key in request''
              ''Incorrect type for secret key'') (\<lambda>_.
     bindC (text_of md ''accessKey'') (\<lambda>accessKey.
     bindC (text_of md ''secretKey'') (\<lambda>secretKey.
     bindC (demand (accessKey \<noteq> []) 400 ''Empty access key in request'') (\<lambda>_.
     bindC (demand (secretKey \<noteq> []) 400 ''Empty secret key in request'') (\<lambda>_.
     Pass (make_cred accessKey secretKey))))))))"

definition do_addMonitoringCredential ::
  "'w env \<Rightarrow> 'w services \<Rightarrow> request \<Rightarrow> (('w, 'z) user_store_scheme, response) op" where
  "do_addMonitoringCredential E X req =
     requester E req ''User not authorized'' (\<lambda>user.
     if \<not> u_admin user then ret (failure 403 ''User not authorized'')
     else checked (unpack_credential (request_json X req)) (\<lambda>cred.
     bindM (addMonitoringCredential E cred) (\<lambda>added.
     if \<not> added then ret (failure 500 ''Storing monitoring credential failed'')
     else ret okay)))"

definition do_revokeMonitoringCredential ::
  "'w env \<Rightarrow> request \<Rightarrow> string \<Rightarrow> (('w, 'z) cluster_store_scheme, response) op" where
  "do_revokeMonitoringCredential E req credentialID =
     requester E req ''User not authorized'' (\<lambda>user.
     if \<not> u_admin user then ret (failure 403 ''User not authorized'')
     else bindM (getMonitoringCredential E credentialID) (\<lambda>cred.
     if \<not> s3_ok cred then ret (failure 404 ''Monitoring credential not found'')
     else bindM (findClusterUsingCredential E cred) (\<lambda>usingCluster.
     bindM (if c_valid usingCluster
            then removeClusterMonitoringCredential E (c_id usingCluster)
            else ret True) (\<lambda>removed.
     if \<not> removed then ret (failure 500 ''Revoking monitoring credential failed'')
     else bindM (revokeMonitoringCredential E credentialID) (\<lambda>revoked.
     if \<not> revoked then ret (failure 500 ''Revoking monitoring credential failed'')
     else ret okay)))))"

definition do_deleteMonitoringCredential ::
  "'w env \<Rightarrow> request \<Rightarrow> string \<Rightarrow> (('w, 'z) user_store_scheme, response) op" where
  "do_deleteMonitoringCredential E req credentialID =
     requester E req ''User not authorized'' (\<lambda>user.
     if \<not> u_admin user then ret (failure 403 ''User not authorized'')
     else bindM (getMonitoringCredential E credentialID) (\<lambda>cred.
     if \<not> s3_ok cred then ret (failure 404 ''Monitoring credential not found'')
     else bindM (deleteMonitoringCredential E credentialID) (\<lambda>deleted.
     if \<not> deleted then ret (failure 500 ''Deleting monitoring credential failed'')
     else ret okay)))"

end
