(* ===== verification/UserCommands.thy ===== *)
theory UserCommands
  imports Web
begin

text \<open>
  The handlers of \<open>src/UserCommands.cpp\<close>, one definition each, named after the function with a
  prefix \<open>do_\<close> because the store has operations of the same names.  \<open>E\<close> is the environment of
  the store, \<open>X\<close> the services of the handlers; the handlers that scan a table also take a budget
  of pages.
\<close>

section \<open>Documents\<close>

definition user_summary :: "User \<Rightarrow> json" where
  "user_summary u =
     J_object
       [(''apiVersion'', J_string ''v1alpha3''),
        (''kind'', J_string ''User''),
        (''metadata'', J_object
           [(''id'', J_text (u_id u)), (''name'', J_text (u_name u)), (''email'', J_text (u_email u)),
            (''phone'', J_text (u_phone u)), (''institution'', J_text (u_institution u))])]"

definition account_metadata :: "User \<Rightarrow> json list \<Rightarrow> json" where
  "account_metadata u groups =
     J_object
       [(''id'', J_text (u_id u)), (''name'', J_text (u_name u)), (''email'', J_text (u_email u)),
        (''phone'', J_text (u_phone u)), (''institution'', J_text (u_institution u)),
        (''access_token'', J_text (u_token u)), (''admin'', J_bool (u_admin u)),
        (''groups'', J_array groups)]"

definition account_document :: "User \<Rightarrow> string list \<Rightarrow> json" where
  "account_document u groups =
     J_object
       [(''apiVersion'', J_string ''v1alpha3''),
        (''kind'', J_string ''User''),
        (''metadata'', account_metadata u (map J_string groups))]"

section \<open>Listing and creating\<close>

definition do_listUsers ::
  "'w env \<Rightarrow> nat \<Rightarrow> request \<Rightarrow> (('w, 'z) user_store_scheme, response) paged" where
  "do_listUsers E budget req =
     requesterP E req ''User not authorized'' (\<lambda>user.
     bindP (case req_params req ''group'' of
              Some gid \<Rightarrow> whole (listUsersByGroup E gid)
            | None \<Rightarrow> listUsers E budget) (\<lambda>users.
     whole (ret (reply (J_object
       [(''apiVersion'', J_string ''v1alpha3''),
        (''items'', J_array (map user_summary users))])))))"

text \<open>What \<open>createUser\<close> demands of the body, and the account it describes, without ID and token.\<close>

definition unpack_new_user :: "json \<Rightarrow> User check" where
  "unpack_new_user doc =
     bindC (metadata_of doc ''Missing user metadata in request''
              ''Incorrect type for configuration'') (\<lambda>md.
     bindC (require_string md ''globusID'' ''Missing user globus ID in request''
              ''Incorrect type for user globus ID'') (\<lambda>_.
     bindC (require_string md ''name'' ''Missing user name in request''
              ''Incorrect type for user name'') (\<lambda>_.
     bindC (require_string md ''email'' ''Missing user email in request''
              ''Incorrect type for user email'') (\<lambda>_.
     bindC (require_string md ''phone'' ''Missing user phone in request''
              ''Incorrect type for user phone'') (\<lambda>_.
     bindC (require_string md ''institution'' ''Missing user institution in request''
              ''Incorrect type for user institution'') (\<lambda>_.
     bindC (HasMember md ''admin'') (\<lambda>has.
     bindC (demand has 400 ''Missing admin flag in request'') (\<lambda>_.
     bindC (the_member md ''admin'') (\<lambda>flag.
     bindC (demand (IsBool flag) 400 ''Incorrect type for user admin flag'') (\<lambda>_.
     bindC (text_of md ''globusID'') (\<lambda>globusID.
     bindC (text_of md ''name'') (\<lambda>name.
     bindC (text_of md ''email'') (\<lambda>email.
     bindC (text_of md ''phone'') (\<lambda>phone.
     bindC (text_of md ''institution'') (\<lambda>institution.
     bindC (GetBoolean flag) (\<lambda>admin.
     Pass \<lparr>u_valid = True, u_id = '''', u_name = name, u_email = email, u_phone = phone,
           u_institution = institution, u_token = '''', u_globusID = globusID,
           u_admin = admin\<rparr>))))))))))))))))"

definition do_createUser ::
  "'w env \<Rightarrow> 'w services \<Rightarrow> request \<Rightarrow> (('w, 'z) user_store_scheme, response) op" where
  "do_createUser E X req =
     requester E req ''Not authorized'' (\<lambda>user.
     if \<not> u_admin user then ret (failure 403 ''Not authorized'')
     else checked (unpack_new_user (request_json X req)) (\<lambda>info.
     bindM (new_id X generateUserID) (\<lambda>uid.
     bindM (new_token X) (\<lambda>token.
     let targetUser = info\<lparr>u_id := uid, u_token := token\<rparr> in
     bindM (findUserByGlobusID E (u_globusID targetUser)) (\<lambda>known.
     if u_valid known then ret (failure 400 ''Globus ID is already registered'')
     else bindM (addUser E targetUser) (\<lambda>created.
     if \<not> created then ret (failure 500 ''User account creation failed'')
     else ret (reply (J_object
       [(''apiVersion'', J_string ''v1alpha3''),
        (''metadata'', account_metadata targetUser [])]))))))))"

section \<open>Accounts\<close>

definition do_getUserInfo ::
  "'w env \<Rightarrow> request \<Rightarrow> string \<Rightarrow> (('w, 'z) group_store_scheme, response) op" where
  "do_getUserInfo E req uID =
     requester E req ''User not authorized'' (\<lambda>user.
     if \<not> u_admin user \<and> u_id user \<noteq> uID then ret (failure 403 ''User not authorized'')
     else bindM (getUser E uID) (\<lambda>targetUser.
     if \<not> u_valid targetUser then ret (failure 404 ''Not found'')
     else bindM (getUserGroupMemberships E uID True) (\<lambda>groups.
     ret (reply (account_document targetUser groups)))))"

definition do_whoAreThey ::
  "'w env \<Rightarrow> request \<Rightarrow> (('w, 'z) group_store_scheme, response) op" where
  "do_whoAreThey E req =
     requester E req ''User not found'' (\<lambda>user.
     bindM (getUserGroupMemberships E (u_id user) True) (\<lambda>groups.
     ret (reply (account_document user groups))))"

text \<open>A field of the update, if the request has it; otherwise the old value.\<close>

definition new_text :: "json \<Rightarrow> string \<Rightarrow> string \<Rightarrow> string \<Rightarrow> string check" where
  "new_text md name wrong old =
     bindC (HasMember md name) (\<lambda>has.
     if \<not> has then Pass old
     else bindC (string_member md name) (\<lambda>str.
          bindC (demand str 400 wrong) (\<lambda>_. text_of md name)))"

definition new_admin_flag :: "json \<Rightarrow> User \<Rightarrow> bool \<Rightarrow> bool check" where
  "new_admin_flag md user old =
     bindC (HasMember md ''admin'') (\<lambda>has.
     if \<not> has then Pass old
     else bindC (the_member md ''admin'') (\<lambda>flag.
          bindC (demand (IsBool flag) 400 ''Incorrect type for user admin flag'') (\<lambda>_.
          bindC (demand (u_admin user) 403 ''User not authorized'') (\<lambda>_.
          GetBoolean flag))))"

definition unpack_user_update :: "json \<Rightarrow> User \<Rightarrow> User \<Rightarrow> User check" where
  "unpack_user_update doc user targetUser =
     bindC (metadata_of doc ''Missing user metadata in request''
              ''Incorrect type for user metadata'') (\<lambda>md.
     bindC (new_text md ''name'' ''Incorrect type for user name'' (u_name targetUser)) (\<lambda>name.
     bindC (new_text md ''email'' ''Incorrect type for user email'' (u_email targetUser)) (\<lambda>email.
     bindC (new_text md ''phone'' ''Incorrect type for user phone'' (u_phone targetUser)) (\<lambda>phone.
     bindC (new_text md ''institution'' ''Incorrect type for user institution''
              (u_institution targetUser)) (\<lambda>institution.
     bindC (new_admin_flag md user (u_admin targetUser)) (\<lambda>admin.
     Pass (targetUser\<lparr>u_name := name, u_email := email, u_phone := phone,
             u_institution := institution, u_admin := admin\<rparr>)))))))"

definition do_updateUser ::
  "'w env \<Rightarrow> 'w services \<Rightarrow> request \<Rightarrow> string \<Rightarrow> (('w, 'z) user_store_scheme, response) op" where
  "do_updateUser E X req uID =
     requester E req ''User not authorized'' (\<lambda>user.
     if \<not> u_admin user \<and> u_id user \<noteq> uID then ret (failure 403 ''User not authorized'')
     else bindM (getUser E uID) (\<lambda>targetUser.
     if \<not> u_valid targetUser then ret (failure 404 ''User not found'')
     else checked (unpack_user_update (request_json X req) user targetUser)
       (\<lambda>updatedUser.
     bindM (updateUser E updatedUser targetUser) (\<lambda>updated.
     if \<not> updated then ret (failure 500 ''User account update failed'')
     else ret okay))))"

definition deletion_notice :: "User \<Rightarrow> Email" where
  "deletion_notice targetUser = no_email
     \<lparr>fromAddress := ''noreply@slate.io'', toAddresses := [u_email targetUser],
      subject := ''SLATE account deleted'',
      mail_body := ''This is an automatic notification that your SLATE user account ('' @
        u_name targetUser @ '', '' @ u_id targetUser @ '') has been deleted.''\<rparr>"

text \<open>
  The memberships go first, whether or not each could be removed; then the account, and last the
  notice.
\<close>

definition do_deleteUser ::
  "'w env \<Rightarrow> 'w services \<Rightarrow> request \<Rightarrow> string \<Rightarrow> (('w, 'z) group_store_scheme, response) op" where
  "do_deleteUser E X req uID =
     requester E req ''Not authorized'' (\<lambda>user.
     if \<not> u_admin user \<and> u_id user \<noteq> uID then ret (failure 403 ''Not authorized'')
     else bindM (if u_id user = uID then ret user else getUser E uID) (\<lambda>targetUser.
     if \<not> u_valid targetUser then ret (failure 404 ''User not found'')
     else bindM (getUserGroupMemberships E uID False) (\<lambda>groups.
     bindM (mapM (removeUserFromGroup E uID) groups) (\<lambda>_.
     bindM (removeUser E uID) (\<lambda>deleted.
     if \<not> deleted then ret (failure 500 ''User account deletion failed'')
     else bindM (sendEmail X (deletion_notice targetUser)) (\<lambda>_. ret okay))))))"

section \<open>Groups of a user\<close>

definition group_entry_for ::
  "'w env \<Rightarrow> string \<Rightarrow> (('w, 'z) group_store_scheme, json) op" where
  "group_entry_for E groupName =
     bindM (findGroupByName E groupName) (\<lambda>g.
     ret (J_object
       [(''apiVersion'', J_string ''v1alpha3''),
        (''kind'', J_string ''Group''),
        (''metadata'', J_object [(''name'', J_string groupName), (''id'', J_string (g_id g))])]))"

definition do_listUsergroups ::
  "'w env \<Rightarrow> request \<Rightarrow> string \<Rightarrow> (('w, 'z) group_store_scheme, response) op" where
  "do_listUsergroups E req uID =
     requester E req ''Not authorized'' (\<lambda>user.
     bindM (if u_id user = uID then ret user else getUser E uID) (\<lambda>targetUser.
     if u_id user \<noteq> uID \<and> \<not> u_valid targetUser then ret (failure 404 ''User not found'')
     else bindM (getUserGroupMemberships E uID True) (\<lambda>groups.
     bindM (mapM (group_entry_for E) groups) (\<lambda>items.
     ret (reply (J_object
       [(''apiVersion'', J_string ''v1alpha3''), (''items'', J_array items)]))))))"

definition do_addUserToGroup ::
  "'w env \<Rightarrow> request \<Rightarrow> string \<Rightarrow> string \<Rightarrow> (('w, 'z) group_store_scheme, response) op" where
  "do_addUserToGroup E req uID groupID =
     requester E req ''Not authorized'' (\<lambda>user.
     bindM (getUser E uID) (\<lambda>targetUser.
     if \<not> u_valid targetUser then ret (failure 404 ''User not found'')
     else bindM (getGroup E groupID) (\<lambda>g.
     if \<not> g_valid g then ret (failure 404 ''Group not found'')
     else bindM (if u_admin user then ret True else userInGroup E (u_id user) groupID) (\<lambda>allowed.
     if \<not> allowed then ret (failure 403 ''Not authorized'')
     else bindM (addUserToGroup E uID groupID) (\<lambda>success.
     if \<not> success then ret (failure 500 ''User addition to Group failed'')
     else ret okay)))))"

definition do_removeUserFromGroup ::
  "'w env \<Rightarrow> request \<Rightarrow> string \<Rightarrow> string \<Rightarrow> (('w, 'z) group_store_scheme, response) op" where
  "do_removeUserFromGroup E req uID groupID =
     requester E req ''Not authorized'' (\<lambda>user.
     bindM (getUser E uID) (\<lambda>targetUser.
     if \<not> u_valid targetUser then ret (failure 404 ''User not found'')
     else bindM (if u_admin user then ret True else userInGroup E (u_id user) groupID) (\<lambda>allowed.
     if \<not> allowed then ret (failure 403 ''Not authorized'')
     else bindM (removeUserFromGroup E uID groupID) (\<lambda>success.
     if \<not> success then ret (failure 500 ''User removal from Group failed'')
     else ret okay))))"

section \<open>Tokens\<close>

definition token_document :: "json \<Rightarrow> json \<Rightarrow> json" where
  "token_document uid token =
     J_object
       [(''apiVersion'', J_string ''v1alpha3''),
        (''kind'', J_string ''User''),
        (''metadata'', J_object [(''id'', uid), (''access_token'', token)])]"

text \<open>Here strangers and ordinary users get the same answer.\<close>

definition do_findUser ::
  "'w env \<Rightarrow> request \<Rightarrow> (('w, 'z) user_store_scheme, response) op" where
  "do_findUser E req =
     requester E req ''Not authorized'' (\<lambda>user.
     if \<not> u_admin user then ret (failure 403 ''Not authorized'')
     else (case req_params req ''globus_id'' of
             None \<Rightarrow> ret (failure 400 ''Missing globus ID in request'')
           | Some globusID \<Rightarrow>
               bindM (findUserByGlobusID E globusID) (\<lambda>targetUser.
               if \<not> u_valid targetUser then ret (failure 404 ''User not found'')
               else ret (reply (token_document (J_text (u_id targetUser))
                                  (J_text (u_token targetUser)))))))"

definition token_notice :: "User \<Rightarrow> Email" where
  "token_notice targetUser = no_email
     \<lparr>fromAddress := ''noreply@slate.io'', toAddresses := [u_email targetUser],
      subject := ''SLATE account credentials updated'',
      mail_body := ''This is an automatic notification that your SLATE user account ('' @
        u_name targetUser @ '', '' @ u_id targetUser @ '') has had its access token replaced. '' @
        ''This should not affect how you log into the SLATE web portal, but if you use the '' @
        ''slate CLI tool you will need to download your updated token from '' @
        ''https://portal.slateci.io/cli''\<rparr>"

definition do_replaceUserToken ::
  "'w env \<Rightarrow> 'w services \<Rightarrow> request \<Rightarrow> string \<Rightarrow> (('w, 'z) user_store_scheme, response) op" where
  "do_replaceUserToken E X req uID =
     requester E req ''Not authorized'' (\<lambda>user.
     if \<not> u_admin user \<and> u_id user \<noteq> uID then ret (failure 403 ''Not authorized'')
     else bindM (getUser E uID) (\<lambda>targetUser.
     if \<not> u_valid targetUser then ret (failure 404 ''User not found'')
     else bindM (new_token X) (\<lambda>token.
     let updatedUser = targetUser\<lparr>u_token := token\<rparr> in
     bindM (updateUser E updatedUser targetUser) (\<lambda>updated.
     if \<not> updated then ret (failure 500 ''User account update failed'')
     else bindM (sendEmail X (token_notice targetUser)) (\<lambda>_.
     ret (reply (token_document (J_string (u_id updatedUser))
                   (J_string (u_token updatedUser)))))))))"

end
