(* ===== verification/Kube.thy ===== *)
theory Kube
  imports Web
begin

text \<open>
  \<open>src/KubeInterface.cpp\<close>: the command lines given to \<open>kubectl\<close> and \<open>helm\<close>, and what is read
  from their output.  The programs are the service \<open>e_runCommand\<close> (and \<open>x_runCommand\<close> for the
  one call that sets an environment variable); a command that cannot be started throws.  The
  messages on standard error are left out.  \<open>getHelmMajorVersion\<close> is in theory
  \<open>ApplicationCatalog\<close>.
\<close>

definition runCommand ::
  "'w env \<Rightarrow> string \<Rightarrow> string list \<Rightarrow> (('w, 'z) base_store_scheme, command_result) op" where
  "runCommand E program args = callE (e_runCommand E program args)"

definition unescaped_result :: "command_result \<Rightarrow> command_result" where
  "unescaped_result r =
     \<lparr>cmd_output = removeShellEscapeSequences (cmd_output r),
      cmd_error = removeShellEscapeSequences (cmd_error r), cmd_status = cmd_status r\<rparr>"

definition kubectl_args :: "string \<Rightarrow> string list \<Rightarrow> string list" where
  "kubectl_args configPath arguments =
     ''--request-timeout=10s'' #
     (if configPath \<noteq> [] then [''--kubeconfig='' @ configPath] else []) @ arguments"

definition kubectl ::
  "'w env \<Rightarrow> string \<Rightarrow> string list \<Rightarrow> (('w, 'z) base_store_scheme, command_result) op" where
  "kubectl E configPath arguments =
     bindM (runCommand E ''kubectl'' (kubectl_args configPath arguments)) (\<lambda>r.
     ret (unescaped_result r))"

text \<open>Whatever the command did, a cluster without the new resource counts as version 1.\<close>

definition getControllerVersion ::
  "'w env \<Rightarrow> string \<Rightarrow> (('w, 'z) base_store_scheme, nat) op" where
  "getControllerVersion E clusterConfig =
     bindM (runCommand E ''kubectl''
              [''--kubeconfig'', clusterConfig, ''get'', ''crd'', ''clusternss.slateci.io'']) (\<lambda>r.
     ret (if occurs_in ''CREATED AT'' (cmd_output r) then 2 else 1))"

definition namespace_yaml :: "nat \<Rightarrow> string \<Rightarrow> string" where
  "namespace_yaml version name =
     (if version = 1
      then ''apiVersion: nrp-nautilus.io/v1alpha1\<newline>kind: ClusterNamespace\<newline>metadata:\<newline>  name: ''
      else ''apiVersion: slateci.io/v1alpha2\<newline>kind: ClusterNS\<newline>metadata:\<newline>  name: '') @
     name @ ''\<newline>''"

text \<open>
  The description goes to a temporary file.  Making the file may throw; nothing checks whether
  it could be written.
\<close>

definition kubectl_create_namespace ::
  "'w env \<Rightarrow> string \<Rightarrow> Group \<Rightarrow> (('w, 'z) base_store_scheme, unit) op" where
  "kubectl_create_namespace E clusterConfig g =
     bindM (getControllerVersion E clusterConfig) (\<lambda>version.
     bindM (callE (e_writeTemporaryFile E ''namespace_yaml_''
              (namespace_yaml version (namespaceName g)))) (\<lambda>tmpFile.
     bindM (runCommand E ''kubectl''
              [''--kubeconfig'', clusterConfig, ''create'', ''-f'', tmpFile]) (\<lambda>r.
     if cmd_status r \<noteq> 0 \<and> \<not> occurs_in ''AlreadyExists'' (cmd_error r)
     then throw (''Namespace creation failed: '' @ cmd_error r)
     else ret ())))"

definition kubectl_delete_namespace ::
  "'w env \<Rightarrow> string \<Rightarrow> Group \<Rightarrow> (('w, 'z) base_store_scheme, unit) op" where
  "kubectl_delete_namespace E clusterConfig g =
     bindM (getControllerVersion E clusterConfig) (\<lambda>version.
     bindM (runCommand E ''kubectl''
              [''--kubeconfig'', clusterConfig, ''delete'',
               if version = 1 then ''clusternamespace'' else ''clusterNS'', namespaceName g]) (\<lambda>r.
     if cmd_status r \<noteq> 0 \<and> \<not> occurs_in ''NotFound'' (cmd_error r)
     then throw (''Namespace deletion failed: '' @ cmd_error r)
     else ret ()))"

definition helm_args :: "nat \<Rightarrow> string \<Rightarrow> string list \<Rightarrow> string list" where
  "helm_args version tillerNamespace arguments =
     (if version = 2
      then [''--tiller-namespace='' @ tillerNamespace, ''--tiller-connection-timeout=10'']
      else []) @ arguments"

definition helm :: "'w env \<Rightarrow> 'w services \<Rightarrow> string \<Rightarrow> string \<Rightarrow> string list \<Rightarrow>
    (('w, 'z) base_store_scheme, command_result) op" where
  "helm E X configPath tillerNamespace arguments =
     bindM (getHelmMajorVersion E) (\<lambda>version.
     callE (x_runCommand X ''helm'' (helm_args version tillerNamespace arguments)
              [(''KUBECONFIG'', configPath)]))"

section \<open>Finding every object of an instance\<close>

text \<open>The words that \<open>while(ss >> item)\<close> reads.\<close>

function words_of :: "string \<Rightarrow> string list" where
  "words_of s =
     (let t = dropWhile isspace s
      in if t = [] then []
         else takeWhile (\<lambda>c. \<not> isspace c) t # words_of (dropWhile (\<lambda>c. \<not> isspace c) t))"
  by pat_completeness auto

lemma words_of_decreases:
  assumes "dropWhile isspace s \<noteq> []"
  shows "length (dropWhile (\<lambda>c. \<not> isspace c) (dropWhile isspace s)) < length s"
proof -
  obtain c u where t: "dropWhile isspace s = c # u" using assms by (cases "dropWhile isspace s") auto
  then have "\<not> isspace c" by (simp add: dropWhile_eq_Cons_conv)
  then have "length (dropWhile (\<lambda>c. \<not> isspace c) (c # u)) \<le> length u"
    by (simp add: length_dropWhile_le)
  moreover have "length (c # u) \<le> length s" using length_dropWhile_le [of isspace s] by (simp only: t)
  ultimately show ?thesis by (simp only: t) simp
qed

termination words_of
  by (relation "measure length") (simp_all add: words_of_decreases)

declare words_of.simps [simp del]

definition find_args :: "string \<Rightarrow> string \<Rightarrow> string \<Rightarrow> string list" where
  "find_args typ selector nspace =
     [''get'', typ, ''-o=jsonpath={.items[*].metadata.name}'', ''-l='' @ selector] @
     (if nspace \<noteq> [] then [''-n='' @ nspace] else [])"

definition find_of_type :: "'w env \<Rightarrow> string \<Rightarrow> string \<Rightarrow> string \<Rightarrow> string \<Rightarrow>
    (('w, 'z) base_store_scheme, (string \<times> string) list) op" where
  "find_of_type E clusterConfig selector nspace typ =
     bindM (kubectl E clusterConfig (find_args typ selector nspace)) (\<lambda>r.
     if cmd_status r \<noteq> 0 then throw (''Failed to list resources of type '' @ typ)
     else ret (map (Pair typ) (words_of (cmd_output r))))"

text \<open>The multimap of the result is kept as the list of its entries in the order of insertion.\<close>

definition findAll :: "'w env \<Rightarrow> string \<Rightarrow> string \<Rightarrow> string \<Rightarrow> string \<Rightarrow>
    (('w, 'z) base_store_scheme, (string \<times> string) list) op" where
  "findAll E clusterConfig selector nspace verbs =
     bindM (kubectl E clusterConfig [''api-resources'', ''-o=name'', ''--verbs='' @ verbs]) (\<lambda>r.
     if cmd_status r \<noteq> 0 then throw ''Failed to determine list of Kubernetes resource types''
     else bindM (mapM (find_of_type E clusterConfig selector nspace)
                   (string_split_lines (cmd_output r))) (\<lambda>found.
          ret (concat found)))"

end
