(* ===== verification/Base64.thy ===== *)
theory Base64
  imports TextUtil
begin

unbundle bit_operations_syntax

text \<open>
  \<open>sanityCheckBase64\<close>, \<open>decodeBase64\<close> and \<open>encodeBase64\<close> of \<open>src/Archive.cpp\<close>, bit by bit as the
  code has them.  Bytes are natural numbers below 256; every shift and mask of the source stays
  below that bound.
\<close>

section \<open>The alphabet\<close>

definition base64lookupTable :: string where
  "base64lookupTable =
     ''ABCDEFGHIJKLMNOPQRSTUVWXYZ'' @ ''abcdefghijklmnopqrstuvwxyz'' @ ''0123456789'' @ ''+/''"

definition to_6_bit :: "int list" where
  "to_6_bit =
     [-1,-1,-1,-1,-1,-1,-1,-1,-1,-1,-1,-1,-1,-1,-1,-1,
      -1,-1,-1,-1,-1,-1,-1,-1,-1,-1,-1,-1,-1,-1,-1,-1,
      -1,-1,-1,-1,-1,-1,-1,-1,-1,-1,-1,62,-1,-1,-1,63,
      52,53,54,55,56,57,58,59,60,61,-1,-1,-1, 0,-1,-1,
      -1, 0, 1, 2, 3, 4, 5, 6, 7, 8, 9,10,11,12,13,14,
      15,16,17,18,19,20,21,22,23,24,25,-1,-1,-1,-1,-1,
      -1,26,27,28,29,30,31,32,33,34,35,36,37,38,39,40,
      41,42,43,44,45,46,47,48,49,50,51,-1,-1,-1,-1,-1]"

definition sanityCheckBase64 :: "string \<Rightarrow> bool" where
  "sanityCheckBase64 str \<longleftrightarrow>
     dropWhile (\<lambda>c. c = CHR ''='') (dropWhile (\<lambda>c. c \<in> set base64lookupTable) str) = []"

section \<open>Decoding\<close>

text \<open>
  \<open>*outData|=bits\<close>.  The buffer of the result has room for \<open>outLen\<close> bytes and the terminating
  NUL; a write beyond that is undefined behaviour.
\<close>

definition or_byte :: "nat list \<Rightarrow> nat \<Rightarrow> nat \<Rightarrow> nat list outcome" where
  "or_byte out pos bits =
     (if pos < length out then Inr (out[pos := out ! pos OR bits])
      else Inl ''undefined behaviour'')"

text \<open>One pass of the loop, for six new bits: the buffer, the position and \<open>curBits\<close> after it.\<close>

definition decode_step ::
  "nat \<Rightarrow> nat list \<Rightarrow> nat \<Rightarrow> nat \<Rightarrow> (nat list \<times> nat \<times> nat) outcome" where
  "decode_step newBits out pos curBits =
     (let putBits = min (8 - curBits) 6;
          msk = push_bit (6 - putBits) (2 ^ putBits - 1)
      in bindE (or_byte out pos
                 (push_bit (8 - curBits - putBits) (drop_bit (6 - putBits) (newBits AND msk)))) (\<lambda>out1.
         if curBits + putBits = 8 then
           (if putBits < 6 then
              (let rest = 6 - putBits
               in bindE (or_byte out1 (pos + 1) (push_bit (8 - rest) (newBits AND (2 ^ rest - 1))))
                    (\<lambda>out2. Inr (out2, pos + 1, rest)))
            else Inr (out1, pos + 1, 0))
         else Inr (out1, pos, curBits + putBits)))"

fun decode_loop :: "string \<Rightarrow> nat list \<Rightarrow> nat \<Rightarrow> nat \<Rightarrow> nat list outcome" where
  "decode_loop [] out pos curBits = Inr out"
| "decode_loop (c # coded) out pos curBits =
     (if c = CHR ''='' then Inr out
      else if code c \<ge> 128 \<or> to_6_bit ! code c = -1
        then Inl (''Illegal base64 character: '' @ [CHR 0x27, c, CHR 0x27])
      else bindE (decode_step (nat (to_6_bit ! code c)) out pos curBits)
             (\<lambda>(out1, pos1, curBits1). decode_loop coded out1 pos1 curBits1))"

definition decode_length :: "string \<Rightarrow> nat" where
  "decode_length coded =
     (length (dropWhile (\<lambda>c. c = CHR ''='') (rev coded)) * 3) div 4"

definition decodeBase64 :: "string \<Rightarrow> string outcome" where
  "decodeBase64 coded =
     bindE (decode_loop coded (replicate (decode_length coded + 1) 0) 0 0) (\<lambda>out.
       Inr (map char_of (take (decode_length coded) out)))"

section \<open>Encoding\<close>

definition byte_at :: "string \<Rightarrow> nat \<Rightarrow> nat" where
  "byte_at raw i = code (char_at raw i)"

text \<open>
  One pass: the index into the table, and \<open>inputIdx\<close> and \<open>availBits\<close> after it.  Reading one past
  the end gives the terminating NUL.
\<close>

definition encode_step :: "string \<Rightarrow> nat \<Rightarrow> nat \<Rightarrow> nat \<times> nat \<times> nat" where
  "encode_step raw inputIdx availBits =
     (let getBits = min 6 availBits;
          msk = push_bit (availBits - getBits) (2 ^ getBits - 1);
          lutIdx = push_bit (6 - getBits) (drop_bit (availBits - getBits) (byte_at raw inputIdx AND msk))
      in if availBits - getBits = 0 then
           (if getBits < 6 then
              (let more = 6 - getBits;
                   msk2 = push_bit (8 - more) (2 ^ more - 1)
               in (lutIdx OR drop_bit (8 - more) (byte_at raw (inputIdx + 1) AND msk2),
                   inputIdx + 1, 8 - more))
            else (lutIdx, inputIdx + 1, 8))
         else (lutIdx, inputIdx, availBits - getBits))"

primrec encode_loop :: "nat \<Rightarrow> string \<Rightarrow> nat \<Rightarrow> nat \<Rightarrow> string" where
  "encode_loop 0 raw inputIdx availBits = []"
| "encode_loop (Suc n) raw inputIdx availBits =
     (case encode_step raw inputIdx availBits of
        (lutIdx, idx, avail) \<Rightarrow> base64lookupTable ! lutIdx # encode_loop n raw idx avail)"

definition encodeBase64 :: "string \<Rightarrow> string" where
  "encodeBase64 raw =
     (let pad = (3 - length raw mod 3) mod 3;
          outLen = 4 * ((length raw + 2) div 3)
      in encode_loop (outLen - pad) raw 0 8 @ replicate pad (CHR ''=''))"

end
