(* ===== verification/GroupCommands.thy ===== *)
theory GroupCommands
  imports Web
begin

text \<open>
  The handlers of \<open>src/GroupCommands.cpp\<close> and the list of fields of science, except
  \<open>deleteGroup\<close>, which needs the deletion of instances and clusters.
\<close>

section \<open>Fields of science\<close>

definition scienceFields :: "string list" where
  "scienceFields =
     [''Resource Provider'', ''Astronomy'', ''Astrophysics'', ''Biology'', ''Biochemistry'',
      ''Bioinformatics'', ''Biomedical research'', ''Biophysics'', ''Botany'',
      ''Cellular Biology'', ''Ecology'', ''Evolutionary Biology'', ''Microbiology'',
      ''Molecular Biology'', ''Neuroscience'', ''Physiology'', ''Structural Biology'',
      ''Zoology'', ''Chemistry'', ''Biochemistry'', ''Physical Chemistry'', ''Earth Sciences'',
      ''Economics'', ''Education'', ''Educational Psychology'', ''Engineering'',
      ''Electronic Engineering'', ''Nanoelectronics'', ''Mathematics & Computer Science'',
      ''Computer Science'', ''Geographic Information Science'', ''Information Theory'',
      ''Mathematics'', ''Medicine'', ''Medical Imaging'', ''Neuroscience'', ''Physiology'',
      ''Logic'', ''Statistics'', ''Physics'', ''Accelerator Physics'',
      ''Astro-particle Physics'', ''Astrophysics'', ''Biophysics'',
      ''Computational Condensed Matter Physics'', ''Gravitational Physics'',
      ''High Energy Physics'', ''Neutrino Physics'', ''Nuclear Physics'',
      ''Physical Chemistry'', ''Psychology'', ''Child Psychology'', ''Educational Psychology'',
      ''Materials Science'', ''Multidisciplinary'', ''Network Science'', ''Technology'']"

definition same_field :: "string \<Rightarrow> string \<Rightarrow> bool" where
  "same_field raw field \<longleftrightarrow>
     length field = length raw \<and> (\<forall>i \<in> set [0..<length field]. tolower (raw ! i) = tolower (field ! i))"

definition normalizeScienceField :: "string \<Rightarrow> string" where
  "normalizeScienceField raw =
     (case find (same_field raw) scienceFields of None \<Rightarrow> '''' | Some field \<Rightarrow> field)"

section \<open>Documents\<close>

definition group_metadata :: "Group \<Rightarrow> json" where
  "group_metadata g =
     J_object
       [(''id'', J_text (g_id g)), (''name'', J_text (g_name g)), (''email'', J_text (g_email g)),
        (''phone'', J_text (g_phone g)), (''scienceField'', J_text (g_scienceField g)),
        (''description'', J_text (g_description g))]"

definition group_document :: "Group \<Rightarrow> json" where
  "group_document g =
     J_object
       [(''apiVersion'', J_string ''v1alpha3''),
        (''kind'', J_string ''Group''),
        (''metadata'', group_metadata g)]"

definition list_document :: "json list \<Rightarrow> json" where
  "list_document items =
     J_object [(''apiVersion'', J_string ''v1alpha3''), (''items'', J_array items)]"

section \<open>Listing and creating\<close>

definition do_listGroups ::
  "'w env \<Rightarrow> nat \<Rightarrow> request \<Rightarrow> (('w, 'z) group_store_scheme, response) paged" where
  "do_listGroups E budget req =
     requesterP E req ''User not authorized'' (\<lambda>user.
     bindP (if req_params req ''user'' \<noteq> None then whole (listGroupsForUser E (u_id user))
            else listGroups E budget) (\<lambda>vos.
     whole (ret (reply (list_document (map group_document vos))))))"

text \<open>The type checks of \<open>createGroup\<close>; an optional member only needs the right type.\<close>

definition optional_string :: "json \<Rightarrow> string \<Rightarrow> string \<Rightarrow> unit check" where
  "optional_string md name wrong =
     bindC (HasMember md name) (\<lambda>has.
     if \<not> has then Pass ()
     else bindC (string_member md name) (\<lambda>str. demand str 400 wrong))"

definition unpack_new_group :: "json \<Rightarrow> json check" where
  "unpack_new_group doc =
     bindC (metadata_of doc ''Missing user metadata in request''
              ''Incorrect type for configuration'') (\<lambda>md.
     bindC (require_string md ''name'' ''Missing Group name in request''
              ''Incorrect type for Group name'') (\<lambda>_.
     bindC (optional_string md ''email'' ''Incorrect type for Group email'') (\<lambda>_.
     bindC (optional_string md ''phone'' ''Incorrect type for Group phone'') (\<lambda>_.
     bindC (require_string md ''scienceField'' ''Missing Group scienceField in request''
              ''Incorrect type for Group scienceField'') (\<lambda>_.
     bindC (optional_string md ''description'' ''Incorrect type for Group description'') (\<lambda>_.
     Pass md))))))"

definition group_name_of :: "json \<Rightarrow> string check" where
  "group_name_of md =
     bindC (text_of md ''name'') (\<lambda>name.
     bindC (demand (name \<noteq> []) 400 ''Group names may not be the empty string'') (\<lambda>_.
     bindC (demand (validTagGroupName name) 400
              ''Group names may only contain [a-z], [0-9] and -'') (\<lambda>_.
     bindC (demand (last name \<noteq> CHR ''-'') 400 ''Group names may not end with a dash'') (\<lambda>_.
     bindC (demand (length name \<le> 54) 400
              ''Group names may not be more than 54 characters long'') (\<lambda>_.
     bindC (demand (\<not> begins_with groupIDPrefix name) 400
              (''Group names may not begin with '' @ groupIDPrefix)) (\<lambda>_.
     Pass name))))))"

text \<open>\<open>Dynamo will get upset if a string is empty\<close>, so an empty value becomes a space.\<close>

definition not_empty :: "string \<Rightarrow> string" where
  "not_empty s = (if s = [] then '' '' else s)"

definition text_or :: "json \<Rightarrow> string \<Rightarrow> string \<Rightarrow> string check" where
  "text_or md name def =
     bindC (HasMember md name) (\<lambda>has. if has then text_of md name else Pass def)"

definition group_details_of :: "json \<Rightarrow> User \<Rightarrow> string \<Rightarrow> string \<Rightarrow> Group check" where
  "group_details_of md user gid name =
     bindC (text_or md ''email'' (u_email user)) (\<lambda>email.
     bindC (text_or md ''phone'' (u_phone user)) (\<lambda>phone.
     bindC (text_or md ''scienceField'' '''') (\<lambda>field.
     bindC (demand (normalizeScienceField field \<noteq> []) 400
              (''Unrecognized value for Group scienceField\<newline>'' @
               ''See http://slateci.io/docs/science-fields for a list of accepted values'')) (\<lambda>_.
     bindC (text_or md ''description'' '''') (\<lambda>description.
     Pass \<lparr>g_valid = True, g_id = gid, g_name = name, g_email = not_empty email,
           g_phone = not_empty phone, g_scienceField = normalizeScienceField field,
           g_description = not_empty description\<rparr>)))))"

definition do_createGroup ::
  "'w env \<Rightarrow> 'w services \<Rightarrow> request \<Rightarrow> (('w, 'z) group_store_scheme, response) op" where
  "do_createGroup E X req =
     requester E req ''User not authorized'' (\<lambda>user.
     checked (unpack_new_group (request_json X req)) (\<lambda>md.
     bindM (new_id X generateGroupID) (\<lambda>gid.
     checked (group_name_of md) (\<lambda>name.
     bindM (findGroupByName E name) (\<lambda>known.
     if g_valid known then ret (failure 400 ''Group name is already in use'')
     else checked (group_details_of md user gid name) (\<lambda>g.
     bindM (addGroup E g) (\<lambda>created.
     if \<not> created then ret (failure 500 ''Group creation failed'')
     else bindM (addUserToGroup E (u_id user) (g_id g)) (\<lambda>added.
     if \<not> added
     then ret (failure 500 (''Failed to add creating user '' @ show_user user @
                 '' to new Group '' @ show_group g))
     else ret (reply (group_document g))))))))))"

definition do_getGroupInfo ::
  "'w env \<Rightarrow> request \<Rightarrow> string \<Rightarrow> (('w, 'z) group_store_scheme, response) op" where
  "do_getGroupInfo E req groupID =
     requester E req ''User not authorized'' (\<lambda>user.
     bindM (getGroup E groupID) (\<lambda>g.
     if \<not> g_valid g then ret (failure 404 ''Group not found'')
     else ret (reply (group_document g))))"

section \<open>Updating\<close>

definition new_science_field :: "json \<Rightarrow> string \<Rightarrow> string check" where
  "new_science_field md old =
     bindC (HasMember md ''scienceField'') (\<lambda>has.
     if \<not> has then Pass old
     else bindC (string_member md ''scienceField'') (\<lambda>str.
          bindC (demand str 400 ''Incorrect type for scienceField'') (\<lambda>_.
          bindC (text_of md ''scienceField'') (\<lambda>field.
          bindC (demand (normalizeScienceField field \<noteq> []) 400
                   ''Unrecognized value for Group scienceField'') (\<lambda>_.
          Pass (normalizeScienceField field))))))"

definition new_group_text :: "json \<Rightarrow> string \<Rightarrow> string \<Rightarrow> string check" where
  "new_group_text md name old =
     bindC (HasMember md name) (\<lambda>has.
     if \<not> has then Pass old
     else bindC (string_member md name) (\<lambda>str.
          bindC (demand str 400 (''Incorrect type for '' @ name)) (\<lambda>_. text_of md name)))"

text \<open>The second component is \<open>doUpdate\<close>: whether the request has any of the four members.\<close>

definition unpack_group_update :: "json \<Rightarrow> Group \<Rightarrow> (Group \<times> bool) check" where
  "unpack_group_update doc targetGroup =
     bindC (metadata_of doc ''Missing Group metadata in request'' ''Incorrect type for metadata'') (\<lambda>md.
     bindC (new_group_text md ''email'' (g_email targetGroup)) (\<lambda>email.
     bindC (new_group_text md ''phone'' (g_phone targetGroup)) (\<lambda>phone.
     bindC (new_science_field md (g_scienceField targetGroup)) (\<lambda>field.
     bindC (new_group_text md ''description'' (g_description targetGroup)) (\<lambda>description.
     bindC (HasMember md ''email'') (\<lambda>h1.
     bindC (HasMember md ''phone'') (\<lambda>h2.
     bindC (HasMember md ''scienceField'') (\<lambda>h3.
     bindC (HasMember md ''description'') (\<lambda>h4.
     Pass (targetGroup\<lparr>g_email := email, g_phone := phone, g_scienceField := field,
             g_description := description\<rparr>, h1 \<or> h2 \<or> h3 \<or> h4))))))))))"

definition do_updateGroup ::
  "'w env \<Rightarrow> 'w services \<Rightarrow> request \<Rightarrow> string \<Rightarrow> (('w, 'z) group_store_scheme, response) op" where
  "do_updateGroup E X req groupID =
     requester E req ''User not authorized'' (\<lambda>user.
     bindM (if u_admin user then ret True else userInGroup E (u_id user) groupID) (\<lambda>allowed.
     if \<not> allowed then ret (failure 403 ''User not authorized'')
     else bindM (getGroup E groupID) (\<lambda>targetGroup.
     if \<not> g_valid targetGroup then ret (failure 404 ''Group not found'')
     else checked (unpack_group_update (request_json X req) targetGroup)
       (\<lambda>(g, doUpdate).
     if \<not> doUpdate then ret okay
     else bindM (updateGroup E g) (\<lambda>success.
     if \<not> success then ret (failure 500 (''Failed to update '' @ show_group g))
     else ret okay)))))"

section \<open>Members and clusters of a group\<close>

definition member_document :: "User \<Rightarrow> json" where
  "member_document u =
     J_object
       [(''apiVersion'', J_string ''v1alpha3''),
        (''kind'', J_string ''User''),
        (''metadata'', J_object
           [(''id'', J_string (u_id u)), (''name'', J_string (u_name u)),
            (''email'', J_string (u_email u)), (''phone'', J_string (u_phone u)),
            (''institution'', J_string (u_institution u))])]"

definition do_listGroupMembers ::
  "'w env \<Rightarrow> request \<Rightarrow> string \<Rightarrow> (('w, 'z) group_store_scheme, response) op" where
  "do_listGroupMembers E req groupID =
     requester E req ''User not authorized'' (\<lambda>user.
     bindM (getGroup E groupID) (\<lambda>targetGroup.
     if \<not> g_valid targetGroup then ret (failure 404 ''Group not found'')
     else bindM (if u_admin user then ret True
                 else userInGroup E (u_id user) (g_id targetGroup)) (\<lambda>allowed.
     if \<not> allowed then ret (failure 403 ''User not authorized'')
     else bindM (getMembersOfGroup E (g_id targetGroup)) (\<lambda>userIDs.
     bindM (mapM (getUser E) userIDs) (\<lambda>users.
     ret (reply (list_document (map member_document users))))))))"

definition owned_cluster_document :: "Group \<Rightarrow> Cluster \<Rightarrow> json" where
  "owned_cluster_document g c =
     J_object
       [(''apiVersion'', J_string ''v1alpha3''),
        (''kind'', J_string ''Cluster''),
        (''metadata'', J_object
           [(''id'', J_string (c_id c)), (''name'', J_string (c_name c)),
            (''owningGroup'', J_string (g_name g)),
            (''owningOrganization'', J_string (c_owningOrganization c))])]"

definition do_listGroupClusters ::
  "'w env \<Rightarrow> request \<Rightarrow> string \<Rightarrow> (('w, 'z) cluster_store_scheme, response) op" where
  "do_listGroupClusters E req groupID =
     requester E req ''User not authorized'' (\<lambda>user.
     bindM (getGroup E groupID) (\<lambda>targetGroup.
     if \<not> g_valid targetGroup then ret (failure 404 ''Group not found'')
     else bindM (clustersOwnedByGroup E (g_id targetGroup)) (\<lambda>clusterIDs.
     bindM (mapM (getCluster E) clusterIDs) (\<lambda>clusters.
     ret (reply (list_document (map (owned_cluster_document targetGroup) clusters)))))))"

end
