(* ===== verification/SecretCommands.thy ===== *)
theory SecretCommands
  imports Kube Base64 GroupCommands
begin

text \<open>
  The handlers of \<open>src/SecretCommands.cpp\<close> and \<open>internal::deleteSecret\<close>.
\<close>

section \<open>Listing\<close>

definition secret_entry_document ::
  "'w env \<Rightarrow> Secret \<Rightarrow> (('w, 'z) cluster_store_scheme, json) op" where
  "secret_entry_document E secret =
     bindM (getGroup E (s_group secret)) (\<lambda>g.
     bindM (getCluster E (s_cluster secret)) (\<lambda>c.
     ret (J_object
       [(''apiVersion'', J_string ''v1alpha3''),
        (''kind'', J_string ''Secret''),
        (''metadata'', J_object
           [(''id'', J_string (s_id secret)), (''name'', J_string (s_name secret)),
            (''group'', J_string (g_name g)), (''cluster'', J_string (c_name c)),
            (''created'', J_string (s_ctime secret))])])))"

definition do_listSecrets ::
  "'w env \<Rightarrow> request \<Rightarrow> (('w, 'z) secret_store_scheme, response) op" where
  "do_listSecrets E req =
     requester E req ''User not authorized'' (\<lambda>user.
     case req_params req ''group'' of
       None \<Rightarrow> ret (failure 400 ''Group not specified'')
     | Some groupRaw \<Rightarrow>
         let cluster = (case req_params req ''cluster'' of None \<Rightarrow> '''' | Some c \<Rightarrow> c) in
         bindM (getGroup E groupRaw) (\<lambda>g.
         if \<not> g_valid g then ret (failure 404 ''Group not found'')
         else bindM (if u_admin user then ret True else userInGroup E (u_id user) (g_id g)) (\<lambda>allowed.
         if \<not> allowed then ret (failure 403 ''User not authorized'')
         else bindM (listSecrets E (g_id g) cluster) (\<lambda>secrets.
         bindM (mapM (secret_entry_document E) secrets) (\<lambda>items.
         ret (reply (list_document items)))))))"

section \<open>Checking a new secret\<close>

definition allowedKeyCharacters :: string where
  "allowedKeyCharacters =
     ''-._0123456789'' @ ''abcdefghijklmnopqrstuvwxyz'' @ ''ABCDEFGHIJKLMNOPQRSTUVWXYZ''"

definition check_content :: "string \<times> json \<Rightarrow> unit check" where
  "check_content member =
     (case member of (key, v) \<Rightarrow>
     bindC (demand (IsString v) 400 ''Secret value is not a string'') (\<lambda>_.
     bindC (demand (length key \<noteq> 0) 400 ''Secret keys may not be empty'') (\<lambda>_.
     bindC (demand (length key \<le> 253) 400 ''Secret keys may be no more than 253 characters'') (\<lambda>_.
     bindC (demand (set (c_str key) \<subseteq> set allowedKeyCharacters) 400
              ''Secret key does not match [-._a-zA-Z0-9]+'') (\<lambda>_.
     bindC (GetString v) (\<lambda>text.
     demand (sanityCheckBase64 text) 400 ''Secret data items must be base64 encoded''))))))"

fun check_contents :: "(string \<times> json) list \<Rightarrow> unit check" where
  "check_contents [] = Pass ()"
| "check_contents (m # ms) = bindC (check_content m) (\<lambda>_. check_contents ms)"

text \<open>The checks before an ID is made; what passes is the metadata object.\<close>

definition unpack_new_secret :: "json \<Rightarrow> json check" where
  "unpack_new_secret doc =
     bindC (metadata_of doc ''Missing user metadata in request'' ''Incorrect type for metadata'') (\<lambda>md.
     bindC (require_string md ''name'' ''Missing secret name in request''
              ''Incorrect type for secret name'') (\<lambda>_.
     bindC (require_string md ''group'' ''Missing Group ID in request''
              ''Incorrect type for Group ID'') (\<lambda>_.
     bindC (require_string md ''cluster'' ''Missing cluster ID in request''
              ''Incorrect type for cluster ID'') (\<lambda>_.
     bindC (HasMember doc ''contents'') (\<lambda>has_contents.
     bindC (HasMember doc ''copyFrom'') (\<lambda>has_source.
     bindC (demand (\<not> (has_contents \<and> has_source)) 400
              ''Secret contents and copy source cannot both be specified'') (\<lambda>_.
     bindC (demand (has_contents \<or> has_source) 400
              ''Missing secret contents or source in request'') (\<lambda>_.
     bindC (if has_contents
            then bindC (the_member doc ''contents'') (\<lambda>contents.
                 demand (IsObject contents) 400 ''Incorrect type for contents'')
            else Pass ()) (\<lambda>_.
     bindC (if has_source
            then bindC (string_member doc ''copyFrom'') (\<lambda>str.
                 demand str 400 ''Incorrect type for copyFrom'')
            else Pass ()) (\<lambda>_.
     bindC (if has_contents
            then bindC (the_member doc ''contents'') (\<lambda>contents.
                 bindC (GetObject contents) check_contents)
            else Pass ()) (\<lambda>_.
     Pass md)))))))))))"

definition kubernetesNameCharacters :: string where
  "kubernetesNameCharacters = ''abcdefghijklmnopqrstuvwxyz0123456789-.''"

definition secret_name_of :: "json \<Rightarrow> string check" where
  "secret_name_of md =
     bindC (text_of md ''name'') (\<lambda>name.
     bindC (demand (length name \<le> 253) 400 ''Secret name too long'') (\<lambda>_.
     bindC (demand (set name \<subseteq> set kubernetesNameCharacters) 400
              ''Secret name contains an invalid character'') (\<lambda>_.
     Pass name)))"

section \<open>Creating\<close>

text \<open>
  The encrypted data to store, and the contents that go to Kubernetes: either those of the
  request, or those of a secret the requesting user may see.  A failure to encrypt or decrypt is
  not caught here.
\<close>

definition secret_payload ::
  "'w env \<Rightarrow> 'w services \<Rightarrow> User \<Rightarrow> json \<Rightarrow>
     (string \<Rightarrow> json \<Rightarrow> (('w, 'z) secret_store_scheme, response) op) \<Rightarrow>
     (('w, 'z) secret_store_scheme, response) op" where
  "secret_payload E X user doc k =
     checked (HasMember doc ''contents'') (\<lambda>has_contents.
     if has_contents then
       checked (the_member doc ''contents'') (\<lambda>contents.
       bindM (encryptSecret E (x_print X contents)) (\<lambda>encrypted. k encrypted contents))
     else
       checked (text_of doc ''copyFrom'') (\<lambda>sourceID.
       bindM (getSecret E sourceID) (\<lambda>existing.
       if \<not> s_valid existing then ret (failure 404 ''The specified source secret does not exist'')
       else bindM (userInGroup E (u_id user) (s_group existing)) (\<lambda>allowed.
       if \<not> allowed then ret (failure 403 ''User not authorized'')
       else bindM (decryptSecret E existing) (\<lambda>plain_text.
            k (s_data existing) (x_parse X plain_text))))))"

text \<open>
  One value of the secret is decoded and written to a file of its own; the result is the argument
  for \<open>kubectl\<close> that names it.
\<close>

definition write_value ::
  "'w env \<Rightarrow> string \<times> json \<Rightarrow> (('w, 'z) base_store_scheme, string) op" where
  "write_value E member =
     (case member of (key, v) \<Rightarrow>
      (case GetString v of
         Abort e \<Rightarrow> throw e
       | Reject r \<Rightarrow> throw assertion_failed
       | Pass text \<Rightarrow>
           (case decodeBase64 text of
              Inl e \<Rightarrow> throw e
            | Inr bytes \<Rightarrow>
                bindM (callE (e_writeTemporaryFile E ''secret_'' bytes)) (\<lambda>outPath.
                ret (''--from-file='' @ c_str key @ ''='' @ outPath)))))"

text \<open>
  Storing the secret in Kubernetes, once it is in the database.  When the namespace or the
  secret cannot be created the record is removed again.
\<close>

definition install_secret ::
  "'w env \<Rightarrow> Secret \<Rightarrow> Group \<Rightarrow> json \<Rightarrow> (('w, 'z) secret_store_scheme, response) op" where
  "install_secret E secret g contents =
     bindM (configPathForCluster E (s_cluster secret)) (\<lambda>configPath.
     bindM (catchM (bindM (kubectl_create_namespace E configPath g) (\<lambda>_. ret None))
              (\<lambda>e. bindM (removeSecret E (s_id secret)) (\<lambda>_. ret (Some e)))) (\<lambda>problem.
     case problem of
       Some e \<Rightarrow> ret (failure 500 (''Failed to create namespace: '' @ e))
     | None \<Rightarrow>
         checked (GetObject contents) (\<lambda>members.
         bindM (mapM (write_value E) members) (\<lambda>files.
         bindM (kubectl E configPath
                  ([''create'', ''secret'', ''generic'', s_name secret, ''--namespace'',
                    namespaceName g] @ files)) (\<lambda>result.
         if cmd_status result \<noteq> 0 then
           bindM (removeSecret E (s_id secret)) (\<lambda>_.
           ret (failure 500 (''Failed to store secret to kubernetes: '' @ cmd_error result)))
         else ret (reply (J_object
           [(''apiVersion'', J_string ''v1alpha3''),
            (''kind'', J_string ''Secret''),
            (''metadata'', J_object
               [(''id'', J_string (s_id secret)), (''name'', J_string (s_name secret))])])))))))"

definition may_use_cluster ::
  "'w env \<Rightarrow> Group \<Rightarrow> Cluster \<Rightarrow> (('w, 'z) cluster_store_scheme, bool) op" where
  "may_use_cluster E g c =
     (if g_id g \<noteq> c_owningGroup c then groupAllowedOnCluster E (g_id g) (c_id c) else ret True)"

text \<open>The secret is stored, and an error in storing it is reported like a failure.\<close>

definition store_secret ::
  "'w env \<Rightarrow> Secret \<Rightarrow> (('w, 'z) secret_store_scheme, bool) op" where
  "store_secret E secret = catchM (addSecret E secret) (\<lambda>_. ret False)"

definition do_createSecret ::
  "'w env \<Rightarrow> 'w services \<Rightarrow> request \<Rightarrow> (('w, 'z) secret_store_scheme, response) op" where
  "do_createSecret E X req =
     requester E req ''User not authorized'' (\<lambda>user.
     let doc = request_json X req in
     checked (unpack_new_secret doc) (\<lambda>md.
     bindM (new_id X generateSecretID) (\<lambda>sid.
     bindM (callM (x_timestamp X)) (\<lambda>now.
     checked (secret_name_of md) (\<lambda>name.
     checked (text_of md ''group'') (\<lambda>groupName.
     checked (text_of md ''cluster'') (\<lambda>clusterName.
     bindM (getGroup E groupName) (\<lambda>g.
     if \<not> g_valid g then ret (failure 404 ''Group not found'')
     else bindM (userInGroup E (u_id user) (g_id g)) (\<lambda>member.
     if \<not> member then ret (failure 403 ''User not authorized'')
     else bindM (getCluster E clusterName) (\<lambda>c.
     if \<not> c_valid c then ret (failure 404 ''Cluster not found'')
     else bindM (may_use_cluster E g c) (\<lambda>allowed.
     if \<not> allowed then ret (failure 403 ''User not authorized'')
     else bindM (findSecretByName E (g_id g) (c_id c) name) (\<lambda>existing.
     if s_valid existing then ret (failure 400 ''A secret with the same name already exists'')
     else secret_payload E X user doc (\<lambda>encrypted contents.
     let secret = \<lparr>s_valid = True, s_id = sid, s_name = name, s_group = g_id g,
                   s_cluster = c_id c, s_ctime = now, s_data = encrypted\<rparr> in
     bindM (store_secret E secret) (\<lambda>success.
     if \<not> success then ret (failure 500 ''Failed to store secret to the persistent store'')
     else install_secret E secret g contents))))))))))))))"

section \<open>Deleting\<close>

text \<open>
  \<open>internal::deleteSecret\<close>: the error message, empty on success.  The part in the \<open>try\<close> block
  answers whether to go on to the database.
\<close>

definition delete_from_kubernetes ::
  "'w env \<Rightarrow> Secret \<Rightarrow> Group \<Rightarrow> bool \<Rightarrow> (('w, 'z) cluster_store_scheme, bool) op" where
  "delete_from_kubernetes E secret g force =
     catchM
       (bindM (configPathForCluster E (s_cluster secret)) (\<lambda>configPath.
        bindM (kubectl E configPath
                 [''delete'', ''secret'', s_name secret, ''--namespace'', namespaceName g]) (\<lambda>result.
        ret (cmd_status result = 0 \<or> force))))
       (\<lambda>_. ret force)"

definition delete_secret ::
  "'w env \<Rightarrow> Secret \<Rightarrow> bool \<Rightarrow> bool \<Rightarrow> (('w, 'z) secret_store_scheme, string) op" where
  "delete_secret E secret force reachable =
     bindM (findGroupByID E (s_group secret)) (\<lambda>g.
     bindM (if reachable then delete_from_kubernetes E secret g force else ret True) (\<lambda>go_on.
     if \<not> go_on then ret ''Failed to delete secret from kubernetes''
     else bindM (removeSecret E (s_id secret)) (\<lambda>success.
     ret (if success then '''' else ''Failed to delete secret from database''))))"

definition do_deleteSecret ::
  "'w env \<Rightarrow> request \<Rightarrow> string \<Rightarrow> (('w, 'z) secret_store_scheme, response) op" where
  "do_deleteSecret E req secretID =
     requester E req ''User not authorized'' (\<lambda>user.
     bindM (getSecret E secretID) (\<lambda>secret.
     if \<not> s_valid secret then ret (failure 404 ''Secret not found'')
     else bindM (userInGroup E (u_id user) (s_group secret)) (\<lambda>member.
     if \<not> member then ret (failure 403 ''User not authorized'')
     else bindM (delete_secret E secret (req_params req ''force'' \<noteq> None) True) (\<lambda>err.
     if err \<noteq> [] then ret (failure 500 err) else ret okay))))"

section \<open>Reading\<close>

definition secret_contents ::
  "'w env \<Rightarrow> 'w services \<Rightarrow> Secret \<Rightarrow> (('w, 'z) secret_store_scheme, string + json) op" where
  "secret_contents E X secret =
     catchM (bindM (decryptSecret E secret) (\<lambda>plain_text. ret (Inr (x_parse X plain_text))))
            (\<lambda>e. ret (Inl e))"

definition do_getSecret ::
  "'w env \<Rightarrow> 'w services \<Rightarrow> request \<Rightarrow> string \<Rightarrow> (('w, 'z) secret_store_scheme, response) op" where
  "do_getSecret E X req secretID =
     requester E req ''User not authorized'' (\<lambda>user.
     bindM (getSecret E secretID) (\<lambda>secret.
     if \<not> s_valid secret then ret (failure 404 ''Secret not found'')
     else bindM (userInGroup E (u_id user) (s_group secret)) (\<lambda>member.
     if \<not> member then ret (failure 403 ''User not authorized'')
     else bindM (getGroup E (s_group secret)) (\<lambda>g.
     bindM (getCluster E (s_cluster secret)) (\<lambda>c.
     bindM (secret_contents E X secret) (\<lambda>result.
     case result of
       Inl e \<Rightarrow> ret (failure 500 (''Secret decryption failed: '' @ e))
     | Inr contents \<Rightarrow> ret (reply (J_object
         [(''apiVersion'', J_string ''v1alpha3''),
          (''kind'', J_string ''Secret''),
          (''metadata'', J_object
             [(''id'', J_string (s_id secret)), (''name'', J_string (s_name secret)),
              (''group'', J_string (g_name g)), (''cluster'', J_string (c_name c)),
              (''created'', J_string (s_ctime secret))]),
          (''contents'', contents)]))))))))"

end
