(* ===== verification/AccessCommands.thy ===== *)
theory AccessCommands
  imports GroupCommands CredentialStore
begin

text \<open>
  The handlers of \<open>src/ClusterCommands.cpp\<close> that decide who may use a cluster and how: access of
  groups, permitted applications, and the monitoring credential of a cluster.
\<close>

section \<open>What the handlers share\<close>

definition with_cluster :: "'w env \<Rightarrow> string \<Rightarrow>
    (Cluster \<Rightarrow> (('w, 'z) cluster_store_scheme, response) op) \<Rightarrow>
    (('w, 'z) cluster_store_scheme, response) op" where
  "with_cluster E clusterID k =
     bindM (getCluster E clusterID) (\<lambda>cluster.
     if \<not> c_valid cluster then ret (failure 404 ''Cluster not found'') else k cluster)"

definition with_group :: "'w env \<Rightarrow> string \<Rightarrow>
    (Group \<Rightarrow> (('w, 'z) group_store_scheme, response) op) \<Rightarrow>
    (('w, 'z) group_store_scheme, response) op" where
  "with_group E groupID k =
     bindM (getGroup E groupID) (\<lambda>g.
     if \<not> g_valid g then ret (failure 404 ''Group not found'') else k g)"

text \<open>Administrators, and the members of the group that owns the cluster.\<close>

definition may_manage ::
  "'w env \<Rightarrow> User \<Rightarrow> Cluster \<Rightarrow> (('w, 'z) group_store_scheme, bool) op" where
  "may_manage E user cluster =
     (if u_admin user then ret True else userInGroup E (u_id user) (c_owningGroup cluster))"

definition is_wildcard :: "string \<Rightarrow> bool" where
  "is_wildcard groupID \<longleftrightarrow> groupID = wildcard \<or> groupID = wildcardName"

section \<open>Access of groups\<close>

definition brief_group_document :: "string \<Rightarrow> string \<Rightarrow> json" where
  "brief_group_document i name =
     J_object
       [(''apiVersion'', J_string ''v1alpha3''),
        (''kind'', J_string ''Group''),
        (''metadata'', J_object [(''id'', J_string i), (''name'', J_string name)])]"

text \<open>A group that cannot be found is left out of the listing.\<close>

definition allowed_group_entry ::
  "'w env \<Rightarrow> string \<Rightarrow> (('w, 'z) group_store_scheme, json list) op" where
  "allowed_group_entry E groupID =
     bindM (findGroupByID E groupID) (\<lambda>g.
     ret (if g_valid g then [brief_group_document groupID (g_name g)] else []))"

definition do_listClusterAllowedgroups ::
  "'w env \<Rightarrow> request \<Rightarrow> string \<Rightarrow> (('w, 'z) cluster_store_scheme, response) op" where
  "do_listClusterAllowedgroups E req clusterID =
     requester E req ''User not authorized'' (\<lambda>user.
     with_cluster E clusterID (\<lambda>cluster.
     bindM (listGroupsAllowedOnCluster E (c_id cluster) False) (\<lambda>groupIDs.
     if groupIDs = [wildcard]
     then ret (reply (list_document [brief_group_document wildcard wildcardName]))
     else bindM (mapM (allowed_group_entry E) (groupIDs @ [c_owningGroup cluster])) (\<lambda>items.
          ret (reply (list_document (concat items)))))))"

definition access_document :: "string \<Rightarrow> string \<Rightarrow> bool \<Rightarrow> json" where
  "access_document clusterID groupID allowed =
     J_object
       [(''apiVersion'', J_string ''v1alpha3''), (''cluster'', J_string clusterID),
        (''group'', J_string groupID), (''accessAllowed'', J_bool allowed)]"

text \<open>
  The question whether all groups may use a cluster is put to the store with the cluster as the
  request names it, not with its ID.
\<close>

definition do_checkGroupClusterAccess ::
  "'w env \<Rightarrow> request \<Rightarrow> string \<Rightarrow> string \<Rightarrow> (('w, 'z) cluster_store_scheme, response) op" where
  "do_checkGroupClusterAccess E req clusterID groupID =
     requester E req ''User not authorized'' (\<lambda>user.
     with_cluster E clusterID (\<lambda>cluster.
     if is_wildcard groupID
     then bindM (clusterAllowsAllGroups E clusterID) (\<lambda>allowed.
          ret (reply (access_document clusterID groupID allowed)))
     else with_group E groupID (\<lambda>g.
          if g_id g = c_owningGroup cluster
          then ret (reply (access_document clusterID groupID True))
          else bindM (groupAllowedOnCluster E (g_id g) (c_id cluster)) (\<lambda>allowed.
               ret (reply (access_document clusterID groupID allowed))))))"

definition granted_response :: "string \<Rightarrow> bool \<Rightarrow> (('w, 'z) base_store_scheme, response) op" where
  "granted_response message success = ret (if success then okay else failure 500 message)"

definition do_grantGroupClusterAccess ::
  "'w env \<Rightarrow> request \<Rightarrow> string \<Rightarrow> string \<Rightarrow> (('w, 'z) cluster_store_scheme, response) op" where
  "do_grantGroupClusterAccess E req clusterID groupID =
     requester E req ''User not authorized'' (\<lambda>user.
     with_cluster E clusterID (\<lambda>cluster.
     bindM (may_manage E user cluster) (\<lambda>allowed.
     if \<not> allowed then ret (failure 403 ''User not authorized'')
     else if is_wildcard groupID
     then bindM (addGroupToCluster E wildcard (c_id cluster))
            (granted_response ''Granting Group access to cluster failed'')
     else with_group E groupID (\<lambda>g.
          if g_id g = c_owningGroup cluster then ret okay
          else bindM (addGroupToCluster E (g_id g) (c_id cluster))
                 (granted_response ''Granting Group access to cluster failed'')))))"

definition do_revokeGroupClusterAccess ::
  "'w env \<Rightarrow> request \<Rightarrow> string \<Rightarrow> string \<Rightarrow> (('w, 'z) cluster_store_scheme, response) op" where
  "do_revokeGroupClusterAccess E req clusterID groupID =
     requester E req ''User not authorized'' (\<lambda>user.
     with_cluster E clusterID (\<lambda>cluster.
     bindM (may_manage E user cluster) (\<lambda>allowed.
     if \<not> allowed then ret (failure 403 ''User not authorized'')
     else if is_wildcard groupID
     then bindM (removeGroupFromCluster E wildcard (c_id cluster))
            (granted_response ''Removing Group access to cluster failed'')
     else with_group E groupID (\<lambda>g.
          if g_id g = c_owningGroup cluster
          then ret (failure 400 ''Cannot deny cluster access to owning Group'')
          else bindM (removeGroupFromCluster E (g_id g) (c_id cluster))
                 (granted_response ''Removing Group access to cluster failed'')))))"

section \<open>Permitted applications\<close>

text \<open>The result is a \<open>std::set\<close>, which is listed in its order.\<close>

definition do_listClusterGroupAllowedApplications ::
  "'w env \<Rightarrow> request \<Rightarrow> string \<Rightarrow> string \<Rightarrow> (('w, 'z) cluster_store_scheme, response) op" where
  "do_listClusterGroupAllowedApplications E req clusterID groupID =
     requester E req ''User not authorized'' (\<lambda>user.
     with_cluster E clusterID (\<lambda>cluster.
     with_group E groupID (\<lambda>g.
     bindM (may_manage E user cluster) (\<lambda>manager.
     bindM (if manager then ret True else userInGroup E (u_id user) (g_id g)) (\<lambda>allowed.
     if \<not> allowed then ret (failure 403 ''User not authorized'')
     else bindM (listApplicationsGroupMayUseOnCluster E (g_id g) (c_id cluster)) (\<lambda>apps.
          ret (reply (list_document (map J_string (sorted_list_of_set apps)))))))))) "

definition do_allowGroupUseOfApplication ::
  "'w env \<Rightarrow> request \<Rightarrow> string \<Rightarrow> string \<Rightarrow> string \<Rightarrow>
     (('w, 'z) cluster_store_scheme, response) op" where
  "do_allowGroupUseOfApplication E req clusterID groupID applicationName =
     requester E req ''User not authorized'' (\<lambda>user.
     with_cluster E clusterID (\<lambda>cluster.
     with_group E groupID (\<lambda>g.
     bindM (may_manage E user cluster) (\<lambda>allowed.
     if \<not> allowed then ret (failure 403 ''User not authorized'')
     else bindM (allowVoToUseApplication E groupID clusterID applicationName)
            (granted_response ''Granting Group permission to use application failed'')))))"

definition do_denyGroupUseOfApplication ::
  "'w env \<Rightarrow> request \<Rightarrow> string \<Rightarrow> string \<Rightarrow> string \<Rightarrow>
     (('w, 'z) cluster_store_scheme, response) op" where
  "do_denyGroupUseOfApplication E req clusterID groupID applicationName =
     requester E req ''User not authorized'' (\<lambda>user.
     with_cluster E clusterID (\<lambda>cluster.
     with_group E groupID (\<lambda>g.
     bindM (may_manage E user cluster) (\<lambda>allowed.
     if \<not> allowed then ret (failure 403 ''User not authorized'')
     else bindM (denyGroupUseOfApplication E groupID clusterID applicationName)
            (granted_response ''Granting Group permission to use application failed'')))))"

section \<open>The monitoring credential\<close>

text \<open>A notice to the operators of the platform, if they have an address.\<close>

definition notify_ops ::
  "'w services \<Rightarrow> string \<Rightarrow> string \<Rightarrow> (('w, 'z) base_store_scheme, unit) op" where
  "notify_ops X what_about text =
     (if x_opsEmail X = [] then ret ()
      else bindM (sendEmail X (no_email
             \<lparr>fromAddress := ''noreply@slate.io'', toAddresses := [x_opsEmail X],
              subject := what_about, mail_body := text\<rparr>)) (\<lambda>_. ret ()))"

definition credential_document :: "S3Credential \<Rightarrow> json" where
  "credential_document cred =
     J_object
       [(''apiVersion'', J_string ''v1alpha3''),
        (''kind'', J_string ''MonitoringCredential''),
        (''metadata'', J_object
           [(''accessKey'', J_string (s3_accessKey cred)), (''secretKey'', J_string (s3_secretKey cred)),
            (''inUse'', J_bool (s3_inUse cred)), (''revoked'', J_bool (s3_revoked cred))])]"

definition low_supply_text :: "nat \<Rightarrow> string" where
  "low_supply_text availableCreds =
     (if availableCreds \<noteq> 0 then ''Only '' else '''') @ show_nat availableCreds @ '' credential'' @
     (if availableCreds \<noteq> 1 then ''s'' else '''') @ '' remain available for allocation.''"

definition check_supply :: "'w env \<Rightarrow> 'w services \<Rightarrow> nat \<Rightarrow>
    (('w, 'z) base_store_scheme, unit) paged" where
  "check_supply E X budget =
     bindP (listMonitoringCredentials E budget) (\<lambda>allCreds.
     let availableCreds = length (filter (\<lambda>c. \<not> s3_inUse c \<and> \<not> s3_revoked c) allCreds)
     in whole (if availableCreds < 3
               then notify_ops X ''API Server: Low number of monitoring credentials available''
                      (low_supply_text availableCreds)
               else ret ()))"

text \<open>
  Allocating a credential for a cluster that has none.  When it cannot be stored with the cluster
  it stays marked as in use.
\<close>

definition assign_credential :: "'w env \<Rightarrow> 'w services \<Rightarrow> nat \<Rightarrow> Cluster \<Rightarrow>
    (('w, 'z) cluster_store_scheme, response) paged" where
  "assign_credential E X budget cluster =
     bindP (allocateMonitoringCredential budget E) (\<lambda>(cred, errMsg).
     if \<not> s3_ok cred then
       whole (bindM (notify_ops X ''API Server: Failed to allocate monitoring credential''
          (''Allocation of a monitoring credential for the '' @ c_name cluster @
           '' cluster was requested but could not be fulfilled:\<newline>'' @ errMsg)) (\<lambda>_.
         ret (failure 500 ''Allocating monitoring credential failed'')))
     else
       bindP (whole (setClusterMonitoringCredential E (c_id cluster) cred)) (\<lambda>set_ok.
       if \<not> set_ok then
         whole (bindM (notify_ops X ''API Server: Failed to set monitoring credential''
            (''The monitoring credential '' @ s3_accessKey cred @ '' was allocated for'' @
             c_name cluster @ '' cluster but adding it to the cluster record in '' @
             ''the persistent store failed. This inconsistent state should be '' @
             ''manually resolved.'')) (\<lambda>_.
           ret (failure 500 ''Allocating monitoring credential failed'')))
       else bindP (check_supply E X budget) (\<lambda>_. whole (ret (reply (credential_document cred))))))"

definition do_getClusterMonitoringCredential ::
  "'w env \<Rightarrow> 'w services \<Rightarrow> nat \<Rightarrow> request \<Rightarrow> string \<Rightarrow>
     (('w, 'z) cluster_store_scheme, response) paged" where
  "do_getClusterMonitoringCredential E X budget req clusterID =
     requesterP E req ''User not authorized'' (\<lambda>user.
     bindP (whole (getCluster E clusterID)) (\<lambda>cluster.
     if \<not> c_valid cluster then whole (ret (failure 404 ''Cluster not found''))
     else bindP (whole (may_manage E user cluster)) (\<lambda>allowed.
     if \<not> allowed then whole (ret (failure 403 ''User not authorized''))
     else if s3_ok (c_monitoringCredential cluster)
     then whole (ret (reply (credential_document (c_monitoringCredential cluster))))
     else assign_credential E X budget cluster)))"

text \<open>
  \<open>internal::removeClusterMonitoringCredential\<close>: the error message, empty on success.  After the
  credential is revoked the code looks at the result of the removal again.
\<close>

definition remove_cluster_credential ::
  "'w env \<Rightarrow> Cluster \<Rightarrow> bool \<Rightarrow> (('w, 'z) cluster_store_scheme, string) op" where
  "remove_cluster_credential E cluster reachable =
     (if \<not> reachable then ret ''''
      else if s3_ok (c_monitoringCredential cluster) then
        bindM (removeClusterMonitoringCredential E (c_id cluster)) (\<lambda>removed.
        if \<not> removed then ret (''Failed to remove monitoring credential for Cluster '' @ c_name cluster)
        else bindM (revokeMonitoringCredential E (s3_accessKey (c_monitoringCredential cluster)))
               (\<lambda>revoked.
             ret (if \<not> removed
                  then ''Failed to revoke used monitoring credential for Cluster '' @
                       s3_accessKey (c_monitoringCredential cluster)
                  else '''')))
      else ret '''')"

definition do_removeClusterMonitoringCredential ::
  "'w env \<Rightarrow> request \<Rightarrow> string \<Rightarrow> (('w, 'z) cluster_store_scheme, response) op" where
  "do_removeClusterMonitoringCredential E req clusterID =
     requester E req ''User not authorized'' (\<lambda>user.
     with_cluster E clusterID (\<lambda>cluster.
     bindM (may_manage E user cluster) (\<lambda>allowed.
     if \<not> allowed then ret (failure 403 ''User not authorized'')
     else bindM (remove_cluster_credential E cluster True) (\<lambda>credRemoval.
          ret (if credRemoval \<noteq> [] then failure 500 ''Removing monitoring credential failed''
               else okay)))))"

end
