(* ===== verification/VolumeCommands.thy ===== *)
theory VolumeCommands
  imports SecretCommands
begin

text \<open>
  The handlers of \<open>src/VolumeClaimCommands.cpp\<close> and \<open>internal::deleteVolumeClaim\<close>.
\<close>

section \<open>Listing and reading\<close>

text \<open>\<open>["status"]["phase"]\<close> of what \<open>kubectl get pvc\<close> printed, if it is there.\<close>

fun object_member :: "json \<Rightarrow> string \<Rightarrow> json option" where
  "object_member (J_object ms) name = map_of ms name" | "object_member _ name = None"

definition volume_phase :: "json \<Rightarrow> json" where
  "volume_phase doc =
     (case object_member doc ''status'' of
        None \<Rightarrow> J_string ''unknown''
      | Some status \<Rightarrow>
          (case object_member status ''phase'' of None \<Rightarrow> J_string ''unknown'' | Some v \<Rightarrow> v))"

definition volume_entry_document ::
  "'w env \<Rightarrow> 'w services \<Rightarrow> PersistentVolumeClaim \<Rightarrow> (('w, 'z) cluster_store_scheme, json) op" where
  "volume_entry_document E X volume =
     bindM (getGroup E (v_group volume)) (\<lambda>g.
     bindM (getCluster E (v_cluster volume)) (\<lambda>c.
     bindM (configPathForCluster E (v_cluster volume)) (\<lambda>configPath.
     bindM (getGroup E (v_group volume)) (\<lambda>g'.
     bindM (kubectl E configPath [''get'', ''pvc'', v_name volume, ''--namespace'',
              namespaceName g', ''-o=json'']) (\<lambda>result.
     ret (J_object
       [(''apiVersion'', J_string ''v1alpha3''),
        (''kind'', J_string ''PersistentVolumeClaim''),
        (''metadata'', J_object
           [(''id'', J_string (v_id volume)), (''name'', J_string (v_name volume)),
            (''group'', J_string (g_name g)), (''cluster'', J_string (c_name c)),
            (''storageRequest'', J_string (v_storageRequest volume)),
            (''storageClass'', J_string (v_storageClass volume)),
            (''accessMode'', J_string (accessMode_to_string (v_accessMode volume))),
            (''volumeMode'', J_string (volumeMode_to_string (v_volumeMode volume))),
            (''created'', J_string (v_ctime volume)),
            (''status'', volume_phase (x_parse X (c_str (cmd_output result))))])]))))))"

definition do_listVolumeClaims ::
  "'w env \<Rightarrow> 'w services \<Rightarrow> nat \<Rightarrow> request \<Rightarrow> (('w, 'z) volume_store_scheme, response) paged" where
  "do_listVolumeClaims E X budget req =
     requesterP E req ''User not authorized'' (\<lambda>user.
     let groupParam = req_params req ''group''; clusterParam = req_params req ''cluster''; 
         text = (\<lambda>p. case p of None \<Rightarrow> '''' | Some t \<Rightarrow> t)
     in bindP (if groupParam \<noteq> None \<or> clusterParam \<noteq> None
               then whole (listPersistentVolumeClaimsByClusterOrGroup E (text groupParam)
                             (text clusterParam))
               else listPersistentVolumeClaims E budget) (\<lambda>volumes.
     whole (bindM (mapM (volume_entry_document E X) volumes) (\<lambda>items.
       ret (reply (list_document items))))))"

definition volume_metadata :: "PersistentVolumeClaim \<Rightarrow> Group \<Rightarrow> Cluster \<Rightarrow> (string \<times> json) list" where
  "volume_metadata volume g c =
     [(''group'', J_string (g_name g)), (''cluster'', J_string (c_name c)),
      (''storageRequest'', J_string (v_storageRequest volume)),
      (''accessMode'', J_string (accessMode_to_string (v_accessMode volume))),
      (''volumeMode'', J_string (volumeMode_to_string (v_volumeMode volume))),
      (''storageClass'', J_string (v_storageClass volume)),
      (''created'', J_string (v_ctime volume))]"

definition volume_info_members :: "PersistentVolumeClaim \<Rightarrow> Group \<Rightarrow> Cluster \<Rightarrow> (string \<times> json) list" where
  "volume_info_members volume g c =
     [(''apiVersion'', J_string ''v1alpha3''),
      (''kind'', J_string ''PersistentVolumeClaim''),
      (''metadata'', J_object
         ([(''id'', J_string (v_id volume)), (''name'', J_string (v_name volume))] @
          volume_metadata volume g c))]"

text \<open>
  The details of a claim, from what \<open>kubectl\<close> printed.  \<open>claimDetails["status"]\<close> is an
  assertion when the output is not an object with this member.
\<close>

definition claim_details :: "json \<Rightarrow> (string \<times> json) list check" where
  "claim_details doc =
     bindC (the_member doc ''status'') (\<lambda>status.
     bindC (HasMember status ''phase'') (\<lambda>has.
     if has then bindC (the_member status ''phase'') (\<lambda>phase.
                 Pass [(''details'', J_object [(''status'', phase)])])
     else Pass []))"

definition do_fetchVolumeClaimInfo ::
  "'w env \<Rightarrow> 'w services \<Rightarrow> request \<Rightarrow> string \<Rightarrow> (('w, 'z) volume_store_scheme, response) op" where
  "do_fetchVolumeClaimInfo E X req claimID =
     requester E req ''User not authorized'' (\<lambda>user.
     bindM (getPersistentVolumeClaim E claimID) (\<lambda>volume.
     if \<not> v_valid volume then ret (failure 404 ''Volume not found'')
     else bindM (if u_admin user then ret True
                 else userInGroup E (u_id user) (v_group volume)) (\<lambda>allowed.
     if \<not> allowed then ret (failure 403 ''User not authorized'')
     else bindM (getCluster E (v_cluster volume)) (\<lambda>cluster.
     if \<not> c_valid cluster then ret (failure 500 ''Invalid Cluster'')
     else bindM (configPathForCluster E (c_id cluster)) (\<lambda>configPath.
     bindM (getGroup E (v_group volume)) (\<lambda>group_of_volume.
     bindM (getGroup E (v_group volume)) (\<lambda>g.
     bindM (getCluster E (v_cluster volume)) (\<lambda>c.
     bindM (kubectl E configPath [''get'', ''pvc'', ''-n'', namespaceName group_of_volume,
              ''-o=json'', v_name volume]) (\<lambda>result.
     if cmd_status result \<noteq> 0
     then ret (reply (J_object (volume_info_members volume g c @
            [(''details'', J_object
               [(''kind'', J_string ''Error''),
                (''message'', J_string ''Failed to get information for PVC'')])])))
     else checked (claim_details (x_parse X (c_str (cmd_output result)))) (\<lambda>details.
            ret (reply (J_object (volume_info_members volume g c @ details)))))))))))))"

section \<open>Creating\<close>

definition unpack_new_volume :: "json \<Rightarrow> json check" where
  "unpack_new_volume doc =
     bindC (metadata_of doc ''Missing user metadata in request'' ''Incorrect type for metadata'') (\<lambda>md.
     bindC (require_string md ''group'' ''Missing Group'' ''Incorrect type for Group'') (\<lambda>_.
     bindC (require_string md ''cluster'' ''Missing cluster'' ''Incorrect type for cluster'') (\<lambda>_.
     bindC (require_string md ''name'' ''Missing volume name in request''
              ''Incorrect type for volume name'') (\<lambda>_.
     bindC (require_string md ''storageRequest'' ''Missing storage request''
              ''Incorrect type for storage request'') (\<lambda>_.
     bindC (require_string md ''accessMode'' ''Missing access mode''
              ''Incorrect type for access mode'') (\<lambda>_.
     bindC (require_string md ''volumeMode'' ''Missing volume mode''
              ''Incorrect type for volume mode'') (\<lambda>_.
     bindC (require_string md ''storageClass'' ''Missing StorageClass''
              ''Incorrect type for StorageClass'') (\<lambda>_.
     Pass md))))))))"

definition mode_of :: "string \<Rightarrow> 'm outcome \<Rightarrow> 'm check" where
  "mode_of prefix parsed =
     (case parsed of Inl e \<Rightarrow> Reject (failure 400 (prefix @ e)) | Inr m \<Rightarrow> Pass m)"

text \<open>The claim that the metadata describes, without ID and time; the group and the cluster as named.\<close>

definition volume_of_metadata :: "json \<Rightarrow> PersistentVolumeClaim check" where
  "volume_of_metadata md =
     bindC (text_of md ''name'') (\<lambda>name.
     bindC (text_of md ''group'') (\<lambda>g.
     bindC (text_of md ''cluster'') (\<lambda>c.
     bindC (text_of md ''storageRequest'') (\<lambda>storageRequest.
     bindC (text_of md ''storageClass'') (\<lambda>storageClass.
     bindC (text_of md ''accessMode'') (\<lambda>accessText.
     bindC (mode_of ''Invalid value for access mode: '' (accessModeFromString accessText))
       (\<lambda>accessMode.
     bindC (text_of md ''volumeMode'') (\<lambda>volumeText.
     bindC (mode_of ''Invalid value for volume mode: '' (volumeModeFromString volumeText))
       (\<lambda>volumeMode.
     Pass (no_volume\<lparr>v_name := name, v_group := g, v_cluster := c,
             v_storageRequest := storageRequest, v_storageClass := storageClass,
             v_accessMode := accessMode, v_volumeMode := volumeMode\<rparr>))))))))))"

definition check_volume_name :: "string \<Rightarrow> unit check" where
  "check_volume_name name =
     bindC (demand (length name \<le> 253) 400 ''Volume name too long'') (\<lambda>_.
     demand (set name \<subseteq> set kubernetesNameCharacters) 400
       ''Volume name contains an invalid character'')"

definition pvc_document :: "PersistentVolumeClaim \<Rightarrow> Group \<Rightarrow> json" where
  "pvc_document volume g =
     J_object
       [(''apiVersion'', J_string ''v1''),
        (''kind'', J_string ''PersistentVolumeClaim''),
        (''metadata'', J_object
           [(''name'', J_string (v_name volume)), (''namespace'', J_string (namespaceName g))]),
        (''spec'', J_object
           [(''accessModes'', J_array [J_string (accessMode_to_string (v_accessMode volume))]),
            (''volumeMode'', J_string (volumeMode_to_string (v_volumeMode volume))),
            (''resources'', J_object
               [(''requests'', J_object [(''storage'', J_string (v_storageRequest volume))])]),
            (''storageClassName'', J_string (v_storageClass volume))])]"

definition store_volume ::
  "'w env \<Rightarrow> PersistentVolumeClaim \<Rightarrow> (('w, 'z) volume_store_scheme, bool) op" where
  "store_volume E volume = catchM (addPersistentVolumeClaim E volume) (\<lambda>_. ret False)"

text \<open>Creating the claim in Kubernetes, once it is in the database.\<close>

definition install_volume ::
  "'w env \<Rightarrow> 'w services \<Rightarrow> PersistentVolumeClaim \<Rightarrow> Group \<Rightarrow>
     (('w, 'z) volume_store_scheme, response) op" where
  "install_volume E X volume g =
     bindM (configPathForCluster E (v_cluster volume)) (\<lambda>configPath.
     bindM (catchM (bindM (kubectl_create_namespace E configPath g) (\<lambda>_. ret None))
              (\<lambda>e. bindM (removePersistentVolumeClaim E (v_id volume)) (\<lambda>_. ret (Some e)))) (\<lambda>problem.
     case problem of
       Some e \<Rightarrow> ret (failure 500 (''Failed to create namespace: '' @ e))
     | None \<Rightarrow>
         bindM (callE (e_writeTemporaryFile E ''.pvc.json'' (x_print X (pvc_document volume g)))) (\<lambda>pvcFile.
         bindM (kubectl E configPath [''create'', ''-f'', pvcFile]) (\<lambda>result.
         if cmd_status result \<noteq> 0 then
           bindM (removePersistentVolumeClaim E (v_id volume)) (\<lambda>_.
           ret (failure 500 (''Failed to create PVC on kubernetes: '' @ cmd_error result)))
         else
           bindM (getGroup E (v_group volume)) (\<lambda>g'.
           bindM (getCluster E (v_cluster volume)) (\<lambda>c'.
           ret (reply (J_object
             [(''apiVersion'', J_string ''v1alpha3''),
              (''kind'', J_string ''PersistentVolumeClaim''),
              (''metadata'', J_object
                 ([(''name'', J_string (v_name volume)), (''id'', J_string (v_id volume))] @
                  volume_metadata volume g' c'))]))))))))"

definition do_createVolumeClaim ::
  "'w env \<Rightarrow> 'w services \<Rightarrow> request \<Rightarrow> (('w, 'z) volume_store_scheme, response) op" where
  "do_createVolumeClaim E X req =
     requester E req ''User not authorized'' (\<lambda>user.
     checked (unpack_new_volume (request_json X req)) (\<lambda>md.
     bindM (new_id X generateVolumeID) (\<lambda>vid.
     checked (volume_of_metadata md) (\<lambda>described.
     bindM (callM (x_timestamp X)) (\<lambda>now.
     checked (check_volume_name (v_name described)) (\<lambda>_.
     bindM (getGroup E (v_group described)) (\<lambda>g.
     if \<not> g_valid g then ret (failure 404 ''Group not found'')
     else bindM (userInGroup E (u_id user) (g_id g)) (\<lambda>member.
     if \<not> member then ret (failure 403 ''User not authorized'')
     else bindM (getCluster E (v_cluster described)) (\<lambda>c.
     if \<not> c_valid c then ret (failure 404 ''Cluster not found'')
     else bindM (may_use_cluster E g c) (\<lambda>allowed.
     if \<not> allowed then ret (failure 403 ''User not authorized'')
     else bindM (findPersistentVolumeClaimByName E (g_id g) (c_id c) (v_name described)) (\<lambda>existing.
     if v_valid existing then ret (failure 400 ''A volume with the same name already exists'')
     else
       let volume = described\<lparr>v_valid := True, v_id := vid, v_group := g_id g,
                      v_cluster := c_id c, v_ctime := now\<rparr> in
       bindM (store_volume E volume) (\<lambda>success.
       if \<not> success then ret (failure 500 ''Failed to store volume to the persistent store'')
       else install_volume E X volume g))))))))))))"

section \<open>Deleting\<close>

text \<open>
  The condition under which a pod is logged as malformed.  Its evaluation may trip over an
  assertion; its value changes nothing, because the branch does not continue with the next pod.
\<close>

definition pod_structure :: "json \<Rightarrow> bool check" where
  "pod_structure pod =
     bindC (HasMember pod ''metadata'') (\<lambda>h1. if \<not> h1 then Pass False else
     bindC (HasMember pod ''spec'') (\<lambda>h2. if \<not> h2 then Pass False else
     bindC (the_member pod ''metadata'') (\<lambda>md.
     bindC (HasMember md ''generateName'') (\<lambda>h3. if \<not> h3 then Pass False else
     bindC (string_member md ''generateName'') (\<lambda>h4. if \<not> h4 then Pass False else
     bindC (the_member pod ''spec'') (\<lambda>spec. if \<not> IsObject spec then Pass False else
     bindC (HasMember spec ''volumes'') (\<lambda>h5. if \<not> h5 then Pass False else
     bindC (the_member spec ''volumes'') (\<lambda>volumes. Pass (IsArray volumes)))))))))"

text \<open>The name of a pod, and the instance it belongs to if it has that label.\<close>

definition pod_info :: "json \<Rightarrow> string list check" where
  "pod_info pod =
     bindC (the_member pod ''metadata'') (\<lambda>md.
     bindC (text_of md ''generateName'') (\<lambda>name.
     bindC (HasMember md ''labels'') (\<lambda>has_labels.
     if \<not> has_labels then Pass [name]
     else bindC (the_member md ''labels'') (\<lambda>labels.
          bindC (HasMember labels ''instanceID'') (\<lambda>has_ID.
          if \<not> has_ID then Pass [name]
          else bindC (text_of labels ''instanceID'') (\<lambda>i. Pass [name, i]))))))"

fun mounts_of_pod :: "string \<Rightarrow> json \<Rightarrow> json list \<Rightarrow> string list list check" where
  "mounts_of_pod volume pod [] = Pass []"
| "mounts_of_pod volume pod (podVolume # rest) =
     bindC (HasMember podVolume ''persistentVolumeClaim'') (\<lambda>has.
     bindC (if \<not> has then Pass []
            else bindC (the_member podVolume ''persistentVolumeClaim'') (\<lambda>claim.
                 bindC (the_member claim ''claimName'') (\<lambda>claimName.
                 if claimName = J_string volume then bindC (pod_info pod) (\<lambda>info. Pass [info])
                 else Pass []))) (\<lambda>found.
     bindC (mounts_of_pod volume pod rest) (\<lambda>more. Pass (found @ more))))"

fun podsMountedBy :: "string \<Rightarrow> json list \<Rightarrow> string list list check" where
  "podsMountedBy volume [] = Pass []"
| "podsMountedBy volume (pod # rest) =
     (if \<not> IsObject pod then podsMountedBy volume rest
      else
        bindC (pod_structure pod) (\<lambda>_.
        bindC (the_member pod ''spec'') (\<lambda>spec.
        bindC (the_member spec ''volumes'') (\<lambda>volumes.
        bindC (GetArray volumes) (\<lambda>podVolumes.
        bindC (mounts_of_pod volume pod podVolumes) (\<lambda>found.
        bindC (podsMountedBy volume rest) (\<lambda>more. Pass (found @ more))))))))"

definition mounted_message :: "string list list \<Rightarrow> string" where
  "mounted_message pods =
     ''Cannot delete volume from Kubernetes which is currently mounted by one or more pods: \<newline>'' @
     concat (map (\<lambda>pod. pod ! 0 @
       (if length pod > 1 then '' (Slate ID: '' @ pod ! 1 @ '')\<newline>'' else '''')) pods)"

definition mounted_by :: "json \<Rightarrow> string \<Rightarrow> string list list check" where
  "mounted_by podData volume =
     bindC (the_member podData ''items'') (\<lambda>items.
     bindC (GetArray items) (podsMountedBy volume))"

text \<open>
  The part of \<open>internal::deleteVolumeClaim\<close> inside its \<open>try\<close> block: an error message, or nothing
  to go on to the database.  Whether \<open>kubectl get pods\<close> succeeded is not looked at.
\<close>

definition delete_claim_from_kubernetes ::
  "'w env \<Rightarrow> 'w services \<Rightarrow> PersistentVolumeClaim \<Rightarrow> Group \<Rightarrow> bool \<Rightarrow>
     (('w, 'z) cluster_store_scheme, string option) op" where
  "delete_claim_from_kubernetes E X volume g force =
     bindM (configPathForCluster E (v_cluster volume)) (\<lambda>configPath.
     bindM (kubectl E configPath
              [''get'', ''pods'', ''--namespace'', namespaceName g, ''-o=json'']) (\<lambda>podResult.
     case mounted_by (x_parse X (c_str (cmd_output podResult))) (v_name volume) of
       Abort e \<Rightarrow> throw e
     | Reject r \<Rightarrow> throw assertion_failed
     | Pass pods \<Rightarrow>
         if pods \<noteq> [] then ret (Some (mounted_message pods))
         else
           bindM (kubectl E configPath
                    [''delete'', ''pvc'', v_name volume, ''--namespace'', namespaceName g]) (\<lambda>result.
           ret (if cmd_status result \<noteq> 0 \<and> \<not> force
                then Some ''Failed to delete volume from kubernetes'' else None))))"

definition delete_volume_claim ::
  "'w env \<Rightarrow> 'w services \<Rightarrow> PersistentVolumeClaim \<Rightarrow> bool \<Rightarrow> bool \<Rightarrow>
     (('w, 'z) volume_store_scheme, string) op" where
  "delete_volume_claim E X volume force reachable =
     bindM (if \<not> reachable then ret None
            else bindM (findGroupByID E (v_group volume)) (\<lambda>g.
                 catchM (delete_claim_from_kubernetes E X volume g force)
                   (\<lambda>_. ret (if force then None
                            else Some ''Failed to delete volume from kubernetes'')))) (\<lambda>problem.
     case problem of
       Some message \<Rightarrow> ret message
     | None \<Rightarrow>
         bindM (removePersistentVolumeClaim E (v_id volume)) (\<lambda>success.
         ret (if success then '''' else ''Failed to delete volume from database'')))"

definition do_deleteVolumeClaim ::
  "'w env \<Rightarrow> 'w services \<Rightarrow> request \<Rightarrow> string \<Rightarrow> (('w, 'z) volume_store_scheme, response) op" where
  "do_deleteVolumeClaim E X req claimID =
     requester E req ''User not authorized'' (\<lambda>user.
     bindM (getPersistentVolumeClaim E claimID) (\<lambda>volume.
     if \<not> v_valid volume then ret (failure 404 ''Volume not found'')
     else bindM (if u_admin user then ret True
                 else userInGroup E (u_id user) (v_group volume)) (\<lambda>allowed.
     if \<not> allowed then ret (failure 403 ''User not authorized'')
     else bindM (delete_volume_claim E X volume (req_params req ''force'' \<noteq> None) True) (\<lambda>err.
     if err \<noteq> [] then ret (failure 500 err) else ret okay))))"

end
