(* ===== verification/Dns.thy ===== *)
theory Dns
  imports Web
begin

text \<open>
  \<open>src/DNSManipulator.cpp\<close>: the address records that the server makes for clusters.  The name
  service is Amazon's Route 53, of which two requests are used, \<open>x_testDNSAnswer\<close> and
  \<open>x_changeDNSRecords\<close>.  Of the text of a failed request only its message is kept.
\<close>

definition heritageTag :: string where "heritageTag = ''heritage=slate-api''"

section \<open>The hosted zones\<close>

definition rfind :: "char \<Rightarrow> string \<Rightarrow> nat option" where
  "rfind c s =
     (if c \<in> set s then Some (length s - 1 - length (takeWhile (\<lambda>x. x \<noteq> c) (rev s))) else None)"

definition zone_id :: "string \<Rightarrow> string" where
  "zone_id i = (case rfind (CHR ''/'') i of None \<Rightarrow> i | Some pos \<Rightarrow> drop (pos + 1) i)"

text \<open>
  The constructor: Route 53 is only used together with the real DynamoDB.  A failed listing of
  the zones is a fatal error, a \<open>std::runtime_error\<close>.
\<close>

definition new_DNSManipulator ::
  "string \<Rightarrow> (string \<times> string) list outcome \<Rightarrow> DNSManipulator outcome" where
  "new_DNSManipulator endpoint zones =
     (if \<not> occurs_in ''amazonaws.com'' endpoint
      then Inr \<lparr>hostedZones = [], validServer = False\<rparr>
      else case zones of
             Inl err \<Rightarrow> Inl (''Failed to list hosted DNS zones: '' @ err)
           | Inr zs \<Rightarrow> Inr \<lparr>hostedZones = map (\<lambda>(name, i). (name, zone_id i)) zs, validServer = True\<rparr>)"

text \<open>The last two labels of a name, with a dot at the end.\<close>

definition zoneForName :: "string \<Rightarrow> string outcome" where
  "zoneForName name =
     (let zone =
        (case rfind (CHR ''.'') name of
           None \<Rightarrow> ''''
         | Some pos \<Rightarrow>
             if pos = 0 then ''''
             else (case rfind (CHR ''.'') (take pos name) of
                     None \<Rightarrow> ''''
                   | Some pos' \<Rightarrow> drop (pos' + 1) name @ ''.''))
      in if zone = [] then Inl (''Unable to extract zone from '' @ name) else Inr zone)"

definition hostedZone :: "DNSManipulator \<Rightarrow> string \<Rightarrow> string outcome" where
  "hostedZone dns name =
     bindE (zoneForName name) (\<lambda>zone.
     case map_of (hostedZones dns) zone of
       None \<Rightarrow> Inl (zone @ '' is not a hosted zone in this AWS account'')
     | Some i \<Rightarrow> Inr i)"

section \<open>Records\<close>

text \<open>Lifting a value that may be an exception.\<close>

definition liftE :: "'a outcome \<Rightarrow> ('s, 'a) op" where
  "liftE r s = (r, s)"

fun rr_type_name :: "rr_type \<Rightarrow> string" where
  "rr_type_name RR_A = ''A''" | "rr_type_name RR_AAAA = ''AAAA''" | "rr_type_name RR_TXT = ''TXT''"

definition test_answer :: "'w services \<Rightarrow> string \<Rightarrow> string \<Rightarrow> rr_type \<Rightarrow> string \<Rightarrow>
    (('w, 'z) base_store_scheme, string list) op" where
  "test_answer X zone name t label s =
     (case call (x_testDNSAnswer X zone name t) s of
        (Inl err, s1) \<Rightarrow> (Inl (''Failed to look up '' @ label @ '' record for '' @ name @ '': '' @ err), s1)
      | (Inr records, s1) \<Rightarrow> (Inr records, s1))"

definition safeToModifyDNS :: "'w services \<Rightarrow> string \<Rightarrow> rr_type \<Rightarrow>
    (('w, 'z) base_store_scheme, bool) op" where
  "safeToModifyDNS X name t =
     bindM (liftE (hostedZone (x_dns X) name)) (\<lambda>zone.
     bindM (test_answer X zone name t ''A'') (\<lambda>base.
     bindM (test_answer X zone name RR_TXT ''TXT'') (\<lambda>heritage.
     ret (base = [] \<or> (\<exists>record \<in> set heritage. occurs_in heritageTag record)))))"

definition no_server :: what where "no_server = ''No valid Route53 server''"

definition getDNSRecord :: "'w services \<Rightarrow> rr_type \<Rightarrow> string \<Rightarrow>
    (('w, 'z) base_store_scheme, string list) op" where
  "getDNSRecord X t name =
     (if \<not> validServer (x_dns X) then throw no_server
      else bindM (liftE (hostedZone (x_dns X) name)) (\<lambda>zone.
           test_answer X zone name t (rr_type_name t)))"

definition v4_char :: "char \<Rightarrow> bool" where
  "v4_char c \<longleftrightarrow> isdigit c \<or> c = CHR ''.''"

definition v6_char :: "char \<Rightarrow> bool" where
  "v6_char c \<longleftrightarrow> isdigit c \<or> (97 \<le> code c \<and> code c \<le> 102) \<or> (65 \<le> code c \<and> code c \<le> 70) \<or>
     c = CHR '':''"

definition address_type :: "string \<Rightarrow> rr_type outcome" where
  "address_type address =
     (if address = [] then Inl ''Invalid IP address: must not be empty''
      else if list_all v4_char address then Inr RR_A
      else if list_all v6_char address then Inr RR_AAAA
      else Inl (''Unrecognized IP address type: '' @ address))"

text \<open>Both records of a name are written, or deleted, in one request.\<close>

definition both_records :: "dns_action \<Rightarrow> string \<Rightarrow> rr_type \<Rightarrow> string \<Rightarrow> dns_change list" where
  "both_records action name t address =
     [(action, name, t, address), (action, name, RR_TXT, [CHR 0x22] @ heritageTag @ [CHR 0x22])]"

definition change_DNS :: "'w services \<Rightarrow> dns_action \<Rightarrow> string \<Rightarrow> string \<Rightarrow>
    (('w, 'z) base_store_scheme, bool) op" where
  "change_DNS X action name address =
     (if \<not> validServer (x_dns X) then throw no_server
      else bindM (liftE (address_type address)) (\<lambda>t.
           bindM (safeToModifyDNS X name t) (\<lambda>safe.
           if \<not> safe then ret False
           else bindM (liftE (hostedZone (x_dns X) name)) (\<lambda>zone.
                callM (x_changeDNSRecords X zone (both_records action name t address))))))"

definition setDNSRecord :: "'w services \<Rightarrow> string \<Rightarrow> string \<Rightarrow> (('w, 'z) base_store_scheme, bool) op" where
  "setDNSRecord X name address = change_DNS X Upsert name address"

definition removeDNSRecord :: "'w services \<Rightarrow> string \<Rightarrow> string \<Rightarrow> (('w, 'z) base_store_scheme, bool) op" where
  "removeDNSRecord X name address = change_DNS X Delete_record name address"

end
