(* ===== verification/DeletionCommands.thy ===== *)
theory DeletionCommands
  imports AccessCommands VolumeCommands Dns
begin

text \<open>
  Deleting what depends on other things: application instances
  (\<open>src/ApplicationInstanceCommands.cpp\<close>), clusters with everything on them
  (\<open>src/ClusterCommands.cpp\<close>), and groups with everything they own
  (\<open>src/GroupCommands.cpp\<close>); with the listing of instances and \<open>pingCluster\<close>.

  The code starts a thread for each part and then waits for them.  In the model the parts run one
  after the other, in the order in which they are started.
\<close>

section \<open>Parts of a deletion\<close>

text \<open>
  \<open>std::async\<close>: an exception is kept for whoever asks for the result.  A failed assertion or
  undefined behaviour is no exception.
\<close>

definition fatal :: "what \<Rightarrow> bool" where
  "fatal e \<longleftrightarrow> e = assertion_failed \<or> e = ''undefined behaviour''"

definition async :: "('s, 'a) op \<Rightarrow> ('s, 'a outcome) op" where
  "async m s =
     (case m s of
        (Inl e, s') \<Rightarrow> if fatal e then (Inl e, s') else (Inr (Inl e), s')
      | (Inr a, s') \<Rightarrow> (Inr (Inr a), s'))"

definition asyncP :: "('s, 'a) paged \<Rightarrow> ('s, 'a outcome) paged" where
  "asyncP m s =
     (case m s of
        None \<Rightarrow> None
      | Some (Inl e, s') \<Rightarrow> if fatal e then Some (Inl e, s') else Some (Inr (Inl e), s')
      | Some (Inr a, s') \<Rightarrow> Some (Inr (Inr a), s'))"

primrec mapP :: "('x \<Rightarrow> ('s, 'a) paged) \<Rightarrow> 'x list \<Rightarrow> ('s, 'a list) paged" where
  "mapP f [] = whole (ret [])"
| "mapP f (x # xs) = bindP (f x) (\<lambda>a. bindP (mapP f xs) (\<lambda>rest. whole (ret (a # rest))))"

section \<open>Reachability\<close>

definition ping_cluster ::
  "'w env \<Rightarrow> Cluster \<Rightarrow> (('w, 'z) cluster_store_scheme, bool) op" where
  "ping_cluster E cluster =
     bindM (configPathForCluster E (c_id cluster)) (\<lambda>configPath.
     bindM (kubectl E configPath
              [''get'', ''serviceaccounts'', ''-o=jsonpath={.items[*].metadata.name}'']) (\<lambda>clusterInfo.
     ret (cmd_status clusterInfo = 0 \<and> occurs_in ''default'' (cmd_output clusterInfo))))"

definition check_reachability ::
  "'w env \<Rightarrow> Cluster \<Rightarrow> (('w, 'z) cluster_store_scheme, bool) op" where
  "check_reachability E cluster =
     bindM (ping_cluster E cluster) (\<lambda>reachable.
     bindM (cacheClusterReachability E (c_id cluster) reachable) (\<lambda>_. ret reachable))"

definition do_pingCluster ::
  "'w env \<Rightarrow> request \<Rightarrow> string \<Rightarrow> (('w, 'z) cluster_store_scheme, response) op" where
  "do_pingCluster E req clusterID =
     requester E req ''User not authorized'' (\<lambda>user.
     with_cluster E clusterID (\<lambda>cluster.
     bindM (if req_params req ''cache'' \<noteq> None then getCachedClusterReachability E (c_id cluster)
            else ret (cr_stale False)) (\<lambda>cacheResult s.
     bindM (if cr_good (steady_now E s) cacheResult then ret (cr_record cacheResult)
            else check_reachability E cluster) (\<lambda>reachable.
     ret (reply (J_object
       [(''apiVersion'', J_string ''v1alpha3''), (''reachable'', J_bool reachable)]))) s)))"

section \<open>Application instances\<close>

text \<open>What follows the first slash, if anything does.\<close>

definition chart_of :: "string \<Rightarrow> string" where
  "chart_of application =
     (let rest = dropWhile (\<lambda>c. c \<noteq> CHR ''/'') application
      in if length rest \<ge> 2 then tl rest else application)"

definition instance_entry_document ::
  "'w env \<Rightarrow> ApplicationInstance \<Rightarrow> (('w, 'z) cluster_store_scheme, json) op" where
  "instance_entry_document E i =
     bindM (getGroup E (i_owningGroup i)) (\<lambda>g.
     bindM (getCluster E (i_cluster i)) (\<lambda>c.
     ret (J_object
       [(''apiVersion'', J_string ''v1alpha3''),
        (''kind'', J_string ''ApplicationInstance''),
        (''metadata'', J_object
           [(''id'', J_string (i_id i)), (''name'', J_string (i_name i)),
            (''application'', J_string (chart_of (i_application i))),
            (''group'', J_string (g_name g)), (''cluster'', J_string (c_name c)),
            (''created'', J_string (i_ctime i))])])))"

definition do_listApplicationInstances ::
  "'w env \<Rightarrow> nat \<Rightarrow> request \<Rightarrow> (('w, 'z) instance_store_scheme, response) paged" where
  "do_listApplicationInstances E budget req =
     requesterP E req ''User not authorized'' (\<lambda>user.
     let groupParam = req_params req ''group''; clusterParam = req_params req ''cluster'';
         text = (\<lambda>p. case p of None \<Rightarrow> '''' | Some t \<Rightarrow> t)
     in bindP (if groupParam \<noteq> None \<or> clusterParam \<noteq> None
               then whole (listApplicationInstancesByClusterOrGroup E (text groupParam)
                             (text clusterParam))
               else listApplicationInstances E budget) (\<lambda>instances.
     whole (bindM (mapM (instance_entry_document E) instances) (\<lambda>items.
       ret (reply (list_document items))))))"

definition helm_delete_args :: "nat \<Rightarrow> string \<Rightarrow> string \<Rightarrow> string list" where
  "helm_delete_args version name namespace =
     (if version = 2 then [''delete'', ''--purge'', name]
      else if version = 3 then [''delete'', name, ''--namespace'', namespace]
      else [''delete'', name])"

definition release_message :: "string \<Rightarrow> string \<Rightarrow> string" where
  "release_message name done_what =
     ''release '' @ [CHR 0x22] @ name @ [CHR 0x22] @ '' '' @ done_what"

definition helm_deleted :: "string \<Rightarrow> command_result \<Rightarrow> bool" where
  "helm_deleted name r \<longleftrightarrow>
     cmd_status r = 0 \<and>
     (occurs_in (release_message name ''deleted'') (cmd_output r) \<or>
      occurs_in (release_message name ''uninstalled'') (cmd_output r))"

text \<open>The part in the \<open>try\<close> block: an error message, or nothing to go on to the database.\<close>

definition uninstall_instance :: "'w env \<Rightarrow> 'w services \<Rightarrow> ApplicationInstance \<Rightarrow> bool \<Rightarrow>
    (('w, 'z) cluster_store_scheme, string option) op" where
  "uninstall_instance E X i force =
     bindM (getGroup E (i_owningGroup i)) (\<lambda>g.
     bindM (configPathForCluster E (i_cluster i)) (\<lambda>configPath.
     bindM (getCluster E (i_cluster i)) (\<lambda>c.
     bindM (getHelmMajorVersion E) (\<lambda>version.
     bindM (helm E X configPath (c_systemNamespace c)
              (helm_delete_args version (i_name i) (namespaceName g))) (\<lambda>result.
     ret (if helm_deleted (i_name i) result \<or> force then None
          else Some (''helm delete failed: '' @ cmd_error result)))))))"

text \<open>\<open>internal::deleteApplicationInstance\<close>: the error message, empty on success.\<close>

definition delete_instance :: "'w env \<Rightarrow> 'w services \<Rightarrow> ApplicationInstance \<Rightarrow> bool \<Rightarrow>
    (('w, 'z) instance_store_scheme, string) op" where
  "delete_instance E X i force =
     bindM (catchM (uninstall_instance E X i force)
              (\<lambda>e. ret (if force then None
                       else Some (''Failed to delete instance using helm: '' @ e)))) (\<lambda>problem.
     case problem of
       Some message \<Rightarrow> ret message
     | None \<Rightarrow>
         bindM (removeApplicationInstance E (i_id i)) (\<lambda>success.
         ret (if success then '''' else ''Failed to delete instance from database'')))"

definition do_deleteApplicationInstance ::
  "'w env \<Rightarrow> 'w services \<Rightarrow> request \<Rightarrow> string \<Rightarrow> (('w, 'z) instance_store_scheme, response) op" where
  "do_deleteApplicationInstance E X req instanceID =
     requester E req ''User not authorized'' (\<lambda>user.
     bindM (getApplicationInstance E instanceID) (\<lambda>i.
     if \<not> i_valid i then ret (failure 404 ''Application instance not found'')
     else bindM (if u_admin user then ret True
                 else userInGroup E (u_id user) (i_owningGroup i)) (\<lambda>allowed.
     if \<not> allowed then ret (failure 403 ''User not authorized'')
     else bindM (delete_instance E X i (req_params req ''force'' \<noteq> None)) (\<lambda>err.
     if err \<noteq> [] then ret (failure 500 err) else ret okay))))"

section \<open>Clusters\<close>

fun delete_instances_on :: "'w env \<Rightarrow> 'w services \<Rightarrow> Cluster \<Rightarrow> bool \<Rightarrow> ApplicationInstance list \<Rightarrow>
    (('w, 'z) instance_store_scheme, string option) op" where
  "delete_instances_on E X cluster force [] = ret None"
| "delete_instances_on E X cluster force (i # rest) =
     (if i_cluster i \<noteq> c_id cluster then delete_instances_on E X cluster force rest
      else bindM (delete_instance E X i force) (\<lambda>result.
           if \<not> force \<and> result \<noteq> []
           then ret (Some (''Failed to delete cluster due to failure deleting instance: '' @ result))
           else delete_instances_on E X cluster force rest))"

text \<open>Asking for the results of the threads one after the other.\<close>

fun first_problem :: "bool \<Rightarrow> string \<Rightarrow> string outcome list \<Rightarrow> string option outcome" where
  "first_problem force prefix [] = Inr None"
| "first_problem force prefix (Inl e # rest) = Inl e"
| "first_problem force prefix (Inr result # rest) =
     (if \<not> force \<and> result \<noteq> [] then Inr (Some (prefix @ result))
      else first_problem force prefix rest)"

text \<open>
  Secrets and volumes on the cluster.  Both kinds are deleted with force, and the results of the
  volumes are looked at first.
\<close>

definition delete_contents :: "'w env \<Rightarrow> 'w services \<Rightarrow> Cluster \<Rightarrow> bool \<Rightarrow> bool \<Rightarrow>
    (('w, 'z) volume_store_scheme, string option) op" where
  "delete_contents E X cluster force reachable =
     bindM (listSecrets E '''' (c_id cluster)) (\<lambda>secrets.
     bindM (mapM (\<lambda>x. async (delete_secret E x True reachable)) secrets) (\<lambda>secretResults.
     bindM (listPersistentVolumeClaimsByClusterOrGroup E '''' (c_id cluster)) (\<lambda>volumes.
     bindM (mapM (\<lambda>x. async (delete_volume_claim E X x True reachable)) volumes) (\<lambda>volumeResults s.
       (bindE (first_problem force ''Failed to delete cluster due to failure deleting volume: ''
                 volumeResults) (\<lambda>problem.
        if problem \<noteq> None then Inr problem
        else first_problem force ''Failed to delete cluster due to failure deleting secret: ''
               secretResults), s)))))"

definition delete_namespaces ::
  "'w env \<Rightarrow> nat \<Rightarrow> string \<Rightarrow> bool \<Rightarrow> (('w, 'z) group_store_scheme, unit) paged" where
  "delete_namespaces E budget configPath reachable =
     (if \<not> reachable then whole (ret ())
      else bindP (listGroups E budget) (\<lambda>vos.
           whole (bindM (mapM (\<lambda>g. async (kubectl_delete_namespace E configPath g)) vos)
             (\<lambda>_. ret ()))))"

definition dns_record :: "'w services \<Rightarrow> rr_type \<Rightarrow> string \<Rightarrow>
    (('w, 'z) base_store_scheme, string list) op" where
  "dns_record X t name = catchM (getDNSRecord X t name) (\<lambda>_. ret [])"

text \<open>The DNS record of the cluster; whatever goes wrong is only logged.\<close>

definition delete_dns ::
  "'w services \<Rightarrow> Cluster \<Rightarrow> (('w, 'z) base_store_scheme, unit) op" where
  "delete_dns X cluster =
     (let dnsName = ''*.'' @ dnsNameForCluster (x_baseDomain X) cluster
      in if \<not> validServer (x_dns X) then ret ()
         else bindM (dns_record X RR_A dnsName) (\<lambda>record4.
              bindM (if record4 = [] then dns_record X RR_AAAA dnsName else ret record4) (\<lambda>record.
              if record = [] then ret ()
              else bindM (catchM (removeDNSRecord X dnsName (hd record)) (\<lambda>_. ret False))
                     (\<lambda>_. ret ()))))"

definition delete_cluster_record ::
  "'w env \<Rightarrow> Cluster \<Rightarrow> (('w, 'z) cluster_store_scheme, string) op" where
  "delete_cluster_record E cluster =
     bindM (remove_cluster_credential E cluster True) (\<lambda>credRemoval.
     if credRemoval \<noteq> [] then ret (''Cluster deletion failed: '' @ credRemoval)
     else bindM (removeCluster E (c_id cluster)) (\<lambda>removed.
          ret (if removed then '''' else ''Cluster deletion failed'')))"

text \<open>\<open>internal::deleteCluster\<close>.\<close>

definition delete_cluster :: "'w env \<Rightarrow> 'w services \<Rightarrow> nat \<Rightarrow> Cluster \<Rightarrow> bool \<Rightarrow>
    (('w, 'z) volume_store_scheme, string) paged" where
  "delete_cluster E X budget cluster force =
     bindP (whole (configPathForCluster E (c_id cluster))) (\<lambda>configPath.
     bindP (listApplicationInstances E budget) (\<lambda>instances.
     bindP (whole (delete_instances_on E X cluster force instances)) (\<lambda>problem.
     case problem of Some message \<Rightarrow> whole (ret message) | None \<Rightarrow>
     bindP (whole (check_reachability E cluster)) (\<lambda>reachable.
     if \<not> reachable \<and> \<not> force then whole (ret ''Must force delete an unreachable cluster'')
     else bindP (whole (delete_contents E X cluster force reachable)) (\<lambda>problem.
     case problem of Some message \<Rightarrow> whole (ret message) | None \<Rightarrow>
     bindP (delete_namespaces E budget configPath reachable) (\<lambda>_.
     bindP (whole (delete_dns X cluster)) (\<lambda>_.
     whole (delete_cluster_record E cluster))))))))"

definition cluster_notice :: "string list \<Rightarrow> Cluster \<Rightarrow> Email" where
  "cluster_notice contacts cluster = no_email
     \<lparr>fromAddress := ''noreply@slate.io'', toAddresses := contacts,
      subject := ''SLATE: Cluster Deleted'',
      mail_body := ''A cluster your organization has access to ('' @ c_name cluster @
        '') has been deleted by the cluster administrator.''\<rparr>"

definition notify_groups :: "'w env \<Rightarrow> 'w services \<Rightarrow> Cluster \<Rightarrow> string list \<Rightarrow>
    (('w, 'z) group_store_scheme, response) op" where
  "notify_groups E X cluster vos =
     bindM (mapM (getGroup E) vos) (\<lambda>groups.
     bindM (sendEmail X (cluster_notice (map g_email groups) cluster)) (\<lambda>_. ret okay))"

definition do_deleteCluster :: "'w env \<Rightarrow> 'w services \<Rightarrow> nat \<Rightarrow> request \<Rightarrow> string \<Rightarrow>
    (('w, 'z) volume_store_scheme, response) paged" where
  "do_deleteCluster E X budget req clusterID =
     requesterP E req ''User not authorized'' (\<lambda>user.
     bindP (whole (getCluster E clusterID)) (\<lambda>cluster.
     if \<not> c_valid cluster then whole (ret (failure 404 ''Cluster not found''))
     else let force = req_params req ''force'' \<noteq> None in
     bindP (whole (userInGroup E (u_id user) (c_owningGroup cluster))) (\<lambda>member.
     if \<not> member \<and> (\<not> force \<or> \<not> u_admin user) then whole (ret (failure 403 ''User not authorized''))
     else bindP (whole (listGroupsAllowedOnCluster E clusterID False)) (\<lambda>vos.
     bindP (whole (check_reachability E cluster)) (\<lambda>reachable.
     if \<not> reachable \<and> \<not> force
     then whole (ret (failure 500 ''Cluster not reachable, please use force option when deleting''))
     else bindP (delete_cluster E X budget cluster force) (\<lambda>err.
     if err \<noteq> [] then whole (ret (failure 500 err))
     else whole (notify_groups E X cluster vos)))))))"

section \<open>Groups\<close>

text \<open>
  The record of the group goes first; what follows cannot change the answer any more.  The secrets
  look up their group, which is gone by then.
\<close>

definition delete_belongings :: "'w env \<Rightarrow> 'w services \<Rightarrow> nat \<Rightarrow> Group \<Rightarrow>
    (('w, 'z) volume_store_scheme, response) paged" where
  "delete_belongings E X budget g =
     bindP (whole (bindM (listApplicationInstancesByClusterOrGroup E (g_id g) '''') (\<lambda>instances.
            bindM (mapM (\<lambda>i. async (delete_instance E X i True)) instances) (\<lambda>_.
            bindM (listSecrets E (g_id g) '''') (\<lambda>secrets.
            mapM (\<lambda>x. async (delete_secret E x True True)) secrets))))) (\<lambda>_.
     bindP (listClusters E budget) (\<lambda>clusters.
     bindP (whole (mapM (\<lambda>c. async (bindM (configPathForCluster E (c_id c)) (\<lambda>configPath.
              kubectl_delete_namespace E configPath g))) clusters)) (\<lambda>_.
     bindP (mapP (\<lambda>c. asyncP (delete_cluster E X budget c True))
              (filter (\<lambda>c. c_owningGroup c = g_id g) clusters)) (\<lambda>_.
     whole (ret okay)))))"

definition do_deleteGroup :: "'w env \<Rightarrow> 'w services \<Rightarrow> nat \<Rightarrow> request \<Rightarrow> string \<Rightarrow>
    (('w, 'z) volume_store_scheme, response) paged" where
  "do_deleteGroup E X budget req groupID =
     requesterP E req ''User not authorized'' (\<lambda>user.
     bindP (whole (getGroup E groupID)) (\<lambda>targetGroup.
     if \<not> g_valid targetGroup then whole (ret (failure 404 ''Group not found''))
     else bindP (whole (if u_admin user then ret True
                        else userInGroup E (u_id user) groupID)) (\<lambda>allowed.
     if \<not> allowed then whole (ret (failure 403 ''User not authorized''))
     else bindP (whole (removeGroup E (g_id targetGroup))) (\<lambda>deleted.
     if \<not> deleted then whole (ret (failure 500 ''Group deletion failed''))
     else delete_belongings E X budget targetGroup))))"

end
