(* ===== verification/ClusterSetup.thy ===== *)
theory ClusterSetup
  imports DeletionCommands
begin

text \<open>
  What registering a cluster checks and prepares (\<open>internal::ensureClusterSetup\<close> and
  \<open>internal::setClusterDNSRecord\<close> of \<open>src/ClusterCommands.cpp\<close>): the service account and its
  namespace, the installation of tiller when helm is of version 2, and the DNS record.
\<close>

section \<open>The DNS record of a cluster\<close>

definition ingress_args :: "Cluster \<Rightarrow> string list" where
  "ingress_args cluster =
     [''get'', ''services'', ''-n'', c_systemNamespace cluster,
      ''-l'', ''app.kubernetes.io/name=ingress-nginx'',
      ''-o'', ''jsonpath={.items[*].status.loadBalancer.ingress[0].ip}'']"

text \<open>The messages are for the user; none of the problems is an error.\<close>

definition make_dns_record :: "'w services \<Rightarrow> Cluster \<Rightarrow> string \<Rightarrow>
    (('w, 'z) base_store_scheme, string) op" where
  "make_dns_record X cluster address =
     (let name = dnsNameForCluster (x_baseDomain X) cluster
      in if \<not> validServer (x_dns X)
         then ret (''[Warning] The SLATE API server is not able to make DNS records, so no DNS name will be '' @
                   ''available for this cluster.\<newline>'')
         else bindM (catchM (setDNSRecord X (''*.'' @ name) address) (\<lambda>_. ret False)) (\<lambda>success.
              ret (if success
                   then ''Services using Ingress on this cluster can be assigned subdomains within the '' @
                        name @ '' domain.\<newline>''
                   else '''')))"

definition setClusterDNSRecord :: "'w env \<Rightarrow> 'w services \<Rightarrow> Cluster \<Rightarrow>
    (('w, 'z) cluster_store_scheme, string) op" where
  "setClusterDNSRecord E X cluster =
     bindM (configPathForCluster E (c_id cluster)) (\<lambda>configPath.
     bindM (kubectl E configPath (ingress_args cluster)) (\<lambda>icAddress.
     if cmd_status icAddress \<noteq> 0
     then ret (''[Warning] Failed to check ingress controller service status: '' @ cmd_error icAddress @ ''\<newline>'')
     else if cmd_output icAddress = []
     then ret (''[Warning] There is either no ingress controller service in the '' @
               c_systemNamespace cluster @ '' namespace, \<newline>or it has not received an address.\<newline>'' @
               '' A DNS record cannot be generated for this cluster until this is resolved.\<newline>'')
     else make_dns_record X cluster (cmd_output icAddress)))"

section \<open>Service account and namespace\<close>

text \<open>Deleting the record and giving up.\<close>

definition give_up :: "'w env \<Rightarrow> Cluster \<Rightarrow> string \<Rightarrow> (('w, 'z) cluster_store_scheme, 'a) op" where
  "give_up E cluster problem =
     bindM (removeCluster E (c_id cluster)) (\<lambda>_.
     throw (''Cluster registration failed: '' @ problem))"

definition contact_cluster :: "'w env \<Rightarrow> Cluster \<Rightarrow> bool \<Rightarrow> string \<Rightarrow>
    (('w, 'z) cluster_store_scheme, string) op" where
  "contact_cluster E cluster autodelete configPath =
     bindM (kubectl E configPath
              [''get'', ''serviceaccounts'', ''-o=jsonpath={.items[*].metadata.name}'']) (\<lambda>clusterInfo.
     if cmd_status clusterInfo \<noteq> 0 \<or> \<not> occurs_in ''default'' (cmd_output clusterInfo)
     then if autodelete then give_up E cluster ''Unable to contact cluster with kubectl''
          else throw ''Cluster registration failed: Unable to contact cluster with kubectl''
     else ret (cmd_output clusterInfo))"

text \<open>
  The last line of the description that names another namespace, and whether one names the right
  one.
\<close>

fun namespace_lines :: "string \<Rightarrow> string list \<Rightarrow> bool \<times> string \<Rightarrow> bool \<times> string" where
  "namespace_lines ns [] acc = acc"
| "namespace_lines ns (line # rest) (ok, badline) =
     namespace_lines ns rest
       (case string_split_columns line (CHR '' '') False of
          [label, name] \<Rightarrow>
            if label = ''Namespace:'' then if name = ns then (True, badline) else (ok, line)
            else (ok, badline)
        | _ \<Rightarrow> (ok, badline))"

definition check_namespace :: "'w env \<Rightarrow> Cluster \<Rightarrow> string \<Rightarrow> string \<Rightarrow>
    (('w, 'z) cluster_store_scheme, unit) op" where
  "check_namespace E cluster configPath accounts =
     (let ns = c_systemNamespace cluster;
          serviceAccounts = string_split_columns accounts (CHR '' '') False
      in if serviceAccounts = []
         then give_up E cluster ''Found no ServiceAccounts in the default namespace''
         else if ns \<notin> set serviceAccounts
         then throw (''Cluster registration failed: Unable to find matching service account in default namespace'')
         else bindM (kubectl E configPath [''describe'', ''serviceaccount'', ns]) (\<lambda>namespaceCheck.
              if cmd_status namespaceCheck \<noteq> 0
              then give_up E cluster ''Checking default namespace name failed''
              else case namespace_lines ns (string_split_lines (cmd_output namespaceCheck)) (False, '''') of
                     (ok, badline) \<Rightarrow>
                       if ok then ret ()
                       else give_up E cluster
                         (''Default namespace does not appear to match default ServiceAccount: '' @ badline @
                          '', ServiceAccount: '' @ ns)))"

section \<open>Tiller\<close>

definition tiller_installed :: "command_result \<Rightarrow> bool" where
  "tiller_installed r \<longleftrightarrow>
     cmd_status r = 0 \<and>
     (occurs_in ''Tiller (the Helm server-side component) has been installed'' (cmd_output r) \<or>
      occurs_in ''Tiller is already installed'' (cmd_output r))"

definition init_tiller :: "'w env \<Rightarrow> 'w services \<Rightarrow> Cluster \<Rightarrow> string \<Rightarrow>
    (('w, 'z) cluster_store_scheme, unit) op" where
  "init_tiller E X cluster configPath =
     (let ns = c_systemNamespace cluster
      in bindM (callE (x_runCommand X ''helm'' [''init'', ''--service-account'', ns, ''--tiller-namespace'', ns]
                  [(''KUBECONFIG'', configPath)])) (\<lambda>result.
         if \<not> tiller_installed result then give_up E cluster ''Unable to initialize helm''
         else if \<not> occurs_in ''Warning: Tiller is already installed in the cluster'' (cmd_output result) then ret ()
         else bindM (kubectl E configPath [''get'', ''deployments'', ''--namespace'', ns,
                       ''-o=jsonpath={.items[*].metadata.name}'']) (\<lambda>deployments.
              if cmd_status deployments = 0 \<and>
                 ''tiller-deploy'' \<in> set (string_split_columns (cmd_output deployments) (CHR '' '') False)
              then ret () else give_up E cluster ''Unable to initialize helm'')))"

text \<open>
  Reading the list of pods: a pod of tiller is ready when all of its containers are.  A line that
  cannot be read ends the search.
\<close>

datatype pod_line = Not_tiller | Unreadable | Containers bool

definition tiller_line :: "string \<Rightarrow> pod_line" where
  "tiller_line line =
     (case string_split_columns line (CHR '' '') False of
        name # ready # status # rest \<Rightarrow>
          if \<not> occurs_in ''tiller-deploy'' name then Not_tiller
          else (let numers = takeWhile (\<lambda>c. c \<noteq> CHR ''/'') ready;
                    denoms = tl (dropWhile (\<lambda>c. c \<noteq> CHR ''/'') ready)
                in if CHR ''/'' \<notin> set ready \<or> numers = [] \<or> denoms = [] then Unreadable
                   else (case (stoul numers, stoul denoms) of
                           (Some numer, Some denom) \<Rightarrow> Containers (numer > 0 \<and> numer = denom)
                         | _ \<Rightarrow> Unreadable))
      | _ \<Rightarrow> Not_tiller)"

fun tiller_ready :: "string list \<Rightarrow> bool" where
  "tiller_ready [] \<longleftrightarrow> False"
| "tiller_ready (line # rest) \<longleftrightarrow>
     (case tiller_line line of
        Not_tiller \<Rightarrow> tiller_ready rest
      | Unreadable \<Rightarrow> False
      | Containers ready \<Rightarrow> ready \<or> tiller_ready rest)"

text \<open>
  The loop sleeps 500 milliseconds between two looks and for 120 seconds in all; the number given
  is that of the sleeps that are left.
\<close>

definition tiller_look :: "'w env \<Rightarrow> Cluster \<Rightarrow> string \<Rightarrow>
    (('w, 'z) base_store_scheme, string) op \<Rightarrow> (('w, 'z) base_store_scheme, string) op" where
  "tiller_look E cluster configPath again =
     bindM (kubectl E configPath [''get'', ''pods'', ''--namespace'', c_systemNamespace cluster]) (\<lambda>pods.
     if cmd_status pods \<noteq> 0 \<or> tiller_ready (string_split_lines (cmd_output pods)) then ret '''' else again)"

definition tiller_timeout :: "Cluster \<Rightarrow> string" where
  "tiller_timeout cluster =
     ''[Warning] Waiting for tiller readiness in the '' @ c_systemNamespace cluster @
     '' namespace timed out.\<newline> Applications cannot be installed on this cluster until this pod is running.\<newline>''"

primrec wait_for_tiller :: "'w env \<Rightarrow> 'w services \<Rightarrow> Cluster \<Rightarrow> string \<Rightarrow> nat \<Rightarrow>
    (('w, 'z) base_store_scheme, string) op" where
  "wait_for_tiller E X cluster configPath 0 =
     tiller_look E cluster configPath (ret (tiller_timeout cluster))"
| "wait_for_tiller E X cluster configPath (Suc sleeps) =
     tiller_look E cluster configPath
       (bindM (callM (x_sleep X 500)) (\<lambda>_. wait_for_tiller E X cluster configPath sleeps))"

definition ensure_tiller :: "'w env \<Rightarrow> 'w services \<Rightarrow> Cluster \<Rightarrow> string \<Rightarrow>
    (('w, 'z) cluster_store_scheme, string) op" where
  "ensure_tiller E X cluster configPath =
     bindM (init_tiller E X cluster configPath) (\<lambda>_.
     wait_for_tiller E X cluster configPath (120000 div 500))"

section \<open>Everything in order\<close>

definition ensureClusterSetup :: "'w env \<Rightarrow> 'w services \<Rightarrow> Cluster \<Rightarrow> bool \<Rightarrow>
    (('w, 'z) cluster_store_scheme, string) op" where
  "ensureClusterSetup E X cluster autodelete =
     bindM (configPathForCluster E (c_id cluster)) (\<lambda>configPath.
     bindM (contact_cluster E cluster autodelete configPath) (\<lambda>accounts.
     bindM (check_namespace E cluster configPath accounts) (\<lambda>_.
     bindM (updateCluster E cluster) (\<lambda>_.
     bindM (getHelmMajorVersion E) (\<lambda>helmMajorVersion.
     bindM (if helmMajorVersion = 2 then ensure_tiller E X cluster configPath else ret '''') (\<lambda>message.
     bindM (setClusterDNSRecord E X cluster) (\<lambda>dnsMessage.
     ret (message @ dnsMessage))))))))"

end
