(* ===== verification/Locations.thy ===== *)
theory Locations
  imports Web
begin

text \<open>
  Where clusters are: the text form of a \<open>GeoLocation\<close> (\<open>src/Entities.cpp\<close>), the rows in which
  the locations of a cluster are kept (\<open>src/PersistentStore.cpp\<close>), and the reverse lookup of
  coordinates (\<open>src/Geocoder.cpp\<close>).  Floating point text is the parameter \<open>x_doubles\<close>.
\<close>

section \<open>Text\<close>

definition bad_lexical_cast :: what where
  "bad_lexical_cast = ''bad lexical cast: source type value could not be interpreted as target''"

definition show_location :: "double_text \<Rightarrow> GeoLocation \<Rightarrow> string" where
  "show_location D gl =
     d_print D (gl_lat gl) @ '','' @ d_print D (gl_lon gl) @
     (if gl_description gl \<noteq> [] then '' - '' @ gl_description gl else '''')"

text \<open>
  \<open>getline\<close>, and the condition of \<open>boost::lexical_cast\<close> that nothing is left to read after it.
  Reading nothing at all is a failure.
\<close>

definition last_line :: "string \<Rightarrow> string option" where
  "last_line text =
     (let line = takeWhile (\<lambda>c. c \<noteq> CHR 0x0A) text
      in if text = [] then None
         else if length text \<le> length line + 1 then Some line else None)"

text \<open>
  \<open>boost::lexical_cast<GeoLocation>\<close>, which does not skip spaces: \<open>None\<close> is a
  \<open>bad_lexical_cast\<close>.
\<close>

definition read_location :: "double_text \<Rightarrow> string \<Rightarrow> GeoLocation option" where
  "read_location D text =
     (case d_read D text of
        None \<Rightarrow> None
      | Some (lat, after_lat) \<Rightarrow>
          (case after_lat of
             [] \<Rightarrow> None
           | comma # text2 \<Rightarrow>
               if comma \<noteq> CHR '','' then None
               else (case d_read D text2 of
                       None \<Rightarrow> None
                     | Some (lon, rest) \<Rightarrow>
                         if rest = []
                         then Some \<lparr>gl_lat = lat, gl_lon = lon, gl_description = ''''\<rparr>
                         else if begins_with '' - '' rest
                         then map_option (\<lambda>d. \<lparr>gl_lat = lat, gl_lon = lon, gl_description = d\<rparr>)
                                (last_line (drop 3 rest))
                         else None)))"

section \<open>The locations of a cluster\<close>

definition locations_sortKey :: "string \<Rightarrow> string" where
  "locations_sortKey cID = cID @ '':Locations''"

text \<open>A stored text that cannot be read is logged as fatal, which throws.\<close>

fun read_locations :: "double_text \<Rightarrow> string \<Rightarrow> string list \<Rightarrow> GeoLocation list outcome" where
  "read_locations D cID [] = Inr []"
| "read_locations D cID (text # rest) =
     (case read_location D text of
        None \<Rightarrow> Inl (''Malformatted location stored for cluster '' @ cID @ '': '' @ bad_lexical_cast)
      | Some gl \<Rightarrow> bindE (read_locations D cID rest) (\<lambda>gls. Inr (gl # gls)))"

definition locations_of_item :: "double_text \<Rightarrow> string \<Rightarrow> item \<Rightarrow> GeoLocation list outcome" where
  "locations_of_item D cID it =
     (if it = [] then Inr []
      else bindE (findOrThrow it ''locations'' ''Cluster location record missing locations attribute'')
             (\<lambda>raw. read_locations D cID (GetSS raw)))"

definition cache_locations :: "'w env \<Rightarrow> string \<Rightarrow> GeoLocation list \<Rightarrow>
    ('w, 'z) cluster_store_scheme \<Rightarrow> ('w, 'z) cluster_store_scheme" where
  "cache_locations E cID locations s =
     s\<lparr>clusterLocationCache := replaceCacheRecord (clusterLocationCache s) cID
         (cr_fresh locations (steady_now E s) clusterCacheValidity)\<rparr>"

definition getLocationsForCluster :: "'w env \<Rightarrow> 'w services \<Rightarrow> string \<Rightarrow>
    (('w, 'z) cluster_store_scheme, GeoLocation list) op" where
  "getLocationsForCluster E X idOrName =
     bindM (normalizeClusterID E idOrName) (\<lambda>normalized s.
     case normalized of
       None \<Rightarrow> (Inr [], s)
     | Some cID \<Rightarrow>
         (case cached (steady_now E s) (clusterLocationCache s) cID of
            Some locations \<Rightarrow> (Inr locations, count_hits 1 s)
          | None \<Rightarrow>
              (case call (e_get E clusterTableName (row_key cID (locations_sortKey cID))) (count_query s) of
                 (Inl err, s1) \<Rightarrow> (Inr [], s1)
               | (Inr it, s1) \<Rightarrow>
                   (case locations_of_item (x_doubles X) cID it of
                      Inl e \<Rightarrow> (Inl e, s1)
                    | Inr locations \<Rightarrow> (Inr locations, cache_locations E cID locations s1)))))"

definition locations_item :: "double_text \<Rightarrow> string \<Rightarrow> GeoLocation list \<Rightarrow> item" where
  "locations_item D cID locations =
     row_key cID (locations_sortKey cID) @ [(''locations'', AV_SS (map (show_location D) locations))]"

definition setLocationsForCluster :: "'w env \<Rightarrow> 'w services \<Rightarrow> string \<Rightarrow> GeoLocation list \<Rightarrow>
    (('w, 'z) cluster_store_scheme, bool) op" where
  "setLocationsForCluster E X idOrName locations =
     bindM (normalizeClusterID E idOrName) (\<lambda>normalized s.
     case normalized of
       None \<Rightarrow> (Inr False, s)
     | Some cID \<Rightarrow>
         (case call (e_put E clusterTableName (locations_item (x_doubles X) cID locations)) s of
            (Inl err, s1) \<Rightarrow> (Inr False, s1)
          | (Inr _, s1) \<Rightarrow> (Inr True, cache_locations E cID locations s1)))"

section \<open>Reverse lookup\<close>

text \<open>Fields that are never set have no value.\<close>

record GeocodeResult =
  gr_latitude :: "64 word option"
  gr_longitude :: "64 word option"
  gr_error :: string
  gr_geocode :: string
  gr_geonumber :: "int option"
  gr_timezone :: string
  gr_city :: string
  gr_countryCode :: string
  gr_countryName :: string

definition no_result :: GeocodeResult where
  "no_result = \<lparr>gr_latitude = None, gr_longitude = None, gr_error = '''', gr_geocode = '''',
     gr_geonumber = None, gr_timezone = '''', gr_city = '''', gr_countryCode = '''',
     gr_countryName = ''''\<rparr>"

definition canGeocode :: "Geocoder \<Rightarrow> bool" where
  "canGeocode g \<longleftrightarrow> serviceURL g \<noteq> [] \<and> serviceAuthToken g \<noteq> []"

text \<open>A member of an object, if it is there and is a string.\<close>

fun text_member :: "json \<Rightarrow> string \<Rightarrow> string option" where
  "text_member (J_object ms) name =
     (case map_of ms name of Some (J_string t) \<Rightarrow> Some (c_str t) | _ \<Rightarrow> None)"
| "text_member _ name = None"

fun double_member :: "json \<Rightarrow> string \<Rightarrow> 64 word option" where
  "double_member (J_object ms) name =
     (case map_of ms name of Some (J_double d) \<Rightarrow> Some d | _ \<Rightarrow> None)"
| "double_member _ name = None"

fun uint64_member :: "json \<Rightarrow> string \<Rightarrow> int option" where
  "uint64_member (J_object ms) name =
     (case map_of ms name of
        Some (J_int i) \<Rightarrow> if 0 \<le> i \<and> i < 2 ^ 64 then Some i else None
      | _ \<Rightarrow> None)"
| "uint64_member _ name = None"

text \<open>\<open>error.description\<close>, as far as it is there.\<close>

fun error_description :: "json \<Rightarrow> string option" where
  "error_description (J_object ms) =
     (case map_of ms ''error'' of Some e \<Rightarrow> text_member e ''description'' | None \<Rightarrow> None)"
| "error_description _ = None"

definition or_empty :: "string option \<Rightarrow> string" where
  "or_empty t = (case t of None \<Rightarrow> '''' | Some u \<Rightarrow> u)"

definition read_geocode :: "json \<Rightarrow> GeocodeResult" where
  "read_geocode doc =
     (if \<not> IsObject doc then no_result\<lparr>gr_error := ''Failed to parse response JSON''\<rparr>
      else \<lparr>gr_latitude = double_member doc ''latt'', gr_longitude = double_member doc ''longt'',
             gr_error = or_empty (error_description doc),
             gr_geocode = or_empty (text_member doc ''geocode''),
             gr_geonumber = uint64_member doc ''geonumber'',
             gr_timezone = or_empty (text_member doc ''timezone''),
             gr_city = or_empty (text_member doc ''city''),
             gr_countryCode = or_empty (text_member doc ''prov''),
             gr_countryName =
               or_empty (case text_member doc ''countryname'' of
                           Some t \<Rightarrow> Some t | None \<Rightarrow> text_member doc ''country'')\<rparr>)"

definition lookup_url :: "'w services \<Rightarrow> GeoLocation \<Rightarrow> string" where
  "lookup_url X loc =
     serviceURL (x_geocoder X) @ ''/'' @ d_to_string (x_doubles X) (gl_lat loc) @ '','' @
     d_to_string (x_doubles X) (gl_lon loc) @ ''?json=1&auth='' @ serviceAuthToken (x_geocoder X)"

definition reverseLookup :: "'w services \<Rightarrow> GeoLocation \<Rightarrow>
    (('w, 'z) base_store_scheme, GeocodeResult) op" where
  "reverseLookup X loc =
     bindM (callE (x_httpGet X (lookup_url X loc))) (\<lambda>(status, answer).
     let doc = x_parse X (c_str answer)
     in ret (if status \<noteq> 200
             then no_result\<lparr>gr_error := ''HTTP Error '' @ show_nat status @
                    (case error_description doc of None \<Rightarrow> '''' | Some d \<Rightarrow> '': '' @ d)\<rparr>
             else read_geocode doc))"

text \<open>
  \<open>internal::supplementLocation\<close> of \<open>src/ClusterCommands.cpp\<close>.  The description is written and
  read back for the log; when that fails the exception reaches the caller.
\<close>

definition place_name :: "GeocodeResult \<Rightarrow> string \<Rightarrow> string" where
  "place_name g old =
     (let d = (if gr_city g \<noteq> [] then gr_city g else old)
      in if gr_countryName g \<noteq> [] then (if d \<noteq> [] then d @ '', '' else d) @ gr_countryName g else d)"

definition supplementLocation :: "'w services \<Rightarrow> GeoLocation \<Rightarrow>
    (('w, 'z) base_store_scheme, GeoLocation) op" where
  "supplementLocation X loc =
     (if \<not> canGeocode (x_geocoder X) then ret loc
      else bindM (reverseLookup X loc) (\<lambda>geoData.
           if gr_error geoData \<noteq> [] then ret loc
           else let loc' = loc\<lparr>gl_description := place_name geoData (gl_description loc)\<rparr>
                in if read_location (x_doubles X) (show_location (x_doubles X) loc') = None
                   then throw bad_lexical_cast
                   else ret loc'))"

end
