(* ===== verification/ClusterCommands.thy ===== *)
theory ClusterCommands
  imports ClusterSetup Locations
begin

text \<open>
  Listing, registering, updating, verifying and repairing clusters
  (\<open>src/ClusterCommands.cpp\<close>).  Deleting and pinging clusters is in theory \<open>DeletionCommands\<close>,
  access to clusters in \<open>AccessCommands\<close>, and the description of a cluster in \<open>ClusterInfo\<close>.
\<close>

section \<open>Listing\<close>

definition location_document :: "GeoLocation \<Rightarrow> json" where
  "location_document location =
     J_object
       ([(''lat'', J_double (gl_lat location)), (''lon'', J_double (gl_lon location))] @
        (if gl_description location \<noteq> [] then [(''desc'', J_string (gl_description location))] else []))"

definition cluster_entry_document :: "'w env \<Rightarrow> 'w services \<Rightarrow> Cluster \<Rightarrow>
    (('w, 'z) cluster_store_scheme, json) op" where
  "cluster_entry_document E X cluster =
     bindM (findGroupByID E (c_owningGroup cluster)) (\<lambda>g.
     bindM (getLocationsForCluster E X (c_id cluster)) (\<lambda>locations.
     ret (J_object
       [(''apiVersion'', J_string ''v1alpha3''),
        (''kind'', J_string ''Cluster''),
        (''metadata'', J_object
           [(''id'', J_string (c_id cluster)), (''name'', J_string (c_name cluster)),
            (''owningGroup'', J_string (g_name g)),
            (''owningOrganization'', J_string (c_owningOrganization cluster)),
            (''location'', J_array (map location_document locations)),
            (''hasMonitoring'', J_bool (s3_ok (c_monitoringCredential cluster)))])])))"

definition do_listClusters :: "'w env \<Rightarrow> 'w services \<Rightarrow> nat \<Rightarrow> request \<Rightarrow>
    (('w, 'z) cluster_store_scheme, response) paged" where
  "do_listClusters E X budget req =
     requesterP E req ''User not authorized'' (\<lambda>user.
     bindP (case req_params req ''group'' of
              Some g \<Rightarrow> listClustersByGroup E budget g
            | None \<Rightarrow> listClusters E budget) (\<lambda>clusters.
     whole (bindM (mapM (cluster_entry_document E X) clusters) (\<lambda>items.
       ret (reply (list_document items))))))"

section \<open>Registering\<close>

record cluster_request =
  cq_name :: string
  cq_group :: string
  cq_organization :: string
  cq_caData :: string
  cq_token :: string
  cq_serverAddress :: string
  cq_namespace :: string

text \<open>The namespace is read without a check that it is there.\<close>

definition unpack_new_cluster :: "json \<Rightarrow> cluster_request check" where
  "unpack_new_cluster doc =
     bindC (metadata_of doc ''Missing user metadata in request'' ''Incorrect type for metadata'') (\<lambda>md.
     bindC (require_string md ''name'' ''Missing cluster name in request''
              ''Incorrect type for cluster name'') (\<lambda>_.
     bindC (require_string md ''group'' ''Missing Group ID in request''
              ''Incorrect type for Group ID'') (\<lambda>_.
     bindC (require_string md ''owningOrganization'' ''Missing organization name in request''
              ''Incorrect type for organization'') (\<lambda>_.
     bindC (require_string md ''caData'' ''Missing caData in request''
              ''Incorrect type for caData'') (\<lambda>_.
     bindC (require_string md ''token'' ''Missing token in request''
              ''Incorrect type for token'') (\<lambda>_.
     bindC (require_string md ''serverAddress'' ''Missing serverAddress in request''
              ''Incorrect type for serverAddress'') (\<lambda>_.
     bindC (text_of md ''caData'') (\<lambda>caData.
     bindC (text_of md ''serverAddress'') (\<lambda>serverAddress.
     bindC (text_of md ''token'') (\<lambda>token.
     bindC (text_of md ''namespace'') (\<lambda>namespace.
     bindC (demand (namespace \<noteq> []) 400
              ''Unable to determine kubernetes namespace from kubeconfig'') (\<lambda>_.
     bindC (text_of md ''name'') (\<lambda>name.
     bindC (text_of md ''group'') (\<lambda>g.
     bindC (text_of md ''owningOrganization'') (\<lambda>organization.
     Pass \<lparr>cq_name = name, cq_group = g, cq_organization = organization,
            cq_caData = unquoteString caData, cq_token = token,
            cq_serverAddress = serverAddress, cq_namespace = namespace\<rparr>)))))))))))))))"

text \<open>The tree that \<open>yaml-cpp\<close> prints.\<close>

definition kubeconfig :: "cluster_request \<Rightarrow> json" where
  "kubeconfig q =
     (let ns = J_string (cq_namespace q)
      in J_object
       [(''apiVersion'', J_string ''v1''), (''current-context'', ns), (''kind'', J_string ''Config''),
        (''preferences'', J_object []),
        (''clusters'', J_array [J_object
           [(''cluster'', J_object
               [(''certificate-authority-data'', J_string (cq_caData q)),
                (''server'', J_string (cq_serverAddress q))]),
            (''name'', ns)]]),
        (''contexts'', J_array [J_object
           [(''context'', J_object [(''namespace'', ns), (''user'', ns), (''cluster'', ns)]),
            (''name'', ns), (''user'', J_string (cq_token q))]]),
        (''users'', J_array [J_object
           [(''name'', ns), (''user'', J_object [(''token'', J_string (cq_token q))])]])])"

definition new_cluster :: "'w services \<Rightarrow> cluster_request \<Rightarrow> string \<Rightarrow> string \<Rightarrow> Cluster" where
  "new_cluster X q cID owner =
     \<lparr>c_valid = True, c_id = cID, c_name = cq_name q, c_config = x_yaml X (kubeconfig q),
      c_systemNamespace = cq_namespace q, c_owningGroup = owner,
      c_owningOrganization = cq_organization q, c_monitoringCredential = no_cred\<rparr>"

text \<open>The owning group by its ID, or by its name.\<close>

definition owning_group :: "'w env \<Rightarrow> string \<Rightarrow> (('w, 'z) group_store_scheme, string option) op" where
  "owning_group E g =
     (if begins_with groupIDPrefix g then ret (Some g)
      else bindM (findGroupByName E g) (\<lambda>found.
           ret (if g_valid found then Some (g_id found) else None)))"

definition created_document :: "Cluster \<Rightarrow> string \<Rightarrow> json" where
  "created_document cluster message =
     J_object
       [(''apiVersion'', J_string ''v1alpha3''), (''kind'', J_string ''Cluster''),
        (''metadata'', J_object
           [(''id'', J_text (c_id cluster)), (''name'', J_text (c_name cluster))]),
        (''message'', J_string message)]"

definition set_up_cluster :: "'w env \<Rightarrow> 'w services \<Rightarrow> Cluster \<Rightarrow>
    (('w, 'z) cluster_store_scheme, response) op" where
  "set_up_cluster E X cluster =
     catchM (bindM (ensureClusterSetup E X cluster True) (\<lambda>message.
               ret (reply (created_document cluster message))))
            (\<lambda>e. ret (failure 500 e))"

definition register_cluster :: "'w env \<Rightarrow> 'w services \<Rightarrow> User \<Rightarrow> cluster_request \<Rightarrow> string \<Rightarrow> string \<Rightarrow>
    (('w, 'z) cluster_store_scheme, response) op" where
  "register_cluster E X user q cID owner =
     bindM (userInGroup E (u_id user) owner) (\<lambda>member.
     if \<not> member then ret (failure 403 ''User not authorized'')
     else if \<not> validDnsToken (cq_name q)
     then ret (failure 400 ''Cluster names may only contain [a-zA-Z0-9-]'')
     else if begins_with clusterIDPrefix (cq_name q)
     then ret (failure 400 (''Cluster names may not begin with '' @ clusterIDPrefix))
     else bindM (findClusterByName E (cq_name q)) (\<lambda>existing.
     if c_valid existing then ret (failure 400 ''Cluster name is already in use'')
     else bindM (addCluster E (new_cluster X q cID owner)) (\<lambda>created.
     if \<not> created then ret (failure 500 ''Cluster registration failed'')
     else set_up_cluster E X (new_cluster X q cID owner))))"

definition do_createCluster :: "'w env \<Rightarrow> 'w services \<Rightarrow> request \<Rightarrow>
    (('w, 'z) cluster_store_scheme, response) op" where
  "do_createCluster E X req =
     requester E req ''User not authorized'' (\<lambda>user.
     checked (unpack_new_cluster (request_json X req)) (\<lambda>q.
     bindM (new_id X generateClusterID) (\<lambda>cID.
     bindM (owning_group E (cq_group q)) (\<lambda>owner.
     case owner of
       None \<Rightarrow> ret (failure 403 ''User not authorized'')
     | Some gID \<Rightarrow> register_cluster E X user q cID gID))))"

section \<open>Updating\<close>

text \<open>A value that replaces the old one, if the request has it, and whether it does.\<close>

definition new_value :: "json \<Rightarrow> string \<Rightarrow> string \<Rightarrow> string \<Rightarrow> (string \<times> bool) check" where
  "new_value md name wrong old =
     bindC (HasMember md name) (\<lambda>has.
     if \<not> has then Pass (old, False)
     else bindC (string_member md name) (\<lambda>str.
          bindC (demand str 400 wrong) (\<lambda>_.
          bindC (text_of md name) (\<lambda>v. Pass (v, True)))))"

text \<open>The cluster with its new values, whether the configuration and whether anything of the record changes.\<close>

definition unpack_cluster_update :: "json \<Rightarrow> Cluster \<Rightarrow> (json \<times> Cluster \<times> bool \<times> bool) check" where
  "unpack_cluster_update doc cluster =
     bindC (metadata_of doc ''Missing cluster metadata in request'' ''Incorrect type for metadata'') (\<lambda>md.
     bindC (new_value md ''kubeconfig'' ''Incorrect type for kubeconfig'' (c_config cluster))
       (\<lambda>(config, newConfig).
     bindC (new_value md ''owningOrganization'' ''Incorrect type for owningOrganization''
              (c_owningOrganization cluster)) (\<lambda>(organization, newOrganization).
     Pass (md, cluster\<lparr>c_config := config, c_owningOrganization := organization\<rparr>,
           newConfig, newConfig \<or> newOrganization))))"

fun number_of :: "double_text \<Rightarrow> json \<Rightarrow> 64 word option" where
  "number_of D (J_int i) = Some (d_of_int D i)"
| "number_of D (J_double d) = Some d"
| "number_of D _ = None"

fun unpack_location :: "double_text \<Rightarrow> json \<Rightarrow> GeoLocation option" where
  "unpack_location D (J_object ms) =
     (case (map_of ms ''lat'', map_of ms ''lon'') of
        (Some lat, Some lon) \<Rightarrow>
          (case (number_of D lat, number_of D lon) of
             (Some x, Some y) \<Rightarrow> Some \<lparr>gl_lat = x, gl_lon = y, gl_description = ''''\<rparr>
           | _ \<Rightarrow> None)
      | _ \<Rightarrow> None)"
| "unpack_location D _ = None"

text \<open>Each location is looked up before the next one is unpacked.\<close>

primrec unpack_locations :: "'w services \<Rightarrow> json list \<Rightarrow> GeoLocation list \<Rightarrow>
    (GeoLocation list \<Rightarrow> (('w, 'z) base_store_scheme, response) op) \<Rightarrow>
    (('w, 'z) base_store_scheme, response) op" where
  "unpack_locations X [] found k = k found"
| "unpack_locations X (entry # rest) found k =
     (case unpack_location (x_doubles X) entry of
        None \<Rightarrow> ret (failure 400 ''Incorrect type for location'')
      | Some loc \<Rightarrow>
          bindM (supplementLocation X loc) (\<lambda>loc'. unpack_locations X rest (found @ [loc']) k))"

definition new_locations :: "'w services \<Rightarrow> json \<Rightarrow>
    (GeoLocation list option \<Rightarrow> (('w, 'z) base_store_scheme, response) op) \<Rightarrow>
    (('w, 'z) base_store_scheme, response) op" where
  "new_locations X md k =
     checked (HasMember md ''location'') (\<lambda>has.
     if \<not> has then k None
     else checked (the_member md ''location'') (\<lambda>v.
          if \<not> IsArray v then ret (failure 400 ''Incorrect type for location'')
          else checked (GetArray v) (\<lambda>entries.
               unpack_locations X entries [] (\<lambda>locations. k (Some locations)))))"

definition store_update :: "'w env \<Rightarrow> 'w services \<Rightarrow> Cluster \<Rightarrow> bool \<Rightarrow> GeoLocation list option \<Rightarrow>
    (('w, 'z) cluster_store_scheme, bool) op" where
  "store_update E X cluster updateMainRecord locations =
     bindM (if updateMainRecord then updateCluster E cluster else ret True) (\<lambda>stored.
     bindM (case locations of
              None \<Rightarrow> ret True
            | Some gls \<Rightarrow> setLocationsForCluster E X (c_id cluster) gls) (\<lambda>located.
     ret (stored \<and> located)))"

text \<open>
  The DNS record is set whatever the request asks for.  A new configuration is tried out only
  after it has been stored.
\<close>

definition apply_update :: "'w env \<Rightarrow> 'w services \<Rightarrow> Cluster \<Rightarrow> bool \<Rightarrow> bool \<Rightarrow> GeoLocation list option \<Rightarrow>
    (('w, 'z) cluster_store_scheme, response) op" where
  "apply_update E X cluster updateConfig updateMainRecord locations =
     bindM (setClusterDNSRecord E X cluster) (\<lambda>_.
     if \<not> updateMainRecord \<and> locations = None then ret okay
     else bindM (store_update E X cluster updateMainRecord locations) (\<lambda>success.
     if \<not> success then ret (failure 500 ''Cluster update failed'')
     else if \<not> updateConfig then ret okay
     else catchM (bindM (ensureClusterSetup E X cluster False) (\<lambda>_. ret okay))
            (\<lambda>e. ret (failure 500 e))))"

definition do_updateCluster :: "'w env \<Rightarrow> 'w services \<Rightarrow> request \<Rightarrow> string \<Rightarrow>
    (('w, 'z) cluster_store_scheme, response) op" where
  "do_updateCluster E X req clusterID =
     requester E req ''User not authorized'' (\<lambda>user.
     with_cluster E clusterID (\<lambda>cluster.
     bindM (may_manage E user cluster) (\<lambda>allowed.
     if \<not> allowed then ret (failure 403 ''User not authorized'')
     else checked (unpack_cluster_update (request_json X req) cluster)
       (\<lambda>(md, updated, updateConfig, updateMainRecord).
     new_locations X md (apply_update E X updated updateConfig updateMainRecord)))))"

section \<open>Verifying and repairing\<close>

datatype ClusterConsistencyState = Unreachable | HelmFailure | Inconsistent | Consistent

text \<open>The sets are listed in the order of a \<open>std::set\<close>.\<close>

record ClusterConsistencyResult =
  ccr_status :: ClusterConsistencyState
  ccr_expectedInstances :: "ApplicationInstance list"
  ccr_missingInstances :: "string list"
  ccr_unexpectedInstances :: "string list"
  ccr_missingSecrets :: "string list"
  ccr_unexpectedSecrets :: "string list"

definition unverified :: "ClusterConsistencyState \<Rightarrow> ClusterConsistencyResult" where
  "unverified status =
     \<lparr>ccr_status = status, ccr_expectedInstances = [], ccr_missingInstances = [],
      ccr_unexpectedInstances = [], ccr_missingSecrets = [], ccr_unexpectedSecrets = []\<rparr>"

definition set_difference :: "string list \<Rightarrow> string list \<Rightarrow> string list" where
  "set_difference xs ys = sorted_list_of_set (set xs - set ys)"

text \<open>The first column of every line of helm's table but its header.\<close>

definition release_names :: "string \<Rightarrow> string list" where
  "release_names output =
     concat (map (\<lambda>line. take 1 (string_split_columns line (CHR 0x09) False))
       (drop 1 (string_split_lines output)))"

definition secret_names_in :: "string \<Rightarrow> string \<Rightarrow> string list" where
  "secret_names_in groupName output =
     map (\<lambda>name. groupName @ '':'' @ name)
       (filter (\<lambda>name. \<not> begins_with ''default-token-'' name)
         (string_split_columns output (CHR '' '') False))"

definition secrets_of_namespace :: "'w env \<Rightarrow> string \<Rightarrow> string \<Rightarrow>
    (('w, 'z) base_store_scheme, string list) op" where
  "secrets_of_namespace E configPath nsName =
     (if \<not> begins_with namespacePrefix nsName then ret []
      else bindM (kubectl E configPath
                    [''get'', ''secrets'', ''-n'', nsName, ''-o=jsonpath={.items[*].metadata.name}'']) (\<lambda>r.
           ret (secret_names_in (drop (length namespacePrefix) nsName) (cmd_output r))))"

definition existing_secrets :: "'w env \<Rightarrow> string \<Rightarrow> (('w, 'z) base_store_scheme, string list) op" where
  "existing_secrets E configPath =
     bindM (getControllerVersion E configPath) (\<lambda>version.
     bindM (kubectl E configPath
              [''get'', if version = 1 then ''clusternamespaces'' else ''clusternss'',
               ''-o=jsonpath={.items[*].metadata.name}'']) (\<lambda>namespaceInfo.
     bindM (mapM (secrets_of_namespace E configPath)
              (string_split_columns (cmd_output namespaceInfo) (CHR '' '') False)) (\<lambda>names.
     ret (concat names))))"

definition expected_secret_name :: "'w env \<Rightarrow> Secret \<Rightarrow> (('w, 'z) group_store_scheme, string) op" where
  "expected_secret_name E secret =
     bindM (findGroupByID E (s_group secret)) (\<lambda>g. ret (g_name g @ '':'' @ s_name secret))"

definition compare_contents ::
  "ApplicationInstance list \<Rightarrow> string list \<Rightarrow> string list \<Rightarrow> string list \<Rightarrow> ClusterConsistencyResult" where
  "compare_contents expected existing expectedSecrets existingSecrets =
     (let missing = set_difference (map i_name expected) existing;
          unexpected = set_difference existing (map i_name expected);
          missingS = set_difference expectedSecrets existingSecrets;
          unexpectedS = set_difference existingSecrets expectedSecrets
      in \<lparr>ccr_status = (if missing = [] \<and> unexpected = [] \<and> missingS = [] \<and> unexpectedS = []
                       then Consistent else Inconsistent),
          ccr_expectedInstances = expected, ccr_missingInstances = missing,
          ccr_unexpectedInstances = unexpected, ccr_missingSecrets = missingS,
          ccr_unexpectedSecrets = unexpectedS\<rparr>)"

text \<open>The constructor of \<open>ClusterConsistencyResult\<close>.\<close>

definition check_consistency :: "'w env \<Rightarrow> 'w services \<Rightarrow> Cluster \<Rightarrow>
    (('w, 'z) secret_store_scheme, ClusterConsistencyResult) op" where
  "check_consistency E X cluster =
     bindM (configPathForCluster E (c_id cluster)) (\<lambda>configPath.
     bindM (ping_cluster E cluster) (\<lambda>reachable.
     if \<not> reachable then ret (unverified Unreachable)
     else bindM (helm E X configPath (c_systemNamespace cluster) [''list'']) (\<lambda>instanceInfo.
     if cmd_status instanceInfo \<noteq> 0 then ret (unverified HelmFailure)
     else bindM (listApplicationInstancesByClusterOrGroup E '''' (c_id cluster)) (\<lambda>expected.
     bindM (existing_secrets E configPath) (\<lambda>existingSecrets.
     bindM (listSecrets E '''' (c_id cluster)) (\<lambda>secrets.
     bindM (mapM (expected_secret_name E) secrets) (\<lambda>expectedSecrets.
     ret (compare_contents expected (release_names (cmd_output instanceInfo))
            expectedSecrets existingSecrets))))))))"

fun state_name :: "ClusterConsistencyState \<Rightarrow> string" where
  "state_name Unreachable = ''Unreachable''"
| "state_name HelmFailure = ''HelmFailure''"
| "state_name Inconsistent = ''Inconsistent''"
| "state_name Consistent = ''Consistent''"

definition missing_instance_document :: "ApplicationInstance \<Rightarrow> json" where
  "missing_instance_document i =
     J_object
       [(''apiVersion'', J_string ''v1alpha3''), (''kind'', J_string ''ApplicationInstance''),
        (''metadata'', J_object
           [(''id'', J_string (i_id i)), (''name'', J_string (i_name i)),
            (''application'', J_string (i_application i)), (''group'', J_string (i_owningGroup i)),
            (''cluster'', J_string (i_cluster i)), (''created'', J_string (i_ctime i))])]"

text \<open>\<open>toJSON\<close>: of several instances with one name, the first is shown.\<close>

definition consistency_document :: "ClusterConsistencyResult \<Rightarrow> json" where
  "consistency_document result =
     (let byName = map (\<lambda>i. (i_name i, i)) (ccr_expectedInstances result)
      in J_object
       [(''apiVersion'', J_string ''v1alpha3''),
        (''status'', J_string (state_name (ccr_status result))),
        (''missingInstances'', J_array
           (map (\<lambda>name. missing_instance_document (the (map_of byName name))) (ccr_missingInstances result))),
        (''unexpectedInstances'', J_array (map J_string (ccr_unexpectedInstances result))),
        (''missingSecrets'', J_int (int (length (ccr_missingSecrets result)))),
        (''unexpectedSecrets'', J_int (int (length (ccr_unexpectedSecrets result))))])"

definition do_verifyCluster :: "'w env \<Rightarrow> 'w services \<Rightarrow> request \<Rightarrow> string \<Rightarrow>
    (('w, 'z) secret_store_scheme, response) op" where
  "do_verifyCluster E X req clusterID =
     requester E req ''User not authorized'' (\<lambda>user.
     with_cluster E clusterID (\<lambda>cluster.
     bindM (check_consistency E X cluster) (\<lambda>result.
     ret (reply (consistency_document result)))))"

text \<open>
  The command finds out what is wrong and does nothing about it: both strategies are to be
  written.  No route leads to it.
\<close>

definition do_repairCluster :: "'w env \<Rightarrow> 'w services \<Rightarrow> request \<Rightarrow> string \<Rightarrow>
    (('w, 'z) secret_store_scheme, response) op" where
  "do_repairCluster E X req clusterID =
     requester E req ''User not authorized'' (\<lambda>user.
     if \<not> u_admin user then ret (failure 403 ''User not authorized'')
     else with_cluster E clusterID (\<lambda>cluster.
          bindM (check_consistency E X cluster) (\<lambda>state. ret okay)))"

end
