(* ===== verification/ClusterInfo.thy ===== *)
theory ClusterInfo
  imports ClusterCommands "HOL-Library.Signed_Division"
begin

text \<open>
  The description of a cluster (\<open>getClusterInfo\<close> of \<open>src/ClusterCommands.cpp\<close>): its storage and
  priority classes, its version and, on request, its nodes with what they have to offer; and
  \<open>generateSuffixedString\<close> of \<open>src/ServerUtilities.cpp\<close>.

  Some values are put into the document by reference to text that is gone when the document is
  written out.  Writing such a document is undefined behaviour; it is marked as dangling here.
\<close>

section \<open>Quantities\<close>

text \<open>\<open>std::stoi\<close>, whose exceptions are one.\<close>

definition sign_and_digits :: "string \<Rightarrow> bool \<times> string" where
  "sign_and_digits s =
     (let t = dropWhile isspace s;
          neg = (t \<noteq> [] \<and> hd t = CHR ''-'');
          u = (if t \<noteq> [] \<and> (hd t = CHR ''-'' \<or> hd t = CHR ''+'') then tl t else t)
      in (neg, takeWhile isdigit u))"

definition stoi :: "string \<Rightarrow> int check" where
  "stoi s =
     (let (neg, digits) = sign_and_digits s;
          v = (if neg then - int (digits_value 0 digits) else int (digits_value 0 digits))
      in if digits = [] \<or> v < - (2 ^ 31) \<or> v \<ge> 2 ^ 31 then Abort ''stoi'' else Pass v)"

text \<open>A sum in a signed type of \<open>w\<close> bits, where overflow is undefined.\<close>

definition signed_sum :: "nat \<Rightarrow> int \<Rightarrow> int \<Rightarrow> int check" where
  "signed_sum w x y =
     (if - (2 ^ (w - 1)) \<le> x + y \<and> x + y < 2 ^ (w - 1) then Pass (x + y) else Abort undefined_behaviour)"

definition check_of_outcome :: "'a outcome \<Rightarrow> 'a check" where
  "check_of_outcome r = (case r of Inl e \<Rightarrow> Abort e | Inr a \<Rightarrow> Pass a)"

text \<open>
  The loop of \<open>generateSuffixedString\<close> has no end of its own: after the last suffix it reads past
  the end of the table.  The remainder goes through an \<open>int\<close>.
\<close>

fun suffixed_from :: "double_text \<Rightarrow> (string \<times> int) list \<Rightarrow> int \<Rightarrow> string check" where
  "suffixed_from D [] value = Abort undefined_behaviour"
| "suffixed_from D ((suffix, scale) # rest) value =
     (let mantissa = value sdiv scale;
          remainder = sint (word_of_int (value smod scale) :: 32 word)
      in if mantissa < 1024
         then Pass ((if remainder \<noteq> 0 then d_mixed D mantissa remainder scale else show_int mantissa) @ suffix)
         else suffixed_from D rest value)"

definition suffix_table :: "(string \<times> int) list" where
  "suffix_table = [(''Ki'', 2 ^ 10), (''Mi'', 2 ^ 20), (''Gi'', 2 ^ 30), (''Ti'', 2 ^ 40)]"

definition generateSuffixedString :: "double_text \<Rightarrow> int \<Rightarrow> string check" where
  "generateSuffixedString D value = suffixed_from D suffix_table value"

section \<open>Storage and priority classes\<close>

record StorageClass =
  sc_name :: string
  sc_isDefault :: bool
  sc_allowVolumeExpansion :: bool
  sc_bindingMode :: string
  sc_reclaimPolicy :: string

record PriorityClass =
  pc_name :: string
  pc_description :: string
  pc_isDefault :: bool
  pc_priority :: "32 word"

fun bool_member :: "json \<Rightarrow> string \<Rightarrow> bool" where
  "bool_member (J_object ms) name \<longleftrightarrow> (case map_of ms name of Some (J_bool b) \<Rightarrow> b | _ \<Rightarrow> False)"
| "bool_member _ name \<longleftrightarrow> False"

text \<open>A number that is an \<open>int\<close>, stored as an unsigned one.\<close>

fun int_member :: "json \<Rightarrow> string \<Rightarrow> 32 word" where
  "int_member (J_object ms) name =
     (case map_of ms name of
        Some (J_int i) \<Rightarrow> if - (2 ^ 31) \<le> i \<and> i < 2 ^ 31 then word_of_int i else 0
      | _ \<Rightarrow> 0)"
| "int_member _ name = 0"

fun object_member :: "json \<Rightarrow> string \<Rightarrow> json option" where
  "object_member (J_object ms) name =
     (case map_of ms name of Some (J_object o') \<Rightarrow> Some (J_object o') | _ \<Rightarrow> None)"
| "object_member _ name = None"

definition default_class :: string where
  "default_class = ''storageclass.kubernetes.io/is-default-class''"

definition storage_class :: "json \<Rightarrow> StorageClass list" where
  "storage_class item =
     (case object_member item ''metadata'' of
        None \<Rightarrow> []
      | Some metadata \<Rightarrow>
          (case text_member metadata ''name'' of
             None \<Rightarrow> []
           | Some name \<Rightarrow>
               [\<lparr>sc_name = name,
                 sc_isDefault =
                   (case object_member metadata ''annotations'' of
                      None \<Rightarrow> False
                    | Some a \<Rightarrow> bool_member a default_class \<or> text_member a default_class = Some ''true''),
                 sc_allowVolumeExpansion = bool_member item ''allowVolumeExpansion'',
                 sc_bindingMode = or_empty (text_member item ''volumeBindingMode''),
                 sc_reclaimPolicy = or_empty (text_member item ''reclaimPolicy'')\<rparr>]))"

definition priority_class :: "json \<Rightarrow> PriorityClass list" where
  "priority_class item =
     (case object_member item ''metadata'' of
        None \<Rightarrow> []
      | Some metadata \<Rightarrow>
          (case text_member metadata ''name'' of
             None \<Rightarrow> []
           | Some name \<Rightarrow>
               [\<lparr>pc_name = name, pc_description = or_empty (text_member item ''description''),
                 pc_isDefault = bool_member item ''globalDefault'',
                 pc_priority = int_member item ''value''\<rparr>]))"

text \<open>Every item of the list is asked for a member, so it must be an object.\<close>

fun classes_of :: "(json \<Rightarrow> 'c list) \<Rightarrow> json list \<Rightarrow> 'c list check" where
  "classes_of f [] = Pass []"
| "classes_of f (item # rest) =
     bindC (HasMember item ''metadata'') (\<lambda>_. bindC (classes_of f rest) (\<lambda>cs. Pass (f item @ cs)))"

definition listed_classes :: "(json \<Rightarrow> 'c list) \<Rightarrow> json \<Rightarrow> 'c list check" where
  "listed_classes f doc =
     bindC (HasMember doc ''items'') (\<lambda>has.
     if \<not> has then Pass []
     else bindC (the_member doc ''items'') (\<lambda>v.
          case v of J_array items \<Rightarrow> classes_of f items | _ \<Rightarrow> Pass []))"

definition cluster_classes :: "'w env \<Rightarrow> 'w services \<Rightarrow> string \<Rightarrow> (json \<Rightarrow> 'c list) \<Rightarrow> Cluster \<Rightarrow>
    (('w, 'z) cluster_store_scheme, 'c list) op" where
  "cluster_classes E X kind f cluster =
     bindM (configPathForCluster E (c_id cluster)) (\<lambda>configPath.
     bindM (kubectl E configPath [''get'', kind, ''-o=json'']) (\<lambda>classInfo.
     if cmd_status classInfo \<noteq> 0 then ret []
     else checkM (listed_classes f (x_parse X (c_str (cmd_output classInfo))))))"

definition getClusterStorageClasses :: "'w env \<Rightarrow> 'w services \<Rightarrow> Cluster \<Rightarrow>
    (('w, 'z) cluster_store_scheme, StorageClass list) op" where
  "getClusterStorageClasses E X cluster = cluster_classes E X ''storageclasses'' storage_class cluster"

definition getClusterPriorityClasses :: "'w env \<Rightarrow> 'w services \<Rightarrow> Cluster \<Rightarrow>
    (('w, 'z) cluster_store_scheme, PriorityClass list) op" where
  "getClusterPriorityClasses E X cluster = cluster_classes E X ''priorityclasses'' priority_class cluster"

definition storage_class_document :: "StorageClass \<Rightarrow> json" where
  "storage_class_document c =
     J_object
       [(''name'', J_string (sc_name c)), (''isDefault'', J_bool (sc_isDefault c)),
        (''allowVolumeExpansion'', J_bool (sc_allowVolumeExpansion c)),
        (''bindingMode'', J_string (sc_bindingMode c)),
        (''reclaimPolicy'', J_string (sc_reclaimPolicy c))]"

definition priority_class_document :: "PriorityClass \<Rightarrow> json" where
  "priority_class_document c =
     J_object
       [(''name'', J_string (pc_name c)), (''isDefault'', J_bool (pc_isDefault c)),
        (''description'', J_string (pc_description c)), (''priority'', J_int (uint (pc_priority c)))]"

section \<open>Nodes\<close>

text \<open>The resources of a node, with the names they are shown under, and the totals.\<close>

type_synonym totals = "int \<times> int"

definition allocatable_fields :: "(string \<times> string) list" where
  "allocatable_fields =
     [(''cpu'', ''allocatableCPU''), (''ephemeral-storage'', ''allocatableStorage''),
      (''hugepages-1Gi'', ''allocatableHugepages1Gi''), (''hugepages-2Mi'', ''allocatableHugepages2Mi''),
      (''memory'', ''allocatableMem''), (''pods'', ''allocatablePods'')]"

definition capacity_fields :: "(string \<times> string) list" where
  "capacity_fields =
     [(''cpu'', ''capacityCPU''), (''ephemeral-storage'', ''capacityStorage''),
      (''hugepages-1Gi'', ''capacityHugepages1Gi''), (''hugepages-2Mi'', ''capacityHugepages2Mi''),
      (''memory'', ''capacityMem''), (''pods'', ''capacityPods'')]"

definition count_resource :: "string \<Rightarrow> string \<Rightarrow> totals \<Rightarrow> totals check" where
  "count_resource key amount sums =
     (if key = ''cpu''
      then bindC (stoi amount) (\<lambda>n. bindC (signed_sum 32 (fst sums) n) (\<lambda>cpus. Pass (cpus, snd sums)))
      else if key = ''memory''
      then bindC (check_of_outcome (parseStringSuffix amount)) (\<lambda>n.
           bindC (signed_sum 64 (snd sums) n) (\<lambda>memory. Pass (fst sums, memory)))
      else Pass sums)"

primrec add_fields :: "bool \<Rightarrow> json \<Rightarrow> (string \<times> string) list \<Rightarrow> totals \<Rightarrow>
    ((string \<times> json) list \<times> totals) check" where
  "add_fields counted info [] sums = Pass ([], sums)"
| "add_fields counted info (field # rest) sums =
     bindC (HasMember info (fst field)) (\<lambda>has.
     if \<not> has then add_fields counted info rest sums
     else bindC (text_of info (fst field)) (\<lambda>amount.
          bindC (if counted then count_resource (fst field) amount sums else Pass sums) (\<lambda>sums'.
          bindC (add_fields counted info rest sums') (\<lambda>(ms, sums'').
          Pass ((snd field, J_string amount) # ms, sums'')))))"

definition add_resources :: "bool \<Rightarrow> json \<Rightarrow> string \<Rightarrow> (string \<times> string) list \<Rightarrow> totals \<Rightarrow>
    ((string \<times> json) list \<times> totals) check" where
  "add_resources counted status kind names sums =
     bindC (HasMember status kind) (\<lambda>has.
     if \<not> has then Pass ([], sums)
     else bindC (the_member status kind) (\<lambda>info. add_fields counted info names sums))"

text \<open>The resources are shown, and counted, with every address of the node.\<close>

primrec add_addresses :: "json \<Rightarrow> json list \<Rightarrow> totals \<Rightarrow> (json list \<times> totals) check" where
  "add_addresses status [] sums = Pass ([], sums)"
| "add_addresses status (addr # rest) sums =
     bindC (text_of addr ''type'') (\<lambda>addrType.
     if addrType \<noteq> ''InternalIP'' \<and> addrType \<noteq> ''ExternalIP'' then add_addresses status rest sums
     else bindC (text_of addr ''address'') (\<lambda>address.
          bindC (add_resources True status ''allocatable'' allocatable_fields sums) (\<lambda>(allocatable, sums1).
          bindC (add_resources False status ''capacity'' capacity_fields sums1) (\<lambda>(capacity, sums2).
          bindC (add_addresses status rest sums2) (\<lambda>(others, sums3).
          Pass (J_object ([(''addressType'', J_string addrType), (''address'', J_string address)] @
                  allocatable @ capacity) # others, sums3))))))"

definition add_node :: "json \<Rightarrow> totals \<Rightarrow> (json list \<times> totals) check" where
  "add_node node sums =
     bindC (HasMember node ''metadata'') (\<lambda>has.
     if \<not> has then Pass ([], sums)
     else bindC (the_member node ''metadata'') (\<lambda>metadata.
     bindC (HasMember metadata ''name'') (\<lambda>named.
     if \<not> named then Pass ([], sums)
     else bindC (text_of metadata ''name'') (\<lambda>name.
     bindC (HasMember node ''status'') (\<lambda>hasStatus.
     if \<not> hasStatus then Pass ([], sums)
     else bindC (the_member node ''status'') (\<lambda>status.
     bindC (HasMember status ''addresses'') (\<lambda>hasAddresses.
     if \<not> hasAddresses then Pass ([], sums)
     else bindC (the_member status ''addresses'') (\<lambda>v.
     bindC (GetArray v) (\<lambda>addrs.
     bindC (add_addresses status addrs sums) (\<lambda>(addresses, sums').
     Pass ([J_object [(''name'', J_string name), (''addresses'', J_array addresses)]], sums')))))))))))"

primrec add_nodes :: "json list \<Rightarrow> totals \<Rightarrow> (json list \<times> totals) check" where
  "add_nodes [] sums = Pass ([], sums)"
| "add_nodes (node # rest) sums =
     bindC (add_node node sums) (\<lambda>(entry, sums').
     bindC (add_nodes rest sums') (\<lambda>(entries, sums'').
     Pass (entry @ entries, sums'')))"

text \<open>
  The members about nodes, or nothing when the list could not be read.  The text of all of them
  belongs to a document of its own, or to a temporary string.
\<close>

definition nodes_members :: "double_text \<Rightarrow> json \<Rightarrow> (string \<times> json) list option check" where
  "nodes_members D doc =
     (case doc of
        J_object ms \<Rightarrow>
          (case map_of ms ''items'' of
             None \<Rightarrow> Pass None
           | Some v \<Rightarrow>
               bindC (GetArray v) (\<lambda>items.
               bindC (add_nodes items (0, 0)) (\<lambda>(entries, cpus, memory).
               bindC (generateSuffixedString D memory) (\<lambda>memoryText.
               Pass (Some [(''clusterNodes'', J_int (int (length items))), (''clusterCpus'', J_int cpus),
                           (''clusterMemory'', J_string memoryText), (''nodes'', J_array entries)])))))
      | _ \<Rightarrow> Pass None)"

section \<open>The description\<close>

datatype version_member = No_version | Version string | Version_unknown

definition version_of :: "json \<Rightarrow> version_member check" where
  "version_of doc =
     (case doc of
        J_object ms \<Rightarrow>
          (case map_of ms ''serverVersion'' of
             None \<Rightarrow> Pass No_version
           | Some serverInfo \<Rightarrow>
               bindC (HasMember serverInfo ''gitVersion'') (\<lambda>_.
               Pass (case text_member serverInfo ''gitVersion'' of
                       Some v \<Rightarrow> Version v | None \<Rightarrow> Version_unknown)))
      | _ \<Rightarrow> Pass No_version)"

definition basic_members :: "Cluster \<Rightarrow> Group \<Rightarrow> string \<Rightarrow> GeoLocation list \<Rightarrow>
    StorageClass list \<Rightarrow> PriorityClass list \<Rightarrow> (string \<times> json) list" where
  "basic_members cluster g master locations storage priority =
     [(''id'', J_string (c_id cluster)), (''name'', J_string (c_name cluster)),
      (''owningGroup'', J_string (g_name g)),
      (''owningOrganization'', J_string (c_owningOrganization cluster)),
      (''masterAddress'', J_string master),
      (''location'', J_array (map location_document locations)),
      (''hasMonitoring'', J_bool (s3_ok (c_monitoringCredential cluster))),
      (''storageClasses'', J_array (map storage_class_document storage)),
      (''priorityClasses'', J_array (map priority_class_document priority))]"

definition cluster_document :: "(string \<times> json) list \<Rightarrow> json" where
  "cluster_document members =
     J_object [(''apiVersion'', J_string ''v1''), (''kind'', J_string ''Cluster''),
               (''metadata'', J_object members)]"

text \<open>
  The text of an unknown version and everything about nodes is dangling when the document is
  written out.
\<close>

definition info_response :: "(string \<times> json) list \<Rightarrow> version_member \<Rightarrow> (string \<times> json) list option \<Rightarrow>
    (('w, 'z) base_store_scheme, response) op" where
  "info_response members version nodes =
     (if version = Version_unknown \<or> nodes \<noteq> None then throw undefined_behaviour
      else ret (reply (cluster_document
             (members @ (case version of Version v \<Rightarrow> [(''version'', J_string v)] | _ \<Rightarrow> [])))))"

definition describe_nodes :: "'w env \<Rightarrow> 'w services \<Rightarrow> string \<Rightarrow> bool \<Rightarrow>
    (('w, 'z) base_store_scheme, (string \<times> json) list option) op" where
  "describe_nodes E X configPath all_nodes =
     (if \<not> all_nodes then ret None
      else bindM (kubectl E configPath [''get'', ''nodes'', ''-o'', ''json'']) (\<lambda>nodeInfo.
           checkM (nodes_members (x_doubles X) (x_parse X (c_str (cmd_output nodeInfo))))))"

definition do_getClusterInfo :: "'w env \<Rightarrow> 'w services \<Rightarrow> request \<Rightarrow> string \<Rightarrow>
    (('w, 'z) cluster_store_scheme, response) op" where
  "do_getClusterInfo E X req clusterID =
     requester E req ''User not authorized'' (\<lambda>user.
     with_cluster E clusterID (\<lambda>cluster.
     bindM (findGroupByID E (c_owningGroup cluster)) (\<lambda>g.
     bindM (configPathForCluster E (c_id cluster)) (\<lambda>configPath.
     bindM (kubectl E configPath [''config'', ''view'', ''-o=jsonpath={.clusters[0].cluster.server}'']) (\<lambda>server.
     bindM (getLocationsForCluster E X (c_id cluster)) (\<lambda>locations.
     bindM (getClusterStorageClasses E X cluster) (\<lambda>storage.
     bindM (getClusterPriorityClasses E X cluster) (\<lambda>priority.
     bindM (kubectl E configPath [''version'', ''-o'', ''json'']) (\<lambda>versionInfo.
     bindM (checkM (version_of (x_parse X (c_str (cmd_output versionInfo))))) (\<lambda>version.
     bindM (describe_nodes E X configPath (req_params req ''nodes'' \<noteq> None)) (\<lambda>nodes.
     info_response (basic_members cluster g (cmd_output server) locations storage priority)
       version nodes)))))))))))"

end
