(* ===== verification/ApplicationCommands.thy ===== *)
theory ApplicationCommands
  imports DeletionCommands
begin

text \<open>
  The catalogue as users see it and the installation of applications
  (\<open>src/ApplicationCommands.cpp\<close>, and \<open>reduceYAML\<close> of \<open>src/ServerUtilities.cpp\<close>).  YAML is
  read and written by the vendored \<open>yaml-cpp\<close>, a service here.  Of the installation from an
  archive in the request only the part that follows the unpacking is here: it is
  \<open>installApplicationImpl\<close> too.
\<close>

section \<open>Repositories\<close>

datatype Repository = MainRepository | DevelopmentRepository | TestRepository

definition selectRepo :: "request \<Rightarrow> Repository" where
  "selectRepo req =
     (if req_params req ''test'' \<noteq> None then TestRepository
      else if req_params req ''dev'' \<noteq> None then DevelopmentRepository
      else MainRepository)"

fun getRepoName :: "Repository \<Rightarrow> string" where
  "getRepoName MainRepository = ''slate''"
| "getRepoName DevelopmentRepository = ''slate-dev''"
| "getRepoName TestRepository = ''local''"

definition repo_of :: "request \<Rightarrow> string" where
  "repo_of req = getRepoName (selectRepo req)"

section \<open>Internal parts of a configuration\<close>

definition startMarker :: string where
  "startMarker = ''### SLATE-START ###''"

definition endMarker :: string where
  "endMarker = ''### SLATE-END ###''"

text \<open>
  Each round erases one part with its markers, and the next one looks only at what follows.
\<close>

function filterValuesFile :: "string \<Rightarrow> string" where
  "filterValuesFile data =
     (case find_sub startMarker data of
        None \<Rightarrow> data
      | Some startPos \<Rightarrow>
          (case find_sub endMarker (drop startPos data) of
             None \<Rightarrow> data
           | Some endPos \<Rightarrow>
               take startPos data @
               filterValuesFile (drop (startPos + endPos + length endMarker) data)))"
  by pat_completeness auto
termination
proof (relation "measure length")
  fix data startPos endPos
  assume "find_sub startMarker data = Some startPos"
    and "find_sub endMarker (drop startPos data) = Some endPos"
  then show "(drop (startPos + endPos + length endMarker) data, data) \<in> measure length"
    by (auto dest!: find_sub_bound simp: startMarker_def endMarker_def)
qed simp

declare filterValuesFile.simps [simp del]

section \<open>Commands for everybody\<close>

definition application_document :: "Application \<Rightarrow> json" where
  "application_document app =
     J_object
       [(''apiVersion'', J_string ''v1alpha3''), (''kind'', J_string ''Application''),
        (''metadata'', J_object
           [(''name'', J_string (a_name app)), (''app_version'', J_string (a_version app)),
            (''chart_version'', J_string (a_chartVersion app)),
            (''description'', J_string (a_description app))])]"

definition do_listApplications :: "'w env \<Rightarrow> request \<Rightarrow>
    (('w, 'z) persistent_store_scheme, response) op" where
  "do_listApplications E req =
     bindM (token_user E req) (\<lambda>user.
     bindM (attemptM (listApplications E (repo_of req))) (\<lambda>found.
     case found of
       Inl err \<Rightarrow> ret (failure 500 ''helm search failed'')
     | Inr applications \<Rightarrow> ret (reply (list_document (map application_document applications)))))"

text \<open>A parameter of the request, empty if it is not there.\<close>

definition text_param :: "request \<Rightarrow> string \<Rightarrow> string" where
  "text_param req name = (case req_params req name of None \<Rightarrow> '''' | Some t \<Rightarrow> t)"

text \<open>The application that the command is about; the last argument answers when helm fails.\<close>

definition with_application :: "'w env \<Rightarrow> string \<Rightarrow> string \<Rightarrow> string \<Rightarrow> (what \<Rightarrow> response) \<Rightarrow>
    (Application \<Rightarrow> (('w, 'z) persistent_store_scheme, response) op) \<Rightarrow>
    (('w, 'z) persistent_store_scheme, response) op" where
  "with_application E repoName appName chartVersion failed k =
     bindM (attemptM (findApplication E repoName appName chartVersion)) (\<lambda>found.
     case found of
       Inl err \<Rightarrow> ret (failed err)
     | Inr application \<Rightarrow>
         if \<not> a_valid application then ret (failure 404 ''Application not found'') else k application)"

definition configuration_document :: "(string \<times> json) list \<Rightarrow> string \<Rightarrow> json" where
  "configuration_document metadata body =
     J_object
       [(''apiVersion'', J_string ''v1alpha3''), (''kind'', J_string ''Configuration''),
        (''metadata'', J_object metadata), (''spec'', J_object [(''body'', J_string body)])]"

text \<open>What helm prints about the chart: its default values or its readme file.\<close>

definition inspect_application :: "'w env \<Rightarrow> string \<Rightarrow> string \<Rightarrow> string \<Rightarrow> (string \<Rightarrow> string) \<Rightarrow>
    string \<Rightarrow> Application \<Rightarrow> (('w, 'z) base_store_scheme, response) op" where
  "inspect_application E what repoName problem shown appName application =
     bindM (runCommand E ''helm''
              [''inspect'', what, repoName @ ''/'' @ a_name application,
               ''--version'', a_chartVersion application]) (\<lambda>r.
     ret (if cmd_status r \<noteq> 0 then failure 500 problem
          else reply (configuration_document
                 [(''name'', J_string appName), (''version'', J_string (a_version application)),
                  (''chartVersion'', J_string (a_chartVersion application))]
                 (shown (cmd_output r)))))"

definition do_fetchApplicationConfig :: "'w env \<Rightarrow> request \<Rightarrow> string \<Rightarrow>
    (('w, 'z) persistent_store_scheme, response) op" where
  "do_fetchApplicationConfig E req appName =
     bindM (token_user E req) (\<lambda>user.
     with_application E (repo_of req) appName (text_param req ''chartVersion'')
       (\<lambda>err. failure 500 (''Runtime Error: '' @ err))
       (inspect_application E ''values'' (repo_of req) ''Unable to fetch application config''
          filterValuesFile appName))"

definition do_fetchApplicationDocumentation :: "'w env \<Rightarrow> request \<Rightarrow> string \<Rightarrow>
    (('w, 'z) persistent_store_scheme, response) op" where
  "do_fetchApplicationDocumentation E req appName =
     bindM (token_user E req) (\<lambda>user.
     with_application E (repo_of req) appName (text_param req ''chartVersion'')
       (\<lambda>err. silent_failure)
       (inspect_application E ''readme'' (repo_of req) ''Unable to fetch application readme'' id appName))"

definition versions_text :: "json \<Rightarrow> string check" where
  "versions_text doc =
     bindC (GetArray doc) (\<lambda>entries.
     bindC (mapC (\<lambda>entry. text_of entry ''version'') entries) (\<lambda>versions.
     Pass (concat (map (\<lambda>v. v @ ''\<newline>'') versions))))"

definition do_fetchApplicationVersions :: "'w env \<Rightarrow> 'w services \<Rightarrow> request \<Rightarrow> string \<Rightarrow>
    (('w, 'z) persistent_store_scheme, response) op" where
  "do_fetchApplicationVersions E X req appName =
     bindM (token_user E req) (\<lambda>user.
     with_application E (repo_of req) appName '''' (\<lambda>err. silent_failure) (\<lambda>application.
     bindM (runCommand E ''helm''
              [''search'', ''repo'', repo_of req @ ''/'' @ appName, ''--versions'', ''-o'', ''json'']) (\<lambda>r.
     if cmd_status r \<noteq> 0 then ret (failure 500 ''Unable to fetch application versions'')
     else checked (versions_text (x_parse X (c_str (cmd_output r)))) (\<lambda>versions.
          ret (reply (configuration_document [(''name'', J_string appName)] versions))))))"

section \<open>Instance tags\<close>

text \<open>The tag is a scalar of a document of the configuration; the last one counts.\<close>

fun instance_scalar :: "yaml \<Rightarrow> string option" where
  "instance_scalar (Y_map ms) =
     (case map_of ms (Y_scalar ''Instance'') of Some (Y_scalar t) \<Rightarrow> Some t | _ \<Rightarrow> None)"
| "instance_scalar _ = None"

fun extractInstanceTag :: "yaml list \<Rightarrow> string option \<Rightarrow> string option" where
  "extractInstanceTag [] tag = tag"
| "extractInstanceTag (document # rest) tag =
     extractInstanceTag rest (case instance_scalar document of None \<Rightarrow> tag | Some t \<Rightarrow> Some t)"

definition default_tag :: "'w env \<Rightarrow> 'w services \<Rightarrow> string \<Rightarrow> string \<Rightarrow> string \<Rightarrow>
    (string \<Rightarrow> (('w, 'z) base_store_scheme, response) op) \<Rightarrow>
    (('w, 'z) base_store_scheme, response) op" where
  "default_tag E X appName installSrc chartVersion k =
     bindM (runCommand E ''helm'' [''inspect'', ''values'', installSrc, ''--version'', chartVersion]) (\<lambda>r.
     if cmd_status r \<noteq> 0 then ret (failure 500 ''Unable to fetch default application config'')
     else (case x_loadYaml X (cmd_output r) of
             Inl e \<Rightarrow> ret (failure 500 (''Default configuration could not be parsed as YAML.\<newline>'' @ e))
           | Inr defaults \<Rightarrow>
               (case extractInstanceTag defaults None of
                  None \<Rightarrow> ret (failure 500 (''Failed to determine instance tag for '' @ appName))
                | Some tag \<Rightarrow> k tag)))"

definition with_tag :: "'w env \<Rightarrow> 'w services \<Rightarrow> string \<Rightarrow> string \<Rightarrow> string \<Rightarrow> string \<Rightarrow>
    (string \<Rightarrow> (('w, 'z) base_store_scheme, response) op) \<Rightarrow>
    (('w, 'z) base_store_scheme, response) op" where
  "with_tag E X appName installSrc chartVersion config k =
     (case (if config = [] then Inr [] else x_loadYaml X config) of
        Inl e \<Rightarrow> ret (failure 400 (''Configuration could not be parsed as YAML.\<newline>'' @ e))
      | Inr documents \<Rightarrow>
          (case extractInstanceTag documents None of
             Some tag \<Rightarrow> k tag
           | None \<Rightarrow> default_tag E X appName installSrc chartVersion k))"

definition check_tag :: "string \<Rightarrow> unit check" where
  "check_tag tag =
     bindC (demand (validTagGroupName tag) 400
              ''Instance tags names may only contain [a-z], [0-9] and -'') (\<lambda>_.
     demand (tag = [] \<or> last tag \<noteq> CHR ''-'') 400 ''Instance tags names may not end with a dash'')"

section \<open>Installing\<close>

record install_request =
  iq_group :: string
  iq_cluster :: string
  iq_config :: string
  iq_chartVersion :: string

text \<open>A chart version that is not a string is ignored.\<close>

definition chart_version :: "json \<Rightarrow> string check" where
  "chart_version doc =
     bindC (HasMember doc ''chartVersion'') (\<lambda>has.
     if \<not> has then Pass ''''
     else bindC (the_member doc ''chartVersion'') (\<lambda>v. if IsString v then GetString v else Pass ''''))"

definition unpack_install :: "json \<Rightarrow> install_request check" where
  "unpack_install doc =
     bindC (require_string doc ''group'' ''Missing Group'' ''Incorrect type for Group'') (\<lambda>_.
     bindC (text_of doc ''group'') (\<lambda>groupID.
     bindC (require_string doc ''cluster'' ''Missing cluster'' ''Incorrect type for cluster'') (\<lambda>_.
     bindC (text_of doc ''cluster'') (\<lambda>clusterID.
     bindC (require_string doc ''configuration'' ''Missing configuration''
              ''Incorrect type for configuration'') (\<lambda>_.
     bindC (text_of doc ''configuration'') (\<lambda>config.
     bindC (chart_version doc) (\<lambda>chartVersion.
     Pass \<lparr>iq_group = groupID, iq_cluster = clusterID, iq_config = config,
           iq_chartVersion = chartVersion\<rparr>)))))))"

definition reduceYAML :: "'w services \<Rightarrow> string \<Rightarrow> string" where
  "reduceYAML X input =
     (case x_loadYaml X input of
        Inl e \<Rightarrow> input
      | Inr [] \<Rightarrow> ''''
      | Inr documents \<Rightarrow> c_str (x_emitYaml X documents))"

text \<open>The owner of a cluster may install anything there; others need access and permission.\<close>

definition may_install :: "'w env \<Rightarrow> User \<Rightarrow> Group \<Rightarrow> Cluster \<Rightarrow> string \<Rightarrow>
    (('w, 'z) cluster_store_scheme, bool) op" where
  "may_install E user g cluster appName =
     bindM (userInGroup E (u_id user) (g_id g)) (\<lambda>member.
     if \<not> member then ret False
     else if g_id g = c_owningGroup cluster then ret True
     else bindM (groupAllowedOnCluster E (g_id g) (c_id cluster)) (\<lambda>allowed.
          if \<not> allowed then ret False
          else groupMayUseApplication E (g_id g) (c_id cluster) appName))"

definition new_instance :: "'w services \<Rightarrow> string \<Rightarrow> string \<Rightarrow> Group \<Rightarrow> Cluster \<Rightarrow> string \<Rightarrow>
    string \<Rightarrow> string \<Rightarrow> string \<Rightarrow> ApplicationInstance" where
  "new_instance X iid installSrc g cluster config ctime appName tag =
     \<lparr>i_valid = True, i_id = iid, i_name = appName @ (if tag = [] then '''' else ''-'' @ tag),
      i_application = installSrc, i_owningGroup = g_id g, i_cluster = c_id cluster,
      i_config = (let reduced = reduceYAML X config in if reduced = [] then ''\<newline>'' else reduced),
      i_ctime = ctime\<rparr>"

definition assembleExtraHelmValues :: "'w services \<Rightarrow> Cluster \<Rightarrow> ApplicationInstance \<Rightarrow> Group \<Rightarrow> string" where
  "assembleExtraHelmValues X cluster i g =
     (case x_appLoggingServer X of (server, port) \<Rightarrow>
        if server \<noteq> []
        then ''SLATE.Logging.Enabled=true,SLATE.Logging.Server.Name='' @ server @
             '',SLATE.Logging.Server.Port='' @ show_nat port
        else ''SLATE.Logging.Enabled=false'') @
     '',SLATE.Cluster.Name='' @ c_name cluster @
     '',SLATE.Cluster.DNSName='' @ dnsNameForCluster (x_baseDomain X) cluster @
     '',SLATE.Cluster.ClusterID='' @ i_cluster i @
     '',SLATE.Instance.ID='' @ i_id i @
     '',SLATE.Metadata.Group='' @ g_name g @
     '',SLATE.Metadata.GroupEmail='' @ g_email g"

text \<open>The chart version is left out when an instance is restarted.\<close>

definition install_args :: "'w services \<Rightarrow> nat \<Rightarrow> Cluster \<Rightarrow> Group \<Rightarrow> ApplicationInstance \<Rightarrow>
    string \<Rightarrow> string option \<Rightarrow> string list" where
  "install_args X version cluster g i configFile chartVersion =
     ''install'' # (if version = 2 then [''--name''] else []) @
     [i_name i, i_application i, ''--namespace'', namespaceName g, ''--values'', configFile,
      ''--set'', assembleExtraHelmValues X cluster i g] @
     (case chartVersion of None \<Rightarrow> [] | Some v \<Rightarrow> [''--version'', v]) @
     (if version = 2 then [''--tiller-namespace'', c_systemNamespace cluster] else [])"

definition deployed :: "command_result \<Rightarrow> bool" where
  "deployed r \<longleftrightarrow>
     cmd_status r = 0 \<and>
     (occurs_in ''STATUS: DEPLOYED'' (cmd_output r) \<or> occurs_in ''STATUS: deployed'' (cmd_output r))"

definition helm_with_config :: "'w services \<Rightarrow> string \<Rightarrow> string list \<Rightarrow>
    (('w, 'z) base_store_scheme, command_result) op" where
  "helm_with_config X configPath args = callE (x_runCommand X ''helm'' args [(''KUBECONFIG'', configPath)])"

definition cleanup_args :: "nat \<Rightarrow> Cluster \<Rightarrow> Group \<Rightarrow> ApplicationInstance \<Rightarrow> string list" where
  "cleanup_args version cluster g i =
     (if version = 2
      then [''delete'', ''--purge'', i_name i, ''--tiller-namespace'', c_systemNamespace cluster]
      else [''delete'', i_name i, ''--namespace'', namespaceName g])"

definition installed_document :: "string \<Rightarrow> Group \<Rightarrow> ApplicationInstance \<Rightarrow> json" where
  "installed_document appName g i =
     J_object
       [(''apiVersion'', J_string ''v1alpha3''), (''kind'', J_string ''Configuration''),
        (''metadata'', J_object
           [(''id'', J_string (i_id i)), (''name'', J_string (i_name i)),
            (''revision'', J_string ''?''), (''updated'', J_string ''?''),
            (''application'', J_string appName), (''group'', J_string (g_id g))]),
        (''status'', J_string ''DEPLOYED'')]"

text \<open>Starting the recorded instance; when helm fails the record and what helm left are removed.\<close>

definition start_instance :: "'w env \<Rightarrow> 'w services \<Rightarrow> string \<Rightarrow> string \<Rightarrow> Cluster \<Rightarrow> Group \<Rightarrow>
    ApplicationInstance \<Rightarrow> string \<Rightarrow> string \<Rightarrow> (('w, 'z) instance_store_scheme, response) op" where
  "start_instance E X appName chartVersion cluster g i configFile clusterConfig =
     bindM (getHelmMajorVersion E) (\<lambda>version.
     bindM (helm_with_config X clusterConfig
              (install_args X version cluster g i configFile (Some chartVersion))) (\<lambda>r.
     if deployed r then ret (reply (installed_document appName g i))
     else bindM (removeApplicationInstance E (i_id i)) (\<lambda>_.
          bindM (helm_with_config X clusterConfig (cleanup_args version cluster g i)) (\<lambda>_.
          ret (failure 500
            (''Failed to start application instance with helm:\<newline>[exit] '' @ show_int (cmd_status r) @
             ''\<newline>[err]: '' @ cmd_error r @ ''\<newline>[out]: '' @ cmd_output r @
             ''\<newline> system namespace: '' @ c_systemNamespace cluster))))))"

definition install_instance :: "'w env \<Rightarrow> 'w services \<Rightarrow> string \<Rightarrow> string \<Rightarrow> Cluster \<Rightarrow> Group \<Rightarrow>
    ApplicationInstance \<Rightarrow> (('w, 'z) instance_store_scheme, response) op" where
  "install_instance E X appName chartVersion cluster g i =
     bindM (callE (x_writeFile X (i_id i) (i_config i))) (\<lambda>(configFile, ok).
     if \<not> ok then ret (failure 500 (''Failed to write instance configuration to '' @ configFile))
     else bindM (addApplicationInstance E i) (\<lambda>recorded.
     if \<not> recorded
     then ret (failure 500 ''Failed to add application instance record to the persistent store'')
     else bindM (configPathForCluster E (c_id cluster)) (\<lambda>clusterConfig.
     bindM (attemptM (kubectl_create_namespace E clusterConfig g)) (\<lambda>created.
     case created of
       Inl e \<Rightarrow> bindM (removeApplicationInstance E (i_id i)) (\<lambda>_. ret (failure 500 e))
     | Inr _ \<Rightarrow> start_instance E X appName chartVersion cluster g i configFile clusterConfig))))"

text \<open>The names of the other instances of the group on the cluster are taken.\<close>

definition make_instance :: "'w env \<Rightarrow> 'w services \<Rightarrow> string \<Rightarrow> string \<Rightarrow> install_request \<Rightarrow> Cluster \<Rightarrow>
    Group \<Rightarrow> string \<Rightarrow> (('w, 'z) instance_store_scheme, response) op" where
  "make_instance E X appName installSrc q cluster g tag =
     bindM (new_id X generateInstanceID) (\<lambda>iid.
     bindM (callM (x_timestamp X)) (\<lambda>ctime.
     let i = new_instance X iid installSrc g cluster (iq_config q) ctime appName tag
     in if length (i_name i) > 63 then ret (failure 400 ''Instance tag too long'')
        else bindM (listApplicationInstancesByClusterOrGroup E (g_id g) (c_id cluster)) (\<lambda>groupInsts.
             if i_name i \<in> set (map i_name groupInsts)
             then ret (failure 400 ''Instance name is already in use, consider using a different tag'')
             else install_instance E X appName (iq_chartVersion q) cluster g i)))"

definition install_tagged :: "'w env \<Rightarrow> 'w services \<Rightarrow> User \<Rightarrow> string \<Rightarrow> string \<Rightarrow> install_request \<Rightarrow>
    string \<Rightarrow> (('w, 'z) instance_store_scheme, response) op" where
  "install_tagged E X user appName installSrc q tag =
     checked (check_tag tag) (\<lambda>_.
     bindM (getGroup E (iq_group q)) (\<lambda>g.
     if \<not> g_valid g then ret (failure 400 ''Invalid Group'')
     else bindM (getCluster E (iq_cluster q)) (\<lambda>cluster.
     if \<not> c_valid cluster then ret (failure 400 ''Invalid Cluster'')
     else bindM (may_install E user g cluster appName) (\<lambda>allowed.
     if \<not> allowed then ret (failure 403 ''Not authorized'')
     else make_instance E X appName installSrc q cluster g tag))))"

definition installApplicationImpl :: "'w env \<Rightarrow> 'w services \<Rightarrow> User \<Rightarrow> string \<Rightarrow> string \<Rightarrow> json \<Rightarrow>
    (('w, 'z) instance_store_scheme, response) op" where
  "installApplicationImpl E X user appName installSrc body =
     checked (unpack_install body) (\<lambda>q.
     with_tag E X appName installSrc (iq_chartVersion q) (iq_config q)
       (install_tagged E X user appName installSrc q))"

definition unpack_application :: "string \<Rightarrow> json \<Rightarrow> string check" where
  "unpack_application appName doc =
     bindC (demand (CHR 0x27 \<notin> set appName) 400
              ''Application names cannot contain single quote characters'') (\<lambda>_.
     bindC (demand (doc \<noteq> J_null) 400 ''Invalid JSON in request body'') (\<lambda>_.
     chart_version doc))"

definition do_installApplication :: "'w env \<Rightarrow> 'w services \<Rightarrow> request \<Rightarrow> string \<Rightarrow>
    (('w, 'z) persistent_store_scheme, response) op" where
  "do_installApplication E X req appName =
     requester E req (''An unauthorized user attempted to install an instance of '' @ appName) (\<lambda>user.
     checked (unpack_application appName (request_json X req)) (\<lambda>chartVersion.
     with_application E (repo_of req) appName chartVersion (\<lambda>err. silent_failure) (\<lambda>application.
     installApplicationImpl E X user appName (repo_of req @ ''/'' @ appName) (request_json X req))))"

section \<open>The catalogue\<close>

definition do_updateCatalog :: "'w env \<Rightarrow> request \<Rightarrow>
    (('w, 'z) persistent_store_scheme, response) op" where
  "do_updateCatalog E req =
     requester E req ''An unauthorized user attempted to update the application catalog'' (\<lambda>user.
     bindM (runCommand E ''helm'' [''repo'', ''update'']) (\<lambda>r.
     if cmd_status r \<noteq> 0 then ret (failure 500 ''helm repo update failed'')
     else bindM (fetchApplications E ''slate'') (\<lambda>_.
          bindM (fetchApplications E ''slate-dev'') (\<lambda>_. ret okay))))"

end
