(* ===== verification/InstanceInfo.thy ===== *)
theory InstanceInfo
  imports ApplicationCommands
begin

text \<open>
  What kubernetes knows about an application instance (\<open>getServices\<close>, \<open>fetchInstanceDetails\<close> and
  \<open>fetchApplicationInstanceInfo\<close> of \<open>src/ApplicationInstanceCommands.cpp\<close>).  The output of
  \<open>kubectl\<close> is taken apart with the accessors of rapidjson, whose preconditions are assertions.
\<close>

section \<open>Who may ask\<close>

definition with_own_instance :: "'w env \<Rightarrow> request \<Rightarrow> string \<Rightarrow> nat \<Rightarrow>
    (ApplicationInstance \<Rightarrow> (('w, 'z) instance_store_scheme, response) op) \<Rightarrow>
    (('w, 'z) instance_store_scheme, response) op" where
  "with_own_instance E req instanceID notFound k =
     requester E req ''User not authorized'' (\<lambda>user.
     bindM (getApplicationInstance E instanceID) (\<lambda>i.
     if \<not> i_valid i then ret (failure notFound ''Application instance not found'')
     else bindM (if u_admin user then ret True
                 else userInGroup E (u_id user) (i_owningGroup i)) (\<lambda>allowed.
     if \<not> allowed then ret (failure 403 ''User not authorized'') else k i)))"

text \<open>Its group and its cluster must still be there.\<close>

definition with_home :: "'w env \<Rightarrow> ApplicationInstance \<Rightarrow>
    (Group \<Rightarrow> Cluster \<Rightarrow> (('w, 'z) cluster_store_scheme, response) op) \<Rightarrow>
    (('w, 'z) cluster_store_scheme, response) op" where
  "with_home E i k =
     bindM (getGroup E (i_owningGroup i)) (\<lambda>g.
     if \<not> g_valid g then ret (failure 500 ''Invalid Group'')
     else bindM (getCluster E (i_cluster i)) (\<lambda>cluster.
          if \<not> c_valid cluster then ret (failure 500 ''Invalid Cluster'') else k g cluster))"

section \<open>Services\<close>

record ServiceInterface =
  si_clusterIP :: string
  si_externalIP :: string
  si_ports :: string
  si_netPathRef :: string

text \<open>The first ingress of a load balancer, if it has an address.\<close>

definition load_balancer_ip :: "json \<Rightarrow> string check" where
  "load_balancer_ip service =
     bindC (member_at service [''status'', ''loadBalancer'']) (\<lambda>lb.
     bindC (HasMember lb ''ingress'') (\<lambda>has.
     if \<not> has then Pass ''<pending>''
     else bindC (the_member lb ''ingress'') (\<lambda>v.
          case v of
            J_array (J_object ms # rest) \<Rightarrow>
              (case map_of ms ''ip'' of None \<Rightarrow> Pass ''<pending>'' | Some ip \<Rightarrow> GetString ip)
          | _ \<Rightarrow> Pass ''<pending>'')))"

definition add_selector :: "string \<times> json \<Rightarrow> string \<Rightarrow> string check" where
  "add_selector member acc =
     (case member of (key, v) \<Rightarrow>
        bindC (GetString v) (\<lambda>t. Pass ((if acc \<noteq> [] then acc @ '','' else acc) @ c_str key @ ''='' @ t)))"

definition service_selector :: "json \<Rightarrow> string check" where
  "service_selector service =
     bindC (member_at service [''spec'', ''selector'']) (\<lambda>v.
     bindC (GetObject v) (\<lambda>ms. foldC add_selector ms ''''))"

text \<open>An external address of the node is preferred to the address that the pod reports.\<close>

definition prefer_external :: "json \<Rightarrow> string \<Rightarrow> string check" where
  "prefer_external addr ip =
     bindC (text_of addr ''type'') (\<lambda>addrType.
     if addrType = ''ExternalIP'' then text_of addr ''address'' else Pass ip)"

definition node_address :: "json \<Rightarrow> string \<Rightarrow> string check" where
  "node_address node hostIP =
     bindC (HasMember node ''status'') (\<lambda>has.
     if \<not> has then Pass hostIP
     else bindC (array_at node [''status'', ''addresses'']) (\<lambda>addrs. foldC prefer_external addrs hostIP))"

text \<open>\<open>None\<close> leaves the service out.\<close>

definition pod_address :: "'w env \<Rightarrow> 'w services \<Rightarrow> string \<Rightarrow> json \<Rightarrow>
    (('w, 'z) base_store_scheme, string option) op" where
  "pod_address E X configPath pod =
     bindM (checkM (bindC (the_member pod ''status'') (\<lambda>status. HasMember status ''hostIP''))) (\<lambda>has.
     if \<not> has then ret (Some ''<none>'')
     else bindM (checkM (bindC (the_member pod ''spec'') (\<lambda>spec. HasMember spec ''nodeName''))) (\<lambda>named.
     if \<not> named then ret (Some '''')
     else bindM (checkM (text_at pod [''spec'', ''nodeName''])) (\<lambda>nodename.
     bindM (kubectl E configPath [''get'', ''node'', nodename, ''-o=json'']) (\<lambda>r.
     if cmd_status r \<noteq> 0 then ret None
     else checkM (bindC (text_at pod [''status'', ''hostIP'']) (\<lambda>hostIP.
                  bindC (node_address (x_parse X (c_str (cmd_output r))) hostIP) (\<lambda>ip.
                  Pass (Some ip))))))))"

definition node_port_address :: "'w env \<Rightarrow> 'w services \<Rightarrow> string \<Rightarrow> string \<Rightarrow> json \<Rightarrow>
    (('w, 'z) base_store_scheme, string option) op" where
  "node_port_address E X configPath nspace service =
     bindM (checkM (service_selector service)) (\<lambda>selector.
     bindM (kubectl E configPath [''get'', ''pod'', ''-l'', selector, ''--namespace'', nspace, ''-o=json'']) (\<lambda>r.
     if cmd_status r \<noteq> 0 then ret None
     else bindM (checkM (array_at (x_parse X (c_str (cmd_output r))) [''items''])) (\<lambda>pods.
          case pods of [] \<Rightarrow> ret None | pod # rest \<Rightarrow> pod_address E X configPath pod)))"

definition external_address :: "'w env \<Rightarrow> 'w services \<Rightarrow> string \<Rightarrow> string \<Rightarrow> json \<Rightarrow> string \<Rightarrow>
    (('w, 'z) base_store_scheme, string option) op" where
  "external_address E X configPath nspace service serviceType =
     (if serviceType = ''LoadBalancer'' then checkM (bindC (load_balancer_ip service) (\<lambda>ip. Pass (Some ip)))
      else if serviceType = ''NodePort'' then node_port_address E X configPath nspace service
      else ret (Some ''''))"

definition optional_int :: "json \<Rightarrow> string \<Rightarrow> int option check" where
  "optional_int v name =
     bindC (HasMember v name) (\<lambda>has.
     if \<not> has then Pass None
     else bindC (the_member v name) (\<lambda>u.
          Pass (case u of J_int i \<Rightarrow> if - (2 ^ 31) \<le> i \<and> i < 2 ^ 31 then Some i else None | _ \<Rightarrow> None)))"

definition show_option :: "int option \<Rightarrow> string" where
  "show_option i = (case i of None \<Rightarrow> '''' | Some n \<Rightarrow> show_int n)"

definition positive :: "int option \<Rightarrow> bool" where
  "positive i \<longleftrightarrow> (case i of None \<Rightarrow> False | Some n \<Rightarrow> n > 0)"

definition port_interface :: "string \<Rightarrow> string \<Rightarrow> string \<Rightarrow> json \<Rightarrow> ServiceInterface check" where
  "port_interface serviceType clusterIP externalIP port =
     bindC (optional_int port ''port'') (\<lambda>internalPort.
     bindC (optional_int port ''nodePort'') (\<lambda>externalPort.
     bindC (HasMember port ''protocol'') (\<lambda>has.
     bindC (if \<not> has then Pass ''''
            else bindC (the_member port ''protocol'') (\<lambda>v. if IsString v then GetString v else Pass ''''))
       (\<lambda>protocol.
     Pass \<lparr>si_clusterIP = clusterIP, si_externalIP = externalIP,
           si_ports = show_option internalPort @ '':'' @ show_option externalPort @ ''/'' @ protocol,
           si_netPathRef =
             (if serviceType = ''LoadBalancer'' \<and> positive internalPort
              then externalIP @ '':'' @ show_option internalPort
              else if serviceType = ''NodePort'' \<and> positive externalPort
              then externalIP @ '':'' @ show_option externalPort
              else '''')\<rparr>))))"

text \<open>A \<open>multimap\<close> keeps its entries in the order of their keys, and of insertion.\<close>

type_synonym interfaces = "(string \<times> ServiceInterface) list"

definition multimap_emplace :: "string \<times> ServiceInterface \<Rightarrow> interfaces \<Rightarrow> interfaces" where
  "multimap_emplace entry m =
     takeWhile (\<lambda>e. fst e \<le> fst entry) m @ entry # dropWhile (\<lambda>e. fst e \<le> fst entry) m"

definition add_service :: "'w env \<Rightarrow> 'w services \<Rightarrow> string \<Rightarrow> string \<Rightarrow> json \<Rightarrow> interfaces \<Rightarrow>
    (('w, 'z) base_store_scheme, interfaces) op" where
  "add_service E X configPath nspace service found =
     bindM (checkM (text_at service [''metadata'', ''name''])) (\<lambda>serviceName.
     bindM (checkM (text_at service [''spec'', ''clusterIP''])) (\<lambda>clusterIP.
     bindM (checkM (text_at service [''spec'', ''type''])) (\<lambda>serviceType.
     bindM (external_address E X configPath nspace service serviceType) (\<lambda>address.
     case address of
       None \<Rightarrow> ret found
     | Some externalIP \<Rightarrow>
         checkM (bindC (array_at service [''spec'', ''ports'']) (\<lambda>ports.
                 bindC (mapC (port_interface serviceType clusterIP externalIP) ports) (\<lambda>entries.
                 Pass (fold (\<lambda>e. multimap_emplace (serviceName, e)) entries found))))))))"

section \<open>Ingresses\<close>

fun GetInt :: "json \<Rightarrow> int check" where
  "GetInt (J_int i) = (if - (2 ^ 31) \<le> i \<and> i < 2 ^ 31 then Pass i else Abort assertion_failed)"
| "GetInt _ = Abort assertion_failed"

definition int_of_member :: "json \<Rightarrow> string \<Rightarrow> int check" where
  "int_of_member v name = bindC (the_member v name) GetInt"

text \<open>The service behind a path as kubernetes describes it since version 1.20, and before.\<close>

definition new_backend :: "json \<Rightarrow> (string \<times> int) option check" where
  "new_backend backend =
     bindC (HasMember backend ''service'') (\<lambda>has.
     if \<not> has then Pass None
     else bindC (the_member backend ''service'') (\<lambda>service.
     bindC (HasMember service ''name'') (\<lambda>named.
     if \<not> named then Pass None
     else bindC (HasMember service ''port'') (\<lambda>hasPort.
     if \<not> hasPort then Pass None
     else bindC (the_member service ''port'') (\<lambda>port.
     bindC (HasMember port ''number'') (\<lambda>numbered.
     if \<not> numbered then Pass None
     else bindC (text_of service ''name'') (\<lambda>name.
     bindC (int_of_member port ''number'') (\<lambda>number.
     Pass (Some (name, number))))))))))"

definition old_backend :: "json \<Rightarrow> (string \<times> int) check" where
  "old_backend backend =
     bindC (HasMember backend ''serviceName'') (\<lambda>named.
     if \<not> named then Pass ('''', 0)
     else bindC (HasMember backend ''servicePort'') (\<lambda>hasPort.
     if \<not> hasPort then Pass ('''', 0)
     else bindC (text_of backend ''serviceName'') (\<lambda>name.
     bindC (int_of_member backend ''servicePort'') (\<lambda>number.
     Pass (name, number)))))"

definition backend_of :: "json \<Rightarrow> (string \<times> int) check" where
  "backend_of backend =
     bindC (new_backend backend) (\<lambda>found.
     case found of Some service \<Rightarrow> Pass service | None \<Rightarrow> old_backend backend)"

text \<open>The port of an interface is what its description begins with, if that is not a colon.\<close>

definition serves_port :: "int \<Rightarrow> ServiceInterface \<Rightarrow> bool" where
  "serves_port servicePort interface \<longleftrightarrow>
     (let port = takeWhile (\<lambda>c. c \<noteq> CHR '':'') (si_ports interface)
      in CHR '':'' \<in> set (si_ports interface) \<and> port \<noteq> [] \<and> show_int servicePort = port)"

definition set_reference :: "string \<Rightarrow> int \<Rightarrow> string \<Rightarrow> interfaces \<Rightarrow> interfaces" where
  "set_reference serviceName servicePort url found =
     map (\<lambda>(name, interface).
       (name, if name = serviceName \<and> serves_port servicePort interface
              then interface\<lparr>si_netPathRef := url\<rparr> else interface)) found"

definition add_path :: "string \<Rightarrow> string \<Rightarrow> json \<Rightarrow> interfaces \<Rightarrow> interfaces check" where
  "add_path protocol hostName path found =
     bindC (HasMember path ''backend'') (\<lambda>has.
     if \<not> has then Pass found
     else bindC (the_member path ''backend'') (\<lambda>backend.
          bindC (backend_of backend) (\<lambda>(serviceName, servicePort).
          bindC (text_of path ''path'') (\<lambda>servicePath.
          Pass (set_reference serviceName servicePort (protocol @ ''://'' @ hostName @ servicePath) found)))))"

definition add_protocol :: "json \<Rightarrow> string \<Rightarrow> string \<Rightarrow> interfaces \<Rightarrow> interfaces check" where
  "add_protocol rule hostName protocol found =
     bindC (HasMember rule protocol) (\<lambda>has.
     if \<not> has then Pass found
     else bindC (the_member rule protocol) (\<lambda>v.
     bindC (HasMember v ''paths'') (\<lambda>hasPaths.
     if \<not> hasPaths then Pass found
     else bindC (array_at v [''paths'']) (\<lambda>paths. foldC (add_path protocol hostName) paths found))))"

definition add_rule :: "json \<Rightarrow> interfaces \<Rightarrow> interfaces check" where
  "add_rule rule found =
     bindC (HasMember rule ''host'') (\<lambda>has.
     if \<not> has then Pass found
     else bindC (text_of rule ''host'') (\<lambda>hostName.
          foldC (add_protocol rule hostName) [''http'', ''https''] found))"

definition add_ingress :: "json \<Rightarrow> interfaces \<Rightarrow> interfaces check" where
  "add_ingress ingress found =
     bindC (array_at ingress [''spec'', ''rules'']) (\<lambda>rules. foldC add_rule rules found)"

text \<open>When one of the two listings fails there are no services at all.\<close>

definition getServices :: "'w env \<Rightarrow> 'w services \<Rightarrow> string \<Rightarrow> string \<Rightarrow> string \<Rightarrow>
    (('w, 'z) base_store_scheme, interfaces) op" where
  "getServices E X configPath releaseName nspace =
     bindM (kubectl E configPath [''get'', ''services'', ''-l'', ''release='' @ releaseName,
              ''--namespace'', nspace, ''-o=json'']) (\<lambda>r.
     if cmd_status r \<noteq> 0 then ret []
     else bindM (checkM (array_at (x_parse X (c_str (cmd_output r))) [''items''])) (\<lambda>services.
     bindM (foldM (add_service E X configPath nspace) services []) (\<lambda>found.
     bindM (kubectl E configPath [''get'', ''ingresses'', ''-l'', ''release='' @ releaseName,
              ''--namespace'', nspace, ''-o=json'']) (\<lambda>r'.
     if cmd_status r' \<noteq> 0 then ret []
     else checkM (bindC (array_at (x_parse X (c_str (cmd_output r'))) [''items'']) (\<lambda>ingresses.
                  foldC add_ingress ingresses found))))))"

section \<open>Pods\<close>

text \<open>The members that are there, under their new names.\<close>

definition copy_member :: "json \<Rightarrow> string \<times> string \<Rightarrow> (string \<times> json) list \<Rightarrow> (string \<times> json) list check" where
  "copy_member source names acc =
     bindC (HasMember source (fst names)) (\<lambda>has.
     if \<not> has then Pass acc
     else bindC (the_member source (fst names)) (\<lambda>v. Pass (acc @ [(snd names, v)])))"

definition copy_members :: "json \<Rightarrow> (string \<times> string) list \<Rightarrow> (string \<times> json) list check" where
  "copy_members source names = foldC (copy_member source) names []"

definition same_names :: "string list \<Rightarrow> (string \<times> string) list" where
  "same_names names = map (\<lambda>n. (n, n)) names"

text \<open>Members of a member that may be missing.\<close>

definition copy_from :: "json \<Rightarrow> string \<Rightarrow> (string \<times> string) list \<Rightarrow> (string \<times> json) list check" where
  "copy_from pod part names =
     bindC (HasMember pod part) (\<lambda>has.
     if \<not> has then Pass [] else bindC (the_member pod part) (\<lambda>v. copy_members v names))"

text \<open>The hash part of the name of an image.\<close>

definition short_image :: "string \<Rightarrow> string" where
  "short_image idStr =
     (case rfind (CHR '':'') idStr of
        Some pos \<Rightarrow> if pos + 1 < length idStr then drop (pos + 1) idStr else idStr
      | None \<Rightarrow> idStr)"

definition container_document :: "json \<Rightarrow> json check" where
  "container_document item =
     bindC (copy_members item (same_names [''image''])) (\<lambda>image.
     bindC (HasMember item ''imageID'') (\<lambda>has.
     bindC (if \<not> has then Pass []
            else bindC (text_of item ''imageID'') (\<lambda>t. Pass [(''imageID'', J_string (short_image t))]))
       (\<lambda>imageID.
     bindC (copy_members item (same_names [''name'', ''ready'', ''restartCount'', ''state'', ''lastState'']))
       (\<lambda>rest. Pass (J_object (image @ imageID @ rest))))))"

definition container_members :: "json \<Rightarrow> (string \<times> json) list check" where
  "container_members pod =
     bindC (HasMember pod ''status'') (\<lambda>hasStatus.
     if \<not> hasStatus then Pass []
     else bindC (the_member pod ''status'') (\<lambda>status.
     bindC (HasMember status ''containerStatuses'') (\<lambda>has.
     if \<not> has then Pass []
     else bindC (array_at status [''containerStatuses'']) (\<lambda>items.
          bindC (mapC container_document items) (\<lambda>cs. Pass [(''containers'', J_array cs)])))))"

definition pod_members :: "json \<Rightarrow> (string \<times> json) list check" where
  "pod_members pod =
     bindC (copy_from pod ''metadata'' [(''creationTimestamp'', ''created''), (''name'', ''name'')]) (\<lambda>metadata.
     bindC (copy_from pod ''spec'' [(''nodeName'', ''hostName'')]) (\<lambda>spec.
     bindC (copy_from pod ''status'' [(''hostIP'', ''hostIP''), (''phase'', ''status''),
              (''conditions'', ''conditions''), (''message'', ''message'')]) (\<lambda>status.
     bindC (container_members pod) (\<lambda>containers.
     Pass (metadata @ spec @ status @ containers)))))"

text \<open>The events of a pod are asked for in a thread of their own, one for each pod.\<close>

definition inspect_pod :: "'w env \<Rightarrow> string \<Rightarrow> string \<Rightarrow> json \<Rightarrow>
    (('w, 'z) base_store_scheme, (string \<times> json) list \<times> command_result outcome) op" where
  "inspect_pod E configPath nspace pod =
     bindM (checkM (text_at pod [''metadata'', ''name''])) (\<lambda>podName.
     bindM (checkM (pod_members pod)) (\<lambda>members.
     bindM (async (kubectl E configPath
              [''get'', ''event'', ''--field-selector'', ''involvedObject.name='' @ podName,
               ''-n'', nspace, ''-o=json''])) (\<lambda>events.
     ret (members, events))))"

definition event_document :: "json \<Rightarrow> json check" where
  "event_document item =
     bindC (copy_members item (same_names
              [''count'', ''firstTimestamp'', ''lastTimestamp'', ''reason'', ''message''])) (\<lambda>ms.
     Pass (J_object ms))"

definition event_members :: "json \<Rightarrow> (string \<times> json) list check" where
  "event_members doc =
     bindC (HasMember doc ''items'') (\<lambda>has.
     if \<not> has then Pass []
     else bindC (the_member doc ''items'') (\<lambda>v.
          case v of
            J_array items \<Rightarrow> bindC (mapC event_document items) (\<lambda>es. Pass [(''events'', J_array es)])
          | _ \<Rightarrow> Pass []))"

text \<open>Whether the command succeeded is not looked at; an exception in the thread comes out here.\<close>

definition add_events :: "'w services \<Rightarrow> (string \<times> json) list \<times> command_result outcome \<Rightarrow>
    (('w, 'z) base_store_scheme, json) op" where
  "add_events X entry =
     (case entry of
        (members, Inl e) \<Rightarrow> throw e
      | (members, Inr r) \<Rightarrow>
          checkM (bindC (event_members (x_parse X (c_str (cmd_output r)))) (\<lambda>events.
                  Pass (J_object (members @ events)))))"

definition error_entry :: "string \<Rightarrow> json" where
  "error_entry message = J_object [(''kind'', J_string ''Error''), (''message'', J_string message)]"

definition fetchInstanceDetails :: "'w env \<Rightarrow> 'w services \<Rightarrow> ApplicationInstance \<Rightarrow>
    (('w, 'z) cluster_store_scheme, json) op" where
  "fetchInstanceDetails E X i =
     bindM (getGroup E (i_owningGroup i)) (\<lambda>g.
     bindM (configPathForCluster E (i_cluster i)) (\<lambda>configPath.
     bindM (kubectl E configPath [''get'', ''pods'', ''-l'', ''release='' @ i_name i,
              ''-n'', namespaceName g, ''-o=json'']) (\<lambda>r.
     if cmd_status r \<noteq> 0
     then ret (J_object [(''pods'', J_array [error_entry ''Failed to get information for pods''])])
     else bindM (checkM (array_at (x_parse X (c_str (cmd_output r))) [''items''])) (\<lambda>pods.
          bindM (mapM (inspect_pod E configPath (namespaceName g)) pods) (\<lambda>inspected.
          bindM (mapM (add_events X) inspected) (\<lambda>details.
          ret (J_object [(''pods'', J_array details)])))))))"

section \<open>The description of an instance\<close>

text \<open>A member of the first release that helm lists.\<close>

definition release_member :: "json \<Rightarrow> string \<Rightarrow> json check" where
  "release_member releaseInfo name =
     (case releaseInfo of
        J_array (release # rest) \<Rightarrow>
          bindC (HasMember release name) (\<lambda>has.
          if \<not> has then Pass (J_string ''Unknown'')
          else bindC (text_of release name) (\<lambda>t. Pass (J_string t)))
      | _ \<Rightarrow> Pass (J_string ''Unknown''))"

definition service_document :: "string \<times> ServiceInterface \<Rightarrow> json" where
  "service_document entry =
     (case entry of (name, interface) \<Rightarrow>
        J_object
          [(''name'', J_text name), (''clusterIP'', J_text (si_clusterIP interface)),
           (''externalIP'', J_text (si_externalIP interface)), (''ports'', J_text (si_ports interface)),
           (''url'', J_text (si_netPathRef interface))])"

definition list_release_args :: "ApplicationInstance \<Rightarrow> Group \<Rightarrow> string list" where
  "list_release_args i g =
     [''list'', ''-f'', ''^'' @ i_name i @ ''$'', ''-n'', namespaceName g, ''--output'', ''json'']"

definition instance_members :: "ApplicationInstance \<Rightarrow> string \<Rightarrow> string \<Rightarrow> json \<Rightarrow> json \<Rightarrow>
    (string \<times> json) list" where
  "instance_members i groupName clusterName appVersion chartVersion =
     [(''id'', J_text (i_id i)), (''name'', J_text (i_name i)),
      (''application'', J_string (chart_of (i_application i))),
      (''appVersion'', appVersion), (''group'', J_string groupName), (''cluster'', J_string clusterName),
      (''created'', J_text (i_ctime i)), (''configuration'', J_text (i_config i)),
      (''chartVersion'', chartVersion)]"

definition details_members :: "'w env \<Rightarrow> 'w services \<Rightarrow> request \<Rightarrow> ApplicationInstance \<Rightarrow>
    (('w, 'z) cluster_store_scheme, (string \<times> json) list) op" where
  "details_members E X req i =
     (if req_params req ''detailed'' = None then ret []
      else bindM (attemptM (fetchInstanceDetails E X i)) (\<lambda>details.
           ret [(''details'',
                 case details of
                   Inl e \<Rightarrow> error_entry (''Failed to detailed information for instance: '' @ e)
                 | Inr doc \<Rightarrow> doc)]))"

definition describe_instance :: "'w env \<Rightarrow> 'w services \<Rightarrow> request \<Rightarrow> ApplicationInstance \<Rightarrow> Group \<Rightarrow>
    Cluster \<Rightarrow> (('w, 'z) cluster_store_scheme, response) op" where
  "describe_instance E X req i g cluster =
     bindM (configPathForCluster E (c_id cluster)) (\<lambda>clusterConfig.
     bindM (helm_with_config X clusterConfig (list_release_args i g)) (\<lambda>r.
     let releaseInfo = x_parse X (c_str (cmd_output r)) in
     bindM (checkM (release_member releaseInfo ''app_version'')) (\<lambda>appVersion.
     bindM (getGroup E (i_owningGroup i)) (\<lambda>owner.
     bindM (getCluster E (i_cluster i)) (\<lambda>home.
     bindM (checkM (release_member releaseInfo ''chart'')) (\<lambda>chartVersion.
     bindM (configPathForCluster E (i_cluster i)) (\<lambda>configPath.
     bindM (getCluster E (i_cluster i)) (\<lambda>_.
     bindM (getServices E X configPath (i_name i) (namespaceName g)) (\<lambda>services.
     bindM (details_members E X req i) (\<lambda>details.
     ret (reply (J_object
       ([(''apiVersion'', J_string ''v1alpha3''), (''kind'', J_string ''ApplicationInstance''),
         (''metadata'', J_object
            (instance_members i (g_name owner) (c_name home) appVersion chartVersion)),
         (''services'', J_array (map service_document services))] @ details)))))))))))))"

definition do_fetchApplicationInstanceInfo :: "'w env \<Rightarrow> 'w services \<Rightarrow> request \<Rightarrow> string \<Rightarrow>
    (('w, 'z) instance_store_scheme, response) op" where
  "do_fetchApplicationInstanceInfo E X req instanceID =
     with_own_instance E req instanceID 404 (\<lambda>i.
     bindM (getApplicationInstanceConfig E instanceID) (\<lambda>config.
     let i = i\<lparr>i_config := config\<rparr>
     in with_home E i (describe_instance E X req i)))"

end
