(* ===== verification/InstanceCommands.thy ===== *)
theory InstanceCommands
  imports InstanceInfo
begin

text \<open>
  Updating, restarting and scaling application instances, and reading their logs
  (\<open>src/ApplicationInstanceCommands.cpp\<close>).  Updating and restarting share the removal of the old
  release, the wait for its objects to disappear, and the new installation, which the code has
  twice.
\<close>

section \<open>Stopping the old release\<close>

text \<open>With another version of helm nothing is expected, and every outcome of the command will do.\<close>

definition not_found_message :: "nat \<Rightarrow> string \<Rightarrow> string" where
  "not_found_message version name =
     (if version = 2 then [CHR 0x22] @ name @ [CHR 0x22] @ '' not found''
      else if version = 3 then name @ '': release: not found''
      else '''')"

definition release_gone :: "nat \<Rightarrow> string \<Rightarrow> command_result \<Rightarrow> bool" where
  "release_gone version name r \<longleftrightarrow>
     helm_deleted name r \<or> occurs_in (not_found_message version name) (cmd_error r)"

definition delete_release :: "'w env \<Rightarrow> 'w services \<Rightarrow> ApplicationInstance \<Rightarrow> Group \<Rightarrow> string \<Rightarrow>
    (('w, 'z) cluster_store_scheme, string option) op" where
  "delete_release E X i g clusterConfig =
     bindM (getCluster E (i_cluster i)) (\<lambda>cluster.
     bindM (getHelmMajorVersion E) (\<lambda>version.
     bindM (helm E X clusterConfig (c_systemNamespace cluster)
              (helm_delete_args version (i_name i) (namespaceName g))) (\<lambda>r.
     ret (if release_gone version (i_name i) r then None
          else Some (''helm delete failed: '' @ cmd_error r)))))"

definition stop_instance :: "'w env \<Rightarrow> 'w services \<Rightarrow> ApplicationInstance \<Rightarrow> Group \<Rightarrow> string \<Rightarrow>
    (('w, 'z) cluster_store_scheme, string option) op" where
  "stop_instance E X i g clusterConfig =
     catchM (delete_release E X i g clusterConfig)
       (\<lambda>e. ret (Some (''Failed to delete instance using helm: '' @ e)))"

section \<open>Waiting for its objects to disappear\<close>

text \<open>
  The delays, in seconds, between the looks: each is twice the one before, up to ten, and the loop
  ends when they add up to two minutes.  (A delay of zero, which would be waited for ever, does
  not occur: the first one is two.)
\<close>

definition maxTime :: nat where "maxTime = 120"

definition maxPollDelay :: nat where "maxPollDelay = 10"

function poll_delays :: "nat \<Rightarrow> nat \<Rightarrow> nat list" where
  "poll_delays elapsedTime pollDelay =
     (if elapsedTime < maxTime \<and> 0 < pollDelay
      then let d = min maxPollDelay (pollDelay + pollDelay) in d # poll_delays (elapsedTime + d) d
      else [])"
  by pat_completeness auto
termination
  by (relation "measure (\<lambda>(e, d). maxTime - e)") (auto simp: maxPollDelay_def)

declare poll_delays.simps [simp del]

datatype look = Stop string | Again

definition none_left :: "json \<Rightarrow> look check" where
  "none_left objData =
     bindC (HasMember objData ''items'') (\<lambda>has.
     if \<not> has then Pass Again
     else bindC (the_member objData ''items'') (\<lambda>v.
          Pass (if v = J_array [] then Stop '''' else Again)))"

definition look_for_objects :: "'w env \<Rightarrow> 'w services \<Rightarrow> string \<Rightarrow> string \<Rightarrow> string \<Rightarrow>
    (('w, 'z) base_store_scheme, look) op" where
  "look_for_objects E X clusterConfig name nspace =
     catchM
       (bindM (kubectl E clusterConfig
                 [''get'', ''all'', ''-l release='' @ name, ''-n'', nspace, ''-o=json'']) (\<lambda>r.
        if cmd_status r \<noteq> 0
        then ret (Stop ''Failed to check whether objects from old instance are fully deleted; reinstall may fail\<newline>'')
        else checkM (none_left (x_parse X (c_str (cmd_output r))))))
       (\<lambda>e. ret (Stop (''[Warning] Failed to check whether objects from old instance are fully deleted; '' @
                      ''reinstall may fail\<newline>'')))"

text \<open>The message is for the user.\<close>

primrec wait_for_objects :: "'w env \<Rightarrow> 'w services \<Rightarrow> string \<Rightarrow> string \<Rightarrow> string \<Rightarrow> nat list \<Rightarrow>
    (('w, 'z) base_store_scheme, string) op" where
  "wait_for_objects E X clusterConfig name nspace [] =
     ret ''[Warning] Object deletion check timeout reached; proceeding with reinstall anyway\<newline>''"
| "wait_for_objects E X clusterConfig name nspace (d # delays) =
     bindM (callM (x_sleep X (1000 * d))) (\<lambda>_.
     bindM (look_for_objects E X clusterConfig name nspace) (\<lambda>found.
     case found of
       Stop message \<Rightarrow> ret message
     | Again \<Rightarrow> wait_for_objects E X clusterConfig name nspace delays))"

section \<open>Installing again\<close>

definition reinstall_cleanup_args :: "nat \<Rightarrow> ApplicationInstance \<Rightarrow> Group \<Rightarrow> string list" where
  "reinstall_cleanup_args version i g =
     ''delete'' # (if version = 2 then [''--purge''] else []) @ [i_name i, ''--namespace'', namespaceName g]"

definition reinstall_failed :: "'w env \<Rightarrow> 'w services \<Rightarrow> ApplicationInstance \<Rightarrow> Group \<Rightarrow> Cluster \<Rightarrow>
    string \<Rightarrow> string \<Rightarrow> command_result \<Rightarrow> (('w, 'z) base_store_scheme, response) op" where
  "reinstall_failed E X i g cluster clusterConfig resultMessage r =
     bindM (getHelmMajorVersion E) (\<lambda>version.
     bindM (helm E X clusterConfig (c_systemNamespace cluster) (reinstall_cleanup_args version i g)) (\<lambda>_.
     ret (failure 500
       (''Failed to start application instance with helm:\<newline>'' @ cmd_error r @
        ''\<newline> system namespace: '' @ c_systemNamespace cluster @
        (if resultMessage \<noteq> [] then ''\<newline>'' @ resultMessage else '''')))))"

definition helm_reinstall :: "'w env \<Rightarrow> 'w services \<Rightarrow> ApplicationInstance \<Rightarrow> Group \<Rightarrow> Cluster \<Rightarrow>
    string \<Rightarrow> string option \<Rightarrow> string \<Rightarrow> string \<Rightarrow> (('w, 'z) instance_store_scheme, response) op \<Rightarrow>
    (('w, 'z) instance_store_scheme, response) op" where
  "helm_reinstall E X i g cluster clusterConfig chartVersion configFile resultMessage k =
     bindM (getHelmMajorVersion E) (\<lambda>version.
     bindM (helm_with_config X clusterConfig
              (install_args X version cluster g i configFile chartVersion)) (\<lambda>r.
     if deployed r then k
     else reinstall_failed E X i g cluster clusterConfig resultMessage r))"

text \<open>When the namespace cannot be made the record of the instance is removed.\<close>

definition reinstall :: "'w env \<Rightarrow> 'w services \<Rightarrow> ApplicationInstance \<Rightarrow> Group \<Rightarrow> Cluster \<Rightarrow>
    string \<Rightarrow> string option \<Rightarrow> string \<Rightarrow> (('w, 'z) instance_store_scheme, response) op \<Rightarrow>
    (('w, 'z) instance_store_scheme, response) op" where
  "reinstall E X i g cluster clusterConfig chartVersion resultMessage k =
     bindM (callE (x_writeFile X (i_id i) (i_config i))) (\<lambda>(configFile, ok).
     if \<not> ok then ret (failure 500 ''Failed to write instance configuration to disk'')
     else bindM (attemptM (kubectl_create_namespace E clusterConfig g)) (\<lambda>created.
     case created of
       Inl e \<Rightarrow> bindM (removeApplicationInstance E (i_id i)) (\<lambda>_. ret (failure 500 e))
     | Inr _ \<Rightarrow>
         helm_reinstall E X i g cluster clusterConfig chartVersion configFile resultMessage k))"

definition replace_release :: "'w env \<Rightarrow> 'w services \<Rightarrow> ApplicationInstance \<Rightarrow> Group \<Rightarrow> Cluster \<Rightarrow>
    string option \<Rightarrow> (string \<Rightarrow> (('w, 'z) instance_store_scheme, response) op) \<Rightarrow>
    (('w, 'z) instance_store_scheme, response) op" where
  "replace_release E X i g cluster chartVersion k =
     bindM (configPathForCluster E (c_id cluster)) (\<lambda>clusterConfig.
     bindM (stop_instance E X i g clusterConfig) (\<lambda>problem.
     case problem of
       Some message \<Rightarrow> ret (failure 500 message)
     | None \<Rightarrow>
         bindM (wait_for_objects E X clusterConfig (i_name i) (namespaceName g) (poll_delays 0 1))
           (\<lambda>resultMessage.
         reinstall E X i g cluster clusterConfig chartVersion resultMessage (k resultMessage))))"

definition reinstalled_document :: "ApplicationInstance \<Rightarrow> Group \<Rightarrow> string \<Rightarrow> json" where
  "reinstalled_document i g resultMessage =
     J_object
       [(''apiVersion'', J_string ''v1alpha3''), (''kind'', J_string ''Configuration''),
        (''metadata'', J_object
           [(''id'', J_string (i_id i)), (''name'', J_string (i_name i)),
            (''application'', J_string (i_application i)), (''group'', J_string (g_id g))]),
        (''message'', J_string resultMessage)]"

section \<open>Update and restart\<close>

definition unpack_instance_update :: "json \<Rightarrow> (string \<times> string) check" where
  "unpack_instance_update doc =
     bindC (demand (doc \<noteq> J_null) 400 ''Invalid JSON in request body'') (\<lambda>_.
     bindC (require_string doc ''configuration'' ''Configuration for update missing''
              ''Incorrect type for configuration'') (\<lambda>_.
     bindC (text_of doc ''configuration'') (\<lambda>config.
     bindC (chart_version doc) (\<lambda>chartVersion. Pass (config, chartVersion)))))"

text \<open>The new record replaces the old one; nobody looks whether either step succeeds.\<close>

definition record_update :: "'w env \<Rightarrow> string \<Rightarrow> ApplicationInstance \<Rightarrow> Group \<Rightarrow> string \<Rightarrow>
    (('w, 'z) instance_store_scheme, response) op" where
  "record_update E instanceID i g resultMessage =
     bindM (removeApplicationInstance E instanceID) (\<lambda>_.
     bindM (addApplicationInstance E i) (\<lambda>_.
     ret (reply (reinstalled_document i g resultMessage))))"

definition do_updateApplicationInstance :: "'w env \<Rightarrow> 'w services \<Rightarrow> request \<Rightarrow> string \<Rightarrow>
    (('w, 'z) instance_store_scheme, response) op" where
  "do_updateApplicationInstance E X req instanceID =
     with_own_instance E req instanceID 404 (\<lambda>i.
     with_home E i (\<lambda>g cluster.
     checked (unpack_instance_update (request_json X req)) (\<lambda>(config, chartVersion).
     let i = i\<lparr>i_config := config\<rparr> in
     bindM (runCommand E ''helm''
              [''inspect'', ''values'', i_application i, ''--version'', chartVersion]) (\<lambda>r.
     if cmd_status r \<noteq> 0 then ret (failure 500 ''Unable to fetch application version'')
     else replace_release E X i g cluster (Some chartVersion) (record_update E instanceID i g)))))"

definition do_restartApplicationInstance :: "'w env \<Rightarrow> 'w services \<Rightarrow> request \<Rightarrow> string \<Rightarrow>
    (('w, 'z) instance_store_scheme, response) op" where
  "do_restartApplicationInstance E X req instanceID =
     with_own_instance E req instanceID 404 (\<lambda>i.
     with_home E i (\<lambda>g cluster.
     bindM (getApplicationInstanceConfig E (i_id i)) (\<lambda>config.
     let i = i\<lparr>i_config := config\<rparr> in
     replace_release E X i g cluster None (\<lambda>resultMessage.
       ret (reply (reinstalled_document i g resultMessage))))))"

section \<open>Scale\<close>

text \<open>A deployment of the expected structure, with its number of replicas.\<close>

definition deployment_of :: "json \<Rightarrow> (string \<times> int) list" where
  "deployment_of deployment =
     (case deployment of
        J_object ms \<Rightarrow>
          (case (map_of ms ''metadata'', map_of ms ''spec'') of
             (Some (J_object metadata), Some (J_object spec)) \<Rightarrow>
               (case (map_of metadata ''name'', map_of spec ''replicas'') of
                  (Some (J_string name), Some (J_int replicas)) \<Rightarrow>
                    if 0 \<le> replicas \<and> replicas < 2 ^ 64 then [(c_str name, replicas)] else []
                | _ \<Rightarrow> [])
           | _ \<Rightarrow> [])
      | _ \<Rightarrow> [])"

text \<open>A failure of the command is logged; its output is taken apart all the same.\<close>

definition deployments :: "'w env \<Rightarrow> 'w services \<Rightarrow> ApplicationInstance \<Rightarrow> string \<Rightarrow> string \<Rightarrow>
    (('w, 'z) base_store_scheme, json list) op" where
  "deployments E X i configPath nspace =
     bindM (kubectl E configPath [''get'', ''deployment'', ''-l'', ''release='' @ i_name i,
              ''--namespace'', nspace, ''-o=json'']) (\<lambda>r.
     checkM (array_at (x_parse X (c_str (cmd_output r))) [''items'']))"

definition scale_document :: "(string \<times> int) list \<Rightarrow> json" where
  "scale_document scales =
     J_object
       [(''apiVersion'', J_string ''v1alpha3''), (''kind'', J_string ''ApplicationInstanceScale''),
        (''deployments'', J_object (map (\<lambda>(name, replicas). (name, J_int replicas)) scales))]"

definition deployment_missing :: "nat \<Rightarrow> string \<Rightarrow> string \<Rightarrow> response" where
  "deployment_missing status depName instanceID =
     failure status (''Deployment '' @ depName @ '' not found in '' @ instanceID)"

definition do_getApplicationInstanceScale :: "'w env \<Rightarrow> 'w services \<Rightarrow> request \<Rightarrow> string \<Rightarrow>
    (('w, 'z) instance_store_scheme, response) op" where
  "do_getApplicationInstanceScale E X req instanceID =
     with_own_instance E req instanceID 400 (\<lambda>i.
     bindM (getGroup E (i_owningGroup i)) (\<lambda>g.
     bindM (configPathForCluster E (i_cluster i)) (\<lambda>configPath.
     bindM (deployments E X i configPath (namespaceName g)) (\<lambda>items.
     let depName = text_param req ''deployment'';
         scales = filter (\<lambda>d. depName = [] \<or> fst d = depName) (concat (map deployment_of items))
     in ret (if depName \<noteq> [] \<and> scales = [] then deployment_missing 400 depName instanceID
             else reply (scale_document scales))))))"

text \<open>\<open>std::stoull\<close> throws a \<open>logic_error\<close>, which is not caught.\<close>

definition wanted_replicas :: "request \<Rightarrow> nat check" where
  "wanted_replicas req =
     (case req_params req ''replicas'' of
        None \<Rightarrow> Reject (failure 400 ''Missing number of replicas'')
      | Some t \<Rightarrow> (case stoul t of None \<Rightarrow> Abort ''stoull'' | Some n \<Rightarrow> Pass n))"

text \<open>The deployment to scale: the one that is named, or the only one.\<close>

definition selected_deployment :: "string \<Rightarrow> (string \<times> int) list \<Rightarrow> string" where
  "selected_deployment depName found =
     (if depName \<noteq> [] then depName else case found of [(name, replicas)] \<Rightarrow> name | _ \<Rightarrow> '''')"

definition scale_to :: "'w env \<Rightarrow> string \<Rightarrow> string \<Rightarrow> string \<Rightarrow> string \<Rightarrow> nat \<Rightarrow> (string \<times> int) list \<Rightarrow>
    (('w, 'z) base_store_scheme, response) op" where
  "scale_to E configPath nspace instanceID depName replicas found =
     (if depName \<notin> set (map fst found) then ret (deployment_missing 404 depName instanceID)
      else bindM (kubectl E configPath
                    [''scale'', ''deployment'', depName, ''--replicas'', show_nat replicas,
                     ''--namespace'', nspace, ''-o=json'']) (\<lambda>r.
           ret (if cmd_status r \<noteq> 0
                then failure 500 (''Scaling deployment '' @ depName @ '' to '' @ show_nat replicas @
                       '' replicas failed: '' @ cmd_error r)
                else reply (scale_document
                       (map (\<lambda>(name, n). (name, if name = depName then int replicas else n)) found)))))"

definition do_scaleApplicationInstance :: "'w env \<Rightarrow> 'w services \<Rightarrow> request \<Rightarrow> string \<Rightarrow>
    (('w, 'z) instance_store_scheme, response) op" where
  "do_scaleApplicationInstance E X req instanceID =
     with_own_instance E req instanceID 404 (\<lambda>i.
     bindM (getGroup E (i_owningGroup i)) (\<lambda>g.
     checked (wanted_replicas req) (\<lambda>replicas.
     bindM (configPathForCluster E (i_cluster i)) (\<lambda>configPath.
     bindM (deployments E X i configPath (namespaceName g)) (\<lambda>items.
     let depName = text_param req ''deployment''; found = concat (map deployment_of items)
     in if depName = [] \<and> length items \<noteq> 1
        then ret (failure 400 (instanceID @ '' does not expose exactly one deployment, '' @
                    ''and no deployment was specified to be scaled.''))
        else scale_to E configPath (namespaceName g) instanceID
               (selected_deployment depName found) replicas found)))))"

section \<open>Logs\<close>

text \<open>A number of lines that cannot be read is the default.\<close>

definition max_lines :: "request \<Rightarrow> nat" where
  "max_lines req =
     (case req_params req ''max_lines'' of
        None \<Rightarrow> 20
      | Some t \<Rightarrow> (case stoul t of None \<Rightarrow> 20 | Some n \<Rightarrow> n))"

definition pod_containers :: "string \<Rightarrow> json \<Rightarrow> (string \<times> string) list check" where
  "pod_containers selected pod =
     bindC (the_member pod ''spec'') (\<lambda>spec.
     bindC (HasMember spec ''containers'') (\<lambda>has.
     if \<not> has then Pass []
     else bindC (text_at pod [''metadata'', ''name'']) (\<lambda>podName.
          bindC (array_at spec [''containers'']) (\<lambda>items.
          bindC (mapC (\<lambda>c. text_of c ''name'') items) (\<lambda>names.
          Pass (map (Pair podName) (filter (\<lambda>n. selected = [] \<or> n = selected) names)))))))"

definition log_args :: "nat \<Rightarrow> bool \<Rightarrow> string \<Rightarrow> string \<times> string \<Rightarrow> string list" where
  "log_args maxLines previous nspace container =
     [''logs'', fst container, ''-c'', snd container, ''-n'', nspace] @
     (if maxLines \<noteq> 0 then [''--tail='' @ show_nat maxLines] else []) @
     (if previous then [''-p''] else [])"

definition collectLog :: "'w env \<Rightarrow> string \<Rightarrow> nat \<Rightarrow> bool \<Rightarrow> string \<Rightarrow> string \<times> string \<Rightarrow>
    (('w, 'z) base_store_scheme, string) op" where
  "collectLog E configPath maxLines previous nspace container =
     bindM (kubectl E configPath (log_args maxLines previous nspace container)) (\<lambda>r.
     ret (replicate 40 (CHR ''='') @ ''\<newline>Pod: '' @ fst container @ '' Container: '' @ snd container @ ''\<newline>'' @
          (if cmd_status r \<noteq> 0 then ''Failed to get logs: '' @ cmd_error r @ ''\<newline>'' else cmd_output r)))"

text \<open>One thread for each container; the first exception comes out.\<close>

fun join_blocks :: "string outcome list \<Rightarrow> string \<Rightarrow> string outcome" where
  "join_blocks [] logData = Inr logData"
| "join_blocks (Inl e # rest) logData = Inl e"
| "join_blocks (Inr block # rest) logData = join_blocks rest (logData @ block)"

definition collect_logs :: "'w env \<Rightarrow> string \<Rightarrow> nat \<Rightarrow> bool \<Rightarrow> string \<Rightarrow> (string \<times> string) list \<Rightarrow>
    (('w, 'z) base_store_scheme, string) op" where
  "collect_logs E configPath maxLines previous nspace containers =
     bindM (mapM (\<lambda>c. async (collectLog E configPath maxLines previous nspace c)) containers) (\<lambda>blocks.
     liftE (join_blocks blocks ''''))"

definition logs_document :: "ApplicationInstance \<Rightarrow> Group \<Rightarrow> Cluster \<Rightarrow> string \<Rightarrow> json" where
  "logs_document i g cluster logData =
     J_object
       [(''apiVersion'', J_string ''v1alpha3''), (''kind'', J_string ''ApplicationInstance''),
        (''metadata'', J_object
           [(''id'', J_string (i_id i)), (''name'', J_string (i_name i)),
            (''application'', J_string (i_application i)), (''group'', J_string (g_name g)),
            (''cluster'', J_string (c_name cluster)), (''created'', J_string (i_ctime i)),
            (''configuration'', J_string (i_config i))]),
        (''logs'', J_text logData)]"

definition send_logs :: "'w env \<Rightarrow> request \<Rightarrow> ApplicationInstance \<Rightarrow> string \<Rightarrow> string \<Rightarrow>
    (string \<times> string) list \<Rightarrow> (('w, 'z) cluster_store_scheme, response) op" where
  "send_logs E req i configPath nspace containers =
     (let selected = text_param req ''container'' in
      if containers = [] \<and> selected \<noteq> []
      then ret (failure 400 (''No containers found matching the name '' @ [CHR 0x27] @ selected @ [CHR 0x27]))
      else bindM (collect_logs E configPath (max_lines req) (req_params req ''previous'' \<noteq> None)
                    nspace containers) (\<lambda>logData.
           bindM (getGroup E (i_owningGroup i)) (\<lambda>g.
           bindM (getCluster E (i_cluster i)) (\<lambda>cluster.
           ret (reply (logs_document i g cluster logData))))))"

definition do_getApplicationInstanceLogs :: "'w env \<Rightarrow> 'w services \<Rightarrow> request \<Rightarrow> string \<Rightarrow>
    (('w, 'z) instance_store_scheme, response) op" where
  "do_getApplicationInstanceLogs E X req instanceID =
     with_own_instance E req instanceID 404 (\<lambda>i.
     bindM (configPathForCluster E (i_cluster i)) (\<lambda>configPath.
     bindM (getCluster E (i_cluster i)) (\<lambda>_.
     bindM (getGroup E (i_owningGroup i)) (\<lambda>g.
     bindM (kubectl E configPath
              [''get'', ''pods'', ''-l release='' @ i_name i, ''-n'', namespaceName g, ''-o=json'']) (\<lambda>r.
     if cmd_status r \<noteq> 0 then ret (failure 500 ''Failed to look up pods'')
     else bindM (checkM (array_at (x_parse X (c_str (cmd_output r))) [''items''])) (\<lambda>pods.
          bindM (checkM (mapC (pod_containers (text_param req ''container'')) pods)) (\<lambda>containers.
          send_logs E req i configPath (namespaceName g) (concat containers))))))))"

end
