(* ===== verification/Tar.thy ===== *)
theory Tar
  imports Files "HOL-Library.Signed_Division"
begin

text \<open>
  Tar archives, \<open>src/Archive.cpp\<close>: the header, \<open>TarWriter\<close>, \<open>recursivelyArchive\<close> and \<open>TarReader\<close>
  with the extraction to the file system.  A header is the 512 bytes that the structure
  \<open>header_posix_ustar\<close> occupies, so that what is written past the end of a field goes into the
  next one, as it does there.
\<close>

section \<open>Fields of a header\<close>

abbreviation NUL :: char where
  "NUL \<equiv> CHR 0x00"

type_synonym header = string

definition name_at :: nat where "name_at = 0"
definition mode_at :: nat where "mode_at = 100"
definition uid_at :: nat where "uid_at = 108"
definition gid_at :: nat where "gid_at = 116"
definition size_at :: nat where "size_at = 124"
definition mtime_at :: nat where "mtime_at = 136"
definition checksum_at :: nat where "checksum_at = 148"
definition typeflag_at :: nat where "typeflag_at = 156"
definition linkname_at :: nat where "linkname_at = 157"
definition magic_at :: nat where "magic_at = 257"
definition version_at :: nat where "version_at = 263"
definition prefix_at :: nat where "prefix_at = 345"

named_theorems offset_defs \<open>where the fields are\<close>

declare name_at_def [offset_defs] mode_at_def [offset_defs] uid_at_def [offset_defs]
  gid_at_def [offset_defs] size_at_def [offset_defs] mtime_at_def [offset_defs]
  checksum_at_def [offset_defs] typeflag_at_def [offset_defs] linkname_at_def [offset_defs]
  magic_at_def [offset_defs] version_at_def [offset_defs] prefix_at_def [offset_defs]

definition put_bytes :: "nat \<Rightarrow> string \<Rightarrow> header \<Rightarrow> header" where
  "put_bytes i s h = take i h @ s @ drop (i + length s) h"

definition field :: "nat \<Rightarrow> nat \<Rightarrow> header \<Rightarrow> string" where
  "field i n h = take n (drop i h)"

text \<open>The C string that starts at a byte of the header; it must end inside it.\<close>

definition c_string_at :: "nat \<Rightarrow> header \<Rightarrow> string outcome" where
  "c_string_at i h =
     (if NUL \<in> set (drop i h) then Inr (takeWhile (\<lambda>c. c \<noteq> NUL) (drop i h))
      else Inl undefined_behaviour)"

fun show_octal :: "nat \<Rightarrow> string" where
  "show_octal n =
     (if n < 8 then [char_of (48 + n)] else show_octal (n div 8) @ [char_of (48 + n mod 8)])"

declare show_octal.simps [simp del]

definition pad_left :: "nat \<Rightarrow> char \<Rightarrow> string \<Rightarrow> string" where
  "pad_left n c s = replicate (n - length s) c @ s"

text \<open>\<open>sprintf(field,...)\<close> writes the terminating NUL too.\<close>

definition print_at :: "nat \<Rightarrow> string \<Rightarrow> header \<Rightarrow> header" where
  "print_at i s h = put_bytes i (s @ [NUL]) h"

definition byte_sum :: "string \<Rightarrow> nat" where
  "byte_sum s = sum_list (map code s)"

section \<open>Making a header\<close>

datatype typeCode = RegularFile | HardLink | SymLink | CharDevice | BlockDevice | Directory | FIFONode

fun type_code :: "typeCode \<Rightarrow> nat" where
  "type_code RegularFile = 0" | "type_code HardLink = 1" | "type_code SymLink = 2"
| "type_code CharDevice = 3" | "type_code BlockDevice = 4" | "type_code Directory = 5"
| "type_code FIFONode = 6"

text \<open>What the header says of the process: \<open>getuid()\<close>, \<open>getgid()\<close> and \<open>time(NULL)\<close>.\<close>

record archiver =
  ar_uid :: nat
  ar_gid :: nat
  ar_time :: nat

text \<open>
  A long name is split at a slash.  The search reads on behind the end of a name that is shorter
  than 156 bytes and has no slash in the right place.
\<close>

definition split_index :: "string \<Rightarrow> nat outcome" where
  "split_index fileName =
     (case find (\<lambda>i. char_at fileName i = CHR ''/'')
             [length fileName - 101..<min 157 (length fileName + 1)] of
        Some i \<Rightarrow> Inr i
      | None \<Rightarrow>
          if length fileName < 156 then Inl undefined_behaviour
          else Inl ''Unable to find a prefix/filename split which satisfies POSIX UStar constraints'')"

definition put_name :: "string \<Rightarrow> header \<Rightarrow> header outcome" where
  "put_name fileName h =
     (if length fileName > 100 then
        (if length fileName > 256
         then Inl ''Filename too long to be stored in POSIX UStar format''
         else bindE (split_index fileName) (\<lambda>i.
              Inr (put_bytes name_at (drop (i + 1) fileName)
                     (put_bytes prefix_at (take i fileName) h))))
      else Inr (put_bytes name_at fileName h))"

definition setChecksum :: "header \<Rightarrow> header outcome" where
  "setChecksum h =
     (let blank = put_bytes checksum_at (replicate 8 (CHR '' '')) h
      in if byte_sum blank > 262143 then Inl ''Checksum overflow''
         else Inr (put_bytes (checksum_at + 7) '' ''
                (print_at checksum_at (pad_left 6 (CHR '' '') (show_octal (byte_sum blank))) blank)))"

text \<open>The size passes through an \<open>unsigned int\<close>, and so does the time.\<close>

definition put_attributes :: "archiver \<Rightarrow> nat \<Rightarrow> typeCode \<Rightarrow> header \<Rightarrow> header" where
  "put_attributes A fileSize fileType h =
     put_bytes version_at [CHR '' '', NUL]
      (print_at magic_at ''ustar''
        (put_bytes typeflag_at [char_of (48 + type_code fileType)]
          (print_at mtime_at (pad_left 11 (CHR ''0'') (show_octal (ar_time A mod 2 ^ 32)))
            (print_at size_at (pad_left 11 (CHR ''0'') (show_octal (fileSize mod 2 ^ 32)))
              (print_at gid_at (pad_left 7 (CHR ''0'') (show_octal (ar_gid A)))
                (print_at uid_at (pad_left 7 (CHR ''0'') (show_octal (ar_uid A)))
                  (print_at mode_at (pad_left 7 (CHR ''0'') (show_octal 420)) h)))))))"

definition header_posix_ustar :: "archiver \<Rightarrow> string \<Rightarrow> nat \<Rightarrow> typeCode \<Rightarrow> header outcome" where
  "header_posix_ustar A fileName fileSize fileType =
     (if fileSize > 8 ^ 11 - 1 then Inl ''Specified file size >= 8 GB''
      else bindE (put_name fileName (replicate 512 NUL)) (\<lambda>h.
           setChecksum (put_attributes A fileSize fileType h)))"

section \<open>Reading a header\<close>

definition isoctal :: "char \<Rightarrow> bool" where
  "isoctal c \<longleftrightarrow> 48 \<le> code c \<and> code c \<le> 55"

text \<open>The number in the checksum field, if there are only digits and blanks.\<close>

fun stored_checksum :: "bool \<Rightarrow> nat \<Rightarrow> string \<Rightarrow> nat option" where
  "stored_checksum foundDigits storedSum [] = Some storedSum"
| "stored_checksum foundDigits storedSum (c # cs) =
     (if \<not> foundDigits then
        (if isspace c then stored_checksum False storedSum cs
         else if isoctal c then stored_checksum True (code c - 48) cs
         else None)
      else if c = NUL \<or> c = CHR '' '' then Some storedSum
      else if isoctal c then stored_checksum True (8 * storedSum + code c - 48) cs
      else None)"

definition checksumValid :: "header \<Rightarrow> bool" where
  "checksumValid h \<longleftrightarrow>
     stored_checksum False 0 (field checksum_at 8 h) =
       Some (byte_sum (put_bytes checksum_at (replicate 8 (CHR '' '')) h))"

definition isEmpty :: "header \<Rightarrow> bool" where
  "isEmpty h \<longleftrightarrow> list_all (\<lambda>c. c = NUL) h"

definition getName :: "header \<Rightarrow> string" where
  "getName h =
     (let front = takeWhile (\<lambda>c. c \<noteq> NUL) (field prefix_at 155 h)
      in (if front \<noteq> [] then front @ ''/'' else '''') @ takeWhile (\<lambda>c. c \<noteq> NUL) (field name_at 100 h))"

definition properlyTerminated :: "string \<Rightarrow> bool" where
  "properlyTerminated s \<longleftrightarrow> list_ex (\<lambda>c. c = NUL \<or> c = CHR '' '') s"

text \<open>
  \<open>sscanf\<close> with \<open>%llo\<close> and \<open>%o\<close>: blanks, a sign, digits.  Without digits nothing is assigned.
\<close>

fun octal_value :: "nat \<Rightarrow> string \<Rightarrow> nat" where
  "octal_value v [] = v"
| "octal_value v (c # cs) = octal_value (8 * v + (code c - 48)) cs"

definition scan_octal :: "string \<Rightarrow> 64 word option" where
  "scan_octal s =
     (let t = dropWhile isspace s;
          neg = (t \<noteq> [] \<and> hd t = CHR ''-'');
          u = (if t \<noteq> [] \<and> (hd t = CHR ''-'' \<or> hd t = CHR ''+'') then tl t else t);
          digits = takeWhile isoctal u;
          v = octal_value 0 digits
      in if digits = [] then None
         else Some (if v \<ge> 2 ^ 64 then - 1 else if neg then - of_nat v else of_nat v))"

datatype fileType =
    REGULAR_FILE | HARD_LINK | SYMBOLIC_LINK | CHARACTER_DEVICE | BLOCK_DEVICE | DIRECTORY | FIFO | RESERVED

fun file_type_number :: "fileType \<Rightarrow> nat" where
  "file_type_number REGULAR_FILE = 0" | "file_type_number HARD_LINK = 1"
| "file_type_number SYMBOLIC_LINK = 2" | "file_type_number CHARACTER_DEVICE = 3"
| "file_type_number BLOCK_DEVICE = 4" | "file_type_number DIRECTORY = 5"
| "file_type_number FIFO = 6" | "file_type_number RESERVED = 7"

definition typeForTarTypeFlag :: "char \<Rightarrow> fileType" where
  "typeForTarTypeFlag c =
     (if c = CHR ''1'' then HARD_LINK else if c = CHR ''2'' then SYMBOLIC_LINK
      else if c = CHR ''3'' then CHARACTER_DEVICE else if c = CHR ''4'' then BLOCK_DEVICE
      else if c = CHR ''5'' then DIRECTORY else if c = CHR ''6'' then FIFO
      else if c = CHR ''7'' then RESERVED else REGULAR_FILE)"

text \<open>
  The size is kept from the entry before when there is no number in the field; before any entry,
  and always for the mode, it has no value then.
\<close>

definition header_size :: "int option \<Rightarrow> header \<Rightarrow> int outcome" where
  "header_size old h =
     (if \<not> properlyTerminated (field size_at 12 h)
      then Inl ''Improperly terminated file size field in UStar header''
      else bindE (c_string_at size_at h) (\<lambda>s.
           bindE (case scan_octal s of
                    Some w \<Rightarrow> Inr (sint w)
                  | None \<Rightarrow> (case old of Some v \<Rightarrow> Inr v | None \<Rightarrow> Inl undefined_behaviour)) (\<lambda>sz.
           if sz > 0x1FFFFFFFF then Inl ''Overlarge file size in UStar header'' else Inr sz)))"

definition header_mode :: "header \<Rightarrow> int outcome" where
  "header_mode h =
     (if \<not> properlyTerminated (field mode_at 8 h)
      then Inl ''Improperly terminated file size field in UStar header''
      else bindE (c_string_at mode_at h) (\<lambda>s.
           case scan_octal s of
             Some w \<Rightarrow> Inr (sint (ucast w :: 32 word))
           | None \<Rightarrow> Inl undefined_behaviour))"

section \<open>Writing archives\<close>

record TarWriter =
  tw_sink :: string
  tw_ended :: bool

definition new_TarWriter :: TarWriter where
  "new_TarWriter = \<lparr>tw_sink = [], tw_ended = False\<rparr>"

definition append_bytes :: "string \<Rightarrow> TarWriter \<Rightarrow> TarWriter" where
  "append_bytes s w = w\<lparr>tw_sink := tw_sink w @ s\<rparr>"

definition append_record :: "string outcome \<Rightarrow> (TarWriter, unit) op" where
  "append_record r w =
     (if tw_ended w then (Inl ''Cannot append to an ended tar stream'', w)
      else case r of Inl e \<Rightarrow> (Inl e, w) | Inr s \<Rightarrow> (Inr (), append_bytes s w))"

definition padding :: "nat \<Rightarrow> string" where
  "padding n = (if n mod 512 = 0 then [] else replicate (512 - n mod 512) NUL)"

definition appendFile :: "archiver \<Rightarrow> string \<Rightarrow> string \<Rightarrow> (TarWriter, unit) op" where
  "appendFile A filepath content =
     append_record (bindE (header_posix_ustar A filepath (length content) RegularFile) (\<lambda>h.
       Inr (h @ content @ padding (length content))))"

definition appendDirectory :: "archiver \<Rightarrow> string \<Rightarrow> (TarWriter, unit) op" where
  "appendDirectory A path = append_record (header_posix_ustar A path 0 Directory)"

definition appendSymLink :: "archiver \<Rightarrow> string \<Rightarrow> string \<Rightarrow> (TarWriter, unit) op" where
  "appendSymLink A filepath linkTarget =
     append_record (bindE (header_posix_ustar A filepath 0 SymLink) (\<lambda>h.
       if length linkTarget > 100 then Inl ''Specified link target longer than 100 characters.''
       else setChecksum (put_bytes linkname_at linkTarget h)))"

text \<open>\<open>ended\<close> is never set.\<close>

definition endStream :: "TarWriter \<Rightarrow> TarWriter" where
  "endStream w = (if \<not> tw_ended w then append_bytes (replicate (2 * 512) NUL) w else w)"

text \<open>The destructor ends the stream.\<close>

definition finished_archive :: "TarWriter \<Rightarrow> string" where
  "finished_archive w = tw_sink (endStream w)"

section \<open>Archiving a directory\<close>

definition clean_path :: "bool \<Rightarrow> string \<Rightarrow> string \<Rightarrow> string" where
  "clean_path stripPrefix basePath path =
     (if stripPrefix then drop (length basePath - length (takeWhile (\<lambda>c. c \<noteq> CHR ''/'') (rev basePath))) path
      else if path \<noteq> [] \<and> hd path = CHR ''/'' then tl path
      else path)"

definition with_writer :: "(TarWriter, unit) op \<Rightarrow> TarWriter \<Rightarrow> ('s, TarWriter) op" where
  "with_writer m w s = (case m w of (Inl e, w') \<Rightarrow> (Inl e, s) | (Inr u, w') \<Rightarrow> (Inr w', s))"

text \<open>
  One entry of a directory: a directory is left for later, a file is copied.  The text of a
  symbolic link is read into a buffer, and a byte behind the end of the buffer is set.
\<close>

definition archive_entry :: "'w filesystem \<Rightarrow> archiver \<Rightarrow> (string \<Rightarrow> string) \<Rightarrow> string \<Rightarrow>
    string \<times> file_type \<Rightarrow> string list \<times> TarWriter \<Rightarrow>
    (('w, 'z) base_store_scheme, string list \<times> TarWriter) op" where
  "archive_entry F A cleanPath path e acc =
     (let item = item_path path (fst e)
      in if dot_entry e then ret acc
         else if snd e = DT_DIR then ret (fst acc @ [item], snd acc)
         else if snd e = DT_REG then
           bindM (callM (fs_readFile F item)) (\<lambda>content.
           case content of
             None \<Rightarrow> throw (''Unable to open '' @ item @ '' for reading'')
           | Some fileData \<Rightarrow>
               bindM (with_writer (appendFile A (cleanPath item) fileData) (snd acc)) (\<lambda>w.
               ret (fst acc, w)))
         else if snd e = DT_LNK then
           bindM (callM (fs_readlink F item)) (\<lambda>target.
           case target of
             Inl err \<Rightarrow> throw (''readlink failed on '' @ item)
           | Inr t \<Rightarrow> throw undefined_behaviour)
         else ret acc)"

text \<open>
  The queue of directories; the first argument bounds how many are visited, and \<open>None\<close> says that
  it was not enough.
\<close>

primrec archive_queue :: "nat \<Rightarrow> 'w filesystem \<Rightarrow> archiver \<Rightarrow> (string \<Rightarrow> string) \<Rightarrow> string list \<Rightarrow>
    TarWriter \<Rightarrow> ('w, 'z) base_store_scheme \<Rightarrow>
    (TarWriter outcome \<times> ('w, 'z) base_store_scheme) option" where
  "archive_queue 0 F A cleanPath todo w s = None"
| "archive_queue (Suc n) F A cleanPath todo w s =
     (case todo of
        [] \<Rightarrow> Some (Inr w, s)
      | path # rest \<Rightarrow>
          (case bindM (callM (fs_readdir F path)) (\<lambda>entries.
                  case entries of
                    None \<Rightarrow> throw (path @ '' is not a readable directory'')
                  | Some es \<Rightarrow>
                      bindM (with_writer (appendDirectory A (cleanPath path)) w) (\<lambda>w1.
                      foldM (archive_entry F A cleanPath path) es (rest, w1))) s of
             (Inl e, s') \<Rightarrow> Some (Inl e, s')
           | (Inr (todo', w'), s') \<Rightarrow> archive_queue n F A cleanPath todo' w' s'))"

definition recursivelyArchive :: "nat \<Rightarrow> 'w filesystem \<Rightarrow> archiver \<Rightarrow> string \<Rightarrow> TarWriter \<Rightarrow> bool \<Rightarrow>
    ('w, 'z) base_store_scheme \<Rightarrow> (TarWriter outcome \<times> ('w, 'z) base_store_scheme) option" where
  "recursivelyArchive n F A basePath w stripPrefix =
     archive_queue n F A (clean_path stripPrefix basePath) [basePath] w"

section \<open>Reading archives\<close>

record FileRecord =
  fr_type :: fileType
  fr_data :: string
  fr_mode :: int

text \<open>
  The stream is the bytes that are left in it, and whether its end has been met.  Files are found
  by name; the first of a name stays.
\<close>

record TarReader =
  tr_src :: string
  tr_eof :: bool
  tr_files :: "(string \<times> FileRecord) list"
  tr_fileEnded :: bool

definition new_TarReader :: "string \<Rightarrow> TarReader" where
  "new_TarReader source = \<lparr>tr_src = source, tr_eof = False, tr_files = [], tr_fileEnded = False\<rparr>"

definition getFileSize :: "FileRecord \<Rightarrow> nat" where
  "getFileSize r = (if fr_type r = REGULAR_FILE then length (fr_data r) else 0)"

definition skip_bytes :: "nat \<Rightarrow> TarReader \<Rightarrow> TarReader" where
  "skip_bytes n R =
     R\<lparr>tr_src := drop n (tr_src R), tr_eof := (tr_eof R \<or> n > length (tr_src R))\<rparr>"

text \<open>At the end of the stream \<open>get()\<close> gives \<open>-1\<close>, as a byte.\<close>

definition read_data :: "nat \<Rightarrow> string \<Rightarrow> string" where
  "read_data n source = take n source @ replicate (n - length source) (CHR 0xFF)"

definition insert_file :: "string \<Rightarrow> FileRecord \<Rightarrow> TarReader \<Rightarrow> TarReader" where
  "insert_file name r R =
     (if map_of (tr_files R) name = None then R\<lparr>tr_files := (name, r) # tr_files R\<rparr> else R)"

definition dropFile :: "string \<Rightarrow> TarReader \<Rightarrow> TarReader" where
  "dropFile name R = R\<lparr>tr_files := AList.delete name (tr_files R)\<rparr>"

text \<open>
  A file's data follow its header; room is made for them first, and there is none for a negative
  size.  For other entries only the rest of a block is skipped.
\<close>

definition read_record :: "fileType \<Rightarrow> int \<Rightarrow> int \<Rightarrow> header \<Rightarrow> string \<Rightarrow> (TarReader, unit) op" where
  "read_record typ sz mode h name R =
     (if typ = REGULAR_FILE then
        (if sz < 0 then (Inl ''basic_string::_M_create'', R)
         else (Inr (), insert_file name
                 \<lparr>fr_type = typ, fr_data = read_data (nat sz) (tr_src R), fr_mode = mode\<rparr>
                 (skip_bytes (nat sz) R)))
      else if typ = SYMBOLIC_LINK then
        (case c_string_at linkname_at h of
           Inl e \<Rightarrow> (Inl e, R)
         | Inr link \<Rightarrow> (Inr (), insert_file name \<lparr>fr_type = typ, fr_data = link, fr_mode = mode\<rparr> R))
      else (Inr (), insert_file name \<lparr>fr_type = typ, fr_data = [], fr_mode = mode\<rparr> R))"

definition read_entry :: "int option \<Rightarrow> header \<Rightarrow> (TarReader, string \<times> int) op" where
  "read_entry old h =
     (if \<not> checksumValid h then throw ''Invalid UStar header checksum''
      else bindM (\<lambda>R. (header_size old h, R)) (\<lambda>sz.
           bindM (\<lambda>R. (header_mode h, R)) (\<lambda>mode.
           bindM (read_record (typeForTarTypeFlag (char_at h typeflag_at)) sz mode h (getName h)) (\<lambda>_.
           bindM (modify (skip_bytes (if sz smod 512 = 0 then 0 else nat (512 - sz smod 512)))) (\<lambda>_.
           ret (getName h, sz))))))"

lemma read_entry_shrinks:
  assumes "read_entry old h R = (r, R')"
  shows "length (tr_src R') \<le> length (tr_src R)"
proof -
  have shrunk: "length (tr_src R2) \<le> length (tr_src R1)"
    if "read_record kind sz mode h name R1 = (x, R2)" for kind sz mode name R1 R2 x
    using that
    by (auto simp: read_record_def insert_file_def skip_bytes_def split: if_splits sum.splits)
  from assms show ?thesis
    by (auto simp: read_entry_def bindM_def throw_def ret_def modify_def skip_bytes_def
        split: if_splits prod.splits sum.splits dest!: shrunk intro: order_trans [OF diff_le_self])
qed

text \<open>
  \<open>readFiles\<close>: entries are read up to the one that is wanted, or just one.  Two empty headers in
  a row end the archive.
\<close>

function read_files :: "string \<Rightarrow> nat \<Rightarrow> int option \<Rightarrow> (TarReader, string) op" where
  "read_files target nEmpty old R =
     (if length (tr_src R) < 512
      then (Inr [], R\<lparr>tr_src := [], tr_eof := True, tr_fileEnded := True\<rparr>)
      else let h = take 512 (tr_src R);
               R1 = R\<lparr>tr_src := drop 512 (tr_src R)\<rparr>
           in if isEmpty h then
                (if nEmpty + 1 = 2 then (Inr [], R1\<lparr>tr_fileEnded := True\<rparr>)
                 else read_files target (nEmpty + 1) old R1)
              else (case read_entry old h R1 of
                      (Inl e, R2) \<Rightarrow> (Inl e, R2)
                    | (Inr (name, sz), R2) \<Rightarrow>
                        if name = target \<or> target = [] then (Inr name, R2)
                        else read_files target 0 (Some sz) R2))"
  by pat_completeness auto

termination read_files
  by (relation "measure (\<lambda>(target, nEmpty, old, R). length (tr_src R))")
    (auto dest!: read_entry_shrinks [OF sym])

declare read_files.simps [simp del]

definition readFiles :: "string \<Rightarrow> (TarReader, string) op" where
  "readFiles target = read_files target 0 None"

lemma read_files_shrinks:
  "read_files target nEmpty old R = (Inr name, R') \<Longrightarrow> name \<noteq> [] \<Longrightarrow>
     length (tr_src R') < length (tr_src R)"
proof (induction target nEmpty old R rule: read_files.induct)
  case (1 target nEmpty old R)
  show ?case
  proof (cases "length (tr_src R) < 512")
    case True
    with "1.prems" show ?thesis by (simp add: read_files.simps [of target nEmpty old R])
  next
    case False
    then have long: "tr_src R \<noteq> []" by auto
    let ?h = "take 512 (tr_src R)" and ?R1 = "R\<lparr>tr_src := drop 512 (tr_src R)\<rparr>"
    have shorter: "length (tr_src ?R1) < length (tr_src R)" using False by simp
    show ?thesis
    proof (cases "isEmpty ?h")
      case True
      with "1.prems" False
      have "read_files target (nEmpty + 1) old ?R1 = (Inr name, R')" and "nEmpty + 1 \<noteq> 2"
        by (auto simp: read_files.simps [of target nEmpty old R] Let_def split: if_splits)
      from "1.IH"(1) [OF False refl refl True this(2,1) "1.prems"(2)] shorter show ?thesis by simp
    next
      case nonempty: False
      obtain x R2 where entry: "read_entry old ?h ?R1 = (x, R2)" by (cases "read_entry old ?h ?R1")
      note less = read_entry_shrinks [OF entry]
      from "1.prems" False nonempty entry obtain n sz where x: "x = Inr (n, sz)"
        by (auto simp: read_files.simps [of target nEmpty old R] Let_def split: sum.splits)
      show ?thesis
      proof (cases "n = target \<or> target = []")
        case True
        with "1.prems" False nonempty entry x have "R' = R2"
          by (auto simp: read_files.simps [of target nEmpty old R] Let_def)
        with less shorter show ?thesis by simp
      next
        case other: False
        with "1.prems" False nonempty entry x
        have "read_files target 0 (Some sz) R2 = (Inr name, R')"
          by (auto simp: read_files.simps [of target nEmpty old R] Let_def)
        from "1.IH"(2) [OF False refl refl nonempty entry [symmetric] x refl other this "1.prems"(2)]
          less shorter
        show ?thesis by simp
      qed
    qed
  qed
qed

lemma readFiles_shrinks:
  "readFiles target R = (Inr name, R') \<Longrightarrow> name \<noteq> [] \<Longrightarrow> length (tr_src R') < length (tr_src R)"
  unfolding readFiles_def by (rule read_files_shrinks)

end
