(* ===== verification/TarExtraction.thy ===== *)
theory TarExtraction
  imports Tar
begin

text \<open>
  The rest of \<open>TarReader\<close> of \<open>src/Archive.cpp\<close>: finding one file, going through the files, and
  extracting an archive to the file system.
\<close>

section \<open>Looking for files\<close>

text \<open>
  \<open>streamForFile\<close>, \<open>stringForFile\<close>, \<open>typeForFile\<close> and \<open>modeForFile\<close> look a file up in the same way.
\<close>

definition missing_file :: "string \<Rightarrow> what" where
  "missing_file name = ''File '' @ [CHR 0x27] @ name @ [CHR 0x27] @ '' not found''"

definition find_file :: "string \<Rightarrow> (TarReader, FileRecord) op" where
  "find_file name R =
     (case map_of (tr_files R) name of
        Some r \<Rightarrow> (Inr r, R)
      | None \<Rightarrow>
          if tr_eof R then (Inl (missing_file name), R)
          else bindM (readFiles name) (\<lambda>_ R1.
                 (case map_of (tr_files R1) name of
                    Some r \<Rightarrow> (Inr r, R1)
                  | None \<Rightarrow> (Inl (missing_file name), R1))) R)"

definition stringForFile :: "string \<Rightarrow> (TarReader, string) op" where
  "stringForFile name = bindM (find_file name) (\<lambda>r. ret (fr_data r))"

definition streamForFile :: "string \<Rightarrow> (TarReader, string) op" where
  "streamForFile name = bindM (find_file name) (\<lambda>r. ret (fr_data r))"

definition typeForFile :: "string \<Rightarrow> (TarReader, fileType) op" where
  "typeForFile name = bindM (find_file name) (\<lambda>r. ret (fr_type r))"

definition modeForFile :: "string \<Rightarrow> (TarReader, int) op" where
  "modeForFile name = bindM (find_file name) (\<lambda>r. ret (fr_mode r))"

text \<open>The next file that is wanted, by its name; the empty name when there is none.\<close>

function next_file :: "(FileRecord \<Rightarrow> bool) \<Rightarrow> (TarReader, string) op" where
  "next_file wanted R =
     (case readFiles [] R of
        (Inl e, R1) \<Rightarrow> (Inl e, R1)
      | (Inr name, R1) \<Rightarrow>
          if name = [] then (Inr [], R1)
          else (case map_of (tr_files R1) name of
                  Some r \<Rightarrow> if wanted r then (Inr name, R1) else next_file wanted R1
                | None \<Rightarrow> next_file wanted R1))"
  by pat_completeness auto

termination next_file
  by (relation "measure (\<lambda>(wanted, R). length (tr_src R))")
    (auto dest!: readFiles_shrinks [OF sym])

declare next_file.simps [simp del]

definition nextFile :: "(TarReader, string) op" where
  "nextFile = next_file (\<lambda>r. True)"

definition nextFileOfType :: "fileType \<Rightarrow> (TarReader, string) op" where
  "nextFileOfType kind = next_file (\<lambda>r. fr_type r = kind)"

section \<open>Extracting\<close>

text \<open>
  Where an entry goes: the true path must begin with the true path of the place to extract to.
\<close>

definition place_for :: "'w filesystem \<Rightarrow> string \<Rightarrow> string \<Rightarrow> (('w, 'z) base_store_scheme, string) op" where
  "place_for F truePrefix name =
     bindM (realpathHyp F (if truePrefix \<noteq> [] then truePrefix @ ''/'' @ name else name)) (\<lambda>filePath.
     if \<not> begins_with truePrefix filePath
     then throw (''Refusing to extract '' @ name @ '' to '' @ filePath @
                 '' which is not within '' @ truePrefix)
     else ret filePath)"

definition extract_link :: "'w filesystem \<Rightarrow> string \<Rightarrow> string \<Rightarrow> string \<Rightarrow>
    (('w, 'z) base_store_scheme, unit) op" where
  "extract_link F truePrefix target filePath =
     bindM (realpathHyp F target) (\<lambda>linkPath.
     if \<not> begins_with truePrefix linkPath
     then throw (''Refusing to extract symlink pointing to '' @ linkPath @
                 '' which is not within '' @ truePrefix)
     else bindM (callM (fs_symlink F linkPath filePath)) (\<lambda>failed.
          case failed of
            None \<Rightarrow> ret ()
          | Some err \<Rightarrow> throw (''Unable to extract symlink: error '' @ show_nat err)))"

definition extract_file :: "'w filesystem \<Rightarrow> string \<Rightarrow> FileRecord \<Rightarrow> string \<Rightarrow>
    (('w, 'z) base_store_scheme, unit) op" where
  "extract_file F truePrefix r filePath =
     (if fr_type r = REGULAR_FILE then
        bindM (callM (fs_writeFile F filePath (fr_data r))) (\<lambda>opened.
        if \<not> opened then throw (''Unable to open '' @ filePath @ '' for writing'') else ret ())
      else if fr_type r = SYMBOLIC_LINK then extract_link F truePrefix (fr_data r) filePath
      else if fr_type r = DIRECTORY then mkdir_p F filePath 493
      else throw (''Extraction not implemented for file type '' @
                  show_nat (file_type_number (fr_type r))))"

text \<open>\<open>files[name]\<close> makes an empty record if there is none.\<close>

definition record_of :: "TarReader \<Rightarrow> string \<Rightarrow> FileRecord" where
  "record_of R name =
     (case map_of (tr_files R) name of
        Some r \<Rightarrow> r
      | None \<Rightarrow> \<lparr>fr_type = REGULAR_FILE, fr_data = [], fr_mode = 420\<rparr>)"

function extract_loop :: "'w filesystem \<Rightarrow> string \<Rightarrow> bool \<Rightarrow> TarReader \<Rightarrow>
    (('w, 'z) base_store_scheme, unit) op" where
  "extract_loop F truePrefix dropAfterExtracting R s =
     (if tr_fileEnded R then (Inr (), s)
      else case readFiles [] R of
        (Inl e, R1) \<Rightarrow> (Inl e, s)
      | (Inr name, R1) \<Rightarrow>
          if name = [] then (Inr (), s)
          else (case bindM (place_for F truePrefix name)
                       (extract_file F truePrefix (record_of R1 name)) s of
                  (Inl e, s1) \<Rightarrow> (Inl e, s1)
                | (Inr u, s1) \<Rightarrow>
                    extract_loop F truePrefix dropAfterExtracting
                      (if dropAfterExtracting then dropFile name R1 else R1) s1))"
  by pat_completeness auto

termination extract_loop
  by (relation "measure (\<lambda>(F, truePrefix, dropAfterExtracting, R, s). length (tr_src R))")
    (auto dest!: readFiles_shrinks [OF sym] simp: dropFile_def)

declare extract_loop.simps [simp del]

definition extractToFileSystem :: "'w filesystem \<Rightarrow> string \<Rightarrow> bool \<Rightarrow> TarReader \<Rightarrow>
    (('w, 'z) base_store_scheme, unit) op" where
  "extractToFileSystem F pre dropAfterExtracting R =
     (if tr_files R \<noteq> []
      then throw ''extractToFileSystem does not correctly handle already extracted files''
      else bindM (if pre = [] then ret [] else realpathHyp F pre) (\<lambda>truePrefix.
           extract_loop F truePrefix dropAfterExtracting R))"

end
