(* ===== verification/Gzip.thy ===== *)
theory Gzip
  imports Files
begin

unbundle bit_operations_syntax

text \<open>
  \<open>gzipDecompress\<close> and \<open>gzipCompress\<close> of \<open>src/Archive.cpp\<close>: the header and the trailer of the
  format, the check sum, and the loops around \<open>inflate\<close> and \<open>deflate\<close> of zlib, which are
  parameters.  Loops that go on until the library is done have a budget of calls; \<open>None\<close> says that
  it was not enough, or that the code never comes to an end.
\<close>

section \<open>The header\<close>

definition bad_header :: what where
  "bad_header = ''Invalid gzip header''"

text \<open>
  \<open>do{src.get(dummy);}while(dummy)\<close>: \<open>get\<close> leaves the variable alone at the end of the stream.
  So a text without its end is read for ever, and nothing at all leaves a variable without a value.
\<close>

definition skip_text :: "string \<Rightarrow> string outcome option" where
  "skip_text source =
     (if source = [] then Some (Inl undefined_behaviour)
      else case dropWhile (\<lambda>c. c \<noteq> CHR 0x00) source of
        [] \<Rightarrow> None
      | z # rest \<Rightarrow> Some (Inr rest))"

definition bindO :: "'a outcome option \<Rightarrow> ('a \<Rightarrow> 'b outcome option) \<Rightarrow> 'b outcome option" where
  "bindO m f = (case m of None \<Rightarrow> None | Some (Inl e) \<Rightarrow> Some (Inl e) | Some (Inr a) \<Rightarrow> f a)"

text \<open>
  Extra data are skipped by moving the position, which fails behind the end and leaves the
  stream unusable, though not at its end.
\<close>

definition skip_extra :: "string \<Rightarrow> (string \<times> bool) outcome" where
  "skip_extra source =
     (if length source < 2 then Inl bad_header
      else let xlen = code (source ! 0) + 256 * code (source ! 1);
               rest = drop 2 source
           in Inr (if xlen > length rest then ([], True) else (drop xlen rest, False)))"

definition skip_crc16 :: "string \<Rightarrow> string outcome" where
  "skip_crc16 source = (if length source < 2 then Inl bad_header else Inr (drop 2 source))"

definition skip_options :: "nat \<Rightarrow> string \<Rightarrow> (string \<times> bool) outcome option" where
  "skip_options flg source =
     bindO (Some (if bit flg 2 then skip_extra source else Inr (source, False))) (\<lambda>(s1, failed).
     bindO (if bit flg 3 then skip_text s1 else Some (Inr s1)) (\<lambda>s2.
     bindO (if bit flg 4 then skip_text s2 else Some (Inr s2)) (\<lambda>s3.
     bindO (Some (if bit flg 1 then skip_crc16 s3 else Inr s3)) (\<lambda>s4.
     Some (Inr (s4, failed))))))"

definition gzip_header :: "string \<Rightarrow> (string \<times> bool) outcome option" where
  "gzip_header source =
     (if length source < 2 \<or> source ! 0 \<noteq> CHR 0x1F \<or> source ! 1 \<noteq> CHR 0x8B
      then Some (Inl bad_header)
      else if length source < 3 \<or> source ! 2 \<noteq> CHR 0x08
        then Some (Inl ''Unsupported gzip compression method'')
      else if length source < 10 then Some (Inl bad_header)
      else skip_options (code (source ! 3)) (drop 10 source))"

section \<open>Decompression\<close>

definition Z_OK :: int where "Z_OK = 0"
definition Z_STREAM_END :: int where "Z_STREAM_END = 1"
definition Z_STREAM_ERROR :: int where "Z_STREAM_ERROR = - 2"

definition readBlockSize :: nat where "readBlockSize = 1024"
definition decompSize :: nat where "decompSize = 1032 * 1024"

definition inflate_error :: "zlib_result \<Rightarrow> what" where
  "inflate_error r =
     ''Zlib decompression error: '' @ show_int (zr_result r) @
     (case zr_message r of None \<Rightarrow> '''' | Some m \<Rightarrow> '' ('' @ m @ '')'')"

text \<open>
  A round is one call of \<open>inflate\<close>.  It is another round of the inner loop (\<open>again\<close>) when the last
  one filled the output buffer.  Input is read when there is none left, until a block is full or
  the end of the stream is met; in a stream that has failed neither happens.
\<close>

primrec decompress_loop :: "nat \<Rightarrow> 'w zlib \<Rightarrow> bool \<Rightarrow> string \<Rightarrow> bool \<Rightarrow> string \<Rightarrow> bool \<Rightarrow> bool \<Rightarrow>
    string \<Rightarrow> ('w, 'z) base_store_scheme \<Rightarrow> (string outcome \<times> ('w, 'z) base_store_scheme) option" where
  "decompress_loop 0 Z failed source eof buffer success again dest s = None"
| "decompress_loop (Suc n) Z failed source eof buffer success again dest s =
     (if \<not> again \<and> success \<and> eof then Some (Inr dest, s)
      else let reading = (\<not> again \<and> buffer = [] \<and> \<not> eof)
           in if reading \<and> failed then None
              else let buffer1 = (if reading then take readBlockSize source else buffer);
                       source1 = (if reading then drop readBlockSize source else source);
                       eof1 = (if reading then length source < readBlockSize else eof)
                   in (case call (z_inflate Z buffer1) s of
                         (r, s1) \<Rightarrow>
                           if zr_result r < Z_OK then Some (Inl (inflate_error r), s1)
                           else let again1 = (length (zr_output r) = decompSize)
                                in decompress_loop n Z failed source1 eof1 (drop (zr_used r) buffer1)
                                     (success \<or> \<not> again1 \<and> zr_result r = Z_STREAM_END) again1
                                     (dest @ zr_output r) s1))"

definition gzipDecompress :: "nat \<Rightarrow> 'w zlib \<Rightarrow> string \<Rightarrow> ('w, 'z) base_store_scheme \<Rightarrow>
    (string outcome \<times> ('w, 'z) base_store_scheme) option" where
  "gzipDecompress n Z source s =
     (case gzip_header source of
        None \<Rightarrow> None
      | Some (Inl e) \<Rightarrow> Some (Inl e, s)
      | Some (Inr (rest, failed)) \<Rightarrow>
          (case call (z_inflateInit Z) s of
             (r, s1) \<Rightarrow>
               if r \<noteq> Z_OK then Some (Inl ''Failed to initialize zlib decompression'', s1)
               else decompress_loop n Z failed rest False [] False False [] s1))"

section \<open>The check sum\<close>

definition crc_shift :: "32 word \<Rightarrow> 32 word" where
  "crc_shift c = (if c AND 1 \<noteq> 0 then 0xEDB88320 XOR drop_bit 1 c else drop_bit 1 c)"

definition crc_table :: "32 word list" where
  "crc_table = map (\<lambda>n. (crc_shift ^^ 8) (of_nat n)) [0..<256]"

definition crc_byte :: "char \<Rightarrow> 32 word \<Rightarrow> 32 word" where
  "crc_byte b c = crc_table ! unat ((c XOR of_nat (code b)) AND 0xFF) XOR drop_bit 8 c"

definition updateCRC :: "string \<Rightarrow> 32 word \<Rightarrow> 32 word" where
  "updateCRC buf crc = fold crc_byte buf (crc XOR 0xFFFFFFFF) XOR 0xFFFFFFFF"

section \<open>Compression\<close>

definition inBlockSize :: nat where "inBlockSize = 128 * 1024"
definition outBlockSize :: nat where "outBlockSize = 129 * 1024"

text \<open>The header with no options set, and a 32 bit number as a little-endian machine writes it.\<close>

definition plain_header :: string where
  "plain_header =
     [CHR 0x1F, CHR 0x8B, CHR 0x08, CHR 0x00, CHR 0x00, CHR 0x00, CHR 0x00, CHR 0x00, CHR 0x02, CHR 0xFF]"

definition bytes_of :: "32 word \<Rightarrow> string" where
  "bytes_of w = map (\<lambda>i. char_of (unat (drop_bit (8 * i) w AND 0xFF))) [0..<4]"

text \<open>A round is one call of \<open>deflate\<close>; the state is the running check sum and size.\<close>

primrec compress_loop :: "nat \<Rightarrow> 'w zlib \<Rightarrow> string \<Rightarrow> bool \<Rightarrow> string \<Rightarrow> bool \<Rightarrow> 32 word \<Rightarrow> 32 word \<Rightarrow>
    string \<Rightarrow> ('w, 'z) base_store_scheme \<Rightarrow>
    ((string \<times> 32 word \<times> 32 word) outcome \<times> ('w, 'z) base_store_scheme) option" where
  "compress_loop 0 Z source eof buffer again crc totalSize dest s = None"
| "compress_loop (Suc n) Z source eof buffer again crc totalSize dest s =
     (if \<not> again \<and> eof then Some (Inr (dest, crc, totalSize), s)
      else let buffer1 = (if again then buffer else take inBlockSize source);
               source1 = (if again then source else drop inBlockSize source);
               eof1 = (if again then eof else length source < inBlockSize);
               crc1 = (if again then crc else updateCRC buffer1 crc);
               totalSize1 = (if again then totalSize else totalSize + of_nat (length buffer1))
           in (case call (z_deflate Z buffer1 eof1) s of
                 (r, s1) \<Rightarrow>
                   if zr_result r = Z_STREAM_ERROR then Some (Inl ''zlib compression failed'', s1)
                   else compress_loop n Z source1 eof1 (drop (zr_used r) buffer1)
                          (length (zr_output r) = outBlockSize) crc1 totalSize1
                          (dest @ zr_output r) s1))"

definition gzipCompress :: "nat \<Rightarrow> 'w zlib \<Rightarrow> string \<Rightarrow> ('w, 'z) base_store_scheme \<Rightarrow>
    (string outcome \<times> ('w, 'z) base_store_scheme) option" where
  "gzipCompress n Z source s =
     (case call (z_deflateInit Z) s of
        (r, s1) \<Rightarrow>
          if r \<noteq> Z_OK then Some (Inl ''zlib initialization failed'', s1)
          else (case compress_loop n Z source False [] False 0 0 plain_header s1 of
                  None \<Rightarrow> None
                | Some (Inl e, s2) \<Rightarrow> Some (Inl e, s2)
                | Some (Inr (dest, crc, totalSize), s2) \<Rightarrow>
                    Some (Inr (dest @ bytes_of crc @ bytes_of totalSize), s2)))"

end
