(* ===== verification/AdHocCommands.thy ===== *)
theory AdHocCommands
  imports ApplicationCommands TarExtraction Gzip Base64
begin

text \<open>
  \<open>installAdHocApplication\<close> of \<open>src/ApplicationCommands.cpp\<close>: the client sends a chart as a
  compressed archive in base64; it is extracted to a temporary directory, from where the instance
  is installed.  The budget bounds the calls that decompress and the depth of the directories to
  remove at the end.
\<close>

section \<open>Extracting the chart\<close>

text \<open>What \<open>catch(std::exception&)\<close> catches.\<close>

definition is_exception :: "what \<Rightarrow> bool" where
  "is_exception e \<longleftrightarrow> e \<noteq> assertion_failed \<and> e \<noteq> undefined_behaviour"

definition unpack_chart :: "nat \<Rightarrow> 'w services \<Rightarrow> string \<Rightarrow> string \<Rightarrow>
    (('w, 'z) base_store_scheme, unit) paged" where
  "unpack_chart n X coded chartDir =
     bindP (whole (\<lambda>s. (decodeBase64 coded, s))) (\<lambda>zipped.
     bindP (gzipDecompress n (x_zlib X) zipped) (\<lambda>archive.
     whole (extractToFileSystem (x_files X) (chartDir @ ''/'') True (new_TarReader archive))))"

text \<open>
  The destructors of the two objects that own the directory: what is in it is removed, then the
  directory, and nobody looks at the results.  They run however the rest ends; a failed assertion
  or undefined behaviour is the end of the program.
\<close>

definition destroy_chart :: "nat \<Rightarrow> 'w services \<Rightarrow> string \<Rightarrow> (('w, 'z) base_store_scheme, unit) paged" where
  "destroy_chart n X chartDir s =
     (case recursivelyDestroyDirectory n (x_files X) chartDir s of
        None \<Rightarrow> None
      | Some (err, s1) \<Rightarrow>
          whole (bindM (callM (fs_rmdir (x_files X) chartDir)) (\<lambda>r. ret ())) s1)"

definition finally_do :: "('s, 'a) paged \<Rightarrow> ('s, unit) paged \<Rightarrow> ('s, 'a) paged" where
  "finally_do m cleanup s =
     (case m s of
        None \<Rightarrow> None
      | Some (r, s1) \<Rightarrow>
          if (case r of Inl e \<Rightarrow> \<not> is_exception e | Inr a \<Rightarrow> False) then Some (r, s1)
          else (case cleanup s1 of None \<Rightarrow> None | Some (u, s2) \<Rightarrow> Some (r, s2)))"

text \<open>An exception that goes no further, and a check before something that may not end.\<close>

definition attemptP :: "('s, 'a) paged \<Rightarrow> ('s, 'a outcome) paged" where
  "attemptP m s =
     (case m s of
        None \<Rightarrow> None
      | Some (Inl e, s1) \<Rightarrow> Some (if is_exception e then Inr (Inl e) else Inl e, s1)
      | Some (Inr a, s1) \<Rightarrow> Some (Inr (Inr a), s1))"

definition checkedP :: "'a check \<Rightarrow> ('a \<Rightarrow> ('s, response) paged) \<Rightarrow> ('s, response) paged" where
  "checkedP c k =
     (case c of Pass a \<Rightarrow> k a | Reject r \<Rightarrow> whole (ret r) | Abort e \<Rightarrow> whole (throw e))"

section \<open>The name of the chart\<close>

definition chart_name :: "yaml \<Rightarrow> string option" where
  "chart_name node =
     (case node of
        Y_map ms \<Rightarrow> (case map_of ms (Y_scalar ''name'') of Some (Y_scalar t) \<Rightarrow> Some t | _ \<Rightarrow> None)
      | _ \<Rightarrow> None)"

text \<open>Only whether there is a name matters to the caller, who does not pass on the error message.\<close>

definition extractChartName :: "'w env \<Rightarrow> 'w services \<Rightarrow> string \<Rightarrow>
    (('w, 'z) base_store_scheme, string option) op" where
  "extractChartName E X path =
     bindM (helm E X '''' '''' [''inspect'', ''chart'', path]) (\<lambda>r.
     ret (if cmd_status r = 0
          then (case x_loadFirstYaml X (cmd_output r) of Inl e \<Rightarrow> None | Inr node \<Rightarrow> chart_name node)
          else None))"

section \<open>The command\<close>

definition sent_chart :: "json \<Rightarrow> string check" where
  "sent_chart doc =
     bindC (demand (doc \<noteq> J_null) 400 ''Invalid JSON in request body'') (\<lambda>_.
     bindC (require_string doc ''chart'' ''Missing chart'' ''Incorrect type for chart'') (\<lambda>_.
     text_of doc ''chart''))"

text \<open>The directory of the chart must be the only one in the archive.\<close>

definition chart_directory :: "string \<Rightarrow> (string \<times> file_type) list option \<Rightarrow> string check" where
  "chart_directory chartDir entries =
     (case filter (\<lambda>e. \<not> dot_entry e \<and> snd e = DT_DIR) (case entries of None \<Rightarrow> [] | Some es \<Rightarrow> es) of
        [] \<Rightarrow> Reject (failure 400 ''No directory in chart tarball'')
      | [e] \<Rightarrow> Pass (item_path chartDir (fst e))
      | _ \<Rightarrow> Reject (failure 400 ''Too many directories in chart tarball''))"

definition install_chart :: "'w env \<Rightarrow> 'w services \<Rightarrow> User \<Rightarrow> json \<Rightarrow> string \<Rightarrow>
    (('w, 'z) persistent_store_scheme, response) op" where
  "install_chart E X user body chartDir =
     bindM (callM (fs_readdir (x_files X) chartDir)) (\<lambda>entries.
     checked (chart_directory chartDir entries) (\<lambda>chartSubDir.
     bindM (extractChartName E X chartSubDir) (\<lambda>name.
     bindM (callM (fs_readdir (x_files X) (chartSubDir @ ''/templates''))) (\<lambda>templates.
     if templates = None \<or> templates = Some []
     then ret (failure 400 ''Templates subdirectory not found in chart tarball'')
     else (case name of
             None \<Rightarrow> ret (failure 400 ''No name obtained for chart'')
           | Some appName \<Rightarrow> installApplicationImpl E X user appName chartSubDir body)))))"

definition chart_failure :: "what \<Rightarrow> response" where
  "chart_failure e = failure 500 (''Unable to extract application chart: '' @ e)"

text \<open>Whatever goes wrong until the chart is extracted is answered; after that it is not caught.\<close>

definition install_from :: "nat \<Rightarrow> 'w env \<Rightarrow> 'w services \<Rightarrow> User \<Rightarrow> json \<Rightarrow> string \<Rightarrow> string \<Rightarrow>
    (('w, 'z) persistent_store_scheme, response) paged" where
  "install_from n E X user body coded chartDir =
     finally_do
       (bindP (attemptP (unpack_chart n X coded chartDir)) (\<lambda>extracted.
        case extracted of
          Inl e \<Rightarrow> whole (ret (chart_failure e))
        | Inr u \<Rightarrow> whole (install_chart E X user body chartDir)))
       (destroy_chart n X chartDir)"

definition do_installAdHocApplication :: "nat \<Rightarrow> 'w env \<Rightarrow> 'w services \<Rightarrow> request \<Rightarrow>
    (('w, 'z) persistent_store_scheme, response) paged" where
  "do_installAdHocApplication n E X req =
     requesterP E req ''An unauthorized user attempted to install an ad-hoc application'' (\<lambda>user.
     checkedP (sent_chart (request_json X req)) (\<lambda>coded.
     bindP (attemptP (whole (makeTemporaryDir (x_files X) ''/tmp/slate_chart_''))) (\<lambda>made.
     case made of
       Inl e \<Rightarrow> whole (ret (chart_failure e))
     | Inr chartDir \<Rightarrow> install_from n E X user (request_json X req) coded chartDir)))"

end
