(* ===== verification/Service.thy ===== *)
theory Service
  imports CredentialCommands UserCommands SecretCommands ClusterInfo InstanceCommands AdHocCommands
begin

text \<open>
  The request interface of \<open>src/slate_service.cpp\<close>: the routing table, the execution of one request, \<open>multiplex\<close>, and \<open>serverVersionInfo\<close> of
  \<open>src/VersionCommands.cpp\<close>.  The HTTP server is the vendored crow; of it the model keeps that
  the first rule of a method that matches the whole path is taken, that a \<open><string>\<close> is a
  non-empty piece of the path without a slash, that no rule means status 404, and that an
  exception in a handler becomes an empty response with status 500.
\<close>

section \<open>Routes\<close>

datatype http_method = Delete | Get | Head | Post | Put | Connect | Options | Trace | Patch | Purge

datatype (plugins only: size) endpoint =
    Multiplex
  | ListUsers | CreateUser | GetUserInfo string | UpdateUser string | DeleteUser string
  | ListUsergroups string | AddUserToGroup string string | RemoveUserFromGroup string string
  | ReplaceUserToken string | FindUser | WhoAreThey
  | ListMonitoringCredentials | AddMonitoringCredential | RevokeMonitoringCredential string
  | DeleteMonitoringCredential string
  | ListGroups | CreateGroup | GetGroupInfo string | UpdateGroup string
  | DeleteGroup string | ListGroupMembers string | ListGroupClusters string
  | ListClusters | CreateCluster | GetClusterInfo string | UpdateCluster string
  | DeleteCluster string | PingCluster string | VerifyCluster string
  | ListClusterAllowedgroups string | CheckGroupClusterAccess string string
  | GrantGroupClusterAccess string string | RevokeGroupClusterAccess string string
  | ListClusterGroupAllowedApplications string string
  | AllowGroupUseOfApplication string string string
  | DenyGroupUseOfApplication string string string
  | GetClusterMonitoringCredential string | RemoveClusterMonitoringCredential string
  | ListApplications | FetchApplicationConfig string | FetchApplicationDocumentation string
  | FetchApplicationVersions string | InstallApplication string | InstallAdHocApplication | UpdateCatalog
  | ListApplicationInstances | FetchApplicationInstanceInfo string | DeleteApplicationInstance string
  | RestartApplicationInstance string | GetApplicationInstanceLogs string
  | GetApplicationInstanceScale string | ScaleApplicationInstance string
  | UpdateApplicationInstance string
  | ListSecrets | CreateSecret | GetSecret string | DeleteSecret string
  | Statistics
  | ListVolumeClaims | CreateVolumeClaim | FetchVolumeClaimInfo string | DeleteVolumeClaim string
  | ServerVersionInfo
  | UnsupportedVersion

text \<open>A piece of a route: fixed text, \<open><string>\<close>, or \<open><path>\<close>, which takes the rest.\<close>

datatype piece = Fixed string | Str | Path

fun match_pieces :: "piece list \<Rightarrow> string list \<Rightarrow> string list option" where
  "match_pieces [] [] = Some []"
| "match_pieces (Fixed t # ps) (s # ss) = (if s = t then match_pieces ps ss else None)"
| "match_pieces (Str # ps) (s # ss) =
     (if s = [] then None else map_option (Cons s) (match_pieces ps ss))"
| "match_pieces [Path] (s # ss) = (if s = [] \<and> ss = [] then None else Some [])"
| "match_pieces _ _ = None"

definition arg :: "string list \<Rightarrow> nat \<Rightarrow> string" where
  "arg args i = (if i < length args then args ! i else '''')"

type_synonym rule = "http_method \<times> piece list \<times> (string list \<Rightarrow> endpoint)"

definition api :: "piece list \<Rightarrow> piece list" where
  "api ps = Fixed ''v1alpha3'' # ps"

definition routes :: "rule list" where
  "routes =
     [(Post, api [Fixed ''multiplex''], \<lambda>a. Multiplex),
      (Get, api [Fixed ''users''], \<lambda>a. ListUsers),
      (Post, api [Fixed ''users''], \<lambda>a. CreateUser),
      (Get, api [Fixed ''users'', Str], \<lambda>a. GetUserInfo (arg a 0)),
      (Put, api [Fixed ''users'', Str], \<lambda>a. UpdateUser (arg a 0)),
      (Delete, api [Fixed ''users'', Str], \<lambda>a. DeleteUser (arg a 0)),
      (Get, api [Fixed ''users'', Str, Fixed ''groups''], \<lambda>a. ListUsergroups (arg a 0)),
      (Put, api [Fixed ''users'', Str, Fixed ''groups'', Str],
         \<lambda>a. AddUserToGroup (arg a 0) (arg a 1)),
      (Delete, api [Fixed ''users'', Str, Fixed ''groups'', Str],
         \<lambda>a. RemoveUserFromGroup (arg a 0) (arg a 1)),
      (Get, api [Fixed ''users'', Str, Fixed ''replace_token''], \<lambda>a. ReplaceUserToken (arg a 0)),
      (Get, api [Fixed ''find_user''], \<lambda>a. FindUser),
      (Get, api [Fixed ''whoami''], \<lambda>a. WhoAreThey),
      (Get, api [Fixed ''clusters''], \<lambda>a. ListClusters),
      (Post, api [Fixed ''clusters''], \<lambda>a. CreateCluster),
      (Get, api [Fixed ''clusters'', Str], \<lambda>a. GetClusterInfo (arg a 0)),
      (Delete, api [Fixed ''clusters'', Str],
         \<lambda>a. DeleteCluster (arg a 0)),
      (Put, api [Fixed ''clusters'', Str], \<lambda>a. UpdateCluster (arg a 0)),
      (Get, api [Fixed ''clusters'', Str, Fixed ''ping''],
         \<lambda>a. PingCluster (arg a 0)),
      (Get, api [Fixed ''clusters'', Str, Fixed ''verify''],
         \<lambda>a. VerifyCluster (arg a 0)),
      (Get, api [Fixed ''clusters'', Str, Fixed ''allowed_groups''],
         \<lambda>a. ListClusterAllowedgroups (arg a 0)),
      (Get, api [Fixed ''clusters'', Str, Fixed ''allowed_groups'', Str],
         \<lambda>a. CheckGroupClusterAccess (arg a 0) (arg a 1)),
      (Put, api [Fixed ''clusters'', Str, Fixed ''allowed_groups'', Str],
         \<lambda>a. GrantGroupClusterAccess (arg a 0) (arg a 1)),
      (Delete, api [Fixed ''clusters'', Str, Fixed ''allowed_groups'', Str],
         \<lambda>a. RevokeGroupClusterAccess (arg a 0) (arg a 1)),
      (Get, api [Fixed ''clusters'', Str, Fixed ''allowed_groups'', Str, Fixed ''applications''],
         \<lambda>a. ListClusterGroupAllowedApplications (arg a 0) (arg a 1)),
      (Put, api [Fixed ''clusters'', Str, Fixed ''allowed_groups'', Str, Fixed ''applications'', Str],
         \<lambda>a. AllowGroupUseOfApplication (arg a 0) (arg a 1) (arg a 2)),
      (Delete, api [Fixed ''clusters'', Str, Fixed ''allowed_groups'', Str, Fixed ''applications'', Str],
         \<lambda>a. DenyGroupUseOfApplication (arg a 0) (arg a 1) (arg a 2)),
      (Get, api [Fixed ''clusters'', Str, Fixed ''monitoring_credential''],
         \<lambda>a. GetClusterMonitoringCredential (arg a 0)),
      (Delete, api [Fixed ''clusters'', Str, Fixed ''monitoring_credential''],
         \<lambda>a. RemoveClusterMonitoringCredential (arg a 0)),
      (Get, api [Fixed ''monitoring_credentials''], \<lambda>a. ListMonitoringCredentials),
      (Post, api [Fixed ''monitoring_credentials''], \<lambda>a. AddMonitoringCredential),
      (Put, api [Fixed ''monitoring_credentials'', Str, Fixed ''revoke''],
         \<lambda>a. RevokeMonitoringCredential (arg a 0)),
      (Delete, api [Fixed ''monitoring_credentials'', Str],
         \<lambda>a. DeleteMonitoringCredential (arg a 0)),
      (Get, api [Fixed ''groups''], \<lambda>a. ListGroups),
      (Post, api [Fixed ''groups''], \<lambda>a. CreateGroup),
      (Get, api [Fixed ''groups'', Str], \<lambda>a. GetGroupInfo (arg a 0)),
      (Put, api [Fixed ''groups'', Str], \<lambda>a. UpdateGroup (arg a 0)),
      (Delete, api [Fixed ''groups'', Str],
         \<lambda>a. DeleteGroup (arg a 0)),
      (Get, api [Fixed ''groups'', Str, Fixed ''members''], \<lambda>a. ListGroupMembers (arg a 0)),
      (Get, api [Fixed ''groups'', Str, Fixed ''clusters''], \<lambda>a. ListGroupClusters (arg a 0)),
      (Get, api [Fixed ''apps''], \<lambda>a. ListApplications),
      (Get, api [Fixed ''apps'', Str], \<lambda>a. FetchApplicationConfig (arg a 0)),
      (Get, api [Fixed ''apps'', Str, Fixed ''info''],
         \<lambda>a. FetchApplicationDocumentation (arg a 0)),
      (Get, api [Fixed ''apps'', Str, Fixed ''versions''],
         \<lambda>a. FetchApplicationVersions (arg a 0)),
      (Post, api [Fixed ''apps'', Fixed ''ad-hoc''], \<lambda>a. InstallAdHocApplication),
      (Post, api [Fixed ''apps'', Str], \<lambda>a. InstallApplication (arg a 0)),
      (Post, api [Fixed ''update_apps''], \<lambda>a. UpdateCatalog),
      (Get, api [Fixed ''instances''],
         \<lambda>a. ListApplicationInstances),
      (Get, api [Fixed ''instances'', Str],
         \<lambda>a. FetchApplicationInstanceInfo (arg a 0)),
      (Delete, api [Fixed ''instances'', Str],
         \<lambda>a. DeleteApplicationInstance (arg a 0)),
      (Put, api [Fixed ''instances'', Str, Fixed ''restart''],
         \<lambda>a. RestartApplicationInstance (arg a 0)),
      (Get, api [Fixed ''instances'', Str, Fixed ''logs''],
         \<lambda>a. GetApplicationInstanceLogs (arg a 0)),
      (Get, api [Fixed ''instances'', Str, Fixed ''scale''],
         \<lambda>a. GetApplicationInstanceScale (arg a 0)),
      (Put, api [Fixed ''instances'', Str, Fixed ''scale''],
         \<lambda>a. ScaleApplicationInstance (arg a 0)),
      (Put, api [Fixed ''instances'', Str, Fixed ''update''],
         \<lambda>a. UpdateApplicationInstance (arg a 0)),
      (Get, api [Fixed ''secrets''], \<lambda>a. ListSecrets),
      (Post, api [Fixed ''secrets''], \<lambda>a. CreateSecret),
      (Get, api [Fixed ''secrets'', Str], \<lambda>a. GetSecret (arg a 0)),
      (Delete, api [Fixed ''secrets'', Str], \<lambda>a. DeleteSecret (arg a 0)),
      (Get, api [Fixed ''stats''], \<lambda>a. Statistics),
      (Get, api [Fixed ''volumes''], \<lambda>a. ListVolumeClaims),
      (Post, api [Fixed ''volumes''], \<lambda>a. CreateVolumeClaim),
      (Get, api [Fixed ''volumes'', Str], \<lambda>a. FetchVolumeClaimInfo (arg a 0)),
      (Delete, api [Fixed ''volumes'', Str], \<lambda>a. DeleteVolumeClaim (arg a 0)),
      (Get, [Fixed ''version''], \<lambda>a. ServerVersionInfo),
      (Get, [Str, Path], \<lambda>a. UnsupportedVersion)]"

fun route_among :: "rule list \<Rightarrow> http_method \<Rightarrow> string list \<Rightarrow> endpoint option" where
  "route_among [] m segments = None"
| "route_among ((m', ps, ep) # rest) m segments =
     (case if m' = m then match_pieces ps segments else None of
        Some args \<Rightarrow> Some (ep args)
      | None \<Rightarrow> route_among rest m segments)"

text \<open>The path begins with a slash; what follows it is taken apart at the slashes.\<close>

fun split_at :: "char \<Rightarrow> string \<Rightarrow> string list" where
  "split_at d [] = [[]]"
| "split_at d (c # s) =
     (if c = d then [] # split_at d s
      else case split_at d s of [] \<Rightarrow> [[c]] | t # ts \<Rightarrow> (c # t) # ts)"

definition route :: "http_method \<Rightarrow> string \<Rightarrow> endpoint option" where
  "route m path =
     (case path of
        [] \<Rightarrow> None
      | c # rest \<Rightarrow> if c = CHR ''/'' then route_among routes m (split_at (CHR ''/'') rest) else None)"

section \<open>Commands\<close>

definition do_serverVersionInfo ::
  "'w services \<Rightarrow> (('w, 'z) base_store_scheme, response) op" where
  "do_serverVersionInfo X =
     ret (reply (J_object
       [(''serverVersion'', J_string (x_serverVersion X)),
        (''supportedAPIVersions'', J_array [J_string ''v1alpha3''])]))"

definition do_statistics :: "(('w, 'z) base_store_scheme, response) op" where
  "do_statistics s = (Inr \<lparr>rsp_code = 200, rsp_body = Plain (getStatistics s)\<rparr>, s)"

text \<open>Every command but \<open>multiplex\<close>, which \<open>handle\<close> runs.\<close>

primrec execute :: "'w env \<Rightarrow> 'w services \<Rightarrow> nat \<Rightarrow> endpoint \<Rightarrow> request \<Rightarrow>
    (('w, 'z) persistent_store_scheme, response) paged" where
  "execute E X n ListUsers req = do_listUsers E n req"
| "execute E X n CreateUser req = whole (do_createUser E X req)"
| "execute E X n (GetUserInfo uID) req = whole (do_getUserInfo E req uID)"
| "execute E X n (UpdateUser uID) req = whole (do_updateUser E X req uID)"
| "execute E X n (DeleteUser uID) req = whole (do_deleteUser E X req uID)"
| "execute E X n (ListUsergroups uID) req = whole (do_listUsergroups E req uID)"
| "execute E X n (AddUserToGroup uID groupID) req = whole (do_addUserToGroup E req uID groupID)"
| "execute E X n (RemoveUserFromGroup uID groupID) req =
     whole (do_removeUserFromGroup E req uID groupID)"
| "execute E X n (ReplaceUserToken uID) req = whole (do_replaceUserToken E X req uID)"
| "execute E X n FindUser req = whole (do_findUser E req)"
| "execute E X n WhoAreThey req = whole (do_whoAreThey E req)"
| "execute E X n ListMonitoringCredentials req = do_listMonitoringCredentials E n req"
| "execute E X n AddMonitoringCredential req = whole (do_addMonitoringCredential E X req)"
| "execute E X n (RevokeMonitoringCredential cID) req = whole (do_revokeMonitoringCredential E req cID)"
| "execute E X n (DeleteMonitoringCredential cID) req = whole (do_deleteMonitoringCredential E req cID)"
| "execute E X n ListGroups req = do_listGroups E n req"
| "execute E X n CreateGroup req = whole (do_createGroup E X req)"
| "execute E X n (GetGroupInfo groupID) req = whole (do_getGroupInfo E req groupID)"
| "execute E X n (UpdateGroup groupID) req = whole (do_updateGroup E X req groupID)"
| "execute E X n (DeleteGroup groupID) req = do_deleteGroup E X n req groupID"
| "execute E X n ListClusters req = do_listClusters E X n req"
| "execute E X n CreateCluster req = whole (do_createCluster E X req)"
| "execute E X n (GetClusterInfo cID) req = whole (do_getClusterInfo E X req cID)"
| "execute E X n (UpdateCluster cID) req = whole (do_updateCluster E X req cID)"
| "execute E X n (VerifyCluster cID) req = whole (do_verifyCluster E X req cID)"
| "execute E X n (DeleteCluster cID) req = do_deleteCluster E X n req cID"
| "execute E X n (PingCluster cID) req = whole (do_pingCluster E req cID)"
| "execute E X n (ListClusterAllowedgroups cID) req = whole (do_listClusterAllowedgroups E req cID)"
| "execute E X n (CheckGroupClusterAccess cID groupID) req =
     whole (do_checkGroupClusterAccess E req cID groupID)"
| "execute E X n (GrantGroupClusterAccess cID groupID) req =
     whole (do_grantGroupClusterAccess E req cID groupID)"
| "execute E X n (RevokeGroupClusterAccess cID groupID) req =
     whole (do_revokeGroupClusterAccess E req cID groupID)"
| "execute E X n (ListClusterGroupAllowedApplications cID groupID) req =
     whole (do_listClusterGroupAllowedApplications E req cID groupID)"
| "execute E X n (AllowGroupUseOfApplication cID groupID app) req =
     whole (do_allowGroupUseOfApplication E req cID groupID app)"
| "execute E X n (DenyGroupUseOfApplication cID groupID app) req =
     whole (do_denyGroupUseOfApplication E req cID groupID app)"
| "execute E X n (GetClusterMonitoringCredential cID) req =
     do_getClusterMonitoringCredential E X n req cID"
| "execute E X n (RemoveClusterMonitoringCredential cID) req =
     whole (do_removeClusterMonitoringCredential E req cID)"
| "execute E X n ListApplications req = whole (do_listApplications E req)"
| "execute E X n (FetchApplicationConfig app) req = whole (do_fetchApplicationConfig E req app)"
| "execute E X n (FetchApplicationDocumentation app) req =
     whole (do_fetchApplicationDocumentation E req app)"
| "execute E X n (FetchApplicationVersions app) req = whole (do_fetchApplicationVersions E X req app)"
| "execute E X n (InstallApplication app) req = whole (do_installApplication E X req app)"
| "execute E X n InstallAdHocApplication req = do_installAdHocApplication n E X req"
| "execute E X n UpdateCatalog req = whole (do_updateCatalog E req)"
| "execute E X n (FetchApplicationInstanceInfo i) req =
     whole (do_fetchApplicationInstanceInfo E X req i)"
| "execute E X n (RestartApplicationInstance i) req = whole (do_restartApplicationInstance E X req i)"
| "execute E X n (GetApplicationInstanceLogs i) req = whole (do_getApplicationInstanceLogs E X req i)"
| "execute E X n (GetApplicationInstanceScale i) req = whole (do_getApplicationInstanceScale E X req i)"
| "execute E X n (ScaleApplicationInstance i) req = whole (do_scaleApplicationInstance E X req i)"
| "execute E X n (UpdateApplicationInstance i) req = whole (do_updateApplicationInstance E X req i)"
| "execute E X n ListApplicationInstances req = do_listApplicationInstances E n req"
| "execute E X n (DeleteApplicationInstance i) req = whole (do_deleteApplicationInstance E X req i)"
| "execute E X n (ListGroupMembers groupID) req = whole (do_listGroupMembers E req groupID)"
| "execute E X n (ListGroupClusters groupID) req = whole (do_listGroupClusters E req groupID)"
| "execute E X n ListSecrets req = whole (do_listSecrets E req)"
| "execute E X n CreateSecret req = whole (do_createSecret E X req)"
| "execute E X n (GetSecret i) req = whole (do_getSecret E X req i)"
| "execute E X n (DeleteSecret i) req = whole (do_deleteSecret E req i)"
| "execute E X n Statistics req = whole do_statistics"
| "execute E X n ListVolumeClaims req = do_listVolumeClaims E X n req"
| "execute E X n CreateVolumeClaim req = whole (do_createVolumeClaim E X req)"
| "execute E X n (FetchVolumeClaimInfo i) req = whole (do_fetchVolumeClaimInfo E X req i)"
| "execute E X n (DeleteVolumeClaim i) req = whole (do_deleteVolumeClaim E X req i)"
| "execute E X n ServerVersionInfo req = whole (do_serverVersionInfo X)"
| "execute E X n UnsupportedVersion req = whole (ret (failure 400 ''Unsupported API version''))"
| "execute E X n Multiplex req = (\<lambda>s. None)"

text \<open>
  The server around a handler: an exception is an empty response with status 500.  A failed
  assertion or undefined behaviour is not, and stays an error of the model.
\<close>

definition guarded :: "('s, response) paged \<Rightarrow> ('s, response) paged" where
  "guarded m s =
     (case m s of
        None \<Rightarrow> None
      | Some (Inr r, s') \<Rightarrow> Some (Inr r, s')
      | Some (Inl e, s') \<Rightarrow>
          Some (if e = assertion_failed \<or> e = ''undefined behaviour'' then Inl e
                else Inr silent_failure, s'))"

section \<open>Command bundles\<close>

definition toupper :: "char \<Rightarrow> char" where
  "toupper c = (if islower c then char_of (code c - 32) else c)"

definition parseHTTPMethod :: "string \<Rightarrow> http_method option" where
  "parseHTTPMethod m =
     map_of [(''DELETE'', Delete), (''GET'', Get), (''HEAD'', Head), (''POST'', Post), (''PUT'', Put),
             (''CONNECT'', Connect), (''OPTIONS'', Options), (''TRACE'', Trace), (''PATCH'', Patch),
             (''PURGE'', Purge)] (map toupper m)"

record subrequest =
  sub_url :: string
  sub_method :: http_method
  sub_body :: string

text \<open>
  Unpacking one request of a bundle.  The test that should look at \<open>requestBody\<close> looks at
  \<open>method\<close> again, so a body that is not a string is only noticed by the assertion in
  \<open>GetString\<close>.  An unknown method throws the text of an error document.
\<close>

definition unpack_subrequest :: "'w services \<Rightarrow> string \<times> json \<Rightarrow> (subrequest outcome) check" where
  "unpack_subrequest X raw =
     (case raw of (name, v) \<Rightarrow>
     bindC (demand (IsObject v) 400
              ''Individual requests must be represented as JSON objects/dictionaries'') (\<lambda>_.
     bindC (HasMember v ''method'') (\<lambda>has.
     bindC (if has then string_member v ''method'' else Pass False) (\<lambda>str.
     bindC (demand str 400 (''Individual requests must have a string member named '' @
              [CHR 0x27] @ ''method'' @ [CHR 0x27] @ '' indicating the HTTP method'')) (\<lambda>_.
     bindC (HasMember v ''requestBody'') (\<lambda>has_body.
     bindC (string_member v ''method'') (\<lambda>str'.
     bindC (demand (\<not> (has_body \<and> \<not> str')) 400
              ''Individual requests must have bodies represented as strings'') (\<lambda>_.
     bindC (if has_body then text_of v ''requestBody'' else Pass '''') (\<lambda>body.
     bindC (text_of v ''method'') (\<lambda>m.
     Pass (case parseHTTPMethod m of
             None \<Rightarrow> Inl (x_print X (generateError (''Unrecognized HTTP method: '' @ map toupper m)))
           | Some hm \<Rightarrow> Inr \<lparr>sub_url = c_str name, sub_method = hm, sub_body = body\<rparr>)))))))))))"

fun unpack_bundle :: "'w services \<Rightarrow> (string \<times> json) list \<Rightarrow> (subrequest list outcome) check" where
  "unpack_bundle X [] = Pass (Inr [])"
| "unpack_bundle X (raw # rest) =
     bindC (unpack_subrequest X raw) (\<lambda>first.
       case first of
         Inl e \<Rightarrow> Pass (Inl e)
       | Inr sub \<Rightarrow>
           bindC (unpack_bundle X rest) (\<lambda>others.
             Pass (map_sum id (Cons sub) others)))"

definition body_text :: "'w services \<Rightarrow> body \<Rightarrow> string" where
  "body_text X b = (case b of No_body \<Rightarrow> '''' | Document d \<Rightarrow> x_print X d | Plain t \<Rightarrow> t)"

definition bundle_entry :: "'w services \<Rightarrow> subrequest \<Rightarrow> response \<Rightarrow> string \<times> json" where
  "bundle_entry X sub r =
     (sub_url sub, J_object
        [(''status'', J_int (int (rsp_code r))), (''body'', J_string (body_text X (rsp_body r)))])"

definition sub_path :: "subrequest \<Rightarrow> string" where
  "sub_path sub = takeWhile (\<lambda>c. c \<noteq> CHR ''?'') (sub_url sub)"

text \<open>
  The requests of a bundle run one after the other in the model, in the order in which they are
  listed; the program gives each a thread of its own.
\<close>

primrec run_bundle :: "'w services \<Rightarrow>
    (http_method \<Rightarrow> string \<Rightarrow> request \<Rightarrow> ('s, response) paged) \<Rightarrow> subrequest list \<Rightarrow>
    ('s, (string \<times> json) list) paged" where
  "run_bundle X handle [] = whole (ret [])"
| "run_bundle X handle (sub # rest) =
     bindP (handle (sub_method sub) (sub_path sub)
              \<lparr>req_params = x_queryString X (sub_url sub), req_body = sub_body sub\<rparr>) (\<lambda>r.
     bindP (run_bundle X handle rest) (\<lambda>entries.
     whole (ret (bundle_entry X sub r # entries))))"

definition do_multiplex :: "'w env \<Rightarrow> 'w services \<Rightarrow>
    (http_method \<Rightarrow> string \<Rightarrow> request \<Rightarrow> (('w, 'z) persistent_store_scheme, response) paged) \<Rightarrow>
    request \<Rightarrow> (('w, 'z) persistent_store_scheme, response) paged" where
  "do_multiplex E X handle req =
     requesterP E req ''Not authorized'' (\<lambda>user.
     case request_json X req of
       J_object members \<Rightarrow>
         (case unpack_bundle X members of
            Reject r \<Rightarrow> whole (ret r)
          | Abort e \<Rightarrow> whole (throw e)
          | Pass (Inl e) \<Rightarrow> whole (throw e)
          | Pass (Inr subs) \<Rightarrow>
              bindP (run_bundle X handle subs) (\<lambda>entries.
              whole (ret (reply (J_object entries)))))
     | _ \<Rightarrow> whole (ret (failure 400
              ''Multiplexed requests must have a JSON object/dictionary as the request body'')))"

text \<open>
  \<open>server.handle\<close>.  A bundle may contain bundles; the first argument bounds how deep, and
  \<open>None\<close> says that it, or the page budget, was too small.
\<close>

primrec handle :: "nat \<Rightarrow> 'w env \<Rightarrow> 'w services \<Rightarrow> nat \<Rightarrow> http_method \<Rightarrow> string \<Rightarrow> request \<Rightarrow>
    (('w, 'z) persistent_store_scheme, response) paged" where
  "handle 0 E X n m path req = (\<lambda>s. None)"
| "handle (Suc depth) E X n m path req =
     (case route m path of
        None \<Rightarrow> whole (ret \<lparr>rsp_code = 404, rsp_body = No_body\<rparr>)
      | Some ep \<Rightarrow>
          guarded (if ep = Multiplex then do_multiplex E X (handle depth E X n) req
                   else execute E X n ep req))"

end
