(* ===== verification/Footprint.thy ===== *)
theory Footprint
  imports Kept Service
begin

text \<open>
  What each operation of the store can change, from below the handlers: the tables it may write
  and whether it touches the caches of the users.  \<open>leaves view T s\<close> holds of a state whose
  tables outside \<open>T\<close> are those of \<open>s\<close>; \<open>quiet view T s\<close> also says that the caches of accounts and
  memberships are those of \<open>s\<close>.
\<close>

section \<open>Footprints\<close>

definition leaves ::
  "'w view \<Rightarrow> string set \<Rightarrow> ('w, 'z) base_store_scheme \<Rightarrow> ('w, 'z) base_store_scheme \<Rightarrow> bool" where
  "leaves view T s s' \<longleftrightarrow> (\<forall>t. t \<notin> T \<longrightarrow> view (world s') t = view (world s) t)"

definition same_users ::
  "('w, 'z) user_store_scheme \<Rightarrow> ('w, 'z) user_store_scheme \<Rightarrow> bool" where
  "same_users s s' \<longleftrightarrow>
     userCache s' = userCache s \<and> userByTokenCache s' = userByTokenCache s \<and>
     userByGlobusIDCache s' = userByGlobusIDCache s \<and> userByGroupCache s' = userByGroupCache s"

definition quiet ::
  "'w view \<Rightarrow> string set \<Rightarrow> ('w, 'z) user_store_scheme \<Rightarrow> ('w, 'z) user_store_scheme \<Rightarrow> bool" where
  "quiet view T s s' \<longleftrightarrow> leaves view T s s' \<and> same_users s s'"

text \<open>The services, as far as the tables are concerned.\<close>

definition local_calls :: "'w env \<Rightarrow> 'w view \<Rightarrow> bool" where
  "local_calls E view \<longleftrightarrow>
     (\<forall>p c w. view (snd (e_writeTemporaryFile E p c w)) = view w) \<and>
     (\<forall>p a w. view (snd (e_runCommand E p a w)) = view w) \<and>
     (\<forall>k d n w. view (snd (e_scryptEnc E k d n w)) = view w)"

definition database :: "'w env \<Rightarrow> 'w view \<Rightarrow> bool" where
  "database E view \<longleftrightarrow> dynamo_rw E view \<and> dynamo_search E view \<and> local_calls E view"

definition files_apart :: "'w filesystem \<Rightarrow> 'w view \<Rightarrow> bool" where
  "files_apart F view \<longleftrightarrow>
     (\<forall>w. view (snd (fs_getcwd F w)) = view w) \<and>
     (\<forall>p w. view (snd (fs_readlink F p w)) = view w) \<and>
     (\<forall>p w. view (snd (fs_stat F p w)) = view w) \<and>
     (\<forall>p m w. view (snd (fs_mkdir F p m w)) = view w) \<and>
     (\<forall>t p w. view (snd (fs_symlink F t p w)) = view w) \<and>
     (\<forall>p d w. view (snd (fs_writeFile F p d w)) = view w) \<and>
     (\<forall>p w. view (snd (fs_readFile F p w)) = view w) \<and>
     (\<forall>p w. view (snd (fs_readdir F p w)) = view w) \<and>
     (\<forall>p w. view (snd (fs_unlink F p w)) = view w) \<and>
     (\<forall>p w. view (snd (fs_rmdir F p w)) = view w) \<and>
     (\<forall>p w. view (snd (fs_mkdtemp F p w)) = view w)"

definition zlib_apart :: "'w zlib \<Rightarrow> 'w view \<Rightarrow> bool" where
  "zlib_apart Z view \<longleftrightarrow>
     (\<forall>w. view (snd (z_inflateInit Z w)) = view w) \<and>
     (\<forall>b w. view (snd (z_inflate Z b w)) = view w) \<and>
     (\<forall>w. view (snd (z_deflateInit Z w)) = view w) \<and>
     (\<forall>b f w. view (snd (z_deflate Z b f w)) = view w)"

definition services_apart :: "'w services \<Rightarrow> 'w view \<Rightarrow> bool" where
  "services_apart X view \<longleftrightarrow>
     (\<forall>w. view (snd (x_random64 X w)) = view w) \<and>
     (\<forall>w. view (snd (x_timestamp X w)) = view w) \<and>
     (\<forall>u f w. view (snd (x_httpPostForm X u f w)) = view w) \<and>
     (\<forall>p a v w. view (snd (x_runCommand X p a v w)) = view w) \<and>
     (\<forall>z n t w. view (snd (x_testDNSAnswer X z n t w)) = view w) \<and>
     (\<forall>z cs w. view (snd (x_changeDNSRecords X z cs w)) = view w) \<and>
     (\<forall>u w. view (snd (x_httpGet X u w)) = view w) \<and>
     (\<forall>n w. view (snd (x_sleep X n w)) = view w) \<and>
     (\<forall>b t w. view (snd (x_writeFile X b t w)) = view w) \<and>
     files_apart (x_files X) view \<and> zlib_apart (x_zlib X) view"

lemma leaves_refl [simp]: "leaves view T s s"
  by (simp add: leaves_def)

lemma quiet_refl [simp]: "quiet view T s s"
  by (simp add: quiet_def same_users_def)

lemma leaves_trans: "leaves view T s t \<Longrightarrow> leaves view T t u \<Longrightarrow> leaves view T s u"
  by (simp add: leaves_def)

lemma quiet_trans: "quiet view T s t \<Longrightarrow> quiet view T t u \<Longrightarrow> quiet view T s u"
  by (auto simp: quiet_def same_users_def intro: leaves_trans)

lemma quiet_leaves: "quiet view T s t \<Longrightarrow> leaves view T s t"
  by (simp add: quiet_def)

section \<open>External calls\<close>

lemma database_calls:
  assumes "database E view"
  shows "e_get E t k w = (r1, w') \<Longrightarrow> view w' u = view w u"
    and "e_query E q w = (r2, w') \<Longrightarrow> view w' u = view w u"
    and "e_scan E sc w = (r3, w') \<Longrightarrow> view w' u = view w u"
    and "e_put E t it w = (r4, w') \<Longrightarrow> u \<noteq> t \<Longrightarrow> view w' u = view w u"
    and "e_update E t k up c w = (r4, w') \<Longrightarrow> u \<noteq> t \<Longrightarrow> view w' u = view w u"
    and "e_delete E t k c w = (r4, w') \<Longrightarrow> u \<noteq> t \<Longrightarrow> view w' u = view w u"
    and "e_writeTemporaryFile E p ct w = (r5, w') \<Longrightarrow> view w' u = view w u"
    and "e_runCommand E p args w = (r6, w') \<Longrightarrow> view w' u = view w u"
    and "e_scryptEnc E ky d n w = (r7, w') \<Longrightarrow> view w' u = view w u"
  using assms dynamo_getD [of E view t k w r1 w'] dynamo_putD [of E view t it w r4 w']
    dynamo_updateD [of E view t k up c w r4 w'] dynamo_deleteD [of E view t k c w r4 w']
  by (auto simp: database_def dynamo_search_def local_calls_def split: sum.splits) (metis snd_conv)+

lemma call_leaves:
  assumes "\<And>w r w' u. f w = (r, w') \<Longrightarrow> u \<notin> T \<Longrightarrow> view w' u = view w u" and "call f s = (r, s')"
  shows "leaves view T s s'"
  using assms by (auto simp: leaves_def call_def split: prod.splits)

lemma call_quiet:
  assumes "\<And>w r w' u. f w = (r, w') \<Longrightarrow> u \<notin> T \<Longrightarrow> view w' u = view w u" and "call f s = (r, s')"
  shows "quiet view T s s'"
  using assms by (auto simp: quiet_def same_users_def leaves_def call_def split: prod.splits)

lemma calls_quiet:
  assumes "database E view"
  shows "call (e_get E t k) s1 = (r1, s') \<Longrightarrow> quiet view T s s1 \<Longrightarrow> quiet view T s s'"
    and "call (e_query E q) s1 = (r2, s') \<Longrightarrow> quiet view T s s1 \<Longrightarrow> quiet view T s s'"
    and "call (e_scan E sc) s1 = (r3, s') \<Longrightarrow> quiet view T s s1 \<Longrightarrow> quiet view T s s'"
    and "call (e_put E t it) s1 = (r4, s') \<Longrightarrow> t \<in> T \<Longrightarrow> quiet view T s s1 \<Longrightarrow> quiet view T s s'"
    and "call (e_update E t k up c) s1 = (r4, s') \<Longrightarrow> t \<in> T \<Longrightarrow> quiet view T s s1 \<Longrightarrow> quiet view T s s'"
    and "call (e_delete E t k c) s1 = (r4, s') \<Longrightarrow> t \<in> T \<Longrightarrow> quiet view T s s1 \<Longrightarrow> quiet view T s s'"
    and "call (e_writeTemporaryFile E p ct) s1 = (r5, s') \<Longrightarrow> quiet view T s s1 \<Longrightarrow> quiet view T s s'"
    and "call (e_runCommand E p args) s1 = (r6, s') \<Longrightarrow> quiet view T s s1 \<Longrightarrow> quiet view T s s'"
    and "call (e_scryptEnc E ky d n) s1 = (r7, s') \<Longrightarrow> quiet view T s s1 \<Longrightarrow> quiet view T s s'"
proof -
  note D = database_calls [OF assms]
  have trans: "call f s1 = (r, s') \<Longrightarrow> (\<And>w r w' u. f w = (r, w') \<Longrightarrow> u \<notin> T \<Longrightarrow> view w' u = view w u) \<Longrightarrow>
      quiet view T s s1 \<Longrightarrow> quiet view T s s'" for f r
    by (rule quiet_trans, assumption, rule call_quiet)
  show "call (e_get E t k) s1 = (r1, s') \<Longrightarrow> quiet view T s s1 \<Longrightarrow> quiet view T s s'"
    "call (e_query E q) s1 = (r2, s') \<Longrightarrow> quiet view T s s1 \<Longrightarrow> quiet view T s s'"
    "call (e_scan E sc) s1 = (r3, s') \<Longrightarrow> quiet view T s s1 \<Longrightarrow> quiet view T s s'"
    "call (e_writeTemporaryFile E p ct) s1 = (r5, s') \<Longrightarrow> quiet view T s s1 \<Longrightarrow> quiet view T s s'"
    "call (e_runCommand E p args) s1 = (r6, s') \<Longrightarrow> quiet view T s s1 \<Longrightarrow> quiet view T s s'"
    "call (e_scryptEnc E ky d n) s1 = (r7, s') \<Longrightarrow> quiet view T s s1 \<Longrightarrow> quiet view T s s'"
    by (erule trans, erule D, assumption)+
  show "call (e_put E t it) s1 = (r4, s') \<Longrightarrow> t \<in> T \<Longrightarrow> quiet view T s s1 \<Longrightarrow> quiet view T s s'"
    "call (e_update E t k up c) s1 = (r4, s') \<Longrightarrow> t \<in> T \<Longrightarrow> quiet view T s s1 \<Longrightarrow> quiet view T s s'"
    "call (e_delete E t k c) s1 = (r4, s') \<Longrightarrow> t \<in> T \<Longrightarrow> quiet view T s s1 \<Longrightarrow> quiet view T s s'"
    by (erule trans, erule D, blast, assumption)+
qed

lemma reads_quiet:
  assumes "database E view"
  shows "call (e_get E t k) s = (r1, s') \<Longrightarrow> quiet view T s s'"
    and "call (e_query E q) s = (r2, s') \<Longrightarrow> quiet view T s s'"
    and "call (e_scan E sc) s = (r3, s') \<Longrightarrow> quiet view T s s'"
    and "call (e_writeTemporaryFile E p ct) s = (r5, s') \<Longrightarrow> quiet view T s s'"
    and "call (e_runCommand E p args) s = (r6, s') \<Longrightarrow> quiet view T s s'"
    and "call (e_scryptEnc E ky d n) s = (r7, s') \<Longrightarrow> quiet view T s s'"
  by (erule calls_quiet [OF assms], rule quiet_refl)+

lemma quiet_updates [simp]:
  "quiet view T s (count_hits n s') = quiet view T s s'"
  "quiet view T s (count_query s') = quiet view T s s'"
  "quiet view T s (count_scan s') = quiet view T s s'"
  "quiet view T (count_hits n s) s' = quiet view T s s'"
  "quiet view T (count_query s) s' = quiet view T s s'"
  "quiet view T (count_scan s) s' = quiet view T s s'"
  by (simp_all add: quiet_def leaves_def same_users_def count_hits_def count_query_def count_scan_def)

lemma leaves_updates [simp]:
  "leaves view T s (count_hits n s') = leaves view T s s'"
  "leaves view T s (count_query s') = leaves view T s s'"
  "leaves view T s (count_scan s') = leaves view T s s'"
  "leaves view T (count_hits n s) s' = leaves view T s s'"
  "leaves view T (count_query s) s' = leaves view T s s'"
  "leaves view T (count_scan s) s' = leaves view T s s'"
  by (simp_all add: leaves_def)

lemma keeps_quietI:
  "(\<And>s r s'. m s = (r, s') \<Longrightarrow> quiet view T s s') \<Longrightarrow> keeps (quiet view T s0) m"
  by (rule keepsI) (blast intro: quiet_trans)

lemma keeps_quietD:
  "(\<And>s0. keeps (quiet view T s0) m) \<Longrightarrow> m s = (r, s') \<Longrightarrow> quiet view T s s'"
  by (rule keepsD [of _ m s r s']) simp_all

lemma keeps_quiet_step:
  "(\<And>s0. keeps (quiet view T s0) m) \<Longrightarrow> m s1 = (r, s') \<Longrightarrow> quiet view T s s1 \<Longrightarrow> quiet view T s s'"
  by (rule quiet_trans, assumption, rule keeps_quietD)

lemma keeps_leavesI:
  "(\<And>s r s'. m s = (r, s') \<Longrightarrow> leaves view T s s') \<Longrightarrow> keeps (leaves view T s0) m"
  by (rule keepsI) (blast intro: leaves_trans)

lemma keeps_quiet_leaves: "(\<And>s0. keeps (quiet view T s0) m) \<Longrightarrow> keeps (leaves view T s0) m"
  by (rule keeps_leavesI, rule quiet_leaves, rule keeps_quietD)

text \<open>An invariant that a quiet operation cannot break is kept by every quiet operation.\<close>

lemma keeps_of_quiet:
  assumes "\<And>s0. keeps (quiet view T s0) m" and "\<And>s s'. I s \<Longrightarrow> quiet view T s s' \<Longrightarrow> I s'"
  shows "keeps I m"
  by (rule keepsI, rule assms(2), assumption, rule keeps_quietD [OF assms(1)])

section \<open>Groups\<close>

lemma quiet_cache_group [simp]:
  "quiet view T s (cache_group E g s') = quiet view T s s'"
  "quiet view T s (cache_group_of_user E uid g s') = quiet view T s s'"
  "quiet view T (uncache_group gid s) s' = quiet view T s s'"
  by (simp_all add: quiet_def leaves_def same_users_def cache_group_def cache_group_of_user_def
      uncache_group_def Let_def split: option.split)

lemma findGroupByID_quiet [keeps]:
  assumes "database E view"
  shows "keeps (quiet view T s0) (findGroupByID E gid)"
  by (rule keeps_quietI)
    (auto simp: findGroupByID_def intro: calls_quiet [OF assms]
      split: option.splits prod.splits sum.splits if_splits)

lemma findGroupByName_quiet [keeps]:
  assumes "database E view"
  shows "keeps (quiet view T s0) (findGroupByName E name)"
  by (rule keeps_quietI)
    (auto simp: findGroupByName_def intro: calls_quiet [OF assms]
      split: option.splits prod.splits sum.splits list.splits)

lemma getGroup_quiet [keeps]:
  assumes "database E view"
  shows "keeps (quiet view T s0) (getGroup E i)"
  unfolding getGroup_def by (intro keeps assms)


lemma keeps_pure [keeps]: "keeps I (\<lambda>s. (r, s))"
  by (rule keepsI) simp

lemma keepsP_scan_loop [keeps]:
  assumes "\<And>q. keeps I (call (e_scan E q))" and "\<And>x acc. keeps I (body x acc)"
  shows "keepsP I (scan_loop n E t flt body k acc)"
proof (rule keepsPI)
  fix s r s' assume I: "I s" and run: "scan_loop n E t flt body k acc s = Some (r, s')"
  show "I s'"
    by (rule scan_loop_invariant_items [where I = I, OF _ _ I run])
      (blast dest: keepsD [OF assms(2)] keepsD [OF assms(1)])+
qed

lemma scan_quiet [keeps]: "database E view \<Longrightarrow> keeps (quiet view T s0) (call (e_scan E q))"
  by (rule keeps_quietI) (blast intro: calls_quiet quiet_refl)

text \<open>How the listing operations finish: a loop, and an update of an expiration time.\<close>

lemma keepsP_quietI:
  "(\<And>s r s'. m s = Some (r, s') \<Longrightarrow> quiet view T s s') \<Longrightarrow> keepsP (quiet view T s0) m"
  by (rule keepsPI) (blast intro: quiet_trans)

lemma keepsP_quietD:
  "(\<And>s0. keepsP (quiet view T s0) m) \<Longrightarrow> m s = Some (r, s') \<Longrightarrow> quiet view T s s'"
  by (rule keepsPD [of _ m s r s']) simp_all

lemma normalizeGroupID_quiet [keeps]:
  assumes "database E view"
  shows "keeps (quiet view T s0) (normalizeGroupID E gid allow)"
  by (rule keeps_quietI)
    (auto simp: normalizeGroupID_def dest: keeps_quietD [OF findGroupByName_quiet [OF assms]]
      split: prod.splits sum.splits if_splits)

lemma getMembersOfGroup_quiet [keeps]:
  assumes "database E view"
  shows "keeps (quiet view T s0) (getMembersOfGroup E gid)"
proof (rule keeps_quietI)
  fix s r and s' :: "('a, 'b) user_store_scheme" assume run: "getMembersOfGroup E gid s = (r, s')"
  have loop: "keeps (quiet view T s0)
      (mapM (\<lambda>it s. (bindE (findUnchecked it ''ID'') (\<lambda>v. Inr (GetS v)), s)) items)" for items s0
    by (intro keeps)
  show "quiet view T s s'"
    using run
    by (auto simp: getMembersOfGroup_def intro: quiet_trans
        dest!: reads_quiet [OF assms, where T = T] keeps_quietD [OF loop] split: prod.splits sum.splits)
qed

lemma group_name_for_quiet [keeps]:
  "database E view \<Longrightarrow> keeps (quiet view T s0) (group_name_for E gid)"
  unfolding group_name_for_def by (intro keeps)

lemma getUserGroupMemberships_quiet [keeps]:
  assumes "database E view"
  shows "keeps (quiet view T s0) (getUserGroupMemberships E uid useNames)"
proof (rule keeps_quietI)
  fix s r and s' :: "('a, 'b) group_store_scheme"
  assume run: "getUserGroupMemberships E uid useNames s = (r, s')"
  have loop: "keeps (quiet view T s0) (mapM (group_name_for E) vos)" for vos
    and s0 :: "('a, 'b) group_store_scheme"
    by (intro keeps assms)
  show "quiet view T s s'"
    using run
    by (auto simp: getUserGroupMemberships_def Let_def intro: quiet_trans
        dest!: reads_quiet [OF assms, where T = T] keeps_quietD [OF loop] split: prod.splits sum.splits if_splits)
qed

lemma queried_group_quiet [keeps]:
  assumes "database E view"
  shows "keeps (quiet view T s0) (queried_group E uid it vos)"
  unfolding queried_group_def
  by (intro keeps findGroupByID_quiet assms) (rule keeps_quietI, auto)

lemma listGroupsForUser_quiet [keeps]:
  assumes "database E view"
  shows "keeps (quiet view T s0) (listGroupsForUser E uid)"
proof (rule keeps_quietI)
  fix s r and s' :: "('a, 'b) group_store_scheme"
  assume run: "listGroupsForUser E uid s = (r, s')"
  have loop: "keeps (quiet view T s0) (foldM (queried_group E uid) items vos)" for items vos
    and s0 :: "('a, 'b) group_store_scheme"
    by (intro keeps assms)
  have expire: "quiet view T s (t\<lparr>groupByUserCache := c\<rparr>) = quiet view T s t" for t c
    by (simp add: quiet_def leaves_def same_users_def)
  show "quiet view T s s'"
    using run
    by (auto simp: listGroupsForUser_def expire intro: quiet_trans
        dest!: reads_quiet [OF assms, where T = T] keeps_quietD [OF loop] split: option.splits prod.splits sum.splits if_splits)
qed

lemma listGroups_quiet [keeps]:
  assumes "database E view"
  shows "keepsP (quiet view T s0) (listGroups E n)"
proof (rule keepsP_quietI)
  fix s r and s' :: "('a, 'b) group_store_scheme"
  assume run: "listGroups E n s = Some (r, s')"
  have body: "keeps (quiet view T s0) (listGroups_body E it acc)" for it acc
    and s0 :: "('a, 'b) group_store_scheme"
    by (rule keeps_quietI) (auto simp: listGroups_body_def split: sum.splits)
  have loop: "keepsP (quiet view T s0) (scan_loop n E groupTableName flt (listGroups_body E) k acc)"
    for flt k acc and s0 :: "('a, 'b) group_store_scheme"
    by (intro keeps assms body)
  have expire: "quiet view T s (t\<lparr>groupCacheExpirationTime := c\<rparr>) = quiet view T s t" for t c
    by (simp add: quiet_def leaves_def same_users_def)
  show "quiet view T s s'"
    using run
    by (auto simp: listGroups_def expire dest!: keepsP_quietD [OF loop]
        split: option.splits prod.splits sum.splits if_splits loop_exit.splits)
qed

lemma addGroup_quiet [keeps]:
  assumes "database E view" and "groupTableName \<in> T"
  shows "keeps (quiet view T s0) (addGroup E g)"
  by (rule keeps_quietI)
    (auto simp: addGroup_def intro: calls_quiet [OF assms(1)] assms(2)
      split: prod.splits sum.splits if_splits)

lemma updateGroup_quiet [keeps]:
  assumes "database E view" and "groupTableName \<in> T"
  shows "keeps (quiet view T s0) (updateGroup E g)"
  by (rule keeps_quietI)
    (auto simp: updateGroup_def intro: calls_quiet [OF assms(1)] assms(2)
      split: prod.splits sum.splits if_splits)


section \<open>Clusters and access\<close>

lemma quiet_cluster_updates [simp]:
  "quiet view T s (s'\<lparr>clusterConfigs := x1\<rparr>) = quiet view T s s'"
  "quiet view T s (s'\<lparr>clusterCacheExpirationTime := x2\<rparr>) = quiet view T s s'"
  "quiet view T (s\<lparr>clusterCache := x3\<rparr>) s' = quiet view T s s'"
  "quiet view T (cache_cluster E c s) s' = quiet view T s s'"
  "quiet view T s (cache_access E cid entry s') = quiet view T s s'"
  "quiet view T (uncache_access cid entry s) s' = quiet view T s s'"
  by (simp_all add: quiet_def leaves_def same_users_def cache_cluster_def cache_access_def
      uncache_access_def Let_def)

lemma keep_cluster_quiet [keeps]:
  assumes "database E view"
  shows "keeps (quiet view T s0) (keep_cluster E c result)"
  by (rule keeps_quietI)
    (auto simp: keep_cluster_def writeClusterConfigToDisk_def
      dest!: reads_quiet [OF assms, where T = T] split: prod.splits sum.splits)

lemma findClusterByID_quiet [keeps]:
  assumes "database E view"
  shows "keeps (quiet view T s0) (findClusterByID E cid)"
  by (rule keeps_quietI)
    (auto simp: findClusterByID_def intro: quiet_trans
      dest!: reads_quiet [OF assms, where T = T] keeps_quietD [OF keep_cluster_quiet [OF assms]]
      split: option.splits prod.splits sum.splits if_splits)

lemma findClusterByName_quiet [keeps]:
  assumes "database E view"
  shows "keeps (quiet view T s0) (findClusterByName E name)"
  by (rule keeps_quietI)
    (auto simp: findClusterByName_def intro: quiet_trans
      dest!: reads_quiet [OF assms, where T = T] keeps_quietD [OF keep_cluster_quiet [OF assms]]
      split: option.splits prod.splits sum.splits list.splits)

lemma getCluster_quiet [keeps]: "database E view \<Longrightarrow> keeps (quiet view T s0) (getCluster E i)"
  unfolding getCluster_def by (intro keeps)

lemma normalizeClusterID_quiet [keeps]:
  assumes "database E view"
  shows "keeps (quiet view T s0) (normalizeClusterID E cid)"
  by (rule keeps_quietI)
    (auto simp: normalizeClusterID_def dest: keeps_quietD [OF findClusterByName_quiet [OF assms]]
      split: prod.splits sum.splits if_splits)

lemma configPathForCluster_quiet [keeps]:
  assumes "database E view"
  shows "keeps (quiet view T s0) (configPathForCluster E cid)"
  unfolding configPathForCluster_def
  by (intro keeps assms) (rule keeps_quietI, auto split: if_splits option.splits)

lemma clustersOwnedByGroup_quiet [keeps]:
  assumes "database E view"
  shows "keeps (quiet view T s0) (clustersOwnedByGroup E gid)"
proof (rule keeps_quietI)
  fix s r and s' :: "('a, 'b) cluster_store_scheme" assume run: "clustersOwnedByGroup E gid s = (r, s')"
  have loop: "keeps (quiet view T s0)
      (mapM (\<lambda>it s. (bindE (findUnchecked it ''ID'') (\<lambda>v. Inr (GetS v)), s)) items)" for items
    and s0 :: "('a, 'b) cluster_store_scheme"
    by (intro keeps)
  show "quiet view T s s'"
    using run
    by (auto simp: clustersOwnedByGroup_def intro: quiet_trans
        dest!: reads_quiet [OF assms, where T = T] keeps_quietD [OF loop] split: prod.splits sum.splits)
qed

lemma findClusterUsingCredential_quiet [keeps]:
  assumes "database E view"
  shows "keeps (quiet view T s0) (findClusterUsingCredential E cred)"
  by (rule keeps_quietI)
    (auto simp: findClusterUsingCredential_def intro: quiet_trans
      dest!: reads_quiet [OF assms, where T = T] keeps_quietD [OF keep_cluster_quiet [OF assms]]
      split: list.splits prod.splits sum.splits)

lemma reload_cluster_quiet [keeps]:
  assumes "database E view"
  shows "keeps (quiet view T s0) (reload_cluster E cid)"
  by (rule keeps_quietI)
    (auto simp: reload_cluster_def dest!: keeps_quietD [OF findClusterByID_quiet [OF assms, where T = T]]
      split: prod.splits sum.splits)

lemma removeClusterMonitoringCredential_quiet [keeps]:
  assumes "database E view" and "clusterTableName \<in> T"
  shows "keeps (quiet view T s0) (removeClusterMonitoringCredential E cid)"
  by (rule keeps_quietI)
    (auto simp: removeClusterMonitoringCredential_def intro: quiet_trans
      dest!: calls_quiet(5) [OF assms(1) _ assms(2) quiet_refl]
        keeps_quietD [OF reload_cluster_quiet [OF assms(1)]]
      split: prod.splits sum.splits)

lemma lookup_access_quiet [keeps]:
  assumes "database E view"
  shows "keeps (quiet view T s0) (lookup_access E gid cid)"
  by (rule keeps_quietI)
    (auto simp: lookup_access_def dest!: reads_quiet [OF assms, where T = T]
      split: prod.splits sum.splits if_splits)

lemma normalized_pair_quiet [keeps]:
  "database E view \<Longrightarrow> (\<And>gid cid. keeps (quiet view T s0) (k gid cid)) \<Longrightarrow>
     keeps (quiet view T s0) (normalized_pair E g allow c otherwise k)"
  unfolding normalized_pair_def by (intro keeps)

lemma groupAllowedOnCluster_quiet [keeps]:
  "database E view \<Longrightarrow> keeps (quiet view T s0) (groupAllowedOnCluster E gid cid)"
  unfolding groupAllowedOnCluster_def allowed_on_cluster_def clusterAllowsAllGroups_def by (intro keeps)

lemma may_use_cluster_quiet [keeps]:
  "database E view \<Longrightarrow> keeps (quiet view T s0) (may_use_cluster E g c)"
  unfolding may_use_cluster_def by (intro keeps)


section \<open>Secrets\<close>

lemma quiet_secret_updates [simp]:
  "quiet view T s (cache_secret E x s') = quiet view T s s'"
  "quiet view T s (complete_secrets E gid cid s') = quiet view T s s'"
  "quiet view T (uncache_secret sid s) s' = quiet view T s s'"
  by (simp_all add: quiet_def leaves_def same_users_def cache_secret_def complete_secrets_def
      uncache_secret_def Let_def split: option.split)

lemma run_query_quiet:
  "database E view \<Longrightarrow> run_query E q s = (r, s') \<Longrightarrow> quiet view T s s'"
  by (auto simp: run_query_def dest: reads_quiet split: option.splits)

lemma normalized_filter_quiet [keeps]:
  "database E view \<Longrightarrow> (\<And>gid cid. keeps (quiet view T s0) (k gid cid)) \<Longrightarrow>
     keeps (quiet view T s0) (normalized_filter E g c otherwise k)"
  unfolding normalized_filter_def by (intro keeps)

lemma list_secrets_quiet [keeps]:
  assumes "database E view"
  shows "keeps (quiet view T s0) (list_secrets E gid cid)"
proof (rule keeps_quietI)
  fix s r and s' :: "('a, 'b) secret_store_scheme" assume run: "list_secrets E gid cid s = (r, s')"
  have loop: "keeps (quiet view T s0) (foldM (queried_secret E gid cid) items acc)" for items acc
    and s0 :: "('a, 'b) secret_store_scheme"
    by (intro keeps) (rule keeps_quietI, auto simp: queried_secret_def split: sum.splits)
  show "quiet view T s s'"
    using run
    by (auto simp: list_secrets_def intro: quiet_trans
        dest!: run_query_quiet [OF assms, where T = T] keeps_quietD [OF loop]
        split: option.splits prod.splits sum.splits)
qed

lemma listSecrets_quiet [keeps]:
  "database E view \<Longrightarrow> keeps (quiet view T s0) (listSecrets E g c)"
  unfolding listSecrets_def by (intro keeps)

lemma findSecretByName_quiet [keeps]:
  "database E view \<Longrightarrow> keeps (quiet view T s0) (findSecretByName E g c name)"
  unfolding findSecretByName_def by (intro keeps)

lemma getSecret_quiet [keeps]:
  assumes "database E view"
  shows "keeps (quiet view T s0) (getSecret E i)"
  by (rule keeps_quietI)
    (auto simp: getSecret_def dest!: reads_quiet [OF assms, where T = T]
      split: option.splits prod.splits sum.splits if_splits)

lemma addSecret_quiet [keeps]:
  assumes "database E view" and "secretTableName \<in> T"
  shows "keeps (quiet view T s0) (addSecret E x)"
  by (rule keeps_quietI)
    (auto simp: addSecret_def dest!: calls_quiet(4) [OF assms(1) _ assms(2) quiet_refl]
      split: prod.splits sum.splits if_splits)

lemma removeSecret_quiet [keeps]:
  assumes "database E view" and "secretTableName \<in> T"
  shows "keeps (quiet view T s0) (removeSecret E i)"
  by (rule keeps_quietI)
    (auto simp: removeSecret_def dest!: calls_quiet(6) [OF assms(1) _ assms(2) quiet_refl]
      split: prod.splits sum.splits)

lemma encryptSecret_quiet [keeps]:
  assumes "database E view"
  shows "keeps (quiet view T s0) (encryptSecret E d)"
  by (rule keeps_quietI)
    (auto simp: encryptSecret_def dest!: reads_quiet [OF assms, where T = T] split: prod.splits sum.splits)

lemma decryptSecret_quiet [keeps]: "keeps (quiet view T s0) (decryptSecret E x)"
  by (rule keeps_quietI) (auto simp: decryptSecret_def split: if_splits sum.splits)

section \<open>Volume claims\<close>

lemma quiet_volume_updates [simp]:
  "quiet view T s (cache_volume E x s') = quiet view T s s'"
  "quiet view T s (complete_volumes E gid cid s') = quiet view T s s'"
  "quiet view T s (complete_all_volumes E gs cs s') = quiet view T s s'"
  "quiet view T (uncache_volume i s) s' = quiet view T s s'"
  by (simp_all add: quiet_def leaves_def same_users_def cache_volume_def complete_volumes_def
      complete_all_volumes_def uncache_volume_def Let_def split: option.split)

lemma list_volumes_quiet [keeps]:
  assumes "database E view"
  shows "keeps (quiet view T s0) (list_volumes E gid cid)"
proof (rule keeps_quietI)
  fix s r and s' :: "('a, 'b) volume_store_scheme" assume run: "list_volumes E gid cid s = (r, s')"
  have loop: "keeps (quiet view T s0) (foldM (queried_volume E) items acc)" for items acc
    and s0 :: "('a, 'b) volume_store_scheme"
    by (intro keeps) (rule keeps_quietI, auto simp: queried_volume_def Let_def quiet_def leaves_def
        same_users_def split: sum.splits)
  show "quiet view T s s'"
    using run
    by (auto simp: list_volumes_def intro: quiet_trans
        dest!: run_query_quiet [OF assms, where T = T] keeps_quietD [OF loop]
        split: option.splits prod.splits sum.splits if_splits)
qed

lemma listPersistentVolumeClaimsByClusterOrGroup_quiet [keeps]:
  "database E view \<Longrightarrow> keeps (quiet view T s0) (listPersistentVolumeClaimsByClusterOrGroup E g c)"
  unfolding listPersistentVolumeClaimsByClusterOrGroup_def by (intro keeps)

lemma findPersistentVolumeClaimByName_quiet [keeps]:
  "database E view \<Longrightarrow> keeps (quiet view T s0) (findPersistentVolumeClaimByName E g c name)"
  unfolding findPersistentVolumeClaimByName_def by (intro keeps)

lemma listPersistentVolumeClaims_quiet [keeps]:
  assumes "database E view"
  shows "keepsP (quiet view T s0) (listPersistentVolumeClaims E n)"
proof (rule keepsP_quietI)
  fix s r and s' :: "('a, 'b) volume_store_scheme"
  assume run: "listPersistentVolumeClaims E n s = Some (r, s')"
  have body: "keeps (quiet view T s0) (listPersistentVolumeClaims_body E it acc)" for it acc
    and s0 :: "('a, 'b) volume_store_scheme"
    by (rule keeps_quietI) (auto simp: listPersistentVolumeClaims_body_def split: sum.splits prod.splits)
  have loop: "keepsP (quiet view T s0)
      (scan_loop n E volumeTableName flt (listPersistentVolumeClaims_body E) k acc)"
    for flt k acc and s0 :: "('a, 'b) volume_store_scheme"
    by (intro keeps assms body)
  show "quiet view T s s'"
    using run
    by (auto simp: listPersistentVolumeClaims_def dest!: keepsP_quietD [OF loop]
        split: option.splits prod.splits sum.splits if_splits loop_exit.splits)
qed

lemma getPersistentVolumeClaim_quiet [keeps]:
  assumes "database E view"
  shows "keeps (quiet view T s0) (getPersistentVolumeClaim E i)"
  by (rule keeps_quietI)
    (auto simp: getPersistentVolumeClaim_def dest!: reads_quiet [OF assms, where T = T]
      split: option.splits prod.splits sum.splits if_splits)

lemma addPersistentVolumeClaim_quiet [keeps]:
  assumes "database E view" and "volumeTableName \<in> T"
  shows "keeps (quiet view T s0) (addPersistentVolumeClaim E x)"
  by (rule keeps_quietI)
    (auto simp: addPersistentVolumeClaim_def dest!: calls_quiet(4) [OF assms(1) _ assms(2) quiet_refl]
      split: prod.splits sum.splits)

lemma removePersistentVolumeClaim_quiet [keeps]:
  assumes "database E view" and "volumeTableName \<in> T"
  shows "keeps (quiet view T s0) (removePersistentVolumeClaim E i)"
  by (rule keeps_quietI)
    (auto simp: removePersistentVolumeClaim_def dest!: calls_quiet(6) [OF assms(1) _ assms(2) quiet_refl]
      split: prod.splits sum.splits)

section \<open>Monitoring credentials\<close>

lemma addMonitoringCredential_quiet [keeps]:
  assumes "database E view" and "monCredTableName \<in> T"
  shows "keeps (quiet view T s0) (addMonitoringCredential E x)"
  by (rule keeps_quietI)
    (auto simp: addMonitoringCredential_def dest!: calls_quiet(4) [OF assms(1) _ assms(2) quiet_refl]
      split: prod.splits sum.splits if_splits)

lemma revokeMonitoringCredential_quiet [keeps]:
  assumes "database E view" and "monCredTableName \<in> T"
  shows "keeps (quiet view T s0) (revokeMonitoringCredential E x)"
  by (rule keeps_quietI)
    (auto simp: revokeMonitoringCredential_def dest!: calls_quiet(5) [OF assms(1) _ assms(2) quiet_refl]
      split: prod.splits sum.splits)

lemma deleteMonitoringCredential_quiet [keeps]:
  assumes "database E view" and "monCredTableName \<in> T"
  shows "keeps (quiet view T s0) (deleteMonitoringCredential E x)"
  by (rule keeps_quietI)
    (auto simp: deleteMonitoringCredential_def dest!: calls_quiet(6) [OF assms(1) _ assms(2) quiet_refl]
      split: prod.splits sum.splits)

lemma getMonitoringCredential_quiet [keeps]:
  assumes "database E view"
  shows "keeps (quiet view T s0) (getMonitoringCredential E x)"
  by (rule keeps_quietI)
    (auto simp: getMonitoringCredential_def dest!: reads_quiet [OF assms, where T = T]
      split: prod.splits sum.splits if_splits)

lemma listMonitoringCredentials_quiet [keeps]:
  assumes "database E view"
  shows "keepsP (quiet view T s0) (listMonitoringCredentials E n)"
proof (rule keepsP_quietI)
  fix s :: "('a, 'b) user_store_scheme" and r s'
  assume run: "listMonitoringCredentials E n s = Some (r, s')"
  have body: "keeps (quiet view T s0) (listMonitoringCredentials_body it acc)" for it acc
    and s0 :: "('a, 'b) user_store_scheme"
    by (rule keeps_quietI) (auto simp: listMonitoringCredentials_body_def split: sum.splits prod.splits)
  have loop: "keepsP (quiet view T s0)
      (scan_loop n E monCredTableName flt listMonitoringCredentials_body k acc)"
    for flt k acc and s0 :: "('a, 'b) user_store_scheme"
    by (intro keeps assms body)
  show "quiet view T s s'"
    using run
    by (auto simp: listMonitoringCredentials_def dest!: keepsP_quietD [OF loop]
        split: option.splits prod.splits sum.splits if_splits loop_exit.splits)
qed

section \<open>Services and commands\<close>

lemma callE_quiet [keeps]:
  fixes f :: "'w \<Rightarrow> 'r outcome \<times> 'w" and s0 :: "('w, 'z) user_store_scheme"
  assumes "\<And>w. view (snd (f w)) = view w"
  shows "keeps (quiet view T s0) (callE f)"
proof (rule keeps_quietI)
  fix s s' :: "('w, 'z) user_store_scheme" and r assume "callE f s = (r, s')"
  then show "quiet view T s s'" using assms [of "world s"]
    by (auto simp: callE_def call_def quiet_def leaves_def same_users_def split: prod.splits)
qed

lemma callM_quiet [keeps]:
  fixes f :: "'w \<Rightarrow> 'r \<times> 'w" and s0 :: "('w, 'z) user_store_scheme"
  assumes "\<And>w. view (snd (f w)) = view w"
  shows "keeps (quiet view T s0) (callM f)"
proof (rule keeps_quietI)
  fix s s' :: "('w, 'z) user_store_scheme" and r assume "callM f s = (r, s')"
  then show "quiet view T s s'" using assms [of "world s"]
    by (auto simp: callM_def call_def quiet_def leaves_def same_users_def split: prod.splits)
qed

lemma runCommand_quiet [keeps]:
  "database E view \<Longrightarrow> keeps (quiet view T s0) (runCommand E p args)"
  unfolding runCommand_def by (intro keeps) (simp add: database_def local_calls_def)

lemma temporary_file_quiet [keeps]:
  "database E view \<Longrightarrow> keeps (quiet view T s0) (callE (e_writeTemporaryFile E p c))"
  by (rule callE_quiet) (simp add: database_def local_calls_def)

lemma kubectl_quiet [keeps]: "database E view \<Longrightarrow> keeps (quiet view T s0) (kubectl E p args)"
  unfolding kubectl_def by (intro keeps)

lemma kubectl_create_namespace_quiet [keeps]:
  "database E view \<Longrightarrow> keeps (quiet view T s0) (kubectl_create_namespace E c g)"
  unfolding kubectl_create_namespace_def getControllerVersion_def by (intro keeps)

lemma random64_quiet [keeps]:
  "services_apart X view \<Longrightarrow> keeps (quiet view T s0) (callM (x_random64 X))"
  by (rule callM_quiet) (simp add: services_apart_def)

lemma timestamp_quiet [keeps]:
  "services_apart X view \<Longrightarrow> keeps (quiet view T s0) (callM (x_timestamp X))"
  by (rule callM_quiet) (simp add: services_apart_def)

lemma new_id_quiet [keeps]: "services_apart X view \<Longrightarrow> keeps (quiet view T s0) (new_id X gen)"
  unfolding new_id_def by (intro keeps)

lemma new_token_quiet [keeps]: "services_apart X view \<Longrightarrow> keeps (quiet view T s0) (new_token X)"
  unfolding new_token_def by (intro keeps)

lemma post_form_quiet [keeps]:
  "services_apart X view \<Longrightarrow> keeps (quiet view T s0) (callE (x_httpPostForm X u f))"
  by (rule callE_quiet) (simp add: services_apart_def)

lemma sendEmail_quiet [keeps]: "services_apart X view \<Longrightarrow> keeps (quiet view T s0) (sendEmail X m)"
  unfolding sendEmail_def by (intro keeps)

section \<open>Parts of the handlers\<close>

lemma secret_entry_document_quiet [keeps]:
  "database E view \<Longrightarrow> keeps (quiet view T s0) (secret_entry_document E x)"
  unfolding secret_entry_document_def by (intro keeps)

lemma volume_entry_document_quiet [keeps]:
  "database E view \<Longrightarrow> keeps (quiet view T s0) (volume_entry_document E X x)"
  unfolding volume_entry_document_def by (intro keeps)

lemma group_entry_for_quiet [keeps]:
  "database E view \<Longrightarrow> keeps (quiet view T s0) (group_entry_for E x)"
  unfolding group_entry_for_def by (intro keeps)

lemma write_value_quiet [keeps]:
  "database E view \<Longrightarrow> keeps (quiet view T s0) (write_value E m)"
  unfolding write_value_def by (intro keeps)

lemma store_secret_quiet [keeps]:
  "database E view \<Longrightarrow> secretTableName \<in> T \<Longrightarrow> keeps (quiet view T s0) (store_secret E x)"
  unfolding store_secret_def by (intro keeps)

lemma install_secret_quiet [keeps]:
  "database E view \<Longrightarrow> secretTableName \<in> T \<Longrightarrow> keeps (quiet view T s0) (install_secret E x g c)"
  unfolding install_secret_def by (intro keeps)

lemma delete_secret_quiet [keeps]:
  "database E view \<Longrightarrow> secretTableName \<in> T \<Longrightarrow> keeps (quiet view T s0) (delete_secret E x f r)"
  unfolding delete_secret_def delete_from_kubernetes_def by (intro keeps)

lemma secret_contents_quiet [keeps]: "keeps (quiet view T s0) (secret_contents E X x)"
  unfolding secret_contents_def by (intro keeps)

lemma store_volume_quiet [keeps]:
  "database E view \<Longrightarrow> volumeTableName \<in> T \<Longrightarrow> keeps (quiet view T s0) (store_volume E x)"
  unfolding store_volume_def by (intro keeps)

lemma install_volume_quiet [keeps]:
  "database E view \<Longrightarrow> volumeTableName \<in> T \<Longrightarrow> keeps (quiet view T s0) (install_volume E X x g)"
  unfolding install_volume_def by (intro keeps)

lemma delete_volume_claim_quiet [keeps]:
  "database E view \<Longrightarrow> volumeTableName \<in> T \<Longrightarrow>
     keeps (quiet view T s0) (delete_volume_claim E X x f r)"
  unfolding delete_volume_claim_def delete_claim_from_kubernetes_def by (intro keeps)

end
