(* ===== verification/DeletionFootprint.thy ===== *)
theory DeletionFootprint
  imports Footprint
begin

text \<open>
  The footprints of the operations that decide who may use a cluster, and of those that take
  clusters and application instances apart.
\<close>

section \<open>Access and permissions\<close>

lemma quiet_access_updates [simp]:
  "quiet view T s (cache_applications E key apps s') = quiet view T s s'"
  "quiet view T (uncache_cluster cid s) s' = quiet view T s s'"
  "quiet view T s (s'\<lparr>clusterConnectivityCache := x\<rparr>) = quiet view T s s'"
  by (simp_all add: quiet_def leaves_def same_users_def cache_applications_def uncache_cluster_def
      Let_def split: option.split)

lemma clusterAllowsAllGroups_quiet [keeps]:
  "database E view \<Longrightarrow> keeps (quiet view T s0) (clusterAllowsAllGroups E cid)"
  unfolding clusterAllowsAllGroups_def by (intro keeps)

lemma grant_access_quiet [keeps]:
  assumes "database E view" and "clusterTableName \<in> T"
  shows "keeps (quiet view T s0) (grant_access E gid cid)"
  by (rule keeps_quietI)
    (auto simp: grant_access_def dest!: calls_quiet(4) [OF assms(1) _ assms(2) quiet_refl]
      split: prod.splits sum.splits)

lemma withdraw_access_quiet [keeps]:
  assumes "database E view" and "clusterTableName \<in> T"
  shows "keeps (quiet view T s0) (withdraw_access E gid cid)"
  by (rule keeps_quietI)
    (auto simp: withdraw_access_def dest!: calls_quiet(6) [OF assms(1) _ assms(2) quiet_refl]
      split: prod.splits sum.splits)

lemma change_access_quiet [keeps]:
  assumes "database E view" and "clusterTableName \<in> T"
  shows "keeps (quiet view T s0) (addGroupToCluster E gid cid)"
    and "keeps (quiet view T s1) (removeGroupFromCluster E gid cid)"
  unfolding addGroupToCluster_def removeGroupFromCluster_def by (intro keeps assms)+

lemma query_allowed_groups_quiet [keeps]:
  assumes "database E view"
  shows "keeps (quiet view T s0) (query_allowed_groups E cid useNames)"
proof (rule keeps_quietI)
  fix s r and s' :: "('a, 'b) cluster_store_scheme"
  assume run: "query_allowed_groups E cid useNames s = (r, s')"
  have loop: "keeps (quiet view T s0) (mapM (group_name_for E) vos)" for vos
    and s0 :: "('a, 'b) cluster_store_scheme"
    by (intro keeps assms)
  show "quiet view T s s'"
    using run
    by (auto simp: query_allowed_groups_def Let_def intro: quiet_trans
        dest!: reads_quiet [OF assms, where T = T] keeps_quietD [OF loop]
        split: prod.splits sum.splits if_splits)
qed

lemma listGroupsAllowedOnCluster_quiet [keeps]:
  "database E view \<Longrightarrow> keeps (quiet view T s0) (listGroupsAllowedOnCluster E cid useNames)"
  unfolding listGroupsAllowedOnCluster_def by (intro keeps)

lemma list_applications_quiet [keeps]:
  assumes "database E view"
  shows "keeps (quiet view T s0) (list_applications E gid cid)"
  by (rule keeps_quietI)
    (auto simp: list_applications_def Let_def dest!: reads_quiet [OF assms, where T = T]
      split: option.splits prod.splits sum.splits)

lemma listApplicationsGroupMayUseOnCluster_quiet [keeps]:
  "database E view \<Longrightarrow> keeps (quiet view T s0) (listApplicationsGroupMayUseOnCluster E gid cid)"
  unfolding listApplicationsGroupMayUseOnCluster_def by (intro keeps)

lemma put_applications_quiet [keeps]:
  assumes "database E view" and "clusterTableName \<in> T"
  shows "keeps (quiet view T s0) (put_applications E cid key stored apps)"
  by (rule keeps_quietI)
    (auto simp: put_applications_def dest!: calls_quiet(4) [OF assms(1) _ assms(2) quiet_refl]
      split: prod.splits sum.splits)

lemma change_permission_quiet [keeps]:
  assumes "database E view" and "clusterTableName \<in> T"
  shows "keeps (quiet view T s0) (allowVoToUseApplication E gid cid app)"
    and "keeps (quiet view T s1) (denyGroupUseOfApplication E gid cid app)"
  unfolding allowVoToUseApplication_def denyGroupUseOfApplication_def by (intro keeps assms)+

section \<open>Monitoring credentials of clusters\<close>

lemma setClusterMonitoringCredential_quiet [keeps]:
  assumes "database E view" and "clusterTableName \<in> T"
  shows "keeps (quiet view T s0) (setClusterMonitoringCredential E cid cred)"
  by (rule keeps_quietI)
    (auto simp: setClusterMonitoringCredential_def intro: quiet_trans
      dest!: calls_quiet(5) [OF assms(1) _ assms(2) quiet_refl]
        keeps_quietD [OF reload_cluster_quiet [OF assms(1)]]
      split: prod.splits sum.splits)

lemma acquire_one_quiet:
  fixes s :: "('w, 'z) user_store_scheme"
  assumes "database E view" and "monCredTableName \<in> T"
  shows "acquire_one E items s = (r, s') \<Longrightarrow> quiet view T s s'"
proof (induction items arbitrary: s)
  case (Cons it rest)
  from Cons.prems show ?case
    by (auto intro: quiet_trans dest!: calls_quiet(5) [OF assms(1) _ assms(2) quiet_refl] Cons.IH
        split: prod.splits sum.splits)
qed simp

lemma allocateMonitoringCredential_quiet [keeps]:
  fixes s0 :: "('w, 'z) user_store_scheme"
  assumes "database E view" and "monCredTableName \<in> T"
  shows "keepsP (quiet view T s0) (allocateMonitoringCredential n E)"
proof (rule keepsP_quietI)
  fix s s' :: "('w, 'z) user_store_scheme" and r
  assume "allocateMonitoringCredential n E s = Some (r, s')"
  then show "quiet view T s s'"
  proof (induction n arbitrary: s)
    case (Suc n)
    from Suc.prems show ?case
      by (auto intro: quiet_trans dest!: reads_quiet [OF assms(1), where T = T]
          acquire_one_quiet [OF assms] Suc.IH split: prod.splits sum.splits if_splits option.splits)
  qed simp
qed

section \<open>Clusters\<close>

lemma listClusters_quiet [keeps]:
  assumes "database E view"
  shows "keepsP (quiet view T s0) (listClusters E n)"
proof (rule keepsP_quietI)
  fix s r and s' :: "('a, 'b) cluster_store_scheme"
  assume run: "listClusters E n s = Some (r, s')"
  have body: "keeps (quiet view T s0) (listClusters_body E it acc)" for it acc
    and s0 :: "('a, 'b) cluster_store_scheme"
    unfolding listClusters_body_def
    by (rule keeps_quietI)
      (auto dest: keeps_quietD [OF keep_cluster_quiet [OF assms]] split: sum.splits)
  have loop: "keepsP (quiet view T s0) (scan_loop n E clusterTableName flt (listClusters_body E) k acc)"
    for flt k acc and s0 :: "('a, 'b) cluster_store_scheme"
    by (intro keeps assms body)
  show "quiet view T s s'"
    using run
    by (auto simp: listClusters_def dest!: keepsP_quietD [OF loop]
        split: option.splits prod.splits sum.splits if_splits loop_exit.splits)
qed

lemma reachability_quiet [keeps]:
  assumes "database E view"
  shows "keeps (quiet view T s0) (getCachedClusterReachability E cid)"
    and "keeps (quiet view T s1) (cacheClusterReachability E cid b)"
  unfolding getCachedClusterReachability_def cacheClusterReachability_def
  by (intro keeps assms, rule keeps_quietI, auto split: option.splits)+

lemma withdraw_all_quiet [keeps]:
  fixes s0 :: "('w, 'z) cluster_store_scheme"
  assumes "database E view" and "clusterTableName \<in> T"
  shows "keeps (quiet view T s0) (withdraw_all E cid gids)"
proof (rule keeps_quietI)
  fix s s' :: "('w, 'z) cluster_store_scheme" and r assume "withdraw_all E cid gids s = (r, s')"
  then show "quiet view T s s'"
  proof (induction gids arbitrary: s)
    case (Cons g rest)
    from Cons.prems show ?case
      by (auto intro: quiet_trans dest!: keeps_quietD [OF change_access_quiet(2) [OF assms]] Cons.IH
          split: prod.splits sum.splits)
  qed simp
qed

lemma delete_cluster_records_quiet [keeps]:
  assumes "database E view" and "clusterTableName \<in> T"
  shows "keeps (quiet view T s0) (delete_cluster_records E cid)"
  by (rule keeps_quietI)
    (auto simp: delete_cluster_records_def intro: quiet_trans
      dest!: calls_quiet(6) [OF assms(1) _ assms(2) quiet_refl] split: prod.splits sum.splits)

lemma removeCluster_quiet [keeps]:
  assumes "database E view" and "clusterTableName \<in> T"
  shows "keeps (quiet view T s0) (removeCluster E cid)"
  unfolding removeCluster_def
  by (intro keeps assms)
    (rule keeps_quietI, drule keeps_quietD [OF delete_cluster_records_quiet [OF assms]], simp)

section \<open>Application instances\<close>

lemma quiet_instance_updates [simp]:
  "quiet view T s (cache_instance E i s') = quiet view T s s'"
  "quiet view T s (complete_instances E gid cid s') = quiet view T s s'"
  "quiet view T (uncache_instance iid s) s' = quiet view T s s'"
  "quiet view T s (s'\<lparr>instanceCacheExpirationTime := x\<rparr>) = quiet view T s s'"
  by (simp_all add: quiet_def leaves_def same_users_def cache_instance_def complete_instances_def
      uncache_instance_def Let_def split: option.split)

lemma getApplicationInstance_quiet [keeps]:
  assumes "database E view"
  shows "keeps (quiet view T s0) (getApplicationInstance E i)"
  by (rule keeps_quietI)
    (auto simp: getApplicationInstance_def dest!: reads_quiet [OF assms, where T = T]
      split: option.splits prod.splits sum.splits if_splits)

lemma removeApplicationInstance_quiet [keeps]:
  assumes "database E view" and "instanceTableName \<in> T"
  shows "keeps (quiet view T s0) (removeApplicationInstance E i)"
  by (rule keeps_quietI)
    (auto simp: removeApplicationInstance_def intro: quiet_trans
      dest!: calls_quiet(6) [OF assms(1) _ assms(2) quiet_refl] split: prod.splits sum.splits)

lemma list_instances_quiet [keeps]:
  assumes "database E view"
  shows "keeps (quiet view T s0) (list_instances E gid cid)"
proof (rule keeps_quietI)
  fix s r and s' :: "('a, 'b) instance_store_scheme" assume run: "list_instances E gid cid s = (r, s')"
  have loop: "keeps (quiet view T s0) (foldM (queried_instance E) items acc)" for items acc
    and s0 :: "('a, 'b) instance_store_scheme"
    by (intro keeps) (rule keeps_quietI, auto simp: queried_instance_def split: sum.splits)
  show "quiet view T s s'"
    using run
    by (auto simp: list_instances_def intro: quiet_trans
        dest!: run_query_quiet [OF assms, where T = T] keeps_quietD [OF loop]
        split: option.splits prod.splits sum.splits if_splits)
qed

lemma listApplicationInstancesByClusterOrGroup_quiet [keeps]:
  "database E view \<Longrightarrow> keeps (quiet view T s0) (listApplicationInstancesByClusterOrGroup E g c)"
  unfolding listApplicationInstancesByClusterOrGroup_def by (intro keeps)

lemma listApplicationInstances_quiet [keeps]:
  assumes "database E view"
  shows "keepsP (quiet view T s0) (listApplicationInstances E n)"
proof (rule keepsP_quietI)
  fix s r and s' :: "('a, 'b) instance_store_scheme"
  assume run: "listApplicationInstances E n s = Some (r, s')"
  have body: "keeps (quiet view T s0) (listApplicationInstances_body E it acc)" for it acc
    and s0 :: "('a, 'b) instance_store_scheme"
    by (rule keeps_quietI) (auto simp: listApplicationInstances_body_def split: sum.splits)
  have loop: "keepsP (quiet view T s0)
      (scan_loop n E instanceTableName flt (listApplicationInstances_body E) k acc)"
    for flt k acc and s0 :: "('a, 'b) instance_store_scheme"
    by (intro keeps assms body)
  show "quiet view T s s'"
    using run
    by (auto simp: listApplicationInstances_def dest!: keepsP_quietD [OF loop]
        split: option.splits prod.splits sum.splits if_splits loop_exit.splits)
qed

section \<open>Parts of a deletion\<close>

lemma keeps_async [keeps]: "keeps I m \<Longrightarrow> keeps I (async m)"
  by (rule keepsI) (auto simp: async_def dest: keepsD split: prod.splits sum.splits if_splits)

lemma keepsP_asyncP [keeps]: "keepsP I m \<Longrightarrow> keepsP I (asyncP m)"
  by (rule keepsPI)
    (auto simp: asyncP_def dest: keepsPD split: option.splits prod.splits sum.splits if_splits)

lemma keepsP_prod [keeps]:
  "(\<And>a b. x = (a, b) \<Longrightarrow> keepsP I (f a b)) \<Longrightarrow> keepsP I (case x of (a, b) \<Rightarrow> f a b)"
  by (cases x) simp

lemma keepsP_mapP [keeps]: "(\<And>x. keepsP I (f x)) \<Longrightarrow> keepsP I (mapP f xs)"
  by (induction xs) (auto intro!: keeps)

lemma external_run_quiet [keeps]:
  "database E view \<Longrightarrow> keeps (quiet view T s0) (call (e_runCommand E p args))"
  by (rule keeps_quietI) (blast intro: reads_quiet)

lemma getHelmMajorVersion_quiet [keeps]:
  "database E view \<Longrightarrow> keeps (quiet view T s0) (getHelmMajorVersion E)"
  unfolding getHelmMajorVersion_def by (intro keeps)

lemma helm_call_quiet [keeps]:
  "services_apart X view \<Longrightarrow> keeps (quiet view T s0) (callE (x_runCommand X p args env))"
  by (rule callE_quiet) (simp add: services_apart_def)

lemma helm_quiet [keeps]:
  "database E view \<Longrightarrow> services_apart X view \<Longrightarrow> keeps (quiet view T s0) (helm E X p n args)"
  unfolding helm_def by (intro keeps)

lemma notify_ops_quiet [keeps]: "services_apart X view \<Longrightarrow> keeps (quiet view T s0) (notify_ops X m t)"
  unfolding notify_ops_def by (intro keeps)

lemma ping_quiet [keeps]: "database E view \<Longrightarrow> keeps (quiet view T s0) (ping_cluster E c)"
  unfolding ping_cluster_def by (intro keeps)

lemma check_reachability_quiet [keeps]:
  "database E view \<Longrightarrow> keeps (quiet view T s0) (check_reachability E c)"
  unfolding check_reachability_def by (intro keeps)

lemma delete_namespace_quiet [keeps]:
  "database E view \<Longrightarrow> keeps (quiet view T s0) (kubectl_delete_namespace E p g)"
  unfolding kubectl_delete_namespace_def getControllerVersion_def by (intro keeps)

lemma remove_cluster_credential_quiet [keeps]:
  "database E view \<Longrightarrow> clusterTableName \<in> T \<Longrightarrow> monCredTableName \<in> T \<Longrightarrow>
     keeps (quiet view T s0) (remove_cluster_credential E c reachable)"
  unfolding remove_cluster_credential_def by (intro keeps)

lemma check_supply_quiet [keeps]:
  "database E view \<Longrightarrow> services_apart X view \<Longrightarrow> keepsP (quiet view T s0) (check_supply E X n)"
  unfolding check_supply_def by (intro keeps)

lemma assign_credential_quiet [keeps]:
  "database E view \<Longrightarrow> services_apart X view \<Longrightarrow> clusterTableName \<in> T \<Longrightarrow> monCredTableName \<in> T \<Longrightarrow>
     keepsP (quiet view T s0) (assign_credential E X n c)"
  unfolding assign_credential_def by (intro keeps)

lemma allowed_group_entry_quiet [keeps]:
  "database E view \<Longrightarrow> keeps (quiet view T s0) (allowed_group_entry E g)"
  unfolding allowed_group_entry_def by (intro keeps)

lemma granted_response_quiet [keeps]: "keeps I (granted_response message ok)"
  unfolding granted_response_def by (intro keeps)

lemma instance_entry_document_quiet [keeps]:
  "database E view \<Longrightarrow> keeps (quiet view T s0) (instance_entry_document E i)"
  unfolding instance_entry_document_def by (intro keeps)

lemma delete_instance_quiet [keeps]:
  "database E view \<Longrightarrow> services_apart X view \<Longrightarrow> instanceTableName \<in> T \<Longrightarrow>
     keeps (quiet view T s0) (delete_instance E X i force)"
  unfolding delete_instance_def uninstall_instance_def by (intro keeps)

lemma delete_instances_on_quiet [keeps]:
  assumes "database E view" and "services_apart X view" and "instanceTableName \<in> T"
  shows "keeps (quiet view T s0) (delete_instances_on E X c force is)"
  by (induction "is") (auto intro!: keeps assms)

lemma delete_contents_quiet [keeps]:
  assumes "database E view" and "services_apart X view" and "{secretTableName, volumeTableName} \<subseteq> T"
  shows "keeps (quiet view T s0) (delete_contents E X c force reachable)"
  unfolding delete_contents_def using assms(3) by (intro keeps assms; simp)

lemma delete_namespaces_quiet [keeps]:
  "database E view \<Longrightarrow> keepsP (quiet view T s0) (delete_namespaces E n p reachable)"
  unfolding delete_namespaces_def by (intro keeps)

lemma liftE_keeps [keeps]: "keeps I (liftE r)"
  by (rule keepsI) (simp add: liftE_def)

lemma test_answer_quiet [keeps]:
  assumes "services_apart X view"
  shows "keeps (quiet view T s0) (test_answer X zone name t label)"
proof (rule keeps_quietI)
  fix s r and s' :: "('a, 'b) user_store_scheme"
  have "view (snd (x_testDNSAnswer X zone name t w)) = view w" for w
    using assms by (simp add: services_apart_def)
  then have apart: "quiet view T s s1" if "call (x_testDNSAnswer X zone name t) s = (x, s1)"
    for x and s1 :: "('a, 'b) user_store_scheme"
    by (intro call_quiet [OF _ that]) (metis snd_conv)
  assume "test_answer X zone name t label s = (r, s')"
  then show "quiet view T s s'"
    by (auto simp: test_answer_def dest: apart split: prod.splits sum.splits)
qed

lemma change_DNS_quiet [keeps]:
  assumes "services_apart X view"
  shows "keeps (quiet view T s0) (change_DNS X action name address)"
  unfolding change_DNS_def safeToModifyDNS_def
  by (intro keeps assms) (use assms in \<open>simp add: services_apart_def\<close>)

lemma dns_quiet [keeps]:
  assumes "services_apart X view"
  shows "keeps (quiet view T s0) (getDNSRecord X t name)"
    and "keeps (quiet view T s1) (setDNSRecord X name address)"
    and "keeps (quiet view T s2) (removeDNSRecord X name address)"
  unfolding getDNSRecord_def setDNSRecord_def removeDNSRecord_def by (intro keeps assms)+

lemma delete_dns_quiet [keeps]:
  "services_apart X view \<Longrightarrow> keeps (quiet view T s0) (delete_dns X c)"
  unfolding delete_dns_def dns_record_def by (intro keeps)

lemma delete_cluster_quiet [keeps]:
  assumes "database E view" and "services_apart X view"
    and "{instanceTableName, secretTableName, volumeTableName, monCredTableName, clusterTableName} \<subseteq> T"
  shows "keepsP (quiet view T s0) (delete_cluster E X n c force)"
  unfolding delete_cluster_def delete_cluster_record_def using assms(3)
  by (intro keeps assms; simp)

lemma notify_groups_quiet [keeps]:
  "database E view \<Longrightarrow> services_apart X view \<Longrightarrow> keeps (quiet view T s0) (notify_groups E X c gs)"
  unfolding notify_groups_def by (intro keeps)

lemma delete_belongings_quiet [keeps]:
  assumes "database E view" and "services_apart X view"
    and "{instanceTableName, secretTableName, volumeTableName, monCredTableName, clusterTableName} \<subseteq> T"
  shows "keepsP (quiet view T s0) (delete_belongings E X n g)"
  unfolding delete_belongings_def using assms(3) by (intro keeps assms; simp)

end
