(* ===== verification/CommandFootprint.thy ===== *)
theory CommandFootprint
  imports DeletionFootprint
begin

text \<open>
  The footprints of the operations that describe, register and update clusters, and of those that
  install, describe and replace application instances.
\<close>

section \<open>Exceptions, checks and folds\<close>

lemma keeps_attemptM [keeps]: "keeps I m \<Longrightarrow> keeps I (attemptM m)"
  unfolding attemptM_def by (intro keeps)

lemma keeps_checkM [keeps]: "keeps I (checkM c)"
  unfolding checkM_def by (intro keeps)

lemma keeps_list [keeps]:
  "(xs = [] \<Longrightarrow> keeps I m) \<Longrightarrow> (\<And>y ys. xs = y # ys \<Longrightarrow> keeps I (f y ys)) \<Longrightarrow>
     keeps I (case xs of [] \<Rightarrow> m | y # ys \<Rightarrow> f y ys)"
  by (cases xs) simp_all

section \<open>Locations\<close>

lemma quiet_location_updates [simp]:
  "quiet view T s (cache_locations E cid gls s') = quiet view T s s'"
  by (simp add: quiet_def leaves_def same_users_def cache_locations_def)

lemma getLocationsForCluster_quiet [keeps]:
  assumes "database E view"
  shows "keeps (quiet view T s0) (getLocationsForCluster E X cid)"
  unfolding getLocationsForCluster_def
  by (intro keeps assms; rule keeps_quietI)
    (auto dest!: reads_quiet [OF assms, where T = T] split: option.splits prod.splits sum.splits)

lemma setLocationsForCluster_quiet [keeps]:
  assumes "database E view" and "clusterTableName \<in> T"
  shows "keeps (quiet view T s0) (setLocationsForCluster E X cid gls)"
  unfolding setLocationsForCluster_def
  by (intro keeps assms; rule keeps_quietI)
    (auto dest!: calls_quiet(4) [OF assms(1) _ assms(2) quiet_refl]
      split: option.splits prod.splits sum.splits)

lemma http_get_quiet [keeps]:
  "services_apart X view \<Longrightarrow> keeps (quiet view T s0) (callE (x_httpGet X u))"
  by (rule callE_quiet) (simp add: services_apart_def)

lemma supplementLocation_quiet [keeps]:
  "services_apart X view \<Longrightarrow> keeps (quiet view T s0) (supplementLocation X loc)"
  unfolding supplementLocation_def reverseLookup_def by (intro keeps)

section \<open>Setting a cluster up\<close>

lemma sleep_quiet [keeps]:
  "services_apart X view \<Longrightarrow> keeps (quiet view T s0) (callM (x_sleep X n))"
  by (rule callM_quiet) (simp add: services_apart_def)

lemma setClusterDNSRecord_quiet [keeps]:
  "database E view \<Longrightarrow> services_apart X view \<Longrightarrow> keeps (quiet view T s0) (setClusterDNSRecord E X c)"
  unfolding setClusterDNSRecord_def make_dns_record_def by (intro keeps)

lemma addCluster_quiet [keeps]:
  assumes "database E view" and "clusterTableName \<in> T"
  shows "keeps (quiet view T s0) (addCluster E c)"
  by (rule keeps_quietI)
    (auto simp: addCluster_def intro: quiet_trans
      dest!: calls_quiet(4) [OF assms(1) _ assms(2) quiet_refl]
        keeps_quietD [OF keep_cluster_quiet [OF assms(1)]]
      split: prod.splits sum.splits)

lemma updateCluster_quiet [keeps]:
  assumes "database E view" and "clusterTableName \<in> T"
  shows "keeps (quiet view T s0) (updateCluster E c)"
  by (rule keeps_quietI)
    (auto simp: updateCluster_def intro: quiet_trans
      dest!: calls_quiet(5) [OF assms(1) _ assms(2) quiet_refl]
        keeps_quietD [OF keep_cluster_quiet [OF assms(1)]]
      split: prod.splits sum.splits)

lemma give_up_quiet [keeps]:
  "database E view \<Longrightarrow> clusterTableName \<in> T \<Longrightarrow> keeps (quiet view T s0) (give_up E c problem)"
  unfolding give_up_def by (intro keeps)

lemma check_account_quiet [keeps]:
  assumes "database E view" and "clusterTableName \<in> T"
  shows "keeps (quiet view T s0) (contact_cluster E c autodelete p)"
    and "keeps (quiet view T s1) (check_namespace E c p accounts)"
  unfolding contact_cluster_def check_namespace_def by (intro keeps assms)+

lemma wait_for_tiller_quiet [keeps]:
  fixes s0 :: "('w, 'z) user_store_scheme"
  assumes "database E view" and "services_apart X view"
  shows "keeps (quiet view T s0) (wait_for_tiller E X c p n)"
  by (induction n) (auto simp: tiller_look_def intro!: keeps assms)

lemma ensureClusterSetup_quiet [keeps]:
  "database E view \<Longrightarrow> services_apart X view \<Longrightarrow> clusterTableName \<in> T \<Longrightarrow>
     keeps (quiet view T s0) (ensureClusterSetup E X c autodelete)"
  unfolding ensureClusterSetup_def ensure_tiller_def init_tiller_def by (intro keeps)

section \<open>Cluster commands\<close>

lemma clusters_for_group_quiet:
  fixes s :: "('w, 'z) cluster_store_scheme"
  assumes "database E view"
  shows "clusters_for_group E gid cs s = (r, s') \<Longrightarrow> quiet view T s s'"
proof (induction cs arbitrary: s r)
  case (Cons c cs)
  note allowed = keeps_quietD [OF groupAllowedOnCluster_quiet [OF assms, where T = T]]
  consider r1 where "clusters_for_group E gid cs s = (r1, s')"
    | e where "groupAllowedOnCluster E gid (c_id c) s = (Inl e, s')"
    | b s1 r1 where "groupAllowedOnCluster E gid (c_id c) s = (Inr b, s1)"
      and "clusters_for_group E gid cs s1 = (r1, s')"
    using Cons.prems by (auto split: prod.splits sum.splits if_splits)
  then show ?case
    by cases (blast intro: quiet_trans dest: allowed Cons.IH)+
qed simp

lemma clusters_of_group_quiet:
  fixes s :: "('w, 'z) cluster_store_scheme"
  assumes "database E view" and "clusters_of_group E n gid s = Some (r, s')"
  shows "quiet view T s s'"
proof -
  have all: "quiet view T s s1" if "listClusters E n s = Some (x, s1)" for x s1
    using that by (rule keepsP_quietD [OF listClusters_quiet [OF assms(1)]])
  consider e where "listClusters E n s = Some (Inl e, s')"
    | cs s1 where "listClusters E n s = Some (Inr cs, s1)" and "clusters_for_group E gid cs s1 = (r, s')"
    using assms(2) unfolding clusters_of_group_def by (auto split: option.splits sum.splits)
  then show ?thesis
  proof cases
    case 1
    then show ?thesis by (rule all)
  next
    case 2
    from quiet_trans [OF all [OF 2(1)] clusters_for_group_quiet [OF assms(1) 2(2)]] show ?thesis .
  qed
qed

lemma listClustersByGroup_quiet [keeps]:
  assumes "database E view"
  shows "keepsP (quiet view T s0) (listClustersByGroup E n g)"
  by (rule keepsP_quietI)
    (auto simp: listClustersByGroup_def intro: quiet_trans clusters_of_group_quiet [OF assms]
      dest!: keeps_quietD [OF findGroupByName_quiet [OF assms, where T = T]]
      split: prod.splits sum.splits if_splits)

lemma cluster_entry_document_quiet [keeps]:
  "database E view \<Longrightarrow> keeps (quiet view T s0) (cluster_entry_document E X c)"
  unfolding cluster_entry_document_def by (intro keeps)

lemma owning_group_quiet [keeps]: "database E view \<Longrightarrow> keeps (quiet view T s0) (owning_group E g)"
  unfolding owning_group_def by (intro keeps)

lemma set_up_cluster_quiet [keeps]:
  "database E view \<Longrightarrow> services_apart X view \<Longrightarrow> clusterTableName \<in> T \<Longrightarrow>
     keeps (quiet view T s0) (set_up_cluster E X c)"
  unfolding set_up_cluster_def by (intro keeps)

lemma apply_update_quiet [keeps]:
  "database E view \<Longrightarrow> services_apart X view \<Longrightarrow> clusterTableName \<in> T \<Longrightarrow>
     keeps (quiet view T s0) (apply_update E X c b1 b2 gls)"
  unfolding apply_update_def store_update_def by (intro keeps)

lemma new_locations_quiet [keeps]:
  assumes "services_apart X view" and "\<And>gls s0. keeps (quiet view T s0) (k gls)"
  shows "keeps (quiet view T s0) (new_locations X md k)"
proof -
  have "keeps (quiet view T s0) (unpack_locations X entries found k')"
    if "\<And>gls s0. keeps (quiet view T s0) (k' gls)" for entries found k'
    using that by (induction entries arbitrary: found) (auto intro!: keeps assms(1) split: option.split)
  then show ?thesis
    unfolding new_locations_def using assms(2) by (intro keeps) auto
qed

lemma check_consistency_quiet [keeps]:
  "database E view \<Longrightarrow> services_apart X view \<Longrightarrow> keeps (quiet view T s0) (check_consistency E X c)"
  unfolding check_consistency_def existing_secrets_def secrets_of_namespace_def
    expected_secret_name_def getControllerVersion_def
  by (intro keeps)

lemma cluster_classes_quiet [keeps]:
  "database E view \<Longrightarrow> keeps (quiet view T s0) (cluster_classes E X kind f c)"
  unfolding cluster_classes_def by (intro keeps)

lemma cluster_info_quiet [keeps]:
  assumes "database E view"
  shows "keeps (quiet view T s0) (getClusterStorageClasses E X c)"
    and "keeps (quiet view T s1) (getClusterPriorityClasses E X c)"
    and "keeps (quiet view T s2) (describe_nodes E X p b)"
  unfolding getClusterStorageClasses_def getClusterPriorityClasses_def describe_nodes_def
  by (intro keeps assms)+

lemma info_response_keeps [keeps]: "keeps I (info_response members version nodes)"
  unfolding info_response_def by (intro keeps)

section \<open>Applications\<close>

lemma quiet_application_updates [simp]:
  "quiet view T s (cache_application E r app s') = quiet view T s s'"
  "quiet view T s (s'\<lparr>applicationCache := x\<rparr>) = quiet view T s s'"
  by (simp_all add: quiet_def leaves_def same_users_def cache_application_def)

lemma findApplication_quiet [keeps]:
  fixes s0 :: "('w, 'z) persistent_store_scheme"
  assumes "database E view"
  shows "keeps (quiet view T s0) (findApplication E r app v)"
proof (rule keeps_quietI)
  fix s s' :: "('w, 'z) persistent_store_scheme" and result
  assume run: "findApplication E r app v s = (result, s')"
  define search :: "(('w, 'z) persistent_store_scheme, Application) op" where "search =
    (let target = r @ ''/'' @ app in
     bindM (getHelmMajorVersion E) (\<lambda>version.
     bindM (call (e_runCommand E ''helm'' (search_args version [target, ''--version'', v]))) (\<lambda>result.
       if cmd_status result \<noteq> 0 then
         throw (''Command failed: helm search '' @ target @ '': [err] '' @
                  cmd_error result @ '' [out] '' @ cmd_output result)
       else if occurs_in ''No results found'' (cmd_output result) then ret no_application
       else bindM (\<lambda>s. (application_in_lines target app
                          (drop 1 (string_split_lines (cmd_output result))), s)) (\<lambda>a s.
              (Inr a, cache_application E r a s)))))"
  have found: "keeps (quiet view T s0) (\<lambda>s. (Inr a, cache_application E r a s))" for a
    and s0 :: "('w, 'z) persistent_store_scheme"
    by (rule keeps_quietI) auto
  have quiet_search: "keeps (quiet view T s0) search" for s0
    unfolding search_def by (intro keeps assms found)
  have "(case cached_application E r app s of Some a \<Rightarrow> (Inr a, s) | None \<Rightarrow> search s) = (result, s')"
    using run by (cases "cached_application E r app s")
      (simp_all only: findApplication_def search_def Let_def option.case)
  then show "quiet view T s s'"
    by (auto dest: keeps_quietD [OF quiet_search] split: option.splits)
qed

lemma fetchApplications_quiet [keeps]:
  assumes "database E view"
  shows "keeps (quiet view T s0) (fetchApplications E r)"
proof -
  have row: "keeps (quiet view T s0) (fetched_application E r line)" for line
    and s0 :: "('a, 'b) persistent_store_scheme"
    by (rule keeps_quietI) (auto simp: fetched_application_def split: sum.splits)
  have fresh: "keeps (quiet view T s0) (\<lambda>s. (Inr results, s\<lparr>applicationCache := f s\<rparr>))" for results f
    and s0 :: "('a, 'b) persistent_store_scheme"
    by (rule keeps_quietI) auto
  show ?thesis
    unfolding fetchApplications_def by (intro keeps assms row fresh)
qed

lemma listApplications_quiet [keeps]:
  assumes "database E view"
  shows "keeps (quiet view T s0) (listApplications E r)"
  by (rule keeps_quietI)
    (auto simp: listApplications_def dest: keeps_quietD [OF fetchApplications_quiet [OF assms]]
      split: option.splits)

lemma with_application_keeps [keeps]:
  "keeps I (findApplication E r app v) \<Longrightarrow> (\<And>a. a_valid a \<Longrightarrow> keeps I (k a)) \<Longrightarrow>
     keeps I (with_application E r app v failed k)"
  unfolding with_application_def by (intro keeps) auto

lemma inspect_application_quiet [keeps]:
  "database E view \<Longrightarrow> keeps (quiet view T s0) (inspect_application E what r problem shown app a)"
  unfolding inspect_application_def by (intro keeps)

lemma with_tag_keeps [keeps]:
  assumes "\<And>p args. keeps I (runCommand E p args)" and "\<And>tag. keeps I (k tag)"
  shows "keeps I (with_tag E X app src v config k)"
  unfolding with_tag_def default_tag_def by (intro keeps assms)

section \<open>Application instances\<close>

lemma quiet_config_update [simp]:
  "quiet view T s (s'\<lparr>instanceConfigCache := x\<rparr>) = quiet view T s s'"
  by (simp add: quiet_def leaves_def same_users_def)

lemma addApplicationInstance_quiet [keeps]:
  assumes "database E view" and "instanceTableName \<in> T"
  shows "keeps (quiet view T s0) (addApplicationInstance E i)"
  by (rule keeps_quietI)
    (auto simp: addApplicationInstance_def Let_def intro: quiet_trans
      dest!: calls_quiet(4) [OF assms(1) _ assms(2) quiet_refl] split: prod.splits sum.splits)

lemma getApplicationInstanceConfig_quiet [keeps]:
  assumes "database E view"
  shows "keeps (quiet view T s0) (getApplicationInstanceConfig E i)"
  by (rule keeps_quietI)
    (auto simp: getApplicationInstanceConfig_def dest!: reads_quiet [OF assms, where T = T]
      split: option.splits prod.splits sum.splits if_splits)

lemma write_file_quiet [keeps]:
  "services_apart X view \<Longrightarrow> keeps (quiet view T s0) (callE (x_writeFile X b t))"
  by (rule callE_quiet) (simp add: services_apart_def)

lemma helm_with_config_quiet [keeps]:
  "services_apart X view \<Longrightarrow> keeps (quiet view T s0) (helm_with_config X p args)"
  unfolding helm_with_config_def by (intro keeps)

lemma make_instance_quiet [keeps]:
  "database E view \<Longrightarrow> services_apart X view \<Longrightarrow> instanceTableName \<in> T \<Longrightarrow>
     keeps (quiet view T s0) (make_instance E X app src q c g tag)"
  unfolding make_instance_def install_instance_def start_instance_def by (intro keeps)

lemma may_use_application_quiet [keeps]:
  "database E view \<Longrightarrow> keeps (quiet view T s0) (groupMayUseApplication E gid cid app)"
  unfolding groupMayUseApplication_def by (intro keeps)

lemma replace_release_quiet [keeps]:
  assumes "database E view" and "services_apart X view" and "instanceTableName \<in> T"
    and "\<And>message s0. keeps (quiet view T s0) (k message)"
  shows "keeps (quiet view T s0) (replace_release E X i g c v k)"
proof -
  have "keeps (quiet view T s0) (wait_for_objects E X p name ns ds)" for p name ns ds
    and s0 :: "('a, 'b) instance_store_scheme"
    by (induction ds)
      (auto simp: look_for_objects_def intro!: keeps assms split: look.split)
  then show ?thesis
    unfolding replace_release_def stop_instance_def delete_release_def reinstall_def
      helm_reinstall_def reinstall_failed_def
    by (intro keeps assms)
qed

lemma record_update_quiet [keeps]:
  "database E view \<Longrightarrow> instanceTableName \<in> T \<Longrightarrow>
     keeps (quiet view T s0) (record_update E iid i g message)"
  unfolding record_update_def by (intro keeps)

lemma external_address_quiet [keeps]:
  "database E view \<Longrightarrow> keeps (quiet view T s0) (external_address E X p ns service t)"
  unfolding external_address_def node_port_address_def pod_address_def by (intro keeps)

lemma getServices_quiet [keeps]:
  "database E view \<Longrightarrow> keeps (quiet view T s0) (getServices E X p name ns)"
  unfolding getServices_def add_service_def by (intro keeps)

lemma fetchInstanceDetails_quiet [keeps]:
  "database E view \<Longrightarrow> keeps (quiet view T s0) (fetchInstanceDetails E X i)"
  unfolding fetchInstanceDetails_def inspect_pod_def add_events_def by (intro keeps)

lemma describe_instance_quiet [keeps]:
  "database E view \<Longrightarrow> services_apart X view \<Longrightarrow>
     keeps (quiet view T s0) (describe_instance E X req i g c)"
  unfolding describe_instance_def details_members_def by (intro keeps)

lemma deployments_quiet [keeps]:
  "database E view \<Longrightarrow> keeps (quiet view T s0) (deployments E X i p ns)"
  unfolding deployments_def by (intro keeps)

lemma scale_to_quiet [keeps]:
  "database E view \<Longrightarrow> keeps (quiet view T s0) (scale_to E p ns iid name n found)"
  unfolding scale_to_def by (intro keeps)

lemma send_logs_quiet [keeps]:
  "database E view \<Longrightarrow> keeps (quiet view T s0) (send_logs E req i p ns containers)"
  unfolding send_logs_def collect_logs_def collectLog_def by (intro keeps)

lemma with_home_keeps [keeps]:
  "keeps I (getGroup E (i_owningGroup i)) \<Longrightarrow> keeps I (getCluster E (i_cluster i)) \<Longrightarrow>
     (\<And>g c. keeps I (k g c)) \<Longrightarrow> keeps I (with_home E i k)"
  unfolding with_home_def by (intro keeps)

section \<open>Parts that ask who is a member\<close>

text \<open>These are not quiet: a lookup of memberships may fill a cache of users.\<close>

lemma with_own_instance_keeps [keeps]:
  "keeps I (token_user E req) \<Longrightarrow> keeps I (getApplicationInstance E iid) \<Longrightarrow>
     (\<And>u g. keeps I (userInGroup E u g)) \<Longrightarrow> (\<And>i. i_valid i \<Longrightarrow> keeps I (k i)) \<Longrightarrow>
     keeps I (with_own_instance E req iid status k)"
  unfolding with_own_instance_def by (intro keeps) auto

lemma register_cluster_keeps [keeps]:
  "(\<And>u g. keeps I (userInGroup E u g)) \<Longrightarrow> (\<And>name. keeps I (findClusterByName E name)) \<Longrightarrow>
     (\<And>c. keeps I (addCluster E c)) \<Longrightarrow> (\<And>c. keeps I (set_up_cluster E X c)) \<Longrightarrow>
     keeps I (register_cluster E X user q cid owner)"
  unfolding register_cluster_def by (intro keeps)

lemma installApplicationImpl_keeps [keeps]:
  "(\<And>u g. keeps I (userInGroup E u g)) \<Longrightarrow> (\<And>p args. keeps I (runCommand E p args)) \<Longrightarrow>
     (\<And>g. keeps I (getGroup E g)) \<Longrightarrow> (\<And>c. keeps I (getCluster E c)) \<Longrightarrow>
     (\<And>g c. keeps I (groupAllowedOnCluster E g c)) \<Longrightarrow>
     (\<And>g c a. keeps I (groupMayUseApplication E g c a)) \<Longrightarrow>
     (\<And>q c g tag. keeps I (make_instance E X app src q c g tag)) \<Longrightarrow>
     keeps I (installApplicationImpl E X user app src doc)"
  unfolding installApplicationImpl_def install_tagged_def may_install_def by (intro keeps)

end
