(* ===== verification/ArchiveFootprint.thy ===== *)
theory ArchiveFootprint
  imports CommandFootprint
begin

text \<open>
  The footprints of reading archives, extracting them and installing from them: files are no
  tables.
\<close>

section \<open>Files\<close>

lemma call_quiet_trans:
  assumes "call f t = (x, t')" and "\<And>w. view (snd (f w)) = view w" and "quiet view T s t"
  shows "quiet view T s t'"
proof (rule quiet_trans [OF assms(3)], rule call_quiet [OF _ assms(1)])
  show "view w' u = view w u" if "f w = (r, w')" for w r w' u
    using assms(2) [of w] that by simp
qed

lemma file_call_quiet:
  assumes "\<And>w. view (snd (f w)) = view w"
  shows "keeps (quiet view T s0) (callM f)"
  by (rule callM_quiet) (rule assms)

lemma file_calls_quiet [keeps]:
  assumes "files_apart F view"
  shows "keeps (quiet view T s0) (callM (fs_getcwd F))"
    and "keeps (quiet view T s0) (callM (fs_readlink F p))"
    and "keeps (quiet view T s0) (callM (fs_stat F p))"
    and "keeps (quiet view T s0) (callM (fs_mkdir F p m))"
    and "keeps (quiet view T s0) (callM (fs_symlink F t p))"
    and "keeps (quiet view T s0) (callM (fs_writeFile F p d))"
    and "keeps (quiet view T s0) (callM (fs_readdir F p))"
    and "keeps (quiet view T s0) (callM (fs_rmdir F p))"
    and "keeps (quiet view T s0) (callM (fs_mkdtemp F p))"
  using assms by (auto simp: files_apart_def intro!: file_call_quiet)

lemma makeTemporaryDir_quiet [keeps]:
  "files_apart F view \<Longrightarrow> keeps (quiet view T s0) (makeTemporaryDir F b)"
  unfolding makeTemporaryDir_def by (intro keeps)

lemma mkdir_p_quiet [keeps]: "files_apart F view \<Longrightarrow> keeps (quiet view T s0) (mkdir_p F p m)"
  unfolding mkdir_p_def makeIfNonexistent_def by (intro keeps)

lemma keeps_progress [keeps]:
  "(\<And>cs b. keeps I (f cs b)) \<Longrightarrow> (\<And>t cs p. keeps I (g t cs p)) \<Longrightarrow>
     keeps I (case r of Onward cs b \<Rightarrow> f cs b | Followed t cs p \<Rightarrow> g t cs p)"
  by (cases r) simp_all

lemma processComponent_quiet [keeps]:
  "files_apart F view \<Longrightarrow> keeps (quiet view T s0) (processComponent F orig cs p l c)"
  unfolding processComponent_def by (intro keeps)

lemma realpathHyp_quiet [keeps]:
  assumes "files_apart F view"
  shows "keeps (quiet view T s0) (realpathHyp F p)"
proof -
  have "keeps (quiet view T s0) (realpath_loop n F orig cs p l)" for n orig cs p l
    by (induction n arbitrary: orig cs p l) (auto intro!: keeps assms)
  then show ?thesis unfolding realpathHyp_def by (intro keeps assms)
qed

lemma extract_entry_quiet:
  "files_apart F view \<Longrightarrow>
     keeps (quiet view T s0) (bindM (place_for F pre name) (extract_file F pre r))"
  unfolding place_for_def extract_file_def extract_link_def by (intro keeps)

lemma extract_loop_quiet:
  "extract_loop F pre d R s = (r, s') \<Longrightarrow> files_apart F view \<Longrightarrow> quiet view T s0 s \<Longrightarrow>
     quiet view T s0 s'"
proof (induction F pre d R s arbitrary: r rule: extract_loop.induct)
  case (1 F pre d R s)
  note entry = extract_entry_quiet [OF "1.prems"(2)]
  from "1.prems" show ?case
    by (subst (asm) extract_loop.simps)
      (auto split: if_splits prod.splits sum.splits dest: keepsD [OF entry]
        intro: "1.IH" [OF _ _ _ _ _ _ _ "1.prems"(2)])
qed

lemma extractToFileSystem_quiet [keeps]:
  assumes "files_apart F view"
  shows "keeps (quiet view T s0) (extractToFileSystem F pre d R)"
proof -
  have "keeps (quiet view T s0) (extract_loop F p d R)" for p
    by (rule keepsI) (rule extract_loop_quiet [OF _ assms])
  then show ?thesis unfolding extractToFileSystem_def by (intro keeps assms)
qed

lemma destroy_directory_quiet:
  assumes "files_apart F view"
  shows "recursivelyDestroyDirectory n F path s = Some (r, s') \<Longrightarrow> quiet view T s0 s \<Longrightarrow>
     quiet view T s0 s'"
proof (induction n arbitrary: path s r s')
  case (Suc n)
  have remove: "quiet view T s0 t'"
    if "errno_of f t = (x, t')" and "\<And>w. view (snd (f w)) = view w" and "quiet view T s0 t"
    for f :: "'a \<Rightarrow> nat option \<times> 'a" and x t t'
    using that(1) by (auto simp: errno_of_def split: prod.splits dest!: call_quiet_trans [OF _ that(2,3)])
  have files: "\<And>w. view (snd (fs_rmdir F p w)) = view w" "\<And>w. view (snd (fs_unlink F p w)) = view w"
    "\<And>w. view (snd (fs_readdir F p w)) = view w" for p
    using assms by (auto simp: files_apart_def)
  have directory: "quiet view T s0 t'"
    if "errno_of (fs_rmdir F p) t = (x, t')" and "quiet view T s0 t" for p t x t'
    by (rule remove [OF that(1) files(1) that(2)])
  have plain: "quiet view T s0 t'"
    if "errno_of (fs_unlink F p) t = (x, t')" and "quiet view T s0 t" for p t x t'
    by (rule remove [OF that(1) files(2) that(2)])
  have entries: "quiet view T s0 t'" if "call (fs_readdir F p) t = (x, t')" and "quiet view T s0 t"
    for p t x t'
    by (rule call_quiet_trans [OF that(1) files(3) that(2)])
  have "quiet view T s0 t'"
    if "destroy_entries (recursivelyDestroyDirectory n F) (\<lambda>p. errno_of (fs_rmdir F p))
          (\<lambda>p. errno_of (fs_unlink F p)) path es t = Some (x, t')" and "quiet view T s0 t"
    for es t x t'
    using that
  proof (induction es arbitrary: t)
    case (Cons e es)
    from Cons.prems show ?case
      by (auto split: if_splits option.splits prod.splits intro: Cons.IH
          dest: Suc.IH directory plain)
  qed simp
  with Suc.prems show ?case
    by (auto split: option.splits prod.splits dest!: entries)
qed simp

section \<open>Archives\<close>

lemma keepsP_pure [keeps]: "keepsP I (\<lambda>s. Some (x, s))"
  by (rule keepsPI) simp

lemma gzipDecompress_quiet [keeps]:
  assumes "zlib_apart Z view"
  shows "keepsP (quiet view T s0) (gzipDecompress n Z source)"
proof -
  have zlib: "\<And>w. view (snd (z_inflate Z b w)) = view w" "\<And>w. view (snd (z_inflateInit Z w)) = view w"
    for b
    using assms by (auto simp: zlib_apart_def)
  have inflated: "quiet view T s0 t'" if "call (z_inflate Z b) t = (x, t')" and "quiet view T s0 t"
    for b t x t'
    by (rule call_quiet_trans [OF that(1) zlib(1) that(2)])
  have started: "quiet view T s0 t'" if "call (z_inflateInit Z) t = (x, t')" and "quiet view T s0 t"
    for t x t'
    by (rule call_quiet_trans [OF that(1) zlib(2) that(2)])
  have loop: "quiet view T s0 s'"
    if "decompress_loop m Z failed src eof buf ok again dest s = Some (r, s')" and "quiet view T s0 s"
    for m failed src eof buf ok again dest s r s'
    using that
  proof (induction m arbitrary: src eof buf ok again dest s)
    case (Suc m)
    from Suc.prems show ?case
      by (auto simp: Let_def split: if_splits prod.splits intro: Suc.IH dest: inflated)
  qed simp
  show ?thesis
    by (rule keepsPI) (auto simp: gzipDecompress_def split: option.splits sum.splits prod.splits if_splits
        dest!: started dest: loop)
qed

section \<open>Installing\<close>

lemma keepsP_attempt [keeps]: "keepsP I m \<Longrightarrow> keepsP I (attemptP m)"
  by (rule keepsPI) (auto simp: attemptP_def split: option.splits sum.splits dest: keepsPD)

lemma keepsP_finally [keeps]: "keepsP I m \<Longrightarrow> keepsP I c \<Longrightarrow> keepsP I (finally_do m c)"
  by (rule keepsPI)
    (auto simp: finally_do_def split: option.splits if_splits sum.splits prod.splits dest: keepsPD)

lemma keepsP_checked [keeps]: "(\<And>a. keepsP I (k a)) \<Longrightarrow> keepsP I (checkedP c k)"
  by (cases c) (auto simp: checkedP_def intro!: keeps)

lemma keepsP_sum [keeps]:
  "(\<And>e. keepsP I (f e)) \<Longrightarrow> (\<And>a. keepsP I (g a)) \<Longrightarrow> keepsP I (case r of Inl e \<Rightarrow> f e | Inr a \<Rightarrow> g a)"
  by (cases r) simp_all

lemma services_apartD [keeps]:
  assumes "services_apart X view"
  shows "files_apart (x_files X) view" and "zlib_apart (x_zlib X) view"
  using assms by (simp_all add: services_apart_def)

lemma unpack_chart_quiet [keeps]:
  assumes "services_apart X view"
  shows "keepsP (quiet view T s0) (unpack_chart n X coded d)"
  unfolding unpack_chart_def by (intro keeps services_apartD [OF assms])

lemma destroy_chart_quiet [keeps]:
  assumes "services_apart X view"
  shows "keepsP (quiet view T s0) (destroy_chart n X d)"
proof (rule keepsPI)
  fix s r s' assume q: "quiet view T s0 s" and run: "destroy_chart n X d s = Some (r, s')"
  have last: "keeps (quiet view T s0) (bindM (callM (fs_rmdir (x_files X) d)) (\<lambda>r. ret ()))"
    by (intro keeps services_apartD [OF assms])
  from run q show "quiet view T s0 s'"
    by (auto simp: destroy_chart_def whole_def split: option.splits
        dest: destroy_directory_quiet [OF services_apartD(1) [OF assms]] keepsD [OF last])
qed

lemma extractChartName_quiet [keeps]:
  "database E view \<Longrightarrow> services_apart X view \<Longrightarrow> keeps (quiet view T s0) (extractChartName E X p)"
  unfolding extractChartName_def by (intro keeps)

end
