(* ===== verification/Confined.thy ===== *)
theory Confined
  imports ArchiveFootprint
begin

text \<open>
  What a command may write: every command leaves all tables alone except those listed by
  \<open>writes_of\<close>, whoever sends it and whatever happens.
\<close>

section \<open>The operations on users\<close>

lemma leaves_cache_user [simp]:
  fixes s s' :: "('w, 'z) user_store_scheme"
  shows "leaves view T s (cache_user E u s') = leaves view T s s'"
    and "leaves view T s (cache_user_by_ID E u s') = leaves view T s s'"
    and "leaves view T s (uncache_user uid s') = leaves view T s s'"
    and "leaves view T (uncache_user uid s) s' = leaves view T s s'"
    and "leaves view T s (cache_membership E uid gid s') = leaves view T s s'"
  by (simp_all add: leaves_def cache_user_def cache_user_by_ID_def uncache_user_def
      cache_membership_def Let_def split: option.split)

lemma leaves_cache_group_of_user [simp]:
  fixes s s' :: "('w, 'z) group_store_scheme"
  shows "leaves view T s (cache_group_of_user E uid g s') = leaves view T s s'"
    and "leaves view T (uncache_membership uid gid s) s' = leaves view T s s'"
    and "leaves view T s (uncache_membership uid gid s') = leaves view T s s'"
  by (simp_all add: leaves_def cache_group_of_user_def uncache_membership_def Let_def split: option.split)

lemma calls_leave:
  assumes "database E view"
  shows "call (e_get E t k) s = (r1, s') \<Longrightarrow> leaves view T s s'"
    and "call (e_query E q) s = (r2, s') \<Longrightarrow> leaves view T s s'"
    and "call (e_scan E sc) s = (r3, s') \<Longrightarrow> leaves view T s s'"
    and "call (e_put E t it) s = (r4, s') \<Longrightarrow> t \<in> T \<Longrightarrow> leaves view T s s'"
    and "call (e_update E t k up c) s = (r4, s') \<Longrightarrow> t \<in> T \<Longrightarrow> leaves view T s s'"
    and "call (e_delete E t k c) s = (r4, s') \<Longrightarrow> t \<in> T \<Longrightarrow> leaves view T s s'"
proof -
  note D = database_calls [OF assms]
  show "call (e_get E t k) s = (r1, s') \<Longrightarrow> leaves view T s s'"
    "call (e_query E q) s = (r2, s') \<Longrightarrow> leaves view T s s'"
    "call (e_scan E sc) s = (r3, s') \<Longrightarrow> leaves view T s s'"
    by (erule call_leaves [rotated], erule D)+
  show "call (e_put E t it) s = (r4, s') \<Longrightarrow> t \<in> T \<Longrightarrow> leaves view T s s'"
    "call (e_update E t k up c) s = (r4, s') \<Longrightarrow> t \<in> T \<Longrightarrow> leaves view T s s'"
    "call (e_delete E t k c) s = (r4, s') \<Longrightarrow> t \<in> T \<Longrightarrow> leaves view T s s'"
    by (erule call_leaves [rotated], erule D, blast)+
qed

lemma keeps_leavesD:
  "(\<And>s0. keeps (leaves view T s0) m) \<Longrightarrow> m s = (r, s') \<Longrightarrow> leaves view T s s'"
  by (rule keepsD [of _ m s r s']) simp_all

lemma keepsP_leavesI:
  "(\<And>s r s'. m s = Some (r, s') \<Longrightarrow> leaves view T s s') \<Longrightarrow> keepsP (leaves view T s0) m"
  by (rule keepsPI) (blast intro: leaves_trans)

lemma keepsP_leavesD:
  "(\<And>s0. keepsP (leaves view T s0) m) \<Longrightarrow> m s = Some (r, s') \<Longrightarrow> leaves view T s s'"
  by (rule keepsPD [of _ m s r s']) simp_all

lemma keepsP_quiet_leaves: "(\<And>s0. keepsP (quiet view T s0) m) \<Longrightarrow> keepsP (leaves view T s0) m"
  by (rule keepsP_leavesI, rule quiet_leaves, rule keepsP_quietD)

lemma getUser_leaves [keeps]:
  assumes "database E view"
  shows "keeps (leaves view T s0) (getUser E uid)"
  by (rule keeps_leavesI)
    (auto simp: getUser_def dest!: calls_leave(1) [OF assms, where T = T]
      split: option.splits prod.splits sum.splits if_splits)

lemma findUserByToken_leaves [keeps]:
  assumes "database E view"
  shows "keeps (leaves view T s0) (findUserByToken E t)"
  by (rule keeps_leavesI)
    (auto simp: findUserByToken_def dest!: calls_leave(2) [OF assms, where T = T]
      split: option.splits prod.splits sum.splits list.splits)

lemma findUserByGlobusID_leaves [keeps]:
  assumes "database E view"
  shows "keeps (leaves view T s0) (findUserByGlobusID E g)"
  by (rule keeps_leavesI)
    (auto simp: findUserByGlobusID_def dest!: calls_leave(2) [OF assms, where T = T]
      split: option.splits prod.splits sum.splits list.splits)

lemma token_user_leaves [keeps]:
  assumes "database E view"
  shows "keeps (leaves view T s0) (token_user E req)"
  by (rule keeps_leavesI)
    (auto simp: token_user_def authenticateUser_def
      dest: keeps_leavesD [OF findUserByToken_leaves [OF assms]] split: option.splits)

lemma addUser_leaves [keeps]:
  assumes "database E view" and "userTableName \<in> T"
  shows "keeps (leaves view T s0) (addUser E u)"
  by (rule keeps_leavesI)
    (auto simp: addUser_def dest!: calls_leave(4) [OF assms(1) _ assms(2)] split: prod.splits sum.splits)

lemma updateUser_leaves [keeps]:
  assumes "database E view" and "userTableName \<in> T"
  shows "keeps (leaves view T s0) (updateUser E u old)"
proof (rule keeps_leavesI)
  fix s r and s' :: "('a, 'b) user_store_scheme" assume run: "updateUser E u old s = (r, s')"
  have upd: "leaves view T s (t\<lparr>userByTokenCache := a, userByGlobusIDCache := b\<rparr>) = leaves view T s t"
    "leaves view T s (t\<lparr>userByTokenCache := a\<rparr>) = leaves view T s t"
    "leaves view T s (t\<lparr>userCache := c\<rparr>) = leaves view T s t" for t :: "('a, 'b) user_store_scheme" and a b c
    by (simp_all add: leaves_def)
  show "leaves view T s s'"
    using run
    by (auto simp: updateUser_def Let_def upd dest!: calls_leave(5) [OF assms(1) _ assms(2)]
        split: prod.splits sum.splits if_splits)
qed

lemma removeUser_leaves [keeps]:
  assumes "database E view" and "userTableName \<in> T"
  shows "keeps (leaves view T s0) (removeUser E uid)"
  by (rule keeps_leavesI)
    (auto simp: removeUser_def dest!: calls_leave(6) [OF assms(1) _ assms(2)]
      split: prod.splits sum.splits)

lemma listUsers_leaves [keeps]:
  assumes "database E view"
  shows "keepsP (leaves view T s0) (listUsers E n)"
proof (rule keepsP_leavesI)
  fix s r and s' :: "('a, 'b) user_store_scheme"
  assume run: "listUsers E n s = Some (r, s')"
  have body: "keeps (leaves view T s0) (listUsers_body E it acc)" for it acc
    and s0 :: "('a, 'b) user_store_scheme"
    by (rule keeps_leavesI) (auto simp: listUsers_body_def split: sum.splits)
  have scan: "keeps (leaves view T s0) (call (e_scan E q))" for q and s0 :: "('a, 'b) user_store_scheme"
    by (rule keeps_leavesI) (erule calls_leave [OF assms])
  have loop: "keepsP (leaves view T s0) (scan_loop n E userTableName flt (listUsers_body E) k acc)"
    for flt k acc and s0 :: "('a, 'b) user_store_scheme"
    by (intro keeps scan body)
  have expire: "leaves view T s (t\<lparr>userCacheExpirationTime := c\<rparr>) = leaves view T s t" for t c
    by (simp add: leaves_def)
  show "leaves view T s s'"
    using run
    by (auto simp: listUsers_def expire dest!: keepsP_leavesD [OF loop]
        split: option.splits prod.splits sum.splits if_splits loop_exit.splits)
qed

lemma listUsersByGroup_leaves [keeps]:
  assumes "database E view"
  shows "keeps (leaves view T s0) (listUsersByGroup E gid)"
proof (rule keeps_leavesI)
  fix s r and s' :: "('a, 'b) user_store_scheme" assume run: "listUsersByGroup E gid s = (r, s')"
  have member: "keeps (leaves view T s0) (cached_member E x)" for x
    and s0 :: "('a, 'b) user_store_scheme"
    by (rule keeps_leavesI)
      (auto simp: cached_member_def dest!: keeps_leavesD [OF getUser_leaves [OF assms, where T = T]])
  have members: "keeps (leaves view T s0) (mapM (cached_member E) xs)" for xs
    and s0 :: "('a, 'b) user_store_scheme"
    by (intro keeps member)
  have update: "leaves view T s (t\<lparr>userByGroupCache := c\<rparr>) = leaves view T s t"
    for s t :: "('a, 'b) user_store_scheme" and c
    by (simp add: leaves_def)
  have queried: "keeps (leaves view T s0) (queried_member E gid it us)" for it us
    and s0 :: "('a, 'b) user_store_scheme"
    unfolding queried_member_def
    by (intro keeps assms) (rule keeps_leavesI, auto simp: Let_def update)
  have loop: "keeps (leaves view T s0) (foldM (queried_member E gid) items us)" for items us
    and s0 :: "('a, 'b) user_store_scheme"
    by (intro keeps queried)
  show "leaves view T s s'"
    using run
    by (auto simp: listUsersByGroup_def Let_def update intro: leaves_trans
        dest!: calls_leave(2) [OF assms, where T = T] keeps_leavesD [OF loop] keeps_leavesD [OF members]
        split: prod.splits sum.splits if_splits)
qed

section \<open>The operations on memberships\<close>

lemma userInGroup_leaves [keeps]:
  assumes "database E view"
  shows "keeps (leaves view T s0) (userInGroup E uid gid)"
proof -
  have check: "keeps (leaves view T s0) (check_membership E uid g)" for g
    and s0 :: "('a, 'b) group_store_scheme"
    by (rule keeps_leavesI)
      (auto simp: check_membership_def dest!: calls_leave(1) [OF assms, where T = T]
        split: prod.splits sum.splits if_splits)
  show ?thesis
    unfolding userInGroup_def
    by (intro keeps check) (rule keeps_quiet_leaves, rule normalizeGroupID_quiet [OF assms])
qed

lemma addUserToGroup_leaves [keeps]:
  assumes "database E view" and "userTableName \<in> T"
  shows "keeps (leaves view T s0) (addUserToGroup E uid gid)"
proof -
  have put: "keeps (leaves view T s0) (put_membership E uid g x u)" for g x u
    and s0 :: "('a, 'b) group_store_scheme"
    by (rule keeps_leavesI)
      (auto simp: put_membership_def dest!: calls_leave(4) [OF assms(1) _ assms(2)]
        split: prod.splits sum.splits)
  show ?thesis
    unfolding addUserToGroup_def
    by (intro keeps put assms)
      (rule keeps_quiet_leaves, intro keeps assms)+
qed

lemma removeUserFromGroup_leaves [keeps]:
  assumes "database E view" and "userTableName \<in> T"
  shows "keeps (leaves view T s0) (removeUserFromGroup E uid gid)"
  unfolding removeUserFromGroup_def
  by (intro keeps)
    (rule keeps_quiet_leaves, intro keeps assms, rule keeps_leavesI,
      auto dest!: calls_leave(6) [OF assms(1) _ assms(2)] split: prod.splits sum.splits)

lemma removeGroup_leaves [keeps]:
  assumes "database E view" and "{groupTableName, userTableName} \<subseteq> T"
  shows "keeps (leaves view T s0) (removeGroup E gid)"
proof -
  have member_gone: "keeps (leaves view T s0) (removeUserFromGroup E uid gid)" for uid
    and s0 :: "('a, 'b) group_store_scheme"
    using assms by (intro removeUserFromGroup_leaves) auto
  have members: "keeps (leaves view T s0) (remove_members E gid uids)" for uids
    and s0 :: "('a, 'b) group_store_scheme"
  proof (rule keeps_leavesI)
    fix s s' :: "('a, 'b) group_store_scheme" and r assume "remove_members E gid uids s = (r, s')"
    then show "leaves view T s s'"
    proof (induction uids arbitrary: s)
      case (Cons uid uids)
      from Cons.prems assms(2) show ?case
        by (auto intro: leaves_trans dest!: keeps_leavesD [OF member_gone] Cons.IH
            split: prod.splits sum.splits bool.splits)
    qed simp
  qed
  have record_gone: "keeps (quiet view T s0) (delete_group_record E gid)"
    for s0 :: "('a, 'b) group_store_scheme"
    using assms(2)
    by (intro keeps_quietI)
      (auto simp: delete_group_record_def dest!: calls_quiet(6) [OF assms(1) _ _ quiet_refl]
        split: prod.splits sum.splits)
  show ?thesis
    unfolding removeGroup_def
    by (intro keeps members) (rule keeps_quiet_leaves, intro keeps record_gone assms(1))+
qed

section \<open>The commands\<close>

text \<open>What goes away with a cluster, and with a group.\<close>

definition cluster_tables :: "string set" where
  "cluster_tables =
     {instanceTableName, secretTableName, volumeTableName, monCredTableName, clusterTableName}"

definition group_tables :: "string set" where
  "group_tables = {groupTableName, userTableName} \<union> cluster_tables"

definition writes_of :: "endpoint \<Rightarrow> string set" where
  "writes_of ep =
     (case ep of
        CreateUser \<Rightarrow> {userTableName}
      | UpdateUser _ \<Rightarrow> {userTableName}
      | DeleteUser _ \<Rightarrow> {userTableName}
      | ReplaceUserToken _ \<Rightarrow> {userTableName}
      | AddUserToGroup _ _ \<Rightarrow> {userTableName}
      | RemoveUserFromGroup _ _ \<Rightarrow> {userTableName}
      | AddMonitoringCredential \<Rightarrow> {monCredTableName}
      | DeleteMonitoringCredential _ \<Rightarrow> {monCredTableName}
      | RevokeMonitoringCredential _ \<Rightarrow> {monCredTableName, clusterTableName}
      | CreateGroup \<Rightarrow> {groupTableName, userTableName}
      | UpdateGroup _ \<Rightarrow> {groupTableName}
      | CreateSecret \<Rightarrow> {secretTableName}
      | DeleteSecret _ \<Rightarrow> {secretTableName}
      | CreateVolumeClaim \<Rightarrow> {volumeTableName}
      | DeleteVolumeClaim _ \<Rightarrow> {volumeTableName}
      | GrantGroupClusterAccess _ _ \<Rightarrow> {clusterTableName}
      | RevokeGroupClusterAccess _ _ \<Rightarrow> {clusterTableName}
      | AllowGroupUseOfApplication _ _ _ \<Rightarrow> {clusterTableName}
      | DenyGroupUseOfApplication _ _ _ \<Rightarrow> {clusterTableName}
      | GetClusterMonitoringCredential _ \<Rightarrow> {monCredTableName, clusterTableName}
      | RemoveClusterMonitoringCredential _ \<Rightarrow> {monCredTableName, clusterTableName}
      | DeleteApplicationInstance _ \<Rightarrow> {instanceTableName}
      | RestartApplicationInstance _ \<Rightarrow> {instanceTableName}
      | UpdateApplicationInstance _ \<Rightarrow> {instanceTableName}
      | InstallApplication _ \<Rightarrow> {instanceTableName}
      | InstallAdHocApplication \<Rightarrow> {instanceTableName}
      | CreateCluster \<Rightarrow> {clusterTableName}
      | UpdateCluster _ \<Rightarrow> {clusterTableName}
      | DeleteCluster _ \<Rightarrow> cluster_tables
      | DeleteGroup _ \<Rightarrow> group_tables
      | _ \<Rightarrow> {})"

lemma do_statistics_leaves [keeps]: "keeps (leaves view T s0) do_statistics"
  by (rule keeps_leavesI) (simp add: do_statistics_def)

lemma user_commands_confined:
  assumes "database E view" and "services_apart X view"
  shows "keepsP (leaves view {} s0) (do_listUsers E n req)"
    and "keeps (leaves view {userTableName} s0) (do_createUser E X req)"
    and "keeps (leaves view {} s1) (do_getUserInfo E req uID)"
    and "keeps (leaves view {} s1) (do_whoAreThey E req)"
    and "keeps (leaves view {userTableName} s0) (do_updateUser E X req uID)"
    and "keeps (leaves view {userTableName} s1) (do_deleteUser E X req uID)"
    and "keeps (leaves view {} s1) (do_listUsergroups E req uID)"
    and "keeps (leaves view {userTableName} s1) (do_addUserToGroup E req uID gID)"
    and "keeps (leaves view {userTableName} s1) (do_removeUserFromGroup E req uID gID)"
    and "keeps (leaves view {} s0) (do_findUser E req)"
    and "keeps (leaves view {userTableName} s0) (do_replaceUserToken E X req uID)"
  unfolding do_listUsers_def do_createUser_def do_getUserInfo_def do_whoAreThey_def
    do_updateUser_def do_deleteUser_def do_listUsergroups_def do_addUserToGroup_def
    do_removeUserFromGroup_def do_findUser_def do_replaceUserToken_def
  by (intro keeps assms insertI1 insertI2 |
      (rule keeps_quiet_leaves keepsP_quiet_leaves, intro keeps assms insertI1 insertI2))+

lemma credential_commands_confined:
  assumes "database E view"
  shows "keepsP (leaves view {} s0) (do_listMonitoringCredentials E n req)"
    and "keeps (leaves view {monCredTableName} s0) (do_addMonitoringCredential E X req)"
    and "keeps (leaves view {monCredTableName, clusterTableName} s1) (do_revokeMonitoringCredential E req i)"
    and "keeps (leaves view {monCredTableName} s0) (do_deleteMonitoringCredential E req i)"
  unfolding do_listMonitoringCredentials_def do_addMonitoringCredential_def
    do_revokeMonitoringCredential_def do_deleteMonitoringCredential_def
  by (intro keeps assms insertI1 insertI2 |
      (rule keeps_quiet_leaves keepsP_quiet_leaves, intro keeps assms insertI1 insertI2))+

lemma group_commands_confined:
  assumes "database E view" and "services_apart X view"
  shows "keepsP (leaves view {} s0) (do_listGroups E n req)"
    and "keeps (leaves view {groupTableName, userTableName} s0) (do_createGroup E X req)"
    and "keeps (leaves view {} s0) (do_getGroupInfo E req i)"
    and "keeps (leaves view {groupTableName} s0) (do_updateGroup E X req i)"
    and "keeps (leaves view {} s0) (do_listGroupMembers E req i)"
    and "keeps (leaves view {} s1) (do_listGroupClusters E req i)"
  unfolding do_listGroups_def do_createGroup_def do_getGroupInfo_def do_updateGroup_def
    do_listGroupMembers_def do_listGroupClusters_def
  by (intro keeps assms insertI1 insertI2 |
      (rule keeps_quiet_leaves keepsP_quiet_leaves, intro keeps assms insertI1 insertI2))+

lemma may_use_cluster_leaves [keeps]:
  "database E view \<Longrightarrow> keeps (leaves view T s0) (may_use_cluster E g c)"
  unfolding may_use_cluster_def by (rule keeps_quiet_leaves, intro keeps)

lemma secret_payload_leaves [keeps]:
  assumes "database E view" and "\<And>enc doc. keeps (leaves view T s0) (k enc doc)"
  shows "keeps (leaves view T s0) (secret_payload E X user doc k)"
  unfolding secret_payload_def
  by (intro keeps assms insertI1 insertI2 |
      (rule keeps_quiet_leaves keepsP_quiet_leaves, intro keeps assms insertI1 insertI2))+

lemma secret_commands_confined:
  assumes "database E view" and "services_apart X view"
  shows "keeps (leaves view {} s0) (do_listSecrets E req)"
    and "keeps (leaves view {secretTableName} s0) (do_createSecret E X req)"
    and "keeps (leaves view {secretTableName} s0) (do_deleteSecret E req i)"
    and "keeps (leaves view {} s0) (do_getSecret E X req i)"
  unfolding do_listSecrets_def do_createSecret_def do_deleteSecret_def do_getSecret_def
  by (intro keeps assms insertI1 insertI2 |
      (rule keeps_quiet_leaves keepsP_quiet_leaves, intro keeps assms insertI1 insertI2))+

lemma volume_commands_confined:
  assumes "database E view" and "services_apart X view"
  shows "keepsP (leaves view {} s0) (do_listVolumeClaims E X n req)"
    and "keeps (leaves view {volumeTableName} s0) (do_createVolumeClaim E X req)"
    and "keeps (leaves view {} s0) (do_fetchVolumeClaimInfo E X req i)"
    and "keeps (leaves view {volumeTableName} s0) (do_deleteVolumeClaim E X req i)"
  unfolding do_listVolumeClaims_def do_createVolumeClaim_def do_fetchVolumeClaimInfo_def
    do_deleteVolumeClaim_def
  by (intro keeps assms insertI1 insertI2 |
      (rule keeps_quiet_leaves keepsP_quiet_leaves, intro keeps assms insertI1 insertI2))+

lemma keeps_with_cluster [keeps]:
  "keeps I (getCluster E cid) \<Longrightarrow> (\<And>c. c_valid c \<Longrightarrow> keeps I (k c)) \<Longrightarrow> keeps I (with_cluster E cid k)"
  unfolding with_cluster_def by (intro keeps) auto

lemma keeps_with_group [keeps]:
  "keeps I (getGroup E gid) \<Longrightarrow> (\<And>g. g_valid g \<Longrightarrow> keeps I (k g)) \<Longrightarrow> keeps I (with_group E gid k)"
  unfolding with_group_def by (intro keeps) auto

lemma may_manage_leaves [keeps]:
  "database E view \<Longrightarrow> keeps (leaves view T s0) (may_manage E user c)"
  unfolding may_manage_def by (intro keeps)

lemma access_commands_confined:
  assumes "database E view" and "services_apart X view"
  shows "keeps (leaves view {} s0) (do_listClusterAllowedgroups E req c)"
    and "keeps (leaves view {} s0) (do_checkGroupClusterAccess E req c g)"
    and "keeps (leaves view {clusterTableName} s0) (do_grantGroupClusterAccess E req c g)"
    and "keeps (leaves view {clusterTableName} s0) (do_revokeGroupClusterAccess E req c g)"
    and "keeps (leaves view {} s0) (do_listClusterGroupAllowedApplications E req c g)"
    and "keeps (leaves view {clusterTableName} s0) (do_allowGroupUseOfApplication E req c g a)"
    and "keeps (leaves view {clusterTableName} s0) (do_denyGroupUseOfApplication E req c g a)"
    and "keepsP (leaves view {monCredTableName, clusterTableName} s0)
           (do_getClusterMonitoringCredential E X n req c)"
    and "keeps (leaves view {monCredTableName, clusterTableName} s0)
           (do_removeClusterMonitoringCredential E req c)"
  unfolding do_listClusterAllowedgroups_def do_checkGroupClusterAccess_def
    do_grantGroupClusterAccess_def do_revokeGroupClusterAccess_def
    do_listClusterGroupAllowedApplications_def do_allowGroupUseOfApplication_def
    do_denyGroupUseOfApplication_def do_getClusterMonitoringCredential_def
    do_removeClusterMonitoringCredential_def
  by (intro keeps assms insertI1 insertI2 |
      (rule keeps_quiet_leaves keepsP_quiet_leaves, intro keeps assms insertI1 insertI2))+

lemma do_pingCluster_confined:
  fixes s0 :: "('w, 'z) cluster_store_scheme"
  assumes "database E view"
  shows "keeps (leaves view {} s0) (do_pingCluster E req c)"
proof -
  have "keeps (leaves view {} s0) (bindM (if b then ret r else check_reachability E c') (\<lambda>reachable.
      ret (f reachable)))" for b r c' s0 and f :: "bool \<Rightarrow> response"
    by (intro keeps keeps_quiet_leaves check_reachability_quiet assms)
  from keeps_leavesD [OF this] have answer: "keeps (leaves view {} s0) (\<lambda>s.
      bindM (if b s then ret r else check_reachability E c') (\<lambda>reachable. ret (f reachable)) s)"
    for b r c' and f :: "bool \<Rightarrow> response"
    by (intro keeps_leavesI)
  show ?thesis
    unfolding do_pingCluster_def
    by (intro keeps answer assms | (rule keeps_quiet_leaves, intro keeps assms))+
qed

lemma tables_in:
  "{instanceTableName, secretTableName, volumeTableName, monCredTableName, clusterTableName}
     \<subseteq> cluster_tables"
  "{instanceTableName, secretTableName, volumeTableName, monCredTableName, clusterTableName}
     \<subseteq> group_tables"
  "{groupTableName, userTableName} \<subseteq> group_tables"
  by (auto simp: cluster_tables_def group_tables_def)

lemma deletion_commands_confined:
  assumes "database E view" and "services_apart X view"
  shows "keepsP (leaves view {} s0) (do_listApplicationInstances E n req)"
    and "keeps (leaves view {instanceTableName} s0) (do_deleteApplicationInstance E X req i)"
    and "keepsP (leaves view cluster_tables s0) (do_deleteCluster E X n req c)"
    and "keepsP (leaves view group_tables s0) (do_deleteGroup E X n req g)"
  unfolding do_listApplicationInstances_def do_deleteApplicationInstance_def do_deleteCluster_def
    do_deleteGroup_def
  by (intro keeps assms tables_in insertI1 insertI2 |
      (rule keeps_quiet_leaves keepsP_quiet_leaves,
       intro keeps assms tables_in insertI1 insertI2))+

lemma cluster_commands_confined:
  assumes "database E view" and "services_apart X view"
  shows "keepsP (leaves view {} s0) (do_listClusters E X n req)"
    and "keeps (leaves view {clusterTableName} s0) (do_createCluster E X req)"
    and "keeps (leaves view {} s0) (do_getClusterInfo E X req c)"
    and "keeps (leaves view {clusterTableName} s0) (do_updateCluster E X req c)"
    and "keeps (leaves view {} s0) (do_verifyCluster E X req c)"
  unfolding do_listClusters_def do_createCluster_def do_getClusterInfo_def do_updateCluster_def
    do_verifyCluster_def
  by (intro keeps assms insertI1 insertI2 |
      (rule keeps_quiet_leaves keepsP_quiet_leaves, intro keeps assms insertI1 insertI2))+

lemma application_commands_confined:
  assumes "database E view" and "services_apart X view"
  shows "keeps (leaves view {} s0) (do_listApplications E req)"
    and "keeps (leaves view {} s0) (do_fetchApplicationConfig E req app)"
    and "keeps (leaves view {} s0) (do_fetchApplicationDocumentation E req app)"
    and "keeps (leaves view {} s0) (do_fetchApplicationVersions E X req app)"
    and "keeps (leaves view {instanceTableName} s0) (do_installApplication E X req app)"
    and "keeps (leaves view {} s0) (do_updateCatalog E req)"
    and "keepsP (leaves view {instanceTableName} s0) (do_installAdHocApplication n E X req)"
  unfolding do_listApplications_def do_fetchApplicationConfig_def
    do_fetchApplicationDocumentation_def do_fetchApplicationVersions_def do_installApplication_def
    do_updateCatalog_def do_installAdHocApplication_def install_from_def install_chart_def
  by (intro keeps assms insertI1 insertI2 |
      (rule keeps_quiet_leaves keepsP_quiet_leaves, intro keeps assms insertI1 insertI2))+

lemma instance_commands_confined:
  assumes "database E view" and "services_apart X view"
  shows "keeps (leaves view {} s0) (do_fetchApplicationInstanceInfo E X req i)"
    and "keeps (leaves view {instanceTableName} s0) (do_restartApplicationInstance E X req i)"
    and "keeps (leaves view {} s0) (do_getApplicationInstanceLogs E X req i)"
    and "keeps (leaves view {} s0) (do_getApplicationInstanceScale E X req i)"
    and "keeps (leaves view {} s0) (do_scaleApplicationInstance E X req i)"
    and "keeps (leaves view {instanceTableName} s0) (do_updateApplicationInstance E X req i)"
  unfolding do_fetchApplicationInstanceInfo_def do_restartApplicationInstance_def
    do_getApplicationInstanceLogs_def do_getApplicationInstanceScale_def
    do_scaleApplicationInstance_def do_updateApplicationInstance_def
  by (intro keeps assms insertI1 insertI2 |
      (rule keeps_quiet_leaves keepsP_quiet_leaves, intro keeps assms insertI1 insertI2))+

text \<open>
  No command writes a table that is not its own, whoever sends it, whatever the body, and whether it
  succeeds, is refused, or fails half way.
\<close>

lemma execute_confined_to_tables:
  assumes "database E view" and "services_apart X view"
  shows "keepsP (leaves view (writes_of ep) s0) (execute E X n ep req)"
  by (cases ep; simp add: writes_of_def do_serverVersionInfo_def;
      intro keeps user_commands_confined [OF assms] credential_commands_confined [OF assms(1)]
        group_commands_confined [OF assms] secret_commands_confined [OF assms]
        volume_commands_confined [OF assms] access_commands_confined [OF assms]
        do_pingCluster_confined [OF assms(1)] deletion_commands_confined [OF assms]
        cluster_commands_confined [OF assms] application_commands_confined [OF assms]
        instance_commands_confined [OF assms])

end
