(* ===== verification/Coherence.thy ===== *)
theory Coherence
  imports Confined GroupCorrect
begin

text \<open>
  The caches of accounts and memberships agree with the users table, and this is kept by every
  command of the service, whoever sends it and however it ends.  With it the promises of
  \<open>UserCorrect\<close> and \<open>GroupCorrect\<close> hold in every state that a server gets into by serving
  requests.
\<close>

section \<open>The invariant\<close>

text \<open>Rows with a group are memberships, stored under the user and the group that they name.\<close>

definition member_rows :: "'w view \<Rightarrow> 'w \<Rightarrow> bool" where
  "member_rows view w \<longleftrightarrow>
     (\<forall>k it. view w userTableName k = Some it \<longrightarrow> map_of it ''groupID'' \<noteq> None \<longrightarrow>
        (\<exists>uid gid. k = row_key uid (membership_sortKey uid gid) \<and>
           map_of it ''ID'' = Some (AV_S uid) \<and> map_of it ''groupID'' = Some (AV_S gid)))"

definition coherent :: "'w view \<Rightarrow> ('w, 'z) user_store_scheme \<Rightarrow> bool" where
  "coherent view s \<longleftrightarrow> user_coherent view s \<and> member_coherent view s \<and> member_rows view (world s)"

text \<open>The service as it is documented, with the indices that the operations use.\<close>

definition served_by :: "'w env \<Rightarrow> 'w view \<Rightarrow> bool" where
  "served_by E view \<longleftrightarrow> database E view \<and> user_indices E view \<and>
     dynamo_index E view userTableName ''ByGroup'' {''ID''}"

lemma served_database: "served_by E view \<Longrightarrow> database E view"
  by (simp add: served_by_def)

lemma served_rw: "served_by E view \<Longrightarrow> dynamo_rw E view"
  by (simp add: served_by_def database_def)

lemma served_search: "served_by E view \<Longrightarrow> dynamo_search E view"
  by (simp add: served_by_def database_def)

lemma served_users: "served_by E view \<Longrightarrow> user_service E view"
  by (simp add: served_by_def database_def user_service_def)

lemma coherentD:
  assumes "coherent view s"
  shows "user_coherent view s" and "member_coherent view s" and "member_rows view (world s)"
  using assms by (simp_all add: coherent_def)

lemma coherent_quiet:
  assumes "coherent view s" and "quiet view T s s'" and "userTableName \<notin> T"
  shows "coherent view s'"
proof -
  have same: "view (world s') userTableName = view (world s) userTableName"
    using assms(2,3) by (simp add: quiet_def leaves_def)
  moreover have "stored_member view (world s') = stored_member view (world s)"
    by (simp add: stored_member_def same fun_eq_iff)
  ultimately show ?thesis
    using assms(1,2) user_coherent_cong [of view s s']
    by (simp add: coherent_def quiet_def same_users_def member_coherent_def cached_membership_def
        member_rows_def)
qed

lemma keeps_coherent_quiet:
  "(\<And>s0. keeps (quiet view T s0) m) \<Longrightarrow> userTableName \<notin> T \<Longrightarrow> keeps (coherent view) m"
  by (rule keeps_of_quiet) (auto intro: coherent_quiet)

lemma keepsP_coherent_quiet:
  "(\<And>s0. keepsP (quiet view T s0) m) \<Longrightarrow> userTableName \<notin> T \<Longrightarrow> keepsP (coherent view) m"
  by (rule keepsPI, rule coherent_quiet, assumption, rule keepsP_quietD)

section \<open>Operations on accounts\<close>

text \<open>What an operation on accounts does to the table, if it does anything to it.\<close>

definition account_write :: "'w view \<Rightarrow> 'w \<Rightarrow> 'w \<Rightarrow> bool" where
  "account_write view w w' \<longleftrightarrow> view w' = view w \<or>
     (\<exists>uid v. view w' = (view w)(userTableName := (view w userTableName)(entity_key uid := v)) \<and>
        (\<forall>it. v = Some it \<longrightarrow> map_of it ''groupID'' =
           (case view w userTableName (entity_key uid) of None \<Rightarrow> None | Some old \<Rightarrow> map_of old ''groupID'')
         \<or> map_of it ''groupID'' = None))"

lemma account_writeI:
  assumes "view w' = (view w)(userTableName := (view w userTableName)(entity_key uid := v))"
    and "\<And>it. v = Some it \<Longrightarrow> map_of it ''groupID'' =
        (case view w userTableName (entity_key uid) of None \<Rightarrow> None | Some old \<Rightarrow> map_of old ''groupID'')
      \<or> map_of it ''groupID'' = None"
  shows "account_write view w w'"
  using assms unfolding account_write_def by blast

lemma account_write_members:
  assumes "account_write view w w'" and "member_rows view w"
  shows "member_rows view w'" and "stored_member view w' = stored_member view w"
proof -
  have no_group: "map_of it ''groupID'' = None"
    if "view w userTableName (entity_key uid) = Some it" for uid it
    using assms(2) that unfolding member_rows_def by fastforce
  show "stored_member view w' = stored_member view w"
    using assms(1) by (intro ext) (auto simp: account_write_def stored_member_def split: if_splits)
  show "member_rows view w'"
  proof (cases "view w' = view w")
    case True
    with assms(2) show ?thesis by (simp add: member_rows_def)
  next
    case False
    with assms(1) obtain uid v where
      w': "view w' = (view w)(userTableName := (view w userTableName)(entity_key uid := v))" and
      v: "\<And>it. v = Some it \<Longrightarrow> map_of it ''groupID'' =
        (case view w userTableName (entity_key uid) of None \<Rightarrow> None | Some old \<Rightarrow> map_of old ''groupID'')
        \<or> map_of it ''groupID'' = None"
      by (auto simp: account_write_def)
    have "map_of it ''groupID'' = None" if "v = Some it" for it
      using v [OF that] no_group by (auto split: option.splits)
    with assms(2) w' show ?thesis by (auto simp: member_rows_def)
  qed
qed

lemma coherent_account:
  assumes "coherent view s" and "user_coherent view s'"
    and "userByGroupCache s' = userByGroupCache s" and "account_write view (world s) (world s')"
  shows "coherent view s'"
  using assms account_write_members [OF assms(4)]
  by (simp add: coherent_def member_coherent_def cached_membership_def)

lemma reads_account: "leaves view {} s s' \<Longrightarrow> account_write view (world s) (world s')"
  by (simp add: leaves_def account_write_def fun_eq_iff)

lemma lookups_keep_members:
  fixes s s' :: "('w, 'z) user_store_scheme"
  shows "getUser E uid s = (r, s') \<Longrightarrow> userByGroupCache s' = userByGroupCache s"
    and "findUserByToken E t s = (r, s') \<Longrightarrow> userByGroupCache s' = userByGroupCache s"
    and "findUserByGlobusID E g s = (r, s') \<Longrightarrow> userByGroupCache s' = userByGroupCache s"
    and "addUser E u s = (b, s') \<Longrightarrow> userByGroupCache s' = userByGroupCache s"
    and "updateUser E u old s = (b, s') \<Longrightarrow> userByGroupCache s' = userByGroupCache s"
    and "removeUser E uid s = (b, s') \<Longrightarrow> userByGroupCache s' = userByGroupCache s"
  by (auto simp: getUser_def findUserByToken_def findUserByGlobusID_def addUser_def updateUser_def
      removeUser_def cache_user_def uncache_user_def count_hits_def count_query_def call_def Let_def
      split: option.splits prod.splits sum.splits if_splits list.splits)

lemma getUser_keeps [keeps]:
  assumes "served_by E view"
  shows "keeps (coherent view) (getUser E uid)"
proof (rule keepsI)
  fix s s' :: "('a, 'b) user_store_scheme" and r
  assume coh: "coherent view s" and run: "getUser E uid s = (r, s')"
  show "coherent view s'"
    by (rule coherent_account [OF coh getUser_coherent [OF served_rw [OF assms] coherentD(1) [OF coh] run]
        lookups_keep_members(1) [OF run]
        reads_account [OF keeps_leavesD [OF getUser_leaves [OF served_database [OF assms]] run]]])
qed

lemma findUserByToken_keeps [keeps]:
  assumes "served_by E view"
  shows "keeps (coherent view) (findUserByToken E t)"
proof (rule keepsI)
  fix s s' :: "('a, 'b) user_store_scheme" and r
  assume coh: "coherent view s" and run: "findUserByToken E t s = (r, s')"
  have "user_indices E view" using assms by (simp add: served_by_def)
  then show "coherent view s'"
    by (intro coherent_account [OF coh findUserByToken_coherent [OF _ coherentD(1) [OF coh] run]
        lookups_keep_members(2) [OF run]
        reads_account [OF keeps_leavesD [OF findUserByToken_leaves [OF served_database [OF assms]] run]]])
qed

lemma findUserByGlobusID_keeps [keeps]:
  assumes "served_by E view"
  shows "keeps (coherent view) (findUserByGlobusID E g)"
proof (rule keepsI)
  fix s s' :: "('a, 'b) user_store_scheme" and r
  assume coh: "coherent view s" and run: "findUserByGlobusID E g s = (r, s')"
  have "user_indices E view" using assms by (simp add: served_by_def)
  then show "coherent view s'"
    by (intro coherent_account [OF coh findUserByGlobusID_coherent [OF _ coherentD(1) [OF coh] run]
        lookups_keep_members(3) [OF run]
        reads_account [OF keeps_leavesD [OF findUserByGlobusID_leaves [OF served_database [OF assms]] run]]])
qed

lemma token_user_keeps [keeps]: "served_by E view \<Longrightarrow> keeps (coherent view) (token_user E req)"
  unfolding token_user_def authenticateUser_def
  by (rule keepsI) (auto split: option.splits dest: keepsD [OF findUserByToken_keeps])

lemma account_writes:
  assumes "dynamo_rw E view"
  shows "addUser E u s = (r, s') \<Longrightarrow> account_write view (world s) (world s')"
    and "updateUser E u old s = (r, s') \<Longrightarrow> account_write view (world s) (world s')"
    and "removeUser E uid s = (r, s') \<Longrightarrow> account_write view (world s) (world s')"
proof -
  have none: "map_of (user_item u) ''groupID'' = None" by (simp add: user_item_def)
  have upd: "map_of (with_updates (user_updates u) it) ''groupID'' = map_of it ''groupID''" for it
    by (simp add: with_updates_def user_updates_def)
  have key: "map_of (entity_key i) ''groupID'' = None" for i by (simp add: entity_key_def)
  have same: "account_write view w w'" if "view w' = view w" for w w'
    using that by (simp add: account_write_def)
  show "account_write view (world s) (world s')" if "addUser E u s = (r, s')"
    using that none
    by (auto simp: addUser_def call_def dest!: dynamo_putD [OF assms] intro: same account_writeI
        split: prod.splits sum.splits)
  show "account_write view (world s) (world s')" if "updateUser E u old s = (r, s')"
  proof -
    obtain x w where w: "e_update E userTableName (entity_key (u_id u)) (user_updates u) None (world s)
        = (x, w)" by (cases "e_update E userTableName (entity_key (u_id u)) (user_updates u) None (world s)")
    have "world s' = w"
      using that w by (auto simp: updateUser_def call_def Let_def split: sum.splits)
    with dynamo_updateD [OF assms w] show ?thesis
    proof (cases x)
      case (Inr y)
      with dynamo_updateD [OF assms w] \<open>world s' = w\<close> show ?thesis
        by (intro account_writeI [of view "world s'" "world s" "u_id u"])
          (auto simp: upd key split: option.splits)
    qed (auto intro: same)
  qed
  show "account_write view (world s) (world s')" if "removeUser E uid s = (r, s')"
    using that
    by (auto simp: removeUser_def call_def dest!: dynamo_deleteD [OF assms] intro: same account_writeI
        split: prod.splits sum.splits)
qed

lemma removeUser_keeps [keeps]:
  assumes "served_by E view"
  shows "keeps (coherent view) (removeUser E uid)"
proof (rule keepsI)
  fix s s' :: "('a, 'b) user_store_scheme" and r
  assume coh: "coherent view s" and run: "removeUser E uid s = (r, s')"
  note rw = served_rw [OF assms]
  show "coherent view s'"
    by (rule coherent_account [OF coh removeUser_coherent [OF rw coherentD(1) [OF coh] run]
        lookups_keep_members(6) [OF run] account_writes(3) [OF rw run]])
qed

lemma addUser_keeps:
  assumes "served_by E view" and "coherent view s" and "u_valid u" and "u_id u \<noteq> ''''"
    and "view (world s) userTableName (entity_key (u_id u)) = None" and "addUser E u s = (r, s')"
  shows "coherent view s'"
  by (rule coherent_account [OF assms(2) addUser_coherent [OF served_rw [OF assms(1)]
        coherentD(1) [OF assms(2)] assms(3-6)] lookups_keep_members(4) [OF assms(6)]
        account_writes(1) [OF served_rw [OF assms(1)] assms(6)]])

lemma updateUser_keeps:
  assumes "served_by E view" and "coherent view s" and "u_valid u"
    and "stored_user view (world s) (u_id u) = Some old" and "u_globusID old = u_globusID u"
    and "updateUser E u old s = (r, s')"
  shows "coherent view s'"
  by (rule coherent_account [OF assms(2) updateUser_coherent [OF served_rw [OF assms(1)]
        coherentD(1) [OF assms(2)] assms(3-6)] lookups_keep_members(5) [OF assms(6)]
        account_writes(2) [OF served_rw [OF assms(1)] assms(6)]])

lemma listUsers_keeps [keeps]:
  assumes "served_by E view"
  shows "keepsP (coherent view) (listUsers E n)"
proof (rule keepsPI)
  fix s s' :: "('a, 'b) user_store_scheme" and r
  assume coh: "coherent view s" and run: "listUsers E n s = Some (r, s')"
  have "keepsP (\<lambda>x. userByGroupCache x = userByGroupCache s)
      (scan_loop n E userTableName flt (listUsers_body E) k acc)"
    for flt k acc and s :: "('a, 'b) user_store_scheme"
    by (intro keeps keepsI)
      (auto simp: listUsers_body_def cache_user_by_ID_def call_def split: sum.splits prod.splits)
  note loop = keepsPD [OF this]
  have "userByGroupCache s' = userByGroupCache s"
  proof (cases "userCacheExpirationTime s > steady_now E s")
    case True
    with run show ?thesis by (auto simp: listUsers_def count_hits_def)
  next
    case False
    obtain x s1 where x: "scan_loop n E userTableName (Some (Attr_not_exists ''groupID''))
        (listUsers_body E) [] [] (count_scan s) = Some (x, s1)"
      using run False by (auto simp: listUsers_def split: option.splits)
    have "userByGroupCache s1 = userByGroupCache s"
      by (rule loop [OF _ x]) (simp add: count_scan_def)
    with x run False show ?thesis
      by (auto simp: listUsers_def split: sum.splits loop_exit.splits)
  qed
  then show "coherent view s'"
    by (rule coherent_account [OF coh listUsers_coherent [OF served_search [OF assms]
          coherentD(1) [OF coh] run] _
        reads_account [OF keepsP_leavesD [OF listUsers_leaves [OF served_database [OF assms]] run]]])
qed

section \<open>Operations on memberships\<close>

lemma coherent_membership:
  assumes "coherent view s" and "member_coherent view s'"
    and "userCache s' = userCache s" and "userByTokenCache s' = userByTokenCache s"
    and "userByGlobusIDCache s' = userByGlobusIDCache s"
    and "view (world s') = view (world s) \<or>
      view (world s') = (view (world s))(userTableName :=
        (view (world s) userTableName)(row_key uid (membership_sortKey uid gid) := v)) \<and>
      v \<in> {None, Some (membership_item uid gid)}"
  shows "coherent view s'"
proof (cases "view (world s') = view (world s)")
  case True
  then show ?thesis
    using assms(1,2) user_coherent_cong [of view s s'] assms(3-5)
    by (simp add: coherent_def member_rows_def)
next
  case False
  with assms(6) have w': "view (world s') = (view (world s))(userTableName :=
      (view (world s) userTableName)(row_key uid (membership_sortKey uid gid) := v))"
    and v: "v \<in> {None, Some (membership_item uid gid)}"
    by blast+
  have accounts: "stored_user view (world s') = stored_user view (world s)"
    by (rule ext) (auto simp: stored_user_def w')
  have "account_rows view (world s')"
    using user_coherentD(4) [OF coherentD(1) [OF assms(1)]] w' v
    by (auto simp: account_rows_def membership_item_def)
  then have "user_coherent view s'"
    using coherentD(1) [OF assms(1)] accounts assms(3-5) by (simp add: user_coherent_def)
  moreover have "member_rows view (world s')"
    using coherentD(3) [OF assms(1)] w' v
    by (auto simp: member_rows_def membership_item_def)
  ultimately show ?thesis using assms(2) by (simp add: coherent_def)
qed

lemma put_membership_keeps [keeps]:
  assumes "served_by E view"
  shows "keeps (coherent view) (put_membership E uid gid g u)"
proof (rule keepsI)
  fix s s' :: "('a, 'b) group_store_scheme" and r
  assume coh: "coherent view s" and run: "put_membership E uid gid g u s = (r, s')"
  note rw = served_rw [OF assms]
  have "member_coherent view s'" using put_membership_correct [OF rw coherentD(2) [OF coh] run] by blast
  then show "coherent view s'"
  proof (rule coherent_membership [OF coh, where uid = uid and gid = gid])
    show "userCache s' = userCache s" "userByTokenCache s' = userByTokenCache s"
      "userByGlobusIDCache s' = userByGlobusIDCache s"
      using run by (auto simp: put_membership_def call_def cache_membership_def cache_group_of_user_def
          split: prod.splits sum.splits)
    show "view (world s') = view (world s) \<or>
      view (world s') = (view (world s))(userTableName :=
        (view (world s) userTableName)(row_key uid (membership_sortKey uid gid) := Some (membership_item uid gid))) \<and>
      Some (membership_item uid gid) \<in> {None, Some (membership_item uid gid)}"
      using run by (auto simp: put_membership_def call_def dest!: dynamo_putD [OF rw]
          split: prod.splits sum.splits)
  qed
qed

lemma delete_membership_keeps [keeps]:
  assumes "served_by E view"
  shows "keeps (coherent view) (delete_membership E uid gid)"
proof (rule keepsI)
  fix s s' :: "('a, 'b) group_store_scheme" and r
  assume coh: "coherent view s" and run: "delete_membership E uid gid s = (r, s')"
  note rw = served_rw [OF assms]
  have "member_coherent view s'" using delete_membership_correct [OF rw coherentD(2) [OF coh] run] by blast
  then show "coherent view s'"
  proof (rule coherent_membership [OF coh, where uid = uid and gid = gid])
    show "userCache s' = userCache s" "userByTokenCache s' = userByTokenCache s"
      "userByGlobusIDCache s' = userByGlobusIDCache s"
      using run by (auto simp: delete_membership_def call_def uncache_membership_def Let_def
          split: prod.splits sum.splits option.splits)
    show "view (world s') = view (world s) \<or>
      view (world s') = (view (world s))(userTableName :=
        (view (world s) userTableName)(row_key uid (membership_sortKey uid gid) := None)) \<and>
      None \<in> {None, Some (membership_item uid gid)}"
      using run by (auto simp: delete_membership_def call_def dest!: dynamo_deleteD [OF rw]
          split: prod.splits sum.splits)
  qed
qed

lemma check_membership_keeps [keeps]:
  assumes "served_by E view"
  shows "keeps (coherent view) (check_membership E uid gid)"
proof (rule keepsI)
  fix s s' :: "('a, 'b) user_store_scheme" and r
  assume coh: "coherent view s" and run: "check_membership E uid gid s = (r, s')"
  note C = check_membership_frame [OF served_rw [OF assms] coherentD(2) [OF coh] run]
  show "coherent view s'"
    by (rule coherent_membership [OF coh conjunct1 [OF C], where uid = uid and gid = gid and v = None])
      (use run C in \<open>auto simp: check_membership_def call_def cache_membership_def count_hits_def
          count_query_def split: prod.splits sum.splits if_splits\<close>)
qed

lemmas coherent_reads = keeps_coherent_quiet [where T = "{}", simplified]
lemmas coherent_readsP = keepsP_coherent_quiet [where T = "{}", simplified]

lemma userInGroup_keeps [keeps]:
  "served_by E view \<Longrightarrow> keeps (coherent view) (userInGroup E uid gid)"
  unfolding userInGroup_def
  by (intro keeps | rule coherent_reads, intro keeps served_database, assumption)+

lemma addUserToGroup_keeps [keeps]:
  "served_by E view \<Longrightarrow> keeps (coherent view) (addUserToGroup E uid gid)"
  unfolding addUserToGroup_def
  by (intro keeps | rule coherent_reads, intro keeps served_database, assumption)+

lemma removeUserFromGroup_keeps [keeps]:
  "served_by E view \<Longrightarrow> keeps (coherent view) (removeUserFromGroup E uid gid)"
  unfolding removeUserFromGroup_def delete_membership_def [symmetric, abs_def]
  by (intro keeps | rule coherent_reads, intro keeps served_database, assumption)+

lemma removeGroup_keeps [keeps]:
  assumes "served_by E view"
  shows "keeps (coherent view) (removeGroup E gid)"
proof -
  note db = served_database [OF assms]
  have members: "keeps (coherent view) (remove_members E gid uids :: (('a, 'b) group_store_scheme, bool) op)"
    for uids
  proof (rule keepsI)
    fix s s' :: "('a, 'b) group_store_scheme" and r
    assume "coherent view s" and "remove_members E gid uids s = (r, s')"
    then show "coherent view s'"
    proof (induction uids arbitrary: s)
      case (Cons uid uids)
      from Cons.prems show ?case
        by (auto dest: keepsD [OF removeUserFromGroup_keeps [OF assms]] Cons.IH
            split: prod.splits sum.splits bool.splits)
    qed simp
  qed
  have "keeps (coherent view) (delete_group_record E gid :: (('a, 'b) group_store_scheme, bool) op)"
  proof (rule keeps_coherent_quiet [where T = "{groupTableName}"])
    show "userTableName \<notin> {groupTableName}" by (simp add: userTableName_def groupTableName_def)
    show "keeps (quiet view {groupTableName} s0) (delete_group_record E gid)"
      for s0 :: "('a, 'b) group_store_scheme"
      by (rule keeps_quietI)
        (auto simp: delete_group_record_def dest!: calls_quiet(6) [OF db _ _ quiet_refl]
          split: prod.splits sum.splits)
  qed
  moreover have "keeps (coherent view) (getMembersOfGroup E gid :: (('a, 'b) group_store_scheme, _) op)"
    by (rule coherent_reads) (intro keeps db)
  ultimately show ?thesis
    unfolding removeGroup_def by (intro keeps members)
qed

text \<open>
  The listing of a group caches the users it finds, and for a member without an account the
  invalid user under the empty ID.
\<close>

lemma getUser_ID:
  assumes "served_by E view" and "coherent view s" and "getUser E uid s = (Inr u, s')"
  shows "u_id u = uid \<or> u_id u = ''''"
  using getUser_cases [OF served_rw [OF assms(1)] coherentD(1) [OF assms(2)] assms(3)]
  by (auto simp: no_user_def dest: stored_user_fields)

lemma coherent_count [simp]:
  "coherent view (count_hits n s) = coherent view s"
  "coherent view (count_query s) = coherent view s"
  by (simp_all add: coherent_def member_coherent_def)

definition listed_member ::
  "'w env \<Rightarrow> string \<Rightarrow> User \<Rightarrow> ('w, 'z) user_store_scheme \<Rightarrow> ('w, 'z) user_store_scheme" where
  "listed_member E gid user s =
     cache_membership E (u_id user) gid (cache_user_by_ID E user s)"

lemma queried_member_steps:
  "queried_member E gid it us =
     bindM (\<lambda>s. (findOrThrow it ''ID'' ''User record missing ID attribute'', s)) (\<lambda>uid.
     bindM (getUser E (GetS uid)) (\<lambda>user s. (Inr (us @ [user]), listed_member E gid user s)))"
  by (simp add: queried_member_def listed_member_def cache_membership_def Let_def)

lemma listed_member_coherent:
  assumes "coherent view s" and "stored_user view (world s) (u_id u) = Some u \<or> u = no_user"
    and "u_id u \<noteq> '''' \<longrightarrow> stored_member view (world s) (u_id u) gid"
  shows "coherent view (listed_member E gid u s)"
proof -
  have "user_coherent view (cache_user_by_ID E u s)"
    using assms(2) user_coherent_cache_by_ID [OF coherentD(1) [OF assms(1)]]
      user_coherent_cache_nobody [OF coherentD(1) [OF assms(1)]] by blast
  then have "user_coherent view (listed_member E gid u s)"
    by (rule user_coherent_cong) (simp_all add: listed_member_def cache_membership_def)
  moreover have "member_coherent view (listed_member E gid u s)"
    using coherentD(2) [OF assms(1)] assms(3)
    by (auto simp: listed_member_def member_coherent_def cached_membership_def cache_user_by_ID_def
        cache_membership_def str.multimap.find_ins)
  moreover have "member_rows view (world (listed_member E gid u s))"
    using coherentD(3) [OF assms(1)] by (simp add: listed_member_def)
  ultimately show ?thesis by (simp add: coherent_def)
qed

lemma queried_member_coherent:
  assumes "served_by E view" and "coherent view s"
    and member: "\<And>v. map_of it ''ID'' = Some v \<Longrightarrow> stored_member view (world s) (GetS v) gid"
    and run: "queried_member E gid it us s = (r, s')"
  shows "coherent view s' \<and> view (world s') = view (world s)"
proof (cases "map_of it ''ID''")
  case None
  with run assms(2) show ?thesis by (simp add: queried_member_steps findOrThrow_def bindM_def)
next
  case (Some v)
  obtain x s1 where get: "getUser E (GetS v) s = (x, s1)" by (cases "getUser E (GetS v) s")
  have coh1: "coherent view s1" by (rule keepsD [OF getUser_keeps [OF assms(1)] assms(2) get])
  note C = getUser_cases [OF served_rw [OF assms(1)] coherentD(1) [OF assms(2)] get]
  have same: "stored_user view (world s1) = stored_user view (world s)"
    "stored_member view (world s1) = stored_member view (world s)"
    using C stored_user_cong [of view "world s1" "world s"] by (simp_all add: stored_member_def fun_eq_iff)
  show ?thesis
  proof (cases x)
    case (Inl e)
    with run Some get coh1 C show ?thesis
      by (simp add: queried_member_steps findOrThrow_def bindM_def)
  next
    case (Inr u)
    have "coherent view (listed_member E gid u s1)"
    proof (rule listed_member_coherent [OF coh1])
      show "stored_user view (world s1) (u_id u) = Some u \<or> u = no_user"
        using C Inr same(1) stored_user_fields [of view "world s" "GetS v" u] by auto
      show "u_id u \<noteq> '''' \<longrightarrow> stored_member view (world s1) (u_id u) gid"
        using getUser_ID [OF assms(1,2), of "GetS v" u s1] get Inr member [OF Some] same(2) by auto
    qed
    moreover have "view (world (listed_member E gid u s1)) = view (world s1)"
      by (simp add: listed_member_def)
    ultimately show ?thesis
      using run Some get Inr C by (simp add: queried_member_steps findOrThrow_def bindM_def)
  qed
qed

lemma members_found:
  assumes "served_by E view" and "member_rows view w"
    and query: "e_query E \<lparr>q_table = userTableName, q_index = Some ''ByGroup'',
      q_key = Attr_eq ''groupID'' (AV_S gid), q_filter = None\<rparr> w = (Inr items, w')"
    and "it \<in> set items" and "map_of it ''ID'' = Some v"
  shows "stored_member view w (GetS v) gid"
proof -
  have idx: "dynamo_index E view userTableName ''ByGroup'' {''ID''}"
    using assms(1) by (simp add: served_by_def)
  obtain k row where k: "view w userTableName k = Some row" and
    g: "map_of row ''groupID'' = Some (AV_S gid)" and i: "map_of row ''ID'' = Some v"
    using dynamo_indexD(2) [OF idx query, of items it] assms(4,5) by auto
  obtain uid gid' where "k = row_key uid (membership_sortKey uid gid')" and
    "map_of row ''ID'' = Some (AV_S uid)" and "map_of row ''groupID'' = Some (AV_S gid')"
    using assms(2) k g unfolding member_rows_def by fastforce
  with k g i show ?thesis by (auto simp: stored_member_def)
qed

lemma mm_find_value_expiration [simp]:
  "mm_find_value eq (snd (mm_update_expiration k t m)) k' v = mm_find_value eq m k' v"
  by (auto simp: mm_find_value_def mm_update_expiration_def split: option.split)

lemma listUsersByGroup_keeps [keeps]:
  assumes "served_by E view"
  shows "keeps (coherent view) (listUsersByGroup E gid)"
proof (rule keepsI)
  fix s s' :: "('a, 'b) user_store_scheme" and r
  assume coh: "coherent view s" and run: "listUsersByGroup E gid s = (r, s')"
  have "keeps (coherent view) (cached_member E x)" for x
    by (rule keepsI) (auto simp: cached_member_def dest!: keepsD [OF getUser_keeps [OF assms], rotated])
  then have cached: "keeps (coherent view) (mapM (cached_member E) xs)" for xs
    by (intro keeps)
  let ?q = "\<lparr>q_table = userTableName, q_index = Some ''ByGroup'',
      q_key = Attr_eq ''groupID'' (AV_S gid), q_filter = None\<rparr>"
  obtain x w where w: "e_query E ?q (world s) = (x, w)" by (cases "e_query E ?q (world s)")
  define s1 where "s1 = (count_query s)\<lparr>world := w\<rparr>"
  have view: "view w = view (world s)"
    using served_search [OF assms] w unfolding dynamo_search_def by blast
  have "quiet view {} s s1"
    by (simp add: s1_def quiet_def leaves_def same_users_def view count_query_def)
  then have coh1: "coherent view s1" by (rule coherent_quiet [OF coh]) simp
  show "coherent view s'"
  proof (cases "snd (mm_find (userByGroupCache s) gid) > steady_now E s")
    case True
    with run keepsD [OF cached coh] show ?thesis by (simp add: listUsersByGroup_def Let_def)
  next
    case False
    show ?thesis
    proof (cases "\<exists>items. x = Inr items \<and> items \<noteq> []")
      case True
      then obtain items where x: "x = Inr items" "items \<noteq> []" by blast
      obtain us s2 where f: "foldM (queried_member E gid) items [] s1 = (us, s2)"
        by (cases "foldM (queried_member E gid) items [] s1")
      have "coherent view s2 \<and> view (world s2) = view (world s)"
      proof (rule foldM_invariant [where I = "\<lambda>t. coherent view t \<and> view (world t) = view (world s)",
            OF _ _ f])
        fix it acc t r' t'
        assume it: "it \<in> set items" and I: "coherent view t \<and> view (world t) = view (world s)"
          and q: "queried_member E gid it acc t = (r', t')"
        have "stored_member view (world t) (GetS v) gid" if "map_of it ''ID'' = Some v" for v
          using members_found [OF assms coherentD(3) [OF coh] w [unfolded x(1)] it that] I
          by (simp add: stored_member_def)
        then show "coherent view t' \<and> view (world t') = view (world s)"
          using queried_member_coherent [OF assms _ _ q] I by simp
      qed (use coh1 view in \<open>simp add: s1_def\<close>)
      then have "coherent view (s2\<lparr>userByGroupCache := snd (mm_update_expiration gid n
          (userByGroupCache s2))\<rparr>)" for n
        by (simp add: coherent_def member_coherent_def cached_membership_def)
      with run False w x f \<open>coherent view s2 \<and> _\<close> show ?thesis
        by (cases us) (auto simp: listUsersByGroup_def Let_def call_def s1_def)
    next
      case none: False
      with run False w coh1 show ?thesis
        by (cases x) (auto simp: listUsersByGroup_def Let_def call_def s1_def)
    qed
  qed
qed


section \<open>Operations that leave accounts and memberships alone\<close>

text \<open>Every table but the users' one.\<close>

lemma other_tables:
  "groupTableName \<in> - {userTableName}" "clusterTableName \<in> - {userTableName}"
  "instanceTableName \<in> - {userTableName}" "secretTableName \<in> - {userTableName}"
  "volumeTableName \<in> - {userTableName}" "monCredTableName \<in> - {userTableName}"
  "{secretTableName, volumeTableName} \<subseteq> - {userTableName}"
  "{instanceTableName, secretTableName, volumeTableName, monCredTableName, clusterTableName}
     \<subseteq> - {userTableName}"
  by (simp_all add: userTableName_def groupTableName_def clusterTableName_def instanceTableName_def
      secretTableName_def volumeTableName_def monCredTableName_def)

lemmas coherent_rest = keeps_coherent_quiet [where T = "- {userTableName}", simplified]
lemmas coherent_restP = keepsP_coherent_quiet [where T = "- {userTableName}", simplified]

section \<open>Commands that write accounts\<close>

text \<open>
  While a command has only read so far, the table is the one that it started with:
  \<open>frozen view w\<close>.  A command \<open>settles\<close> when it leads from there to a coherent state.
\<close>

definition frozen :: "'w view \<Rightarrow> 'w \<Rightarrow> ('w, 'z) user_store_scheme \<Rightarrow> bool" where
  "frozen view w s \<longleftrightarrow> coherent view s \<and> view (world s) = view w"

definition settles :: "'w view \<Rightarrow> 'w \<Rightarrow> (('w, 'z) user_store_scheme, 'a) op \<Rightarrow> bool" where
  "settles view w m \<longleftrightarrow> triple (frozen view w) m (\<lambda>_. coherent view) (coherent view)"

lemma keeps_frozen:
  assumes "keeps (coherent view) m" and "\<And>s0. keeps (leaves view {} s0) m"
  shows "keeps (frozen view w) m"
proof (rule keepsI)
  fix s r s' assume "frozen view w s" and run: "m s = (r, s')"
  with keepsD [OF assms(1) _ run] keeps_leavesD [OF assms(2) run] show "frozen view w s'"
    by (simp add: frozen_def leaves_def fun_eq_iff)
qed

lemma settles_keeps: "(\<And>w. settles view w m) \<Longrightarrow> keeps (coherent view) m"
  by (rule keepsI)
    (auto simp: settles_def triple_def frozen_def split: sum.splits, metis (lifting) case_prod_conv sum.simps(5,6))

lemma settles_end: "keeps (coherent view) m \<Longrightarrow> settles view w m"
  unfolding settles_def by (erule triple_strengthen) (simp add: frozen_def)

lemma settles_bind:
  "keeps (frozen view w) m \<Longrightarrow> (\<And>a. settles view w (f a)) \<Longrightarrow> settles view w (bindM m f)"
  unfolding settles_def
  by (rule triple_bind [where R = "\<lambda>_. frozen view w"])
    (auto simp: keeps_def frozen_def elim: triple_weaken)

lemma settles_bind_result:
  "triple (frozen view w) m (\<lambda>a s. frozen view w s \<and> p a) (frozen view w) \<Longrightarrow>
     (\<And>a. p a \<Longrightarrow> settles view w (f a)) \<Longrightarrow> settles view w (bindM m f)"
  unfolding settles_def
  by (rule triple_bind [where R = "\<lambda>a s. frozen view w s \<and> p a"], erule triple_weaken, assumption, assumption,
      simp add: frozen_def, rule triple_pure, simp)

lemma settles_if:
  "(b \<Longrightarrow> settles view w m) \<Longrightarrow> (\<not> b \<Longrightarrow> settles view w m') \<Longrightarrow> settles view w (if b then m else m')"
  by simp

lemma settles_requester:
  assumes "served_by E view" and "\<And>user. settles view w (k user)"
  shows "settles view w (requester E req message k)"
  unfolding requester_def
  by (intro settles_bind settles_if settles_end keeps_frozen assms
      token_user_keeps token_user_leaves served_database keeps_ret)

lemma settles_checked:
  "(\<And>a. c = Pass a \<Longrightarrow> settles view w (k a)) \<Longrightarrow> settles view w (checked c k)"
  by (cases c) (auto intro!: settles_end keeps_ret keeps_throw)

text \<open>Reading a user gives the stored account, or none.\<close>

lemma frozen_getUser:
  assumes "served_by E view"
  shows "triple (frozen view w) (getUser E uid)
    (\<lambda>u s. frozen view w s \<and> (u_valid u \<longrightarrow> stored_user view w (u_id u) = Some u)) (frozen view w)"
proof -
  have keep: "keeps (frozen view w) (getUser E uid)"
    by (intro keeps_frozen getUser_keeps getUser_leaves served_database assms)
  show ?thesis
  proof (rule tripleI)
    fix s u and s' :: "('a, 'b) user_store_scheme"
    assume s: "frozen view w s" and run: "getUser E uid s = (Inr u, s')"
    have "stored_user view (world s) = stored_user view w"
      using s by (intro stored_user_cong) (simp add: frozen_def)
    moreover have "coherent view s" using s by (simp add: frozen_def)
    ultimately have "u_valid u \<longrightarrow> stored_user view w (u_id u) = Some u"
      using getUser_cases [OF served_rw [OF assms] coherentD(1) run]
      by (auto simp: no_user_def dest: stored_user_fields)
    with keepsD [OF keep s run] show "frozen view w s' \<and> (u_valid u \<longrightarrow> stored_user view w (u_id u) = Some u)"
      by blast
  qed (rule keepsD [OF keep])
qed

lemma settles_updateUser:
  fixes f :: "bool \<Rightarrow> (('w, 'z) user_store_scheme, 'r) op"
  assumes "served_by E view" and "u_valid u" and "stored_user view w (u_id u) = Some old"
    and "u_globusID old = u_globusID u" and "\<And>b. keeps (coherent view) (f b)"
  shows "settles view w (bindM (updateUser E u old) f)"
  unfolding settles_def
proof (rule triple_bind [where R = "\<lambda>_. coherent view"])
  have "coherent view s'" if s: "frozen view w s" and run: "updateUser E u old s = (r, s')"
    for s s' :: "('w, 'z) user_store_scheme" and r
  proof (rule updateUser_keeps [OF assms(1) _ assms(2) _ assms(4) run])
    show "coherent view s" using s by (simp add: frozen_def)
    show "stored_user view (world s) (u_id u) = Some old"
      using s assms(3) stored_user_cong [of view "world s" w] by (simp add: frozen_def)
  qed
  then show "triple (frozen view w) (updateUser E u old :: (('w, 'z) user_store_scheme, bool) op)
      (\<lambda>_. coherent view) (coherent view)"
    by (intro tripleI)
  show "triple (coherent view) (f b) (\<lambda>_. coherent view) (coherent view)" for b
    using assms(5) [of b] by (simp add: keeps_def)
qed

lemma unpacked_update_keeps_identity:
  "unpack_user_update doc user target = Pass u \<Longrightarrow>
     u_id u = u_id target \<and> u_globusID u = u_globusID target \<and> u_valid u = u_valid target \<and>
     u_token u = u_token target"
  by (auto simp: unpack_user_update_def bindC_def split: check.splits)

lemma do_updateUser_keeps:
  assumes "served_by E view"
  shows "keeps (coherent view) (do_updateUser E X req uID)"
proof (rule settles_keeps)
  fix w
  show "settles view w (do_updateUser E X req uID)"
    unfolding do_updateUser_def
    by (intro settles_requester settles_if settles_end keeps_ret assms
        settles_bind_result [OF frozen_getUser] settles_checked settles_updateUser)
      (auto dest!: unpacked_update_keeps_identity intro!: keeps)
qed

lemma do_replaceUserToken_keeps:
  assumes "served_by E view" and "services_apart X view"
  shows "keeps (coherent view) (do_replaceUserToken E X req uID)"
proof (rule settles_keeps)
  fix w
  have token: "keeps (frozen view w) (new_token X)"
    by (intro keeps_frozen coherent_rest keeps_quiet_leaves new_token_quiet assms(2))
  show "settles view w (do_replaceUserToken E X req uID)"
    unfolding do_replaceUserToken_def Let_def
    by (intro settles_requester settles_if settles_end keeps_ret assms(1)
        settles_bind_result [OF frozen_getUser] settles_bind [OF token] settles_updateUser)
      (auto intro!: keeps coherent_rest sendEmail_quiet assms(2))
qed

text \<open>
  A new account needs an ID that no account has.  That the generator does not hit on one that is
  taken cannot be proved; it is a premise of the steps of a server.
\<close>

definition fresh_ID :: "'w services \<Rightarrow> 'w view \<Rightarrow> 'w \<Rightarrow> bool" where
  "fresh_ID X view w \<longleftrightarrow> (\<forall>w'. view w' = view w \<longrightarrow>
     view w userTableName (entity_key (generateUserID (fst (x_random64 X w')))) = None)"

lemma settles_addUser:
  fixes f :: "bool \<Rightarrow> (('w, 'z) user_store_scheme, 'r) op"
  assumes "served_by E view" and "u_valid u" and "u_id u \<noteq> ''''"
    and "view w userTableName (entity_key (u_id u)) = None" and "\<And>b. keeps (coherent view) (f b)"
  shows "settles view w (bindM (addUser E u) f)"
  unfolding settles_def
proof (rule triple_bind [where R = "\<lambda>_. coherent view"])
  have "coherent view s'" if s: "frozen view w s" and run: "addUser E u s = (r, s')"
    for s s' :: "('w, 'z) user_store_scheme" and r
    using s assms(4) by (intro addUser_keeps [OF assms(1) _ assms(2,3) _ run]) (simp_all add: frozen_def)
  then show "triple (frozen view w) (addUser E u :: (('w, 'z) user_store_scheme, bool) op)
      (\<lambda>_. coherent view) (coherent view)"
    by (intro tripleI)
  show "triple (coherent view) (f b) (\<lambda>_. coherent view) (coherent view)" for b
    using assms(5) [of b] by (simp add: keeps_def)
qed

lemma new_user_ID:
  fixes w :: 'w
  assumes "services_apart X view" and "fresh_ID X view w"
  shows "triple (frozen view w) (new_id X generateUserID :: (('w, 'z) user_store_scheme, string) op)
    (\<lambda>uid s. frozen view w s \<and> uid \<noteq> '''' \<and> view w userTableName (entity_key uid) = None)
    (frozen view w)"
proof -
  have keep: "keeps (frozen view w) (new_id X generateUserID :: (('w, 'z) user_store_scheme, string) op)"
    by (intro keeps_frozen coherent_rest keeps_quiet_leaves new_id_quiet assms(1))
  show ?thesis
  proof (rule tripleI)
    fix s s' :: "('w, 'z) user_store_scheme" and uid
    assume s: "frozen view w s" and run: "new_id X generateUserID s = (Inr uid, s')"
    then have "uid = generateUserID (fst (x_random64 X (world s)))"
      by (auto simp: new_id_def bindM_def callM_def call_def ret_def split: prod.splits)
    with s assms(2) have "view w userTableName (entity_key uid) = None"
      by (simp add: fresh_ID_def frozen_def)
    moreover have "uid \<noteq> ''''"
      using \<open>uid = _\<close> by (simp add: generateUserID_def userIDPrefix_def)
    ultimately show "frozen view w s' \<and> uid \<noteq> '''' \<and> view w userTableName (entity_key uid) = None"
      using keepsD [OF keep s run] by blast
  qed (rule keepsD [OF keep])
qed

lemma unpacked_user_valid: "unpack_new_user doc = Pass u \<Longrightarrow> u_valid u"
  by (auto simp: unpack_new_user_def bindC_def split: check.splits)

lemma do_createUser_settles:
  fixes w :: 'w
  assumes "served_by E view" and "services_apart X view" and "fresh_ID X view w"
  shows "settles view w (do_createUser E X req :: (('w, 'z) user_store_scheme, response) op)"
proof -
  have token: "keeps (frozen view w) (new_token X :: (('w, 'z) user_store_scheme, string) op)"
    by (intro keeps_frozen coherent_rest keeps_quiet_leaves new_token_quiet assms(2))
  have known: "keeps (frozen view w) (findUserByGlobusID E g :: (('w, 'z) user_store_scheme, User) op)"
    for g
    by (intro keeps_frozen findUserByGlobusID_keeps findUserByGlobusID_leaves served_database assms(1))
  show ?thesis
    unfolding do_createUser_def Let_def
    by (intro settles_requester settles_if settles_end keeps_ret assms(1) settles_checked
        settles_bind_result [OF new_user_ID [OF assms(2,3)]] settles_bind [OF token]
        settles_bind [OF known] settles_addUser)
      (auto dest: unpacked_user_valid intro!: keeps)
qed

end
