(* ===== verification/Serving.thy ===== *)
theory Serving
  imports Confined Samples
begin

text \<open>
  What the service promises to those who send requests, whatever the command: nobody without a
  valid token gets past the first lines of a handler, ordinary users are kept from what is for
  administrators and from the accounts of others, and no command writes a table that is not its own.
\<close>

section \<open>A service in memory\<close>

text \<open>The services of the handlers, for the witnesses: nothing is random and mail is not set up.\<close>

text \<open>A file system that has nothing but takes everything, and a library that copies.\<close>

definition mem_files :: "'w filesystem" where
  "mem_files =
     \<lparr>fs_getcwd = (\<lambda>w. (Inr ''/'', w)), fs_readlink = (\<lambda>p w. (Inl ENOENT, w)),
      fs_stat = (\<lambda>p w. (None, w)), fs_mkdir = (\<lambda>p m w. (None, w)),
      fs_symlink = (\<lambda>t p w. (None, w)), fs_writeFile = (\<lambda>p d w. (True, w)),
      fs_readFile = (\<lambda>p w. (None, w)), fs_readdir = (\<lambda>p w. (None, w)),
      fs_unlink = (\<lambda>p w. (None, w)), fs_rmdir = (\<lambda>p w. (None, w)),
      fs_mkdtemp = (\<lambda>b w. (Inr b, w))\<rparr>"

definition mem_zlib :: "'w zlib" where
  "mem_zlib =
     \<lparr>z_inflateInit = (\<lambda>w. (Z_OK, w)),
      z_inflate = (\<lambda>b w. (\<lparr>zr_result = Z_STREAM_END, zr_used = length b, zr_output = b, zr_message = None\<rparr>, w)),
      z_deflateInit = (\<lambda>w. (Z_OK, w)),
      z_deflate = (\<lambda>b f w. (\<lparr>zr_result = Z_STREAM_END, zr_used = length b, zr_output = b, zr_message = None\<rparr>, w))\<rparr>"

definition mem_services :: "mem_world services" where
  "mem_services =
     \<lparr>x_random64 = (\<lambda>w. (42, mem_tick w)), x_timestamp = (\<lambda>w. (''2020-01-01 00:00:00 UTC'', w)),
      x_httpPostForm = (\<lambda>u f w. (Inr (200, ''''), mem_tick w)),
      x_runCommand = (\<lambda>p a v. mem_run p a),
      x_parse = (\<lambda>t. J_object [(''metadata'', J_object [(''name'', J_string t)])]),
      x_print = (\<lambda>d. case d of J_string s \<Rightarrow> s | _ \<Rightarrow> ''?''),
      x_mail = \<lparr>mailgunEndpoint = '''', mailgunKey = '''', emailDomain = '''', mail_valid = False\<rparr>,
      x_queryString = (\<lambda>u k. None), x_serverVersion = ''1'',
      x_opsEmail = '''', x_baseDomain = ''slateci.net'', x_dns = \<lparr>hostedZones = [], validServer = False\<rparr>,
      x_testDNSAnswer = (\<lambda>z n t w. (Inr [], w)), x_changeDNSRecords = (\<lambda>z cs w. (True, w)),
      x_httpGet = (\<lambda>u w. (Inr (404, ''''), w)), x_geocoder = \<lparr>serviceURL = '''', serviceAuthToken = ''''\<rparr>,
      x_doubles = \<lparr>d_print = (\<lambda>d. ''0''), d_to_string = (\<lambda>d. ''0.000000''),
        d_read = (\<lambda>t. if t = [] then None else Some (0, tl t)), d_of_int = of_int,
        d_mixed = (\<lambda>m r s. show_int m)\<rparr>,
      x_sleep = (\<lambda>n w. ((), w)), x_yaml = (\<lambda>d. ''yaml''),
      x_loadYaml = (\<lambda>t. Inr [Y_map [(Y_scalar ''Instance'', Y_scalar t)]]), x_emitYaml = (\<lambda>d. ''''),
      x_loadFirstYaml = (\<lambda>t. Inr Y_null),
      x_writeFile = (\<lambda>b t w. (Inr (b @ ''0'', True), w)), x_files = mem_files, x_zlib = mem_zlib,
      x_appLoggingServer = ('''', 9200)\<rparr>"

lemma mem_run_view [simp]: "mem_view (snd (mem_run p a w)) = mem_view w"
  by (intro ext) (auto simp: mem_run_def mem_view_def mem_tick_def split: list.split)

lemma mem_local_calls: "local_calls mem_env mem_view"
  by (simp add: local_calls_def mem_encrypt_def)

lemma mem_database: "database mem_env mem_view"
  by (simp add: database_def mem_rw mem_search mem_local_calls)

lemma mem_services_apart: "services_apart mem_services mem_view"
  by (simp add: services_apart_def files_apart_def zlib_apart_def mem_services_def mem_files_def mem_zlib_def)

section \<open>Tables\<close>

text \<open>
  C14: whatever a request asks for and however it ends, the command it is routed to changes no
  table except its own ones, which are those listed by \<open>writes_of\<close>.
\<close>

theorem execute_confined:
  assumes "database E view" and "services_apart X view"
    and "execute E X n ep req s = Some (r, s')" and "t \<notin> writes_of ep"
  shows "view (world s') t = view (world s) t"
proof -
  have "leaves view (writes_of ep) s s'"
    by (rule keepsPD [OF execute_confined_to_tables [OF assms(1,2)] leaves_refl assms(3)])
  with assms(4) show ?thesis by (simp add: leaves_def)
qed

definition sample_request :: request where
  "sample_request = \<lparr>req_params = (\<lambda>k. if k = ''token'' then Some ''T1'' else None), req_body = ''Bob''\<rparr>"

lemma sample_token_user:
  "token_user mem_env sample_request with_user = (Inr sample_user, count_hits 1 with_user)"
  by (simp add: token_user_def sample_request_def authenticateUser_def findUserByToken_def with_user_def
      addUser_def sample_store_def sample_defs sample_user_def cache_user_def userCacheValidity_def
      Let_def user_item_def)

lemma sample_update_runs:
  "\<exists>r s'. execute mem_env mem_services 0 (UpdateUser ''user_A'') sample_request with_user = Some (r, s')"
  by (simp add: whole_def)

text \<open>The request updates the account and leaves the table of groups alone.\<close>

theorem execute_confined_witness:
  "\<exists>r s'. execute mem_env mem_services 0 (UpdateUser ''user_A'') sample_request with_user = Some (r, s') \<and>
     mem_view (world s') groupTableName = mem_view (world with_user) groupTableName"
proof -
  obtain r s' where run: "execute mem_env mem_services 0 (UpdateUser ''user_A'') sample_request with_user
      = Some (r, s')" using sample_update_runs by blast
  have "groupTableName \<notin> writes_of (UpdateUser ''user_A'')"
    by (simp add: writes_of_def groupTableName_def userTableName_def)
  from run execute_confined [OF mem_database mem_services_apart run this] show ?thesis by blast
qed

section \<open>Strangers\<close>

text \<open>The commands that answer everybody: those about the server and about the catalogue.\<close>

fun open_command :: "endpoint \<Rightarrow> bool" where
  "open_command Statistics \<longleftrightarrow> True"
| "open_command ServerVersionInfo \<longleftrightarrow> True"
| "open_command UnsupportedVersion \<longleftrightarrow> True"
| "open_command ListApplications \<longleftrightarrow> True"
| "open_command (FetchApplicationConfig app) \<longleftrightarrow> True"
| "open_command (FetchApplicationDocumentation app) \<longleftrightarrow> True"
| "open_command (FetchApplicationVersions app) \<longleftrightarrow> True"
| "open_command _ \<longleftrightarrow> False"

lemma requester_stranger:
  assumes "token_user E req s = (Inr u, s1)" and "\<not> u_valid u"
  shows "requester E req message k s = (Inr (failure 403 message), s1)"
    and "requesterP E req message kP s = Some (Inr (failure 403 message), s1)"
  using assms by (simp_all add: requester_def requesterP_def bindM_def bindP_def whole_def ret_def)

lemma requester_user:
  assumes "token_user E req s = (Inr u, s1)" and "u_valid u"
  shows "requester E req message k s = k u s1"
    and "requesterP E req message kP s = kP u s1"
  using assms by (simp_all add: requester_def requesterP_def bindM_def bindP_def whole_def)

lemmas user_command_defs = do_listUsers_def do_createUser_def do_getUserInfo_def do_whoAreThey_def
  do_updateUser_def do_deleteUser_def do_listUsergroups_def do_addUserToGroup_def
  do_removeUserFromGroup_def do_findUser_def do_replaceUserToken_def

lemmas credential_command_defs = do_listMonitoringCredentials_def do_addMonitoringCredential_def
  do_revokeMonitoringCredential_def do_deleteMonitoringCredential_def

lemmas group_command_defs = do_listGroups_def do_createGroup_def do_getGroupInfo_def
  do_updateGroup_def do_listGroupMembers_def do_listGroupClusters_def

lemmas secret_command_defs = do_listSecrets_def do_createSecret_def do_deleteSecret_def do_getSecret_def

lemmas volume_command_defs = do_listVolumeClaims_def do_createVolumeClaim_def
  do_fetchVolumeClaimInfo_def do_deleteVolumeClaim_def

lemmas access_command_defs = do_listClusterAllowedgroups_def do_checkGroupClusterAccess_def
  do_grantGroupClusterAccess_def do_revokeGroupClusterAccess_def
  do_listClusterGroupAllowedApplications_def do_allowGroupUseOfApplication_def
  do_denyGroupUseOfApplication_def do_getClusterMonitoringCredential_def
  do_removeClusterMonitoringCredential_def

lemmas deletion_command_defs = do_pingCluster_def do_listApplicationInstances_def
  do_deleteApplicationInstance_def do_deleteCluster_def do_deleteGroup_def

lemmas cluster_command_defs = do_listClusters_def do_createCluster_def do_getClusterInfo_def
  do_updateCluster_def do_verifyCluster_def

lemmas application_command_defs = do_listApplications_def do_fetchApplicationConfig_def
  do_fetchApplicationDocumentation_def do_fetchApplicationVersions_def do_installApplication_def
  do_updateCatalog_def do_installAdHocApplication_def install_from_def install_chart_def

lemmas instance_command_defs = do_fetchApplicationInstanceInfo_def
  do_restartApplicationInstance_def do_getApplicationInstanceLogs_def
  do_getApplicationInstanceScale_def do_scaleApplicationInstance_def
  do_updateApplicationInstance_def

lemmas command_defs = user_command_defs credential_command_defs group_command_defs
  secret_command_defs volume_command_defs access_command_defs deletion_command_defs
  cluster_command_defs do_installApplication_def do_updateCatalog_def do_installAdHocApplication_def instance_command_defs
  with_own_instance_def

lemma execute_stranger:
  assumes "token_user E req s = (Inr u, s1)" and "\<not> u_valid u"
    and "\<not> open_command ep" and "ep \<noteq> Multiplex"
  shows "\<exists>message. execute E X n ep req s = Some (Inr (failure 403 message), s1)"
  using assms(3-) requester_stranger [OF assms(1,2)]
  by (cases ep; simp add: command_defs whole_def; blast)

lemma token_user_view:
  assumes "database E view" and "token_user E req s = (r, s')"
  shows "view (world s') = view (world s)"
proof -
  have "leaves view {} s s'"
    by (rule keepsD [OF token_user_leaves [OF assms(1)] leaves_refl assms(2)])
  then show ?thesis by (simp add: leaves_def fun_eq_iff)
qed

text \<open>
  A request whose token is missing or belongs to nobody is answered with status 403 by every
  command but the open ones, bundles of commands included, and leaves all tables as they
  are.
\<close>

theorem strangers_are_refused:
  assumes "database E view" and "token_user E req s = (Inr u, s1)" and "\<not> u_valid u"
    and "route m path = Some ep" and "\<not> open_command ep"
  shows "(\<exists>message. handle (Suc depth) E X n m path req s = Some (Inr (failure 403 message), s1)) \<and>
    view (world s1) = view (world s)"
proof -
  have "\<exists>message. (if ep = Multiplex then do_multiplex E X (handle depth E X n) req
      else execute E X n ep req) s = Some (Inr (failure 403 message), s1)"
    using execute_stranger [OF assms(2,3,5)] requester_stranger(2) [OF assms(2,3)]
    by (auto simp: do_multiplex_def)
  then show ?thesis
    using assms(4) token_user_view [OF assms(1,2)] by (auto simp: guarded_def)
qed

theorem strangers_are_refused_witness:
  "\<exists>message. handle (Suc 0) mem_env mem_services 0 Get ''/v1alpha3/users''
     \<lparr>req_params = Map.empty, req_body = ''''\<rparr> with_user = Some (Inr (failure 403 message), with_user)"
proof -
  have "token_user mem_env \<lparr>req_params = Map.empty, req_body = ''''\<rparr> with_user = (Inr no_user, with_user)"
    by (simp add: token_user_def authenticateUser_def)
  moreover have "route Get ''/v1alpha3/users'' = Some ListUsers"
    by (simp add: route_def routes_def api_def)
  ultimately show ?thesis
    by - (rule conjunct1 [OF strangers_are_refused [OF mem_database]], assumption,
      simp add: no_user_def, assumption, simp_all)
qed

section \<open>Ordinary users\<close>

fun admin_command :: "endpoint \<Rightarrow> bool" where
  "admin_command CreateUser \<longleftrightarrow> True"
| "admin_command FindUser \<longleftrightarrow> True"
| "admin_command ListMonitoringCredentials \<longleftrightarrow> True"
| "admin_command AddMonitoringCredential \<longleftrightarrow> True"
| "admin_command (RevokeMonitoringCredential i) \<longleftrightarrow> True"
| "admin_command (DeleteMonitoringCredential i) \<longleftrightarrow> True"
| "admin_command _ \<longleftrightarrow> False"

text \<open>The account that a command about one account is about.\<close>

fun account_of :: "endpoint \<Rightarrow> string option" where
  "account_of (GetUserInfo uID) = Some uID"
| "account_of (UpdateUser uID) = Some uID"
| "account_of (DeleteUser uID) = Some uID"
| "account_of (ReplaceUserToken uID) = Some uID"
| "account_of _ = None"

text \<open>
  A user who is no administrator is answered with status 403 by the commands for
  administrators and by the commands that read, update, delete or give a new token to an account
  that is not the user's own; no table changes, whatever the body of the request.
\<close>

theorem ordinary_users_are_refused:
  assumes "database E view" and "token_user E req s = (Inr u, s1)" and "u_valid u" and "\<not> u_admin u"
    and "route m path = Some ep"
    and "admin_command ep \<or> (\<exists>uID. account_of ep = Some uID \<and> uID \<noteq> u_id u)"
  shows "(\<exists>message. handle (Suc depth) E X n m path req s = Some (Inr (failure 403 message), s1)) \<and>
    view (world s1) = view (world s)"
proof -
  have "ep \<noteq> Multiplex" using assms(6) by auto
  moreover have "\<exists>message. execute E X n ep req s = Some (Inr (failure 403 message), s1)"
    using assms(4,6) requester_user [OF assms(2,3)]
    by (cases ep) (auto simp: user_command_defs credential_command_defs whole_def ret_def)
  ultimately show ?thesis
    using assms(5) token_user_view [OF assms(1,2)] by (auto simp: guarded_def)
qed

theorem ordinary_users_are_refused_witness:
  "\<exists>message. handle (Suc 0) mem_env mem_services 0 Delete ''/v1alpha3/users/user_B'' sample_request with_user =
     Some (Inr (failure 403 message), count_hits 1 with_user)"
proof -
  have "route Delete ''/v1alpha3/users/user_B'' = Some (DeleteUser ''user_B'')"
    by (simp add: route_def routes_def api_def arg_def)
  then show ?thesis
    by - (rule conjunct1 [OF ordinary_users_are_refused [OF mem_database sample_token_user]],
      simp add: sample_user_def, simp add: sample_user_def, assumption, simp add: sample_user_def)
qed

section \<open>Requests that read\<close>

lemma route_among_in:
  "route_among rs m segments = Some ep \<Longrightarrow> \<exists>ps f args. (m, ps, f) \<in> set rs \<and> ep = f args"
  by (induction rs) (fastforce split: if_splits option.splits)+

lemma get_routes:
  assumes "route Get path = Some ep"
  shows "ep \<noteq> Multiplex \<and> (writes_of ep = {} \<or> (\<exists>uID. ep = ReplaceUserToken uID) \<or>
    (\<exists>cID. ep = GetClusterMonitoringCredential cID))"
proof -
  obtain segments where "route_among routes Get segments = Some ep"
    using assms by (auto simp: route_def split: list.splits if_splits)
  then obtain ps f args where "(Get, ps, f) \<in> set routes" and "ep = f args"
    using route_among_in by blast
  then show ?thesis by (auto simp: routes_def writes_of_def)
qed



end
