(* ===== verification/Served.thy ===== *)
theory Served
  imports Coherence Serving
begin

text \<open>
  The states of a server that answers requests.  A step is the execution of a command (alone, or
  as a part of a bundle), for whoever asks and however it ends; every reachable state is
  coherent, so what a request is told about accounts and memberships is what the database holds.
\<close>

text \<open>The commands that write the record of an account.\<close>

fun writes_account :: "endpoint \<Rightarrow> bool" where
  "writes_account CreateUser \<longleftrightarrow> True"
| "writes_account (UpdateUser uID) \<longleftrightarrow> True"
| "writes_account (ReplaceUserToken uID) \<longleftrightarrow> True"
| "writes_account ep \<longleftrightarrow> False"

section \<open>Invariants of the service\<close>

text \<open>
  What is to be shown of a property of the state, so that every command keeps it: the operations
  on the users table keep it, and so does everything that leaves that table and its caches
  alone.  The three commands that write account records need more and are left to each
  invariant.
\<close>

locale kept_invariant =
  fixes I :: "'w view \<Rightarrow> ('w, 'z) persistent_store_scheme \<Rightarrow> bool"
  assumes quiet_kept: "served_by E view \<Longrightarrow> I view s \<Longrightarrow> quiet view (- {userTableName}) s s' \<Longrightarrow> I view s'"
    and getUser_kept: "served_by E view \<Longrightarrow> keeps (I view) (getUser E uid)"
    and findUserByToken_kept: "served_by E view \<Longrightarrow> keeps (I view) (findUserByToken E t)"
    and findUserByGlobusID_kept: "served_by E view \<Longrightarrow> keeps (I view) (findUserByGlobusID E g)"
    and listUsers_kept: "served_by E view \<Longrightarrow> keepsP (I view) (listUsers E n)"
    and listUsersByGroup_kept: "served_by E view \<Longrightarrow> keeps (I view) (listUsersByGroup E gid)"
    and removeUser_kept: "served_by E view \<Longrightarrow> keeps (I view) (removeUser E uid)"
    and userInGroup_kept: "served_by E view \<Longrightarrow> keeps (I view) (userInGroup E uid gid)"
    and addUserToGroup_kept: "served_by E view \<Longrightarrow> keeps (I view) (addUserToGroup E uid gid)"
    and removeUserFromGroup_kept: "served_by E view \<Longrightarrow> keeps (I view) (removeUserFromGroup E uid gid)"
    and removeGroup_kept: "served_by E view \<Longrightarrow> keeps (I view) (removeGroup E gid)"
begin

lemma rest_kept:
  assumes "served_by E view" and "\<And>s0. keeps (quiet view (- {userTableName}) s0) m"
  shows "keeps (I view) m"
  by (rule keeps_of_quiet [OF assms(2)], rule quiet_kept [OF assms(1)])

lemma rest_keptP:
  assumes "served_by E view" and "\<And>s0. keepsP (quiet view (- {userTableName}) s0) m"
  shows "keepsP (I view) m"
  by (rule keepsPI, rule quiet_kept [OF assms(1)], assumption, rule keepsP_quietD [OF assms(2)])

lemma token_user_kept: "served_by E view \<Longrightarrow> keeps (I view) (token_user E req)"
  unfolding token_user_def authenticateUser_def
  by (rule keepsI) (auto split: option.splits dest: keepsD [OF findUserByToken_kept])

lemmas lookups = token_user_kept getUser_kept findUserByGlobusID_kept listUsers_kept
  listUsersByGroup_kept removeUser_kept userInGroup_kept addUserToGroup_kept
  removeUserFromGroup_kept removeGroup_kept

lemma user_commands_kept:
  assumes "served_by E view" and "services_apart X view"
  shows "keepsP (I view) (do_listUsers E n req)"
    and "keeps (I view) (do_getUserInfo E req uID)"
    and "keeps (I view) (do_whoAreThey E req)"
    and "keeps (I view) (do_deleteUser E X req uID)"
    and "keeps (I view) (do_listUsergroups E req uID)"
    and "keeps (I view) (do_addUserToGroup E req uID gID)"
    and "keeps (I view) (do_removeUserFromGroup E req uID gID)"
    and "keeps (I view) (do_findUser E req)"
  unfolding user_command_defs
  by (intro keeps lookups assms |
      (rule rest_kept rest_keptP, rule assms, intro keeps assms served_database [OF assms(1)] other_tables))+

lemma credential_commands_kept:
  assumes "served_by E view"
  shows "keepsP (I view) (do_listMonitoringCredentials E n req)"
    and "keeps (I view) (do_addMonitoringCredential E X req)"
    and "keeps (I view) (do_revokeMonitoringCredential E req i)"
    and "keeps (I view) (do_deleteMonitoringCredential E req i)"
  unfolding credential_command_defs
  by (intro keeps lookups assms |
      (rule rest_kept rest_keptP, rule assms, intro keeps assms served_database [OF assms(1)] other_tables))+

lemma group_commands_kept:
  assumes "served_by E view" and "services_apart X view"
  shows "keepsP (I view) (do_listGroups E n req)"
    and "keeps (I view) (do_createGroup E X req)"
    and "keeps (I view) (do_getGroupInfo E req i)"
    and "keeps (I view) (do_updateGroup E X req i)"
    and "keeps (I view) (do_listGroupMembers E req i)"
    and "keeps (I view) (do_listGroupClusters E req i)"
  unfolding group_command_defs
  by (intro keeps lookups assms |
      (rule rest_kept rest_keptP, rule assms, intro keeps assms served_database [OF assms(1)] other_tables))+

lemma may_use_cluster_kept [keeps]:
  "served_by E view \<Longrightarrow> keeps (I view) (may_use_cluster E g c)"
  unfolding may_use_cluster_def by (rule rest_kept, assumption, intro keeps served_database)

lemma secret_payload_kept [keeps]:
  assumes "served_by E view" and "\<And>enc doc. keeps (I view) (k enc doc)"
  shows "keeps (I view) (secret_payload E X user doc k)"
  unfolding secret_payload_def
  by (intro keeps lookups assms |
      (rule rest_kept rest_keptP, rule assms, intro keeps assms served_database [OF assms(1)] other_tables))+

lemma secret_commands_kept:
  assumes "served_by E view" and "services_apart X view"
  shows "keeps (I view) (do_listSecrets E req)"
    and "keeps (I view) (do_createSecret E X req)"
    and "keeps (I view) (do_deleteSecret E req i)"
    and "keeps (I view) (do_getSecret E X req i)"
  unfolding secret_command_defs
  by (intro keeps lookups assms |
      (rule rest_kept rest_keptP, rule assms, intro keeps assms served_database [OF assms(1)] other_tables))+

lemma volume_commands_kept:
  assumes "served_by E view" and "services_apart X view"
  shows "keepsP (I view) (do_listVolumeClaims E X n req)"
    and "keeps (I view) (do_createVolumeClaim E X req)"
    and "keeps (I view) (do_fetchVolumeClaimInfo E X req i)"
    and "keeps (I view) (do_deleteVolumeClaim E X req i)"
  unfolding volume_command_defs
  by (intro keeps lookups assms |
      (rule rest_kept rest_keptP, rule assms, intro keeps assms served_database [OF assms(1)] other_tables))+

lemma may_manage_kept [keeps]:
  "served_by E view \<Longrightarrow> keeps (I view) (may_manage E user c)"
  unfolding may_manage_def by (intro keeps lookups)

lemma access_commands_kept:
  assumes "served_by E view" and "services_apart X view"
  shows "keeps (I view) (do_listClusterAllowedgroups E req c)"
    and "keeps (I view) (do_checkGroupClusterAccess E req c g)"
    and "keeps (I view) (do_grantGroupClusterAccess E req c g)"
    and "keeps (I view) (do_revokeGroupClusterAccess E req c g)"
    and "keeps (I view) (do_listClusterGroupAllowedApplications E req c g)"
    and "keeps (I view) (do_allowGroupUseOfApplication E req c g a)"
    and "keeps (I view) (do_denyGroupUseOfApplication E req c g a)"
    and "keepsP (I view) (do_getClusterMonitoringCredential E X n req c)"
    and "keeps (I view) (do_removeClusterMonitoringCredential E req c)"
  unfolding access_command_defs
  by (intro keeps lookups assms |
      (rule rest_kept rest_keptP, rule assms, intro keeps assms served_database [OF assms(1)] other_tables))+

lemma do_pingCluster_kept:
  assumes "served_by E view"
  shows "keeps (I view) (do_pingCluster E req c)"
proof -
  have quiet: "keeps (quiet view T s0) (bindM (if b then ret r else check_reachability E c') (\<lambda>reachable.
      ret (f reachable)))"
    for b r c' T and f :: "bool \<Rightarrow> response" and s0 :: "('w, 'z) persistent_store_scheme"
    by (intro keeps served_database assms)
  have answer: "keeps (I view) (\<lambda>s :: ('w, 'z) persistent_store_scheme. bindM (if b s then ret r
      else check_reachability E c') (\<lambda>reachable. ret (f reachable)) s)"
    for b r c' and f :: "bool \<Rightarrow> response"
    by (rule rest_kept [OF assms], rule keeps_quietI, rule keeps_quietD [OF quiet])
  show ?thesis
    unfolding do_pingCluster_def
    by (intro keeps lookups answer assms | (rule rest_kept [OF assms], intro keeps served_database [OF assms]))+
qed

lemma deletion_commands_kept:
  assumes "served_by E view" and "services_apart X view"
  shows "keepsP (I view) (do_listApplicationInstances E n req)"
    and "keeps (I view) (do_deleteApplicationInstance E X req i)"
    and "keepsP (I view) (do_deleteCluster E X n req c)"
    and "keepsP (I view) (do_deleteGroup E X n req g)"
  unfolding do_listApplicationInstances_def do_deleteApplicationInstance_def do_deleteCluster_def
    do_deleteGroup_def
  by (intro keeps lookups assms |
      (rule rest_kept rest_keptP, rule assms, intro keeps assms served_database [OF assms(1)] other_tables))+

lemma cluster_commands_kept:
  assumes "served_by E view" and "services_apart X view"
  shows "keepsP (I view) (do_listClusters E X n req)"
    and "keeps (I view) (do_createCluster E X req)"
    and "keeps (I view) (do_getClusterInfo E X req c)"
    and "keeps (I view) (do_updateCluster E X req c)"
    and "keeps (I view) (do_verifyCluster E X req c)"
  unfolding cluster_command_defs
  by (intro keeps lookups assms |
      (rule rest_kept rest_keptP, rule assms, intro keeps assms served_database [OF assms(1)] other_tables))+

lemma application_commands_kept:
  assumes "served_by E view" and "services_apart X view"
  shows "keeps (I view) (do_listApplications E req)"
    and "keeps (I view) (do_fetchApplicationConfig E req app)"
    and "keeps (I view) (do_fetchApplicationDocumentation E req app)"
    and "keeps (I view) (do_fetchApplicationVersions E X req app)"
    and "keeps (I view) (do_installApplication E X req app)"
    and "keeps (I view) (do_updateCatalog E req)"
    and "keepsP (I view) (do_installAdHocApplication n E X req)"
  unfolding application_command_defs
  by (intro keeps lookups assms |
      (rule rest_kept rest_keptP, rule assms, intro keeps assms served_database [OF assms(1)] other_tables))+

lemma instance_commands_kept:
  assumes "served_by E view" and "services_apart X view"
  shows "keeps (I view) (do_fetchApplicationInstanceInfo E X req i)"
    and "keeps (I view) (do_restartApplicationInstance E X req i)"
    and "keeps (I view) (do_getApplicationInstanceLogs E X req i)"
    and "keeps (I view) (do_getApplicationInstanceScale E X req i)"
    and "keeps (I view) (do_scaleApplicationInstance E X req i)"
    and "keeps (I view) (do_updateApplicationInstance E X req i)"
  unfolding instance_command_defs
  by (intro keeps lookups assms |
      (rule rest_kept rest_keptP, rule assms, intro keeps assms served_database [OF assms(1)] other_tables))+

lemma do_statistics_kept: "keeps (I view) do_statistics"
  by (rule keepsI) (simp add: do_statistics_def)

lemma execute_kept:
  assumes "served_by E view" and "services_apart X view" and "\<not> writes_account ep"
  shows "keepsP (I view) (execute E X n ep req)"
  using assms(3)
  by (cases ep; simp add: do_serverVersionInfo_def;
      intro keeps do_statistics_kept user_commands_kept [OF assms(1,2)]
        credential_commands_kept [OF assms(1)] group_commands_kept [OF assms(1,2)]
        secret_commands_kept [OF assms(1,2)] volume_commands_kept [OF assms(1,2)]
        access_commands_kept [OF assms(1,2)] do_pingCluster_kept [OF assms(1)]
        deletion_commands_kept [OF assms(1,2)] cluster_commands_kept [OF assms(1,2)]
        application_commands_kept [OF assms(1,2)] instance_commands_kept [OF assms(1,2)])

end

section \<open>Coherence\<close>

interpretation coherence: kept_invariant coherent
proof unfold_locales
  show "coherent view s \<Longrightarrow> quiet view (- {userTableName}) s s' \<Longrightarrow> coherent view s'"
    for view :: "'w view" and s s' :: "('w, 'z) persistent_store_scheme"
    by (erule coherent_quiet, assumption) (simp only: Compl_iff singleton_iff simp_thms)
qed (intro keeps; assumption)+

lemma execute_coherent:
  assumes "served_by E view" and "services_apart X view" and "coherent view s"
    and "ep = CreateUser \<longrightarrow> fresh_ID X view (world s)"
    and run: "execute E X n ep req s = Some (r, s')"
  shows "coherent view s'"
proof (cases "ep = CreateUser")
  case True
  have "frozen view (world s) s" using assms(3) by (simp add: frozen_def)
  moreover have "settles view (world s) (do_createUser E X req)"
    using assms(4) True by (intro do_createUser_settles assms) simp
  ultimately show ?thesis
    using run True by (cases r) (auto simp: whole_def settles_def dest: tripleD)
next
  case False
  have "keepsP (coherent view) (execute E X n ep req)"
  proof (cases "writes_account ep")
    case True
    with False show ?thesis
      by (cases ep; simp; intro keeps do_updateUser_keeps do_replaceUserToken_keeps assms(1,2))
  qed (rule coherence.execute_kept [OF assms(1,2)])
  from keepsPD [OF this assms(3) run] show ?thesis .
qed

section \<open>Accounts under commands that do not write them\<close>

text \<open>All accounts are as \<open>P\<close> says; it may leave some IDs without an account.\<close>

definition accounts_all ::
  "(string \<Rightarrow> User \<Rightarrow> bool) \<Rightarrow> 'w view \<Rightarrow> ('w, 'z) user_store_scheme \<Rightarrow> bool" where
  "accounts_all P view s \<longleftrightarrow> coherent view s \<and> (\<forall>uid u. stored_user view (world s) uid = Some u \<longrightarrow> P uid u)"

lemma accounts_allD: "accounts_all P view s \<Longrightarrow> coherent view s"
  by (simp add: accounts_all_def)

lemma accounts_all_cong:
  assumes "accounts_all P view s" and "coherent view s'"
    and "view (world s') userTableName = view (world s) userTableName"
  shows "accounts_all P view s'"
proof -
  have "stored_user view (world s') = stored_user view (world s)"
    by (rule stored_user_cong) (rule assms(3))
  with assms(1,2) show ?thesis by (simp add: accounts_all_def)
qed

lemma accounts_all_quiet:
  assumes "accounts_all P view s" and "quiet view (- {userTableName}) s s'"
  shows "accounts_all P view s'"
proof (rule accounts_all_cong [OF assms(1) coherent_quiet [OF accounts_allD [OF assms(1)] assms(2)]])
  show "view (world s') userTableName = view (world s) userTableName"
    using assms(2) by (simp add: quiet_def leaves_def)
qed simp

lemma accounts_all_reads:
  assumes "keeps (coherent view) m" and "\<And>s0. keeps (leaves view {} s0) m"
  shows "keeps (accounts_all P view) m"
proof (rule keepsI)
  fix s r s' assume s: "accounts_all P view s" and run: "m s = (r, s')"
  show "accounts_all P view s'"
    using keeps_leavesD [OF assms(2) run] keepsD [OF assms(1) accounts_allD [OF s] run]
    by (intro accounts_all_cong [OF s]) (simp_all add: leaves_def)
qed

lemma accounts_all_readsP:
  assumes "keepsP (coherent view) m" and "\<And>s0. keepsP (leaves view {} s0) m"
  shows "keepsP (accounts_all P view) m"
proof (rule keepsPI)
  fix s r s' assume s: "accounts_all P view s" and run: "m s = Some (r, s')"
  show "accounts_all P view s'"
    using keepsP_leavesD [OF assms(2) run] keepsPD [OF assms(1) accounts_allD [OF s] run]
    by (intro accounts_all_cong [OF s]) (simp_all add: leaves_def)
qed

lemma accounts_all_rest:
  "(\<And>s0. keeps (quiet view (- {userTableName}) s0) m) \<Longrightarrow> keeps (accounts_all P view) m"
  by (rule keeps_of_quiet) (auto intro: accounts_all_quiet)

text \<open>The rows of memberships are not rows of accounts.\<close>

lemma stored_user_membership_row:
  assumes "view w' = (view w)(userTableName :=
      (view w userTableName)(row_key uid (membership_sortKey uid gid) := v))"
  shows "stored_user view w' = stored_user view w"
  by (rule ext) (auto simp: stored_user_def assms)

lemma put_membership_accounts:
  assumes "served_by E view"
  shows "keeps (accounts_all P view) (put_membership E uid gid g u)"
proof (rule keepsI)
  fix s s' :: "('a, 'b) group_store_scheme" and r
  assume s: "accounts_all P view s" and run: "put_membership E uid gid g u s = (r, s')"
  have "stored_user view (world s') = stored_user view (world s)"
    using run
    by (auto simp: put_membership_def call_def dest!: dynamo_putD [OF served_rw [OF assms]]
        intro: stored_user_membership_row stored_user_cong split: prod.splits sum.splits)
  with s keepsD [OF put_membership_keeps [OF assms] accounts_allD [OF s] run]
  show "accounts_all P view s'" by (simp add: accounts_all_def)
qed

lemma delete_membership_accounts:
  assumes "served_by E view"
  shows "keeps (accounts_all P view) (delete_membership E uid gid)"
proof (rule keepsI)
  fix s s' :: "('a, 'b) group_store_scheme" and r
  assume s: "accounts_all P view s" and run: "delete_membership E uid gid s = (r, s')"
  have "stored_user view (world s') = stored_user view (world s)"
    using run
    by (auto simp: delete_membership_def call_def dest!: dynamo_deleteD [OF served_rw [OF assms]]
        intro: stored_user_membership_row stored_user_cong split: prod.splits sum.splits)
  with s keepsD [OF delete_membership_keeps [OF assms] accounts_allD [OF s] run]
  show "accounts_all P view s'" by (simp add: accounts_all_def)
qed

lemma addUserToGroup_accounts:
  assumes "served_by E view"
  shows "keeps (accounts_all P view) (addUserToGroup E uid gid)"
proof -
  note db = served_database [OF assms]
  have get: "keeps (accounts_all P view) (getUser E uid :: (('a, 'b) group_store_scheme, _) op)"
    by (intro accounts_all_reads keeps assms db)
  show ?thesis
    unfolding addUserToGroup_def
    by (intro keeps get put_membership_accounts assms | rule accounts_all_rest, intro keeps db)+
qed

lemma removeUserFromGroup_accounts:
  assumes "served_by E view"
  shows "keeps (accounts_all P view) (removeUserFromGroup E uid gid)"
  unfolding removeUserFromGroup_def delete_membership_def [symmetric]
  by (intro keeps delete_membership_accounts assms |
      rule accounts_all_rest, intro keeps served_database [OF assms])+

lemma removeGroup_accounts:
  assumes "served_by E view"
  shows "keeps (accounts_all P view) (removeGroup E gid)"
proof -
  note db = served_database [OF assms]
  have members: "keeps (accounts_all P view) (remove_members E gid uids :: (('a, 'b) group_store_scheme, bool) op)"
    for uids
  proof (rule keepsI)
    fix s s' :: "('a, 'b) group_store_scheme" and r
    assume "accounts_all P view s" and "remove_members E gid uids s = (r, s')"
    then show "accounts_all P view s'"
    proof (induction uids arbitrary: s)
      case (Cons uid uids)
      from Cons.prems show ?case
        by (auto dest: keepsD [OF removeUserFromGroup_accounts [OF assms]] Cons.IH
            split: prod.splits sum.splits bool.splits)
    qed simp
  qed
  have mono: "quiet view (- {userTableName}) s s'" if "quiet view {groupTableName} s s'"
    for s s' :: "('a, 'b) group_store_scheme"
    using that by (simp add: quiet_def leaves_def groupTableName_def userTableName_def)
  have "keeps (accounts_all P view) (delete_group_record E gid :: (('a, 'b) group_store_scheme, bool) op)"
  proof (rule accounts_all_rest, rule keeps_quietI, rule mono)
    show "delete_group_record E gid s = (r, s') \<Longrightarrow> quiet view {groupTableName} s s'"
      for s s' :: "('a, 'b) group_store_scheme" and r
      by (auto simp: delete_group_record_def dest!: calls_quiet(6) [OF db _ _ quiet_refl]
        split: prod.splits sum.splits)
  qed
  moreover have "keeps (accounts_all P view) (getMembersOfGroup E gid :: (('a, 'b) group_store_scheme, _) op)"
    by (rule accounts_all_rest) (intro keeps db)
  ultimately show ?thesis
    unfolding removeGroup_def by (intro keeps members)
qed

lemma removeUser_accounts:
  assumes "served_by E view"
  shows "keeps (accounts_all P view) (removeUser E uid)"
proof (rule keepsI)
  fix s s' :: "('a, 'b) user_store_scheme" and r
  assume s: "accounts_all P view s" and run: "removeUser E uid s = (r, s')"
  have coh: "coherent view s'" by (rule keepsD [OF removeUser_keeps [OF assms] accounts_allD [OF s] run])
  from removeUser_stored [OF served_rw [OF assms] run]
  consider "stored_user view (world s') = (stored_user view (world s))(uid := None)" |
    "view (world s') = view (world s)" by blast
  then show "accounts_all P view s'"
  proof cases
    case 1
    with s coh show ?thesis by (simp add: accounts_all_def)
  next
    case 2
    then show ?thesis by (intro accounts_all_cong [OF s coh]) simp
  qed
qed

interpretation accounts: kept_invariant "\<lambda>view. accounts_all P view"
proof unfold_locales
  fix E :: "'a env" and view :: "'a view" and s s' :: "('a, 'b) persistent_store_scheme" and uid gid t g n
  show "served_by E view \<Longrightarrow> accounts_all P view s \<Longrightarrow> quiet view (- {userTableName}) s s' \<Longrightarrow>
      accounts_all P view s'"
    by (rule accounts_all_quiet)
  assume E: "served_by E view"
  note db = served_database [OF E]
  show "keeps (accounts_all P view) (getUser E uid :: (('a, 'b) persistent_store_scheme, _) op)"
    and "keeps (accounts_all P view) (findUserByToken E t :: (('a, 'b) persistent_store_scheme, _) op)"
    and "keeps (accounts_all P view) (findUserByGlobusID E g :: (('a, 'b) persistent_store_scheme, _) op)"
    and "keeps (accounts_all P view) (listUsersByGroup E gid :: (('a, 'b) persistent_store_scheme, _) op)"
    and "keeps (accounts_all P view) (userInGroup E uid gid :: (('a, 'b) persistent_store_scheme, _) op)"
    by (rule accounts_all_reads; intro keeps E db)+
  show "keepsP (accounts_all P view) (listUsers E n :: ('a, 'b) persistent_store_scheme \<Rightarrow> _)"
    by (rule accounts_all_readsP; intro keeps E db)
qed (intro removeUser_accounts addUserToGroup_accounts removeUserFromGroup_accounts
    removeGroup_accounts; assumption)+

section \<open>The states of a server\<close>

text \<open>
  A server starts with empty caches on whatever accounts and memberships the database holds.  It
  looks up who is asking, executes commands, and waits while others work on the world.
\<close>

inductive served ::
  "'w env \<Rightarrow> 'w services \<Rightarrow> 'w view \<Rightarrow> 'w persistent_store \<Rightarrow> bool" for E X view where
  start: "account_rows view w \<Longrightarrow> member_rows view w \<Longrightarrow> served E X view (new_store E d w)"
| asked: "served E X view s \<Longrightarrow> token_user E req s = (r, s') \<Longrightarrow> served E X view s'"
| command: "served E X view s \<Longrightarrow> (ep = CreateUser \<longrightarrow> fresh_ID X view (world s)) \<Longrightarrow>
     execute E X n ep req s = Some (r, s') \<Longrightarrow> served E X view s'"
| waiting: "served E X view s \<Longrightarrow> view w = view (world s) \<Longrightarrow> served E X view (s\<lparr>world := w\<rparr>)"

lemma served_coherent:
  assumes "served E X view s" and "served_by E view" and "services_apart X view"
  shows "coherent view s"
  using assms(1)
proof (induction rule: served.induct)
  case (start w d)
  then show ?case
    by (auto simp: coherent_def member_coherent_def cached_membership_def mm_find_value_def
        intro!: user_reachable_coherent user_reachable.start served_users assms)
next
  case (asked s req r s')
  show ?case by (rule keepsD [OF token_user_keeps [OF assms(2)] asked(3,2)])
next
  case (command s ep n req r s')
  show ?case by (rule execute_coherent [OF assms(2,3) command(4,2,3)])
next
  case (waiting s w)
  show ?case by (rule coherent_quiet [OF waiting(3), where T = "{}"])
    (use waiting(2) in \<open>simp_all add: quiet_def leaves_def same_users_def\<close>)
qed

end
