(* ===== verification/Promises.thy ===== *)
theory Promises
  imports Served EntityCaches
begin

text \<open>
  What a server promises from the first request on, about who may do what.  The statements are
  about states of a running server and about what the database holds, whatever the caches say.
\<close>

section \<open>A server with an account, a group and a secret\<close>

definition stocked :: mem_world where
  "stocked = mem_start\<lparr>mw_rows :=
     [((userTableName, entity_key ''user_A''), user_item sample_user),
      ((userTableName, row_key ''user_A'' (membership_sortKey ''user_A'' ''group_B'')),
        membership_item ''user_A'' ''group_B''),
      ((secretTableName, entity_key ''secret_D''), secret_item sample_secret)]\<rparr>"

definition fresh_server :: "mem_world persistent_store" where
  "fresh_server = new_store mem_env ''/var/tmp/slate'' stocked"

lemma mem_served_by: "served_by mem_env mem_view"
  by (simp add: served_by_def mem_database user_indices_def mem_index)

lemma fresh_server_served: "served mem_env mem_services mem_view fresh_server"
  unfolding fresh_server_def
proof (rule served.start)
  show "account_rows mem_view stocked" "member_rows mem_view stocked"
    by (auto simp: account_rows_def member_rows_def stocked_def mem_view_def user_item_def sample_user_def
        secret_item_def membership_item_def userTableName_def secretTableName_def split: if_splits)
qed

lemma tables_apart [simp]: "secretTableName \<noteq> userTableName" "userTableName \<noteq> secretTableName"
  by (simp_all add: secretTableName_def userTableName_def)

definition warm_server :: "mem_world persistent_store" where
  "warm_server = snd (token_user mem_env sample_request fresh_server)"

lemma fresh_server_token:
  "token_user mem_env sample_request fresh_server = (Inr sample_user, warm_server)"
proof -
  have "fst (token_user mem_env sample_request fresh_server) = Inr sample_user"
    by (simp add: token_user_def sample_request_def authenticateUser_def findUserByToken_def
        fresh_server_def sample_defs sample_user_def user_item_def stocked_def membership_item_def
        user_of_token_item_def Let_def)
  then show ?thesis unfolding warm_server_def by (metis prod.collapse)
qed

lemmas warm_defs = warm_server_def token_user_def sample_request_def authenticateUser_def findUserByToken_def
  fresh_server_def sample_defs sample_user_def user_item_def stocked_def membership_item_def
  user_of_token_item_def Let_def cache_user_def userCacheValidity_def

definition read_server :: "mem_world persistent_store" where
  "read_server = snd (getSecret mem_env ''secret_D'' warm_server)"

lemma read_server_read: "getSecret mem_env ''secret_D'' warm_server = (Inr sample_secret, read_server)"
proof -
  have "fst (getSecret mem_env ''secret_D'' warm_server) = Inr sample_secret"
    by (simp add: getSecret_def warm_defs secret_item_def sample_secret_def secret_of_ID_item_def)
  then show ?thesis unfolding read_server_def by (metis prod.collapse)
qed

lemma read_server_member: "\<exists>s'. userInGroup mem_env ''user_A'' ''group_B'' read_server = (Inr True, s') \<and>
    mw_rows (world s') = mw_rows stocked \<and> mw_failures (world s') = [] \<and> groupCache s' = [] \<and>
    clusterCache s' = []"
  by (simp add: userInGroup_ID [OF sample_group_ID] check_membership_def read_server_def warm_defs
      getSecret_def membership_cached_iff cached_membership_def secret_item_def sample_secret_def
      secret_of_ID_item_def mm_find_value_def Let_def cache_membership_def cache_group_of_user_def cache_secret_def)

lemma read_server_answer:
  "\<exists>rsp s'. execute mem_env mem_services 0 (GetSecret ''secret_D'') sample_request fresh_server =
     Some (Inr rsp, s') \<and> rsp_code rsp \<notin> {403, 404}"
proof -
  obtain s1 where m: "userInGroup mem_env ''user_A'' ''group_B'' read_server = (Inr True, s1)"
    and s1: "mw_rows (world s1) = mw_rows stocked" "mw_failures (world s1) = []" "groupCache s1 = []"
      "clusterCache s1 = []" using read_server_member by blast
  have g: "\<exists>s2. getGroup mem_env ''group_B'' s1 = (Inr no_group, s2) \<and> clusterCache s2 = [] \<and>
      mw_rows (world s2) = mw_rows stocked \<and> mw_failures (world s2) = []"
    using s1 by (simp add: getGroup_def groupIDPrefix_def begins_with_def findGroupByID_def sample_defs stocked_def
      groupTableName_def userTableName_def secretTableName_def)
  then obtain s2 where g: "getGroup mem_env ''group_B'' s1 = (Inr no_group, s2)" 
    and s2: "clusterCache s2 = []" "mw_rows (world s2) = mw_rows stocked" "mw_failures (world s2) = []" by blast
  have c: "\<exists>s3. getCluster mem_env ''cluster_C'' s2 = (Inr no_cluster, s3)"
    using s2 by (simp add: getCluster_def clusterIDPrefix_def begins_with_def findClusterByID_def sample_defs stocked_def
      clusterTableName_def userTableName_def secretTableName_def)
  then obtain s3 where c: "getCluster mem_env ''cluster_C'' s2 = (Inr no_cluster, s3)" by blast
  have "\<exists>x s4. secret_contents mem_env mem_services sample_secret s3 = (Inr x, s4)"
    by (simp add: secret_contents_def catchM_def decryptSecret_def sample_secret_def bindM_def ret_def
        mem_header_def runtime_error_def assertion_failed_def split: sum.splits)
  then obtain x s4 where x: "secret_contents mem_env mem_services sample_secret s3 = (Inr x, s4)" by blast
  have s: "s_valid sample_secret" "s_group sample_secret = ''group_B''" "s_cluster sample_secret = ''cluster_C''"
    "u_id sample_user = ''user_A''" "u_valid sample_user"
    by (simp_all add: sample_secret_def sample_user_def)
  show ?thesis
    by (cases x) (simp_all add: whole_def do_getSecret_def requester_user(1) [OF fresh_server_token] s bindM_def
      read_server_read m g c x failure_def reply_def ret_def)
qed


lemma fresh_server_accounts: "stored_user mem_view (world fresh_server) = [''user_A'' \<mapsto> sample_user]"
  by (rule ext) (auto simp: stored_user_def fresh_server_def stocked_def mem_view_def user_item_def
      user_of_ID_item_def sample_user_def findOrThrow_def findOrDefault_def)

lemma fresh_server_updated:
  "\<exists>s' v. execute mem_env mem_services 0 (UpdateUser ''user_A'') sample_request fresh_server =
     Some (Inr okay, s') \<and> stored_user mem_view (world s') ''user_A'' = Some v \<and> u_name v = ''Bob''"
proof -
  have valid: "u_valid sample_user" by (simp add: sample_user_def)
  have "\<exists>s'. do_updateUser mem_env mem_services sample_request ''user_A'' fresh_server = (Inr okay, s') \<and>
     stored_user mem_view (world s') ''user_A'' = Some (sample_user\<lparr>u_name := ''Bob''\<rparr>)"
    unfolding do_updateUser_def requester_user(1) [OF fresh_server_token valid]
    by (simp add: bindM_def getUser_def warm_defs ret_def
       unpack_user_update_def new_admin_flag_def demand_def metadata_of_def request_json_def mem_services_def new_text_def string_member_def text_of_def c_str_def
       updateUser_def user_updates_def okay_def stored_user_def user_of_ID_item_def)
  then show ?thesis by (auto simp: whole_def)
qed


section \<open>What the server knows\<close>

lemma token_user_stored:
  assumes "served_by E view" and "coherent view s" and "token_user E req s = (Inr u, s1)" and "u_valid u"
  shows "\<exists>t. req_params req ''token'' = Some t \<and> u_token u = t \<and> stored_user view (world s) (u_id u) = Some u"
proof (cases "req_params req ''token''")
  case (Some t)
  with assms(3) have "findUserByToken E t s = (Inr u, s1)"
    by (simp add: token_user_def authenticateUser_def)
  from findUserByToken_stored [OF served_users [OF assms(1)] coherentD(1) [OF assms(2)] this] assms(4) Some
  show ?thesis by (auto simp: no_user_def)
qed (use assms(3,4) in \<open>auto simp: token_user_def authenticateUser_def ret_def no_user_def\<close>)

lemma execute_failed_token:
  assumes "token_user E req s = (Inl e, s1)"
    and "\<not> open_command ep" and "ep \<noteq> Multiplex"
  shows "execute E X n ep req s = Some (Inl e, s1)"
  using assms(2-)
  by (cases ep)
    (simp_all add: command_defs whole_def requester_def requesterP_def bindM_def bindP_def assms(1))

text \<open>
  C6: an answer other than 403 to a command that is not open to everybody shows that the request
  came with the token of an account that is in the database at that moment, whatever is still in
  the caches.
\<close>

theorem answers_only_for_accounts:
  assumes "served_by E view" and "services_apart X view" and "served E X view s"
    and "execute E X n ep req s = Some (Inr rsp, s')" and "rsp_code rsp \<noteq> 403"
    and "\<not> open_command ep" and "ep \<noteq> Multiplex"
  shows "\<exists>u. req_params req ''token'' = Some (u_token u) \<and> stored_user view (world s) (u_id u) = Some u"
proof -
  obtain x s1 where x: "token_user E req s = (x, s1)" by (cases "token_user E req s")
  show ?thesis
  proof (cases x)
    case (Inl e)
    with execute_failed_token x assms(4,6,7) show ?thesis by fastforce
  next
    case (Inr u)
    have "u_valid u"
    proof (rule ccontr)
      assume "\<not> u_valid u"
      from execute_stranger [OF x [unfolded Inr] this assms(6,7), of X n] assms(4,5)
      show False by (auto simp: failure_def)
    qed
    from token_user_stored [OF assms(1) served_coherent [OF assms(3,1,2)] x [unfolded Inr] this]
    show ?thesis by blast
  qed
qed

theorem answers_only_for_accounts_witness:
  "stored_user mem_view (world fresh_server) ''user_A'' = Some sample_user"
proof -
  obtain rsp s' where run: "execute mem_env mem_services 0 (GetSecret ''secret_D'') sample_request
      fresh_server = Some (Inr rsp, s')" and ok: "rsp_code rsp \<notin> {403, 404}"
    using read_server_answer by blast
  from ok have "rsp_code rsp \<noteq> 403" by simp
  from answers_only_for_accounts [OF mem_served_by mem_services_apart fresh_server_served run this]
  obtain u where "stored_user mem_view (world fresh_server) (u_id u) = Some u" by auto
  then show ?thesis unfolding fresh_server_accounts by (auto split: if_splits)
qed

text \<open>
  C2: whatever requests a server has answered, however each of them ended, and whatever it keeps
  in its caches: a lookup gives the account that is stored under the ID or, when there is none or
  the database fails, nobody, and a membership it confirms is in the database.
\<close>

theorem served_lookups_refine_tables:
  assumes "served_by E view" and "services_apart X view" and "served E X view s"
  shows "(getUser E uid s = (Inr u, s1) \<longrightarrow>
      (u = no_user \<or> stored_user view (world s) uid = Some u) \<and>
      (stored_user view (world s) uid = None \<longrightarrow> u = no_user)) \<and>
    (uid \<noteq> '''' \<and> begins_with groupIDPrefix gid \<and> userInGroup E uid gid s = (Inr True, s2) \<longrightarrow>
      stored_member view (world s) uid gid)"
proof -
  note coh = served_coherent [OF assms(3,1,2)]
  have "stored_member view (world s) uid gid"
    if "uid \<noteq> ''''" "begins_with groupIDPrefix gid" "userInGroup E uid gid s = (Inr True, s2)"
    using check_membership_correct [OF served_rw [OF assms(1)] coherentD(2) [OF coh] that(1)]
      that(2,3) userInGroup_ID [of gid E uid s] by auto
  then show ?thesis
    using getUser_cases [OF served_rw [OF assms(1)] coherentD(1) [OF coh]] by blast
qed

theorem served_lookups_refine_tables_witness:
  "stored_member mem_view (world warm_server) ''user_A'' ''group_B''"
proof -
  have "\<exists>s'. userInGroup mem_env ''user_A'' ''group_B'' warm_server = (Inr True, s')"
    by (simp add: userInGroup_ID [OF sample_group_ID] check_membership_def warm_defs
        membership_cached_iff cached_membership_def mm_find_value_def)
  moreover have "served mem_env mem_services mem_view warm_server"
    by (rule served.asked [OF fresh_server_served fresh_server_token])
  from served_lookups_refine_tables [OF mem_served_by mem_services_apart this]
  have "''user_A'' \<noteq> '''' \<and> begins_with groupIDPrefix ''group_B'' \<and>
      userInGroup mem_env ''user_A'' ''group_B'' warm_server = (Inr True, s2) \<longrightarrow>
      stored_member mem_view (world warm_server) ''user_A'' ''group_B''" for s2 by blast
  ultimately show ?thesis using sample_group_ID by blast
qed

section \<open>Secrets\<close>

text \<open>Looking up who asks and what is asked for changes no account and no membership.\<close>

lemma stored_member_frozen: "frozen view w s \<Longrightarrow> stored_member view (world s) = stored_member view w"
  by (simp add: frozen_def stored_member_def fun_eq_iff)

lemma frozen_token_user: "served_by E view \<Longrightarrow> keeps (frozen view w) (token_user E req)"
  by (intro keeps_frozen token_user_keeps token_user_leaves served_database)

lemma frozen_getSecret:
  assumes "served_by E view"
  shows "keeps (frozen view w) (getSecret E sid)"
  by (intro keeps_frozen coherent_reads keeps_quiet_leaves getSecret_quiet served_database assms)

lemma token_user_has_ID:
  assumes "served_by E view" and "coherent view s" and "token_user E req s = (Inr u, s1)" and "u_valid u"
  shows "u_id u \<noteq> ''''"
  using token_user_stored [OF assms] no_empty_account [OF user_coherentD(4) [OF coherentD(1) [OF assms(2)]]]
  by auto

text \<open>What the two commands about one secret have in common.\<close>

lemma secret_command_success:
  assumes "served_by E view" and "coherent view s"
    and run: "requester E req ''User not authorized'' (\<lambda>user.
       bindM (getSecret E secretID) (\<lambda>secret.
       if \<not> s_valid secret then ret (failure 404 ''Secret not found'')
       else bindM (userInGroup E (u_id user) (s_group secret)) (\<lambda>member.
       if \<not> member then ret (failure 403 ''User not authorized'') else k user secret))) s = (Inr rsp, s')"
    and "rsp_code rsp \<notin> {403, 404}"
  shows "\<exists>u secret s1 s2. token_user E req s = (Inr u, s1) \<and> stored_user view (world s) (u_id u) = Some u \<and>
    getSecret E secretID s1 = (Inr secret, s2) \<and> s_valid secret \<and>
    (begins_with groupIDPrefix (s_group secret) \<longrightarrow> stored_member view (world s) (u_id u) (s_group secret))"
proof -
  from run assms(4) obtain u s1 secret s2 s3 where u: "token_user E req s = (Inr u, s1)" "u_valid u"
    and secret: "getSecret E secretID s1 = (Inr secret, s2)" "s_valid secret"
    and member: "userInGroup E (u_id u) (s_group secret) s2 = (Inr True, s3)"
    by (auto simp: requester_def bindM_def ret_def failure_def split: prod.splits sum.splits if_splits)
  have "frozen view (world s) s" using assms(2) by (simp add: frozen_def)
  from keepsD [OF frozen_token_user [OF assms(1)] this u(1)]
  have "frozen view (world s) s1" .
  from keepsD [OF frozen_getSecret [OF assms(1)] this secret(1)]
  have s2: "frozen view (world s) s2" .
  have "stored_member view (world s) (u_id u) (s_group secret)" if ID: "begins_with groupIDPrefix (s_group secret)"
  proof -
    have "member_coherent view s2" using s2 by (simp add: frozen_def coherent_def)
    from check_membership_correct [OF served_rw [OF assms(1)] this token_user_has_ID [OF assms(1,2) u]
        member [unfolded userInGroup_ID [OF ID]]]
    show ?thesis by (simp add: stored_member_frozen [OF s2])
  qed
  with u secret token_user_stored [OF assms(1,2) u] show ?thesis by blast
qed

text \<open>
  C7: only a member of the group that owns a secret gets to read or delete it: any answer but 403
  or 404 shows that the token belongs to an account in the database and that the membership of
  this account in the owning group is in the database at that moment.
\<close>

theorem secrets_are_for_members:
  assumes "served_by E view" and "services_apart X view" and "served E X view s"
    and "ep = GetSecret secretID \<or> ep = DeleteSecret secretID"
    and "execute E X n ep req s = Some (Inr rsp, s')" and "rsp_code rsp \<notin> {403, 404}"
  shows "\<exists>u secret s1 s2. token_user E req s = (Inr u, s1) \<and> stored_user view (world s) (u_id u) = Some u \<and>
    getSecret E secretID s1 = (Inr secret, s2) \<and> s_valid secret \<and>
    (begins_with groupIDPrefix (s_group secret) \<longrightarrow> stored_member view (world s) (u_id u) (s_group secret))"
  using assms(4,5) secret_command_success [OF assms(1) served_coherent [OF assms(3,1,2)] _ assms(6)]
  by (auto simp: whole_def do_getSecret_def do_deleteSecret_def)

theorem secrets_are_for_members_witness:
  "stored_member mem_view (world fresh_server) ''user_A'' ''group_B''"
proof -
  obtain rsp s' where run: "execute mem_env mem_services 0 (GetSecret ''secret_D'') sample_request
      fresh_server = Some (Inr rsp, s')" and ok: "rsp_code rsp \<notin> {403, 404}"
    using read_server_answer by blast
  from secrets_are_for_members [OF mem_served_by mem_services_apart fresh_server_served _ run ok]
  show ?thesis using fresh_server_token read_server_read sample_group_ID
    by (auto simp: sample_user_def sample_secret_def)
qed

section \<open>Accounts\<close>

lemma ordinary_update_keeps_flag:
  assumes "unpack_user_update doc user target = Pass u" and "\<not> u_admin user"
  shows "u_admin u = u_admin target"
  using assms by (auto simp: unpack_user_update_def new_admin_flag_def demand_def bindC_def
      split: check.splits if_splits)

text \<open>What an ordinary user's command may do to the accounts: change the user's own, but neither its
  rights nor its identity, or remove accounts of those who ask for that themselves.\<close>

definition own_change :: "(string \<Rightarrow> User option) \<Rightarrow> string \<Rightarrow> string \<Rightarrow> User \<Rightarrow> bool" where
  "own_change accounts me uid v \<longleftrightarrow>
     (\<exists>old. accounts uid = Some old \<and> u_admin v = u_admin old \<and> u_globusID v = u_globusID old \<and>
        (uid \<noteq> me \<longrightarrow> v = old))"

lemma own_change_refl: "accounts uid = Some v \<Longrightarrow> own_change accounts me uid v"
  by (simp add: own_change_def)

lemma own_update:
  assumes "served_by E view" and "frozen view w s" and "getUser E uid s = (Inr old, s1)" and "u_valid old"
    and "coherent view s2" and "view (world s2) = view w" and "u_valid u" and "u_id u = u_id old"
    and "u_admin u = u_admin old" and "u_globusID u = u_globusID old"
    and "updateUser E u old s2 = (r, s3)"
  shows "stored_user view (world s3) i = Some v \<Longrightarrow> own_change (stored_user view w) uid i v"
proof -
  assume v: "stored_user view (world s3) i = Some v"
  have "stored_user view w uid = Some old"
  proof -
    have "coherent view s" using assms(2) by (simp add: frozen_def)
    from getUser_cases [OF served_rw [OF assms(1)] coherentD(1) [OF this] assms(3)] assms(4)
    have "stored_user view (world s) uid = Some old" by (auto simp: no_user_def)
    moreover have "stored_user view (world s) = stored_user view w"
      using assms(2) by (intro stored_user_cong) (simp add: frozen_def)
    ultimately show ?thesis by simp
  qed
  moreover from stored_user_fields [OF this] have "u_id old = uid" by blast
  moreover have "stored_user view (world s2) = stored_user view w"
    using assms(6) by (intro stored_user_cong) simp
  moreover have "stored_user view (world s3) = (stored_user view (world s2))(u_id u \<mapsto> u) \<or>
      stored_user view (world s3) = stored_user view (world s2)"
    using updateUser_stored [OF served_rw [OF assms(1)] assms(7,11)] stored_user_cong by metis
  ultimately show ?thesis
    using v assms(8-10) by (auto simp: own_change_def split: if_splits)
qed

lemma frozen_getUser_step:
  "served_by E view \<Longrightarrow> frozen view w s \<Longrightarrow> getUser E uid s = (x, s') \<Longrightarrow> frozen view w s'"
  by (rule keepsD, rule keeps_frozen, erule getUser_keeps, erule getUser_leaves [OF served_database])

lemma frozen_new_token_step:
  "services_apart X view \<Longrightarrow> frozen view w s \<Longrightarrow> new_token X s = (x, s') \<Longrightarrow> frozen view w s'"
  by (rule keepsD, rule keeps_frozen, rule coherent_reads, erule new_token_quiet,
      rule keeps_quiet_leaves, erule new_token_quiet)

lemma ordinary_user_unchanged:
  assumes "served_by E view" and "token_user E req s = (r, s')" and "stored_user view (world s') i = Some v"
  shows "own_change (stored_user view (world s)) me i v"
proof -
  have "stored_user view (world s') = stored_user view (world s)"
    using token_user_view [OF served_database [OF assms(1)] assms(2)] by (intro stored_user_cong) simp
  with assms(3) show ?thesis by (simp add: own_change_refl)
qed

lemma own_change_view:
  assumes "view w' = view w" and "stored_user view w' i = Some v"
  shows "own_change (stored_user view w) me i v"
  using assms(2) stored_user_cong [of view w' w] assms(1) by (simp add: own_change_refl)

lemma frozen_view: "frozen view w s \<Longrightarrow> view (world s) = view w"
  by (simp add: frozen_def)

lemma own_change_frozen:
  assumes "frozen view w s" and "stored_user view (world s) i = Some v"
  shows "own_change (stored_user view w) me i v"
  by (rule own_change_view [where view = view and w' = "world s"]) (simp_all add: assms frozen_view)

lemma frozen_coherent: "frozen view w s \<Longrightarrow> coherent view s"
  by (simp add: frozen_def)

lemma own_updateUser:
  fixes s s' :: "('w, 'z) user_store_scheme"
  assumes "served_by E view" and "coherent view s" and "token_user E req s = (Inr u, s1)"
    and "u_valid u" and "\<not> u_admin u"
    and "do_updateUser E X req uID s = (r, s')" and "stored_user view (world s') i = Some v"
  shows "own_change (stored_user view (world s)) (u_id u) i v"
proof -
  have s1: "frozen view (world s) s1"
    by (rule keepsD [OF frozen_token_user [OF assms(1)] _ assms(3)]) (simp add: frozen_def assms(2))
  obtain x s2 where get: "getUser E uID s1 = (x, s2)" by (cases "getUser E uID s1")
  have s2: "frozen view (world s) s2" by (rule frozen_getUser_step [OF assms(1) s1 get])
  have run: "(if u_id u \<noteq> uID then ret (failure 403 ''User not authorized'') else
      bindM (getUser E uID) (\<lambda>old. if \<not> u_valid old then ret (failure 404 ''User not found'')
      else checked (unpack_user_update (request_json X req) u old) (\<lambda>new.
        bindM (updateUser E new old) (\<lambda>updated.
        if \<not> updated then ret (failure 500 ''User account update failed'') else ret okay)))) s1 = (r, s')"
    using assms(6) by (simp add: do_updateUser_def requester_user(1) [OF assms(3,4)] assms(5))
  consider "s' = s1" | "s' = s2"
    | old new y s3 where "uID = u_id u" "x = Inr old" "u_valid old"
        "unpack_user_update (request_json X req) u old = Pass new" "updateUser E new old s2 = (y, s3)" "s' = s3"
  proof (cases "u_id u = uID \<and> (\<exists>old. x = Inr old \<and> u_valid old)")
    case True
    then obtain old where old: "u_id u = uID" "x = Inr old" "u_valid old" by blast
    show thesis
    proof (cases "unpack_user_update (request_json X req) u old")
      case (Pass new)
      obtain y s3 where "updateUser E new old s2 = (y, s3)" by (cases "updateUser E new old s2")
      moreover from run old get Pass this have "s' = s3"
        by (auto simp: bindM_def ret_def split: sum.splits if_splits)
      ultimately show thesis using that(3) [OF _ old(2,3) Pass] old(1) by blast
    qed (use run old get in \<open>auto simp: bindM_def ret_def throw_def intro: that(2)\<close>)
  next
    case False
    with run get show thesis
      by (auto simp: bindM_def ret_def intro: that(1,2) split: if_splits sum.splits)
  qed
  then show ?thesis
  proof cases
    case 1
    from own_change_frozen [OF s1] assms(7) [unfolded this] show ?thesis .
  next
    case 2
    from own_change_frozen [OF s2] assms(7) [unfolded this] show ?thesis .
  next
    case 3
    note new = unpacked_update_keeps_identity [OF 3(4)] ordinary_update_keeps_flag [OF 3(4) assms(5)]
    from own_update [OF assms(1) s1 get [unfolded 3(2)] 3(3) frozen_coherent [OF s2] frozen_view [OF s2] _ _ _ _ 3(5)
        assms(7) [unfolded 3(6)]]
    show ?thesis using new 3(1,3) by simp
  qed
qed

lemma own_replaceUserToken:
  fixes s s' :: "('w, 'z) user_store_scheme"
  assumes "served_by E view" and "services_apart X view" and "coherent view s"
    and "token_user E req s = (Inr u, s1)" and "u_valid u" and "\<not> u_admin u"
    and "do_replaceUserToken E X req uID s = (r, s')" and "stored_user view (world s') i = Some v"
  shows "own_change (stored_user view (world s)) (u_id u) i v"
proof -
  have s1: "frozen view (world s) s1"
    by (rule keepsD [OF frozen_token_user [OF assms(1)] _ assms(4)]) (simp add: frozen_def assms(3))
  obtain x s2 where get: "getUser E uID s1 = (x, s2)" by (cases "getUser E uID s1")
  have s2: "frozen view (world s) s2" by (rule frozen_getUser_step [OF assms(1) s1 get])
  obtain t s3 where tok: "new_token X s2 = (t, s3)" by (cases "new_token X s2")
  have s3: "frozen view (world s) s3" by (rule frozen_new_token_step [OF assms(2) s2 tok])
  have mail: "view (world s5) = view (world s4)" if "sendEmail X m s4 = (z, s5)"
    for s4 s5 :: "('w, 'z) user_store_scheme" and m z
  proof -
    have "quiet view {} s4 s5" by (rule keeps_quietD [where m = "sendEmail X m"], rule sendEmail_quiet [OF assms(2)], rule that)
    then show ?thesis by (simp add: quiet_def leaves_def fun_eq_iff)
  qed
  note run = assms(7) [unfolded do_replaceUserToken_def requester_user(1) [OF assms(4,5)] Let_def]
  consider "s' = s1" | "s' = s2" | "s' = s3"
    | old token y s4 where "uID = u_id u" "x = Inr old" "u_valid old"
        "updateUser E (old\<lparr>u_token := token\<rparr>) old s3 = (y, s4)" "view (world s') = view (world s4)"
  proof (cases "u_id u = uID \<and> (\<exists>old. x = Inr old \<and> u_valid old) \<and> (\<exists>token. t = Inr token)")
    case True
    then obtain old token where old: "u_id u = uID" "x = Inr old" "u_valid old" "t = Inr token" by blast
    obtain y s4 where upd: "updateUser E (old\<lparr>u_token := token\<rparr>) old s3 = (y, s4)"
      by (cases "updateUser E (old\<lparr>u_token := token\<rparr>) old s3")
    have "view (world s') = view (world s4)"
      using run old get tok upd
      by (auto simp: bindM_def ret_def dest: mail split: sum.splits if_splits prod.splits)
    with upd old show thesis by (intro that(4) [OF _ old(2,3)]) auto
  next
    case False
    with run get tok assms(6) show thesis
      by (auto simp: bindM_def ret_def intro: that(1,2,3) split: if_splits sum.splits)
  qed
  then show ?thesis
  proof cases
    case 4
    have "stored_user view (world s4) i = Some v"
      using assms(8) stored_user_cong [of view "world s'" "world s4"] 4(5) by simp
    from own_update [OF assms(1) s1 get [unfolded 4(2)] 4(3) frozen_coherent [OF s3] frozen_view [OF s3] _ _ _ _ 4(4) this]
    show ?thesis using 4(1,3) by simp
  next
    case 1
    from own_change_frozen [OF s1] assms(8) [unfolded this] show ?thesis .
  next
    case 2
    from own_change_frozen [OF s2] assms(8) [unfolded this] show ?thesis .
  next
    case 3
    from own_change_frozen [OF s3] assms(8) [unfolded this] show ?thesis .
  qed
qed



end
