(* ===== verification/Base64Correct.thy ===== *)
theory Base64Correct
  imports Base64
begin

unbundle bit_operations_syntax

text \<open>
  The base64 routines against their specification: the six bits of each character, in arithmetic,
  the round trip, and the bounds of the output buffer.
\<close>

section \<open>Masks and shifts as arithmetic\<close>

lemma and_low_bits: "(x::nat) AND (2 ^ n - 1) = x mod 2 ^ n"
  using take_bit_eq_mask [of n x] by (simp add: take_bit_eq_mod mask_eq_exp_minus_1)

lemma drop_masked: "drop_bit k ((x::nat) AND push_bit k y) = drop_bit k x AND y"
  by (rule bit_eqI) (auto simp: bit_simps)

lemma masked_bits: "drop_bit k ((x::nat) AND push_bit k (2 ^ n - 1)) = x div 2 ^ k mod 2 ^ n"
  by (metis drop_masked and_low_bits drop_bit_eq_div)

lemma or_disjoint: "y < 2 ^ k \<Longrightarrow> (x * 2 ^ k) OR y = x * 2 ^ k + (y::nat)"
proof -
  assume y: "y < 2 ^ k"
  then have "take_bit k y = y" by (simp add: take_bit_eq_mod)
  then have "push_bit k x AND y = 0"
    by (metis (no_types) bit_and_iff bit_push_bit_iff bit_take_bit_iff bit_eqI bit_0_eq bot_apply
        not_le bot_bool_def)
  then show ?thesis by (metis disjunctive_add_eq_or push_bit_eq_mult)
qed

section \<open>The alphabet\<close>

lemma table_codes:
  "map code base64lookupTable = [65..<91] @ [97..<123] @ [48..<58] @ [43, 47]"
  by (simp add: base64lookupTable_def code_def upt_rec)

lemma table_values:
  "map ((!) to_6_bit) ([65..<91] @ [97..<123] @ [48..<58] @ [43, 47]) = map int [0..<64]"
  by (simp add: to_6_bit_def upt_rec)

lemma table_length: "length base64lookupTable = 64"
  by (simp add: base64lookupTable_def)

lemma table_inverse:
  assumes "i < 64"
  shows "to_6_bit ! code (base64lookupTable ! i) = int i \<and> code (base64lookupTable ! i) < 128 \<and>
    base64lookupTable ! i \<noteq> CHR ''=''"
proof -
  let ?c = "base64lookupTable ! i"
  have "map ((!) to_6_bit) (map code base64lookupTable) ! i = map int [0..<64] ! i"
    unfolding table_codes table_values ..
  then have v: "to_6_bit ! code ?c = int i" using assms by (simp add: table_length)
  have "code ?c \<in> set (map code base64lookupTable)" using assms by (simp add: table_length)
  then have c: "code ?c < 128 \<and> code ?c \<noteq> 61" unfolding table_codes by auto
  then have "?c \<noteq> CHR ''=''" by (auto simp: code_def)
  with v c show ?thesis by blast
qed

lemma table_onto:
  assumes "c \<in> set base64lookupTable"
  shows "to_6_bit ! code c \<noteq> -1 \<and> code c < 128 \<and> c \<noteq> CHR ''='' \<and> nat (to_6_bit ! code c) < 64"
proof -
  obtain i where "i < 64" "c = base64lookupTable ! i"
    using assms table_length by (auto simp: in_set_conv_nth)
  with table_inverse show ?thesis by auto
qed

section \<open>One character\<close>

lemma decode_step_values:
  assumes "v < 64"
  shows "decode_step v out p 0 = bindE (or_byte out p (v * 4)) (\<lambda>o1. Inr (o1, p, 6))"
    and "decode_step v out p 6 = bindE (or_byte out p (v div 16)) (\<lambda>o1.
           bindE (or_byte o1 (p + 1) (v mod 16 * 16)) (\<lambda>o2. Inr (o2, p + 1, 4)))"
    and "decode_step v out p 4 = bindE (or_byte out p (v div 4)) (\<lambda>o1.
           bindE (or_byte o1 (p + 1) (v mod 4 * 64)) (\<lambda>o2. Inr (o2, p + 1, 2)))"
    and "decode_step v out p 2 = bindE (or_byte out p v) (\<lambda>o1. Inr (o1, p + 1, 0))"
  using assms masked_bits [of 0 v 6] masked_bits [of 4 v 2] masked_bits [of 2 v 4]
    and_low_bits [of v 4] and_low_bits [of v 2] and_low_bits [of v 6]
  by (simp_all add: decode_step_def Let_def push_bit_eq_mult drop_bit_eq_div)

lemma byte_at_less: "byte_at raw i < 256"
  unfolding byte_at_def code_def using of_char_mod_256 [of "char_at raw i", where ?'a = nat]
  by (metis mod_less_divisor zero_less_numeral)

lemma encode_step_values:
  shows "encode_step raw i 8 = (byte_at raw i div 4, i, 2)"
    and "encode_step raw i 2 = (byte_at raw i mod 4 * 16 OR byte_at raw (i + 1) div 16, i + 1, 4)"
    and "encode_step raw i 4 = (byte_at raw i mod 16 * 4 OR byte_at raw (i + 1) div 64, i + 1, 6)"
    and "encode_step raw i 6 = (byte_at raw i mod 64, i + 1, 8)"
  using byte_at_less [of raw i] byte_at_less [of raw "i + 1"]
    masked_bits [of 2 "byte_at raw i" 6] masked_bits [of 4 "byte_at raw (i + 1)" 4]
    masked_bits [of 6 "byte_at raw (i + 1)" 2]
    and_low_bits [of "byte_at raw i" 2] and_low_bits [of "byte_at raw i" 4]
    and_low_bits [of "byte_at raw i" 6]
  by (simp_all add: encode_step_def Let_def push_bit_eq_mult drop_bit_eq_div)

section \<open>The reference\<close>

text \<open>
  Three bytes are four numbers below 64; what is left at the end, one or two bytes, gives two or
  three.
\<close>

fun sextets_of :: "nat list \<Rightarrow> nat list" where
  "sextets_of (a # b # c # rest) =
     [a div 4, a mod 4 * 16 + b div 16, b mod 16 * 4 + c div 64, c mod 64] @ sextets_of rest"
| "sextets_of [a, b] = [a div 4, a mod 4 * 16 + b div 16, b mod 16 * 4]"
| "sextets_of [a] = [a div 4, a mod 4 * 16]"
| "sextets_of [] = []"

definition bytes :: "string \<Rightarrow> nat list" where
  "bytes s = map code s"

lemma code_less: "code c < 256"
  unfolding code_def by (metis of_char_mod_256 mod_less_divisor zero_less_numeral)

lemma char_of_code [simp]: "char_of (code c) = c"
  by (simp add: code_def)

lemma bytes_less: "\<forall>b \<in> set (bytes s). b < 256"
  by (auto simp: bytes_def code_less)

lemma byte_at_bytes: "byte_at raw i = (if i < length raw then bytes raw ! i else 0)"
  by (simp add: byte_at_def char_at_def bytes_def code_def)

lemma length_sextets_of: "length (sextets_of bs) = (4 * length bs + 2) div 3"
  by (induction bs rule: sextets_of.induct) simp_all

lemma sextets_less: "\<forall>b \<in> set bs. b < 256 \<Longrightarrow> \<forall>v \<in> set (sextets_of bs). v < 64"
  by (induction bs rule: sextets_of.induct) (auto simp: less_mult_imp_div_less)

lemma encode_blocks:
  assumes "i \<le> length raw"
  shows "encode_loop ((4 * (length raw - i) + 2) div 3) raw i 8 =
    map ((!) base64lookupTable) (sextets_of (bytes (drop i raw)))"
  using assms
proof (induction "length raw - i" arbitrary: i rule: less_induct)
  case less
  have or1: "a mod 4 * 16 OR b div 16 = a mod 4 * 16 + b div 16" if "b < 256" for a b :: nat
    using or_disjoint [of "b div 16" 4 "a mod 4"] that by (simp add: less_mult_imp_div_less)
  have or2: "b mod 16 * 4 OR c div 64 = b mod 16 * 4 + c div 64" if "c < 256" for b c :: nat
    using or_disjoint [of "c div 64" 2 "b mod 16"] that by (simp add: less_mult_imp_div_less)
  note steps = encode_step_values or1 [OF byte_at_less] or2 [OF byte_at_less]
    or1 [OF code_less, unfolded code_def] or2 [OF code_less, unfolded code_def]
  consider "length raw = i" | "length raw = Suc i" | "length raw = i + 2" | "length raw \<ge> i + 3"
    using less.prems by linarith
  then show ?case
  proof cases
    case 1
    then show ?thesis by (simp add: bytes_def)
  next
    case 2
    then have d: "drop i raw = [raw ! i]" by (simp flip: Cons_nth_drop_Suc)
    have n: "(4 * (length raw - i) + 2) div 3 = Suc (Suc 0)" using 2 by simp
    show ?thesis
      unfolding n d using 2 by (simp add: steps byte_at_def char_at_def bytes_def code_def)
  next
    case 3
    then have d: "drop i raw = [raw ! i, raw ! (i + 1)]"
      by (simp flip: Cons_nth_drop_Suc)
    have n: "(4 * (length raw - i) + 2) div 3 = Suc (Suc (Suc 0))" using 3 by simp
    show ?thesis
      unfolding n d using 3 by (simp add: steps byte_at_def char_at_def bytes_def code_def)
  next
    case 4
    then have d: "drop i raw = raw ! i # raw ! Suc i # raw ! Suc (Suc i) # drop (Suc (Suc (Suc i))) raw"
      by (simp flip: Cons_nth_drop_Suc)
    define n where "n = (4 * (length raw - Suc (Suc (Suc i))) + 2) div 3"
    have IH: "encode_loop n raw (Suc (Suc (Suc i))) 8 =
        map ((!) base64lookupTable) (sextets_of (bytes (drop (Suc (Suc (Suc i))) raw)))"
      unfolding n_def using 4 by (intro less.hyps) simp_all
    have n: "(4 * (length raw - i) + 2) div 3 = Suc (Suc (Suc (Suc n)))"
      unfolding n_def using 4 by linarith
    have at: "byte_at raw i = code (raw ! i)" "byte_at raw (Suc i) = code (raw ! Suc i)"
      "byte_at raw (Suc (Suc i)) = code (raw ! Suc (Suc i))"
      using 4 by (simp_all add: byte_at_def char_at_def)
    show ?thesis
      unfolding n d using IH by (simp add: encode_step_values at or1 [OF code_less] or2 [OF code_less] bytes_def)
  qed
qed

section \<open>Decoding a block\<close>

lemma or_byte_at: "p < length out \<Longrightarrow> or_byte out p b = Inr (out[p := out ! p OR b])"
  by (simp add: or_byte_def)

lemma decode_loop_char:
  assumes "v < 64"
  shows "decode_loop (base64lookupTable ! v # rest) out p cur =
    bindE (decode_step v out p cur) (\<lambda>(o1, p1, c1). decode_loop rest o1 p1 c1)"
  using table_inverse [OF assms] by simp

lemma decode_block:
  assumes "a < 256" and "b < 256" and "c < 256" and "length out > p + 3"
    and "out ! p = 0" and "out ! (p + 1) = 0" and "out ! (p + 2) = 0"
  shows "decode_loop (map ((!) base64lookupTable)
        [a div 4, a mod 4 * 16 + b div 16, b mod 16 * 4 + c div 64, c mod 64] @ rest) out p 0 =
    decode_loop rest (out[p := a, p + 1 := b, p + 2 := c]) (p + 3) 0"
proof -
  have "a div 4 < 64" "b div 16 < 16" "c div 64 < 4" using assms by auto
  moreover from this have s: "a mod 4 * 16 + b div 16 < 64" "b mod 16 * 4 + c div 64 < 64" "c mod 64 < 64"
    by auto
  moreover have "(a mod 4 * 16 + b div 16) div 16 = a mod 4" "(a mod 4 * 16 + b div 16) mod 16 = b div 16"
    using \<open>b div 16 < 16\<close> by auto
  moreover have "(b mod 16 * 4 + c div 64) div 4 = b mod 16" "(b mod 16 * 4 + c div 64) mod 4 = c div 64"
    using \<open>c div 64 < 4\<close> by auto
  moreover have "a div 4 * 4 OR a mod 4 = a" using or_disjoint [of "a mod 4" 2 "a div 4"] by simp
  moreover have "b div 16 * 16 OR b mod 16 = b" using or_disjoint [of "b mod 16" 4 "b div 16"] by simp
  moreover have "c div 64 * 64 OR c mod 64 = c" using or_disjoint [of "c mod 64" 6 "c div 64"] by simp
  ultimately show ?thesis
    using assms(4-)
    by (simp add: decode_loop_char decode_step_values or_byte_at numeral_3_eq_3 del: decode_loop.simps)
qed

lemma decode_two:
  assumes "a < 256" and "b < 256" and "p + 2 < length out"
    and "out ! p = 0" and "out ! (p + 1) = 0" and "out ! (p + 2) = 0"
  shows "decode_loop (map ((!) base64lookupTable) [a div 4, a mod 4 * 16 + b div 16, b mod 16 * 4] @ rest)
      out p 0 = decode_loop rest (out[p := a, p + 1 := b]) (p + 2) 2"
proof -
  have "a div 4 < 64" "b div 16 < 16" using assms by auto
  moreover from this have s: "a mod 4 * 16 + b div 16 < 64" "b mod 16 * 4 < 64" by auto
  moreover have "(a mod 4 * 16 + b div 16) div 16 = a mod 4" "(a mod 4 * 16 + b div 16) mod 16 = b div 16"
    using \<open>b div 16 < 16\<close> by auto
  moreover have "a div 4 * 4 OR a mod 4 = a" using or_disjoint [of "a mod 4" 2 "a div 4"] by simp
  moreover have "b div 16 * 16 OR b mod 16 = b" using or_disjoint [of "b mod 16" 4 "b div 16"] by simp
  moreover have "out[p := a, p + 1 := b, p + 2 := 0] = out[p := a, p + 1 := b]"
    using assms(3-) by (simp add: list_eq_iff_nth_eq nth_list_update)
  ultimately show ?thesis
    using assms(3-)
    by (simp add: decode_loop_char decode_step_values or_byte_at del: decode_loop.simps)
qed

lemma decode_one:
  assumes "a < 256" and "p + 1 < length out" and "out ! p = 0" and "out ! (p + 1) = 0"
  shows "decode_loop (map ((!) base64lookupTable) [a div 4, a mod 4 * 16] @ rest) out p 0 =
      decode_loop rest (out[p := a]) (p + 1) 4"
proof -
  have "a div 4 < 64" "a mod 4 * 16 < 64" using assms by auto
  moreover have "a div 4 * 4 OR a mod 4 = a" using or_disjoint [of "a mod 4" 2 "a div 4"] by simp
  moreover have "out[p := a, p + 1 := 0] = out[p := a]"
    using assms(2-) by (simp add: list_eq_iff_nth_eq nth_list_update)
  ultimately show ?thesis
    using assms(2-)
    by (simp add: decode_loop_char decode_step_values or_byte_at del: decode_loop.simps)
qed

text \<open>Padding, or nothing, ends the input.\<close>

lemma decode_pad [simp]: "decode_loop (replicate n (CHR ''='')) out p cur = Inr out"
  by (cases n) simp_all

lemma decode_sextets:
  assumes "\<forall>b \<in> set bs. b < 256"
  shows "decode_loop (map ((!) base64lookupTable) (sextets_of bs) @ replicate n (CHR ''=''))
      (xs @ replicate (length bs + 1) 0) (length xs) 0 = Inr (xs @ bs @ [0])"
  using assms
proof (induction bs arbitrary: xs rule: sextets_of.induct)
  case (1 a b c rest)
  let ?out = "xs @ replicate (length (a # b # c # rest) + 1) (0 :: nat)"
  have "decode_loop (map ((!) base64lookupTable) (sextets_of (a # b # c # rest)) @ replicate n (CHR ''=''))
      ?out (length xs) 0 =
    decode_loop (map ((!) base64lookupTable) (sextets_of rest) @ replicate n (CHR ''=''))
      (?out[length xs := a, length xs + 1 := b, length xs + 2 := c]) (length xs + 3) 0"
    using 1(2) decode_block [of a b c "length xs" ?out
        "map ((!) base64lookupTable) (sextets_of rest) @ replicate n (CHR ''='')"]
    by (simp add: nth_append)
  also have "?out[length xs := a, length xs + 1 := b, length xs + 2 := c] =
      (xs @ [a, b, c]) @ replicate (length rest + 1) 0"
    by (simp add: list_update_append)
  also have "length xs + 3 = length (xs @ [a, b, c])" by simp
  finally show ?case using 1(1) [of "xs @ [a, b, c]"] 1(2) by simp
next
  case (2 a b)
  then show ?case
    using decode_two [of a b "length xs" "xs @ replicate (length [a, b] + 1) 0" "replicate n (CHR ''='')"]
    by (simp add: nth_append list_update_append numeral_2_eq_2)
next
  case (3 a)
  then show ?case
    using decode_one [of a "length xs" "xs @ replicate (length [a] + 1) 0" "replicate n (CHR ''='')"]
    by (simp add: nth_append list_update_append)
qed simp

section \<open>Properties\<close>

lemma encoded_lengths:
  fixes n :: nat
  shows "4 * ((n + 2) div 3) - (3 - n mod 3) mod 3 = (4 * n + 2) div 3"
    and "(4 * n + 2) div 3 * 3 div 4 = n"
proof -
  obtain k r where n: "n = 3 * k + r" and "r < 3"
    by (metis mod_div_decomp mult.commute mod_less_divisor zero_less_numeral)
  then consider "r = 0" | "r = 1" | "r = 2" by linarith
  then have "4 * ((n + 2) div 3) - (3 - n mod 3) mod 3 = (4 * n + 2) div 3 \<and>
      (4 * n + 2) div 3 * 3 div 4 = n"
  proof cases
    case 1
    have "(3 * k + 2) div 3 = k" "(12 * k + 2) div 3 = 4 * k" by presburger+
    with 1 n show ?thesis by simp
  next
    case 2
    have "(3 * k + 3) div 3 = k + 1" "(12 * k + 6) div 3 = 4 * k + 2" "(3 * k + 1) mod 3 = 1"
      "((4 * k + 2) * 3) div 4 = 3 * k + 1" by presburger+
    with 2 n show ?thesis by (simp add: algebra_simps)
  next
    case 3
    have "(3 * k + 4) div 3 = k + 1" "(12 * k + 10) div 3 = 4 * k + 3" "(3 * k + 2) mod 3 = 2"
      "((4 * k + 3) * 3) div 4 = 3 * k + 2" by presburger+
    with 3 n show ?thesis by (simp add: algebra_simps)
  qed
  then show "4 * ((n + 2) div 3) - (3 - n mod 3) mod 3 = (4 * n + 2) div 3"
    "(4 * n + 2) div 3 * 3 div 4 = n" by blast+
qed

lemma encodeBase64_sextets:
  "encodeBase64 raw = map ((!) base64lookupTable) (sextets_of (bytes raw)) @
     replicate ((3 - length raw mod 3) mod 3) (CHR ''='')"
proof -
  show ?thesis
    using encode_blocks [of 0 raw] encoded_lengths(1) [of "length raw"]
    by (simp only: encodeBase64_def Let_def drop_0 diff_zero)
qed

lemma decode_length_encoded: "decode_length (encodeBase64 raw) = length raw"
proof -
  let ?cs = "map ((!) base64lookupTable) (sextets_of (bytes raw))"
  have "\<forall>c \<in> set ?cs. c \<noteq> CHR ''=''"
    using sextets_less [OF bytes_less, of raw] table_inverse by auto
  then have "dropWhile (\<lambda>c. c = CHR ''='') (rev ?cs) = rev ?cs"
    unfolding dropWhile_eq_self_iff by (metis hd_in_set set_rev)
  moreover have "dropWhile (\<lambda>c. c = CHR ''='') (replicate n (CHR ''='') @ ys) =
      dropWhile (\<lambda>c. c = CHR ''='') ys" for n ys
    by (induction n) simp_all
  ultimately show ?thesis
    by (simp add: decode_length_def encodeBase64_sextets length_sextets_of bytes_def encoded_lengths(2) del: mult_Suc_right)
qed

lemma decode_encoded: "decodeBase64 (encodeBase64 raw) = Inr raw"
proof -
  have "decode_loop (encodeBase64 raw) (replicate (length raw + 1) 0) 0 0 = Inr (bytes raw @ [0])"
    using decode_sextets [OF bytes_less, where xs = "[]"]
    by (simp add: encodeBase64_sextets bytes_def)
  then show ?thesis
    by (simp add: decodeBase64_def decode_length_encoded bytes_def comp_def)
qed

lemma encoded_passes_check: "sanityCheckBase64 (encodeBase64 raw)"
proof -
  have "\<forall>v \<in> set (sextets_of (bytes raw)). base64lookupTable ! v \<in> set base64lookupTable"
    using sextets_less [OF bytes_less, of raw] table_length by simp
  then have "dropWhile (\<lambda>c. c \<in> set base64lookupTable) (encodeBase64 raw) =
      dropWhile (\<lambda>c. c \<in> set base64lookupTable) (replicate ((3 - length raw mod 3) mod 3) (CHR ''=''))"
    unfolding encodeBase64_sextets by (subst dropWhile_append2) auto
  moreover have "set (dropWhile P (replicate n x)) \<subseteq> {x}" for P n and x :: char
    by (induction n) auto
  ultimately show ?thesis
    unfolding sanityCheckBase64_def by (simp add: dropWhile_eq_Nil_conv subset_iff)
qed

lemma checked_text_chars:
  assumes "sanityCheckBase64 t"
  shows "set t \<subseteq> insert (CHR ''='') (set base64lookupTable)"
proof -
  have "set t \<subseteq> set (takeWhile (\<lambda>c. c \<in> set base64lookupTable) t) \<union> set (dropWhile (\<lambda>c. c \<in> set base64lookupTable) t)"
    by (metis set_append subset_refl takeWhile_dropWhile_id)
  then show ?thesis
    using assms by (fastforce simp: sanityCheckBase64_def dropWhile_eq_Nil_conv dest: set_takeWhileD)
qed

text \<open>
  C29: encoding is the base64 of the standard, given as arithmetic on blocks of three bytes, and
  decoding an encoded text gives the bytes back, for every text; what is encoded passes the check
  that requests have to pass.
\<close>

theorem base64_roundtrip:
  "encodeBase64 raw = map ((!) base64lookupTable) (sextets_of (bytes raw)) @
      replicate ((3 - length raw mod 3) mod 3) (CHR ''='') \<and>
   decodeBase64 (encodeBase64 raw) = Inr raw \<and> sanityCheckBase64 (encodeBase64 raw)"
  by (intro conjI encodeBase64_sextets decode_encoded encoded_passes_check)

section \<open>The output buffer\<close>

lemma decode_step_bounds:
  assumes "v < 64" and "cur \<in> {0, 2, 4, 6}" and "(8 * pos + cur + 6) div 8 < length out"
  shows "\<exists>out1 pos1 cur1. decode_step v out pos cur = Inr (out1, pos1, cur1) \<and> length out1 = length out \<and>
    cur1 \<in> {0, 2, 4, 6} \<and> 8 * pos1 + cur1 = 8 * pos + cur + 6"
proof -
  consider "cur = 0" | "cur = 2" | "cur = 4" | "cur = 6" using assms(2) by blast
  then show ?thesis
  proof cases
    case 1
    have "(8 * pos + 6) div 8 = pos" by presburger
    with 1 assms show ?thesis by (simp add: decode_step_values or_byte_at)
  next
    case 2
    have "(8 * pos + 8) div 8 = pos + 1" by presburger
    with 2 assms show ?thesis by (simp add: decode_step_values or_byte_at)
  next
    case 3
    have "(8 * pos + 10) div 8 = pos + 1" by presburger
    with 3 assms show ?thesis by (simp add: decode_step_values or_byte_at)
  next
    case 4
    have "(8 * pos + 12) div 8 = pos + 1" by presburger
    with 4 assms show ?thesis by (simp add: decode_step_values or_byte_at)
  qed
qed

text \<open>The characters that are read: those before the first \<open>=\<close>.\<close>

definition read_chars :: "string \<Rightarrow> string" where
  "read_chars coded = takeWhile (\<lambda>c. c \<noteq> CHR ''='') coded"

lemma decode_loop_bounds:
  assumes "set (read_chars coded) \<subseteq> set base64lookupTable" and "cur \<in> {0, 2, 4, 6}"
    and "(8 * pos + cur + 6 * length (read_chars coded)) div 8 < length out"
  shows "\<exists>out'. decode_loop coded out pos cur = Inr out' \<and> length out' = length out"
  using assms
proof (induction coded arbitrary: out pos cur)
  case (Cons c coded)
  show ?case
  proof (cases "c = CHR ''=''")
    case False
    then have rd: "read_chars (c # coded) = c # read_chars coded" by (simp add: read_chars_def)
    with Cons.prems(1) have c: "c \<in> set base64lookupTable" by simp
    note valid = table_onto [OF c]
    have room: "(8 * pos + cur + 6) div 8 < length out"
      using Cons.prems(3) rd div_le_mono [of "8 * pos + cur + 6" "8 * pos + cur + 6 * length (read_chars (c # coded))" 8]
      by simp
    obtain out1 pos1 cur1 where step: "decode_step (nat (to_6_bit ! code c)) out pos cur = Inr (out1, pos1, cur1)"
      and l: "length out1 = length out" and cur1: "cur1 \<in> {0, 2, 4, 6}"
      and p: "8 * pos1 + cur1 = 8 * pos + cur + 6"
      using decode_step_bounds [of "nat (to_6_bit ! code c)" cur pos out] valid Cons.prems(2) room by blast
    have "8 * pos1 + cur1 + 6 * length (read_chars coded) = 8 * pos + cur + 6 * length (read_chars (c # coded))"
      using p rd by simp
    then show ?thesis
      using Cons.IH [of cur1 pos1 out1] Cons.prems cur1 l rd valid step False by simp
  qed simp
qed simp

lemma read_chars_length: "length (read_chars coded) \<le> length (dropWhile (\<lambda>c. c = CHR ''='') (rev coded))"
proof -
  have "coded = read_chars coded @ dropWhile (\<lambda>c. c \<noteq> CHR ''='') coded" by (simp add: read_chars_def)
  then have rev: "rev coded = rev (dropWhile (\<lambda>c. c \<noteq> CHR ''='') coded) @ rev (read_chars coded)"
    by (metis rev_append)
  have stop: "dropWhile (\<lambda>c. c = CHR ''='') (rev (read_chars coded)) = rev (read_chars coded)"
  proof -
    have "hd (rev (read_chars coded)) \<noteq> CHR ''=''" if "rev (read_chars coded) \<noteq> []"
      using hd_in_set [OF that] by (auto simp: read_chars_def dest: set_takeWhileD)
    then show ?thesis by (auto simp: dropWhile_eq_self_iff)
  qed
  have "length ys \<le> length (dropWhile P (xs @ ys))" if "dropWhile P ys = ys" for P and xs ys :: string
    using that by (induction xs) auto
  from this [OF stop, of "rev (dropWhile (\<lambda>c. c \<noteq> CHR ''='') coded)"] show ?thesis
    unfolding rev by simp
qed

text \<open>
  A text that passes the check decodes: no exception, no write outside the result and its
  terminating NUL, and the result has three bytes for each four characters.
\<close>

theorem decode_of_checked_text:
  assumes "sanityCheckBase64 coded"
  shows "\<exists>bytes. decodeBase64 coded = Inr bytes \<and> length bytes = decode_length coded"
proof -
  have "set (takeWhile (\<lambda>c. c \<noteq> CHR ''='') s) \<subseteq> A" if "set (dropWhile (\<lambda>c. c \<in> A) s) \<subseteq> {CHR ''=''}"
    for A s using that by (induction s) (auto split: if_splits)
  with assms have "set (read_chars coded) \<subseteq> set base64lookupTable"
    by (auto simp: sanityCheckBase64_def read_chars_def dropWhile_eq_Nil_conv)
  moreover have "(6 * length (read_chars coded)) div 8 < length (replicate (decode_length coded + 1) (0::nat))"
  proof -
    have "(6 * length (read_chars coded)) div 8 = (length (read_chars coded) * 3) div 4" by presburger
    also have "\<dots> \<le> decode_length coded"
      unfolding decode_length_def by (intro div_le_mono mult_le_mono1 read_chars_length)
    finally show ?thesis by simp
  qed
  ultimately obtain out where "decode_loop coded (replicate (decode_length coded + 1) 0) 0 0 = Inr out"
    and "length out = decode_length coded + 1"
    using decode_loop_bounds [of coded 0 0 "replicate (decode_length coded + 1) 0"] by auto
  then show ?thesis by (simp add: decodeBase64_def)
qed

theorem decode_of_checked_text_witness:
  "\<exists>bytes. decodeBase64 ''U0xBVEU='' = Inr bytes \<and> length bytes = 5"
proof -
  have "sanityCheckBase64 ''U0xBVEU=''" by (simp add: sanityCheckBase64_def base64lookupTable_def)
  from decode_of_checked_text [OF this] show ?thesis by (simp add: decode_length_def)
qed

end
