(* ===== verification/Answers.thy ===== *)
theory Answers
  imports Served
begin

text \<open>
  The form of the answers: whoever asks whatever, an answer that does not have status 200 has one
  of four status codes, and an empty body or the document of an error.  A rule for each way to
  build a handler (\<open>answering\<close>) makes the proof for a command the unfolding of its definition.
\<close>

section \<open>Answers\<close>

definition well_formed :: "response \<Rightarrow> bool" where
  "well_formed r \<longleftrightarrow>
     rsp_code r = 200 \<or>
     rsp_code r \<in> {400, 403, 404, 500} \<and>
       (rsp_body r = No_body \<or> (\<exists>message. rsp_body r = Document (generateError message)))"

definition answers :: "('s, response) op \<Rightarrow> bool" where
  "answers m \<longleftrightarrow> (\<forall>s r s'. m s = (Inr r, s') \<longrightarrow> well_formed r)"

definition answersP :: "('s, response) paged \<Rightarrow> bool" where
  "answersP m \<longleftrightarrow> (\<forall>s r s'. m s = Some (Inr r, s') \<longrightarrow> well_formed r)"

definition rejects_well :: "'a check \<Rightarrow> bool" where
  "rejects_well c \<longleftrightarrow> (\<forall>r. c = Reject r \<longrightarrow> well_formed r)"

named_theorems answering \<open>what answers with well-formed responses\<close>

lemma well_formed_responses [answering]:
  "well_formed okay" "well_formed (reply d)" "well_formed silent_failure"
  by (simp_all add: well_formed_def okay_def reply_def silent_failure_def)

lemma well_formed_failure [answering]: "c \<in> {400, 403, 404, 500} \<Longrightarrow> well_formed (failure c message)"
  by (auto simp: well_formed_def failure_def)

lemma status_codes [answering]: "(400::nat) \<in> {400, 403, 404, 500}" "(403::nat) \<in> {400, 403, 404, 500}"
  "(404::nat) \<in> {400, 403, 404, 500}" "(500::nat) \<in> {400, 403, 404, 500}"
  by simp_all

lemma well_formed_if [answering]: "well_formed a \<Longrightarrow> well_formed b \<Longrightarrow> well_formed (if c then a else b)"
  by simp

lemma answers_ret [answering]: "well_formed r \<Longrightarrow> answers (ret r)"
  by (simp add: answers_def ret_def)

lemma answers_throw [answering]: "answers (throw e)"
  by (simp add: answers_def throw_def)

lemma answers_bind [answering]: "(\<And>a. answers (f a)) \<Longrightarrow> answers (bindM m f)"
  by (auto simp: answers_def bindM_def split: prod.splits sum.splits)

lemma answers_cases [answering]:
  "(b \<Longrightarrow> answers m) \<Longrightarrow> (\<not> b \<Longrightarrow> answers m') \<Longrightarrow> answers (if b then m else m')"
  "answers m \<Longrightarrow> (\<And>a. answers (f a)) \<Longrightarrow> answers (case x of None \<Rightarrow> m | Some a \<Rightarrow> f a)"
  "(\<And>e. answers (g e)) \<Longrightarrow> (\<And>a. answers (f a)) \<Longrightarrow> answers (case y of Inl e \<Rightarrow> g e | Inr a \<Rightarrow> f a)"
  "(\<And>a b. answers (h a b)) \<Longrightarrow> answers (case z of (a, b) \<Rightarrow> h a b)"
  "answers m \<Longrightarrow> (\<And>a as. answers (k a as)) \<Longrightarrow> answers (case xs of [] \<Rightarrow> m | a # as \<Rightarrow> k a as)"
  by (simp_all split: option.split sum.split prod.split list.split)

lemma answers_Let [answering]: "answers (f x) \<Longrightarrow> answers (let y = x in f y)"
  by simp

lemma answers_catch [answering]: "answers m \<Longrightarrow> (\<And>e. answers (h e)) \<Longrightarrow> answers (catchM m h)"
  by (auto simp: answers_def catchM_def split: prod.splits sum.splits if_splits)

lemma answers_checked [answering]: "rejects_well c \<Longrightarrow> (\<And>a. answers (k a)) \<Longrightarrow> answers (checked c k)"
  by (cases c) (auto simp: rejects_well_def answers_def ret_def throw_def)

lemma answers_requester [answering]:
  "(\<And>u. answers (k u)) \<Longrightarrow> answers (requester E req message k)"
  unfolding requester_def by (intro answering)

lemma answersP_whole [answering]: "answers m \<Longrightarrow> answersP (whole m)"
  by (auto simp: answers_def answersP_def whole_def)

lemma answersP_bind [answering]: "(\<And>a. answersP (f a)) \<Longrightarrow> answersP (bindP m f)"
  by (auto simp: answersP_def bindP_def split: option.splits prod.splits sum.splits)

lemma answersP_cases [answering]:
  "(b \<Longrightarrow> answersP m) \<Longrightarrow> (\<not> b \<Longrightarrow> answersP m') \<Longrightarrow> answersP (if b then m else m')"
  "answersP m \<Longrightarrow> (\<And>a. answersP (f a)) \<Longrightarrow> answersP (case x of None \<Rightarrow> m | Some a \<Rightarrow> f a)"
  "(\<And>e. answersP (g e)) \<Longrightarrow> (\<And>a. answersP (f a)) \<Longrightarrow> answersP (case y of Inl e \<Rightarrow> g e | Inr a \<Rightarrow> f a)"
  "(\<And>a b. answersP (h a b)) \<Longrightarrow> answersP (case z of (a, b) \<Rightarrow> h a b)"
  by (simp_all split: option.split sum.split prod.split)

lemma answersP_None [answering]: "answersP (\<lambda>s. None)"
  by (simp add: answersP_def)

lemma answersP_Let [answering]: "answersP (f x) \<Longrightarrow> answersP (let y = x in f y)"
  by simp

lemma answersP_requester [answering]:
  "(\<And>u. answersP (k u)) \<Longrightarrow> answersP (requesterP E req message k)"
  unfolding requesterP_def by (intro answering)

lemma answersP_checked [answering]: "rejects_well c \<Longrightarrow> (\<And>a. answersP (k a)) \<Longrightarrow> answersP (checkedP c k)"
  by (cases c) (auto simp: checkedP_def rejects_well_def intro!: answering)

lemma answersP_finally [answering]: "answersP m \<Longrightarrow> answersP (finally_do m c)"
  by (auto simp: answersP_def finally_do_def split: option.splits if_splits sum.splits)

section \<open>Checks\<close>

lemma rejects_primitive [answering]:
  "rejects_well (Pass a)" "rejects_well (Abort e)" "rejects_well (HasMember v name)"
  "rejects_well (the_member v name)" "rejects_well (GetString v)" "rejects_well (GetBoolean v)"
  "rejects_well (GetArray v)" "rejects_well (GetObject v)"
  by (simp_all add: rejects_well_def)
    (cases v; auto split: option.splits)+

lemma rejects_Reject [answering]: "well_formed r \<Longrightarrow> rejects_well (Reject r)"
  by (simp add: rejects_well_def)

lemma rejects_bind [answering]: "rejects_well c \<Longrightarrow> (\<And>a. rejects_well (f a)) \<Longrightarrow> rejects_well (bindC c f)"
  by (cases c) (auto simp: rejects_well_def)

lemma rejects_demand [answering]: "c \<in> {400, 403, 404, 500} \<Longrightarrow> rejects_well (demand b c message)"
  by (simp add: demand_def rejects_well_def well_formed_failure)

lemma rejects_cases [answering]:
  "(b \<Longrightarrow> rejects_well m) \<Longrightarrow> (\<not> b \<Longrightarrow> rejects_well m') \<Longrightarrow> rejects_well (if b then m else m')"
  "rejects_well m \<Longrightarrow> (\<And>a. rejects_well (f a)) \<Longrightarrow> rejects_well (case x of None \<Rightarrow> m | Some a \<Rightarrow> f a)"
  "(\<And>e. rejects_well (g e)) \<Longrightarrow> (\<And>a. rejects_well (f a)) \<Longrightarrow> rejects_well (case y of Inl e \<Rightarrow> g e | Inr a \<Rightarrow> f a)"
  "(\<And>a b. rejects_well (h a b)) \<Longrightarrow> rejects_well (case z of (a, b) \<Rightarrow> h a b)"
  by (simp_all split: option.split sum.split prod.split)

lemma rejects_Let [answering]: "rejects_well (f x) \<Longrightarrow> rejects_well (let y = x in f y)"
  by simp

lemma rejects_foldC [answering]: "(\<And>x a. rejects_well (f x a)) \<Longrightarrow> rejects_well (foldC f xs a)"
  by (induction xs arbitrary: a) (auto intro!: answering)

lemma rejects_mapC [answering]: "(\<And>x. rejects_well (f x)) \<Longrightarrow> rejects_well (mapC f xs)"
  by (induction xs) (auto intro!: answering)

lemma rejects_members [answering]:
  "rejects_well (string_member v name)" "rejects_well (text_of v name)"
  "rejects_well (member_at v ks)" "rejects_well (text_at v ks)" "rejects_well (array_at v ks)"
proof -
  show m: "rejects_well (member_at v ks)" for v
    by (induction ks arbitrary: v) (auto intro!: answering)
  show "rejects_well (string_member v name)" "rejects_well (text_of v name)" "rejects_well (text_at v ks)"
    "rejects_well (array_at v ks)"
    unfolding string_member_def text_of_def text_at_def array_at_def by (intro answering m)+
qed

lemma rejects_requirements [answering]:
  "rejects_well (require_string v name m1 m2)" "rejects_well (metadata_of v m1 m2)"
  unfolding require_string_def metadata_of_def by (intro answering)+

section \<open>The checks of the commands\<close>

lemma group_checks [answering]:
  "rejects_well (optional_string a1 b1 c1)"
  "rejects_well (unpack_new_group a2)"
  "rejects_well (group_name_of a3)"
  "rejects_well (text_or a4 b4 c4)"
  "rejects_well (group_details_of a5 b5 c5 d5)"
  "rejects_well (new_science_field a6 b6)"
  "rejects_well (new_group_text a7 b7 c7)"
  "rejects_well (unpack_group_update a8 b8)"
  unfolding optional_string_def unpack_new_group_def group_name_of_def text_or_def
    group_details_of_def new_science_field_def new_group_text_def unpack_group_update_def
  by (intro answering)+

lemma user_checks [answering]:
  "rejects_well (unpack_new_user a9)"
  "rejects_well (new_text a10 b10 c10 d10)"
  "rejects_well (new_admin_flag a11 b11 c11)"
  "rejects_well (unpack_user_update a12 b12 c12)"
  unfolding unpack_new_user_def new_text_def new_admin_flag_def unpack_user_update_def 
  by (intro answering)+

lemma credential_checks [answering]:
  "rejects_well (unpack_credential a13)"
  unfolding unpack_credential_def 
  by (intro answering)+

lemma secret_content_check [answering]:
  "rejects_well (check_content a14)"
  unfolding check_content_def 
  by (intro answering)+

lemma secret_contents_check [answering]: "rejects_well (check_contents members)"
  by (induction members) (auto intro!: answering)

lemma secret_checks [answering]:
  "rejects_well (unpack_new_secret a16)"
  "rejects_well (secret_name_of a17)"
  unfolding unpack_new_secret_def secret_name_of_def 
  by (intro answering)+

lemma volume_checks [answering]:
  "rejects_well (claim_details a18)"
  "rejects_well (unpack_new_volume a19)"
  "rejects_well (mode_of a20 b20)"
  "rejects_well (volume_of_metadata a21)"
  "rejects_well (check_volume_name a22)"
  unfolding claim_details_def unpack_new_volume_def mode_of_def volume_of_metadata_def
    check_volume_name_def
  by (intro answering)+

lemma cluster_checks [answering]:
  "rejects_well (unpack_new_cluster a23)"
  "rejects_well (new_value a24 b24 c24 d24)"
  "rejects_well (unpack_cluster_update a25 b25)"
  unfolding unpack_new_cluster_def new_value_def unpack_cluster_update_def 
  by (intro answering)+

lemma application_checks [answering]:
  "rejects_well (chart_version a26)"
  "rejects_well (unpack_install a27)"
  "rejects_well (unpack_application a28 b28)"
  "rejects_well (check_tag a29)"
  unfolding chart_version_def unpack_install_def unpack_application_def check_tag_def 
  by (intro answering)+

lemma versions_check [answering]: "rejects_well (versions_text doc)"
  unfolding versions_text_def by (intro answering)

lemma unpack_locations_answer [answering]:
  "(\<And>gls. answers (k gls)) \<Longrightarrow> answers (unpack_locations X raw gls k)"
  by (induction raw arbitrary: gls) (auto intro!: answering split: option.split)

lemma instance_checks [answering]:
  "rejects_well (unpack_instance_update a30)"
  "rejects_well (wanted_replicas a31)"
  unfolding unpack_instance_update_def wanted_replicas_def 
  by (intro answering)+

lemma chart_checks [answering]:
  "rejects_well (sent_chart a32)"
  "rejects_well (chart_directory a33 b33)"
  unfolding sent_chart_def chart_directory_def
  by (auto intro!: answering split: list.split)

section \<open>The commands\<close>

lemma user_commands_answer:
  "answersP (do_listUsers E n req)" "answers (do_createUser E X req)" "answers (do_getUserInfo E req u)"
  "answers (do_whoAreThey E req)" "answers (do_updateUser E X req u)" "answers (do_deleteUser E X req u)"
  "answers (do_listUsergroups E req u)" "answers (do_addUserToGroup E req u g)"
  "answers (do_removeUserFromGroup E req u g)" "answers (do_findUser E req)"
  "answers (do_replaceUserToken E X req u)"
  unfolding user_command_defs by (intro answering)+

lemma credential_commands_answer:
  "answersP (do_listMonitoringCredentials E n req)"
  "answers (do_addMonitoringCredential E X req)"
  "answers (do_revokeMonitoringCredential E req i)"
  "answers (do_deleteMonitoringCredential E req i)"
  unfolding credential_command_defs by (intro answering)+

lemma group_commands_answer:
  "answersP (do_listGroups E n req)"
  "answers (do_createGroup E X req)"
  "answers (do_getGroupInfo E req i)"
  "answers (do_updateGroup E X req i)"
  "answers (do_listGroupMembers E req i)"
  "answers (do_listGroupClusters E req i)"
  unfolding group_command_defs by (intro answering)+

lemma secret_commands_answer:
  "answers (do_listSecrets E req)"
  "answers (do_createSecret E X req)"
  "answers (do_deleteSecret E req i)"
  "answers (do_getSecret E X req i)"
  unfolding secret_command_defs secret_payload_def install_secret_def by (intro answering)+

lemma volume_commands_answer:
  "answersP (do_listVolumeClaims E X n req)"
  "answers (do_createVolumeClaim E X req)"
  "answers (do_fetchVolumeClaimInfo E X req i)"
  "answers (do_deleteVolumeClaim E X req i)"
  unfolding volume_command_defs install_volume_def by (intro answering)+

lemma access_commands_answer:
  "answers (do_listClusterAllowedgroups E req c)"
  "answers (do_checkGroupClusterAccess E req c g)"
  "answers (do_grantGroupClusterAccess E req c g)"
  "answers (do_revokeGroupClusterAccess E req c g)"
  "answers (do_listClusterGroupAllowedApplications E req c g)"
  "answers (do_allowGroupUseOfApplication E req c g a)"
  "answers (do_denyGroupUseOfApplication E req c g a)"
  "answersP (do_getClusterMonitoringCredential E X n req c)"
  "answers (do_removeClusterMonitoringCredential E req c)"
  unfolding access_command_defs with_cluster_def AccessCommands.with_group_def granted_response_def
    assign_credential_def by (intro answering)+

lemma deletion_commands_answer:
  "answersP (do_listApplicationInstances E n req)"
  "answers (do_deleteApplicationInstance E X req i)"
  "answersP (do_deleteCluster E X n req c)"
  "answersP (do_deleteGroup E X n req g)"
  unfolding deletion_command_defs notify_groups_def delete_belongings_def by (intro answering)+

lemma cluster_commands_answer:
  "answersP (do_listClusters E X n req)"
  "answers (do_createCluster E X req)"
  "answers (do_getClusterInfo E X req c)"
  "answers (do_updateCluster E X req c)"
  "answers (do_verifyCluster E X req c)"
  unfolding cluster_command_defs with_cluster_def register_cluster_def set_up_cluster_def
    apply_update_def
    new_locations_def info_response_def by (intro answering)+

lemma application_commands_answer:
  "answers (do_listApplications E req)"
  "answers (do_fetchApplicationConfig E req app)"
  "answers (do_fetchApplicationDocumentation E req app)"
  "answers (do_fetchApplicationVersions E X req app)"
  "answers (do_installApplication E X req app)"
  "answers (do_updateCatalog E req)"
  "answersP (do_installAdHocApplication n E X req)"
  unfolding application_command_defs with_application_def inspect_application_def with_tag_def
    default_tag_def installApplicationImpl_def install_tagged_def make_instance_def
    install_instance_def start_instance_def chart_failure_def by (intro answering)+

lemma instance_commands_answer:
  "answers (do_fetchApplicationInstanceInfo E X req i)"
  "answers (do_restartApplicationInstance E X req i)"
  "answers (do_getApplicationInstanceLogs E X req i)"
  "answers (do_getApplicationInstanceScale E X req i)"
  "answers (do_scaleApplicationInstance E X req i)"
  "answers (do_updateApplicationInstance E X req i)"
  unfolding instance_command_defs with_own_instance_def with_home_def describe_instance_def
    replace_release_def reinstall_def helm_reinstall_def reinstall_failed_def record_update_def
    deployment_missing_def scale_to_def send_logs_def by (intro answering)+

lemma answers_bind_state: "(\<And>a. answers (f a)) \<Longrightarrow> answers (\<lambda>s. bindM (m s) f s)"
  by (auto simp: answers_def bindM_def split: prod.splits sum.splits)

lemma do_pingCluster_answer: "answers (do_pingCluster E req c)"
  unfolding do_pingCluster_def with_cluster_def
  by (intro answering | rule answers_bind_state)+

lemma guarded_answers [answering]: "answersP m \<Longrightarrow> answersP (guarded m)"
  by (auto simp: answersP_def guarded_def well_formed_responses split: option.splits sum.splits if_splits)

lemma do_statistics_answer: "answers do_statistics"
  by (simp add: answers_def do_statistics_def well_formed_def)

lemma execute_answers: "answersP (execute E X n ep req)"
  by (cases ep; simp add: do_serverVersionInfo_def;
      intro answering do_statistics_answer do_pingCluster_answer user_commands_answer credential_commands_answer
        group_commands_answer secret_commands_answer volume_commands_answer access_commands_answer
        deletion_commands_answer cluster_commands_answer application_commands_answer
        instance_commands_answer)

lemma unpack_bundle_rejects: "rejects_well (unpack_bundle X members)"
proof (induction members)
  case (Cons raw rest)
  have "rejects_well (unpack_subrequest X raw)"
    unfolding unpack_subrequest_def by (intro answering)+
  with Cons.IH show ?case by (auto intro!: answering)
qed (auto intro!: answering)

lemma do_multiplex_answers: "answersP (do_multiplex E X h req)"
proof -
  have "answersP (case unpack_bundle X members of
            Reject r \<Rightarrow> whole (ret r)
          | Abort e \<Rightarrow> whole (throw e)
          | Pass (Inl e) \<Rightarrow> whole (throw e)
          | Pass (Inr subs) \<Rightarrow>
              bindP (run_bundle X h subs) (\<lambda>entries.
              whole (ret (reply (J_object entries)))))" for members
    using unpack_bundle_rejects [of X members]
    by (auto simp: rejects_well_def split: check.split sum.split intro!: answering)
  then show ?thesis
    unfolding do_multiplex_def by (auto intro!: answering split: json.split)
qed

text \<open>
  C19: every answer of the server has status 200, or it has status 400, 403, 404 or 500 and its body
  is empty or the document of an error with a message; bundles of commands and unknown paths
  included.
\<close>

theorem every_answer_is_well_formed:
  assumes "handle depth E X n m path req s = Some (Inr r, s')"
  shows "well_formed r"
proof (cases depth)
  case (Suc d)
  have "answersP (handle (Suc d) E X n m path req)"
    by (auto intro!: answering execute_answers do_multiplex_answers split: option.split
        simp: well_formed_def)
  with assms Suc show ?thesis unfolding answersP_def by blast
qed (use assms in simp)

theorem every_answer_is_well_formed_witness:
  "\<exists>r s'. handle (Suc 0) mem_env mem_services 0 Get ''/v1alpha3/users''
     \<lparr>req_params = Map.empty, req_body = ''''\<rparr> with_user = Some (Inr r, s') \<and> well_formed r"
proof -
  let ?req = "\<lparr>req_params = Map.empty, req_body = ''''\<rparr>"
  have "token_user mem_env ?req with_user = (Inr no_user, with_user)"
    by (simp add: token_user_def authenticateUser_def)
  then have "execute mem_env mem_services 0 ListUsers ?req with_user =
      Some (Inr (failure 403 ''User not authorized''), with_user)"
    by (simp add: do_listUsers_def requesterP_def bindP_def whole_def ret_def no_user_def)
  moreover have "route Get ''/v1alpha3/users'' = Some ListUsers"
    by (simp add: route_def routes_def api_def)
  ultimately have "handle (Suc 0) mem_env mem_services 0 Get ''/v1alpha3/users'' ?req with_user =
      Some (Inr (failure 403 ''User not authorized''), with_user)"
    by (simp add: guarded_def)
  from this every_answer_is_well_formed [OF this] show ?thesis by blast
qed

end
