(* ===== verification/GzipCorrect.thy ===== *)
theory GzipCorrect
  imports Gzip
begin

unbundle bit_operations_syntax

text \<open>
  What the compression code of \<open>src/Archive.cpp\<close> gets right and where it does not come to an end:
  the check sum against its definition bit by bit, and the loop that decompresses.
\<close>

section \<open>The check sum\<close>

text \<open>The reference: one bit of the message at a time.\<close>

definition crc_bits :: "string \<Rightarrow> 32 word \<Rightarrow> 32 word" where
  "crc_bits buf crc = fold (\<lambda>b c. (crc_shift ^^ 8) (c XOR of_nat (code b))) buf crc"

lemma crc_shift_bit: "crc_shift c = (if bit c 0 then 0xEDB88320 else 0) XOR drop_bit 1 c"
proof -
  have "(c AND 1 = 0) = (\<not> bit c 0)" by (simp add: and_one_eq bit_0 even_iff_mod_2_eq_zero)
  then show ?thesis by (simp add: crc_shift_def)
qed

lemma crc_shift_xor: "crc_shift (a XOR b) = crc_shift a XOR crc_shift b"
  by (simp add: crc_shift_bit bit_xor_iff ac_simps)

lemma crc_shifts_xor: "(crc_shift ^^ n) (a XOR b) = (crc_shift ^^ n) a XOR (crc_shift ^^ n) b"
  by (induction n) (simp_all add: crc_shift_xor)

lemma crc_shifts_high: "(\<forall>i<n. \<not> bit c i) \<Longrightarrow> (crc_shift ^^ n) c = drop_bit n c"
proof (induction n)
  case (Suc n)
  then have "\<not> bit (drop_bit n c) 0" by (simp add: bit_simps)
  with Suc show ?case by (simp add: crc_shift_bit)
qed simp

lemma low_byte: "(0xFF :: 32 word) = mask 8"
  by (simp add: mask_eq_exp_minus_1)

lemma split_low_byte: "c = (c AND mask 8) XOR push_bit 8 (drop_bit 8 c)" for c :: "32 word"
  by (rule bit_word_eqI) (auto simp: bit_simps)

lemma table_entry: "crc_table ! unat (c AND 0xFF) = (crc_shift ^^ 8) (c AND 0xFF)"
proof -
  have "unat (c AND mask 8) < 256" using and_mask_less_size [of 8 c] by (simp add: unat_arith_simps word_size)
  then show ?thesis by (simp add: crc_table_def low_byte)
qed

lemma code_byte: "of_nat (code b) = (of_nat (code b) AND 0xFF :: 32 word)"
proof -
  have "take_bit 8 (code b) = code b" by (simp add: take_bit_nat_eq_self_iff code_def)
  then have "take_bit 8 (of_nat (code b) :: 32 word) = of_nat (code b)" by (simp add: take_bit_of_nat)
  then show ?thesis by (simp add: low_byte take_bit_eq_mask)
qed

lemma drop_push: "drop_bit 8 (push_bit 8 (drop_bit 8 c)) = drop_bit 8 c" for c :: "32 word"
  by (rule bit_word_eqI) (auto simp: bit_simps dest: bit_imp_le_length)

lemma crc_byte_bits: "crc_byte b c = (crc_shift ^^ 8) (c XOR of_nat (code b))"
proof -
  let ?x = "c XOR of_nat (code b)"
  have high: "(crc_shift ^^ 8) (push_bit 8 (drop_bit 8 ?x)) = drop_bit 8 ?x"
    by (subst crc_shifts_high) (auto simp: bit_simps drop_push)
  have "drop_bit 8 ?x = drop_bit 8 c"
    by (subst code_byte, rule bit_word_eqI) (auto simp: low_byte bit_simps)
  moreover have "(crc_shift ^^ 8) ?x = (crc_shift ^^ 8) (?x AND mask 8) XOR drop_bit 8 ?x"
    using arg_cong [OF split_low_byte [of ?x], of "crc_shift ^^ 8"] by (simp only: crc_shifts_xor high)
  ultimately show ?thesis by (simp only: crc_byte_def table_entry) (simp only: low_byte)
qed

lemma eight_times: "(f ^^ 8) x = f (f (f (f (f (f (f (f x)))))))"
  by (simp add: eval_nat_numeral)

lemma crc_shift_numeral:
  "crc_shift (numeral (Num.Bit0 n)) = drop_bit 1 (numeral (Num.Bit0 n))"
  "crc_shift (numeral (Num.Bit1 n)) = 0xEDB88320 XOR drop_bit 1 (numeral (Num.Bit1 n))"
  by (simp_all add: crc_shift_def)

lemma xor_twice: "(a XOR b) XOR b = a" for a b :: "32 word"
  by (rule bit_word_eqI) (auto simp: bit_xor_iff)

text \<open>
  C33: the check sum that is computed byte by byte from a table is the one that takes the message
  bit by bit; taken block by block it is that of the whole; and it is the standard one, by its
  check value.
\<close>

theorem check_sum_correct:
  "updateCRC buf crc = crc_bits buf (crc XOR 0xFFFFFFFF) XOR 0xFFFFFFFF \<and>
   updateCRC (buf @ rest) crc = updateCRC rest (updateCRC buf crc) \<and>
   updateCRC ''123456789'' 0 = 0xCBF43926"
proof -
  have bits: "updateCRC buf crc = crc_bits buf (crc XOR 0xFFFFFFFF) XOR 0xFFFFFFFF" for buf crc
    unfolding updateCRC_def crc_bits_def crc_byte_bits [abs_def] ..
  have "updateCRC (buf @ rest) crc = updateCRC rest (updateCRC buf crc)"
    by (simp only: updateCRC_def fold_append o_apply xor_twice)
  moreover have "updateCRC ''123456789'' 0 = 0xCBF43926"
    unfolding bits by (simp add: crc_bits_def eight_times crc_shift_numeral code_def)
  ultimately show ?thesis using bits by blast
qed

section \<open>The end of the data\<close>

text \<open>
  zlib's documentation: after the end of the compressed data another call does nothing and says
  so again.
\<close>

definition ended_with :: "'w zlib \<Rightarrow> string \<Rightarrow> bool" where
  "ended_with Z rest \<longleftrightarrow>
     (\<forall>w. \<exists>message. z_inflate Z rest w =
        (\<lparr>zr_result = Z_STREAM_END, zr_used = 0, zr_output = [], zr_message = message\<rparr>, w))"

lemma decompress_ended:
  assumes "ended_with Z rest" and "rest \<noteq> []"
  shows "decompress_loop n Z failed source False rest True False dest s = None"
proof (induction n arbitrary: s dest)
  case (Suc n)
  obtain message where "z_inflate Z rest (world s) =
      (\<lparr>zr_result = Z_STREAM_END, zr_used = 0, zr_output = [], zr_message = message\<rparr>, world s)"
    using assms(1) unfolding ended_with_def by blast
  then show ?case
    using Suc assms(2) by (simp add: call_def Let_def Z_STREAM_END_def Z_OK_def decompSize_def)
qed simp

text \<open>
  C20: the loop that decompresses goes on until it has met the end of its input, which it looks for
  only when the last block is used up.  When the rest of the file after the header is shorter than
  a block, the end is met at once and the data come out; when it is just one block, whose last
  bytes are the trailer, the loop never ends.
\<close>

theorem decompression_of_one_block:
  assumes "gzip_header source = Some (Inr (body, False))"
    and "z_inflateInit Z (world s) = (Z_OK, w1)"
    and "z_inflate Z body w1 =
      (\<lparr>zr_result = Z_STREAM_END, zr_used = used, zr_output = out, zr_message = m\<rparr>, w2)"
    and "used < length body" and "length out < decompSize" and "ended_with Z (drop used body)"
  shows "(length body < 1024 \<longrightarrow> gzipDecompress 2 Z source s = Some (Inr out, s\<lparr>world := w2\<rparr>)) \<and>
    (length body = 1024 \<longrightarrow> (\<forall>n. gzipDecompress n Z source s = None))"
proof -
  have nonempty: "body \<noteq> []" using assms(4) by auto
  have round: "call (z_inflate Z body) (s\<lparr>world := w1\<rparr>) =
      (\<lparr>zr_result = Z_STREAM_END, zr_used = used, zr_output = out, zr_message = m\<rparr>, s\<lparr>world := w2\<rparr>)"
    using assms(3) by (simp add: call_def)
  have start: "gzipDecompress k Z source s =
      decompress_loop k Z False body False [] False False [] (s\<lparr>world := w1\<rparr>)" for k
    using assms(1,2) by (simp add: gzipDecompress_def call_def)
  note codes = Z_STREAM_END_def Z_OK_def readBlockSize_def
  have "gzipDecompress 2 Z source s = Some (Inr out, s\<lparr>world := w2\<rparr>)" if "length body < 1024"
    using that round assms(5) by (simp add: start numeral_2_eq_2 Let_def codes)
  moreover have "gzipDecompress n Z source s = None" if "length body = 1024" for n
  proof (cases n)
    case (Suc k)
    have "decompress_loop k Z False [] False (drop used body) True False out (s\<lparr>world := w2\<rparr>) = None"
      by (rule decompress_ended [OF assms(6)]) (use assms(4) in simp)
    with that round assms(5) Suc show ?thesis by (simp add: start Let_def codes)
  qed (simp add: start)
  ultimately show ?thesis by blast
qed

definition sample_zlib :: "unit zlib" where
  "sample_zlib =
     \<lparr>z_inflateInit = (\<lambda>w. (Z_OK, w)),
      z_inflate = (\<lambda>b w.
        (\<lparr>zr_result = Z_STREAM_END, zr_used = length b - 8,
          zr_output = (if length b > 8 then ''data'' else []), zr_message = None\<rparr>, w)),
      z_deflateInit = (\<lambda>w. (Z_OK, w)),
      z_deflate = (\<lambda>b f w.
        (\<lparr>zr_result = Z_STREAM_END, zr_used = length b, zr_output = b, zr_message = None\<rparr>, w))\<rparr>"

definition quiet_store :: "unit base_store" where
  "quiet_store = \<lparr>world = (), cacheHits = 0, databaseQueries = 0, databaseScans = 0\<rparr>"

theorem decompression_of_one_block_witness:
  "gzipDecompress 2 sample_zlib (plain_header @ replicate 20 (CHR 0x00)) quiet_store =
     Some (Inr ''data'', quiet_store) \<and>
   gzipDecompress 1000 sample_zlib (plain_header @ replicate 1024 (CHR 0x00)) quiet_store = None"
proof -
  have header: "gzip_header (plain_header @ body) = Some (Inr (body, False))" for body
    by (simp add: gzip_header_def plain_header_def skip_options_def bindO_def code_def)
  have ended: "ended_with sample_zlib (drop (n - 8) (replicate n (CHR 0x00)))" if "8 < n" for n
    using that by (simp add: ended_with_def sample_zlib_def)
  have started: "z_inflateInit sample_zlib (world quiet_store) = (Z_OK, ())"
    by (simp add: sample_zlib_def quiet_store_def)
  have run: "z_inflate sample_zlib (replicate n (CHR 0x00)) () =
      (\<lparr>zr_result = Z_STREAM_END, zr_used = n - 8, zr_output = ''data'', zr_message = None\<rparr>, ())"
    if "8 < n" for n
    using that by (simp add: sample_zlib_def)
  have left: "n - 8 < length (replicate n (CHR 0x00))" if "8 < n" for n :: nat
    using that by simp
  have small: "length ''data'' < decompSize" by (simp add: decompSize_def)
  note rule = decompression_of_one_block [OF header started run left small ended]
  have "gzipDecompress 2 sample_zlib (plain_header @ replicate 20 (CHR 0x00)) quiet_store =
      Some (Inr ''data'', quiet_store\<lparr>world := ()\<rparr>)"
    by (rule rule [THEN conjunct1, rule_format]) simp_all
  moreover have "gzipDecompress 1000 sample_zlib (plain_header @ replicate 1024 (CHR 0x00)) quiet_store = None"
    by (rule rule [THEN conjunct2, rule_format]) simp_all
  ultimately show ?thesis by simp
qed

end
