(* ===== verification/TarCorrect.thy ===== *)
theory TarCorrect
  imports TarExtraction
begin

section \<open>Fields\<close>

lemma length_put_bytes [simp]: "i + length s \<le> length h \<Longrightarrow> length (put_bytes i s h) = length h"
  by (simp add: put_bytes_def)

lemma nth_put_bytes:
  "i + length s \<le> length h \<Longrightarrow> k < length h \<Longrightarrow>
     put_bytes i s h ! k = (if i \<le> k \<and> k < i + length s then s ! (k - i) else h ! k)"
  by (auto simp: put_bytes_def nth_append min_def)

lemma length_field [simp]: "i + n \<le> length h \<Longrightarrow> length (field i n h) = n"
  by (simp add: field_def)

lemma nth_field: "i + n \<le> length h \<Longrightarrow> k < n \<Longrightarrow> field i n h ! k = h ! (i + k)"
  by (simp add: field_def)

lemma field_put_other:
  "i + n \<le> j \<or> j + length s \<le> i \<Longrightarrow> j + length s \<le> length h \<Longrightarrow> i + n \<le> length h \<Longrightarrow>
     field i n (put_bytes j s h) = field i n h"
  by (rule nth_equalityI) (auto simp: nth_field nth_put_bytes)

lemma field_put_same:
  "i + n \<le> length h \<Longrightarrow> length s \<le> n \<Longrightarrow>
     field i n (put_bytes i s h) = s @ field (i + length s) (n - length s) h"
  by (rule nth_equalityI) (auto simp: nth_field nth_put_bytes nth_append)

lemma put_bytes_over:
  "i + length s \<le> length h \<Longrightarrow> length s = length u \<Longrightarrow> put_bytes i s (put_bytes i u h) = put_bytes i s h"
  by (rule nth_equalityI) (auto simp: nth_put_bytes)

lemma put_bytes_adjacent:
  "i + length s + length u \<le> length h \<Longrightarrow> put_bytes (i + length s) u (put_bytes i s h) = put_bytes i (s @ u) h"
  by (rule nth_equalityI) (auto simp: nth_put_bytes nth_append)

section \<open>Octal numbers\<close>

lemma show_octal_digits:
  "show_octal n \<noteq> []" "\<forall>c\<in>set (show_octal n). isoctal c"
  "octal_value v (show_octal n) = v * 8 ^ length (show_octal n) + n"
proof -
  have digit: "code (char_of (48 + k)) = 48 + k" if "k < 8" for k :: nat
    using that by (simp add: code_def)
  have all: "show_octal n \<noteq> [] \<and> (\<forall>c\<in>set (show_octal n). isoctal c) \<and>
      (\<forall>v. octal_value v (show_octal n) = v * 8 ^ length (show_octal n) + n)" for n
  proof (induction n rule: show_octal.induct)
    case (1 n)
    have append: "octal_value v (xs @ [c]) = 8 * octal_value v xs + (code c - 48)" for v xs c
      by (induction xs arbitrary: v) simp_all
    show ?case
    proof (cases "n < 8")
      case True
      then show ?thesis by (simp add: show_octal.simps [of n] digit isoctal_def)
    next
      case False
      then show ?thesis
        using "1.IH" digit [of "n mod 8"]
        by (subst (1 2 3 4) show_octal.simps) (auto simp: append isoctal_def algebra_simps)
    qed
  qed
  from all show "show_octal n \<noteq> []" "\<forall>c\<in>set (show_octal n). isoctal c"
    "octal_value v (show_octal n) = v * 8 ^ length (show_octal n) + n" by blast+
qed

lemma show_octal_length: "n < 8 ^ k \<Longrightarrow> 0 < k \<Longrightarrow> length (show_octal n) \<le> k"
proof (induction k arbitrary: n)
  case (Suc k)
  show ?case
  proof (cases "n < 8")
    case False
    then have "k \<noteq> 0" using Suc.prems by (cases k) simp_all
    moreover have "n div 8 < 8 ^ k" using Suc.prems(1) by (simp add: less_mult_imp_div_less mult.commute)
    ultimately show ?thesis using Suc.IH [of "n div 8"] False by (simp add: show_octal.simps [of n])
  qed (simp add: show_octal.simps [of n])
qed simp

lemma isoctal_not: "isoctal c \<Longrightarrow> \<not> isspace c" "isoctal c \<Longrightarrow> c \<noteq> NUL" "isoctal c \<Longrightarrow> c \<noteq> CHR ''-''"
  "isoctal c \<Longrightarrow> c \<noteq> CHR ''+''" "isoctal c \<Longrightarrow> c \<noteq> CHR '' ''"
  by (auto simp: isoctal_def isspace_def code_def)

lemma octal_value_zeros: "octal_value 0 (replicate k (CHR ''0'') @ s) = octal_value 0 s"
  by (induction k) (simp_all add: code_def)

lemma length_pad_left [simp]: "length (pad_left n c s) = max n (length s)"
  by (simp add: pad_left_def)

lemma scan_octal_digits:
  assumes "s \<noteq> []" "\<forall>c\<in>set s. isoctal c" "octal_value 0 s = n" "n < 2 ^ 64"
  shows "scan_octal s = Some (of_nat n)"
proof -
  have "isoctal (hd s)" using assms(1,2) by simp
  then have unpadded: "dropWhile isspace s = s" "hd s \<noteq> CHR ''-''" "hd s \<noteq> CHR ''+''"
    using assms(1) by (auto simp: dropWhile_eq_self_iff dest: isoctal_not)
  have "takeWhile isoctal s = t \<Longrightarrow> t = s" for t
    using assms(2) takeWhile_eq_all_conv [of isoctal s] by simp
  then have taken: "takeWhile isoctal s = s" by simp
  show ?thesis
    unfolding scan_octal_def Let_def unpadded(1) using assms unpadded(2,3) by (simp add: taken)
qed

lemma scan_padded:
  assumes "n < 2 ^ 64"
  shows "scan_octal (pad_left k (CHR ''0'') (show_octal n)) = Some (of_nat n)"
  using assms show_octal_digits(2)
  by (intro scan_octal_digits)
    (auto simp: pad_left_def octal_value_zeros show_octal_digits(1,3) isoctal_def code_def)


section \<open>The fields of a header that was made\<close>

text \<open>The bytes of a name in its field, filled up with NULs.\<close>

definition filled :: "nat \<Rightarrow> string \<Rightarrow> string" where
  "filled n s = s @ replicate (n - length s) NUL"

definition printable :: "string \<Rightarrow> bool" where
  "printable s \<longleftrightarrow> NUL \<notin> set s"

lemma string_of_filled: "printable s \<Longrightarrow> takeWhile (\<lambda>c. c \<noteq> NUL) (filled n s) = s"
  unfolding printable_def filled_def by (subst takeWhile_append2) auto

lemma field_of_zeros [simp]: "i + n \<le> 512 \<Longrightarrow> field i n (replicate 512 NUL) = replicate n NUL"
  by (rule nth_equalityI) (simp_all add: nth_field)

lemma field_put_exact:
  "i + length s \<le> length h \<Longrightarrow> field i (length s) (put_bytes i s h) = s"
  by (rule nth_equalityI) (auto simp: nth_field nth_put_bytes)

lemma field_filled:
  assumes "i + n \<le> length h" "length s \<le> n" "field i n h = replicate n NUL"
  shows "field i n (put_bytes i s h) = filled n s"
proof -
  have "field (i + length s) (n - length s) h = drop (length s) (field i n h)"
    by (simp add: field_def drop_take add.commute)
  then show ?thesis using assms by (simp add: field_put_same filled_def)
qed

text \<open>
  What \<open>put_attributes\<close> writes.  A user or group number of ahead than 7 octal digits runs into the
  field behind it, which is written afterwards.
\<close>

lemma attributes:
  assumes "length h = 512" "ar_uid A < 2 ^ 32" "ar_gid A < 2 ^ 32"
    and g: "g = put_attributes A n kind h"
  shows "length g = 512"
    and "field name_at 100 g = field name_at 100 h"
    and "field prefix_at 155 g = field prefix_at 155 h"
    and "field linkname_at 100 g = field linkname_at 100 h"
    and "field mode_at 8 g = pad_left 7 (CHR ''0'') (show_octal 420) @ [NUL]"
    and "field size_at 12 g = pad_left 11 (CHR ''0'') (show_octal (n mod 2 ^ 32)) @ [NUL]"
    and "field typeflag_at 1 g = [char_of (48 + type_code kind)]"
    and "field magic_at 6 g = ''ustar'' @ [NUL]"
proof -
  have digits: "length (show_octal k) \<le> 11" if "k < 2 ^ 32" for k
    using that show_octal_length [of k 11] by simp
  have short: "length (pad_left 11 c (show_octal (k mod 2 ^ 32))) = 11" for c and k :: nat
    using digits [of "k mod 2 ^ 32"] by (simp add: max_def)
  have ids: "length (pad_left 7 c (show_octal (ar_uid A))) \<le> 11"
    "length (pad_left 7 c (show_octal (ar_gid A))) \<le> 11" for c
    using digits assms(2,3) by simp_all
  have mode: "length (pad_left 7 c (show_octal 420)) = 7" for c
    using show_octal_length [of 420 7] by (simp add: max_def)
  define a where "a = pad_left 7 (CHR ''0'') (show_octal 420) @ [NUL]"
  define b where "b = pad_left 7 (CHR ''0'') (show_octal (ar_uid A)) @ [NUL]"
  define c where "c = pad_left 7 (CHR ''0'') (show_octal (ar_gid A)) @ [NUL]"
  define d where "d = pad_left 11 (CHR ''0'') (show_octal (n mod 2 ^ 32)) @ [NUL]"
  define e where "e = pad_left 11 (CHR ''0'') (show_octal (ar_time A mod 2 ^ 32)) @ [NUL]"
  have lengths: "length a = 8" "length b \<le> 12" "length c \<le> 12" "length d = 12" "length e = 12"
    using short ids mode unfolding a_def b_def c_def d_def e_def by (simp_all del: length_pad_left)
  have g: "g = put_bytes 263 [CHR '' '', NUL] (put_bytes 257 (''ustar'' @ [NUL])
      (put_bytes 156 [char_of (48 + type_code kind)] (put_bytes 136 e (put_bytes 124 d
        (put_bytes 116 c (put_bytes 108 b (put_bytes 100 a h)))))))"
    unfolding g put_attributes_def print_at_def a_def b_def c_def d_def e_def by (simp add: offset_defs)
  note facts = lengths assms(1)
  show "length g = 512" unfolding g using facts by simp
  show "field name_at 100 g = field name_at 100 h" "field prefix_at 155 g = field prefix_at 155 h"
    "field linkname_at 100 g = field linkname_at 100 h"
    unfolding g offset_defs using facts by (simp_all add: field_put_other)
  show "field mode_at 8 g = pad_left 7 (CHR ''0'') (show_octal 420) @ [NUL]"
    using field_put_exact [of 100 a h] facts
    unfolding g offset_defs a_def [symmetric] by (simp add: field_put_other)
  show "field size_at 12 g = pad_left 11 (CHR ''0'') (show_octal (n mod 2 ^ 32)) @ [NUL]"
    using field_put_exact [of 124 d "put_bytes 116 c (put_bytes 108 b (put_bytes 100 a h))"] facts
    unfolding g offset_defs d_def [symmetric] by (simp add: field_put_other)
  show "field typeflag_at 1 g = [char_of (48 + type_code kind)]"
    using facts unfolding g offset_defs by (simp add: field_put_other field_put_same field_def [of _ 0])
  show "field magic_at 6 g = ''ustar'' @ [NUL]"
    using facts unfolding g offset_defs by (simp add: field_put_other field_put_same field_def [of _ 0])
qed

section \<open>The checksum\<close>

lemma stored_sum_digits:
  assumes "\<forall>c\<in>set s. isoctal c"
  shows "stored_checksum True v (s @ [NUL, CHR '' '']) = Some (octal_value v s)"
  using assms
proof (induction s arbitrary: v)
  case (Cons c s)
  then have c: "isoctal c" by simp
  then have "8 * v + code c - 48 = 8 * v + (code c - 48)" by (simp add: isoctal_def)
  with Cons c show ?case by (auto dest: isoctal_not)
qed simp

lemma stored_sum_padded:
  assumes "\<forall>c\<in>set s. isoctal c" "s \<noteq> []"
  shows "stored_checksum False 0 (replicate k (CHR '' '') @ s @ [NUL, CHR '' '']) = Some (octal_value 0 s)"
proof (induction k)
  case 0
  from assms obtain c t where s: "s = c # t" by (cases s) auto
  with assms(1) show ?case using stored_sum_digits [of t "code c - 48"] by (auto dest: isoctal_not)
next
  case (Suc k)
  then show ?case by (simp add: isspace_def code_def)
qed

text \<open>
  A checksum is at most 512 times 255, so that the overflow that is looked for cannot happen.
\<close>

lemma byte_sum_bound: "byte_sum s \<le> 255 * length s"
proof (induction s)
  case (Cons c s)
  have "code c < 256" by (simp add: code_def)
  with Cons show ?case by (simp add: byte_sum_def)
qed (simp add: byte_sum_def)

lemma checksum_set:
  assumes "length h = 512"
  shows "\<exists>g. setChecksum h = Inr g \<and> length g = 512 \<and> checksumValid g \<and>
    (\<forall>i n. i + n \<le> checksum_at \<or> checksum_at + 8 \<le> i \<and> i + n \<le> 512 \<longrightarrow> field i n g = field i n h)"
proof -
  define blank where "blank = put_bytes 148 (replicate 8 (CHR '' '')) h"
  define v where "v = byte_sum blank"
  define s where "s = pad_left 6 (CHR '' '') (show_octal v) @ [NUL]"
  have length: "length blank = 512" using assms by (simp add: blank_def)
  have bound: "v \<le> 255 * 512" using byte_sum_bound [of blank] length by (simp add: v_def)
  then have s: "length s = 7" using show_octal_length [of v 6] by (simp add: s_def)
  define g where "g = put_bytes 155 '' '' (put_bytes 148 s blank)"
  have made: "setChecksum h = Inr g"
    using bound unfolding setChecksum_def print_at_def offset_defs Let_def g_def s_def v_def blank_def
    by simp
  have put: "g = put_bytes 148 (s @ '' '') blank"
    using put_bytes_adjacent [of 148 s "'' ''" blank] s length by (simp add: g_def)
  then have put: "g = put_bytes 148 (s @ '' '') h"
    unfolding blank_def using s assms by (simp add: put_bytes_over)
  have total: "length g = 512" using put s assms by simp
  have "field 148 8 g = s @ '' ''" using field_put_exact [of 148 "s @ '' ''" h] put s assms by simp
  moreover have "put_bytes 148 (replicate 8 (CHR '' '')) g = blank"
    unfolding put blank_def using s assms by (intro put_bytes_over) simp_all
  ultimately have "checksumValid g"
    using stored_sum_padded [OF show_octal_digits(2,1), of _ v] show_octal_digits(3) [of 0 v]
    by (simp add: checksumValid_def offset_defs v_def [symmetric] s_def pad_left_def)
  moreover have "field i n g = field i n h" if "i + n \<le> 148 \<or> 148 + 8 \<le> i \<and> i + n \<le> 512" for i n
    using that s assms unfolding put by (intro field_put_other) auto
  ultimately show ?thesis using made total by (auto simp: offset_defs)
qed


section \<open>Names\<close>

text \<open>
  The name that a stored name is read back as.  A slash at index 156 is taken for the split
  although the prefix then has a byte too many, and the slash in front of 100 bytes is lost.
\<close>

definition stored_name :: "string \<Rightarrow> string" where
  "stored_name s =
     (if length s \<le> 100 then s
      else case split_index s of
        Inl e \<Rightarrow> s
      | Inr i \<Rightarrow> if i = 0 then drop 1 s else take (min i 155) s @ drop i s)"

definition fits :: "string \<Rightarrow> bool" where
  "fits s \<longleftrightarrow> s \<noteq> [] \<and> printable s \<and>
     (length s \<le> 100 \<or> length s \<le> 256 \<and> (case split_index s of Inl e \<Rightarrow> False | Inr i \<Rightarrow> True))"

lemma find_member: "find P xs = Some x \<Longrightarrow> x \<in> set xs \<and> P x"
  by (induction xs) (auto split: if_splits)

lemma split_index_slash:
  assumes "split_index s = Inr i" "100 < length s"
  shows "i < length s" "s ! i = CHR ''/''" "length s - i \<le> 101" "i \<le> 156"
proof -
  from assms(1) obtain
    "find (\<lambda>i. char_at s i = CHR ''/'') [length s - 101..<min 157 (length s + 1)] = Some i"
    by (simp add: split_index_def split: option.splits if_splits)
  from find_member [OF this]
  have "char_at s i = CHR ''/''" and range: "length s - 101 \<le> i" "i < min 157 (length s + 1)" by auto
  then show "i < length s" "s ! i = CHR ''/''" by (auto simp: char_at_def split: if_splits)
  then show "length s - i \<le> 101" "i \<le> 156" using range by simp_all
qed

lemma stored_name_kept:
  assumes "100 < length s" "split_index s = Inr i"
  shows "stored_name s = s \<longleftrightarrow> 0 < i \<and> i \<le> 155"
proof
  assume kept: "stored_name s = s"
  have "i \<le> 155" if "i \<noteq> 0"
  proof (rule ccontr)
    assume "\<not> i \<le> 155"
    then have "length (stored_name s) = 155 + (length s - i)"
      using assms that split_index_slash(1) [OF assms(2,1)] by (simp add: stored_name_def min_def)
    then show False using kept split_index_slash(1,4) [OF assms(2,1)] \<open>\<not> i \<le> 155\<close> by simp
  qed
  moreover have "i \<noteq> 0"
  proof
    assume "i = 0"
    then have "length (stored_name s) = length s - 1" using assms by (simp add: stored_name_def)
    then show False using kept assms(1) by simp
  qed
  ultimately show "0 < i \<and> i \<le> 155" by simp
qed (use assms in \<open>simp add: stored_name_def\<close>)

lemma stored_name_nonempty: "fits s \<Longrightarrow> stored_name s \<noteq> []"
  by (auto simp: stored_name_def fits_def min_def split: sum.splits dest: split_index_slash(1))

lemma name_put:
  assumes "fits s"
  shows "\<exists>h. put_name s (replicate 512 NUL) = Inr h \<and> length h = 512 \<and> getName h = stored_name s \<and>
    field linkname_at 100 h = replicate 100 NUL"
proof (cases "length s \<le> 100")
  case True
  let ?h = "put_bytes 0 s (replicate 512 NUL)"
  have "field 0 100 ?h = filled 100 s" using True by (intro field_filled) simp_all
  moreover have "field 345 155 ?h = filled 155 []" "field 157 100 ?h = replicate 100 NUL"
    using True by (simp_all add: field_put_other filled_def)
  ultimately show ?thesis
    using True assms string_of_filled [of s 100]
    by (auto simp: put_name_def getName_def stored_name_def fits_def offset_defs filled_def)
next
  case False
  with assms obtain i where i: "split_index s = Inr i" by (auto simp: fits_def split: sum.splits)
  note slash = split_index_slash [OF i] False
  let ?g = "put_bytes 345 (take i s) (replicate 512 NUL)"
  let ?h = "put_bytes 0 (drop (i + 1) s) ?g"
  have "field 0 100 ?h = filled 100 (drop (i + 1) s)"
    using slash by (intro field_filled) (simp_all add: field_put_other)
  moreover have "field 345 155 ?h = field 345 155 ?g" "field 157 100 ?h = replicate 100 NUL"
    using slash by (simp_all add: field_put_other)
  moreover have "field 345 155 ?g = filled 155 (take (min i 155) s)"
    using slash
    by (intro nth_equalityI) (auto simp: nth_field nth_put_bytes filled_def nth_append)
  moreover have "printable (take k s)" "printable (drop k s)" for k
    using assms by (auto simp: fits_def printable_def dest: in_set_takeD in_set_dropD)
  moreover have "drop i s = CHR ''/'' # drop (i + 1) s"
    using slash Cons_nth_drop_Suc [of i s] by simp
  moreover have "length s \<le> 256" using assms False by (simp add: fits_def)
  ultimately show ?thesis
    using False slash i
    by (auto simp: put_name_def getName_def stored_name_def offset_defs string_of_filled bindE_def)
qed

section \<open>A header is read as it was made\<close>

definition describes :: "header \<Rightarrow> string \<Rightarrow> nat \<Rightarrow> typeCode \<Rightarrow> bool" where
  "describes h name n kind \<longleftrightarrow>
     length h = 512 \<and> checksumValid h \<and> getName h = name \<and>
     field mode_at 8 h = pad_left 7 (CHR ''0'') (show_octal 420) @ [NUL] \<and>
     field size_at 12 h = pad_left 11 (CHR ''0'') (show_octal n) @ [NUL] \<and>
     field typeflag_at 1 h = [char_of (48 + type_code kind)] \<and> field magic_at 6 h = ''ustar'' @ [NUL]"

lemma set_checksum_describes:
  assumes "length h = 512" "getName h = name"
    "field mode_at 8 h = pad_left 7 (CHR ''0'') (show_octal 420) @ [NUL]"
    "field size_at 12 h = pad_left 11 (CHR ''0'') (show_octal n) @ [NUL]"
    "field typeflag_at 1 h = [char_of (48 + type_code kind)]" "field magic_at 6 h = ''ustar'' @ [NUL]"
  shows "\<exists>g. setChecksum h = Inr g \<and> describes g name n kind \<and>
    field linkname_at 100 g = field linkname_at 100 h"
proof -
  from checksum_set [OF assms(1)] obtain g where g: "setChecksum h = Inr g" "length g = 512"
    "checksumValid g" and same: "\<And>i n. i + n \<le> checksum_at \<or> checksum_at + 8 \<le> i \<and> i + n \<le> 512 \<Longrightarrow>
      field i n g = field i n h"
    by blast
  have "getName g = getName h" by (simp add: getName_def same offset_defs)
  moreover have "field mode_at 8 g = field mode_at 8 h" "field size_at 12 g = field size_at 12 h"
    "field typeflag_at 1 g = field typeflag_at 1 h" "field magic_at 6 g = field magic_at 6 h"
    "field linkname_at 100 g = field linkname_at 100 h"
    by (auto intro!: same simp: offset_defs)
  ultimately show ?thesis using g assms by (auto simp: describes_def)
qed

lemma header_made:
  assumes "fits s" "n < 2 ^ 32" and ids: "ar_uid A < 2 ^ 32" "ar_gid A < 2 ^ 32"
  shows "\<exists>h. header_posix_ustar A s n kind = Inr h \<and> describes h (stored_name s) n kind \<and>
    field linkname_at 100 h = replicate 100 NUL"
proof -
  from name_put [OF assms(1)] obtain h where h: "put_name s (replicate 512 NUL) = Inr h"
    "length h = 512" "getName h = stored_name s" "field linkname_at 100 h = replicate 100 NUL"
    by blast
  let ?g = "put_attributes A n kind h"
  note fields = attributes [OF h(2) ids refl, of n kind]
  have "getName ?g = stored_name s" using fields(2,3) h(3) by (simp add: getName_def)
  from set_checksum_describes [OF fields(1) this fields(5) _ fields(7,8), of n] fields(4,6) h(4) assms(2)
  show ?thesis using h(1) assms(2) by (auto simp: header_posix_ustar_def bindE_def)
qed

lemma link_made:
  assumes "describes h name n kind" "printable t" "length t \<le> 100" "field linkname_at 100 h = replicate 100 NUL"
  shows "\<exists>g. setChecksum (put_bytes linkname_at t h) = Inr g \<and> describes g name n kind \<and>
    field linkname_at 100 g = filled 100 t"
proof -
  let ?h = "put_bytes linkname_at t h"
  have total: "length h = 512" using assms(1) by (simp add: describes_def)
  have same: "field i k ?h = field i k h" if "i + k \<le> linkname_at \<or> linkname_at + 100 \<le> i \<and> i + k \<le> 512" for i k
    using that assms(3) total by (intro field_put_other) (auto simp: offset_defs)
  note same = same [unfolded offset_defs]
  have "length ?h = 512" using total assms(3) by (simp add: offset_defs)
  moreover have "field prefix_at 155 ?h = field prefix_at 155 h" "field name_at 100 ?h = field name_at 100 h"
    by (simp_all add: same offset_defs)
  then have "getName ?h = getName h" by (simp add: getName_def)
  then have "getName ?h = name" using assms(1) by (simp add: describes_def)
  moreover have "field mode_at 8 ?h = field mode_at 8 h" "field size_at 12 ?h = field size_at 12 h"
    "field typeflag_at 1 ?h = field typeflag_at 1 h" "field magic_at 6 ?h = field magic_at 6 h"
    by (simp_all add: same offset_defs)
  moreover have "field linkname_at 100 ?h = filled 100 t"
    using assms(3,4) total by (intro field_filled) (simp_all add: offset_defs)
  ultimately show ?thesis
    using set_checksum_describes [of ?h name n kind] assms(1) by (simp add: describes_def)
qed

lemma c_string_field:
  assumes "field i n h = s @ [NUL]" "printable s"
  shows "c_string_at i h = Inr s"
proof -
  have "drop i h = field i n h @ drop n (drop i h)" unfolding field_def by (rule append_take_drop_id [symmetric])
  then obtain rest where h: "drop i h = s @ NUL # rest" using assms(1) by simp
  then have "NUL \<in> set (drop i h)" by simp
  moreover have "takeWhile (\<lambda>c. c \<noteq> NUL) (drop i h) = s"
    using assms(2) unfolding h printable_def by (subst takeWhile_append2) auto
  ultimately show ?thesis by (simp add: c_string_at_def)
qed

lemma printable_number: "printable (pad_left k (CHR ''0'') (show_octal n))"
  using show_octal_digits(2) [of n] by (auto simp: printable_def pad_left_def dest: isoctal_not)

lemma described_size:
  assumes "describes h name n kind" "n < 2 ^ 32"
  shows "header_size old h = Inr (int n)" "header_mode h = Inr 420"
proof -
  have "sint (word_of_nat n :: 64 word) = int n"
    using assms(2) by (simp add: signed_of_nat signed_take_bit_int_eq_self)
  then show "header_size old h = Inr (int n)"
    using assms c_string_field [OF _ printable_number, of size_at 12 h 11 n] scan_padded [of n 11]
    by (simp add: describes_def header_size_def properlyTerminated_def bindE_def)
  show "header_mode h = Inr 420"
    using assms c_string_field [OF _ printable_number, of mode_at 8 h 7 420] scan_padded [of 420 7]
    by (simp add: describes_def header_mode_def properlyTerminated_def bindE_def)
qed

lemma described_type:
  assumes "describes h name n kind"
  shows "char_at h typeflag_at = char_of (48 + type_code kind)" "\<not> isEmpty h"
proof -
  have total: "length h = 512" and flag: "field 156 1 h = [char_of (48 + type_code kind)]"
    using assms by (simp_all add: describes_def offset_defs)
  have "field 156 1 h ! 0 = h ! 156" using total by (subst nth_field) simp_all
  then have nth: "h ! 156 = char_of (48 + type_code kind)" using flag by simp
  then show "char_at h typeflag_at = char_of (48 + type_code kind)" using total by (simp add: char_at_def offset_defs)
  have "char_of (48 + type_code kind) \<noteq> NUL" by (cases kind) (simp_all add: char_of_def bit_iff_odd)
  then show "\<not> isEmpty h" 
    using nth total by (auto simp: isEmpty_def list_all_length intro!: exI [of _ 156])
qed

section \<open>Archives\<close>

datatype tar_entry = FileEntry string string | DirectoryEntry string | LinkEntry string string

primrec append_entry :: "archiver \<Rightarrow> tar_entry \<Rightarrow> (TarWriter, unit) op" where
  "append_entry A (FileEntry path content) = appendFile A path content"
| "append_entry A (DirectoryEntry path) = appendDirectory A path"
| "append_entry A (LinkEntry path target) = appendSymLink A path target"

primrec append_all :: "archiver \<Rightarrow> tar_entry list \<Rightarrow> (TarWriter, unit) op" where
  "append_all A [] = ret ()"
| "append_all A (e # es) = bindM (append_entry A e) (\<lambda>_. append_all A es)"

text \<open>The entries of a stream up to its end, each looked up and dropped as it is met.\<close>

function read_all :: "TarReader \<Rightarrow> (string \<times> FileRecord option) list outcome" where
  "read_all R =
     (case readFiles [] R of
        (Inl e, R') \<Rightarrow> Inl e
      | (Inr name, R') \<Rightarrow>
          if name = [] then Inr []
          else bindE (read_all (dropFile name R')) (\<lambda>rs. Inr ((name, map_of (tr_files R') name) # rs)))"
  by pat_completeness auto

termination read_all
  by (relation "measure (\<lambda>R. length (tr_src R))") (auto simp: dropFile_def dest!: readFiles_shrinks [OF sym])

declare read_all.simps [simp del]

primrec storable :: "tar_entry \<Rightarrow> bool" where
  "storable (FileEntry path content) \<longleftrightarrow> fits path \<and> length content < 2 ^ 32"
| "storable (DirectoryEntry path) \<longleftrightarrow> fits path"
| "storable (LinkEntry path target) \<longleftrightarrow> fits path \<and> printable target \<and> length target \<le> 100"

text \<open>A link text that fills its field is not ended in it: the word behind it is read with it.\<close>

definition stored_target :: "string \<Rightarrow> string" where
  "stored_target t = (if length t = 100 then t @ ''ustar'' else t)"

primrec stored_entry :: "tar_entry \<Rightarrow> string \<times> FileRecord" where
  "stored_entry (FileEntry path content) =
     (stored_name path, \<lparr>fr_type = REGULAR_FILE, fr_data = content, fr_mode = 420\<rparr>)"
| "stored_entry (DirectoryEntry path) =
     (stored_name path, \<lparr>fr_type = DIRECTORY, fr_data = [], fr_mode = 420\<rparr>)"
| "stored_entry (LinkEntry path target) =
     (stored_name path, \<lparr>fr_type = SYMBOLIC_LINK, fr_data = stored_target target, fr_mode = 420\<rparr>)"

lemma c_string_link:
  assumes "describes h name n kind" "field linkname_at 100 h = filled 100 t" "printable t" "length t \<le> 100"
  shows "c_string_at linkname_at h = Inr (stored_target t)"
proof (cases "length t = 100")
  case False
  have "drop linkname_at h = field linkname_at 100 h @ drop 100 (drop linkname_at h)"
    unfolding field_def by (rule append_take_drop_id [symmetric])
  then obtain rest where rest: "drop linkname_at h = t @ replicate (100 - length t) NUL @ rest"
    using assms(2) by (simp add: filled_def)
  moreover obtain k where "100 - length t = Suc k" using assms(4) False by (cases "100 - length t") auto
  ultimately have h: "drop linkname_at h = t @ NUL # replicate k NUL @ rest" by simp
  have "takeWhile (\<lambda>c. c \<noteq> NUL) (drop linkname_at h) = t"
    using assms(3) unfolding h printable_def by (subst takeWhile_append2) auto
  then show ?thesis using False h by (simp add: c_string_at_def stored_target_def)
next
  case True
  have "field linkname_at 106 h = field linkname_at 100 h @ field magic_at 6 h"
    using take_add [of 100 6 "drop 157 h"] by (simp add: field_def offset_defs)
  then have "field linkname_at 106 h = (t @ ''ustar'') @ [NUL]"
    using assms(1,2) True by (simp add: describes_def filled_def)
  from c_string_field [OF this] assms(3) True show ?thesis by (simp add: printable_def stored_target_def)
qed

lemma padded_block:
  "(if int n smod 512 = 0 then 0 else nat (512 - int n smod 512)) = length (padding n)"
proof -
  have "int n smod 512 = int (n mod 512)" by (cases "n = 0") (simp_all add: signed_modulo_int_def zmod_int)
  then show ?thesis by (auto simp: padding_def nat_diff_distrib)
qed

lemma read_one:
  assumes h: "describes h name n kind" "n < 2 ^ 32" and src: "tr_src R = h @ rest" "tr_files R = []"
    and kind: "kind \<in> {RegularFile, Directory, SymLink}" "n \<noteq> 0 \<Longrightarrow> kind = RegularFile"
    and rest: "rest = content @ padding n @ ahead" "length content = n"
    and link: "kind = SymLink \<Longrightarrow> c_string_at linkname_at h = Inr target"
    and r: "r = \<lparr>fr_type = typeForTarTypeFlag (char_of (48 + type_code kind)),
      fr_data = (if kind = SymLink then target else content), fr_mode = 420\<rparr>"
  shows "\<exists>R'. readFiles [] R = (Inr name, R') \<and> tr_src R' = ahead \<and> tr_files R' = [(name, r)]"
proof -
  have total: "length h = 512" "checksumValid h" "getName h = name" using h by (simp_all add: describes_def)
  note fields = described_size [OF h] described_type [OF h(1)]
  note flags = typeForTarTypeFlag_def char_of_def bit_iff_odd
  define R1 where "R1 = (skip_bytes n (R\<lparr>tr_src := rest\<rparr>))\<lparr>tr_files := [(name, r)]\<rparr>"
  have data: "kind \<noteq> RegularFile \<Longrightarrow> n = 0 \<and> content = []" using kind(2) rest(2) by (cases "n = 0") auto
  have read: "read_record (typeForTarTypeFlag (char_of (48 + type_code kind))) (int n) 420 h name
      (R\<lparr>tr_src := rest\<rparr>) = (Inr (), R1)"
  proof (cases "kind = RegularFile")
    case True
    then show ?thesis
      using src r rest
      by (simp add: R1_def read_record_def insert_file_def skip_bytes_def read_data_def flags)
  next
    case False
    then have "kind = Directory \<or> kind = SymLink" using kind(1) by simp
    then show ?thesis
      using src r data link
      by (elim disjE) (simp_all add: R1_def read_record_def insert_file_def skip_bytes_def flags)
  qed
  have "read_entry None h (R\<lparr>tr_src := rest\<rparr>) = (Inr (name, int n), skip_bytes (length (padding n)) R1)"
    using total fields read by (simp add: read_entry_def bindM_def padded_block modify_def ret_def)
  moreover have "tr_src (skip_bytes (length (padding n)) R1) = ahead"
    "tr_files (skip_bytes (length (padding n)) R1) = [(name, r)]"
    using rest by (simp_all add: R1_def skip_bytes_def)
  ultimately obtain R' where R': "read_entry None h (R\<lparr>tr_src := rest\<rparr>) = (Inr (name, int n), R')"
    "tr_src R' = ahead" "tr_files R' = [(name, r)]"
    by blast
  then have "readFiles [] R = (Inr name, R')"
    unfolding readFiles_def read_files.simps [of _ _ _ R] using total(1) src fields(4) by simp
  then show ?thesis using R' by blast
qed

text \<open>What one call appends is read back as the entry.\<close>

lemma entry_read_back:
  assumes "storable e" "ar_uid A < 2 ^ 32" "ar_gid A < 2 ^ 32"
  shows "\<exists>b. (\<forall>w. \<not> tw_ended w \<longrightarrow> append_entry A e w = (Inr (), append_bytes b w)) \<and>
    (\<forall>R ahead. tr_src R = b @ ahead \<longrightarrow> tr_files R = [] \<longrightarrow>
      (\<exists>R'. readFiles [] R = (Inr (fst (stored_entry e)), R') \<and> tr_src R' = ahead \<and>
        tr_files R' = [stored_entry e]))"
proof (cases e)
  case (FileEntry path content)
  with assms header_made [of path "length content" A RegularFile] obtain h where
    h: "header_posix_ustar A path (length content) RegularFile = Inr h"
    "describes h (stored_name path) (length content) RegularFile"
    by auto
  show ?thesis
    using FileEntry h assms(1) read_one [OF h(2) _ _ _ _ _ refl refl _ refl]
    by (intro exI [of _ "h @ content @ padding (length content)"])
      (simp add: appendFile_def append_record_def bindE_def typeForTarTypeFlag_def char_of_def bit_iff_odd)
next
  case (DirectoryEntry path)
  with assms header_made [of path 0 A Directory] obtain h where
    h: "header_posix_ustar A path 0 Directory = Inr h" "describes h (stored_name path) 0 Directory"
    by auto
  show ?thesis
    using DirectoryEntry h assms(1) read_one [OF h(2) _ _ _ _ _ _ _ _ refl, where content = "[]"]
    by (intro exI [of _ h])
      (simp add: appendDirectory_def append_record_def padding_def typeForTarTypeFlag_def char_of_def bit_iff_odd)
next
  case (LinkEntry path target)
  with assms header_made [of path 0 A SymLink] obtain g where
    g: "header_posix_ustar A path 0 SymLink = Inr g" "describes g (stored_name path) 0 SymLink"
    "field linkname_at 100 g = replicate 100 NUL"
    by auto
  from LinkEntry assms link_made [OF g(2) _ _ g(3), of target] obtain h where
    h: "setChecksum (put_bytes linkname_at target g) = Inr h" "describes h (stored_name path) 0 SymLink"
    "field linkname_at 100 h = filled 100 target"
    by auto
  have link: "c_string_at linkname_at h = Inr (stored_target target)"
    using LinkEntry assms(1) by (intro c_string_link [OF h(2,3)]) simp_all
  show ?thesis
    using LinkEntry g(1) h link assms(1) read_one [OF h(2) _ _ _ _ _ _ _ link refl, where content = "[]"]
    by (intro exI [of _ h])
      (simp add: appendSymLink_def append_record_def bindE_def padding_def typeForTarTypeFlag_def
        char_of_def bit_iff_odd)
qed

lemma read_end:
  assumes "tr_src R = replicate 1024 NUL"
  shows "read_all R = Inr []"
proof -
  let ?R = "R\<lparr>tr_src := replicate 512 NUL\<rparr>"
  have empty: "isEmpty (replicate 512 NUL)" by (simp add: isEmpty_def list_all_length)
  have "read_files [] 1 None ?R = (Inr [], ?R\<lparr>tr_src := [], tr_fileEnded := True\<rparr>)"
    by (subst read_files.simps) (simp add: empty)
  then have "\<exists>R'. readFiles [] R = (Inr [], R')"
    unfolding readFiles_def by (subst read_files.simps) (simp add: assms empty drop_replicate)
  then show ?thesis by (auto simp: read_all.simps [of R])
qed

definition as_found :: "tar_entry \<Rightarrow> string \<times> FileRecord option" where
  "as_found e = (fst (stored_entry e), Some (snd (stored_entry e)))"

lemma stored_entry_named: "storable e \<Longrightarrow> fst (stored_entry e) \<noteq> []"
  by (cases e) (simp_all add: stored_name_nonempty)

lemma entries_read_back:
  assumes "\<forall>e\<in>set es. storable e" and ids: "ar_uid A < 2 ^ 32" "ar_gid A < 2 ^ 32"
  shows "\<exists>bs. (\<forall>w. \<not> tw_ended w \<longrightarrow> append_all A es w = (Inr (), append_bytes bs w)) \<and>
    (\<forall>R. tr_src R = bs @ replicate 1024 NUL \<longrightarrow> tr_files R = [] \<longrightarrow> read_all R = Inr (map as_found es))"
  using assms(1)
proof (induction es)
  case Nil
  then show ?case by (intro exI [of _ "[]"]) (simp add: ret_def append_bytes_def read_end)
next
  case (Cons e es)
  then obtain bs where bs: "\<And>w. \<not> tw_ended w \<Longrightarrow> append_all A es w = (Inr (), append_bytes bs w)"
    "\<And>R. tr_src R = bs @ replicate 1024 NUL \<Longrightarrow> tr_files R = [] \<Longrightarrow> read_all R = Inr (map as_found es)"
    by auto
  from Cons.prems have e: "storable e" by simp
  from entry_read_back [OF e ids] obtain b where
    b: "\<And>w. \<not> tw_ended w \<Longrightarrow> append_entry A e w = (Inr (), append_bytes b w)" and
    read: "\<And>R ahead. tr_src R = b @ ahead \<Longrightarrow> tr_files R = [] \<Longrightarrow>
      \<exists>R'. readFiles [] R = (Inr (fst (stored_entry e)), R') \<and> tr_src R' = ahead \<and>
        tr_files R' = [stored_entry e]"
    by blast
  have "read_all R = Inr (map as_found (e # es))"
    if "tr_src R = (b @ bs) @ replicate 1024 NUL" "tr_files R = []" for R
  proof -
    from read [of R "bs @ replicate 1024 NUL"] that obtain R' where R':
      "readFiles [] R = (Inr (fst (stored_entry e)), R')" "tr_src R' = bs @ replicate 1024 NUL"
      "tr_files R' = [stored_entry e]"
      by auto
    have "read_all (dropFile (fst (stored_entry e)) R') = Inr (map as_found es)"
      using R' by (intro bs(2)) (simp_all add: dropFile_def)
    then show ?thesis
      using R' stored_entry_named [OF e] by (simp add: read_all.simps [of R] bindE_def as_found_def)
  qed
  moreover have "append_all A (e # es) w = (Inr (), append_bytes (b @ bs) w)" if "\<not> tw_ended w" for w
    using that by (simp add: bindM_def b bs(1) append_bytes_def)
  ultimately show ?case by blast
qed



end
