(* ===== verification/PathCorrect.thy ===== *)
theory PathCorrect
  imports TarExtraction
begin

text \<open>
  Where an archive may be extracted to: what \<open>realpathHyp\<close> and the test of
  \<open>TarReader::extractToFileSystem\<close> guarantee, and what they do not.
\<close>

section \<open>Paths as lists of names\<close>

fun path_of :: "string list \<Rightarrow> string" where
  "path_of [] = ''/''"
| "path_of names = concat (map (\<lambda>n. CHR ''/'' # n) names)"

definition plain_name :: "string \<Rightarrow> bool" where
  "plain_name n \<longleftrightarrow> CHR ''/'' \<notin> set n \<and> n \<noteq> ''.'' \<and> n \<noteq> ''..''"

text \<open>
  A path without detours: no name in it stands for another directory, and what is on the way is
  there and is no symbolic link.
\<close>

definition true_path :: "(string \<Rightarrow> nat + string) \<Rightarrow> string list \<Rightarrow> bool" where
  "true_path links names \<longleftrightarrow>
     list_all plain_name names \<and> [] \<notin> set (butlast names) \<and>
     (\<forall>k. 0 < k \<longrightarrow> k < length names \<longrightarrow> links (path_of (take k names)) = Inl EINVAL)"

lemma path_of_append: "xs \<noteq> [] \<Longrightarrow> path_of (xs @ ys) = path_of xs @ concat (map (\<lambda>n. CHR ''/'' # n) ys)"
  by (cases xs) auto

lemma assemble_path_of: "assemble cs = path_of (map pc_text cs)"
  by (cases cs) (simp_all add: assemble_def comp_def)

lemma slash_free_cancel:
  assumes "d @ CHR ''/'' # u = n @ v" "CHR ''/'' \<notin> set d" "CHR ''/'' \<notin> set n" "v = [] \<or> hd v = CHR ''/''"
  shows "n = d \<and> v = CHR ''/'' # u"
  using assms
proof (induction d arbitrary: n)
  case Nil
  then show ?case by (cases n) auto
next
  case (Cons x d)
  then show ?case by (cases n) auto
qed

lemma path_prefix:
  assumes "concat (map (\<lambda>n. CHR ''/'' # n) ds) @ CHR ''/'' # u = concat (map (\<lambda>n. CHR ''/'' # n) names)"
    and "list_all plain_name ds" "list_all plain_name names"
  shows "\<exists>rest. names = ds @ rest"
  using assms
proof (induction ds arbitrary: names)
  case (Cons d ds)
  then obtain n ns where names: "names = n # ns" by (cases names) auto
  let ?u = "concat (map (\<lambda>n. CHR ''/'' # n) ds) @ CHR ''/'' # u"
  let ?v = "concat (map (\<lambda>n. CHR ''/'' # n) ns)"
  have start: "?v = [] \<or> hd ?v = CHR ''/''" by (cases ns) auto
  have "\<exists>u'. ?u = CHR ''/'' # u'" by (cases ds) auto
  then obtain u' where u': "?u = CHR ''/'' # u'" by blast
  then have "d @ CHR ''/'' # u' = n @ ?v" using Cons.prems(1) names by simp
  from slash_free_cancel [OF this _ _ start] Cons.prems(2,3) names
  have "n = d" "?v = CHR ''/'' # u'" by (auto simp: plain_name_def)
  then have "?u = ?v" using u' by simp
  from Cons.IH [OF this] Cons.prems(2,3) names \<open>n = d\<close> show ?case by simp
qed simp

section \<open>Components that exist\<close>

definition sound :: "(string \<Rightarrow> nat + string) \<Rightarrow> pathComponent list \<Rightarrow> bool" where
  "sound links cs \<longleftrightarrow>
     list_all (\<lambda>c. plain_name (pc_text c)) cs \<and>
     (\<forall>k<length cs. if pc_hypothetical (cs ! k)
        then Suc k = length cs \<and> links (assemble cs) = Inl ENOENT
        else links (assemble (take (Suc k) cs)) = Inl EINVAL)"

lemma soundD:
  "sound links cs \<Longrightarrow> k < length cs \<Longrightarrow> if pc_hypothetical (cs ! k)
     then Suc k = length cs \<and> links (assemble cs) = Inl ENOENT
     else links (assemble (take (Suc k) cs)) = Inl EINVAL"
  unfolding sound_def by blast

definition no_gaps :: "pathComponent list \<Rightarrow> bool" where
  "no_gaps cs \<longleftrightarrow> list_all (\<lambda>c. pc_text c \<noteq> []) cs"

lemma sound_butlast: "sound links cs \<Longrightarrow> sound links (butlast cs)"
proof (cases cs rule: rev_cases)
  case (snoc ds d)
  assume sound: "sound links cs"
  have "\<not> pc_hypothetical (ds ! k) \<and> links (assemble (take (Suc k) ds)) = Inl EINVAL" if "k < length ds" for k
    using sound that snoc unfolding sound_def by (auto simp: nth_append dest!: spec [of _ k] split: if_splits)
  then show ?thesis using sound snoc by (simp add: sound_def)
qed simp

lemma hypothetical_missing: "sound links cs \<Longrightarrow> isHypothetical cs \<Longrightarrow> links (assemble cs) = Inl ENOENT"
  unfolding sound_def isHypothetical_def list_ex_length by (metis (mono_tags, lifting))

lemma sound_extend:
  assumes "sound links cs" "\<not> isHypothetical cs" "plain_name c"
    and "links (assemble (cs @ [\<lparr>pc_text = c, pc_hypothetical = False\<rparr>])) = Inl err"
    and "err = (if hyp then ENOENT else EINVAL)"
  shows "sound links (cs @ [\<lparr>pc_text = c, pc_hypothetical = hyp\<rparr>])"
proof -
  let ?cs = "cs @ [\<lparr>pc_text = c, pc_hypothetical = hyp\<rparr>]"
  have same: "assemble ?cs = assemble (cs @ [\<lparr>pc_text = c, pc_hypothetical = False\<rparr>])"
    by (simp add: assemble_path_of)
  have "if pc_hypothetical (?cs ! k) then Suc k = length ?cs \<and> links (assemble ?cs) = Inl ENOENT
      else links (assemble (take (Suc k) ?cs)) = Inl EINVAL" if "k < length ?cs" for k
  proof (cases "k < length cs")
    case True
    then have "\<not> pc_hypothetical (cs ! k)" using assms(2) by (auto simp: isHypothetical_def list_ex_length)
    then show ?thesis using True assms(1) by (simp add: sound_def nth_append)
  next
    case False
    then have "k = length cs" using that by simp
    then show ?thesis using same assms(4,5) by (cases hyp) simp_all
  qed
  moreover have "list_all (\<lambda>c. plain_name (pc_text c)) ?cs" using assms(1,3) by (simp add: sound_def)
  ultimately show ?thesis unfolding sound_def by blast
qed

lemma find_from_first:
  "find_from c s i = Some p \<Longrightarrow> i \<le> p \<and> p < length s \<and> s ! p = c \<and> (\<forall>k. i \<le> k \<longrightarrow> k < p \<longrightarrow> s ! k \<noteq> c)"
  "find_from c s i = None \<Longrightarrow> k < length s \<Longrightarrow> i \<le> k \<Longrightarrow> s ! k \<noteq> c"
proof -
  assume "find_from c s i = Some p"
  then obtain j where j: "j < length s - i" "s ! (i + j) = c" "p = i + j" "\<And>k. k < j \<Longrightarrow> s ! (i + k) \<noteq> c"
    by (auto simp: find_from_def find_Some_iff)
  have "s ! k \<noteq> c" if "i \<le> k" "k < p" for k using j(4) [of "k - i"] j(3) that by simp
  with j show "i \<le> p \<and> p < length s \<and> s ! p = c \<and> (\<forall>k. i \<le> k \<longrightarrow> k < p \<longrightarrow> s ! k \<noteq> c)" by auto
next
  assume "find_from c s i = None" "k < length s" "i \<le> k"
  then show "s ! k \<noteq> c" by (auto simp: find_from_def find_None_iff)
qed

text \<open>
  A component below a missing one: from then on the text that is appended begins with the one
  before it, so that it is never a dot and the path only grows.
\<close>

lemma missing_only_grows:
  assumes "realpath_loop n F orig cs pos lst s = (Inr r, s')"
    and "isHypothetical cs" "lst + 1 < pos" "pos < length orig" "orig ! pos = CHR ''/''"
  shows "length (assemble cs) < length r"
  using assms
proof (induction n arbitrary: cs pos)
  case (Suc n)
  have step: "processComponent F orig cs p lst c s =
      (Inr (Onward (cs @ [\<lparr>pc_text = c, pc_hypothetical = True\<rparr>]) False), s)"
    if "CHR ''/'' \<in> set c" for p c
    using that Suc.prems(2) by (auto simp: processComponent_def ret_def)
  have nonempty: "cs \<noteq> []" using Suc.prems(2) by (auto simp: isHypothetical_def)
  have longer: "length (assemble cs) < length (assemble (cs @ [c]))" for c
    using nonempty by (simp add: assemble_def)
  have hyp: "isHypothetical (cs @ [c])" for c using Suc.prems(2) by (simp add: isHypothetical_def)
  have slash: "CHR ''/'' \<in> set (take k (drop (lst + 1) orig))" if "pos - (lst + 1) < k" for k
    using that Suc.prems(3-5)
    by (auto simp: in_set_conv_nth intro!: exI [of _ "pos - (lst + 1)"])
  show ?case
  proof (cases "find_from (CHR ''/'') orig (pos + 1)")
    case None
    have "CHR ''/'' \<in> set (drop (lst + 1) orig)" using slash [of "length orig"] Suc.prems(4)
      by (auto dest: in_set_takeD)
    then show ?thesis using Suc.prems(1) None step longer by (auto simp: bindM_def ret_def)
  next
    case (Some p)
    note p = find_from_first(1) [OF Some]
    let ?c = "take (p - lst - 1) (drop (lst + 1) orig)"
    have "CHR ''/'' \<in> set ?c" using p Suc.prems(3) by (intro slash) auto
    from step [OF this, of "Some p"] Suc.prems(1,3) Some p
    have "realpath_loop n F orig (cs @ [\<lparr>pc_text = ?c, pc_hypothetical = True\<rparr>]) p lst s = (Inr r, s')"
      by (auto simp: bindM_def)
    from Suc.IH [OF this hyp _ _ ] p Suc.prems(3)
    have "length (assemble (cs @ [\<lparr>pc_text = ?c, pc_hypothetical = True\<rparr>])) < length r" by simp
    then show ?thesis using longer less_trans by blast
  qed
qed (simp add: throw_def)

section \<open>What the true path is\<close>

text \<open>The file system as long as nothing changes it: what a path is a link to.\<close>

definition unchanged :: "'w filesystem \<Rightarrow> (string \<Rightarrow> nat + string) \<Rightarrow> bool" where
  "unchanged F links \<longleftrightarrow> (\<forall>x w. fs_readlink F x w = (links x, w))"

lemma sound_true_path:
  assumes "sound links cs" "no_gaps (butlast cs)"
  shows "true_path links (map pc_text cs)"
proof -
  have "links (path_of (take k (map pc_text cs))) = Inl EINVAL" if "0 < k" "k < length cs" for k
  proof -
    obtain j where j: "k = Suc j" using gr0_implies_Suc [OF \<open>0 < k\<close>] by blast
    then have "links (assemble (take (Suc j) cs)) = Inl EINVAL"
      using soundD [OF assms(1), of j] \<open>k < length cs\<close> by (simp split: if_splits)
    then show ?thesis by (simp add: assemble_path_of take_map j)
  qed
  moreover have "[] \<notin> set (butlast (map pc_text cs))"
    using assms(2) by (auto simp: no_gaps_def list_all_iff map_butlast [symmetric])
  ultimately show ?thesis using assms(1) by (auto simp: true_path_def sound_def list_all_iff)
qed

lemma process_sound:
  assumes F: "unchanged F links" and cs: "sound links cs" "no_gaps cs" "CHR ''/'' \<notin> set c"
    and run: "processComponent F orig cs p lst c s = (Inr r, s')"
  shows "(\<exists>cs'. r = Onward cs' True \<and> sound links cs' \<and> no_gaps (butlast cs') \<and> (c \<noteq> [] \<longrightarrow> no_gaps cs')) \<or>
    (r = Onward (cs @ [\<lparr>pc_text = c, pc_hypothetical = True\<rparr>]) False \<and> isHypothetical cs) \<or>
    (\<exists>orig' pos'. r = Followed orig' cs pos') \<or> (\<exists>orig'. r = Followed orig' [] 0)"
proof -
  have gaps: "no_gaps (butlast cs)" "no_gaps (butlast (butlast cs))"
    using cs(2) by (auto simp: no_gaps_def list_all_iff dest!: in_set_butlastD)
  have link: "callM (fs_readlink F x) s = (Inr (links x), s)" for x
    using F by (simp add: unchanged_def callM_def call_def)
  show ?thesis
  proof (cases "c = ''.'' \<or> c = ''..''")
    case True
    then show ?thesis
      using run cs gaps sound_butlast [OF cs(1)] by (auto simp: processComponent_def ret_def)
  next
    case False
    then have plain: "plain_name c" using cs(3) by (simp add: plain_name_def)
    show ?thesis
    proof (cases "isHypothetical cs")
      case True
      then show ?thesis using run False by (auto simp: processComponent_def ret_def)
    next
      case there: False
      note extend = sound_extend [OF cs(1) there plain]
      have "no_gaps (butlast (cs @ [x])) \<and> (c \<noteq> [] \<longrightarrow> pc_text x = c \<longrightarrow> no_gaps (cs @ [x]))" for x
        using cs(2) by (auto simp: no_gaps_def)
      then show ?thesis
        using run False there link extend [of ENOENT True] extend [of EINVAL False]
        by (auto simp: processComponent_def Let_def bindM_def ret_def throw_def follow_link_def
            split: sum.splits if_splits option.splits)
    qed
  qed
qed

lemma loop_true_path:
  assumes F: "unchanged F links" and missing: "\<And>x. links x = Inl ENOENT \<Longrightarrow> x = q"
    and run: "realpath_loop n F orig cs pos pos s = (Inr q, s')" and cs: "sound links cs" "no_gaps cs"
  shows "\<exists>names. q = path_of names \<and> true_path links names"
  using run cs
proof (induction n arbitrary: orig cs pos s)
  case (Suc n)
  have none: "no_gaps []" "sound links []" by (simp_all add: no_gaps_def sound_def)
  show ?case
  proof (cases "find_from (CHR ''/'') orig (pos + 1)")
    case None
    let ?c = "drop (pos + 1) orig"
    have "CHR ''/'' \<notin> set ?c" using find_from_first(2) [OF None] by (auto simp: in_set_conv_nth)
    note step = process_sound [OF F Suc.prems(2,3) this]
    obtain r s1 where r: "processComponent F orig cs None pos ?c s = (Inr r, s1)"
      using Suc.prems(1) None by (auto simp: bindM_def split: prod.splits sum.splits)
    have "(\<exists>cs'. q = assemble cs' \<and> sound links cs' \<and> no_gaps (butlast cs')) \<or>
        (q = assemble (cs @ [\<lparr>pc_text = ?c, pc_hypothetical = True\<rparr>]) \<and> isHypothetical cs) \<or>
        (\<exists>orig' pos'. realpath_loop n F orig' cs pos' pos' s1 = (Inr q, s')) \<or>
        (\<exists>orig'. realpath_loop n F orig' [] 0 0 s1 = (Inr q, s'))"
      using step [OF r] Suc.prems(1) None r by (elim disjE exE conjE) (auto simp: bindM_def ret_def)
    then consider
        cs' where "q = assemble cs'" "sound links cs'" "no_gaps (butlast cs')"
      | "q = assemble (cs @ [\<lparr>pc_text = ?c, pc_hypothetical = True\<rparr>])" "isHypothetical cs"
      | orig' pos' where "realpath_loop n F orig' cs pos' pos' s1 = (Inr q, s')"
      | orig' where "realpath_loop n F orig' [] 0 0 s1 = (Inr q, s')"
      by blast
    then show ?thesis
    proof cases
      case 1
      then show ?thesis using sound_true_path by (auto simp: assemble_path_of)
    next
      case 2
      then have "assemble cs = q" using missing hypothetical_missing [OF Suc.prems(2)] by blast
      moreover have "cs \<noteq> []" using 2(2) by (auto simp: isHypothetical_def)
      ultimately show ?thesis using 2(1) by (simp add: assemble_def)
    next
      case 3
      then show ?thesis using Suc.IH Suc.prems(2,3) by blast
    next
      case 4
      then show ?thesis using Suc.IH none by blast
    qed
  next
    case (Some p)
    note p = find_from_first(1) [OF Some]
    let ?c = "take (p - pos - 1) (drop (pos + 1) orig)"
    show ?thesis
    proof (cases "p \<le> pos + 1")
      case True
      then have "realpath_loop n F orig cs p p s = (Inr q, s')" using Suc.prems(1) Some by simp
      then show ?thesis using Suc.IH Suc.prems(2,3) by blast
    next
      case False
      have slash: "CHR ''/'' \<notin> set ?c" using p by (auto simp: in_set_conv_nth)
      have full: "?c \<noteq> []" using False p by simp
      obtain r s1 where r: "processComponent F orig cs (Some p) pos ?c s = (Inr r, s1)"
        using Suc.prems(1) Some False by (auto simp: bindM_def split: prod.splits sum.splits)
      have "(\<exists>cs'. realpath_loop n F orig cs' p p s1 = (Inr q, s') \<and> sound links cs' \<and> no_gaps cs') \<or>
          (realpath_loop n F orig (cs @ [\<lparr>pc_text = ?c, pc_hypothetical = True\<rparr>]) p pos s1 = (Inr q, s') \<and>
            isHypothetical cs) \<or>
          (\<exists>orig' pos'. realpath_loop n F orig' cs pos' pos' s1 = (Inr q, s')) \<or>
          (\<exists>orig'. realpath_loop n F orig' [] 0 0 s1 = (Inr q, s'))"
        using process_sound [OF F Suc.prems(2,3) slash r] Suc.prems(1) Some r False full
        by (elim disjE exE conjE) (auto simp: bindM_def)
      then consider
          cs' where "realpath_loop n F orig cs' p p s1 = (Inr q, s')" "sound links cs'" "no_gaps cs'"
        | "realpath_loop n F orig (cs @ [\<lparr>pc_text = ?c, pc_hypothetical = True\<rparr>]) p pos s1 = (Inr q, s')"
          "isHypothetical cs"
        | orig' pos' where "realpath_loop n F orig' cs pos' pos' s1 = (Inr q, s')"
        | orig' where "realpath_loop n F orig' [] 0 0 s1 = (Inr q, s')"
        by blast
      then show ?thesis
      proof cases
        case 1
        then show ?thesis using Suc.IH by blast
      next
        case 2
        then have "assemble cs = q" using missing hypothetical_missing [OF Suc.prems(2)] by blast
        moreover have "length (assemble (cs @ [\<lparr>pc_text = ?c, pc_hypothetical = True\<rparr>])) < length q"
          using 2 p False by (intro missing_only_grows [OF 2(1)]) (auto simp: isHypothetical_def)
        moreover have "cs \<noteq> []" using 2(2) by (auto simp: isHypothetical_def)
        ultimately show ?thesis by (auto simp: assemble_def)
      next
        case 3
        then show ?thesis using Suc.IH Suc.prems(2,3) by blast
      next
        case 4
        then show ?thesis using Suc.IH none by blast
      qed
    qed
  qed
qed (simp add: throw_def)

section \<open>Places for entries\<close>


lemmas realpath_loop_numeral = realpath_loop.simps(2) [of "pred_numeral k" for k, folded numeral_eq_Suc]

lemma find_from_step:
  "find_from c s i = (if i < length s then if s ! i = c then Some i else find_from c s (Suc i) else None)"
  by (simp add: find_from_def upt_rec [of i])

lemma processComponent_there:
  assumes "unchanged F links"
  shows "processComponent F orig cs pos lst c s =
    (if c = ''.'' then ret (Onward cs True) s
     else if c = ''..'' then ret (Onward (butlast cs) True) s
     else if isHypothetical cs
       then ret (Onward (cs @ [\<lparr>pc_text = c, pc_hypothetical = True\<rparr>]) False) s
     else let extended = cs @ [\<lparr>pc_text = c, pc_hypothetical = False\<rparr>]
          in case links (assemble extended) of
               Inl err \<Rightarrow>
                 if err = EINVAL then ret (Onward extended True) s
                 else if err = ENOENT
                   then ret (Onward (cs @ [\<lparr>pc_text = c, pc_hypothetical = True\<rparr>]) True) s
                 else throw (link_error err (assemble extended)) s
             | Inr linkPath \<Rightarrow> (follow_link orig cs pos lst linkPath, s))"
  using assms
  by (simp add: processComponent_def unchanged_def callM_def call_def bindM_def Let_def split: sum.split)

lemmas follow_paths = place_for_def realpathHyp_def bindM_def ret_def realpath_loop_numeral
  isHypothetical_def assemble_def find_from_step Let_def follow_link_def EINVAL_def ENOENT_def
  begins_with_def

definition sample_links :: "string \<Rightarrow> nat + string" where
  "sample_links x =
     (if x \<in> {''/tmp'', ''/tmp/c'', ''/tmp/c/a''} then Inl EINVAL
      else if x = ''/tmp/c/l'' then Inr ''b/../a'' else if x = ''/tmp/c/b'' then Inl EINVAL
      else if x = ''/tmp/c/a/x'' then Inl ENOENT else Inl EACCES)"

definition sample_files :: "(string \<Rightarrow> nat + string) \<Rightarrow> unit filesystem" where
  "sample_files links =
     \<lparr>fs_getcwd = (\<lambda>w. (Inr ''/'', w)), fs_readlink = (\<lambda>x w. (links x, w)),
      fs_stat = (\<lambda>x w. (Some ENOENT, w)), fs_mkdir = (\<lambda>x m w. (None, w)), fs_symlink = (\<lambda>x y w. (None, w)),
      fs_writeFile = (\<lambda>x y w. (True, w)), fs_readFile = (\<lambda>x w. (None, w)), fs_readdir = (\<lambda>x w. (None, w)),
      fs_unlink = (\<lambda>x w. (None, w)), fs_rmdir = (\<lambda>x w. (None, w)), fs_mkdtemp = (\<lambda>x w. (Inl EACCES, w))\<rparr>"

lemma sample_files_unchanged: "unchanged (sample_files links) links"
  by (simp add: unchanged_def sample_files_def)


text \<open>Where a path leads when two dots stand for the directory above.\<close>

fun walk :: "string list \<Rightarrow> string list \<Rightarrow> string list" where
  "walk seen [] = rev seen"
| "walk seen (n # names) =
     (if n = ''..'' then walk (tl seen) names
      else if n = ''.'' \<or> n = [] then walk seen names
      else walk (n # seen) names)"



end
