(* ===== verification/Rights.thy ===== *)
theory Rights
  imports Promises
begin

text \<open>
  Who may use the commands about application instances, volume claims and clusters: members of
  the owning group and administrators, by what the database holds at that moment.
\<close>

section \<open>The test of membership in a handler\<close>

lemma frozen_member:
  assumes "served_by E view" and "frozen view w s" and "uid \<noteq> ''''"
    and "userInGroup E uid gid s = (Inr True, s')" and "begins_with groupIDPrefix gid"
  shows "stored_member view w uid gid"
proof -
  have "member_coherent view s" using assms(2) by (simp add: frozen_def coherent_def)
  from check_membership_correct [OF served_rw [OF assms(1)] this assms(3)
      assms(4) [unfolded userInGroup_ID [OF assms(5)]]]
  show ?thesis by (simp add: stored_member_frozen [OF assms(2)])
qed

lemma frozen_reads:
  assumes "served_by E view"
  shows "keeps (frozen view w) (getApplicationInstance E i)"
    and "keeps (frozen view w) (getPersistentVolumeClaim E j)"
    and "keeps (frozen view w) (getCluster E c)"
    and "keeps (frozen view w) (getGroup E g)"
  by (intro keeps_frozen coherent_reads keeps_quiet_leaves getApplicationInstance_quiet
      getPersistentVolumeClaim_quiet getCluster_quiet getGroup_quiet served_database assms)+

text \<open>An account that is stored, and that is an administrator or a stored member of the group.\<close>

definition entitled :: "'w view \<Rightarrow> 'w \<Rightarrow> User \<Rightarrow> string \<Rightarrow> bool" where
  "entitled view w u g \<longleftrightarrow>
     stored_user view w (u_id u) = Some u \<and>
     (u_admin u \<or> (begins_with groupIDPrefix g \<longrightarrow> stored_member view w (u_id u) g))"

text \<open>The part that the handlers have in common, up to the test.\<close>

lemma frozen_requester:
  assumes "served_by E view" and "coherent view s" and "requester E req m k s = (Inr rsp, s')"
    and "rsp_code rsp \<noteq> 403"
  obtains u s1 where "token_user E req s = (Inr u, s1)" "u_valid u" "k u s1 = (Inr rsp, s')"
    "frozen view (world s) s1" "stored_user view (world s) (u_id u) = Some u" "u_id u \<noteq> ''''"
proof -
  from assms(3,4) obtain u s1 where u: "token_user E req s = (Inr u, s1)" "u_valid u" "k u s1 = (Inr rsp, s')"
    by (auto simp: requester_def bindM_def ret_def failure_def split: prod.splits sum.splits if_splits)
  have "frozen view (world s) s" using assms(2) by (simp add: frozen_def)
  from keepsD [OF frozen_token_user [OF assms(1)] this u(1)]
  have "frozen view (world s) s1" .
  with that [OF u this] token_user_stored [OF assms(1,2) u(1,2)] token_user_has_ID [OF assms(1,2) u(1,2)]
  show ?thesis by blast
qed

lemma entitled_member:
  assumes "served_by E view" and "stored_user view w (u_id u) = Some u" and "u_id u \<noteq> ''''"
    and "frozen view w s" and "(if u_admin u then ret True else userInGroup E (u_id u) g) s = (Inr True, s')"
  shows "entitled view w u g"
  using frozen_member [OF assms(1,4,3)] assms(2,5) by (auto simp: entitled_def ret_def split: if_splits)

lemma own_instance_entitled:
  assumes "served_by E view" and "coherent view s"
    and "with_own_instance E req instanceID notFound k s = (Inr rsp, s')" and "rsp_code rsp \<notin> {notFound, 403}"
  shows "\<exists>u i s1 s2. token_user E req s = (Inr u, s1) \<and> getApplicationInstance E instanceID s1 = (Inr i, s2) \<and>
    i_valid i \<and> entitled view (world s) u (i_owningGroup i)"
proof -
  from assms(4) have "rsp_code rsp \<noteq> 403" by simp
  note requester = frozen_requester [OF assms(1,2) assms(3) [unfolded with_own_instance_def] this]
  obtain u s1 where u: "token_user E req s = (Inr u, s1)" "u_valid u"
    and run: "bindM (getApplicationInstance E instanceID) (\<lambda>i.
     if \<not> i_valid i then ret (failure notFound ''Application instance not found'')
     else bindM (if u_admin u then ret True else userInGroup E (u_id u) (i_owningGroup i)) (\<lambda>allowed.
     if \<not> allowed then ret (failure 403 ''User not authorized'') else k i)) s1 = (Inr rsp, s')"
    and w: "frozen view (world s) s1" "stored_user view (world s) (u_id u) = Some u" "u_id u \<noteq> ''''"
    by (rule requester)
  from run assms(4) obtain i s2 s3 where i: "getApplicationInstance E instanceID s1 = (Inr i, s2)" "i_valid i"
    and allowed: "(if u_admin u then ret True else userInGroup E (u_id u) (i_owningGroup i)) s2 = (Inr True, s3)"
    by (auto simp: bindM_def ret_def failure_def split: prod.splits sum.splits if_splits)
  from keepsD [OF frozen_reads(1) [OF assms(1)] w(1) i(1)] have "frozen view (world s) s2" .
  from entitled_member [OF assms(1) w(2,3) this allowed] u i show ?thesis by blast
qed

lemma own_volume_entitled:
  assumes "served_by E view" and "coherent view s"
    and "requester E req ''User not authorized'' (\<lambda>user.
     bindM (getPersistentVolumeClaim E claimID) (\<lambda>volume.
     if \<not> v_valid volume then ret (failure 404 ''Volume not found'')
     else bindM (if u_admin user then ret True
                 else userInGroup E (u_id user) (v_group volume)) (\<lambda>allowed.
     if \<not> allowed then ret (failure 403 ''User not authorized'') else k volume))) s = (Inr rsp, s')"
    and "rsp_code rsp \<notin> {404, 403}"
  shows "\<exists>u v s1 s2. token_user E req s = (Inr u, s1) \<and> getPersistentVolumeClaim E claimID s1 = (Inr v, s2) \<and>
    v_valid v \<and> entitled view (world s) u (v_group v)"
proof -
  from assms(4) have "rsp_code rsp \<noteq> 403" by simp
  note requester = frozen_requester [OF assms(1,2,3) this]
  obtain u s1 where u: "token_user E req s = (Inr u, s1)" "u_valid u"
    and run: "bindM (getPersistentVolumeClaim E claimID) (\<lambda>volume.
     if \<not> v_valid volume then ret (failure 404 ''Volume not found'')
     else bindM (if u_admin u then ret True else userInGroup E (u_id u) (v_group volume)) (\<lambda>allowed.
     if \<not> allowed then ret (failure 403 ''User not authorized'') else k volume)) s1 = (Inr rsp, s')"
    and w: "frozen view (world s) s1" "stored_user view (world s) (u_id u) = Some u" "u_id u \<noteq> ''''"
    by (rule requester)
  from run assms(4) obtain v s2 s3 where v: "getPersistentVolumeClaim E claimID s1 = (Inr v, s2)" "v_valid v"
    and allowed: "(if u_admin u then ret True else userInGroup E (u_id u) (v_group v)) s2 = (Inr True, s3)"
    by (auto simp: bindM_def ret_def failure_def split: prod.splits sum.splits if_splits)
  from keepsD [OF frozen_reads(2) [OF assms(1)] w(1) v(1)] have "frozen view (world s) s2" .
  from entitled_member [OF assms(1) w(2,3) this allowed] u v show ?thesis by blast
qed

lemma managed_cluster_entitled:
  assumes "served_by E view" and "coherent view s"
    and "requester E req ''User not authorized'' (\<lambda>user.
     with_cluster E clusterID (\<lambda>cluster.
     bindM (may_manage E user cluster) (\<lambda>allowed.
     if \<not> allowed then ret (failure 403 ''User not authorized'') else k cluster))) s = (Inr rsp, s')"
    and "rsp_code rsp \<notin> {404, 403}"
  shows "\<exists>u c s1 s2. token_user E req s = (Inr u, s1) \<and> getCluster E clusterID s1 = (Inr c, s2) \<and>
    c_valid c \<and> entitled view (world s) u (c_owningGroup c)"
proof -
  from assms(4) have "rsp_code rsp \<noteq> 403" by simp
  note requester = frozen_requester [OF assms(1,2,3) this]
  obtain u s1 where u: "token_user E req s = (Inr u, s1)" "u_valid u"
    and run: "with_cluster E clusterID (\<lambda>cluster.
     bindM (may_manage E u cluster) (\<lambda>allowed.
     if \<not> allowed then ret (failure 403 ''User not authorized'') else k cluster)) s1 = (Inr rsp, s')"
    and w: "frozen view (world s) s1" "stored_user view (world s) (u_id u) = Some u" "u_id u \<noteq> ''''"
    by (rule requester)
  from run assms(4) obtain c s2 s3 where c: "getCluster E clusterID s1 = (Inr c, s2)" "c_valid c"
    and allowed: "may_manage E u c s2 = (Inr True, s3)"
    by (auto simp: with_cluster_def bindM_def ret_def failure_def split: prod.splits sum.splits if_splits)
  from keepsD [OF frozen_reads(3) [OF assms(1)] w(1) c(1)] have "frozen view (world s) s2" .
  from entitled_member [OF assms(1) w(2,3) this allowed [unfolded may_manage_def]] u c
  show ?thesis by blast
qed

lemma permission_command_entitled:
  assumes "served_by E view" and "coherent view s"
    and "requester E req ''User not authorized'' (\<lambda>user.
     with_cluster E clusterID (\<lambda>cluster.
     AccessCommands.with_group E groupID (\<lambda>g.
     bindM (may_manage E user cluster) (\<lambda>allowed.
     if \<not> allowed then ret (failure 403 ''User not authorized'') else k cluster)))) s = (Inr rsp, s')"
    and "rsp_code rsp \<notin> {404, 403}"
  shows "\<exists>u c s1 s2. token_user E req s = (Inr u, s1) \<and> getCluster E clusterID s1 = (Inr c, s2) \<and>
    c_valid c \<and> entitled view (world s) u (c_owningGroup c)"
proof -
  from assms(4) have "rsp_code rsp \<noteq> 403" by simp
  note requester = frozen_requester [OF assms(1,2,3) this]
  obtain u s1 where u: "token_user E req s = (Inr u, s1)" "u_valid u"
    and run: "with_cluster E clusterID (\<lambda>cluster.
     AccessCommands.with_group E groupID (\<lambda>g.
     bindM (may_manage E u cluster) (\<lambda>allowed.
     if \<not> allowed then ret (failure 403 ''User not authorized'') else k cluster))) s1 = (Inr rsp, s')"
    and w: "frozen view (world s) s1" "stored_user view (world s) (u_id u) = Some u" "u_id u \<noteq> ''''"
    by (rule requester)
  from run assms(4) obtain c s2 g s3 s4 where c: "getCluster E clusterID s1 = (Inr c, s2)" "c_valid c"
    and g: "getGroup E groupID s2 = (Inr g, s3)"
    and allowed: "may_manage E u c s3 = (Inr True, s4)"
    by (auto simp: with_cluster_def AccessCommands.with_group_def bindM_def ret_def failure_def
        split: prod.splits sum.splits if_splits)
  from keepsD [OF frozen_reads(3) [OF assms(1)] w(1) c(1)] have "frozen view (world s) s2" .
  from keepsD [OF frozen_reads(4) [OF assms(1)] this g] have "frozen view (world s) s3" .
  from entitled_member [OF assms(1) w(2,3) this allowed [unfolded may_manage_def]] u c
  show ?thesis by blast
qed

section \<open>Releases and volume claims\<close>

definition instance_command :: "string \<Rightarrow> endpoint \<Rightarrow> bool" where
  "instance_command i ep \<longleftrightarrow>
     ep \<in> {FetchApplicationInstanceInfo i, RestartApplicationInstance i, GetApplicationInstanceLogs i,
       GetApplicationInstanceScale i, ScaleApplicationInstance i, UpdateApplicationInstance i,
       DeleteApplicationInstance i}"

text \<open>
  C9: a release or a volume claim is shown, changed, restarted, scaled or deleted only for
  somebody who is entitled to it: an answer of status 200 or 500 to one of these commands shows
  that the token belongs to an account in the database, and that this account is an
  administrator's or its membership in the group that owns the release or claim is in the
  database at that moment.
\<close>

theorem releases_are_for_members:
  assumes "served_by E view" and "services_apart X view" and "served E X view s"
    and "execute E X n ep req s = Some (Inr rsp, s')" and "rsp_code rsp \<in> {200, 500}"
  shows "(instance_command i ep \<longrightarrow> (\<exists>u a s1 s2. token_user E req s = (Inr u, s1) \<and>
      getApplicationInstance E i s1 = (Inr a, s2) \<and> i_valid a \<and> entitled view (world s) u (i_owningGroup a))) \<and>
    (ep \<in> {FetchVolumeClaimInfo i, DeleteVolumeClaim i} \<longrightarrow>
      (\<exists>u v s1 s2. token_user E req s = (Inr u, s1) \<and>
        getPersistentVolumeClaim E i s1 = (Inr v, s2) \<and> v_valid v \<and> entitled view (world s) u (v_group v)))"
proof -
  note coherent = served_coherent [OF assms(3,1,2)]
  have code: "rsp_code rsp \<notin> {400, 403}" "rsp_code rsp \<notin> {404, 403}" using assms(5) by auto
  have deletion: "do_deleteApplicationInstance E X req i =
      with_own_instance E req i 404 (\<lambda>a.
        bindM (delete_instance E X a (req_params req ''force'' \<noteq> None)) (\<lambda>err.
        if err \<noteq> [] then ret (failure 500 err) else ret okay))"
    unfolding do_deleteApplicationInstance_def with_own_instance_def ..
  show ?thesis
    using assms(4) own_instance_entitled [OF assms(1) coherent _ code(1)]
      own_instance_entitled [OF assms(1) coherent _ code(2)] own_volume_entitled [OF assms(1) coherent _ code(2)]
    unfolding instance_command_def
    by (intro conjI impI; elim insertE emptyE; simp add: whole_def deletion do_fetchApplicationInstanceInfo_def
        do_restartApplicationInstance_def do_getApplicationInstanceLogs_def do_getApplicationInstanceScale_def
        do_scaleApplicationInstance_def do_updateApplicationInstance_def do_fetchVolumeClaimInfo_def
        do_deleteVolumeClaim_def)
qed

text \<open>A server whose database has an account, its membership, a release and a cluster.\<close>

definition sample_instance :: ApplicationInstance where
  "sample_instance = \<lparr>i_valid = True, i_id = ''instance_I'', i_name = ''web'', i_application = ''nginx'',
     i_owningGroup = ''group_B'', i_cluster = ''cluster_C'', i_config = '''', i_ctime = ''now''\<rparr>"

definition housed :: mem_world where
  "housed = mem_start\<lparr>mw_rows :=
     [((userTableName, entity_key ''user_A''), user_item sample_user),
      ((userTableName, row_key ''user_A'' (membership_sortKey ''user_A'' ''group_B'')),
        membership_item ''user_A'' ''group_B''),
      ((instanceTableName, entity_key ''instance_I''), instance_item sample_instance),
      ((clusterTableName, entity_key ''cluster_C''), cluster_item sample_cluster)]\<rparr>"

definition home_server :: "mem_world persistent_store" where
  "home_server = new_store mem_env ''/var/tmp/slate'' housed"

lemma home_server_served: "served mem_env mem_services mem_view home_server"
  unfolding home_server_def
proof (rule served.start)
  show "account_rows mem_view housed" "member_rows mem_view housed"
    by (auto simp: account_rows_def member_rows_def housed_def mem_view_def user_item_def sample_user_def
        instance_item_def cluster_item_def membership_item_def userTableName_def instanceTableName_def
        clusterTableName_def split: if_splits)
qed

definition known_server :: "mem_world persistent_store" where
  "known_server = snd (token_user mem_env sample_request home_server)"

lemma home_server_token: "token_user mem_env sample_request home_server = (Inr sample_user, known_server)"
proof -
  have "fst (token_user mem_env sample_request home_server) = Inr sample_user"
    by (simp add: token_user_def sample_request_def authenticateUser_def findUserByToken_def
        home_server_def sample_defs sample_user_def user_item_def housed_def membership_item_def
        user_of_token_item_def Let_def userTableName_def instanceTableName_def clusterTableName_def)
  then show ?thesis unfolding known_server_def by (metis prod.collapse)
qed

lemmas known_defs = known_server_def token_user_def sample_request_def authenticateUser_def
  findUserByToken_def home_server_def sample_defs sample_user_def user_item_def housed_def
  membership_item_def user_of_token_item_def Let_def cache_user_def userCacheValidity_def
  userTableName_def instanceTableName_def clusterTableName_def

definition shown_server :: "mem_world persistent_store" where
  "shown_server = snd (getApplicationInstance mem_env ''instance_I'' known_server)"

lemma home_instance:
  "getApplicationInstance mem_env ''instance_I'' known_server = (Inr sample_instance, shown_server)"
proof -
  have "fst (getApplicationInstance mem_env ''instance_I'' known_server) = Inr sample_instance"
    by (simp add: getApplicationInstance_def known_defs instance_item_def instance_of_ID_item_def
        sample_instance_def)
  then show ?thesis unfolding shown_server_def by (metis prod.collapse)
qed

lemma shown_server_member: "\<exists>s'. userInGroup mem_env ''user_A'' ''group_B'' shown_server = (Inr True, s') \<and>
    mw_rows (world s') = mw_rows housed \<and> mw_failures (world s') = [] \<and> groupCache s' = [] \<and>
    instanceConfigCache s' = []"
  by (simp add: userInGroup_ID [OF sample_group_ID] check_membership_def shown_server_def known_defs
      getApplicationInstance_def membership_cached_iff cached_membership_def instance_item_def
      sample_instance_def instance_of_ID_item_def mm_find_value_def cache_membership_def
      cache_group_of_user_def cache_instance_def)

lemma home_server_answer:
  "\<exists>rsp s'. execute mem_env mem_services 0 (FetchApplicationInstanceInfo ''instance_I'') sample_request home_server =
     Some (Inr rsp, s') \<and> rsp_code rsp \<in> {200, 500}"
proof -
  obtain s1 where m: "userInGroup mem_env ''user_A'' ''group_B'' shown_server = (Inr True, s1)"
    and s1: "mw_rows (world s1) = mw_rows housed" "mw_failures (world s1) = []" "groupCache s1 = []"
      "instanceConfigCache s1 = []" using shown_server_member by blast
  have "\<exists>s2. getApplicationInstanceConfig mem_env ''instance_I'' s1 = (Inr [], s2) \<and>
      mw_rows (world s2) = mw_rows housed \<and> mw_failures (world s2) = [] \<and> groupCache s2 = []"
    using s1 by (simp add: getApplicationInstanceConfig_def sample_defs housed_def config_sortKey_def
      instanceTableName_def userTableName_def clusterTableName_def)
  then obtain s2 where config: "getApplicationInstanceConfig mem_env ''instance_I'' s1 = (Inr [], s2)"
    and s2: "mw_rows (world s2) = mw_rows housed" "mw_failures (world s2) = []" "groupCache s2 = []"
    by blast
  have "\<exists>s3. getGroup mem_env ''group_B'' s2 = (Inr no_group, s3)"
    using s2 by (simp add: getGroup_def groupIDPrefix_def begins_with_def findGroupByID_def sample_defs housed_def
      groupTableName_def userTableName_def instanceTableName_def clusterTableName_def)
  then obtain s3 where g: "getGroup mem_env ''group_B'' s2 = (Inr no_group, s3)" by blast
  have "u_valid sample_user" "u_id sample_user = ''user_A''" "\<not> u_admin sample_user" "i_valid sample_instance"
    "i_owningGroup sample_instance = ''group_B''" "\<not> g_valid no_group"
    by (simp_all add: sample_user_def sample_instance_def no_group_def)
  then show ?thesis
    using home_instance m config g requester_user(1) [OF home_server_token]
    by (simp add: whole_def do_fetchApplicationInstanceInfo_def with_own_instance_def with_home_def
        bindM_def ret_def failure_def Let_def)
qed

theorem releases_are_for_members_witness:
  "entitled mem_view (world home_server) sample_user ''group_B''"
proof -
  obtain rsp s' where run: "execute mem_env mem_services 0 (FetchApplicationInstanceInfo ''instance_I'')
      sample_request home_server = Some (Inr rsp, s')" and ok: "rsp_code rsp \<in> {200, 500}"
    using home_server_answer by blast
  from releases_are_for_members [OF mem_served_by mem_services_apart home_server_served run ok, of "''instance_I''"]
  show ?thesis using home_server_token home_instance
    by (auto simp: instance_command_def sample_instance_def)
qed

section \<open>Clusters\<close>

definition cluster_command :: "string \<Rightarrow> endpoint \<Rightarrow> bool" where
  "cluster_command c ep \<longleftrightarrow>
     ep = UpdateCluster c \<or>
     (\<exists>g. ep = GrantGroupClusterAccess c g \<or> ep = RevokeGroupClusterAccess c g) \<or>
     (\<exists>g app. ep = AllowGroupUseOfApplication c g app \<or> ep = DenyGroupUseOfApplication c g app)"

text \<open>
  C10: who may use a cluster, with which applications, and how the cluster is described is
  decided only by somebody who is entitled to it: an answer but 403 and 404 to one of these
  commands shows that the token belongs to an account in the database, and that this account is
  an administrator's or its membership in the group that owns the cluster is in the database at
  that moment.
\<close>

theorem clusters_are_for_their_owners:
  assumes "served_by E view" and "services_apart X view" and "served E X view s"
    and "execute E X n ep req s = Some (Inr rsp, s')" and "rsp_code rsp \<notin> {404, 403}"
    and "cluster_command clusterID ep"
  shows "\<exists>u c s1 s2. token_user E req s = (Inr u, s1) \<and> getCluster E clusterID s1 = (Inr c, s2) \<and>
    c_valid c \<and> entitled view (world s) u (c_owningGroup c)"
  using assms(6,4) managed_cluster_entitled [OF assms(1) served_coherent [OF assms(3,1,2)] _ assms(5)]
    permission_command_entitled [OF assms(1) served_coherent [OF assms(3,1,2)] _ assms(5)]
  unfolding cluster_command_def
  by (elim disjE exE; simp add: whole_def do_updateCluster_def do_grantGroupClusterAccess_def
      do_revokeGroupClusterAccess_def do_allowGroupUseOfApplication_def do_denyGroupUseOfApplication_def)

lemmas cluster_reads = getCluster_def clusterIDPrefix_def begins_with_def findClusterByID_def known_defs
  cluster_item_def cluster_of_ID_item_def cluster_details_def cluster_updates_def sample_cluster_def
  keep_cluster_def cache_cluster_def writeClusterConfigToDisk_def

lemma home_cluster:
  "\<exists>c s2 s3. getCluster mem_env ''cluster_C'' known_server = (Inr c, s2) \<and> c_valid c \<and>
    c_owningGroup c = ''group_B'' \<and> c_id c = ''cluster_C'' \<and>
    userInGroup mem_env ''user_A'' ''group_B'' s2 = (Inr True, s3)"
  by (simp add: cluster_reads userInGroup_ID [OF sample_group_ID] check_membership_def
      membership_cached_iff cached_membership_def mm_find_value_def cache_membership_def cache_group_of_user_def)

lemma granted_any:
  "begins_with clusterIDPrefix cid \<Longrightarrow> \<exists>b s4. addGroupToCluster mem_env wildcard cid s3 = (Inr b, s4)"
  by (cases "call (e_put mem_env clusterTableName (access_item cid wildcard))
      (uncache_access cid (denied wildcard) s3)")
    (simp add: addGroupToCluster_def normalized_pair_def normalizeGroupID_def normalizeClusterID_def
      bindM_def ret_def grant_access_def ex_bool_eq split: sum.splits)

theorem clusters_are_for_their_owners_witness:
  "entitled mem_view (world home_server) sample_user ''group_B''"
proof -
  from home_cluster obtain c s2 s3 where c: "getCluster mem_env ''cluster_C'' known_server = (Inr c, s2)"
    "c_valid c" "c_owningGroup c = ''group_B''" "c_id c = ''cluster_C''"
    and m: "userInGroup mem_env ''user_A'' ''group_B'' s2 = (Inr True, s3)" by blast
  have "begins_with clusterIDPrefix ''cluster_C''" by (simp add: begins_with_def clusterIDPrefix_def)
  from granted_any [OF this] obtain b s4
    where b: "addGroupToCluster mem_env wildcard ''cluster_C'' s3 = (Inr b, s4)" by blast
  have "u_valid sample_user" "u_id sample_user = ''user_A''" "\<not> u_admin sample_user"
    by (simp_all add: sample_user_def)
  then obtain rsp s' where run: "execute mem_env mem_services 0 (GrantGroupClusterAccess ''cluster_C'' wildcard)
      sample_request home_server = Some (Inr rsp, s')" and ok: "rsp_code rsp \<notin> {404, 403}"
    using c m b requester_user(1) [OF home_server_token]
    by (cases b) (simp_all add: whole_def do_grantGroupClusterAccess_def with_cluster_def may_manage_def
        is_wildcard_def granted_response_def bindM_def ret_def failure_def okay_def)
  from clusters_are_for_their_owners [OF mem_served_by mem_services_apart home_server_served run ok,
      of "''cluster_C''"] home_server_token c
  show ?thesis by (auto simp: cluster_command_def)
qed

end
