(* ===== verification/InstallCorrect.thy ===== *)
theory InstallCorrect
  imports Rights
begin

text \<open>
  Nothing is installed without permission: as long as the membership, the access of the group to
  the cluster and its permission to use the application are not confirmed, the two commands that
  install applications change nothing.
\<close>

section \<open>Permission\<close>

definition install_permitted :: "'w env \<Rightarrow> 'w services \<Rightarrow> 'w view \<Rightarrow> 'w \<Rightarrow> request \<Rightarrow> string \<Rightarrow> bool" where
  "install_permitted E X view w req appName \<longleftrightarrow>
     (\<exists>u q g c. req_params req ''token'' = Some (u_token u) \<and> stored_user view w (u_id u) = Some u \<and>
        unpack_install (request_json X req) = Pass q \<and> g_valid g \<and> c_valid c \<and>
        (\<exists>(s :: 'w persistent_store) s'. frozen view w s \<and> getGroup E (iq_group q) s = (Inr g, s')) \<and>
        (\<exists>(s :: 'w persistent_store) s'. frozen view w s \<and> getCluster E (iq_cluster q) s = (Inr c, s')) \<and>
        (begins_with groupIDPrefix (g_id g) \<longrightarrow> stored_member view w (u_id u) (g_id g)) \<and>
        (g_id g = c_owningGroup c \<or>
         (\<exists>(s :: 'w persistent_store) s1 s2. frozen view w s \<and>
            groupAllowedOnCluster E (g_id g) (c_id c) s = (Inr True, s1) \<and>
            groupMayUseApplication E (g_id g) (c_id c) appName s1 = (Inr True, s2))))"

lemma frozen_quiet:
  assumes "\<And>s0. keeps (quiet view {} s0) m"
  shows "keeps (frozen view w) m"
  by (rule keeps_frozen) (rule coherent_reads keeps_quiet_leaves, rule assms)+

lemma frozen_quietP:
  assumes "\<And>s0. keepsP (quiet view {} s0) m"
  shows "keepsP (frozen view w) m"
proof (rule keepsPI)
  fix s r s' assume s: "frozen view w s" and run: "m s = Some (r, s')"
  have "keepsP (coherent view) m" by (rule coherent_readsP) (rule assms)
  from keepsPD [OF this _ run] s have "coherent view s'" by (simp add: frozen_def)
  moreover have "view (world s') = view (world s)"
    using keepsPD [OF keepsP_quiet_leaves [OF assms] _ run, of s] by (simp add: leaves_def fun_eq_iff)
  ultimately show "frozen view w s'" using s by (simp add: frozen_def)
qed

lemma frozen_userInGroup:
  assumes "served_by E view"
  shows "keeps (frozen view w) (userInGroup E uid g)"
proof (rule keeps_frozen)
  show "keeps (coherent view) (userInGroup E uid g)" by (rule userInGroup_keeps [OF assms])
  show "keeps (leaves view {} s0) (userInGroup E uid g)" for s0
    by (rule userInGroup_leaves [OF served_database [OF assms]])
qed

lemma frozen_access:
  assumes "served_by E view"
  shows "keeps (frozen view w) (groupAllowedOnCluster E g c)"
    and "keeps (frozen view w) (groupMayUseApplication E g c a)"
    and "keeps (frozen view w) (runCommand E p args)"
  by (rule frozen_quiet, intro keeps served_database assms)+

lemma install_tagged_refused:
  fixes s s' :: "'w persistent_store"
  assumes "served_by E view" and "\<not> install_permitted E X view w req appName"
    and "unpack_install (request_json X req) = Pass q"
    and "req_params req ''token'' = Some (u_token user)" "stored_user view w (u_id user) = Some user"
    and "u_id user \<noteq> ''''"
    and "frozen view w s" and "install_tagged E X user appName src q tag s = (r, s')"
  shows "frozen view w s'"
proof (rule ccontr)
  assume changed: "\<not> frozen view w s'"
  note keep = frozen_reads(4) [OF assms(1)] frozen_reads(3) [OF assms(1)] frozen_userInGroup [OF assms(1)]
    frozen_access(1) [OF assms(1)] frozen_access(2) [OF assms(1)]
  obtain x1 s1 where g: "getGroup E (iq_group q) s = (x1, s1)" by (cases "getGroup E (iq_group q) s")
  have f1: "frozen view w s1" by (rule keepsD [OF keep(1) assms(7) g])
  have "\<exists>g1. x1 = Inr g1 \<and> g_valid g1 \<and> check_tag tag = Pass ()"
    using assms(7,8) changed f1 g
    by (auto simp: install_tagged_def checked_def bindM_def ret_def throw_def
        split: check.splits sum.splits if_splits)
  then obtain g1 where g1: "x1 = Inr g1" "g_valid g1" "check_tag tag = Pass ()" by blast
  obtain x2 s2 where c: "getCluster E (iq_cluster q) s1 = (x2, s2)" by (cases "getCluster E (iq_cluster q) s1")
  have f2: "frozen view w s2" by (rule keepsD [OF keep(2) f1 c])
  have "\<exists>c1. x2 = Inr c1 \<and> c_valid c1"
    using assms(8) changed f2 g c g1
    by (auto simp: install_tagged_def checked_def bindM_def ret_def throw_def split: sum.splits if_splits)
  then obtain c1 where c1: "x2 = Inr c1" "c_valid c1" by blast
  obtain x3 s3 where m: "may_install E user g1 c1 appName s2 = (x3, s3)"
    by (cases "may_install E user g1 c1 appName s2")
  have "keeps (frozen view w) (may_install E user g1 c1 appName)"
    unfolding may_install_def by (intro keeps keep)
  note f3 = keepsD [OF this f2 m]
  have "x3 = Inr True"
    using assms(8) changed f3 g c g1 c1 m
    by (auto simp: install_tagged_def checked_def bindM_def ret_def throw_def split: sum.splits if_splits)
  then have "may_install E user g1 c1 appName s2 = (Inr True, s3)" using m by simp
  then obtain s4 where member: "userInGroup E (u_id user) (g_id g1) s2 = (Inr True, s4)"
    and rest: "g_id g1 = c_owningGroup c1 \<or>
      (\<exists>s5. groupAllowedOnCluster E (g_id g1) (c_id c1) s4 = (Inr True, s5) \<and>
        groupMayUseApplication E (g_id g1) (c_id c1) appName s5 = (Inr True, s3))"
    by (auto simp: may_install_def bindM_def ret_def split: prod.splits sum.splits if_splits)
  have f4: "frozen view w s4" by (rule keepsD [OF keep(3) f2 member])
  have "begins_with groupIDPrefix (g_id g1) \<longrightarrow> stored_member view w (u_id user) (g_id g1)"
    using frozen_member [OF assms(1) f2 assms(6) member] by blast
  moreover have "\<exists>(s :: 'w persistent_store) s'. frozen view w s \<and> getGroup E (iq_group q) s = (Inr g1, s')"
    using assms(7) g g1 by blast
  moreover have "\<exists>(s :: 'w persistent_store) s'. frozen view w s \<and> getCluster E (iq_cluster q) s = (Inr c1, s')"
    using f1 c c1 by blast
  moreover have "g_id g1 = c_owningGroup c1 \<or> (\<exists>(s :: 'w persistent_store) s1 s2. frozen view w s \<and>
      groupAllowedOnCluster E (g_id g1) (c_id c1) s = (Inr True, s1) \<and>
      groupMayUseApplication E (g_id g1) (c_id c1) appName s1 = (Inr True, s2))"
    using f4 rest by blast
  ultimately have "install_permitted E X view w req appName"
    unfolding install_permitted_def using assms(3,4,5) g1(2) c1(2) by blast
  with assms(2) show False by blast
qed

lemma installApplicationImpl_refused:
  assumes "served_by E view" and "\<not> install_permitted E X view w req appName"
    and "req_params req ''token'' = Some (u_token user)" "stored_user view w (u_id user) = Some user"
    and "u_id user \<noteq> ''''"
  shows "keeps (frozen view w) (installApplicationImpl E X user appName src (request_json X req) ::
    ('w persistent_store, response) op)"
proof -
  have tagged: "keeps (frozen view w)
      (install_tagged E X user appName src q tag :: ('w persistent_store, response) op)"
    if "unpack_install (request_json X req) = Pass q" for q tag
    by (rule keepsI) (rule install_tagged_refused [OF assms(1,2) that assms(3-5)])
  show ?thesis
    unfolding installApplicationImpl_def with_tag_def default_tag_def
    by (intro keeps frozen_access assms tagged)
qed

section \<open>The commands\<close>

lemma frozen_token:
  assumes "served_by E view" and "frozen view w s" and "token_user E req s = (Inr u, s1)" and "u_valid u"
  shows "req_params req ''token'' = Some (u_token u) \<and> stored_user view w (u_id u) = Some u \<and> u_id u \<noteq> ''''"
proof -
  have coherent: "coherent view s" and same: "view (world s) = view w" using assms(2) by (simp_all add: frozen_def)
  have "stored_user view (world s) = stored_user view w" by (rule stored_user_cong) (simp add: same)
  with token_user_stored [OF assms(1) coherent assms(3,4)] token_user_has_ID [OF assms(1) coherent assms(3,4)]
  show ?thesis by auto
qed

lemma requester_frozen:
  assumes "served_by E view"
    and "\<And>u. req_params req ''token'' = Some (u_token u) \<Longrightarrow> stored_user view w (u_id u) = Some u \<Longrightarrow>
      u_id u \<noteq> '''' \<Longrightarrow> keeps (frozen view w) (k u)"
  shows "keeps (frozen view w) (requester E req message k)"
proof (rule keepsI)
  fix s r s' assume s: "frozen view w s" and run: "requester E req message k s = (r, s')"
  obtain x s1 where x: "token_user E req s = (x, s1)" by (cases "token_user E req s")
  note s1 = keepsD [OF frozen_token_user [OF assms(1)] s x]
  show "frozen view w s'"
  proof (cases "\<exists>u. x = Inr u \<and> u_valid u")
    case True
    then obtain u where u: "x = Inr u" "u_valid u" by blast
    from frozen_token [OF assms(1) s x [unfolded u(1)] u(2)] have kept: "keeps (frozen view w) (k u)"
      by (intro assms(2)) auto
    have "k u s1 = (r, s')" using run x u by (simp add: requester_def bindM_def)
    from keepsD [OF kept s1 this] show ?thesis .
  next
    case False
    then show ?thesis
      using run x s1 by (cases x) (auto simp: requester_def bindM_def ret_def)
  qed
qed

lemma requesterP_frozen:
  assumes "served_by E view"
    and "\<And>u. req_params req ''token'' = Some (u_token u) \<Longrightarrow> stored_user view w (u_id u) = Some u \<Longrightarrow>
      u_id u \<noteq> '''' \<Longrightarrow> keepsP (frozen view w) (k u)"
  shows "keepsP (frozen view w) (requesterP E req message k)"
proof (rule keepsPI)
  fix s r s' assume s: "frozen view w s" and run: "requesterP E req message k s = Some (r, s')"
  obtain x s1 where x: "token_user E req s = (x, s1)" by (cases "token_user E req s")
  note s1 = keepsD [OF frozen_token_user [OF assms(1)] s x]
  show "frozen view w s'"
  proof (cases "\<exists>u. x = Inr u \<and> u_valid u")
    case True
    then obtain u where u: "x = Inr u" "u_valid u" by blast
    from frozen_token [OF assms(1) s x [unfolded u(1)] u(2)] have kept: "keepsP (frozen view w) (k u)"
      by (intro assms(2)) auto
    have "k u s1 = Some (r, s')" using run x u by (simp add: requesterP_def bindP_def whole_def)
    from keepsPD [OF kept s1 this] show ?thesis .
  next
    case False
    then show ?thesis
      using run x s1 by (cases x) (auto simp: requesterP_def bindP_def whole_def ret_def)
  qed
qed

lemma do_installApplication_refused:
  assumes "served_by E view" and "services_apart X view" and "\<not> install_permitted E X view w req appName"
  shows "keeps (frozen view w) (do_installApplication E X req appName :: ('w persistent_store, response) op)"
proof -
  note installApplicationImpl_keeps [keeps del]
  have "keeps (frozen view w) (findApplication E (repo_of req) appName v :: ('w persistent_store, _) op)" for v
    by (rule frozen_quiet, intro keeps assms served_database)
  then show ?thesis
    unfolding do_installApplication_def with_application_def
    by (intro requester_frozen keeps installApplicationImpl_refused assms)
qed

lemma do_installAdHocApplication_refused:
  assumes "served_by E view" and "services_apart X view"
    and "\<And>appName. \<not> install_permitted E X view w req appName"
  shows "keepsP (frozen view w)
    (do_installAdHocApplication n E X req :: ('w persistent_store, response) paged)"
proof -
  note installApplicationImpl_keeps [keeps del]
  have parts: "keeps (frozen view w) (callM (fs_readdir (x_files X) p) :: ('w persistent_store, _) op)"
    "keeps (frozen view w) (extractChartName E X p :: ('w persistent_store, _) op)"
    "keeps (frozen view w) (makeTemporaryDir (x_files X) p :: ('w persistent_store, _) op)"
    "keepsP (frozen view w) (unpack_chart n X coded p :: ('w persistent_store, _) paged)"
    "keepsP (frozen view w) (destroy_chart n X p :: ('w persistent_store, _) paged)" for p coded
    by (rule frozen_quiet frozen_quietP,
        intro file_calls_quiet extractChartName_quiet makeTemporaryDir_quiet unpack_chart_quiet
          destroy_chart_quiet services_apartD assms served_database)+
  show ?thesis
    unfolding do_installAdHocApplication_def install_from_def install_chart_def
    by (intro requesterP_frozen keepsP_checked keepsP_bind keepsP_attempt keepsP_whole keepsP_sum keepsP_finally
        keeps_ret keeps_bind keeps_checked keeps_if keeps_option installApplicationImpl_refused parts assms)
qed



end
