(* ===== verification/PlaceCorrect.thy ===== *)
theory PlaceCorrect
  imports Promises
begin

text \<open>
  What is kept about where clusters are and under which names they are reached: the stored
  locations, and the records of the name service.
\<close>

section \<open>Locations\<close>

text \<open>A number that is read back as it was written, whatever a location has behind it.\<close>

definition exact :: "double_text \<Rightarrow> 64 word \<Rightarrow> bool" where
  "exact D x \<longleftrightarrow>
     (\<forall>rest. rest = [] \<or> hd rest \<in> {CHR '','', CHR '' ''} \<longrightarrow> d_read D (d_print D x @ rest) = Some (x, rest))"

definition exact_location :: "double_text \<Rightarrow> GeoLocation \<Rightarrow> bool" where
  "exact_location D gl \<longleftrightarrow> exact D (gl_lat gl) \<and> exact D (gl_lon gl)"

definition one_line :: "string \<Rightarrow> bool" where
  "one_line t \<longleftrightarrow> CHR 0x0A \<notin> set t"

lemma read_shown:
  assumes "exact_location D gl"
  shows "read_location D (show_location D gl) =
    (if gl_description gl = '''' then Some gl
     else map_option (\<lambda>d. gl\<lparr>gl_description := d\<rparr>) (last_line (gl_description gl)))"
proof -
  have lat: "d_read D (d_print D (gl_lat gl) @ CHR '','' # t) = Some (gl_lat gl, CHR '','' # t)" for t
    using assms by (simp add: exact_location_def exact_def)
  have lon: "d_read D (d_print D (gl_lon gl)) = Some (gl_lon gl, [])"
    "d_read D (d_print D (gl_lon gl) @ CHR '' '' # t) = Some (gl_lon gl, CHR '' '' # t)" for t
    using assms by (auto simp: exact_location_def exact_def dest: spec [of _ "[]"])
  show ?thesis
    by (cases gl) (use lat lon in \<open>simp add: show_location_def read_location_def begins_with_def\<close>)
qed

lemma read_locations_shown:
  assumes "\<forall>gl\<in>set gls. exact_location D gl" "\<forall>gl\<in>set gls. one_line (gl_description gl)"
  shows "read_locations D cID (map (show_location D) gls) = Inr gls"
  using assms
proof (induction gls)
  case (Cons gl gls)
  have "last_line t = Some t" if "one_line t" "t \<noteq> []" for t
  proof -
    have "takeWhile (\<lambda>c. c \<noteq> CHR 0x0A) t = t"
      using that(1) by (simp only: takeWhile_eq_all_conv one_line_def) blast
    then show ?thesis unfolding last_line_def Let_def using that(2) by (simp only: simp_thms if_False) simp
  qed
  then have "read_location D (show_location D gl) = Some gl"
    using Cons.prems by (simp add: read_shown)
  with Cons show ?case by (simp add: bindE_def)
qed simp

lemma read_locations_broken:
  assumes "\<forall>gl\<in>set gls. exact_location D gl"
    and "gl \<in> set gls" "gl_description gl = a @ CHR 0x0A # b" "b \<noteq> []"
  shows "\<exists>e. read_locations D cID (map (show_location D) gls) = Inl e"
  using assms(1,2)
proof (induction gls)
  case (Cons hd tl)
  show ?case
  proof (cases "read_location D (show_location D hd) = None")
    case False
    have "length (takeWhile (\<lambda>c. c \<noteq> CHR 0x0A) (a @ CHR 0x0A # b)) \<le> length a"
      by (cases "\<forall>c\<in>set a. c \<noteq> CHR 0x0A") (auto simp: takeWhile_append2 takeWhile_append1 takeWhile_append
        intro: length_takeWhile_le)
    then have "last_line (a @ CHR 0x0A # b) = None"
      using assms(4) by (cases b) (auto simp: last_line_def Let_def)
    then have "read_location D (show_location D gl) = None"
      using assms(3) Cons.prems by (subst read_shown) auto
    then have "gl \<in> set tl" using Cons.prems(2) False by auto
    with Cons.IH Cons.prems(1) False show ?thesis by (auto simp: bindE_def)
  qed auto
qed simp


definition one_digit :: double_text where
  "one_digit = (x_doubles mem_services)\<lparr>d_print := (\<lambda>x. if x = 1 then ''1'' else ''?''),
     d_read := (\<lambda>t. if t \<noteq> [] \<and> hd t = CHR ''1'' then Some (1, tl t) else None)\<rparr>"

definition digit_services :: "mem_world services" where
  "digit_services = mem_services\<lparr>x_doubles := one_digit\<rparr>"

definition at_one :: "string \<Rightarrow> GeoLocation" where
  "at_one d = \<lparr>gl_lat = 1, gl_lon = 1, gl_description = d\<rparr>"

definition placed :: "GeoLocation list \<Rightarrow> mem_world persistent_store" where
  "placed gls = new_store mem_env ''/var/tmp/slate''
     (mem_start\<lparr>mw_rows := [((clusterTableName, row_key ''cluster_C'' (locations_sortKey ''cluster_C'')),
        locations_item one_digit ''cluster_C'' gls)]\<rparr>)"


section \<open>Names\<close>

text \<open>
  C32: the server never touches an address record that it has not made: when the name has an
  address and no text record with the mark of the server, neither setting nor removing it sends a
  change, and both report failure.  A name without an address of that kind counts as its own even
  when others keep text there: then its text record is written as well, and theirs is lost.
\<close>

theorem foreign_addresses_untouched:
  assumes "validServer (x_dns X)" and "address_type address = Inr t" and "hostedZone (x_dns X) name = Inr zone"
    and "call (x_testDNSAnswer X zone name t) s = (Inr base, s1)"
    and "call (x_testDNSAnswer X zone name RR_TXT) s1 = (Inr texts, s2)"
    and "\<forall>x\<in>set texts. \<not> occurs_in heritageTag x"
  shows "(base \<noteq> [] \<longrightarrow> setDNSRecord X name address s = (Inr False, s2) \<and>
       removeDNSRecord X name address s = (Inr False, s2)) \<and>
    (base = [] \<longrightarrow> setDNSRecord X name address s =
       callM (x_changeDNSRecords X zone [(Upsert, name, t, address),
         (Upsert, name, RR_TXT, [CHR 0x22] @ heritageTag @ [CHR 0x22])]) s2)"
proof -
  have "safeToModifyDNS X name t s = (Inr (base = []), s2)"
    using assms(3-6) by (simp add: safeToModifyDNS_def liftE_def bindM_def test_answer_def ret_def)
  then show ?thesis
    using assms(1-3)
    by (simp add: setDNSRecord_def removeDNSRecord_def change_DNS_def liftE_def bindM_def ret_def both_records_def)
qed

definition zone_services :: "string list \<Rightarrow> mem_world services" where
  "zone_services texts = mem_services\<lparr>
     x_dns := \<lparr>hostedZones = [(''slateci.net.'', ''Z1'')], validServer = True\<rparr>,
     x_testDNSAnswer := (\<lambda>zone name t w. (Inr (if t = RR_TXT then texts else [''10.0.0.1'']), w)),
     x_changeDNSRecords := (\<lambda>zone changes w. (True, w))\<rparr>"

theorem foreign_addresses_untouched_witness:
  "\<forall>s :: mem_world persistent_store.
     setDNSRecord (zone_services [''v=spf1'']) ''*.farm.slateci.net'' ''10.0.0.2'' s = (Inr False, s)"
proof
  fix s :: "mem_world persistent_store"
  let ?X = "zone_services [''v=spf1'']"
  have "validServer (x_dns ?X)" "address_type ''10.0.0.2'' = Inr RR_A"
    "hostedZone (x_dns ?X) ''*.farm.slateci.net'' = Inr ''Z1''"
    "call (x_testDNSAnswer ?X ''Z1'' ''*.farm.slateci.net'' RR_A) s = (Inr [''10.0.0.1''], s)"
    "call (x_testDNSAnswer ?X ''Z1'' ''*.farm.slateci.net'' RR_TXT) s = (Inr [''v=spf1''], s)"
    "\<forall>x\<in>set [''v=spf1'']. \<not> occurs_in heritageTag x"
    by (simp_all add: zone_services_def address_type_def v4_char_def char_class code_def hostedZone_def
        zoneForName_def rfind_def bindE_def call_def occurs_in.simps heritageTag_def begins_with_def)
  from foreign_addresses_untouched [OF this] show "setDNSRecord ?X ''*.farm.slateci.net'' ''10.0.0.2'' s = (Inr False, s)"
    by simp
qed

end
