(* ===== verification/ClientText.thy ===== *)
theory ClientText
  imports Web
begin

text \<open>
  The parts of the command line client, \<open>src/client/Client.cpp\<close>, that only handle text: wrapping,
  versions, the distance by which a mistyped name is corrected, the form of identifiers, and the
  check of the server's address.
\<close>

section \<open>Wrapping\<close>

text \<open>
  The width of a line but the first is computed without a sign.  A width of zero never gets on.
\<close>

partial_function (option) wrap_loop :: "string \<Rightarrow> nat \<Rightarrow> bool \<Rightarrow> string \<Rightarrow> string \<Rightarrow> string option" where
  "wrap_loop indent maxWidth firstLine orig result =
     (if orig = [] then Some result
      else let chunkSize = min (length orig)
                 (if firstLine then maxWidth else nat ((int maxWidth - int (length indent)) mod 2 ^ 64))
           in wrap_loop indent maxWidth False (drop chunkSize orig)
                (result @ (if firstLine then [] else CHR 0x0A # indent) @ take chunkSize orig))"

definition wrapWithIndent :: "string \<Rightarrow> string \<Rightarrow> nat \<Rightarrow> string option" where
  "wrapWithIndent orig indent maxWidth = wrap_loop indent maxWidth True orig []"

definition underline :: "bool \<Rightarrow> string \<Rightarrow> string" where
  "underline useANSICodes s =
     (if useANSICodes then CHR 0x1B # ''[4m'' @ s @ CHR 0x1B # ''[24m'' else s)"

definition bold :: "bool \<Rightarrow> string \<Rightarrow> string" where
  "bold useANSICodes s =
     (if useANSICodes then CHR 0x1B # ''[1m'' @ s @ CHR 0x1B # ''[22m'' else s)"

section \<open>Versions\<close>

fun split_on :: "char \<Rightarrow> string \<Rightarrow> string list" where
  "split_on c [] = [[]]"
| "split_on c (x # s) =
     (if x = c then [] # split_on c s
      else (case split_on c s of [] \<Rightarrow> [[x]] | t # ts \<Rightarrow> (x # t) # ts))"

text \<open>Text without a point has no segments, not even one.\<close>

definition version_tokens :: "string \<Rightarrow> string list" where
  "version_tokens s = (if CHR ''.'' \<in> set s then split_on (CHR ''.'') s else [])"

definition strip_v :: "string \<Rightarrow> string" where
  "strip_v t = (if CHR ''v'' \<in> set t then tl (dropWhile (\<lambda>c. c \<noteq> CHR ''v'') t) else t)"

fun parse_tokens :: "string list \<Rightarrow> nat list outcome" where
  "parse_tokens [] = Inr []"
| "parse_tokens (t # ts) =
     (case stoul t of
        None \<Rightarrow> Inl ''stoul''
      | Some n \<Rightarrow> bindE (parse_tokens ts) (\<lambda>ns. Inr (n # ns)))"

definition semverParse :: "string \<Rightarrow> nat list outcome" where
  "semverParse input =
     parse_tokens (case version_tokens input of [] \<Rightarrow> [] | t # ts \<Rightarrow> strip_v t # ts)"

definition newerVersionAvailable :: "nat list \<Rightarrow> nat list \<Rightarrow> bool" where
  "newerVersionAvailable clientVersion availableVersion \<longleftrightarrow>
     length clientVersion = length availableVersion \<and>
     (\<exists>(c, a) \<in> set (zip clientVersion availableVersion). a > c)"

definition isSemanticVersion :: "string \<Rightarrow> bool" where
  "isSemanticVersion version \<longleftrightarrow> CHR ''v'' \<in> set version \<or> CHR ''.'' \<in> set version"

section \<open>Mistyped names\<close>

text \<open>
  One pass of the inner loop over a row of distances: \<open>diagonal\<close> is the old value at the position
  before, \<open>left\<close> the new one.
\<close>

fun lev_row :: "char \<Rightarrow> string \<Rightarrow> nat \<Rightarrow> nat \<Rightarrow> nat list \<Rightarrow> nat list" where
  "lev_row t (s # ss) diagonal left (old # olds) =
     (let new = (if s = t then diagonal else min (min left old) diagonal + 1)
      in new # lev_row t ss old new olds)"
| "lev_row t _ diagonal left _ = []"

definition lev_step :: "string \<Rightarrow> char \<Rightarrow> nat list \<Rightarrow> nat list" where
  "lev_step source t row = (hd row + 1) # lev_row t source (hd row) (hd row + 1) (tl row)"

definition lev_rows :: "string \<Rightarrow> string \<Rightarrow> nat" where
  "lev_rows source target = fold (lev_step source) target [0..<length source + 1] ! length source"

definition levensteinDistance :: "string \<Rightarrow> string \<Rightarrow> nat" where
  "levensteinDistance source target =
     (if length source > length target then lev_rows target source else lev_rows source target)"

section \<open>Identifiers\<close>

definition base64Chars :: string where
  "base64Chars = ''0123456789abcdefghijklmnopqrstuvwxyzABCDEFGHIJKLMNOPQRSTUVWXYZ-_''"

definition verify_id :: "nat \<Rightarrow> string \<Rightarrow> string \<Rightarrow> bool" where
  "verify_id n start i \<longleftrightarrow>
     length i = n \<and> begins_with start i \<and> list_all (\<lambda>c. c \<in> set base64Chars) (drop (length start) i)"

definition verifyInstanceID :: "string \<Rightarrow> bool" where "verifyInstanceID = verify_id 20 ''instance_''"
definition verifyUserID :: "string \<Rightarrow> bool" where "verifyUserID = verify_id 16 ''user_''"
definition verifyGroupID :: "string \<Rightarrow> bool" where "verifyGroupID = verify_id 17 ''group_''"
definition verifySecretID :: "string \<Rightarrow> bool" where "verifySecretID = verify_id 18 ''secret_''"
definition verifyVolumeID :: "string \<Rightarrow> bool" where "verifyVolumeID = verify_id 18 ''volume_''"

definition verifyNamespaceName :: "string \<Rightarrow> bool" where
  "verifyNamespaceName ns \<longleftrightarrow>
     length ns \<le> 255 \<and> ns \<noteq> [] \<and> isalnum (hd ns) \<and> isalnum (last ns) \<and>
     list_all (\<lambda>c. isalnum c \<or> c = CHR ''-'') (butlast (tl ns))"

section \<open>The address of the server\<close>

definition schemeChars :: string where
  "schemeChars = ''abcdefghijklmnopqrstuvwxzy0123456789+.-''"

definition bad_endpoint :: "string \<Rightarrow> string \<Rightarrow> what" where
  "bad_endpoint endpoint problem = ''Endpoint '' @ [CHR 0x27] @ endpoint @ [CHR 0x27] @ '' does not look '' @ problem"

text \<open>The port, behind the first colon of the text that begins with the host.\<close>

definition check_port :: "string \<Rightarrow> string \<Rightarrow> unit outcome" where
  "check_port endpoint host =
     (let port = tl (dropWhile (\<lambda>c. c \<noteq> CHR '':'') host)
      in if CHR ''/'' \<in> set (takeWhile (\<lambda>c. c \<noteq> CHR '':'') host)
         then Inl (bad_endpoint endpoint ''valid; no path (including a trailing slash) is permitted'')
         else if CHR '':'' \<notin> set host then Inr ()
         else if port = [] then Inl (bad_endpoint endpoint ''like a valid URL'')
         else if \<not> list_all isdigit port
         then Inl (bad_endpoint endpoint
                (''valid; port number may contain only digits and no path (including a trailing slash) is permitted''))
         else Inr ())"

definition check_endpoint :: "string \<Rightarrow> string outcome" where
  "check_endpoint endpoint =
     (case find_sub ''://'' endpoint of
        None \<Rightarrow> Inl (bad_endpoint endpoint ''like a valid URL'')
      | Some sep \<Rightarrow>
          if sep = 0 \<or> \<not> list_all (\<lambda>c. c \<in> set schemeChars) (take sep endpoint)
          then Inl (bad_endpoint endpoint ''like it has a valid URL scheme'')
          else if sep + 3 \<ge> length endpoint then Inl (bad_endpoint endpoint ''like a valid URL'')
          else if CHR ''?'' \<in> set endpoint
          then Inl (bad_endpoint endpoint ''valid; no query is permitted'')
          else if CHR ''#'' \<in> set endpoint
          then Inl (bad_endpoint endpoint ''valid; no fragment is permitted'')
          else let rest = drop (sep + 3) endpoint;
                   host = (if CHR ''@'' \<in> set rest then tl (dropWhile (\<lambda>c. c \<noteq> CHR ''@'') rest) else rest)
               in if host = [] then Inl (bad_endpoint endpoint ''like a valid URL'')
                  else bindE (check_port endpoint host) (\<lambda>_.
                       if last endpoint = CHR ''/''
                       then Inl (bad_endpoint endpoint ''valid; no path (including a trailing slash) is permitted'')
                       else Inr endpoint))"

end
