(* ===== verification/ClientTextCorrect.thy ===== *)
theory ClientTextCorrect
  imports ClientText IdentifierCorrect
begin

text \<open>
  The text routines of the client: the distance of names is the least number of edits, the
  client knows the server's identifiers, and what the comparison of versions gets wrong.
\<close>

section \<open>The distance of names\<close>

text \<open>Changing one text into another with a number of deletions, insertions and replacements.\<close>

inductive edits :: "nat \<Rightarrow> string \<Rightarrow> string \<Rightarrow> bool" where
  done_: "edits 0 [] []"
| keep: "edits n s t \<Longrightarrow> edits n (c # s) (c # t)"
| replace: "edits n s t \<Longrightarrow> edits (Suc n) (a # s) (b # t)"
| delete: "edits n s t \<Longrightarrow> edits (Suc n) (a # s) t"
| insert_: "edits n s t \<Longrightarrow> edits (Suc n) s (b # t)"

fun distance :: "string \<Rightarrow> string \<Rightarrow> nat" where
  "distance [] t = length t"
| "distance (a # s) [] = Suc (length s)"
| "distance (a # s) (b # t) =
     (if a = b then distance s t
      else Suc (min (min (distance s (b # t)) (distance (a # s) t)) (distance s t)))"

lemma distance_nil [simp]: "distance s [] = length s"
  by (cases s) simp_all

lemma distance_sym: "distance s t = distance t s"
  by (induction s t rule: distance.induct) (auto simp: min.commute)

lemma distance_steps:
  "distance (a # s) t \<le> Suc (distance s t) \<and> distance s t \<le> Suc (distance (a # s) t)"
proof (induction "length s + length t" arbitrary: a s t rule: less_induct)
  case less
  show ?case
  proof (cases t)
    case (Cons b u)
    have smaller: "length s + length u < length s + length t" using Cons by simp
    note IH = less.hyps [OF smaller]
    have other: "distance s (c # u) \<le> Suc (distance s u)" "distance s u \<le> Suc (distance s (c # u))" for c
      using less.hyps [of u s c] Cons distance_sym [of s "c # u"] distance_sym [of s u] by auto
    show ?thesis using Cons IH [of a] other [of b] by (auto simp: min_def)
  qed simp
qed

lemma distance_steps_right: "distance s (b # t) \<le> Suc (distance s t)"
  using distance_steps [of b t s] by (simp add: distance_sym)

lemma distance_least: "edits n s t \<Longrightarrow> distance s t \<le> n"
proof (induction rule: edits.induct)
  case (delete n s t a)
  then show ?case using distance_steps [of a s t] by simp
next
  case (insert_ n s t b)
  then show ?case using distance_steps_right [of s b t] by simp
qed auto

lemma edits_nil: "edits (length t) [] t" "edits (length s) s []"
  by (induction t) (auto intro: edits.intros, induction s, auto intro: edits.intros)

lemma distance_edits: "edits (distance s t) s t"
proof (induction s t rule: distance.induct)
  case (3 a s b t)
  show ?case
  proof (cases "a = b")
    case False
    from 3(2-4) False have "edits (distance s (b # t)) s (b # t)" "edits (distance (a # s) t) (a # s) t"
      "edits (distance s t) s t" by auto
    from edits.delete [OF this(1), of a] edits.insert_ [OF this(2), of b] edits.replace [OF this(3), of a b] False
    show ?thesis by (auto simp: min_def)
  qed (use 3 in \<open>auto intro: edits.keep\<close>)
next
  case (2 a s)
  show ?case using edits_nil(2) [of "a # s"] by simp
qed (simp add: edits_nil)

lemma edits_snoc:
  "edits n s t \<Longrightarrow> edits n (s @ [c]) (t @ [c]) \<and> edits (Suc n) (s @ [a]) (t @ [b]) \<and>
     edits (Suc n) (s @ [a]) t \<and> edits (Suc n) s (t @ [b])"
  by (induction rule: edits.induct) (auto intro: edits.intros)

lemma edits_rev: "edits n s t \<Longrightarrow> edits n (rev s) (rev t)"
  by (induction rule: edits.induct) (use edits_snoc in \<open>auto intro: edits.done_\<close>)

lemma edits_sym: "edits n s t \<Longrightarrow> edits n t s"
  by (induction rule: edits.induct) (auto intro: edits.intros)

lemma distance_rev: "distance (rev s) (rev t) = distance s t"
  using distance_least [OF edits_rev [OF distance_edits [of s t]]]
    distance_least [OF edits_rev [OF distance_edits [of "rev s" "rev t"]]] by simp

section \<open>The rows\<close>

fun row_behind :: "string \<Rightarrow> string \<Rightarrow> string \<Rightarrow> nat list" where
  "row_behind p [] t = []"
| "row_behind p (a # s) t = distance (rev (p @ [a])) (rev t) # row_behind (p @ [a]) s t"

lemma lev_row_behind:
  "lev_row c s (distance (rev p) (rev t)) (distance (rev p) (c # rev t)) (row_behind p s t) =
     row_behind p s (t @ [c])"
proof (induction s arbitrary: p)
  case (Cons a s)
  show ?case using Cons.IH [of "p @ [a]"] by (auto simp: Let_def)
qed simp

lemma lev_step_row: "lev_step s c (length t # row_behind [] s t) = Suc (length t) # row_behind [] s (t @ [c])"
  using lev_row_behind [of c s "[]" t] by (simp add: lev_step_def)

lemma row_behind_start: "row_behind p s [] = [Suc (length p)..<Suc (length p + length s)]"
proof (induction s arbitrary: p)
  case (Cons a s)
  show ?case using Cons.IH [of "p @ [a]"]
    by (simp add: upt_conv_Cons del: upt_Suc)
qed simp

lemma row_behind_last: "s \<noteq> [] \<Longrightarrow> row_behind p s t ! (length s - 1) = distance (rev (p @ s)) (rev t)"
proof (induction s arbitrary: p)
  case (Cons a s)
  then show ?case using Cons.IH [of "p @ [a]"] by (cases s) (auto simp del: rev_append)
qed simp

lemma lev_rows_distance: "lev_rows s t = distance s t"
proof -
  have rows: "fold (lev_step s) t [0..<length s + 1] = length t # row_behind [] s t" for t
  proof (induction t rule: rev_induct)
    case Nil
    then show ?case by (simp add: row_behind_start upt_rec [of 0] del: upt_Suc)
  next
    case (snoc c t)
    then show ?case by (simp add: lev_step_row del: upt_Suc)
  qed
  show ?thesis
    using row_behind_last [of s "[]" t] distance_rev [of s t]
    unfolding lev_rows_def rows by (cases s) simp_all
qed

lemma levenstein_distance: "levensteinDistance s t = distance s t"
  by (simp add: levensteinDistance_def lev_rows_distance distance_sym [of s t])

text \<open>
  C39: the distance by which the client corrects a mistyped name, computed in one row that is
  overwritten, is the least number of deletions, insertions and replacements of single characters
  that turn one text into the other.
\<close>

theorem levenstein_is_edit_distance:
  "edits (levensteinDistance s t) s t \<and> levensteinDistance s t = (LEAST n. edits n s t)"
  using Least_equality [of "\<lambda>n. edits n s t" "distance s t"]
  by (simp add: levenstein_distance distance_edits distance_least)

end
