(* ===== verification/ClientSession.thy ===== *)
theory ClientSession
  imports ClientText Service
begin

text \<open>
  The state of the command line client, \<open>Client\<close> of \<open>include/client/Client.h\<close>, and what the
  commands of \<open>src/client/Client.cpp\<close> share: printing and reading, files and environment
  (\<open>src/Utilities.cpp\<close>), the stored token and the address of the server, and requests.

  The state also keeps what the client has done: what it printed to the two output streams,
  the requests it sent, and the answers its user gave.  Its progress messages, which another thread
  prints, are left out.  It extends the record that holds the outside world, whose counters play
  no part in it.
\<close>

section \<open>State and surroundings\<close>

record 'w client = "'w base_store" +
  endpointPath :: string
  apiEndpoint :: string
  apiVersion :: string
  credentialPath :: string
  token :: string
  useANSICodes :: bool
  enableFixup :: bool
  outputWidth :: nat
  outputFormat :: string
  orderBy :: string
  printed :: string
  complained :: string
  sent :: "(http_method \<times> string \<times> string) list"
  heard :: "string list"

text \<open>
  What is around the client.  A request answers with a status and a body, or throws; \<open>k_stat\<close>
  tells the error number, or whether the file is the user's own and its mode; \<open>k_fragment\<close> is the
  vendored parser of JSON pointers for text that does not begin with a slash; \<open>k_shrink\<close> is
  \<open>floor(n * (a / b))\<close> in floating point numbers, and \<open>k_sort\<close> is \<open>std::sort\<close> of rows by one of
  their cells, which leaves the order of equal ones open.
\<close>

record 'w terminal =
  k_http :: "http_method \<Rightarrow> string \<Rightarrow> string \<Rightarrow> 'w \<Rightarrow> (nat \<times> string) outcome \<times> 'w"
  k_line :: "'w \<Rightarrow> string \<times> 'w"
  k_getenv :: "string \<Rightarrow> string option"
  k_stat :: "string \<Rightarrow> 'w \<Rightarrow> (nat + bool \<times> nat) \<times> 'w"
  k_files :: "'w filesystem"
  k_zlib :: "'w zlib"
  k_archiver :: archiver
  k_parse :: "string \<Rightarrow> json"
  k_print :: "json \<Rightarrow> string"
  k_fragment :: "string \<Rightarrow> string list option"
  k_doubles :: double_text
  k_shrink :: "nat \<Rightarrow> int \<Rightarrow> nat \<Rightarrow> int"
  k_sort :: "nat \<Rightarrow> string list list \<Rightarrow> string list list"
  k_clientVersion :: string

type_synonym ('w, 'z, 'a) act = "(('w, 'z) client_scheme, 'a) op"
type_synonym ('w, 'z, 'a) command = "(('w, 'z) client_scheme, 'a) paged"

text \<open>
  A failure that has been reported.  \<open>OperationFailed\<close> has a \<open>what\<close> of its own, which does not
  override the one of its base class.
\<close>

definition OperationFailed :: what where
  "OperationFailed = ''std::exception''"

definition newline :: string where
  "newline = [CHR 0x0A]"

definition say :: "string \<Rightarrow> ('w, 'z, unit) act" where
  "say text = modify (\<lambda>s. s\<lparr>printed := printed s @ text\<rparr>)"

definition complain :: "string \<Rightarrow> ('w, 'z, unit) act" where
  "complain text = modify (\<lambda>s. s\<lparr>complained := complained s @ text\<rparr>)"

definition listen :: "'w terminal \<Rightarrow> ('w, 'z, string) act" where
  "listen K =
     bindM (callM (k_line K)) (\<lambda>answer.
     bindM (modify (\<lambda>s. s\<lparr>heard := heard s @ [answer]\<rparr>)) (\<lambda>_. ret answer))"

definition ask :: "'w terminal \<Rightarrow> string \<Rightarrow> ('w, 'z, string) act" where
  "ask K question = bindM (say question) (\<lambda>_. listen K)"

definition yes :: "string \<Rightarrow> bool" where
  "yes answer \<longleftrightarrow> answer = ''y'' \<or> answer = ''Y''"

definition getM :: "(('w, 'z) client_scheme \<Rightarrow> 'a) \<Rightarrow> ('w, 'z, 'a) act" where
  "getM f s = (Inr (f s), s)"

definition clientShouldPrintOnlyJson :: "('w, 'z) client_scheme \<Rightarrow> bool" where
  "clientShouldPrintOnlyJson s \<longleftrightarrow> take 4 (outputFormat s) = ''json''"

section \<open>Files\<close>

datatype PermState = VALID | INVALID | DOES_NOT_EXIST

definition checkPermissions :: "'w terminal \<Rightarrow> string \<Rightarrow> ('w, 'z, PermState) act" where
  "checkPermissions K path =
     bindM (callM (k_stat K path)) (\<lambda>r.
     case r of
       Inl err \<Rightarrow> if err = ENOENT then ret DOES_NOT_EXIST else throw (''Unable to stat '' @ path)
     | Inr (own, mode) \<Rightarrow> ret (if own \<and> mode mod 2 ^ 9 = 384 then VALID else INVALID))"

definition getHomeDirectory :: "'w terminal \<Rightarrow> ('w, 'z, string) act" where
  "getHomeDirectory K =
     (case k_getenv K ''HOME'' of
        None \<Rightarrow> throw ''Unable to locate home directory''
      | Some path \<Rightarrow>
          if path = [] then throw ''Unable to locate home directory''
          else ret (if last path \<noteq> CHR ''/'' then path @ ''/'' else path))"

definition getDefaultEndpointFilePath :: "'w terminal \<Rightarrow> ('w, 'z, string) act" where
  "getDefaultEndpointFilePath K = bindM (getHomeDirectory K) (\<lambda>path. ret (path @ ''.slate/endpoint''))"

definition getDefaultCredFilePath :: "'w terminal \<Rightarrow> ('w, 'z, string) act" where
  "getDefaultCredFilePath K = bindM (getHomeDirectory K) (\<lambda>path. ret (path @ ''.slate/token''))"

text \<open>\<open>operator>>\<close> into a string: the first word, if there is one.\<close>

definition first_word :: "string \<Rightarrow> string option" where
  "first_word s =
     (let t = dropWhile isspace s in if t = [] then None else Some (takeWhile (\<lambda>c. \<not> isspace c) t))"

definition fetchStoredCredentials :: "'w terminal \<Rightarrow> ('w, 'z, string) act" where
  "fetchStoredCredentials K =
     bindM (getM credentialPath) (\<lambda>path.
     bindM (checkPermissions K path) (\<lambda>perms.
     if perms = INVALID
     then throw (''Credentials file '' @ path @ '' has wrong permissions; should be 0600 and owned by the current user'')
     else if perms = DOES_NOT_EXIST then throw (''Credentials file '' @ path @ '' does not exist'')
     else bindM (callM (fs_readFile (k_files K) path)) (\<lambda>contents.
     case contents of
       None \<Rightarrow> throw (''Failed to open credentials file '' @ path @ '' for reading'')
     | Some text \<Rightarrow>
         (case first_word text of
            None \<Rightarrow> throw (''Failed to read credentials file '' @ path)
          | Some t \<Rightarrow> ret t))))"

definition updateStoredCredentials :: "'w terminal \<Rightarrow> string \<Rightarrow> ('w, 'z, unit) act" where
  "updateStoredCredentials K t =
     bindM (getM credentialPath) (\<lambda>path.
     bindM (callM (fs_writeFile (k_files K) path t)) (\<lambda>_. ret ()))"

definition getToken :: "'w terminal \<Rightarrow> ('w, 'z, string) act" where
  "getToken K =
     bindM (getM token) (\<lambda>t.
     if t \<noteq> [] then ret t
     else bindM (bindM (getM credentialPath) (\<lambda>path.
            if path \<noteq> [] then ret ()
            else bindM (getDefaultCredFilePath K) (\<lambda>p. modify (\<lambda>s. s\<lparr>credentialPath := p\<rparr>)))) (\<lambda>_.
          bindM (fetchStoredCredentials K) (\<lambda>t'.
          bindM (modify (\<lambda>s. s\<lparr>token := t'\<rparr>)) (\<lambda>_. ret t'))))"

text \<open>Where the address comes from, when it was not given; a word that cannot be read leaves it empty.\<close>

definition read_endpoint :: "'w terminal \<Rightarrow> ('w, 'z, unit) act" where
  "read_endpoint K =
     bindM (bindM (getM endpointPath) (\<lambda>path.
       if path \<noteq> [] then ret ()
       else bindM (getDefaultEndpointFilePath K) (\<lambda>p. modify (\<lambda>s. s\<lparr>endpointPath := p\<rparr>)))) (\<lambda>_.
     bindM (getM endpointPath) (\<lambda>path.
     bindM (checkPermissions K path) (\<lambda>perms.
     if perms = DOES_NOT_EXIST then modify (\<lambda>s. s\<lparr>apiEndpoint := ''http://localhost:18080''\<rparr>)
     else bindM (callM (fs_readFile (k_files K) path)) (\<lambda>contents.
     case contents of
       None \<Rightarrow> throw (''Failed to open endpoint file '' @ path @ '' for reading'')
     | Some text \<Rightarrow>
         (case first_word text of
            None \<Rightarrow> throw (''Failed to read endpoint file '' @ path)
          | Some w \<Rightarrow> modify (\<lambda>s. s\<lparr>apiEndpoint := w\<rparr>))))))"

definition getEndpoint :: "'w terminal \<Rightarrow> ('w, 'z, string) act" where
  "getEndpoint K =
     bindM (getM apiEndpoint) (\<lambda>endpoint.
     bindM (if endpoint = [] then read_endpoint K else ret ()) (\<lambda>_.
     bindM (getM apiEndpoint) (\<lambda>endpoint'.
     case check_endpoint endpoint' of Inl e \<Rightarrow> throw e | Inr ok \<Rightarrow> ret ok)))"

text \<open>The order in which the two parts are found is not fixed by the language.\<close>

definition url_of :: "string \<Rightarrow> string \<Rightarrow> string \<Rightarrow> string \<Rightarrow> string" where
  "url_of endpoint version path t = endpoint @ ''/'' @ version @ ''/'' @ path @ ''?token='' @ t"

definition makeURL :: "'w terminal \<Rightarrow> string \<Rightarrow> ('w, 'z, string) act" where
  "makeURL K path =
     bindM (getEndpoint K) (\<lambda>endpoint.
     bindM (getToken K) (\<lambda>t.
     bindM (getM apiVersion) (\<lambda>version. ret (url_of endpoint version path t))))"

definition getKubeconfigPath :: "'w terminal \<Rightarrow> string \<Rightarrow> ('w, 'z, string) act" where
  "getKubeconfigPath K given =
     (let path = (if given = [] then (case k_getenv K ''KUBECONFIG'' of None \<Rightarrow> [] | Some p \<Rightarrow> p) else given)
      in bindM (if CHR '':'' \<in> set path
                then let first = takeWhile (\<lambda>c. c \<noteq> CHR '':'') path
                     in bindM (ask K (''Multiple files in $KUBECONFIG, using '' @ first @ newline @
                                      ''Continue [y/N]: '')) (\<lambda>answer.
                        if answer = ''n'' \<or> answer = ''N'' then throw ''Installation cancelled'' else ret first)
                else ret path) (\<lambda>path1.
         bindM (if path1 = [] then bindM (getHomeDirectory K) (\<lambda>home. ret (home @ ''.kube/config''))
                else ret path1) (\<lambda>path2.
         bindM (checkPermissions K path2) (\<lambda>perms.
         if perms = DOES_NOT_EXIST then throw (''Config file '' @ [CHR 0x27] @ path2 @ [CHR 0x27] @ '' does not exist'')
         else ret path2))))"

section \<open>Requests\<close>

definition request_to :: "'w terminal \<Rightarrow> http_method \<Rightarrow> string \<Rightarrow> string \<Rightarrow> ('w, 'z, nat \<times> string) act" where
  "request_to K m url body =
     bindM (modify (\<lambda>s. s\<lparr>sent := sent s @ [(m, url, body)]\<rparr>)) (\<lambda>_. callE (k_http K m url body))"

definition httpGet :: "'w terminal \<Rightarrow> string \<Rightarrow> ('w, 'z, nat \<times> string) act" where
  "httpGet K url = request_to K Get url ''''"

definition httpDelete :: "'w terminal \<Rightarrow> string \<Rightarrow> ('w, 'z, nat \<times> string) act" where
  "httpDelete K url = request_to K Delete url ''''"

definition httpPut :: "'w terminal \<Rightarrow> string \<Rightarrow> string \<Rightarrow> ('w, 'z, nat \<times> string) act" where
  "httpPut K = request_to K Put"

definition httpPost :: "'w terminal \<Rightarrow> string \<Rightarrow> string \<Rightarrow> ('w, 'z, nat \<times> string) act" where
  "httpPost K = request_to K Post"

text \<open>The body of a request that a command makes of a document.\<close>

definition document :: "'w terminal \<Rightarrow> (string \<times> json) list \<Rightarrow> string" where
  "document K members = c_str (k_print K (J_object ((''apiVersion'', J_string ''v1alpha3'') # members)))"

text \<open>An exception that is caught in the course of a command.\<close>

definition catchP :: "('s, 'a) paged \<Rightarrow> (what \<Rightarrow> ('s, 'a) paged) \<Rightarrow> ('s, 'a) paged" where
  "catchP m h s =
     (case m s of
        None \<Rightarrow> None
      | Some (Inl e, s') \<Rightarrow> if runtime_error e then h e s' else Some (Inl e, s')
      | Some (Inr a, s') \<Rightarrow> Some (Inr a, s'))"

lemmas session_defs = say_def complain_def listen_def ask_def getM_def request_to_def httpGet_def httpDelete_def
  httpPut_def httpPost_def

end
