(* ===== verification/ClientTable.thy ===== *)
theory ClientTable
  imports ClientSession
begin

text \<open>
  How the client prints what the server answered: \<open>formatTable\<close>, \<open>jsonValueToString\<close>,
  \<open>jsonListToTable\<close>, \<open>readJsonPointer\<close> and \<open>formatOutput\<close> of \<open>src/client/Client.cpp\<close>.
\<close>

section \<open>Tables\<close>

record columnSpec =
  label :: string
  attribute :: string
  allowWrap :: bool
  optional :: bool

definition column :: "string \<Rightarrow> string \<Rightarrow> columnSpec" where
  "column l a = \<lparr>label = l, attribute = a, allowWrap = False, optional = False\<rparr>"

definition wide_column :: "string \<Rightarrow> string \<Rightarrow> columnSpec" where
  "wide_column l a = \<lparr>label = l, attribute = a, allowWrap = True, optional = False\<rparr>"

type_synonym table = "string list list"

definition widen :: "nat list \<Rightarrow> string list \<Rightarrow> nat list" where
  "widen ws r =
     (let ws' = ws @ replicate (length r - length ws) 0
      in map (\<lambda>j. if j < length r then max (ws' ! j) (length (r ! j)) else ws' ! j) [0..<length ws'])"

definition minColumnWidths :: "table \<Rightarrow> nat list" where
  "minColumnWidths items = foldl widen [] items"

definition totalWidth :: "nat list \<Rightarrow> nat" where
  "totalWidth ws = sum_list ws + (if ws = [] then 0 else length ws - 1)"

text \<open>\<open>std::setw\<close> with \<open>std::left\<close>.\<close>

definition setw :: "nat \<Rightarrow> string \<Rightarrow> string" where
  "setw n s = s @ replicate (n - length s) CHR '' ''"

text \<open>What is printed of a text, underlined in the first row when there are headers.\<close>

definition shown :: "bool \<Rightarrow> bool \<Rightarrow> nat \<Rightarrow> string \<Rightarrow> string" where
  "shown ansi headers i s = (if ansi \<and> i \<noteq> 0 \<or> \<not> headers then s else underline ansi s)"

definition fitting_line :: "bool \<Rightarrow> bool \<Rightarrow> nat list \<Rightarrow> nat \<Rightarrow> string list \<Rightarrow> string" where
  "fitting_line ansi headers ws i r =
     concat (map (\<lambda>j. (if j \<noteq> 0 then '' '' else []) @
        setw (ws ! j + (if ansi \<and> i = 0 \<and> headers then 9 else 0)) (shown ansi headers i (r ! j)))
       [0..<length r]) @ newline"

definition fitting_table :: "bool \<Rightarrow> bool \<Rightarrow> nat list \<Rightarrow> table \<Rightarrow> string" where
  "fitting_table ansi headers ws items =
     concat (map (\<lambda>i. fitting_line ansi headers ws i (items ! i)) [0..<length items])"

section \<open>Tables that do not fit\<close>

text \<open>
  The columns that may be wrapped become narrower in proportion.  A floating point number below
  zero has no unsigned integer.
\<close>

definition wrappable :: "columnSpec list \<Rightarrow> nat list \<Rightarrow> nat \<Rightarrow> bool" where
  "wrappable columns ws i \<longleftrightarrow> i < length columns \<and> i < length ws \<and> allowWrap (columns ! i)"

definition wrappableWidth :: "columnSpec list \<Rightarrow> nat list \<Rightarrow> nat" where
  "wrappableWidth columns ws = (\<Sum>i\<leftarrow>[0..<length ws]. if wrappable columns ws i then ws ! i else 0)"

definition shrunk_width :: "'w terminal \<Rightarrow> nat \<Rightarrow> columnSpec list \<Rightarrow> nat list \<Rightarrow> nat \<Rightarrow> nat outcome" where
  "shrunk_width K width columns ws i =
     (if \<not> wrappable columns ws i then Inr (ws ! i)
      else let rest = totalWidth ws - wrappableWidth columns ws;
               n = k_shrink K (ws ! i) (int width - int rest) (wrappableWidth columns ws)
           in if n < 0 then Inl undefined_behaviour else Inr (if n = 0 then 1 else nat n))"

primrec mapE :: "('x \<Rightarrow> 'a outcome) \<Rightarrow> 'x list \<Rightarrow> 'a list outcome" where
  "mapE f [] = Inr []"
| "mapE f (x # xs) = bindE (f x) (\<lambda>a. bindE (mapE f xs) (\<lambda>rest. Inr (a # rest)))"

definition shrunk_widths :: "'w terminal \<Rightarrow> nat \<Rightarrow> columnSpec list \<Rightarrow> nat list \<Rightarrow> nat list outcome" where
  "shrunk_widths K width columns ws =
     (if wrappableWidth columns ws > 2 then mapE (shrunk_width K width columns ws) [0..<length ws]
      else Inr ws)"

text \<open>
  How much of a wrapped text goes on this line: up to and with the last space, dash or underscore
  within the width, unless half of the line or more would stay empty.
\<close>

definition break_char :: "char \<Rightarrow> bool" where
  "break_char c \<longleftrightarrow> c = CHR '' '' \<or> c = CHR ''-'' \<or> c = CHR ''_''"

definition find_break :: "string \<Rightarrow> nat \<Rightarrow> nat option" where
  "find_break item from =
     (if \<exists>c \<in> set (drop from item). break_char c
      then Some (from + length (takeWhile (\<lambda>c. \<not> break_char c) (drop from item))) else None)"

lemma find_break_bounds: "find_break item from = Some p \<Longrightarrow> from \<le> p \<and> p < length item"
proof -
  assume "find_break item from = Some p"
  then have some: "\<exists>c \<in> set (drop from item). break_char c"
    and p: "p = from + length (takeWhile (\<lambda>c. \<not> break_char c) (drop from item))"
    by (auto simp: find_break_def split: if_splits)
  have "takeWhile (\<lambda>c. \<not> break_char c) (drop from item) \<noteq> drop from item"
    using some by (metis set_takeWhileD)
  then have "length (takeWhile (\<lambda>c. \<not> break_char c) (drop from item)) < length (drop from item)"
    by (metis length_takeWhile_le nat_less_le takeWhile_eq_take take_all_iff)
  then show ?thesis using p by simp
qed

function break_loop :: "string \<Rightarrow> nat \<Rightarrow> nat \<Rightarrow> nat \<Rightarrow> nat option \<Rightarrow> nat" where
  "break_loop item start w len break_pos =
     (case break_pos of
        None \<Rightarrow> len
      | Some p \<Rightarrow>
          if p \<ge> start \<and> p - start < w
          then let len' = p - start + 1 in break_loop item start w len' (find_break item (start + len'))
          else len)"
  by pat_completeness auto
termination
  by (relation "measure (\<lambda>(item, start, w, len, pos). case pos of None \<Rightarrow> 0 | Some p \<Rightarrow> Suc (start + w - p))")
    (auto dest!: find_break_bounds split: option.split)

declare break_loop.simps [simp del]

definition len_to_print :: "bool \<Rightarrow> string \<Rightarrow> nat \<Rightarrow> nat \<Rightarrow> nat" where
  "len_to_print wrap item start w =
     (if wrap
      then let len = break_loop item start w w (find_break item start)
           in if len * 2 \<le> w then w else len
      else w)"

text \<open>
  One line of a row.  \<open>done\<close> says which cells have been printed, \<open>printed\<close> how much of each.  A
  cell that is done is left blank, if there is anything to come behind it.
\<close>

type_synonym line_progress = "bool list \<times> nat list \<times> string"

definition wrapped_cell :: "bool \<Rightarrow> bool \<Rightarrow> nat list \<Rightarrow> columnSpec list \<Rightarrow> nat \<Rightarrow> string list \<Rightarrow> nat \<Rightarrow>
    line_progress \<Rightarrow> line_progress outcome" where
  "wrapped_cell ansi headers ws columns i r j state =
     (case state of (finished, parts, os0) \<Rightarrow>
        let os = os0 @ (if j \<noteq> 0 then '' '' else [])
        in if finished ! j \<and> \<not> list_all id (drop j finished)
           then Inr (finished, parts, os @ setw (ws ! j) '' '')
           else if j \<ge> length columns then Inl undefined_behaviour
           else let start = parts ! j;
                    len = len_to_print (allowWrap (columns ! j)) (r ! j) start (ws ! j);
                    to_print = take len (drop start (r ! j));
                    text = shown ansi headers i to_print;
                    os' = os @ (if j \<noteq> length r - 1
                                then setw (ws ! j + (if ansi \<and> i = 0 then 9 else 0)) text else text)
                in if start + len \<ge> length (r ! j) then Inr (finished[j := True], parts, os')
                   else Inr (finished, parts[j := start + len], os'))"

primrec foldE :: "('x \<Rightarrow> 'a \<Rightarrow> 'a outcome) \<Rightarrow> 'x list \<Rightarrow> 'a \<Rightarrow> 'a outcome" where
  "foldE f [] acc = Inr acc"
| "foldE f (x # xs) acc = bindE (f x acc) (foldE f xs)"

definition wrapped_line :: "bool \<Rightarrow> bool \<Rightarrow> nat list \<Rightarrow> columnSpec list \<Rightarrow> nat \<Rightarrow> string list \<Rightarrow>
    line_progress \<Rightarrow> line_progress outcome" where
  "wrapped_line ansi headers ws columns i r state =
     bindE (foldE (wrapped_cell ansi headers ws columns i r) [0..<length r] state) (\<lambda>(finished, parts, os).
     Inr (finished, parts, os @ newline))"

text \<open>Lines are printed until every column is done, which need not happen.\<close>

partial_function (option) wrapped_row :: "bool \<Rightarrow> bool \<Rightarrow> nat list \<Rightarrow> columnSpec list \<Rightarrow> nat \<Rightarrow>
    string list \<Rightarrow> line_progress \<Rightarrow> string outcome option" where
  "wrapped_row ansi headers ws columns i r state =
     (if list_all id (fst state) then Some (Inr (snd (snd state)))
      else case wrapped_line ansi headers ws columns i r state of
             Inl e \<Rightarrow> Some (Inl e)
           | Inr state' \<Rightarrow> wrapped_row ansi headers ws columns i r state')"

primrec wrapped_rows :: "bool \<Rightarrow> bool \<Rightarrow> nat list \<Rightarrow> columnSpec list \<Rightarrow> nat \<Rightarrow> table \<Rightarrow> string \<Rightarrow>
    string outcome option" where
  "wrapped_rows ansi headers ws columns i [] os = Some (Inr os)"
| "wrapped_rows ansi headers ws columns i (r # rs) os =
     (case wrapped_row ansi headers ws columns i r
             (replicate (length ws) False, replicate (length ws) 0, os) of
        None \<Rightarrow> None
      | Some (Inl e) \<Rightarrow> Some (Inl e)
      | Some (Inr os') \<Rightarrow> wrapped_rows ansi headers ws columns (i + 1) rs os')"

definition formatTable :: "'w terminal \<Rightarrow> bool \<Rightarrow> nat \<Rightarrow> table \<Rightarrow> columnSpec list \<Rightarrow> bool \<Rightarrow>
    string outcome option" where
  "formatTable K ansi width items columns headers =
     (let ws = minColumnWidths items
      in if totalWidth ws \<le> width then Some (Inr (fitting_table ansi headers ws items))
         else case shrunk_widths K width columns ws of
                Inl e \<Rightarrow> Some (Inl e)
              | Inr ws' \<Rightarrow> wrapped_rows ansi headers ws' columns 0 items [])"

section \<open>Documents\<close>

text \<open>JSON pointers: a slash before every part, and \<open>~0\<close> and \<open>~1\<close> for \<open>~\<close> and \<open>/\<close> in it.\<close>

fun unescape_part :: "string \<Rightarrow> string option" where
  "unescape_part [] = Some []"
| "unescape_part (c # s) =
     (if c = CHR ''~''
      then (case s of
              [] \<Rightarrow> None
            | d # s' \<Rightarrow> if d = CHR ''0'' then map_option (Cons CHR ''~'') (unescape_part s')
                        else if d = CHR ''1'' then map_option (Cons CHR ''/'') (unescape_part s')
                        else None)
      else map_option (Cons c) (unescape_part s))"

primrec all_some :: "'a option list \<Rightarrow> 'a list option" where
  "all_some [] = Some []"
| "all_some (x # xs) =
     (case x of None \<Rightarrow> None | Some a \<Rightarrow> map_option (Cons a) (all_some xs))"

definition pointer_parts :: "'w terminal \<Rightarrow> string \<Rightarrow> string list option" where
  "pointer_parts K pointer =
     (case pointer of
        [] \<Rightarrow> Some []
      | c # s \<Rightarrow> if c = CHR ''/'' then all_some (map unescape_part (split_at (CHR ''/'') s))
                 else k_fragment K pointer)"

definition array_index :: "string \<Rightarrow> nat option" where
  "array_index part =
     (if part \<noteq> [] \<and> list_all isdigit part \<and> (hd part \<noteq> CHR ''0'' \<or> length part = 1)
      then Some (digits_value 0 part) else None)"

fun walk_json :: "json \<Rightarrow> string list \<Rightarrow> json option" where
  "walk_json v [] = Some v"
| "walk_json (J_object ms) (p # ps) = (case map_of ms p of None \<Rightarrow> None | Some v \<Rightarrow> walk_json v ps)"
| "walk_json (J_array xs) (p # ps) =
     (case array_index p of None \<Rightarrow> None | Some i \<Rightarrow> if i < length xs then walk_json (xs ! i) ps else None)"
| "walk_json _ (p # ps) = None"

text \<open>A pointer that is not one trips an assertion.\<close>

definition pointed :: "'w terminal \<Rightarrow> string \<Rightarrow> json \<Rightarrow> json option outcome" where
  "pointed K pointer v =
     (case pointer_parts K pointer of
        None \<Rightarrow> Inl assertion_failed
      | Some ps \<Rightarrow> Inr (walk_json v ps))"

fun jsonValueToString :: "'w terminal \<Rightarrow> json \<Rightarrow> string outcome" where
  "jsonValueToString K (J_string s) = Inr (c_str s)"
| "jsonValueToString K (J_int n) = Inr (show_int n)"
| "jsonValueToString K (J_double d) = Inr (d_print (k_doubles K) d)"
| "jsonValueToString K J_null = Inr ''Null''"
| "jsonValueToString K (J_bool b) = Inr (if b then ''true'' else ''false'')"
| "jsonValueToString K _ = Inl ''JSON value is not a scalar which can be displayed as a string''"

definition cell_of :: "'w terminal \<Rightarrow> json \<Rightarrow> columnSpec \<Rightarrow> string outcome" where
  "cell_of K jrow col =
     bindE (pointed K (c_str (attribute col)) jrow) (\<lambda>found.
     case found of
       None \<Rightarrow> if optional col then Inr '''' else Inl ''Given attribute does not exist''
     | Some v \<Rightarrow> jsonValueToString K v)"

definition row_of :: "'w terminal \<Rightarrow> columnSpec list \<Rightarrow> json \<Rightarrow> string list outcome" where
  "row_of K columns jrow = mapE (cell_of K jrow) columns"

fun data_rows :: "'w terminal \<Rightarrow> columnSpec list \<Rightarrow> json \<Rightarrow> table outcome" where
  "data_rows K columns (J_array xs) = mapE (row_of K columns) xs"
| "data_rows K columns (J_object ms) = bindE (row_of K columns (J_object ms)) (\<lambda>r. Inr [r])"
| "data_rows K columns _ = Inr []"

text \<open>
  The rows are sorted by the first column, or by the one the user asked for; not at all when
  there is none of that name.  Without any column there is no first one to compare.
\<close>

definition sort_index :: "string \<Rightarrow> columnSpec list \<Rightarrow> nat option" where
  "sort_index order columns =
     (if order = '''' then Some 0
      else if order \<in> set (map label columns)
           then Some (length (takeWhile (\<lambda>col. label col \<noteq> order) columns))
           else None)"

definition table_of :: "'w terminal \<Rightarrow> string \<Rightarrow> columnSpec list \<Rightarrow> bool \<Rightarrow> json \<Rightarrow> table outcome" where
  "table_of K order columns headers jdata =
     bindE (data_rows K columns jdata) (\<lambda>rows.
     if columns = [] \<and> order = [] \<and> length rows \<ge> 2 then Inl undefined_behaviour
     else Inr ((if headers then [map label columns] else []) @
          (case sort_index order columns of None \<Rightarrow> rows | Some i \<Rightarrow> k_sort K i rows)))"

definition jsonListToTable :: "'w terminal \<Rightarrow> json \<Rightarrow> columnSpec list \<Rightarrow> bool \<Rightarrow> ('w, 'z, string) command" where
  "jsonListToTable K jdata columns headers s =
     (case table_of K (orderBy s) columns headers jdata of
        Inl e \<Rightarrow> Some (Inl e, s)
      | Inr items \<Rightarrow>
          map_option (\<lambda>r. (r, s)) (formatTable K (useANSICodes s) (outputWidth s) items columns headers))"

definition readJsonPointer :: "'w terminal \<Rightarrow> json \<Rightarrow> string \<Rightarrow> string outcome" where
  "readJsonPointer K jdata pointer =
     bindE (pointed K pointer jdata) (\<lambda>found.
     case found of
       None \<Rightarrow> Inl ''The pointer provided to format output is not valid''
     | Some v \<Rightarrow> (case GetString v of Pass t \<Rightarrow> Inr (t @ newline) | _ \<Rightarrow> Inl assertion_failed))"

section \<open>Formats\<close>

definition raise :: "'a outcome \<Rightarrow> ('w, 'z, 'a) act" where
  "raise r s = (r, s)"

text \<open>What follows the first equals sign of a format; \<open>None\<close> when there is none.\<close>

definition format_argument :: "string \<Rightarrow> string option" where
  "format_argument format =
     (if CHR ''='' \<in> set format then Some (tl (dropWhile (\<lambda>c. c \<noteq> CHR ''='') format)) else None)"

definition format_file :: "'w terminal \<Rightarrow> string \<Rightarrow> what \<Rightarrow> what \<Rightarrow> what \<Rightarrow> ('w, 'z, string) act" where
  "format_file K format missing nothing unreadable =
     (case format_argument format of
        None \<Rightarrow> throw missing
      | Some file \<Rightarrow>
          if file = [] then throw nothing
          else bindM (callM (fs_readFile (k_files K) file)) (\<lambda>contents.
               case contents of None \<Rightarrow> throw unreadable | Some text \<Rightarrow> ret text))"

text \<open>The words of a line, parted by tabs and spaces, and the two lines of a file of columns.\<close>

definition line_words :: "string \<Rightarrow> string list" where
  "line_words line = filter (\<lambda>w. w \<noteq> []) (concat (map (getlines CHR '' '') (getlines CHR 0x09 line)))"

fun column_lines :: "string list \<Rightarrow> string list \<times> string list \<Rightarrow> (string list \<times> string list) outcome" where
  "column_lines [] (labels, attributes) = Inr (labels, attributes)"
| "column_lines (line # lines) (labels, attributes) =
     (if labels = [] then column_lines lines (line_words line, attributes)
      else if attributes = [] then column_lines lines (labels, line_words line)
      else Inl ''The custom columns file should only include labels and a single attribute for each label'')"

definition file_columns :: "string \<Rightarrow> columnSpec list outcome" where
  "file_columns text =
     bindE (column_lines (getlines CHR 0x0A text) ([], [])) (\<lambda>(labels, attributes).
     if length labels > length attributes then Inl undefined_behaviour
     else Inr (map2 column labels attributes))"

lemma length_tl_dropWhile: "length (tl (dropWhile P s)) \<le> length s"
  using length_dropWhile_le [of P s] by simp

lemma length_tl_dropWhile_less: "s \<noteq> [] \<Longrightarrow> length (tl (dropWhile P s)) < length s"
  using length_dropWhile_le [of P s] by (cases s) auto

function inline_columns :: "string \<Rightarrow> columnSpec list outcome" where
  "inline_columns cols =
     (if cols = [] then Inr []
      else if CHR '':'' \<notin> set cols
      then Inl ''Every label for the table must have an attribute specified with it''
      else let l = takeWhile (\<lambda>c. c \<noteq> CHR '':'') cols;
               rest = tl (dropWhile (\<lambda>c. c \<noteq> CHR '':'') cols)
           in if rest = [] then Inl ''Every label for the table must have an attribute specified with it''
              else bindE (inline_columns (tl (dropWhile (\<lambda>c. c \<noteq> CHR '','') rest))) (\<lambda>cs.
                   Inr (column l (takeWhile (\<lambda>c. c \<noteq> CHR '','') rest) # cs)))"
  by pat_completeness auto

termination
proof (relation "measure length")
  fix cols l rest
  assume "cols \<noteq> []" and "rest = tl (dropWhile (\<lambda>c. c \<noteq> CHR '':'') cols)"
  then have "length rest < length cols"
    using length_tl_dropWhile_less [of cols "\<lambda>c. c \<noteq> CHR '':''"] by (simp del: length_tl)
  then show "(tl (dropWhile (\<lambda>c. c \<noteq> CHR '','') rest), cols) \<in> measure length"
    using le_less_trans [OF length_tl_dropWhile] by simp
qed simp

declare inline_columns.simps [simp del]

definition formatOutput :: "'w terminal \<Rightarrow> json \<Rightarrow> json \<Rightarrow> columnSpec list \<Rightarrow> ('w, 'z, string) command" where
  "formatOutput K jdata original columns =
     bindP (whole (getM (\<lambda>s. (outputFormat s, clientShouldPrintOnlyJson s)))) (\<lambda>(format, only_json).
     if only_json then whole (ret (c_str (k_print K jdata) @ newline))
     else if find_sub ''custom-columns-file'' format \<noteq> None then
       bindP (whole (format_file K format
                ''No file was specified to format output with custom columns''
                ''No file was specified to format output with custom columns''
                ''The specified file for custom columns was not able to be opened'')) (\<lambda>text.
       bindP (whole (raise (file_columns text))) (\<lambda>custom.
       jsonListToTable K jdata custom True))
     else if find_sub ''custom-columns'' format \<noteq> None then
       (case format_argument format of
          None \<Rightarrow> whole (throw ''No custom columns were specified to format output with'')
        | Some cols \<Rightarrow>
            if cols = [] then whole (throw ''No custom columns were specified to format output with'')
            else bindP (whole (raise (inline_columns cols))) (\<lambda>custom.
                 jsonListToTable K jdata custom True))
     else if format = ''no-headers'' then jsonListToTable K jdata columns False
     else if find_sub ''jsonpointer-file'' format \<noteq> None then
       bindP (whole (format_file K format
                ''No json pointer file was specified to be used to format the output''
                ''No file was specified to format output with''
                ''The file specified to format output was unable to be opened'')) (\<lambda>text.
       whole (raise (readJsonPointer K original (concat (getlines CHR 0x0A text)))))
     else if find_sub ''jsonpointer'' format \<noteq> None then
       (case format_argument format of
          None \<Rightarrow> whole (throw ''No json pointer format was included to use to format the output'')
        | Some pointer \<Rightarrow>
            if pointer = [] then whole (throw ''No json pointer was given to format output'')
            else whole (raise (readJsonPointer K original pointer)))
     else if format = [] then jsonListToTable K jdata columns True
     else whole (throw ''Specified output format is not supported''))"

text \<open>What a command prints of a document.\<close>

definition show_output :: "'w terminal \<Rightarrow> json \<Rightarrow> json \<Rightarrow> columnSpec list \<Rightarrow> ('w, 'z, unit) command" where
  "show_output K jdata original columns =
     bindP (formatOutput K jdata original columns) (\<lambda>text. whole (say text))"

end
