(* ===== verification/ClientCommands.thy ===== *)
theory ClientCommands
  imports ClientTable
begin

text \<open>
  The commands of \<open>src/client/Client.cpp\<close> on groups and clusters, and what all commands share: the
  report of an error and of the version (\<open>showError\<close>, \<open>printVersion\<close>) and the question before something is deleted.

  The report of an error may ask the server for its version, which may end in an error to
  report: the first argument bounds how often that happens.  The options of a command are
  arguments here.
\<close>

section \<open>Reports\<close>

definition supported_version :: what where
  "supported_version = ''Unsupported API version''"

text \<open>What is said of the body of an error, and whether the server wants another version.\<close>

definition error_text :: "'w terminal \<Rightarrow> string \<Rightarrow> (string \<times> bool) check" where
  "error_text K maybeJSON =
     (let doc = k_parse K (c_str maybeJSON)
      in bindC (if IsObject doc then HasMember doc ''message'' else Pass False) (\<lambda>has.
         if has then bindC (text_of doc ''message'') (\<lambda>message.
           Pass ('': '' @ message, message = supported_version))
         else Pass ('': '' @ (if maybeJSON \<noteq> [] then maybeJSON else ''(empty response)''), False)))"

definition show_error :: "'w terminal \<Rightarrow> ('w, 'z, unit) command \<Rightarrow> string \<Rightarrow> ('w, 'z, unit) command" where
  "show_error K tell_version maybeJSON =
     bindP (whole (checkM (error_text K maybeJSON))) (\<lambda>(text, triggerVersionCheck).
     bindP (whole (complain (text @ newline))) (\<lambda>_.
     if triggerVersionCheck then tell_version else whole (ret ())))"

definition client_version :: "'w terminal \<Rightarrow> string \<times> json" where
  "client_version K = (''client'', J_object [(''version'', J_string (k_clientVersion K))])"

text \<open>What becomes of the server's answer: the members of \<open>server\<close> and the columns to print.\<close>

definition server_version :: "json \<Rightarrow> ((string \<times> json) list \<times> columnSpec list) check" where
  "server_version doc =
     bindC (HasMember doc ''serverVersion'') (\<lambda>has.
     bindC (if has then bindC (text_of doc ''serverVersion'') (\<lambda>v.
              Pass ([(''version'', J_string v)], [column ''Server Version'' ''/server/version'']))
            else Pass ([], [])) (\<lambda>(members, columns).
     bindC (HasMember doc ''supportedAPIVersions'') (\<lambda>listed.
     if \<not> listed then Pass (members, columns)
     else bindC (the_member doc ''supportedAPIVersions'') (\<lambda>versions.
       Pass (members @ (if IsArray versions then [(''apiVersions'', versions)] else []), columns)))))"

definition fetch_version :: "'w terminal \<Rightarrow> ('w, 'z, unit) command \<Rightarrow>
    ('w, 'z, (string \<times> json) list \<times> columnSpec list) command" where
  "fetch_version K tell_version =
     bindP (whole (getEndpoint K)) (\<lambda>endpoint.
     bindP (whole (httpGet K (endpoint @ ''/version''))) (\<lambda>rsp.
     if fst rsp = 200
     then bindP (whole (checkM (server_version (k_parse K (c_str (snd rsp)))))) (\<lambda>(members, columns).
          whole (ret ([(''server'', J_object members)], columns)))
     else bindP (whole (complain (''Failed to contact API server '' @ endpoint))) (\<lambda>_.
          bindP (show_error K tell_version (snd rsp)) (\<lambda>_. whole (throw OperationFailed)))))"

definition say_versions :: "'w terminal \<Rightarrow> (string \<times> json) list \<Rightarrow> ('w, 'z, unit) act" where
  "say_versions K members =
     (case map_of members ''server'' of
        Some (J_object ms) \<Rightarrow>
          (case map_of ms ''apiVersions'' of
             Some versions \<Rightarrow>
               bindM (checkM (bindC (GetArray versions) (mapC GetString))) (\<lambda>names.
               bindM (getM apiVersion) (\<lambda>version.
               bindM (getM useANSICodes) (\<lambda>ansi.
               bindM (say (''Server supported API versions:'' @ concat (map (Cons CHR '' '') names) @ newline)) (\<lambda>_.
               if version \<in> set names then ret ()
               else say (bold ansi (''This client only supports SLATE API version '' @ version @
                                    ''; it cannot work with this server.'') @ newline @
                         ''Try '' @ [CHR 0x27] @ ''slate version upgrade'' @ [CHR 0x27] @
                         '' or consult your package manager.'' @ newline)))))
           | None \<Rightarrow> ret ())
      | _ \<Rightarrow> ret ())"

primrec printVersion :: "nat \<Rightarrow> 'w terminal \<Rightarrow> ('w, 'z, unit) command" where
  "printVersion 0 K = (\<lambda>s. None)"
| "printVersion (Suc n) K =
     bindP (catchP (fetch_version K (printVersion n K))
             (\<lambda>e. bindP (whole (getEndpoint K)) (\<lambda>endpoint.
               bindP (whole (complain (''Failed to contact API server '' @ endpoint @ '': '' @ e @ newline))) (\<lambda>_.
               whole (ret ([], [])))))) (\<lambda>(server, columns).
     let doc = J_object (client_version K # server)
     in bindP (show_output K doc doc (column ''Client Version'' ''/client/version'' # columns)) (\<lambda>_.
        bindP (whole (getM clientShouldPrintOnlyJson)) (\<lambda>only_json.
        if only_json then whole (ret ()) else whole (say_versions K server))))"

definition showError :: "nat \<Rightarrow> 'w terminal \<Rightarrow> string \<Rightarrow> ('w, 'z, unit) command" where
  "showError n K maybeJSON = show_error K (printVersion n K) maybeJSON"

text \<open>Every command ends so when the server did not do what it was asked for.\<close>

definition reported :: "nat \<Rightarrow> 'w terminal \<Rightarrow> string \<Rightarrow> string \<Rightarrow> ('w, 'z, 'a) command" where
  "reported n K problem body =
     bindP (whole (complain problem)) (\<lambda>_.
     bindP (showError n K body) (\<lambda>_. whole (throw OperationFailed)))"

definition answered :: "nat \<Rightarrow> 'w terminal \<Rightarrow> nat \<times> string \<Rightarrow> string \<Rightarrow> (string \<Rightarrow> ('w, 'z, 'a) command) \<Rightarrow>
    ('w, 'z, 'a) command" where
  "answered n K rsp problem k =
     (if fst rsp = 200 then k (snd rsp) else reported n K problem (snd rsp))"

text \<open>A GET request for a path and some parameters, and for a list or a document to print.\<close>

definition getting :: "nat \<Rightarrow> 'w terminal \<Rightarrow> string \<Rightarrow> string \<Rightarrow> string \<Rightarrow> (json \<Rightarrow> ('w, 'z, 'a) command) \<Rightarrow>
    ('w, 'z, 'a) command" where
  "getting n K path params problem k =
     bindP (whole (makeURL K path)) (\<lambda>url.
     bindP (whole (httpGet K (url @ params))) (\<lambda>rsp.
     answered n K rsp problem (\<lambda>body. k (k_parse K (c_str body)))))"

definition show_items :: "'w terminal \<Rightarrow> json \<Rightarrow> columnSpec list \<Rightarrow> ('w, 'z, unit) command" where
  "show_items K doc columns =
     bindP (whole (checkM (the_member doc ''items''))) (\<lambda>items. show_output K items doc columns)"

text \<open>A request that changes something, and the message when it worked.\<close>

definition changing :: "nat \<Rightarrow> 'w terminal \<Rightarrow> ('w, 'z, nat \<times> string) act \<Rightarrow> string \<Rightarrow> string \<Rightarrow>
    ('w, 'z, unit) command" where
  "changing n K req message problem =
     bindP (whole req) (\<lambda>rsp. answered n K rsp problem (\<lambda>body. whole (say (message @ newline))))"

definition say_created :: "'w terminal \<Rightarrow> string \<Rightarrow> string \<Rightarrow> ('w, 'z, unit) act" where
  "say_created K what_kind body =
     (let doc = k_parse K (c_str body)
      in bindM (checkM (text_at doc [''metadata'', ''name''])) (\<lambda>name.
         bindM (checkM (text_at doc [''metadata'', ''id''])) (\<lambda>ident.
         say (''Successfully created '' @ what_kind @ '' '' @ name @ '' with ID '' @ ident @ newline))))"

section \<open>Deleting\<close>

text \<open>
  Whether the user really wants to delete something, unless he said so before.  \<open>question\<close>
  makes the question of what the server tells about it.
\<close>

definition confirm :: "nat \<Rightarrow> 'w terminal \<Rightarrow> bool \<Rightarrow> string \<Rightarrow> string \<Rightarrow> what \<Rightarrow> (json \<Rightarrow> string check) \<Rightarrow>
    ('w, 'z, unit) command" where
  "confirm n K sure path missing aborted question =
     (if sure then whole (ret ())
      else bindP (whole (makeURL K path)) (\<lambda>url.
           bindP (whole (httpGet K url)) (\<lambda>rsp.
           if fst rsp \<noteq> 200
           then bindP (whole (complain missing)) (\<lambda>_.
                bindP (showError n K (snd rsp)) (\<lambda>_. whole (throw aborted)))
           else bindP (whole (checkM (question (k_parse K (c_str (snd rsp)))))) (\<lambda>text.
                bindP (whole (ask K text)) (\<lambda>answer.
                if yes answer then whole (ret ()) else whole (throw aborted))))))"

definition deletion_request :: "'w terminal \<Rightarrow> string \<Rightarrow> bool \<Rightarrow> ('w, 'z, nat \<times> string) act" where
  "deletion_request K path force =
     bindM (makeURL K path) (\<lambda>url. httpDelete K (url @ (if force then ''&force'' else [])))"

text \<open>The ID and the name of a thing, and some of its other members.\<close>

definition metadata_text :: "json \<Rightarrow> string \<Rightarrow> string check" where
  "metadata_text doc k = text_at doc [''metadata'', k]"

section \<open>Groups\<close>

definition createGroup :: "nat \<Rightarrow> 'w terminal \<Rightarrow> string \<Rightarrow> string \<Rightarrow> ('w, 'z, unit) command" where
  "createGroup n K groupName scienceField =
     bindP (whole (makeURL K ''groups'')) (\<lambda>url.
     bindP (whole (httpPost K url (document K
       [(''metadata'', J_object [(''name'', J_text groupName), (''scienceField'', J_text scienceField)])]))) (\<lambda>rsp.
     answered n K rsp (''Failed to create group '' @ groupName) (\<lambda>body. whole (say_created K ''group'' body))))"

definition given :: "string \<Rightarrow> string \<Rightarrow> (string \<times> json) list" where
  "given k v = (if v \<noteq> [] then [(k, J_text v)] else [])"

definition updateGroup_command :: "nat \<Rightarrow> 'w terminal \<Rightarrow> string \<Rightarrow> string \<Rightarrow> string \<Rightarrow> string \<Rightarrow> string \<Rightarrow>
    ('w, 'z, unit) command" where
  "updateGroup_command n K groupName email phone scienceField description =
     (if email = [] \<and> phone = [] \<and> scienceField = [] \<and> description = []
      then whole (say (''No updates specified'' @ newline))
      else bindP (whole (makeURL K (''groups/'' @ groupName))) (\<lambda>url.
           changing n K (httpPut K url (document K
             [(''metadata'', J_object ([(''name'', J_text groupName)] @ given ''email'' email @
                given ''phone'' phone @ given ''scienceField'' scienceField @
                given ''description'' description))]))
             (''Successfully updated group '' @ groupName) (''Failed to update group '' @ groupName)))"

definition deleteGroup :: "nat \<Rightarrow> 'w terminal \<Rightarrow> string \<Rightarrow> bool \<Rightarrow> ('w, 'z, unit) command" where
  "deleteGroup n K groupName assumeYes =
     bindP (confirm n K assumeYes (''groups/'' @ groupName) (''Failed to get group '' @ groupName)
              ''Group deletion aborted'' (\<lambda>doc.
              bindC (metadata_text doc ''id'') (\<lambda>ident.
              bindC (metadata_text doc ''name'') (\<lambda>name.
              Pass (''Are you sure you want to delete group '' @ ident @ '' ('' @ name @ '')? y/[n]: ''))))) (\<lambda>_.
     changing n K (deletion_request K (''groups/'' @ groupName) False)
       (''Successfully deleted group '' @ groupName) (''Failed to delete group '' @ groupName))"

definition getGroupInfo :: "nat \<Rightarrow> 'w terminal \<Rightarrow> string \<Rightarrow> ('w, 'z, unit) command" where
  "getGroupInfo n K groupName =
     getting n K (''groups/'' @ groupName) [] (''Failed to get information about group '' @ groupName) (\<lambda>doc.
     bindP (show_output K doc doc
              [column ''Name'' ''/metadata/name'', wide_column ''Field'' ''/metadata/scienceField'',
               wide_column ''Email'' ''/metadata/email'', wide_column ''Phone'' ''/metadata/phone'',
               wide_column ''ID'' ''/metadata/id'']) (\<lambda>_.
     bindP (whole (getM clientShouldPrintOnlyJson)) (\<lambda>only_json.
     if only_json then whole (ret ())
     else whole (bindM (checkM (metadata_text doc ''description'')) (\<lambda>description.
            say (''Description: '' @ description @ newline))))))"

definition listGroups_command :: "nat \<Rightarrow> 'w terminal \<Rightarrow> bool \<Rightarrow> ('w, 'z, unit) command" where
  "listGroups_command n K user =
     getting n K ''groups'' (if user then ''&user=true'' else []) ''Failed to list groups'' (\<lambda>doc.
     show_items K doc [column ''Name'' ''/metadata/name'', wide_column ''ID'' ''/metadata/id''])"

section \<open>Clusters\<close>

definition getClusterList :: "nat \<Rightarrow> 'w terminal \<Rightarrow> string \<Rightarrow> ('w, 'z, json) command" where
  "getClusterList n K g =
     getting n K ''clusters'' (if g \<noteq> [] then ''&group='' @ g else []) ''Failed to list clusters'' (\<lambda>doc.
     whole (ret doc))"

definition access_url :: "string \<Rightarrow> string \<Rightarrow> string \<Rightarrow> string \<Rightarrow> string" where
  "access_url version clusterName groupName t =
     ''/'' @ version @ ''/clusters/'' @ clusterName @ ''/allowed_groups/'' @ groupName @ ''?token='' @ t"

text \<open>The name of a cluster, if the server told one.\<close>

definition name_of_cluster :: "json \<Rightarrow> string option check" where
  "name_of_cluster cluster =
     bindC (HasMember cluster ''metadata'') (\<lambda>has.
     if \<not> has then Pass None
     else bindC (the_member cluster ''metadata'') (\<lambda>metadata.
       if \<not> IsObject metadata then Pass None
       else bindC (HasMember metadata ''name'') (\<lambda>named.
         if \<not> named then Pass None
         else bindC (the_member metadata ''name'') (\<lambda>name.
           if IsString name then bindC (GetString name) (\<lambda>t. Pass (Some t)) else Pass None))))"

definition access_request :: "string \<times> string \<Rightarrow> string \<times> json" where
  "access_request pair = (fst pair, J_object [(''method'', J_string ''GET''), (''body'', J_string '''')])"

text \<open>One of the answers in the bundle: the cluster and the group, when the group has access.\<close>

definition access_answer :: "'w terminal \<Rightarrow> (string \<times> string) list \<Rightarrow> string \<times> json \<Rightarrow> json option check" where
  "access_answer K urlsToClusters result =
     bindC (HasMember (snd result) ''status'') (\<lambda>has_status.
     bindC (HasMember (snd result) ''body'') (\<lambda>has_body.
     if \<not> has_status \<or> \<not> has_body then Pass None
     else bindC (the_member (snd result) ''status'') (\<lambda>status.
       bindC (the_member (snd result) ''body'') (\<lambda>body.
       case (status, body) of
         (J_int c, J_string text) \<Rightarrow>
           if c \<noteq> 200 then Pass None
           else (case map_of urlsToClusters (c_str (fst result)) of
             None \<Rightarrow> Pass None
           | Some name \<Rightarrow>
               let doc = k_parse K (c_str text)
               in bindC (the_member doc ''group'') (\<lambda>gid.
                  bindC (the_member doc ''accessAllowed'') (\<lambda>allowed.
                  Pass (if allowed = J_bool True
                        then Some (J_object [(''cluster'', J_string name), (''gid'', gid)]) else None))))
       | _ \<Rightarrow> Pass None))))"

definition listClustersAccessibleToGroup :: "nat \<Rightarrow> 'w terminal \<Rightarrow> string \<Rightarrow> ('w, 'z, unit) command" where
  "listClustersAccessibleToGroup n K groupName =
     bindP (getClusterList n K groupName) (\<lambda>clusterList.
     bindP (whole (checkM (HasMember clusterList ''items''))) (\<lambda>has.
     bindP (whole (checkM (if has then the_member clusterList ''items'' else Pass J_null))) (\<lambda>items.
     if \<not> IsArray items
     then bindP (whole (complain ''Cluster list response from API server does not have expected structure'')) (\<lambda>_.
          whole (throw OperationFailed))
     else bindP (whole (checkM (bindC (GetArray items) (mapC name_of_cluster)))) (\<lambda>found.
       let names = concat (map (\<lambda>x. case x of None \<Rightarrow> [] | Some name \<Rightarrow> [name]) found)
       in bindP (if names = [] then whole (ret '''') else whole (getToken K)) (\<lambda>t.
          bindP (whole (getM apiVersion)) (\<lambda>version.
          let urls = map (\<lambda>name. (access_url version name groupName t, name)) names
          in bindP (whole (makeURL K ''multiplex'')) (\<lambda>url.
             bindP (whole (httpPost K url (c_str (k_print K (J_object (map access_request urls)))))) (\<lambda>rsp.
             answered n K rsp ''Failed to get cluster group access information'' (\<lambda>body.
             let doc = k_parse K (c_str body)
             in if \<not> IsObject doc
                then bindP (whole (complain ''Cluster access response from API server does not have expected structure'')) (\<lambda>_.
                     whole (throw OperationFailed))
                else bindP (whole (checkM (bindC (GetObject doc) (mapC (access_answer K urls))))) (\<lambda>answers.
                  let array = J_array (concat (map (\<lambda>x. case x of None \<Rightarrow> [] | Some a \<Rightarrow> [a]) answers))
                  in show_output K array array
                       [column ''Cluster'' ''/cluster'', wide_column ''ID'' ''/gid'']))))))))))"

definition deleteCluster :: "nat \<Rightarrow> 'w terminal \<Rightarrow> string \<Rightarrow> bool \<Rightarrow> bool \<Rightarrow> ('w, 'z, unit) command" where
  "deleteCluster n K clusterName assumeYes force =
     bindP (confirm n K assumeYes (''clusters/'' @ clusterName) (''Failed to get cluster '' @ clusterName)
              ''Cluster deletion aborted'' (\<lambda>doc.
              bindC (metadata_text doc ''id'') (\<lambda>ident.
              bindC (metadata_text doc ''name'') (\<lambda>name.
              bindC (metadata_text doc ''owningGroup'') (\<lambda>g.
              Pass (''Are you sure you want to delete cluster '' @ ident @ '' ('' @ name @
                    '') belonging to group '' @ g @ ''? y/[n]: '')))))) (\<lambda>_.
     changing n K (deletion_request K (''clusters/'' @ clusterName) force)
       (''Successfully deleted cluster '' @ clusterName) (''Failed to delete cluster '' @ clusterName))"

definition listClusters_command :: "nat \<Rightarrow> 'w terminal \<Rightarrow> string \<Rightarrow> ('w, 'z, unit) command" where
  "listClusters_command n K g =
     bindP (getClusterList n K g) (\<lambda>doc.
     show_items K doc [column ''Name'' ''/metadata/name'', column ''Admin'' ''/metadata/owningGroup'',
                       wide_column ''ID'' ''/metadata/id''])"

definition access_path :: "string \<Rightarrow> string \<Rightarrow> string" where
  "access_path clusterName groupName = ''clusters/'' @ clusterName @ ''/allowed_groups/'' @ groupName"

definition grantGroupClusterAccess :: "nat \<Rightarrow> 'w terminal \<Rightarrow> string \<Rightarrow> string \<Rightarrow> ('w, 'z, unit) command" where
  "grantGroupClusterAccess n K clusterName groupName =
     changing n K (bindM (makeURL K (access_path clusterName groupName)) (\<lambda>url. httpPut K url ''''))
       (''Successfully granted group '' @ groupName @ '' access to cluster '' @ clusterName)
       (''Failed to grant group '' @ groupName @ '' access to cluster '' @ clusterName)"

definition revokeGroupClusterAccess :: "nat \<Rightarrow> 'w terminal \<Rightarrow> string \<Rightarrow> string \<Rightarrow> ('w, 'z, unit) command" where
  "revokeGroupClusterAccess n K clusterName groupName =
     changing n K (bindM (makeURL K (access_path clusterName groupName)) (httpDelete K))
       (''Successfully revoked group '' @ groupName @ '' access to cluster '' @ clusterName)
       (''Failed to revoke group '' @ groupName @ '' access to cluster '' @ clusterName)"

definition listGroupWithAccessToCluster :: "nat \<Rightarrow> 'w terminal \<Rightarrow> string \<Rightarrow> ('w, 'z, unit) command" where
  "listGroupWithAccessToCluster n K clusterName =
     getting n K (''clusters/'' @ clusterName @ ''/allowed_groups'') []
       (''Failed to retrieve groups with access to cluster '' @ clusterName) (\<lambda>doc.
     show_items K doc [column ''Name'' ''/metadata/name'', wide_column ''ID'' ''/metadata/id''])"

definition listAllowedApplications :: "nat \<Rightarrow> 'w terminal \<Rightarrow> string \<Rightarrow> string \<Rightarrow> ('w, 'z, unit) command" where
  "listAllowedApplications n K clusterName groupName =
     getting n K (access_path clusterName groupName @ ''/applications'') []
       (''Failed to retrieve groups with access to cluster '' @ clusterName) (\<lambda>doc.
     show_items K doc [column ''Name'' ''''])"

definition permission_text :: "string \<Rightarrow> string \<Rightarrow> string \<Rightarrow> string" where
  "permission_text groupName appName clusterName =
     groupName @ '' permission to use '' @ appName @ '' on cluster '' @ clusterName"

definition allowGroupUseOfApplication :: "nat \<Rightarrow> 'w terminal \<Rightarrow> string \<Rightarrow> string \<Rightarrow> string \<Rightarrow>
    ('w, 'z, unit) command" where
  "allowGroupUseOfApplication n K clusterName groupName appName =
     changing n K (bindM (makeURL K (access_path clusterName groupName @ ''/applications/'' @ appName)) (\<lambda>url.
                     httpPut K url ''''))
       (''Successfully granted group '' @ permission_text groupName appName clusterName)
       (''Failed to grant group '' @ permission_text groupName appName clusterName)"

definition denyGroupUseOfApplication_command :: "nat \<Rightarrow> 'w terminal \<Rightarrow> string \<Rightarrow> string \<Rightarrow> string \<Rightarrow>
    ('w, 'z, unit) command" where
  "denyGroupUseOfApplication_command n K clusterName groupName appName =
     changing n K (bindM (makeURL K (access_path clusterName groupName @ ''/applications/'' @ appName)) (httpDelete K))
       (''Successfully removed group '' @ permission_text groupName appName clusterName)
       (''Failed to remove group '' @ permission_text groupName appName clusterName)"

definition pingCluster :: "nat \<Rightarrow> 'w terminal \<Rightarrow> string \<Rightarrow> ('w, 'z, unit) command" where
  "pingCluster n K clusterName =
     bindP (whole (makeURL K (''clusters/'' @ clusterName @ ''/ping''))) (\<lambda>url.
     bindP (whole (httpGet K url)) (\<lambda>rsp.
     bindP (whole (getM clientShouldPrintOnlyJson)) (\<lambda>only_json.
     if only_json then whole (say (snd rsp @ newline))
     else answered n K rsp ''Failed check cluster connectivity'' (\<lambda>body.
       let doc = k_parse K (c_str body)
       in whole (
          bindM (checkM (HasMember doc ''reachable'')) (\<lambda>has.
          bindM (checkM (if has then bindC (the_member doc ''reachable'') (\<lambda>v. Pass (IsBool v)) else Pass False)) (\<lambda>told.
          bindM (if told then ret () else say (''Got invalid response: '' @ body @ newline)) (\<lambda>_.
          bindM (checkM (bindC (the_member doc ''reachable'') GetBoolean)) (\<lambda>reachable.
          say (''Cluster '' @ clusterName @ (if reachable then '' is'' else '' is not'') @ '' reachable'' @ newline))))))))))"

end
