(* ===== verification/ClientAccounts.thy ===== *)
theory ClientAccounts
  imports ClientCommands Base64
begin

text \<open>
  The commands of \<open>src/client/Client.cpp\<close> on users, secrets and volumes.
\<close>

section \<open>Users\<close>

definition show_profile :: "'w terminal \<Rightarrow> json \<Rightarrow> ('w, 'z, unit) command" where
  "show_profile K doc =
     bindP (show_output K doc doc
              [wide_column ''Name'' ''/metadata/name'', wide_column ''ID'' ''/metadata/id'',
               wide_column ''Email'' ''/metadata/email'', wide_column ''Phone'' ''/metadata/phone'']) (\<lambda>_.
     bindP (show_output K doc doc
              [column ''Institution'' ''/metadata/institution'', wide_column ''Token'' ''/metadata/access_token'',
               column ''Admin'' ''/metadata/admin'']) (\<lambda>_.
     bindP (whole (checkM (member_at doc [''metadata'', ''groups'']))) (\<lambda>groups.
     show_output K groups doc [wide_column ''Groups'' '''']))) "

definition fetchCurrentProfile :: "nat \<Rightarrow> 'w terminal \<Rightarrow> ('w, 'z, unit) command" where
  "fetchCurrentProfile n K = getting n K ''whoami'' [] ''Failed to fetch your profile '' (show_profile K)"

definition getUserInfo :: "nat \<Rightarrow> 'w terminal \<Rightarrow> string \<Rightarrow> ('w, 'z, unit) command" where
  "getUserInfo n K ident =
     (if \<not> verifyUserID ident
      then whole (complain (''The user info command requires an user ID, not a name'' @ newline))
      else getting n K (''users/'' @ ident) [] ''Failed to fetch user info '' (show_profile K))"

definition listUsers_command :: "nat \<Rightarrow> 'w terminal \<Rightarrow> string \<Rightarrow> ('w, 'z, unit) command" where
  "listUsers_command n K g =
     bindP (whole (makeURL K ''users'')) (\<lambda>url.
     if g \<noteq> [] \<and> \<not> verifyGroupID g
     then whole (complain (''Group filter must be an ID, not a name'' @ newline))
     else bindP (whole (httpGet K (url @ (if g \<noteq> [] then ''&group='' @ g else [])))) (\<lambda>rsp.
       answered n K rsp (''Failed to list users '' @ (if g \<noteq> [] then ''in group '' @ g else [])) (\<lambda>body.
       show_items K (k_parse K (c_str body))
         [column ''Name'' ''/metadata/name'', column ''ID'' ''/metadata/id'',
          column ''Institution'' ''/metadata/institution''])))"

text \<open>
  Without an ID a command is about the user who asks.  What the server says of a user: the ID, the
  name and the institution.
\<close>

definition whose :: "nat \<Rightarrow> 'w terminal \<Rightarrow> string \<Rightarrow> string \<Rightarrow>
    (string \<Rightarrow> string \<Rightarrow> string \<Rightarrow> ('w, 'z, unit) command) \<Rightarrow> ('w, 'z, unit) command" where
  "whose n K ident problem k =
     getting n K (if ident = [] then ''whoami'' else ''users/'' @ ident) [] problem (\<lambda>doc.
     bindP (whole (checkM (metadata_text doc ''id''))) (\<lambda>i.
     bindP (whole (checkM (metadata_text doc ''name''))) (\<lambda>name.
     bindP (whole (checkM (metadata_text doc ''institution''))) (\<lambda>inst. k i name inst))))"

definition person :: "string \<Rightarrow> string \<Rightarrow> string \<Rightarrow> string" where
  "person i name inst = i @ ''('' @ name @ '' - '' @ inst @ '')''"

definition no_user_ID :: "string \<Rightarrow> ('w, 'z, unit) command" where
  "no_user_ID verb =
     whole (complain (''The '' @ verb @ '' command requires a user ID, not a name'' @ newline))"

definition listUserGroups :: "nat \<Rightarrow> 'w terminal \<Rightarrow> string \<Rightarrow> ('w, 'z, unit) command" where
  "listUserGroups n K ident =
     (if ident \<noteq> [] \<and> \<not> verifyUserID ident then no_user_ID ''user groups''
      else whose n K ident ''Failed to list groups of user'' (\<lambda>i name inst.
        getting n K (''users/'' @ i @ ''/groups'') []
          (''Failed to list groups of '' @ person i name inst @ newline) (\<lambda>doc.
        bindP (whole (say (''Listing groups of '' @ person i name inst @ newline))) (\<lambda>_.
        show_items K doc [column ''Name'' ''/metadata/name'', column ''ID'' ''/metadata/id'']))))"

definition createUser :: "nat \<Rightarrow> 'w terminal \<Rightarrow> string \<Rightarrow> string \<Rightarrow> string \<Rightarrow> string \<Rightarrow> string \<Rightarrow> bool \<Rightarrow>
    ('w, 'z, unit) command" where
  "createUser n K globID name email phone institution admin =
     bindP (whole (makeURL K ''users'')) (\<lambda>url.
     bindP (whole (say (''Creating user...'' @ newline))) (\<lambda>_.
     bindP (whole (say (''Sending user config to SLATE server...'' @ newline))) (\<lambda>_.
     bindP (whole (httpPost K url (document K
              [(''metadata'', J_object
                 [(''globusID'', J_text globID), (''name'', J_text name), (''email'', J_text email),
                  (''phone'', J_text phone), (''institution'', J_text institution),
                  (''admin'', J_bool admin)])]))) (\<lambda>rsp.
     answered n K rsp ''Failed to create user'' (\<lambda>body.
     whole (bindM (say_created K ''user'' body) (\<lambda>_.
       let doc = k_parse K (c_str body)
       in bindM (checkM (bindC (HasMember doc ''message'') (\<lambda>has.
                   if has then the_member doc ''message'' else Pass J_null))) (\<lambda>message.
          case message of
            J_string m \<Rightarrow> if m \<noteq> [] then say (c_str m @ newline) else ret ()
          | _ \<Rightarrow> ret ()))))))))"

definition removeUser_command :: "nat \<Rightarrow> 'w terminal \<Rightarrow> string \<Rightarrow> ('w, 'z, unit) command" where
  "removeUser_command n K ident =
     (if \<not> verifyUserID ident
      then whole (complain (''The delete user command requires an user ID, not a name'' @ newline))
      else getting n K (''users/'' @ ident) [] (''Failed to delete '' @ ident @ newline) (\<lambda>doc.
        bindP (whole (checkM (metadata_text doc ''name''))) (\<lambda>usrName.
        bindP (whole (checkM (metadata_text doc ''institution''))) (\<lambda>usrInst.
        bindP (whole (ask K (''Are you sure you want to delete user '' @ usrName @
                 (if usrInst \<noteq> [] then '' ('' @ usrInst @ '')'' else []) @ ''? [Y/n]: ''))) (\<lambda>answer.
        if \<not> yes answer then whole (ret ())
        else bindP (whole (makeURL K (''users/'' @ ident))) (\<lambda>url.
          bindP (whole (say (''Deleting user...'' @ newline))) (\<lambda>_.
          changing n K (httpDelete K url)
            (''Successfully deleted '' @ ident @ '' ('' @ usrName @ '' - '' @ usrInst @ '')'')
            (''Failed to delete '' @ ident @ '' ('' @ usrName @ '' - '' @ usrInst @ '')'' @ newline))))))))"

definition updateUser_command :: "nat \<Rightarrow> 'w terminal \<Rightarrow> string \<Rightarrow> string \<Rightarrow> string \<Rightarrow> string \<Rightarrow> string \<Rightarrow>
    ('w, 'z, unit) command" where
  "updateUser_command n K ident new_name email phone institution =
     (if ident \<noteq> [] \<and> \<not> verifyUserID ident then no_user_ID ''user update''
      else whose n K ident ''Failed to update user'' (\<lambda>i name inst.
        bindP (whole (makeURL K (''users/'' @ i))) (\<lambda>url.
        bindP (whole (say (''Updating user...'' @ newline))) (\<lambda>_.
        bindP (whole (say (''Sending user config to SLATE server...'' @ newline))) (\<lambda>_.
        changing n K (httpPut K url (document K
            [(''metadata'', J_object (given ''name'' new_name @ given ''email'' email @
               given ''phone'' phone @ given ''institution'' institution))]))
          (''Successfully updated '' @ person i name inst)
          (''Failed to update user'' @ person i name inst @ newline))))))"

definition as_group_name :: "string \<Rightarrow> ('w, 'z, unit) act" where
  "as_group_name g =
     (if verifyGroupID g then ret ()
      else say (''Treating '' @ g @ '' as a group name and not an ID...'' @ newline))"

definition addUserToGroup_command :: "nat \<Rightarrow> 'w terminal \<Rightarrow> string \<Rightarrow> string \<Rightarrow> ('w, 'z, unit) command" where
  "addUserToGroup_command n K ident g =
     (if \<not> verifyUserID ident then no_user_ID ''add-to-group''
      else bindP (whole (as_group_name g)) (\<lambda>_.
        bindP (whole (makeURL K (''users/'' @ ident @ ''/groups/'' @ g))) (\<lambda>url.
        changing n K (httpPut K url '''')
          (''Successfully added '' @ ident @ '' to '' @ g)
          (''Failed to add '' @ ident @ '' to '' @ g @ newline))))"

definition removeUserFromGroup_command :: "nat \<Rightarrow> 'w terminal \<Rightarrow> string \<Rightarrow> string \<Rightarrow> ('w, 'z, unit) command" where
  "removeUserFromGroup_command n K ident g =
     (if \<not> verifyUserID ident then no_user_ID ''remove-from-group''
      else bindP (whole (as_group_name g)) (\<lambda>_.
        bindP (whole (makeURL K (''users/'' @ ident @ ''/groups/'' @ g))) (\<lambda>url.
        changing n K (httpDelete K url)
          (''Successfully removed '' @ ident @ '' from '' @ g)
          (''Failed to remove '' @ ident @ '' from '' @ g @ newline))))"

text \<open>The new token of the user who asked may go to the file of credentials.\<close>

definition keep_new_token :: "nat \<Rightarrow> 'w terminal \<Rightarrow> string \<Rightarrow> nat \<times> string \<Rightarrow> json \<Rightarrow> ('w, 'z, unit) command" where
  "keep_new_token n K i idcheck tokbody =
     (if fst idcheck = 200
      then whole (
        bindM (checkM (metadata_text (k_parse K (c_str (snd idcheck))) ''id'')) (\<lambda>reqid.
        if reqid \<noteq> i then ret ()
        else bindM (ask K ''Token self-overwrite detected. Would you like to update your credentials file automatically? [Y/n]: '') (\<lambda>answer.
          if answer \<noteq> '''' \<and> \<not> yes answer then ret ()
          else bindM (checkM (metadata_text tokbody ''access_token'')) (\<lambda>newtoken.
            bindM (updateStoredCredentials K newtoken) (\<lambda>_.
            say (''Successfully updated user credentials file'' @ newline))))))
      else bindP (whole (complain (''Failed to check if user was overwriting their own token. Manual changes to user credentials may be necessary.'' @ newline))) (\<lambda>_.
        showError n K (snd idcheck)))"

definition updateUserToken :: "nat \<Rightarrow> 'w terminal \<Rightarrow> string \<Rightarrow> ('w, 'z, unit) command" where
  "updateUserToken n K ident =
     (if ident \<noteq> [] \<and> \<not> verifyUserID ident then no_user_ID ''replace token''
      else whose n K ident ''Failed to update user'' (\<lambda>i usrName usrInst.
        let who = i @ '' ('' @ usrName @ (if usrInst \<noteq> [] then '' - '' @ usrInst else [])
        in bindP (whole (ask K (''Are you sure you want to replace the token of '' @ who @ '')? [Y/n]: ''))) (\<lambda>answer.
           if \<not> yes answer then whole (ret ())
           else bindP (whole (makeURL K (''users/'' @ i @ ''/replace_token''))) (\<lambda>url.
             bindP (whole (say (''Sending request to SLATE server...'' @ newline))) (\<lambda>_.
             bindP (whole (bindM (makeURL K ''whoami'') (httpGet K))) (\<lambda>idcheck.
             bindP (whole (httpGet K url)) (\<lambda>rsp.
             answered n K rsp (''Failed to renew token of '' @ i @ '' ('' @ usrName @ '' - '' @ usrInst @ '')'' @ newline) (\<lambda>body.
             let tokbody = k_parse K (c_str body)
             in bindP (whole (checkM (metadata_text tokbody ''access_token''))) (\<lambda>newtoken.
                bindP (whole (say (''Successfully renewed token of '' @ who @ '') with new token '' @ newtoken @ newline))) (\<lambda>_.
                keep_new_token n K i idcheck tokbody))))))))))"

section \<open>Secrets\<close>

definition listSecrets_command :: "nat \<Rightarrow> 'w terminal \<Rightarrow> string \<Rightarrow> string \<Rightarrow> ('w, 'z, unit) command" where
  "listSecrets_command n K g cluster =
     getting n K ''secrets'' (''&group='' @ g @ (if cluster \<noteq> [] then ''&cluster='' @ cluster else []))
       ''Failed to list secrets'' (\<lambda>doc.
     show_items K doc
       ([column ''Name'' ''/metadata/name'', wide_column ''Created'' ''/metadata/created''] @
        (if cluster = [] then [column ''Cluster'' ''/metadata/cluster''] else []) @
        [wide_column ''ID'' ''/metadata/id'']))"

text \<open>A row of the contents; the text that is stored is printed as well.\<close>

definition secret_row :: "string \<times> json \<Rightarrow> ('w, 'z, string list) act" where
  "secret_row m =
     bindM (checkM (GetString (snd m))) (\<lambda>val.
     bindM (say (newline @ ''Secret'' @ newline @ val @ newline)) (\<lambda>_.
     bindM (raise (decodeBase64 val)) (\<lambda>decoded.
     ret [c_str (fst m), decoded])))"

primrec each :: "('x \<Rightarrow> ('s, 'a) op) \<Rightarrow> 'x list \<Rightarrow> ('s, 'a list) op" where
  "each f [] = ret []"
| "each f (x # xs) = bindM (f x) (\<lambda>a. bindM (each f xs) (\<lambda>rest. ret (a # rest)))"

definition show_contents :: "'w terminal \<Rightarrow> json \<Rightarrow> ('w, 'z, unit) command" where
  "show_contents K doc =
     bindP (whole (getM useANSICodes)) (\<lambda>ansi.
     bindP (whole (say (newline @ bold ansi ''Contents:'' @ newline))) (\<lambda>_.
     bindP (whole (checkM (bindC (HasMember doc ''contents'') (\<lambda>has.
              if has then the_member doc ''contents'' else Pass J_null)))) (\<lambda>contents.
     case contents of
       J_object ms \<Rightarrow>
         bindP (whole (each secret_row ms)) (\<lambda>rows.
         bindP (whole (getM (\<lambda>s. (outputWidth s, outputFormat s \<noteq> ''no-headers'')))) (\<lambda>(width, headers).
         case formatTable K ansi width ((if headers then [[''Key'', ''Value'']] else []) @ rows)
                [column ''Key'' [], wide_column ''Value'' []] headers of
           None \<Rightarrow> (\<lambda>s. None)
         | Some r \<Rightarrow> whole (bindM (raise r) say)))
     | _ \<Rightarrow> whole (complain (''Malformed secret data; no valid contents'' @ newline)))))"

definition getSecretInfo :: "nat \<Rightarrow> 'w terminal \<Rightarrow> string \<Rightarrow> ('w, 'z, unit) command" where
  "getSecretInfo n K secretID =
     (if \<not> verifySecretID secretID
      then whole (throw ''The secret info command requires a secret ID, not a name'')
      else getting n K (''secrets/'' @ secretID) [] ''Failed to get secret info'' (\<lambda>doc.
        bindP (show_output K doc doc
                 [column ''Name'' ''/metadata/name'', wide_column ''Created'' ''/metadata/created'',
                  column ''Group'' ''/metadata/group'', column ''Cluster'' ''/metadata/cluster'',
                  wide_column ''ID'' ''/metadata/id'']) (\<lambda>_.
        bindP (whole (getM clientShouldPrintOnlyJson)) (\<lambda>only_json.
        if only_json then whole (ret ()) else show_contents K doc))))"

text \<open>The contents of a new secret, \<open>key=value\<close>; \<open>Inl\<close> is the complaint about one that is not of this form.\<close>

definition secret_pair :: "string \<Rightarrow> string + string \<times> json" where
  "secret_pair item =
     (if CHR ''='' \<notin> set item
      then Inl (''The key, value pair '' @ item @ '' is not in the required form key=val'')
      else let keystr = takeWhile (\<lambda>c. c \<noteq> CHR ''='') item;
               val = tl (dropWhile (\<lambda>c. c \<noteq> CHR ''='') item)
           in if keystr = [] then Inl (''No key given with value '' @ item)
              else if val = [] then Inl (''No value given with key '' @ keystr)
              else Inr (keystr, J_string (encodeBase64 val)))"

definition createSecret :: "nat \<Rightarrow> 'w terminal \<Rightarrow> string \<Rightarrow> string \<Rightarrow> string \<Rightarrow> string list \<Rightarrow>
    ('w, 'z, unit) command" where
  "createSecret n K name g cluster data =
     (case mapE secret_pair data of
        Inl problem \<Rightarrow> whole (say (''Failed to create secret: '' @ problem @ newline))
      | Inr contents \<Rightarrow>
          bindP (whole (makeURL K ''secrets'')) (\<lambda>url.
          bindP (whole (httpPost K url (document K
                   [(''metadata'', J_object
                       [(''name'', J_string name), (''group'', J_string g), (''cluster'', J_string cluster)]),
                    (''contents'', J_object contents)]))) (\<lambda>rsp.
          answered n K rsp (''Failed to create secret '' @ name) (\<lambda>body. whole (say_created K ''secret'' body)))))"

definition copySecret :: "nat \<Rightarrow> 'w terminal \<Rightarrow> string \<Rightarrow> string \<Rightarrow> string \<Rightarrow> string \<Rightarrow> ('w, 'z, unit) command" where
  "copySecret n K name g cluster sourceID =
     (if \<not> verifySecretID sourceID
      then whole (throw ''The secret copy command requires a secret ID as the source, not a name'')
      else bindP (whole (makeURL K ''secrets'')) (\<lambda>url.
        bindP (whole (httpPost K url (document K
                 [(''metadata'', J_object
                     [(''name'', J_string name), (''group'', J_string g), (''cluster'', J_string cluster)]),
                  (''copyFrom'', J_string sourceID)]))) (\<lambda>rsp.
        answered n K rsp (''Failed to create secret '' @ name) (\<lambda>body. whole (say_created K ''secret'' body)))))"

definition deleteSecret :: "nat \<Rightarrow> 'w terminal \<Rightarrow> string \<Rightarrow> bool \<Rightarrow> bool \<Rightarrow> ('w, 'z, unit) command" where
  "deleteSecret n K secretID assumeYes force =
     (if \<not> verifySecretID secretID
      then whole (throw ''The secret delete command requires a secret ID, not a name'')
      else bindP (confirm n K (assumeYes \<or> force) (''secrets/'' @ secretID) (''Failed to get secret '' @ secretID)
                    ''Secret deletion aborted'' (\<lambda>doc.
                    bindC (metadata_text doc ''id'') (\<lambda>ident.
                    bindC (metadata_text doc ''name'') (\<lambda>name.
                    bindC (metadata_text doc ''group'') (\<lambda>g.
                    bindC (metadata_text doc ''cluster'') (\<lambda>c.
                    Pass (''Are you sure you want to delete secret '' @ ident @ '' ('' @ name @
                          '') belonging to group '' @ g @ '' from cluster '' @ c @ ''? y/[n]: ''))))))) (\<lambda>_.
        changing n K (deletion_request K (''secrets/'' @ secretID) force)
          (''Successfully deleted secret '' @ secretID) (''Failed to delete secret '' @ secretID)))"

section \<open>Volumes\<close>

definition listVolumes :: "nat \<Rightarrow> 'w terminal \<Rightarrow> string \<Rightarrow> string \<Rightarrow> ('w, 'z, unit) command" where
  "listVolumes n K g cluster =
     getting n K ''volumes''
       ((if g \<noteq> [] then ''&group='' @ g else []) @ (if cluster \<noteq> [] then ''&cluster='' @ cluster else []))
       ''Failed to list volumes'' (\<lambda>doc.
     show_items K doc
       ([column ''Name'' ''/metadata/name''] @
        (if g = [] then [column ''Group'' ''/metadata/group''] else []) @
        (if cluster = [] then [column ''Cluster'' ''/metadata/cluster''] else []) @
        [column ''StorageClass'' ''/metadata/storageClass'', wide_column ''ID'' ''/metadata/id'']))"

definition getVolumeInfo :: "nat \<Rightarrow> 'w terminal \<Rightarrow> string \<Rightarrow> ('w, 'z, unit) command" where
  "getVolumeInfo n K volumeID =
     (if \<not> verifyVolumeID volumeID
      then whole (throw ''The volume info command requires a volume ID, not a name'')
      else getting n K (''volumes/'' @ volumeID) [] ''Failed to get volume info'' (\<lambda>doc.
        bindP (show_output K doc doc
                 [column ''Name'' ''/metadata/name'', wide_column ''Created'' ''/metadata/created'',
                  column ''Group'' ''/metadata/group'', column ''Cluster'' ''/metadata/cluster'',
                  wide_column ''ID'' ''/metadata/id'']) (\<lambda>_.
        bindP (whole (getM (\<lambda>s. (clientShouldPrintOnlyJson s, useANSICodes s)))) (\<lambda>(only_json, ansi).
        if only_json then whole (ret ())
        else bindP (whole (say (newline @ bold ansi ''Details:'' @ newline))) (\<lambda>_.
          bindP (show_output K doc doc
                   [column ''Storage Request'' ''/metadata/storageRequest'',
                    column ''Access Mode'' ''/metadata/accessMode'',
                    column ''Volume Mode'' ''/metadata/volumeMode'',
                    column ''Storage Class'' ''/metadata/storageClass'']) (\<lambda>_.
          bindP (whole (checkM (the_member doc ''details''))) (\<lambda>details.
          bindP (whole (checkM (HasMember details ''status''))) (\<lambda>has.
          if \<not> has then whole (ret ())
          else bindP (whole (say (newline @ bold ansi ''Status:'' @ newline))) (\<lambda>_.
            show_output K details details [column ''Status'' ''/status'']))))))))) "

definition createVolume :: "nat \<Rightarrow> 'w terminal \<Rightarrow> string \<Rightarrow> string \<Rightarrow> string \<Rightarrow> string \<Rightarrow> string \<Rightarrow> string \<Rightarrow> string \<Rightarrow>
    ('w, 'z, unit) command" where
  "createVolume n K name g cluster storageRequest accessMode volumeMode storageClass =
     bindP (whole (makeURL K ''volumes'')) (\<lambda>url.
     bindP (whole (httpPost K url (document K
              [(''metadata'', J_object
                  [(''name'', J_string name), (''group'', J_string g), (''cluster'', J_string cluster),
                   (''storageRequest'', J_string storageRequest), (''accessMode'', J_string accessMode),
                   (''volumeMode'', J_string volumeMode), (''storageClass'', J_string storageClass)])]))) (\<lambda>rsp.
     answered n K rsp (''Failed to create volume '' @ name) (\<lambda>body. whole (say_created K ''volume'' body))))"

definition deleteVolume :: "nat \<Rightarrow> 'w terminal \<Rightarrow> string \<Rightarrow> bool \<Rightarrow> bool \<Rightarrow> ('w, 'z, unit) command" where
  "deleteVolume n K volumeID assumeYes force =
     (if \<not> verifyVolumeID volumeID
      then whole (throw ''The volume delete command requires a volume ID, not a name'')
      else bindP (confirm n K (assumeYes \<or> force) (''volumes/'' @ volumeID) (''Failed to get volume '' @ volumeID)
                    ''Volume deletion aborted'' (\<lambda>doc.
                    bindC (metadata_text doc ''id'') (\<lambda>ident.
                    bindC (metadata_text doc ''name'') (\<lambda>name.
                    bindC (metadata_text doc ''group'') (\<lambda>g.
                    Pass (''Are you sure you want to delete volume '' @ ident @ '' ('' @ name @
                          '') belonging to group '' @ g @ ''? y/[n]: '')))))) (\<lambda>_.
        changing n K (deletion_request K (''volumes/'' @ volumeID) force)
          (''Successfully deleted volume '' @ volumeID) (''Failed to delete volume '' @ volumeID)))"

end
