(* ===== verification/ClientInstances.thy ===== *)
theory ClientInstances
  imports ClientCommands
begin

text \<open>
  The commands of \<open>src/client/Client.cpp\<close> on applications and their instances, and
  \<open>retryInstanceCommandWithFixup\<close>, which looks for the instance that a user may have meant.

  A command that the user is offered again runs within a budget that gets smaller each time.
\<close>

section \<open>Applications\<close>

definition repositories :: "bool \<Rightarrow> bool \<Rightarrow> string" where
  "repositories devRepo testRepo = (if devRepo then ''&dev'' else []) @ (if testRepo then ''&test'' else [])"

definition listApplications_command :: "nat \<Rightarrow> 'w terminal \<Rightarrow> bool \<Rightarrow> bool \<Rightarrow> ('w, 'z, unit) command" where
  "listApplications_command n K devRepo testRepo =
     getting n K ''apps'' (repositories devRepo testRepo) ''Failed to list applications'' (\<lambda>doc.
     show_items K doc
       [column ''Name'' ''/metadata/name'', column ''App Version'' ''/metadata/app_version'',
        column ''Chart Version'' ''/metadata/chart_version'',
        wide_column ''Description'' ''/metadata/description''])"

text \<open>Text that goes to a file, if the user named one.\<close>

definition put_out :: "'w terminal \<Rightarrow> string \<Rightarrow> what \<Rightarrow> json \<Rightarrow> ('w, 'z, unit) act" where
  "put_out K outputFile problem doc =
     bindM (checkM (text_at doc [''spec'', ''body''])) (\<lambda>text.
     if outputFile \<noteq> []
     then bindM (callM (fs_writeFile (k_files K) outputFile text)) (\<lambda>opened.
          if opened then ret () else throw (problem @ outputFile))
     else say (text @ newline))"

definition getApplicationConf :: "nat \<Rightarrow> 'w terminal \<Rightarrow> string \<Rightarrow> string \<Rightarrow> string \<Rightarrow> bool \<Rightarrow> bool \<Rightarrow>
    ('w, 'z, unit) command" where
  "getApplicationConf n K appName chartVersion outputFile devRepo testRepo =
     getting n K (''apps/'' @ appName) (repositories devRepo testRepo @ ''&chartVersion='' @ chartVersion)
       (''Failed to get configuration for application '' @ appName) (\<lambda>doc.
     whole (put_out K outputFile ''Unable to write configuration to '' doc))"

definition getApplicationVersions :: "nat \<Rightarrow> 'w terminal \<Rightarrow> string \<Rightarrow> string \<Rightarrow> bool \<Rightarrow> bool \<Rightarrow>
    ('w, 'z, unit) command" where
  "getApplicationVersions n K appName outputFile devRepo testRepo =
     getting n K (''apps/'' @ appName @ ''/versions'') (repositories devRepo testRepo)
       (''Failed to get versions for application '' @ appName) (\<lambda>doc.
     whole (put_out K outputFile ''Unable to write chart versions to '' doc))"

definition getApplicationDocs :: "nat \<Rightarrow> 'w terminal \<Rightarrow> string \<Rightarrow> string \<Rightarrow> string \<Rightarrow> bool \<Rightarrow> bool \<Rightarrow>
    ('w, 'z, unit) command" where
  "getApplicationDocs n K appName chartVersion outputFile devRepo testRepo =
     getting n K (''apps/'' @ appName @ ''/info'') (repositories devRepo testRepo @ ''&chartVersion='' @ chartVersion)
       (''Failed to get documentation for application '' @ appName) (\<lambda>doc.
     whole (put_out K outputFile ''Unable to write documentation to '' doc))"

text \<open>The configuration that a user gives as a file, line by line.\<close>

definition read_configuration :: "'w terminal \<Rightarrow> string \<Rightarrow> ('w, 'z, string) act" where
  "read_configuration K configPath =
     (if configPath = [] then ret []
      else bindM (callM (fs_readFile (k_files K) configPath)) (\<lambda>contents.
        case contents of
          None \<Rightarrow> throw (''Unable to read application instance configuration from '' @ configPath)
        | Some text \<Rightarrow> ret (concat (map (\<lambda>line. line @ newline) (getlines CHR 0x0A text)))))"

text \<open>A chart of the user's own goes along as a compressed archive; slashes at the end of its path are dropped.\<close>

definition strip_slashes :: "string \<Rightarrow> string" where
  "strip_slashes path =
     (let rest = dropWhile (\<lambda>c. c = CHR ''/'') (rev path)
      in if rest = [] then take 1 path else rev rest)"

definition pack_chart :: "nat \<Rightarrow> 'w terminal \<Rightarrow> string \<Rightarrow> ('w, 'z, string) command" where
  "pack_chart n K appName =
     bindP (whole (callM (fs_stat (k_files K) appName))) (\<lambda>err.
     if err \<noteq> None then whole (throw (''Unable to stat '' @ appName))
     else bindP (recursivelyArchive n (k_files K) (k_archiver K) (strip_slashes appName) new_TarWriter True) (\<lambda>tw.
       bindP (gzipCompress n (k_zlib K) (finished_archive tw)) (\<lambda>compressed.
       whole (ret (encodeBase64 compressed)))))"

definition installApplication :: "nat \<Rightarrow> 'w terminal \<Rightarrow> string \<Rightarrow> string \<Rightarrow> string \<Rightarrow> string \<Rightarrow> string \<Rightarrow>
    bool \<Rightarrow> bool \<Rightarrow> bool \<Rightarrow> ('w, 'z, unit) command" where
  "installApplication n K appName cluster g configPath chartVersion fromLocalChart devRepo testRepo =
     bindP (whole (read_configuration K configPath)) (\<lambda>configuration.
     bindP (if fromLocalChart then bindP (pack_chart n K appName) (\<lambda>chart. whole (ret [(''chart'', J_string chart)]))
            else whole (ret [])) (\<lambda>chart.
     bindP (whole (makeURL K (if fromLocalChart then ''apps/ad-hoc'' else ''apps/'' @ appName))) (\<lambda>url.
     bindP (whole (httpPost K (url @ repositories devRepo testRepo) (document K
              ([(''group'', J_text g), (''cluster'', J_text cluster), (''configuration'', J_text configuration),
                (''chartVersion'', J_text chartVersion)] @ chart)))) (\<lambda>rsp.
     if fst rsp = 200
     then let doc = k_parse K (c_str (snd rsp))
          in whole (
             bindM (checkM (metadata_text doc ''application'')) (\<lambda>application.
             bindM (checkM (metadata_text doc ''name'')) (\<lambda>name.
             bindM (checkM (metadata_text doc ''id'')) (\<lambda>ident.
             say (''Successfully installed application '' @ application @ '' as instance '' @ name @
                  '' with ID '' @ ident @ newline)))))
     else bindP (whole (complain (''Failed to install application '' @ appName))) (\<lambda>_.
          bindP (showError n K (snd rsp)) (\<lambda>_.
          whole (bindM (if find_sub ''already exists'' (snd rsp) \<noteq> None
                        then complain (''This issue normally resolves quickly. Try again in a few minutes.'' @ newline)
                        else ret ()) (\<lambda>_. throw OperationFailed))))))))"

section \<open>Instances that are not there\<close>

text \<open>
  Which instances are meant by a wrong ID: those whose ID or name is nearest to it.  The document of an
  instance that gets onto the list is moved there, which leaves null behind.
\<close>

type_synonym guesses = "nat \<times> json list \<times> json list"

definition consider_guess :: "string \<Rightarrow> json \<Rightarrow> guesses \<Rightarrow> guesses check" where
  "consider_guess badID item guesses =
     (case guesses of (bestdist, bestfits, left_behind) \<Rightarrow>
        bindC (metadata_text item ''id'') (\<lambda>candidate_id.
        bindC (metadata_text item ''name'') (\<lambda>candidate_name.
        let betterdist = min (levensteinDistance badID candidate_id) (levensteinDistance badID candidate_name)
        in Pass (if betterdist < bestdist then (betterdist, [item], left_behind @ [J_null])
                 else if betterdist = bestdist then (bestdist, bestfits @ [item], left_behind @ [J_null])
                 else (bestdist, bestfits, left_behind @ [item])))))"

definition best_guesses :: "string \<Rightarrow> json list \<Rightarrow> guesses check" where
  "best_guesses badID items = foldC (consider_guess badID) items (2 ^ 64 - 1, [], [])"

fun set_member :: "string \<Rightarrow> json \<Rightarrow> json \<Rightarrow> json" where
  "set_member k v (J_object ms) =
     J_object (takeWhile (\<lambda>m. fst m \<noteq> k) ms @
       (case dropWhile (\<lambda>m. fst m \<noteq> k) ms of [] \<Rightarrow> [] | m # rest \<Rightarrow> (k, v) # rest))"
| "set_member k v doc = doc"

definition guess_columns :: "columnSpec list" where
  "guess_columns = [column ''Name'' ''/metadata/name'', column ''Group'' ''/metadata/group'',
     column ''Cluster'' ''/metadata/cluster'', wide_column ''ID'' ''/metadata/id'']"

text \<open>The user picks a guess, or gives up; \<open>None\<close> is giving up.\<close>

definition pick_guess :: "'w terminal \<Rightarrow> string \<Rightarrow> json \<Rightarrow> json list \<Rightarrow> ('w, 'z, string option) command" where
  "pick_guess K badID doc bestfits =
     (case bestfits of
        [] \<Rightarrow> whole (bindM (say (''No instances available for fixup'' @ newline)) (\<lambda>_. ret None))
      | [guess] \<Rightarrow>
          whole (
            bindM (checkM (metadata_text guess ''id'')) (\<lambda>ident.
            bindM (checkM (metadata_text guess ''name'')) (\<lambda>name.
            bindM (ask K (''Best guess for '' @ badID @ '' is '' @ ident @ '' with deployment name '' @ name @
                          ''. Use this instead? y/[n]: '')) (\<lambda>answer.
            if yes answer then ret (Some ident)
            else bindM (say (''Aborting fixup'' @ newline)) (\<lambda>_. ret None)))))
      | _ \<Rightarrow>
          bindP (whole (ask K (''Multiple guesses for '' @ badID @ '' found. List all '' @
                               show_nat (length bestfits) @ '' of them? y/[n]: ''))) (\<lambda>answer.
          if \<not> yes answer then whole (ret None)
          else bindP (show_output K (J_array bestfits) doc guess_columns) (\<lambda>_.
            whole (
              bindM (ask K (''To use one of these guesses, copy and paste its id. To abort, type '' @
                            [CHR 0x22] @ ''n'' @ [CHR 0x22] @ '' or '' @ [CHR 0x22] @ ''quit'' @ [CHR 0x22] @ '': '')) (\<lambda>choice.
              if choice \<noteq> '''' \<and> choice \<noteq> ''n'' \<and> choice \<noteq> ''N'' \<and> choice \<noteq> ''quit'' then ret (Some choice)
              else bindM (say (''Aborting fixup'' @ newline)) (\<lambda>_. ret None))))))"

definition retryInstanceCommandWithFixup :: "nat \<Rightarrow> 'w terminal \<Rightarrow> string \<Rightarrow> (string \<Rightarrow> ('w, 'z, unit) command) \<Rightarrow>
    ('w, 'z, unit) command" where
  "retryInstanceCommandWithFixup n K badID again =
     bindP (whole (getM enableFixup)) (\<lambda>enabled.
     if \<not> enabled then whole (ret ())
     else bindP (whole (makeURL K ''instances'')) (\<lambda>url.
       bindP (whole (httpGet K url)) (\<lambda>rsp.
       if fst rsp \<noteq> 200 then whole (complain (''Failed to fetch instances'' @ newline))
       else let doc = k_parse K (c_str (snd rsp))
         in bindP (whole (checkM (bindC (array_at doc [''items'']) (best_guesses badID)))) (\<lambda>(bestdist, bestfits, items).
            bindP (pick_guess K badID (set_member ''items'' (J_array items) doc) bestfits) (\<lambda>choice.
            case choice of None \<Rightarrow> whole (ret ()) | Some ident \<Rightarrow> again ident)))))"

definition instance_missing :: "nat \<Rightarrow> 'w terminal \<Rightarrow> string \<Rightarrow> (string \<Rightarrow> ('w, 'z, unit) command) \<Rightarrow>
    ('w, 'z, unit) command" where
  "instance_missing n K instanceID again =
     bindP (whole (complain (''Instance not found'' @ newline))) (\<lambda>_.
     retryInstanceCommandWithFixup n K instanceID again)"

definition no_instance_ID :: "nat \<Rightarrow> 'w terminal \<Rightarrow> string \<Rightarrow> string \<Rightarrow> (string \<Rightarrow> ('w, 'z, unit) command) \<Rightarrow>
    ('w, 'z, unit) command" where
  "no_instance_ID n K verb instanceID again =
     bindP (whole (complain (''The instance '' @ verb @ '' command requires an instance ID, not a name'' @ newline))) (\<lambda>_.
     retryInstanceCommandWithFixup n K instanceID again)"

section \<open>Instances\<close>

definition listInstances :: "nat \<Rightarrow> 'w terminal \<Rightarrow> string \<Rightarrow> string \<Rightarrow> ('w, 'z, unit) command" where
  "listInstances n K g cluster =
     getting n K ''instances''
       ((if g \<noteq> [] then ''&group='' @ g else []) @ (if cluster \<noteq> [] then ''&cluster='' @ cluster else []))
       ''Failed to list application instances'' (\<lambda>doc.
     show_items K doc
       ([column ''Name'' ''/metadata/name''] @
        (if g = [] then [column ''Group'' ''/metadata/group''] else []) @
        (if cluster = [] then [column ''Cluster'' ''/metadata/cluster''] else []) @
        [wide_column ''ID'' ''/metadata/id'']))"

text \<open>What the server says besides that it did it.\<close>

definition say_message :: "'w terminal \<Rightarrow> string \<Rightarrow> ('w, 'z, unit) act" where
  "say_message K body =
     (case k_parse K (c_str body) of
        J_object ms \<Rightarrow>
          (case map_of ms ''message'' of
             Some (J_string m) \<Rightarrow> if m \<noteq> [] then say (c_str m @ newline) else ret ()
           | _ \<Rightarrow> ret ())
      | _ \<Rightarrow> ret ())"

primrec restartInstance :: "nat \<Rightarrow> 'w terminal \<Rightarrow> string \<Rightarrow> ('w, 'z, unit) command" where
  "restartInstance 0 K instanceID = (\<lambda>s. None)"
| "restartInstance (Suc n) K instanceID =
     (if \<not> verifyInstanceID instanceID then no_instance_ID n K ''restart'' instanceID (restartInstance n K)
      else bindP (whole (makeURL K (''instances/'' @ instanceID @ ''/restart''))) (\<lambda>url.
        bindP (whole (httpPut K url '''')) (\<lambda>rsp.
        if fst rsp = 200
        then bindP (whole (say (''Successfully restarted instance '' @ instanceID @ newline))) (\<lambda>_.
             whole (say_message K (snd rsp)))
        else if fst rsp = 404 then instance_missing n K instanceID (restartInstance n K)
        else reported n K (''Failed to restart instance '' @ instanceID) (snd rsp))))"

primrec updateInstance :: "nat \<Rightarrow> 'w terminal \<Rightarrow> string \<Rightarrow> string \<Rightarrow> string \<Rightarrow> ('w, 'z, unit) command" where
  "updateInstance 0 K configPath chartVersion instanceID = (\<lambda>s. None)"
| "updateInstance (Suc n) K configPath chartVersion instanceID =
     (if \<not> verifyInstanceID instanceID
      then no_instance_ID n K ''update'' instanceID (updateInstance n K configPath chartVersion)
      else bindP (whole (read_configuration K configPath)) (\<lambda>configuration.
        bindP (whole (makeURL K (''instances/'' @ instanceID @ ''/update''))) (\<lambda>url.
        bindP (whole (httpPut K url (document K
                 [(''configuration'', J_text configuration), (''chartVersion'', J_text chartVersion)]))) (\<lambda>rsp.
        if fst rsp = 200
        then bindP (whole (say (''Successfully updated instance '' @ instanceID @ newline))) (\<lambda>_.
             whole (say_message K (snd rsp)))
        else if fst rsp = 404 then instance_missing n K instanceID (updateInstance n K configPath chartVersion)
        else reported n K (''Failed to update instance '' @ instanceID) (snd rsp)))))"

text \<open>The question before an instance is deleted; \<open>False\<close> when it is not there.\<close>

definition confirm_instance :: "nat \<Rightarrow> 'w terminal \<Rightarrow> bool \<Rightarrow> string \<Rightarrow> ('w, 'z, bool) command" where
  "confirm_instance n K sure instanceID =
     (if sure then whole (ret True)
      else bindP (whole (makeURL K (''instances/'' @ instanceID))) (\<lambda>url.
        bindP (whole (httpGet K url)) (\<lambda>rsp.
        if fst rsp = 404 then whole (ret False)
        else if fst rsp \<noteq> 200
        then bindP (whole (complain (''Failed to get instance '' @ instanceID))) (\<lambda>_.
             bindP (showError n K (snd rsp)) (\<lambda>_. whole (throw ''Instance deletion aborted'')))
        else let doc = k_parse K (c_str (snd rsp))
          in whole (
             bindM (checkM (metadata_text doc ''id'')) (\<lambda>ident.
             bindM (checkM (metadata_text doc ''name'')) (\<lambda>name.
             bindM (checkM (metadata_text doc ''group'')) (\<lambda>g.
             bindM (checkM (metadata_text doc ''cluster'')) (\<lambda>c.
             bindM (ask K (''Are you sure you want to delete instance '' @ ident @ '' ('' @ name @
                           '') belonging to group '' @ g @ '' from cluster '' @ c @ ''? y/[n]: '')) (\<lambda>answer.
             if yes answer then ret True else throw ''Instance deletion aborted'')))))))))"

primrec deleteInstance :: "nat \<Rightarrow> 'w terminal \<Rightarrow> bool \<Rightarrow> bool \<Rightarrow> string \<Rightarrow> ('w, 'z, unit) command" where
  "deleteInstance 0 K assumeYes force instanceID = (\<lambda>s. None)"
| "deleteInstance (Suc n) K assumeYes force instanceID =
     (if \<not> verifyInstanceID instanceID
      then no_instance_ID n K ''delete'' instanceID (deleteInstance n K assumeYes force)
      else bindP (confirm_instance n K (assumeYes \<or> force) instanceID) (\<lambda>there.
        if \<not> there then instance_missing n K instanceID (deleteInstance n K assumeYes force)
        else bindP (whole (deletion_request K (''instances/'' @ instanceID) force)) (\<lambda>rsp.
          if fst rsp = 200 then whole (say (''Successfully deleted instance '' @ instanceID @ newline))
          else if fst rsp = 404 then instance_missing n K instanceID (deleteInstance n K assumeYes force)
          else reported n K (''Failed to delete instance '' @ instanceID) (snd rsp))))"

definition show_logs :: "'w terminal \<Rightarrow> json \<Rightarrow> ('w, 'z, unit) command" where
  "show_logs K doc =
     (case walk_json doc [''logs''] of
        None \<Rightarrow> whole (throw ''Failed to extract log data from server response'')
      | Some logs \<Rightarrow>
          bindP (whole (getM clientShouldPrintOnlyJson)) (\<lambda>only_json.
          if only_json then show_output K doc doc [column ''Logs'' ''/logs'']
          else whole (bindM (checkM (GetString logs)) (\<lambda>logData.
            say (logData @ (if logData \<noteq> [] \<and> last logData \<noteq> CHR 0x0A then newline else []))))))"

primrec fetchInstanceLogs :: "nat \<Rightarrow> 'w terminal \<Rightarrow> nat \<Rightarrow> string \<Rightarrow> bool \<Rightarrow> string \<Rightarrow> ('w, 'z, unit) command" where
  "fetchInstanceLogs 0 K maxLines container previousLogs instanceID = (\<lambda>s. None)"
| "fetchInstanceLogs (Suc n) K maxLines container previousLogs instanceID =
     (if \<not> verifyInstanceID instanceID
      then no_instance_ID n K ''info'' instanceID (fetchInstanceLogs n K maxLines container previousLogs)
      else bindP (whole (makeURL K (''instances/'' @ instanceID @ ''/logs''))) (\<lambda>url.
        bindP (whole (httpGet K (url @ ''&max_lines='' @ show_nat maxLines @
                 (if container \<noteq> [] then ''&container='' @ container else []) @
                 (if previousLogs then ''&previous'' else [])))) (\<lambda>rsp.
        if fst rsp = 200 then show_logs K (k_parse K (c_str (snd rsp)))
        else if fst rsp = 404
        then instance_missing n K instanceID (fetchInstanceLogs n K maxLines container previousLogs)
        else reported n K ''Failed to get application instance logs'' (snd rsp))))"

text \<open>The number of replicas of every deployment; in the JSON format it is worked out and dropped.\<close>

definition deployment_row :: "string \<times> json \<Rightarrow> string list outcome" where
  "deployment_row d =
     (case snd d of
        J_int v \<Rightarrow> if v < 0 then Inl ''Malformed data; non-integer value''
                   else if v \<ge> 2 ^ 32 then Inl assertion_failed
                   else Inr [c_str (fst d), show_nat (nat v)]
      | _ \<Rightarrow> Inl ''Malformed data; non-integer value'')"

definition show_scale :: "'w terminal \<Rightarrow> json \<Rightarrow> ('w, 'z, unit) command" where
  "show_scale K doc =
     bindP (whole (getM clientShouldPrintOnlyJson)) (\<lambda>only_json.
     if only_json then bindP (formatOutput K doc doc []) (\<lambda>_. whole (ret ()))
     else bindP (whole (checkM (bindC (the_member doc ''deployments'') GetObject))) (\<lambda>deployments.
       bindP (whole (raise (mapE deployment_row deployments))) (\<lambda>rows.
       bindP (whole (getM (\<lambda>s. (useANSICodes s, outputWidth s, outputFormat s \<noteq> ''no-headers'')))) (\<lambda>(ansi, width, headers).
       case formatTable K ansi width ((if headers then [[''Deployment'', ''Replicas'']] else []) @ rows)
              [column ''Deployment'' [], wide_column ''Replicas'' []] headers of
         None \<Rightarrow> (\<lambda>s. None)
       | Some r \<Rightarrow> whole (bindM (raise r) say)))))"

definition replicasNotSet :: nat where
  "replicasNotSet = 2 ^ 64 - 1"

primrec scaleInstance :: "nat \<Rightarrow> 'w terminal \<Rightarrow> nat \<Rightarrow> string \<Rightarrow> string \<Rightarrow> ('w, 'z, unit) command" where
  "scaleInstance 0 K instanceReplicas deployment instanceID = (\<lambda>s. None)"
| "scaleInstance (Suc n) K instanceReplicas deployment instanceID =
     (if \<not> verifyInstanceID instanceID
      then no_instance_ID n K ''info'' instanceID (scaleInstance n K instanceReplicas deployment)
      else bindP (whole (makeURL K (''instances/'' @ instanceID @ ''/scale''))) (\<lambda>url.
        let chosen = (if deployment \<noteq> [] then ''&deployment='' @ deployment else []);
            ask_only = (instanceReplicas = replicasNotSet)
        in bindP (whole (if ask_only then httpGet K (url @ chosen)
                         else httpPut K (url @ ''&replicas='' @ show_nat instanceReplicas @ chosen) '''')) (\<lambda>rsp.
           if fst rsp = 404 then instance_missing n K instanceID (scaleInstance n K instanceReplicas deployment)
           else if fst rsp \<noteq> 200
           then reported n K (if ask_only then ''Failed to get instance scale''
                              else ''Failed to scale instance '' @ instanceID) (snd rsp)
           else bindP (whole (getM clientShouldPrintOnlyJson)) (\<lambda>only_json.
                bindP (whole (if ask_only \<or> only_json then ret ()
                              else say (''Successfully scaled '' @ instanceID @ '' to '' @
                                        show_nat instanceReplicas @ '' replicas.'' @ newline))) (\<lambda>_.
                show_scale K (k_parse K (c_str (snd rsp))))))))"

end
