(* ===== verification/ClientInfo.thy ===== *)
theory ClientInfo
  imports ClientInstances
begin

text \<open>
  The two commands of \<open>src/client/Client.cpp\<close> with the most to print: \<open>getClusterInfo\<close> and
  \<open>getInstanceInfo\<close>; and \<open>listClusterComponents\<close>.
\<close>

section \<open>Clusters\<close>

text \<open>A member that is an array with something in it.\<close>

definition filled_array :: "json \<Rightarrow> string \<Rightarrow> json option check" where
  "filled_array doc k =
     bindC (HasMember doc k) (\<lambda>has.
     if \<not> has then Pass None
     else bindC (the_member doc k) (\<lambda>v.
       Pass (case v of J_array (x # xs) \<Rightarrow> Some v | _ \<Rightarrow> None)))"

definition show_filled :: "'w terminal \<Rightarrow> json \<Rightarrow> string \<Rightarrow> string \<Rightarrow> columnSpec list \<Rightarrow> ('w, 'z, unit) command" where
  "show_filled K metadata k heading columns =
     bindP (whole (checkM (filled_array metadata k))) (\<lambda>found.
     case found of
       None \<Rightarrow> whole (ret ())
     | Some v \<Rightarrow>
         bindP (whole (say (newline @ heading))) (\<lambda>_. show_output K v v columns))"

text \<open>One address of a node: the name of the node stands only with its first one.\<close>

definition resource_names :: "string list" where
  "resource_names =
     [''allocatableCPU'', ''allocatableStorage'', ''allocatableHugepages1Gi'', ''allocatableHugepages2Mi'',
      ''allocatableMem'', ''allocatablePods'', ''capacityCPU'', ''capacityStorage'', ''capacityHugepages1Gi'',
      ''capacityHugepages2Mi'', ''capacityMem'', ''capacityPods'']"

definition resource_member :: "json \<Rightarrow> string \<Rightarrow> (string \<times> json) check" where
  "resource_member addr k =
     bindC (HasMember addr k) (\<lambda>has.
     if has then bindC (text_of addr k) (\<lambda>v. Pass (k, J_string v)) else Pass (k, J_string ''N/A''))"

definition address_entry :: "json \<Rightarrow> bool \<Rightarrow> json \<Rightarrow> json check" where
  "address_entry node first addr =
     bindC (if first then text_of node ''name'' else Pass '''') (\<lambda>name.
     bindC (text_of addr ''address'') (\<lambda>address.
     bindC (text_of addr ''addressType'') (\<lambda>addressType.
     bindC (mapC (resource_member addr) resource_names) (\<lambda>resources.
     Pass (J_object ([(''name'', J_string name), (''address'', J_string address),
                      (''addressType'', J_string addressType)] @ resources))))))"

definition node_entries :: "json \<Rightarrow> json list check" where
  "node_entries node =
     bindC (the_member node ''addresses'') (\<lambda>addresses.
     case addresses of
       J_array addrs \<Rightarrow> mapC (\<lambda>(i, addr). address_entry node (i = 0) addr) (zip [0..<length addrs] addrs)
     | _ \<Rightarrow> Pass [])"

text \<open>The tables of the nodes are not sorted.\<close>

definition show_nodes :: "'w terminal \<Rightarrow> json \<Rightarrow> json \<Rightarrow> ('w, 'z, unit) command" where
  "show_nodes K metadata nodes =
     bindP (whole (checkM (HasMember metadata ''ClusterNodes''))) (\<lambda>counted.
     bindP (if \<not> counted then whole (ret ())
            else bindP (whole (say (newline @ ''Cluster Info: '' @ newline))) (\<lambda>_.
              bindP (show_output K metadata metadata
                       [column ''# of Nodes'' ''/clusterNodes'', column ''Allocatable CPUs'' ''/clusterCPUs'',
                        column ''Allocatable Memory'' ''/clusterMemory'']) (\<lambda>_.
              whole (say newline)))) (\<lambda>_.
     bindP (whole (say (newline @ ''Node Address Information:'' @ newline))) (\<lambda>_.
     bindP (whole (checkM (bindC (GetArray nodes) (mapC node_entries)))) (\<lambda>entries.
     let nodeData = J_array (concat entries)
     in bindP (whole (getM orderBy)) (\<lambda>oldOrder.
        bindP (whole (modify (\<lambda>s. s\<lparr>orderBy := ''nothing''\<rparr>))) (\<lambda>_.
        bindP (show_output K nodeData nodes
                 [column ''Node'' ''/name'', column ''Address'' ''/address'', column ''Type'' ''/addressType'']) (\<lambda>_.
        bindP (whole (say (newline @ ''Node Allocatable Resources:'' @ newline))) (\<lambda>_.
        bindP (show_output K nodeData nodes
                 [column ''Node'' ''/name'', column ''CPU'' ''/allocatableCPU'', column ''Memory'' ''/allocatableMem'',
                  column ''Ephemeral Storage'' ''/allocatableStorage'',
                  column ''Hugepages-1Gi'' ''/allocatableHugepages1Gi'',
                  column ''Hugepages-2Mi'' ''/allocatableHugepages2Mi'', column ''Pods'' ''/allocatablePods'']) (\<lambda>_.
        bindP (whole (say (newline @ ''Node Resource Capacity:'' @ newline))) (\<lambda>_.
        bindP (show_output K nodeData nodes
                 [column ''Node'' ''/name'', column ''CPU'' ''/capacityCPU'', column ''Memory'' ''/capacityMem'',
                  column ''Ephemeral Storage'' ''/capacityStorage'',
                  column ''Hugepages-1Gi'' ''/capacityHugepages1Gi'',
                  column ''Hugepages-2Mi'' ''/capacityHugepages2Mi'', column ''Pods'' ''/capacityPods'']) (\<lambda>_.
        bindP (whole (say newline)) (\<lambda>_.
        whole (modify (\<lambda>s. s\<lparr>orderBy := oldOrder\<rparr>))))))))))))))"

definition optional_column :: "columnSpec \<Rightarrow> columnSpec" where
  "optional_column c = c\<lparr>optional := True\<rparr>"

definition show_cluster_details :: "'w terminal \<Rightarrow> json \<Rightarrow> ('w, 'z, unit) command" where
  "show_cluster_details K metadata =
     bindP (show_filled K metadata ''location'' []
              [column ''Latitude'' ''/lat'', column ''Longitude'' ''/lon'',
               optional_column (wide_column ''Description'' ''/desc'')]) (\<lambda>_.
     bindP (show_filled K metadata ''storageClasses'' (''Storage Classes:'' @ newline)
              [column ''Name'' ''/name'', column ''Default'' ''/isDefault'',
               column ''Expandable'' ''/allowVolumeExpansion'', column ''Binding'' ''/bindingMode'',
               column ''Reclaim Policy'' ''/reclaimPolicy'']) (\<lambda>_.
     bindP (show_filled K metadata ''priorityClasses'' (''Priority Classes:'' @ newline)
              [column ''Name'' ''/name'', column ''Default'' ''/isDefault'', column ''Priority'' ''/priority'',
               optional_column (wide_column ''Description'' ''/description'')]) (\<lambda>_.
     bindP (whole (checkM (filled_array metadata ''nodes''))) (\<lambda>nodes.
     case nodes of None \<Rightarrow> whole (ret ()) | Some v \<Rightarrow> show_nodes K metadata v))))"

definition getClusterInfo :: "nat \<Rightarrow> 'w terminal \<Rightarrow> string \<Rightarrow> bool \<Rightarrow> ('w, 'z, unit) command" where
  "getClusterInfo n K clusterName all_nodes =
     getting n K (''clusters/'' @ clusterName) (if all_nodes then ''&nodes'' else [])
       (''Failed to get information about cluster '' @ clusterName) (\<lambda>doc.
     bindP (show_output K doc doc
              [column ''Name'' ''/metadata/name'', column ''Admin'' ''/metadata/owningGroup'',
               column ''Owner'' ''/metadata/owningOrganization'', column ''Version'' ''/metadata/version'',
               optional_column (column ''Server Address'' ''/metadata/masterAddress''),
               wide_column ''ID'' ''/metadata/id'']) (\<lambda>_.
     bindP (whole (checkM (the_member doc ''metadata''))) (\<lambda>metadata.
     bindP (whole (checkM (HasMember metadata ''clusterCpus''))) (\<lambda>counted.
     bindP (if \<not> counted then whole (ret ())
            else bindP (whole (say newline)) (\<lambda>_.
              show_output K doc doc
                [column ''Nodes'' ''/metadata/clusterNodes'', column ''Allocatable Cores'' ''/metadata/clusterCpus'',
                 column ''Allocatable Memory'' ''/metadata/clusterMemory''])) (\<lambda>_.
     bindP (whole (getM clientShouldPrintOnlyJson)) (\<lambda>only_json.
     if only_json then whole (ret ()) else show_cluster_details K metadata))))))"

text \<open>The components that the client can install, in the order of their map.\<close>

definition cluster_components :: "(string \<times> string) list" where
  "cluster_components =
     [(''federationRBAC'', ''RBAC roles for SLATE federation''),
      (''ingressController'', ''An ingress controller''),
      (''prometheusMonitoring'', ''Central monitoring provided by the SLATE platform'')]"

definition listClusterComponents :: "'w terminal \<Rightarrow> ('w, 'z, unit) command" where
  "listClusterComponents K =
     bindP (whole (getM outputFormat)) (\<lambda>format.
     bindP (whole (if format = [] then say (''Available components:'' @ newline) else ret ())) (\<lambda>_.
     let data = J_array (map (\<lambda>(name, description).
                  J_object [(''name'', J_string name), (''description'', J_string description)]) cluster_components)
     in show_output K data data [column ''Name'' ''/name'', wide_column ''Description'' ''/description'']))"

section \<open>Instances\<close>

text \<open>Texts filed under a key come out in the order of the keys, and of their arrival.\<close>

fun text_before :: "string \<Rightarrow> string \<Rightarrow> bool" where
  "text_before s [] \<longleftrightarrow> False"
| "text_before [] (d # t) \<longleftrightarrow> True"
| "text_before (c # s) (d # t) \<longleftrightarrow> code c < code d \<or> c = d \<and> text_before s t"

primrec file_under :: "string \<times> string \<Rightarrow> (string \<times> string) list \<Rightarrow> (string \<times> string) list" where
  "file_under e [] = [e]"
| "file_under e (f # fs) = (if text_before (fst e) (fst f) then e # f # fs else f # file_under e fs)"

definition filed :: "(string \<times> string) list \<Rightarrow> string list" where
  "filed es = map snd (foldl (\<lambda>fs e. file_under e fs) [] es)"

primrec eachP :: "('x \<Rightarrow> ('s, unit) paged) \<Rightarrow> 'x list \<Rightarrow> ('s, unit) paged" where
  "eachP f [] = whole (ret ())"
| "eachP f (x # xs) = bindP (f x) (\<lambda>_. eachP f xs)"

text \<open>A list of texts behind a heading, each broken to the width of the output.\<close>

definition say_wrapped :: "string \<Rightarrow> string \<Rightarrow> string list \<Rightarrow> ('w, 'z, unit) command" where
  "say_wrapped heading indent texts =
     bindP (whole (getM outputWidth)) (\<lambda>width.
     eachP (\<lambda>(i, text) s.
       (case wrapWithIndent ((if i = 0 then heading else indent) @ text) indent width of
          None \<Rightarrow> None
        | Some str \<Rightarrow> whole (say (str @ newline)) s)) (zip [0..<length texts] texts))"

definition has_text :: "json \<Rightarrow> string \<Rightarrow> string option check" where
  "has_text v k =
     bindC (HasMember v k) (\<lambda>has.
     if \<not> has then Pass None
     else bindC (the_member v k) (\<lambda>m. case m of J_string t \<Rightarrow> Pass (Some (c_str t)) | _ \<Rightarrow> Pass None))"

definition member_text :: "json \<Rightarrow> string \<Rightarrow> (string \<Rightarrow> string) \<Rightarrow> string check" where
  "member_text v k f =
     bindC (HasMember v k) (\<lambda>has. if has then bindC (text_of v k) (\<lambda>t. Pass (f t)) else Pass [])"

definition condition_text :: "json \<Rightarrow> (string \<times> string) check" where
  "condition_text condition =
     bindC (text_of condition ''status'') (\<lambda>status.
     if status = ''True''
     then bindC (has_text condition ''lastTransitionTime'') (\<lambda>time.
          bindC (member_text condition ''type'' id) (\<lambda>t.
          Pass (case time of None \<Rightarrow> ([], t) | Some key \<Rightarrow> (key, ''['' @ key @ ''] '' @ t))))
     else bindC (member_text condition ''type'' id) (\<lambda>t.
          bindC (member_text condition ''reason'' (append '': '')) (\<lambda>reason.
          bindC (member_text condition ''message'' (append ''; '')) (\<lambda>message.
          Pass ([], t @ reason @ message)))))"

text \<open>\<open>GetUint\<close>, which has a precondition on the number.\<close>

fun GetUint :: "json \<Rightarrow> nat check" where
  "GetUint (J_int v) = (if 0 \<le> v \<and> v < 2 ^ 32 then Pass (nat v) else Abort assertion_failed)"
| "GetUint _ = Abort assertion_failed"

definition event_text :: "json \<Rightarrow> (string \<times> string) check" where
  "event_text event =
     bindC (HasMember event ''count'') (\<lambda>counted.
     bindC (if counted then bindC (the_member event ''count'') GetInt else Pass 1) (\<lambda>c.
     let count = nat (c mod 2 ^ 32)
     in bindC (has_text event ''firstTimestamp'') (\<lambda>first.
        bindC (has_text event ''lastTimestamp'') (\<lambda>lst.
        bindC (has_text event ''reason'') (\<lambda>reason.
        bindC (has_text event ''message'') (\<lambda>message.
        let stamp = (case (first, lst) of
                       (Some a, Some b) \<Rightarrow> if count > 1 then (a, ''['' @ a @ '' - '' @ b @ ''] '') else (a, ''['' @ a @ ''] '')
                     | (Some a, None) \<Rightarrow> if count > 1 then ([], []) else (a, ''['' @ a @ ''] '')
                     | _ \<Rightarrow> ([], []))
        in Pass (fst stamp, snd stamp @ (case reason of None \<Rightarrow> [] | Some r \<Rightarrow> r @ '': '') @
             (case message of None \<Rightarrow> [] | Some m \<Rightarrow> m) @
             (if count > 1 then '' (x'' @ show_nat count @ '')'' else []))))))))"

definition say_filed :: "json \<Rightarrow> string \<Rightarrow> (json \<Rightarrow> (string \<times> string) check) \<Rightarrow> string \<Rightarrow> string \<Rightarrow>
    ('w, 'z, unit) command" where
  "say_filed pod k text_in heading indent =
     bindP (whole (checkM (filled_array pod k))) (\<lambda>found.
     case found of
       None \<Rightarrow> whole (ret ())
     | Some v \<Rightarrow>
         bindP (whole (checkM (bindC (GetArray v) (mapC text_in)))) (\<lambda>es.
         say_wrapped heading indent (filed es)))"

text \<open>The states of a container, each behind the text for the lines but the first.\<close>

definition state_text :: "string \<times> json \<Rightarrow> string check" where
  "state_text state =
     bindC (has_text (snd state) ''startedAt'') (\<lambda>since.
     bindC (HasMember (snd state) ''exitCode'') (\<lambda>ended.
     bindC (if ended then the_member (snd state) ''exitCode'' else Pass J_null) (\<lambda>c.
     Pass (c_str (fst state) @ (case since of None \<Rightarrow> [] | Some t \<Rightarrow> '' since '' @ t) @
       (case c of J_int v \<Rightarrow> if - (2 ^ 31) \<le> v \<and> v < 2 ^ 31 then '' with status '' @ show_int v else []
        | _ \<Rightarrow> []) @ newline))))"

definition last_state_text :: "string \<times> json \<Rightarrow> string check" where
  "last_state_text state =
     bindC (HasMember (snd state) ''exitCode'') (\<lambda>ended.
     bindC (if ended then bindC (bindC (the_member (snd state) ''exitCode'') GetUint) (\<lambda>c.
              Pass ('' with status '' @ show_nat c)) else Pass []) (\<lambda>status.
     bindC (member_text (snd state) ''finishedAt'' (append '' at '')) (\<lambda>finished.
     bindC (member_text (snd state) ''startedAt'' (\<lambda>t. newline @ ''                      Started at '' @ t)) (\<lambda>started.
     bindC (member_text (snd state) ''reason'' (\<lambda>t. newline @ ''                      Reason: '' @ t)) (\<lambda>reason.
     Pass (c_str (fst state) @ status @ finished @ started @ reason @ newline))))))"

definition states_text :: "json \<Rightarrow> string \<Rightarrow> string \<Rightarrow> string \<Rightarrow> (string \<times> json \<Rightarrow> string check) \<Rightarrow> string check" where
  "states_text container k heading indent f =
     bindC (HasMember container k) (\<lambda>has.
     if \<not> has then Pass []
     else bindC (bindC (the_member container k) GetObject) (\<lambda>states.
       if states = [] then Pass []
       else bindC (mapC f states) (\<lambda>texts.
         Pass (heading @ hd texts @ concat (map (append indent) (tl texts))))))"

definition container_text :: "json \<Rightarrow> string check" where
  "container_text container =
     bindC (has_text container ''name'') (\<lambda>name.
     bindC (states_text container ''state'' ''        State: '' ''               '' state_text) (\<lambda>states.
     bindC (HasMember container ''ready'') (\<lambda>has_ready.
     bindC (if has_ready then bindC (bindC (the_member container ''ready'') GetBoolean) (\<lambda>b.
              Pass (''        Ready: '' @ (if b then ''true'' else ''false'') @ newline)) else Pass []) (\<lambda>ready.
     bindC (HasMember container ''restartCount'') (\<lambda>has_restarts.
     bindC (if has_restarts then bindC (bindC (the_member container ''restartCount'') GetUint) (\<lambda>c.
              Pass (''        Restarts: '' @ show_nat c @ newline)) else Pass []) (\<lambda>restarts.
     bindC (member_text container ''image'' (\<lambda>t. ''        Image: '' @ t @ newline)) (\<lambda>image.
     bindC (member_text container ''imageID'' (\<lambda>t. ''        ImageID: '' @ t @ newline)) (\<lambda>imageID.
     bindC (states_text container ''lastState'' ''        Last State: '' ''                    '' last_state_text) (\<lambda>last_states.
     Pass (''      '' @ (case name of None \<Rightarrow> ''<unnamed>'' | Some t \<Rightarrow> t) @ newline @ states @ ready @
           restarts @ image @ imageID @ last_states))))))))))"

definition pod_text :: "json \<Rightarrow> string check" where
  "pod_text pod =
     bindC (HasMember pod ''name'') (\<lambda>named.
     bindC (if named then text_of pod ''name'' else Pass ''<unnamed>'') (\<lambda>name.
     bindC (mapC (\<lambda>(k, l). member_text pod k (\<lambda>t. ''    '' @ l @ '': '' @ t @ newline))
              [(''status'', ''Status''), (''created'', ''Created''), (''hostName'', ''Host''),
               (''hostIP'', ''Host IP''), (''message'', ''Message'')]) (\<lambda>texts.
     Pass (''  '' @ name @ newline @ concat texts))))"

definition show_pod :: "json \<Rightarrow> ('w, 'z, unit) command" where
  "show_pod pod =
     bindP (whole (bindM (checkM (pod_text pod)) say)) (\<lambda>_.
     bindP (say_filed pod ''conditions'' condition_text ''    Conditions: '' ''                '') (\<lambda>_.
     bindP (say_filed pod ''events'' event_text ''    Events: '' ''            '') (\<lambda>_.
     bindP (whole (checkM (HasMember pod ''containers''))) (\<lambda>has.
     if \<not> has then whole (ret ())
     else whole (bindM (say (''    Containers:'' @ newline)) (\<lambda>_.
       bindM (checkM (bindC (bindC (the_member pod ''containers'') GetArray) (mapC container_text))) (\<lambda>texts.
       say (concat texts))))))))"

definition show_services :: "'w terminal \<Rightarrow> json \<Rightarrow> ('w, 'z, unit) command" where
  "show_services K doc =
     bindP (whole (checkM (the_member doc ''services''))) (\<lambda>services.
     bindP (whole (checkM (GetArray services))) (\<lambda>list.
     if list = [] then whole (say ('' (none)'' @ newline))
     else bindP (whole (say newline)) (\<lambda>_.
       show_output K services doc
         [column ''Name'' ''/name'', column ''Cluster IP'' ''/clusterIP'', column ''External IP'' ''/externalIP'',
          column ''Ports'' ''/ports'', column ''URL'' ''/url''])))"

definition show_pods :: "json \<Rightarrow> ('w, 'z, unit) command" where
  "show_pods doc =
     bindP (whole (checkM (HasMember doc ''details''))) (\<lambda>has.
     bindP (whole (checkM (if \<not> has then Pass False
                           else bindC (the_member doc ''details'') (\<lambda>details. HasMember details ''pods'')))) (\<lambda>has_pods.
     if \<not> has_pods then whole (ret ())
     else bindP (whole (getM useANSICodes)) (\<lambda>ansi.
       bindP (whole (say (newline @ bold ansi ''Pods:'' @ newline))) (\<lambda>_.
       bindP (whole (checkM (array_at doc [''details'', ''pods'']))) (eachP show_pod)))))"

definition say_configuration :: "json \<Rightarrow> ('w, 'z, unit) act" where
  "say_configuration doc =
     bindM (checkM (member_at doc [''metadata'', ''configuration''])) (\<lambda>conf.
     case conf of
       J_null \<Rightarrow> say ('' (default)'' @ newline)
     | J_string t \<Rightarrow>
         if list_all (\<lambda>c. isspace c \<and> c \<noteq> CHR 0x0C) (c_str t) then say ('' (default)'' @ newline)
         else say (newline @ c_str t @ newline)
     | _ \<Rightarrow> throw assertion_failed)"

primrec getInstanceInfo :: "nat \<Rightarrow> 'w terminal \<Rightarrow> bool \<Rightarrow> string \<Rightarrow> ('w, 'z, unit) command" where
  "getInstanceInfo 0 K confOnly instanceID = (\<lambda>s. None)"
| "getInstanceInfo (Suc n) K confOnly instanceID =
     (if \<not> verifyInstanceID instanceID then no_instance_ID n K ''info'' instanceID (getInstanceInfo n K confOnly)
      else bindP (whole (makeURL K (''instances/'' @ instanceID))) (\<lambda>url.
        bindP (whole (httpGet K (url @ ''&detailed''))) (\<lambda>rsp.
        if fst rsp = 404 then instance_missing n K instanceID (getInstanceInfo n K confOnly)
        else if fst rsp \<noteq> 200 then reported n K ''Failed to get application instance info'' (snd rsp)
        else let doc = k_parse K (c_str (snd rsp))
          in if confOnly then whole (say_configuration doc)
             else bindP (show_output K doc doc
                 [column ''Name'' ''/metadata/name'', wide_column ''Started'' ''/metadata/created'',
                  optional_column (column ''App Version'' ''/metadata/appVersion''),
                  optional_column (column ''Chart Version'' ''/metadata/chartVersion''),
                  column ''Group'' ''/metadata/group'', column ''Cluster'' ''/metadata/cluster'',
                  wide_column ''ID'' ''/metadata/id'']) (\<lambda>_.
               bindP (whole (getM (\<lambda>s. (clientShouldPrintOnlyJson s, useANSICodes s)))) (\<lambda>(only_json, ansi).
               if only_json then whole (ret ())
               else bindP (whole (say (newline @ bold ansi ''Services:''))) (\<lambda>_.
                 bindP (show_services K doc) (\<lambda>_.
                 bindP (show_pods doc) (\<lambda>_.
                 bindP (whole (say (newline @ bold ansi ''Configuration:''))) (\<lambda>_.
                 whole (say_configuration doc))))))))))"

end
