(* ===== verification/ClientRuns.thy ===== *)
theory ClientRuns
  imports ClientAccounts ClientInfo Kept
begin

text \<open>
  Reasoning about whole runs of the client.  The commands touch the state of a client only through
  printing, listening, files, requests and a few fields of their own; an invariant that these
  respect, and that a request respects when it is of a permitted kind, holds at the end of every
  command all of whose requests are permitted.  The locale \<open>client_run\<close> states this contract once,
  and what the commands share is taken through it once.
\<close>

section \<open>Assertions around operations with a budget\<close>

definition tripleP ::
  "('s \<Rightarrow> bool) \<Rightarrow> ('s, 'a) paged \<Rightarrow> ('a \<Rightarrow> 's \<Rightarrow> bool) \<Rightarrow> ('s \<Rightarrow> bool) \<Rightarrow> bool" where
  "tripleP P m Q X \<longleftrightarrow>
     (\<forall>s. P s \<longrightarrow> (case m s of None \<Rightarrow> True | Some (Inl e, s') \<Rightarrow> X s' | Some (Inr a, s') \<Rightarrow> Q a s'))"

lemma keepsP_tripleP: "keepsP I m \<longleftrightarrow> tripleP I m (\<lambda>_. I) I"
  by (fastforce simp: tripleP_def keepsP_def split: option.splits prod.splits sum.splits)

lemma tripleP_bind:
  assumes "tripleP P m R X" and "\<And>a. tripleP (R a) (f a) Q X"
  shows "tripleP P (bindP m f) Q X"
  unfolding tripleP_def
proof (intro allI impI)
  fix s assume "P s"
  with assms(1) have m: "case m s of None \<Rightarrow> True | Some (Inl e, s') \<Rightarrow> X s' | Some (Inr a, s') \<Rightarrow> R a s'"
    by (simp add: tripleP_def)
  show "case bindP m f s of None \<Rightarrow> True | Some (Inl e, s') \<Rightarrow> X s' | Some (Inr a, s') \<Rightarrow> Q a s'"
  proof (cases "\<exists>a s'. m s = Some (Inr a, s')")
    case True
    then obtain a s' where "m s = Some (Inr a, s')" by blast
    with m assms(2) [of a] show ?thesis by (auto simp: bindP_def tripleP_def)
  qed (use m in \<open>auto simp: bindP_def split: option.splits sum.splits\<close>)
qed

lemma tripleP_whole: "triple P m Q X \<Longrightarrow> tripleP P (whole m) Q X"
  by (fastforce simp: triple_def tripleP_def whole_def split: prod.splits sum.splits)

lemma tripleP_if: "(b \<Longrightarrow> tripleP P m Q X) \<Longrightarrow> (\<not> b \<Longrightarrow> tripleP P m' Q X) \<Longrightarrow> tripleP P (if b then m else m') Q X"
  by simp

lemma tripleP_keeps: "keepsP I m \<Longrightarrow> (\<And>s. I s \<Longrightarrow> X s) \<Longrightarrow> tripleP I m (\<lambda>_. I) X"
  by (fastforce simp: tripleP_def keepsP_def split: option.splits prod.splits sum.splits)

lemma tripleP_Let: "tripleP P (f x) Q X \<Longrightarrow> tripleP P (let y = x in f y) Q X"
  by simp

lemma triple_throw: "(\<And>s. P s \<Longrightarrow> X s) \<Longrightarrow> triple P (throw e) Q X"
  by (simp add: triple_def throw_def)

lemma triple_ret: "(\<And>s. P s \<Longrightarrow> Q a s) \<Longrightarrow> triple P (ret a) Q X"
  by (simp add: triple_def ret_def)

lemma triple_if: "(b \<Longrightarrow> triple P m Q X) \<Longrightarrow> (\<not> b \<Longrightarrow> triple P m' Q X) \<Longrightarrow> triple P (if b then m else m') Q X"
  by simp

section \<open>Addresses\<close>

lemma check_endpoint_same: "check_endpoint endpoint = Inr e \<Longrightarrow> e = endpoint"
  by (auto simp: check_endpoint_def Let_def bindE_Inr_iff split: option.splits if_splits)

text \<open>An address of the client: a checked address of a server, and what \<open>makeURL\<close> puts behind it.\<close>

definition good_url :: "string \<Rightarrow> string \<Rightarrow> string \<Rightarrow> bool" where
  "good_url version path url \<longleftrightarrow>
     (\<exists>endpoint t. check_endpoint endpoint = Inr endpoint \<and> url = url_of endpoint version path t)"

definition version_url :: "string \<Rightarrow> bool" where
  "version_url url \<longleftrightarrow> (\<exists>endpoint. check_endpoint endpoint = Inr endpoint \<and> url = endpoint @ ''/version'')"

lemma keepsP_pair [keeps]: "(\<And>a b. x = (a, b) \<Longrightarrow> keepsP I (f a b)) \<Longrightarrow> keepsP I (case x of (a, b) \<Rightarrow> f a b)"
  by (cases x) simp

lemma keepsP_list [keeps]:
  "(x = [] \<Longrightarrow> keepsP I m) \<Longrightarrow> (\<And>a b. x = a # b \<Longrightarrow> keepsP I (f a b)) \<Longrightarrow>
     keepsP I (case x of [] \<Rightarrow> m | a # b \<Rightarrow> f a b)"
  by (cases x) simp_all

lemma keepsP_catch [keeps]:
  assumes "keepsP I m" and "\<And>e. keepsP I (h e)"
  shows "keepsP I (catchP m h)"
proof (rule keepsPI)
  fix s r s' assume I: "I s" and run: "catchP m h s = Some (r, s')"
  obtain x t where x: "m s = Some (x, t)" using run by (auto simp: catchP_def split: option.splits)
  have "I t" using keepsPD [OF assms(1) I x] .
  with x run show "I s'"
    by (cases x) (auto simp: catchP_def split: if_splits dest: keepsPD [OF assms(2)])
qed

lemma keeps_checked_value [keeps]: "keeps I (checkM c)"
  by (cases c) (simp_all add: checkM_def keeps)

lemma keeps_raise [keeps]: "keeps I (raise r)"
  by (rule keepsI) (simp add: raise_def)

lemma keeps_getM [keeps]: "keeps I (getM f)"
  by (rule keepsI) (simp add: getM_def)

lemma keeps_modify: "(\<And>s. I s \<Longrightarrow> I (f s)) \<Longrightarrow> keeps I (modify f)"
  by (rule keepsI) (auto simp: modify_def)

lemma keepsP_bind_result:
  assumes "triple I m (\<lambda>a s. I s \<and> R a) I" and "\<And>a. R a \<Longrightarrow> keepsP I (f a)"
  shows "keepsP I (bindP (whole m) f)"
proof (rule keepsPI)
  fix s r s' assume I: "I s" and run: "bindP (whole m) f s = Some (r, s')"
  obtain x t where x: "m s = (x, t)" by fastforce
  show "I s'"
  proof (cases x)
    case (Inl e)
    then show ?thesis using tripleD(1) [OF assms(1) I] x run by (auto simp: bindP_def whole_def)
  next
    case (Inr a)
    then have "I t" "R a" using tripleD(2) [OF assms(1) I] x by auto
    then show ?thesis using keepsPD [OF assms(2)] x Inr run by (auto simp: bindP_def whole_def)
  qed
qed

lemma keeps_bind_result:
  assumes "triple I m (\<lambda>a s. I s \<and> R a) I" and "\<And>a. R a \<Longrightarrow> keeps I (f a)"
  shows "keeps I (bindM m f)"
  unfolding keeps_def
  by (rule triple_bind [OF assms(1)]) (use assms(2) in \<open>auto simp: keeps_def triple_def\<close>)

lemma keeps_json [keeps]:
  assumes "keeps I m0" and "\<And>a. keeps I (m1 a)" and "\<And>a. keeps I (m2 a)" and "\<And>a. keeps I (m3 a)"
    and "\<And>a. keeps I (m4 a)" and "\<And>a. keeps I (m5 a)" and "\<And>a. keeps I (m6 a)"
  shows "keeps I (case_json m0 m1 m2 m3 m4 m5 m6 x)"
  using assms by (cases x) simp_all

lemma keepsP_json [keeps]:
  assumes "keepsP I m0" and "\<And>a. keepsP I (m1 a)" and "\<And>a. keepsP I (m2 a)" and "\<And>a. keepsP I (m3 a)"
    and "\<And>a. keepsP I (m4 a)" and "\<And>a. keepsP I (m5 a)" and "\<And>a. keepsP I (m6 a)"
  shows "keepsP I (case_json m0 m1 m2 m3 m4 m5 m6 x)"
  using assms by (cases x) simp_all

lemma keepsP_either [keeps]:
  "(\<And>e. keepsP I (f e)) \<Longrightarrow> (\<And>a. keepsP I (g a)) \<Longrightarrow> keepsP I (case x of Inl e \<Rightarrow> f e | Inr a \<Rightarrow> g a)"
  by (cases x) simp_all

lemma keeps_each [keeps]: "(\<And>x. keeps I (f x)) \<Longrightarrow> keeps I (each f xs)"
  by (induction xs) (simp_all add: keeps)

section \<open>The contract\<close>

locale client_run =
  fixes I :: "('w, 'z) client_scheme \<Rightarrow> bool" and v :: string and P :: "http_method \<Rightarrow> string \<Rightarrow> bool"
  assumes version: "I s \<Longrightarrow> apiVersion s = v"
    and print: "I s \<Longrightarrow> I (s\<lparr>printed := text\<rparr>)"
    and complaint: "I s \<Longrightarrow> I (s\<lparr>complained := text\<rparr>)"
    and hear: "I s \<Longrightarrow> I (s\<lparr>heard := heard s @ [answer]\<rparr>)"
    and outside: "I s \<Longrightarrow> I (s\<lparr>world := w\<rparr>)"
    and counters: "I s \<Longrightarrow> I (s\<lparr>cacheHits := c1, databaseQueries := c2, databaseScans := c3\<rparr>)"
    and fields: "I s \<Longrightarrow> I (s\<lparr>apiEndpoint := a\<rparr>)" "I s \<Longrightarrow> I (s\<lparr>endpointPath := a\<rparr>)"
      "I s \<Longrightarrow> I (s\<lparr>credentialPath := a\<rparr>)" "I s \<Longrightarrow> I (s\<lparr>token := a\<rparr>)" "I s \<Longrightarrow> I (s\<lparr>orderBy := a\<rparr>)"
    and request: "I s \<Longrightarrow> P m url \<Longrightarrow> I (s\<lparr>sent := sent s @ [(m, url, body)]\<rparr>)"
    and ask_version: "version_url url \<Longrightarrow> P Get url"
begin

lemma keeps_callM [keeps]: "keeps I (callM f)"
  by (rule keepsI) (auto simp: callM_def call_def outside split: prod.splits)

lemma keeps_callE [keeps]: "keeps I (callE f)"
  by (rule keepsI) (auto simp: callE_def call_def outside split: prod.splits)

lemma keeps_say [keeps]: "keeps I (say text)"
  unfolding say_def by (rule keeps_modify) (rule print)

lemma keeps_complain [keeps]: "keeps I (complain text)"
  unfolding complain_def by (rule keeps_modify) (rule complaint)

lemma keeps_listen [keeps]: "keeps I (listen K)"
  unfolding listen_def by (intro keeps keeps_modify hear)

lemma keeps_ask [keeps]: "keeps I (ask K text)"
  unfolding ask_def by (intro keeps)

lemma keeps_checkPermissions [keeps]: "keeps I (checkPermissions K path)"
  unfolding checkPermissions_def by (intro keeps)

lemma keeps_getHomeDirectory [keeps]: "keeps I (getHomeDirectory K)"
  unfolding getHomeDirectory_def by (intro keeps)

lemma keeps_fetchStoredCredentials [keeps]: "keeps I (fetchStoredCredentials K)"
  unfolding fetchStoredCredentials_def by (intro keeps)

lemma keeps_updateStoredCredentials [keeps]: "keeps I (updateStoredCredentials K t)"
  unfolding updateStoredCredentials_def by (intro keeps)

lemma keeps_getToken [keeps]: "keeps I (getToken K)"
  unfolding getToken_def getDefaultCredFilePath_def by (intro keeps keeps_modify fields)

lemma keeps_read_endpoint [keeps]: "keeps I (read_endpoint K)"
  unfolding read_endpoint_def getDefaultEndpointFilePath_def by (intro keeps keeps_modify fields)

lemma keeps_getEndpoint [keeps]: "keeps I (getEndpoint K)"
  unfolding getEndpoint_def by (intro keeps)

lemma triple_getEndpoint:
  "triple I (getEndpoint K) (\<lambda>endpoint s. I s \<and> check_endpoint endpoint = Inr endpoint) I"
proof (rule tripleI)
  fix s endpoint s' assume I: "I s" and run: "getEndpoint K s = (Inr endpoint, s')"
  have "check_endpoint endpoint = Inr endpoint"
    using run check_endpoint_same
    by (fastforce simp: getEndpoint_def bindM_def getM_def ret_def throw_def split: prod.splits sum.splits)
  then show "I s' \<and> check_endpoint endpoint = Inr endpoint" using keepsD [OF keeps_getEndpoint I run] by simp
qed (erule (1) keepsD [OF keeps_getEndpoint])

lemma keeps_makeURL [keeps]: "keeps I (makeURL K path)"
  unfolding makeURL_def by (intro keeps)

lemma triple_makeURL: "triple I (makeURL K path) (\<lambda>url s. I s \<and> good_url v path url) I"
proof (rule tripleI)
  fix s url s' assume I: "I s" and run: "makeURL K path s = (Inr url, s')"
  from run obtain endpoint s1 t s2 where e: "getEndpoint K s = (Inr endpoint, s1)"
    and t: "getToken K s1 = (Inr t, s2)" and url: "url = url_of endpoint (apiVersion s2) path t" "s' = s2"
    by (auto simp: makeURL_def bindM_Inr_iff getM_def ret_def)
  have "I s1" "check_endpoint endpoint = Inr endpoint" using tripleD(2) [OF triple_getEndpoint I e] by simp_all
  moreover from this have "I s2" using keepsD [OF keeps_getToken _ t] by simp
  ultimately show "I s' \<and> good_url v path url" using url version by (auto simp: good_url_def)
qed (erule (1) keepsD [OF keeps_makeURL])

lemmas with_url = keepsP_bind_result [OF triple_makeURL] keeps_bind_result [OF triple_makeURL]

lemma keeps_request: "P m url \<Longrightarrow> keeps I (request_to K m url body)"
  unfolding request_to_def by (intro keeps keeps_modify request)

lemma keeps_httpGet: "P Get url \<Longrightarrow> keeps I (httpGet K url)"
  unfolding httpGet_def by (rule keeps_request)

lemma keeps_httpDelete: "P Delete url \<Longrightarrow> keeps I (httpDelete K url)"
  unfolding httpDelete_def by (rule keeps_request)

lemma keeps_httpPut: "P Put url \<Longrightarrow> keeps I (httpPut K url body)"
  unfolding httpPut_def by (rule keeps_request)

lemma keeps_httpPost: "P Post url \<Longrightarrow> keeps I (httpPost K url body)"
  unfolding httpPost_def by (rule keeps_request)

lemmas requests = keeps_httpGet keeps_httpDelete keeps_httpPut keeps_httpPost

lemma keepsP_jsonListToTable [keeps]: "keepsP I (jsonListToTable K jdata columns headers)"
  by (rule keepsPI) (auto simp: jsonListToTable_def split: sum.splits)

lemma keeps_format_file [keeps]: "keeps I (format_file K format a b c)"
  unfolding format_file_def by (intro keeps)

lemma keepsP_formatOutput [keeps]: "keepsP I (formatOutput K jdata original columns)"
  unfolding formatOutput_def by (intro keeps)

lemma keepsP_show_output [keeps]: "keepsP I (show_output K jdata original columns)"
  unfolding show_output_def by (intro keeps)

section \<open>Reports\<close>

lemma keepsP_show_error: "keepsP I again \<Longrightarrow> keepsP I (show_error K again text)"
  unfolding show_error_def by (intro keeps)

lemma keepsP_fetch_version:
  assumes "keepsP I again"
  shows "keepsP I (fetch_version K again)"
  unfolding fetch_version_def
proof (rule keepsP_bind_result [OF triple_getEndpoint])
  fix endpoint assume "check_endpoint endpoint = Inr endpoint"
  then have "P Get (endpoint @ ''/version'')" by (auto simp: version_url_def intro: ask_version)
  then show "keepsP I (bindP (whole (httpGet K (endpoint @ ''/version''))) (\<lambda>rsp.
     if fst rsp = 200
     then bindP (whole (checkM (server_version (k_parse K (c_str (snd rsp)))))) (\<lambda>(members, columns).
          whole (ret ([(''server'', J_object members)], columns)))
     else bindP (whole (complain (''Failed to contact API server '' @ endpoint))) (\<lambda>_.
          bindP (show_error K again (snd rsp)) (\<lambda>_. whole (throw OperationFailed)))))"
    by (intro keeps keeps_httpGet keepsP_show_error assms)
qed

lemma keeps_say_versions [keeps]: "keeps I (say_versions K members)"
  unfolding say_versions_def by (intro keeps)

lemma keepsP_printVersion [keeps]: "keepsP I (printVersion n K)"
  by (induction n) (auto simp: Let_def intro!: keeps keepsP_fetch_version)

lemma keepsP_showError [keeps]: "keepsP I (showError n K text)"
  unfolding showError_def by (intro keepsP_show_error keeps)

lemma keepsP_reported [keeps]: "keepsP I (reported n K problem body)"
  unfolding reported_def by (intro keeps)

lemma keepsP_answered [keeps]: "(\<And>body. keepsP I (k body)) \<Longrightarrow> keepsP I (answered n K rsp problem k)"
  unfolding answered_def by (intro keeps)

lemma keepsP_getting:
  assumes "\<And>url. good_url v path url \<Longrightarrow> P Get (url @ params)" and "\<And>doc. keepsP I (k doc)"
  shows "keepsP I (getting n K path params problem k)"
  unfolding getting_def by (intro with_url keeps keeps_httpGet assms)

lemma keepsP_show_items [keeps]: "keepsP I (show_items K doc columns)"
  unfolding show_items_def by (intro keeps)

lemma keepsP_changing: "keeps I req \<Longrightarrow> keepsP I (changing n K req message problem)"
  unfolding changing_def by (intro keeps)

lemma keeps_say_created [keeps]: "keeps I (say_created K what_kind body)"
  unfolding say_created_def by (intro keeps)

lemma keeps_with_writer [keeps]: "keeps I (with_writer m w)"
  by (rule keepsI) (auto simp: with_writer_def split: prod.splits sum.splits)

lemma keeps_archive_entry [keeps]: "keeps I (archive_entry F A clean path e acc)"
  unfolding archive_entry_def by (intro keeps)

lemma keeps_read_directory:
  "keeps I (bindM (callM (fs_readdir F path)) (\<lambda>entries.
     case entries of None \<Rightarrow> throw e | Some es \<Rightarrow> bindM (with_writer m w) (\<lambda>w1.
       foldM (archive_entry F A clean path) es (rest, w1))))"
  by (intro keeps)

lemma keepsP_recursivelyArchive [keeps]: "keepsP I (recursivelyArchive n F A path w strip)"
proof -
  have "keepsP I (archive_queue n F A clean todo w)" for clean todo w
  proof (induction n arbitrary: todo w)
    case (Suc n)
    show ?case
      by (rule keepsPI)
        (auto split: list.splits prod.splits sum.splits dest!: keepsD [OF keeps_read_directory, rotated]
          dest: keepsPD [OF Suc.IH])
  qed (simp add: keepsP_def)
  then show ?thesis by (simp add: recursivelyArchive_def)
qed

lemma keepsP_gzipCompress [keeps]: "keepsP I (gzipCompress n Z source)"
proof -
  have deflated: "I t'" if "call f t = (x, t')" "I t" for f t x t'
    using that outside by (auto simp: call_def split: prod.splits)
  have loop: "I s'"
    if "compress_loop m Z src eof buf again crc total dest s = Some (r, s')" "I s"
    for m src eof buf again crc total dest s r s'
    using that
  proof (induction m arbitrary: src eof buf again crc total dest s)
    case (Suc m)
    from Suc.prems show ?case
      by (auto simp: Let_def split: if_splits prod.splits intro: Suc.IH dest: deflated)
  qed simp
  show ?thesis
    by (rule keepsPI) (auto simp: gzipCompress_def split: option.splits sum.splits prod.splits if_splits
        dest!: deflated dest: loop)
qed

lemma keepsP_pack_chart [keeps]: "keepsP I (pack_chart n K appName)"
  unfolding pack_chart_def by (intro keeps)

lemma keeps_read_configuration [keeps]: "keeps I (read_configuration K configPath)"
  unfolding read_configuration_def by (intro keeps)

lemma keepsP_show_filled [keeps]: "keepsP I (show_filled K metadata k heading columns)"
  unfolding show_filled_def by (intro keeps)

lemma keepsP_show_nodes [keeps]: "keepsP I (show_nodes K metadata nodes)"
  unfolding show_nodes_def by (intro keeps keeps_modify fields)

lemma keepsP_show_cluster_details [keeps]: "keepsP I (show_cluster_details K metadata)"
  unfolding show_cluster_details_def by (intro keeps)

lemma keepsP_show_contents [keeps]: "keepsP I (show_contents K doc)"
  unfolding show_contents_def secret_row_def by (intro keeps)

lemma keeps_say_message [keeps]: "keeps I (say_message K body)"
  unfolding say_message_def by (intro keeps)

lemma keepsP_show_logs [keeps]: "keepsP I (show_logs K doc)"
  unfolding show_logs_def by (intro keeps)

lemma keepsP_show_scale [keeps]: "keepsP I (show_scale K doc)"
  unfolding show_scale_def by (intro keeps)

lemma keepsP_eachP [keeps]: "(\<And>x. keepsP I (f x)) \<Longrightarrow> keepsP I (eachP f xs)"
  by (induction xs) (simp_all add: keeps)

lemma keepsP_say_wrapped [keeps]: "keepsP I (say_wrapped heading indent texts)"
proof -
  have "keepsP I (\<lambda>s. (case t of None \<Rightarrow> None | Some str \<Rightarrow> whole (say (str @ newline)) s))" for t
    by (cases t) (simp_all add: keeps)
  then show ?thesis unfolding say_wrapped_def by (intro keeps) (auto split: prod.split)
qed

lemma keepsP_say_filed [keeps]: "keepsP I (say_filed pod k text_in heading indent)"
  unfolding say_filed_def by (intro keeps)

lemma keepsP_show_pod [keeps]: "keepsP I (show_pod pod)"
  unfolding show_pod_def by (intro keeps)

lemma keepsP_show_services [keeps]: "keepsP I (show_services K doc)"
  unfolding show_services_def by (intro keeps)

lemma keepsP_show_pods [keeps]: "keepsP I (show_pods doc)"
  unfolding show_pods_def by (intro keeps)

lemma keeps_say_configuration [keeps]: "keeps I (say_configuration doc)"
  unfolding say_configuration_def by (intro keeps)

lemma keepsP_pick_guess [keeps]: "keepsP I (pick_guess K badID doc bestfits)"
  unfolding pick_guess_def by (intro keeps)

lemma keepsP_retry:
  assumes "\<And>url. good_url v ''instances'' url \<Longrightarrow> P Get url" and "\<And>ident. keepsP I (again ident)"
  shows "keepsP I (retryInstanceCommandWithFixup n K badID again)"
  unfolding retryInstanceCommandWithFixup_def by (intro with_url keeps keeps_httpGet assms)

lemma keepsP_instance_missing:
  assumes "\<And>url. good_url v ''instances'' url \<Longrightarrow> P Get url" and "\<And>ident. keepsP I (again ident)"
  shows "keepsP I (instance_missing n K badID again)"
  unfolding instance_missing_def by (intro keeps keepsP_retry assms)

lemma keepsP_no_instance_ID:
  assumes "\<And>url. good_url v ''instances'' url \<Longrightarrow> P Get url" and "\<And>ident. keepsP I (again ident)"
  shows "keepsP I (no_instance_ID n K verb badID again)"
  unfolding no_instance_ID_def by (intro keeps keepsP_retry assms)

lemma keepsP_confirm:
  "(\<And>url. good_url v path url \<Longrightarrow> P Get url) \<Longrightarrow> keepsP I (confirm n K sure path missing aborted question)"
  unfolding confirm_def by (intro with_url keeps keeps_httpGet)

lemma keeps_deletion_request:
  "(\<And>url. good_url v path url \<Longrightarrow> P Delete (url @ (if force then ''&force'' else []))) \<Longrightarrow>
     keeps I (deletion_request K path force)"
  unfolding deletion_request_def by (intro with_url keeps_httpDelete)

end

section \<open>A terminal to run commands on\<close>

text \<open>
  A client and a terminal to run commands on: the user's lines wait in the world, and the server
  answers every request with the document of a group.
\<close>

definition sample_document :: json where
  "sample_document = J_object [(''metadata'', J_object
     [(''id'', J_string ''group_1''), (''name'', J_string ''phys'')])]"

definition sample_terminal :: "string list terminal \<Rightarrow> string list terminal" where
  "sample_terminal K = K\<lparr>k_http := \<lambda>m url body w. (Inr (200, ''{}''), w),
     k_line := \<lambda>w. (hd w, tl w), k_parse := \<lambda>text. sample_document,
     k_print := \<lambda>doc. ''{}'', k_sort := \<lambda>i rows. rows\<rparr>"

definition sample_client :: "string list \<Rightarrow> string list client" where
  "sample_client lines =
     \<lparr>world = lines, cacheHits = 0, databaseQueries = 0, databaseScans = 0,
      endpointPath = [], apiEndpoint = ''http://slate:80'', apiVersion = ''v1alpha3'', credentialPath = [],
      token = ''T'', useANSICodes = False, enableFixup = True, outputWidth = 80, outputFormat = [],
      orderBy = [], printed = [], complained = [], sent = [], heard = []\<rparr>"

lemma sample_endpoint: "check_endpoint ''http://slate:80'' = Inr ''http://slate:80''"
  by code_simp

lemma sample_texts:
  "text_at sample_document [''metadata'', ''id''] = Pass ''group_1''"
  "text_at sample_document [''metadata'', ''name''] = Pass ''phys''"
  by code_simp+

lemmas sample_run = sample_terminal_def sample_client_def sample_endpoint sample_texts
  session_defs makeURL_def getEndpoint_def getToken_def modify_def bindM_def callM_def callE_def call_def
  ret_def bindP_def whole_def checkM_def yes_def c_str_def

end
