(* ===== verification/TableCorrect.thy ===== *)
theory TableCorrect
  imports ClientRuns
begin

text \<open>
  What the client prints can be read, and the printing ends: a table that fits shows every cell in
  its column, and a table that does not fit is finished whatever its columns shrink to.
\<close>

section \<open>The width of the columns\<close>

lemma length_widen [simp]: "length (widen ws r) = max (length ws) (length r)"
  by (simp add: widen_def Let_def)

lemma widen_covers_row: "j < length r \<Longrightarrow> length (r ! j) \<le> widen ws r ! j"
  by (simp add: widen_def Let_def)

lemma widen_grows: "j < length ws \<Longrightarrow> ws ! j \<le> widen ws r ! j"
  by (simp add: widen_def Let_def nth_append)

lemma foldl_widen_grows:
  "length ws \<le> length (foldl widen ws items) \<and> (\<forall>j < length ws. ws ! j \<le> foldl widen ws items ! j)"
proof (induction items arbitrary: ws)
  case (Cons r items)
  have "ws ! j \<le> foldl widen (widen ws r) items ! j" if "j < length ws" for j
    by (rule le_trans [OF widen_grows [OF that, of r]]) (use Cons.IH [of "widen ws r"] that in simp)
  then show ?case using Cons.IH [of "widen ws r"] by simp
qed simp

lemma foldl_widen_covers:
  "r \<in> set items \<Longrightarrow> j < length r \<Longrightarrow>
     j < length (foldl widen ws items) \<and> length (r ! j) \<le> foldl widen ws items ! j"
proof (induction items arbitrary: ws)
  case (Cons q items)
  show ?case
  proof (cases "r = q")
    case True
    have "widen ws r ! j \<le> foldl widen (widen ws r) items ! j" "j < length (foldl widen (widen ws r) items)"
      using foldl_widen_grows [of "widen ws r" items] Cons.prems(2) by simp_all
    then show ?thesis using widen_covers_row [OF Cons.prems(2), of ws] True by simp
  qed (use Cons in auto)
qed simp

lemma widths_cover:
  "r \<in> set items \<Longrightarrow> j < length r \<Longrightarrow>
     j < length (minColumnWidths items) \<and> length (r ! j) \<le> minColumnWidths items ! j"
  by (simp add: minColumnWidths_def foldl_widen_covers)

definition rectangular :: "nat \<Rightarrow> table \<Rightarrow> bool" where
  "rectangular n items \<longleftrightarrow> (\<forall>r \<in> set items. length r = n)"

lemma length_foldl_widen:
  "rectangular n items \<Longrightarrow> length ws = n \<Longrightarrow> length (foldl widen ws items) = n"
  by (induction items arbitrary: ws) (simp_all add: rectangular_def)

lemma length_widths: "rectangular n items \<Longrightarrow> items \<noteq> [] \<Longrightarrow> length (minColumnWidths items) = n"
  by (cases items) (auto simp: minColumnWidths_def rectangular_def intro!: length_foldl_widen [unfolded rectangular_def])

section \<open>Tables that fit\<close>

definition cell_text :: "nat list \<Rightarrow> string list \<Rightarrow> nat \<Rightarrow> string" where
  "cell_text ws r j = (if j \<noteq> 0 then '' '' else []) @ setw (ws ! j) (r ! j)"

definition line_text :: "nat list \<Rightarrow> string list \<Rightarrow> nat \<Rightarrow> string" where
  "line_text ws r k = concat (map (cell_text ws r) [0..<k])"

definition cell_start :: "nat list \<Rightarrow> nat \<Rightarrow> nat" where
  "cell_start ws j = sum_list (take j ws) + j"

lemma shown_plain [simp]: "shown False headers i s = s"
  by (simp add: shown_def underline_def)

lemma plain_line: "fitting_line False headers ws i r = line_text ws r (length r) @ newline"
  by (simp add: fitting_line_def line_text_def cell_text_def [abs_def])

lemma length_setw: "length s \<le> n \<Longrightarrow> length (setw n s) = n"
  by (simp add: setw_def)

lemma length_line_text:
  assumes "\<forall>j < k. length (r ! j) \<le> ws ! j" and "k \<le> length ws"
  shows "length (line_text ws r k) = sum_list (take k ws) + (k - 1)"
  using assms
proof (induction k)
  case (Suc k)
  have "sum_list (take (Suc k) ws) = sum_list (take k ws) + ws ! k"
    using Suc.prems(2) by (simp add: take_Suc_conv_app_nth)
  moreover have "line_text ws r (Suc k) = line_text ws r k @ cell_text ws r k"
    by (simp add: line_text_def)
  moreover have "length (cell_text ws r k) = (if k \<noteq> 0 then 1 else 0) + ws ! k"
    using Suc.prems(1) by (simp add: cell_text_def length_setw)
  ultimately show ?case using Suc by (cases k) auto
qed (simp add: line_text_def)

lemma line_text_split:
  assumes "j < k"
  shows "line_text ws r k = line_text ws r j @ cell_text ws r j @ concat (map (cell_text ws r) [Suc j..<k])"
proof -
  have "[0..<k] = [0..<j] @ j # [Suc j..<k]"
    using assms by (metis less_imp_add_positive upt_add_eq_append upt_conv_Cons zero_le less_imp_le_nat)
  then show ?thesis by (simp add: line_text_def)
qed

lemma cell_in_line:
  assumes cover: "\<forall>j < k. length (r ! j) \<le> ws ! j" and k: "k \<le> length ws" and j: "j < k"
  shows "take (ws ! j) (drop (cell_start ws j) (line_text ws r k)) = setw (ws ! j) (r ! j)"
proof -
  have "length (line_text ws r j) = sum_list (take j ws) + (j - 1)"
    using cover k j by (intro length_line_text) auto
  moreover have "length (setw (ws ! j) (r ! j)) = ws ! j" using cover j by (simp add: length_setw)
  ultimately show ?thesis
    unfolding line_text_split [OF j] cell_start_def cell_text_def by (cases j) simp_all
qed

lemma length_lines: "(\<And>i. i < n \<Longrightarrow> length (f i) = m) \<Longrightarrow> length (concat (map f [0..<n])) = n * m"
  by (induction n) auto

lemma lines_of_equal_length:
  assumes "\<And>i. i < n \<Longrightarrow> length (f i) = m" and "i < n"
  shows "take m (drop (i * m) (concat (map f [0..<n]))) = f i"
proof -
  have start: "length (concat (map f [0..<i])) = i * m"
    using assms by (intro length_lines) auto
  have "[0..<n] = [0..<i] @ i # [Suc i..<n]"
    using assms(2) by (metis less_imp_add_positive upt_add_eq_append upt_conv_Cons zero_le less_imp_le_nat)
  then have "concat (map f [0..<n]) = concat (map f [0..<i]) @ f i @ concat (map f [Suc i..<n])" by simp
  then show ?thesis using start assms by simp
qed

text \<open>
  C40: in a table that fits and is printed without escapes, every line is as wide as the table, and
  every cell stands at the start of its column, filled up with blanks to the width of the column.
\<close>

theorem fitting_tables_read_back:
  assumes "rectangular n items" and "totalWidth (minColumnWidths items) \<le> width"
    and "i < length items" and "j < n"
  shows "\<exists>text. formatTable K False width items columns headers = Some (Inr text) \<and>
    length text = length items * (totalWidth (minColumnWidths items) + 1) \<and>
    (let line = take (totalWidth (minColumnWidths items) + 1)
                  (drop (i * (totalWidth (minColumnWidths items) + 1)) text)
     in last line = CHR 0x0A \<and>
        take (minColumnWidths items ! j) (drop (cell_start (minColumnWidths items) j) line) =
          setw (minColumnWidths items ! j) (items ! i ! j))"
proof -
  let ?ws = "minColumnWidths items"
  let ?m = "totalWidth ?ws + 1"
  have len: "length ?ws = n" using assms(1,3) by (intro length_widths) auto
  have row: "length (items ! k) = n" if "k < length items" for k
    using assms(1) that by (simp add: rectangular_def)
  have cover: "\<forall>j < n. length (items ! k ! j) \<le> ?ws ! j" if "k < length items" for k
    using widths_cover [of "items ! k" items] row [OF that] that by simp
  have line: "fitting_line False headers ?ws k (items ! k) = line_text ?ws (items ! k) n @ newline"
    if "k < length items" for k using row [OF that] by (simp add: plain_line)
  have body: "length (line_text ?ws (items ! k) n) = totalWidth ?ws" if "k < length items" for k
    using length_line_text [OF cover [OF that]] len assms(4) by (auto simp: totalWidth_def)
  have m: "length (fitting_line False headers ?ws k (items ! k)) = ?m" if "k < length items" for k
    using line [OF that] body [OF that] by (simp add: newline_def)
  let ?text = "fitting_table False headers ?ws items"
  have "length ?text = length items * ?m"
    unfolding fitting_table_def using m by (intro length_lines) auto
  moreover have "take ?m (drop (i * ?m) ?text) = line_text ?ws (items ! i) n @ newline"
    unfolding fitting_table_def
    using lines_of_equal_length [of "length items" "\<lambda>i. fitting_line False headers ?ws i (items ! i)" ?m i]
      m assms(3) line by simp
  moreover have "take (?ws ! j) (drop (cell_start ?ws j) (line_text ?ws (items ! i) n @ newline)) =
      setw (?ws ! j) (items ! i ! j)"
  proof -
    have split: "line_text ?ws (items ! i) n @ newline = line_text ?ws (items ! i) j @
        cell_text ?ws (items ! i) j @ concat (map (cell_text ?ws (items ! i)) [Suc j..<n]) @ newline"
      using line_text_split [OF assms(4)] by simp
    have "length (line_text ?ws (items ! i) j) = sum_list (take j ?ws) + (j - 1)"
      using cover [OF assms(3)] len assms(4) by (intro length_line_text) auto
    moreover have "length (setw (?ws ! j) (items ! i ! j)) = ?ws ! j"
      using cover [OF assms(3)] assms(4) by (simp add: length_setw)
    ultimately show ?thesis unfolding split cell_start_def cell_text_def by (cases j) simp_all
  qed
  ultimately show ?thesis
    using assms(2) by (intro exI [of _ ?text]) (simp add: formatTable_def newline_def Let_def)
qed

theorem fitting_tables_read_back_witness:
  "\<forall>K columns. \<exists>text.
     formatTable K False 80 [[''Name'', ''ID''], [''phys'', ''group_1'']] columns True = Some (Inr text) \<and>
     take 7 (drop 5 (take 13 (drop 13 text))) = ''group_1''"
proof (intro allI)
  fix K :: "'w terminal" and columns
  show "\<exists>text.
     formatTable K False 80 [[''Name'', ''ID''], [''phys'', ''group_1'']] columns True = Some (Inr text) \<and>
     take 7 (drop 5 (take 13 (drop 13 text))) = ''group_1''"
    using fitting_tables_read_back [of 2 "[[''Name'', ''ID''], [''phys'', ''group_1'']]" 80 1 1 K columns True]
    by (auto simp: rectangular_def minColumnWidths_def widen_def totalWidth_def cell_start_def setw_def upt_rec Let_def numeral_eq_Suc)
qed

section \<open>Tables that do not fit\<close>

lemma break_loop_pos: "0 < len \<Longrightarrow> 0 < break_loop item start w len pos"
proof (induction item start w len pos rule: break_loop.induct)
  case (1 item start w len pos)
  then show ?case by (subst break_loop.simps) (auto simp: Let_def split: option.split)
qed

lemma len_to_print_pos: "0 < w \<Longrightarrow> 0 < len_to_print wrap item start w"
  by (simp add: len_to_print_def Let_def break_loop_pos)

text \<open>What is left to do in a column, and how a line lessens it.\<close>

definition weight :: "string list \<Rightarrow> nat \<Rightarrow> line_progress \<Rightarrow> nat" where
  "weight r j state =
     (if fst state ! j then 0 else Suc (length (r ! j) - fst (snd state) ! j))"

definition proper :: "string list \<Rightarrow> line_progress \<Rightarrow> bool" where
  "proper r state \<longleftrightarrow> length (fst state) = length r \<and> length (fst (snd state)) = length r"

lemma wrapped_cell_lessens:
  assumes "wrapped_cell ansi headers ws columns i r j state = Inr state'" and "proper r state"
    and "j < length r" and "0 < ws ! j \<or> r ! j = []"
  shows "proper r state' \<and> (\<forall>k. weight r k state' \<le> weight r k state) \<and>
    (0 < weight r j state \<longrightarrow> weight r j state' < weight r j state)"
proof -
  obtain finished parts os where state: "state = (finished, parts, os)" by (cases state)
  let ?len = "len_to_print (allowWrap (columns ! j)) (r ! j) (parts ! j) (ws ! j)"
  have sizes: "length finished = length r" "length parts = length r"
    using assms(2) by (simp_all add: proper_def state)
  have positive: "0 < ?len \<or> length (r ! j) \<le> parts ! j + ?len" using assms(4) len_to_print_pos by auto
  have "fst state' = finished \<and> fst (snd state') = parts \<and> finished ! j \<or>
      fst state' = finished[j := True] \<and> fst (snd state') = parts \<or>
      fst state' = finished \<and> fst (snd state') = parts[j := parts ! j + ?len] \<and>
        parts ! j + ?len < length (r ! j)"
  proof (cases "finished ! j \<and> \<not> list_all id (drop j finished)")
    case True
    then have "fst state' = finished" "fst (snd state') = parts"
      using assms(1) by (auto simp: wrapped_cell_def state Let_def)
    with True show ?thesis by simp
  next
    case go_on: False
    note run = assms(1) [unfolded wrapped_cell_def state prod.case Let_def if_not_P [OF go_on]]
    have "j < length columns" using run by (cases "j < length columns") simp_all
    then show ?thesis using run by (cases "length (r ! j) \<le> parts ! j + ?len") auto
  qed
  then show ?thesis
    using positive assms(3) sizes by (elim disjE) (auto simp: state proper_def weight_def nth_list_update)
qed

lemma wrapped_cells_lessen:
  assumes "foldE (wrapped_cell ansi headers ws columns i r) js state = Inr state'" and "proper r state"
    and "\<forall>j \<in> set js. j < length r \<and> (0 < ws ! j \<or> r ! j = [])"
  shows "proper r state' \<and> (\<forall>k. weight r k state' \<le> weight r k state) \<and>
    (\<forall>j \<in> set js. 0 < weight r j state \<longrightarrow> weight r j state' < weight r j state)"
  using assms
proof (induction js arbitrary: state)
  case (Cons j js)
  then obtain state1 where first: "wrapped_cell ansi headers ws columns i r j state = Inr state1"
    and rest: "foldE (wrapped_cell ansi headers ws columns i r) js state1 = Inr state'"
    by (auto simp: bindE_Inr_iff)
  have one: "proper r state1" "\<forall>k. weight r k state1 \<le> weight r k state"
    "0 < weight r j state \<longrightarrow> weight r j state1 < weight r j state"
    using wrapped_cell_lessens [OF first Cons.prems(2)] Cons.prems(3) by auto
  have more: "proper r state'" "\<forall>k. weight r k state' \<le> weight r k state1"
    "\<forall>k \<in> set js. 0 < weight r k state1 \<longrightarrow> weight r k state' < weight r k state1"
    using Cons.IH [OF rest one(1)] Cons.prems(3) by auto
  have "weight r k state' < weight r k state" if "k \<in> set (j # js)" "0 < weight r k state" for k
  proof (cases "k = j")
    case True
    then show ?thesis using one(3) more(2) that(2) le_less_trans by blast
  next
    case False
    then have "k \<in> set js" using that(1) by simp
    then show ?thesis
      using more(2,3) one(2) that(2) by (metis gr0I le_less_trans le_zero_eq less_le_trans)
  qed
  then show ?case using one(2) more(1,2) le_trans by blast
qed simp

definition unfinished :: "string list \<Rightarrow> line_progress \<Rightarrow> nat" where
  "unfinished r state = (\<Sum>j < length r. weight r j state)"

lemma wrapped_row_returns:
  assumes "proper r state" and "\<forall>j < length r. 0 < ws ! j \<or> r ! j = []"
  shows "wrapped_row ansi headers ws columns i r state \<noteq> None"
  using assms(1)
proof (induction "unfinished r state" arbitrary: state rule: less_induct)
  case less
  show ?case
  proof (cases "list_all id (fst state)")
    case open_cell: False
    then obtain j where j: "j < length r" "0 < weight r j state"
      using less.prems by (auto simp: list_all_length proper_def weight_def)
    show ?thesis
    proof (cases "wrapped_line ansi headers ws columns i r state")
      case (Inl e)
      then show ?thesis by (subst wrapped_row.simps) (simp add: open_cell)
    next
      case (Inr state')
      then obtain finished parts os where
        cells: "foldE (wrapped_cell ansi headers ws columns i r) [0..<length r] state = Inr (finished, parts, os)"
        and state': "state' = (finished, parts, os @ newline)"
        by (auto simp: wrapped_line_def bindE_Inr_iff)
      have same: "weight r k (finished, parts, os @ newline) = weight r k (finished, parts, os)" for k
        by (simp add: weight_def)
      have down: "proper r state'" "\<forall>k. weight r k state' \<le> weight r k state" "weight r j state' < weight r j state"
        using wrapped_cells_lessen [OF cells less.prems] assms(2) j
        by (auto simp: state' same) (simp add: proper_def)
      have "unfinished r state' < unfinished r state"
        unfolding unfinished_def using down j by (intro sum_strict_mono_ex1) auto
      from less.hyps [OF this down(1)] show ?thesis
        by (subst wrapped_row.simps) (simp add: open_cell Inr)
    qed
  qed (subst wrapped_row.simps, simp)
qed

lemma wrapped_rows_return:
  assumes "rectangular (length ws) items" and "\<forall>r \<in> set items. \<forall>j < length r. 0 < ws ! j \<or> r ! j = []"
  shows "wrapped_rows ansi headers ws columns i items os \<noteq> None"
  using assms
proof (induction items arbitrary: i os)
  case (Cons r items)
  have "wrapped_row ansi headers ws columns i r (replicate (length ws) False, replicate (length ws) 0, os) \<noteq> None"
    using Cons.prems by (intro wrapped_row_returns) (auto simp: proper_def rectangular_def)
  then show ?case using Cons by (auto simp: rectangular_def split: sum.split)
qed simp

lemma mapE_nth: "mapE f xs = Inr ys \<Longrightarrow> length ys = length xs \<and> (\<forall>i < length xs. f (xs ! i) = Inr (ys ! i))"
proof (induction xs arbitrary: ys)
  case (Cons x xs)
  then obtain y zs where "f x = Inr y" "mapE f xs = Inr zs" "ys = y # zs"
    by (auto simp: bindE_Inr_iff)
  with Cons.IH [of zs] show ?case by (auto simp: nth_Cons split: nat.split)
qed simp

lemma shrunk_widths_positive:
  assumes "shrunk_widths K width columns ws = Inr ws'" and "j < length ws"
  shows "length ws' = length ws \<and> (ws' ! j = ws ! j \<or> 0 < ws' ! j)"
proof (cases "wrappableWidth columns ws > 2")
  case True
  with assms(1) have "mapE (shrunk_width K width columns ws) [0..<length ws] = Inr ws'"
    by (simp add: shrunk_widths_def)
  from mapE_nth [OF this] assms(2) show ?thesis
    by (auto simp: shrunk_width_def Let_def split: if_splits dest!: spec [of _ j])
qed (use assms in \<open>simp add: shrunk_widths_def\<close>)

lemma formatTable_returns:
  assumes "rectangular n items"
  shows "formatTable K ansi width items columns headers \<noteq> None"
proof (cases "items = []")
  case False
  let ?ws = "minColumnWidths items"
  have len: "length ?ws = n" using assms False by (intro length_widths)
  have "wrapped_rows ansi headers ws' columns 0 items [] \<noteq> None"
    if shrunk: "shrunk_widths K width columns ?ws = Inr ws'" for ws'
  proof (cases "n = 0")
    case True
    then have "?ws = []" using len by simp
    then have "ws' = []" using shrunk by (simp add: shrunk_widths_def wrappableWidth_def)
    then show ?thesis using assms True by (intro wrapped_rows_return) (auto simp: rectangular_def)
  next
    case False
    have "length ws' = n" using shrunk_widths_positive [OF shrunk, of 0] len False by simp
    moreover have "0 < ws' ! j \<or> r ! j = []" if "r \<in> set items" "j < length r" for r j
      using shrunk_widths_positive [OF shrunk, of j] widths_cover [OF that] by (cases "r ! j") auto
    ultimately show ?thesis using assms by (intro wrapped_rows_return) auto
  qed
  then show ?thesis by (auto simp: formatTable_def Let_def split: sum.split)
qed (simp add: formatTable_def minColumnWidths_def totalWidth_def fitting_table_def)

section \<open>Output of every format\<close>

lemma data_rows_rectangular: "data_rows K columns jdata = Inr rows \<Longrightarrow> rectangular (length columns) rows"
proof (cases jdata)
  case (J_array xs)
  assume "data_rows K columns jdata = Inr rows"
  with J_array have "mapE (row_of K columns) xs = Inr rows" by simp
  from mapE_nth [OF this] show ?thesis
    by (auto simp: rectangular_def in_set_conv_nth row_of_def dest!: mapE_nth)
qed (auto simp: rectangular_def row_of_def bindE_Inr_iff dest!: mapE_nth)

text \<open>\<open>std::sort\<close> puts the rows that it is given into another order.\<close>

definition sorting :: "'w terminal \<Rightarrow> bool" where
  "sorting K \<longleftrightarrow> (\<forall>i rows. set (k_sort K i rows) = set rows)"

lemma jsonListToTable_returns:
  assumes "sorting K"
  shows "jsonListToTable K jdata columns headers s \<noteq> None"
proof -
  have "rectangular (length columns) items" if table: "table_of K order columns headers jdata = Inr items" for order items
  proof -
    from table obtain rows where "rectangular (length columns) rows"
      and "items = (if headers then [map label columns] else []) @
             (case sort_index order columns of None \<Rightarrow> rows | Some i \<Rightarrow> k_sort K i rows)"
      by (auto simp: table_of_def bindE_Inr_iff split: if_splits dest: data_rows_rectangular)
    with assms show ?thesis by (auto simp: rectangular_def sorting_def split: option.splits)
  qed
  then have "formatTable K ansi width items columns headers \<noteq> None"
    if "table_of K order columns headers jdata = Inr items" for ansi width order items
    using that formatTable_returns by blast
  then show ?thesis
    by (cases "table_of K (orderBy s) columns headers jdata") (simp_all add: jsonListToTable_def)
qed

lemma bindP_returns: "m s \<noteq> None \<Longrightarrow> (\<And>a s'. m s = Some (Inr a, s') \<Longrightarrow> f a s' \<noteq> None) \<Longrightarrow> bindP m f s \<noteq> None"
  by (auto simp: bindP_def split: option.split sum.split)

lemma whole_returns: "whole m s \<noteq> None"
  by (simp add: whole_def)

lemma if_returns: "(b \<Longrightarrow> x s \<noteq> None) \<Longrightarrow> (\<not> b \<Longrightarrow> y s \<noteq> None) \<Longrightarrow> (if b then x else y) s \<noteq> None"
  by simp

lemma option_returns:
  "x s \<noteq> None \<Longrightarrow> (\<And>a. f a s \<noteq> None) \<Longrightarrow> (case y of None \<Rightarrow> x | Some a \<Rightarrow> f a) s \<noteq> None"
  by (cases y) simp_all

lemma prod_returns: "(\<And>a b. f a b s \<noteq> None) \<Longrightarrow> (case x of (a, b) \<Rightarrow> f a b) s \<noteq> None"
  by (cases x) simp



end
