(* ===== verification/ClientConsent.thy ===== *)
theory ClientConsent
  imports ClientRuns
begin

text \<open>
  The client does not delete anything that it was not told to: a command that has to ask before it
  deletes sends no more requests to delete than its user has agreed to.
\<close>

section \<open>Agreement\<close>

type_synonym sent_request = "http_method \<times> string \<times> string"

definition is_deletion :: "sent_request \<Rightarrow> bool" where
  "is_deletion r \<longleftrightarrow> fst r = Delete"

text \<open>Since the state \<open>s0\<close> there was agreement to all deletions that were asked for, and to \<open>k\<close> more.\<close>

definition consent :: "('w, 'z) client_scheme \<Rightarrow> nat \<Rightarrow> ('w, 'z) client_scheme \<Rightarrow> bool" where
  "consent s0 k s \<longleftrightarrow> apiVersion s = apiVersion s0 \<and>
     (\<exists>requests answers. sent s = sent s0 @ requests \<and> heard s = heard s0 @ answers \<and>
        length (filter is_deletion requests) + k \<le> length (filter yes answers))"

lemma consent_start: "consent s 0 s"
  by (simp add: consent_def)

lemma consent_less: "consent s0 (Suc k) s \<Longrightarrow> consent s0 k s"
  unfolding consent_def by (elim conjE exE) (intro conjI exI, assumption+, simp)

lemma consent_hears: "consent s0 k s \<Longrightarrow> consent s0 (if yes answer then Suc k else k) (s\<lparr>heard := heard s @ [answer]\<rparr>)"
  unfolding consent_def
  by (elim conjE exE, intro conjI exI [of _ "_ @ [answer]"] exI) (assumption | simp)+

lemma consent_sends:
  "consent s0 (if m = Delete then Suc k else k) s \<Longrightarrow> consent s0 k (s\<lparr>sent := sent s @ [(m, url, body)]\<rparr>)"
  unfolding consent_def
  by (elim conjE exE, intro conjI exI [of _ "_ @ [(m, url, body)]"] exI) (assumption | force simp: is_deletion_def)+

interpretation agreed: client_run "consent s0 k" "apiVersion s0" "\<lambda>m url. m \<noteq> Delete" for s0 k
proof
  fix s answer assume "consent s0 k s"
  then show "consent s0 k (s\<lparr>heard := heard s @ [answer]\<rparr>)"
    using consent_hears [of s0 k s answer] consent_less by (cases "yes answer") auto
next
  fix s m url body assume "consent s0 k s" "m \<noteq> Delete"
  then show "consent s0 k (s\<lparr>sent := sent s @ [(m, url, body)]\<rparr>)" using consent_sends [of s0 m k s] by simp
qed (simp_all add: consent_def)

section \<open>Questions and deletions\<close>

lemma ask_agreement:
  "triple (consent s0 k) (ask K text)
     (\<lambda>answer. consent s0 (if yes answer then Suc k else k)) (consent s0 k)"
proof (rule tripleI)
  fix s answer s' assume I: "consent s0 k s" and run: "ask K text s = (Inr answer, s')"
  then have "consent s0 k (s\<lparr>printed := printed s @ text, world := world s'\<rparr>)"
    by (simp add: agreed.print agreed.outside)
  from consent_hears [OF this, of answer] run
  show "consent s0 (if yes answer then Suc k else k) s'"
    by (auto simp: ask_def say_def listen_def modify_def bindM_def callM_def call_def ret_def split: prod.splits)
qed (erule (1) keepsD [OF agreed.keeps_ask])

text \<open>What may come before: an operation that changes nothing about the agreement.\<close>

lemma then_tripleP:
  "keepsP I m \<Longrightarrow> (\<And>a. tripleP I (f a) Q I) \<Longrightarrow> tripleP I (bindP m f) Q I"
  by (rule tripleP_bind) (simp_all add: keepsP_tripleP)

lemma consent_keepsP:
  "keepsP (consent s0 (Suc k)) m \<Longrightarrow> (\<And>a. tripleP (consent s0 (Suc k)) (f a) Q (consent s0 k)) \<Longrightarrow>
     tripleP (consent s0 (Suc k)) (bindP m f) Q (consent s0 k)"
  by (rule tripleP_bind [OF tripleP_keeps]) (auto intro: consent_less)

lemmas first_url = then_tripleP [OF keepsP_whole [OF agreed.keeps_makeURL]]
lemmas first_get = then_tripleP [OF keepsP_whole [OF agreed.keeps_httpGet]]
lemmas first_check = then_tripleP [OF keepsP_whole [OF keeps_checked_value]]
lemmas first_report = then_tripleP [OF keepsP_whole [OF agreed.keeps_complain]] then_tripleP [OF agreed.keepsP_showError]

lemma confirm_agreement:
  "tripleP (consent s0 k) (confirm n K False path missing aborted question)
     (\<lambda>_. consent s0 (Suc k)) (consent s0 k)"
proof -
  have asked: "tripleP (consent s0 k) (bindP (whole (ask K q)) (\<lambda>answer.
      if yes answer then whole (ret ()) else whole (throw aborted))) (\<lambda>_. consent s0 (Suc k)) (consent s0 k)" for q
    by (rule tripleP_bind [OF tripleP_whole [OF ask_agreement]])
      (auto intro: tripleP_whole triple_ret triple_throw)
  show ?thesis
    unfolding confirm_def if_False
    by (intro first_url first_get first_check first_report asked tripleP_if tripleP_whole triple_throw) simp_all
qed

lemma httpDelete_agreed:
  "triple (consent s0 (Suc k)) (httpDelete K url) (\<lambda>_. consent s0 k) (consent s0 k)"
  unfolding httpDelete_def request_to_def
proof (rule triple_bind)
  show "triple (consent s0 (Suc k)) (modify (\<lambda>s. s\<lparr>sent := sent s @ [(Delete, url, [])]\<rparr>)) (\<lambda>_. consent s0 k) (consent s0 k)"
    using consent_sends [of s0 Delete k] by (simp add: triple_def modify_def)
qed (use agreed.keeps_callE [of s0 k] in \<open>simp add: keeps_def\<close>)

lemma deletion_agreed:
  "triple (consent s0 (Suc k)) (deletion_request K path force) (\<lambda>_. consent s0 k) (consent s0 k)"
  unfolding deletion_request_def
  by (rule triple_bind [where R = "\<lambda>_. consent s0 (Suc k)"],
      rule triple_weaken [OF triple_of_keeps [OF agreed.keeps_makeURL]], assumption+)
    (auto intro: consent_less httpDelete_agreed)

lemma changing_agreed:
  assumes "triple (consent s0 (Suc k)) req (\<lambda>_. consent s0 k) (consent s0 k)"
  shows "tripleP (consent s0 (Suc k)) (changing n K req message problem) (\<lambda>_. consent s0 k) (consent s0 k)"
  unfolding changing_def
  by (intro tripleP_bind [OF tripleP_whole [OF assms]] tripleP_keeps keeps) simp

lemma confirmed_deletion:
  "keepsP (consent s0 k) (bindP (confirm n K False path missing aborted question) (\<lambda>_.
     changing n' K' (deletion_request K'' path' force) message problem))"
  unfolding keepsP_tripleP
  by (intro tripleP_bind [OF confirm_agreement] changing_agreed deletion_agreed)

section \<open>Commands\<close>

lemma groups_agreed: "keepsP (consent s0 k) (deleteGroup n K groupName False)"
  unfolding deleteGroup_def by (rule confirmed_deletion)

lemma clusters_agreed: "keepsP (consent s0 k) (deleteCluster n K clusterName False force)"
  unfolding deleteCluster_def by (rule confirmed_deletion)

lemma secrets_agreed: "keepsP (consent s0 k) (deleteSecret n K secretID False False)"
  unfolding deleteSecret_def disj_not1 simp_thms by (intro keeps confirmed_deletion)

lemma volumes_agreed: "keepsP (consent s0 k) (deleteVolume n K volumeID False False)"
  unfolding deleteVolume_def simp_thms by (intro keeps confirmed_deletion)

lemma users_agreed: "keepsP (consent s0 k) (removeUser_command n K ident)"
proof -
  have asked: "tripleP (consent s0 k) (bindP (whole (ask K q)) (\<lambda>answer.
      if \<not> yes answer then whole (ret ())
      else bindP (whole (makeURL K path)) (\<lambda>url.
        bindP (whole (say deleting)) (\<lambda>_. changing n K (httpDelete K url) message problem))))
      (\<lambda>_. consent s0 k) (consent s0 k)"
    for q path deleting message problem
  proof (rule tripleP_bind [OF tripleP_whole [OF ask_agreement]], goal_cases)
    case (1 answer)
    show ?case
    proof (cases "yes answer")
      case True
      then show ?thesis
        by (simp, intro consent_keepsP changing_agreed httpDelete_agreed keeps)
    qed (simp add: tripleP_whole triple_ret)
  qed
  show ?thesis
    unfolding removeUser_command_def
    by (intro keepsP_if keepsP_whole [OF agreed.keeps_complain] agreed.keepsP_getting)
      (simp_all add: keepsP_tripleP first_check asked)
qed

lemma confirm_instance_agreement:
  "tripleP (consent s0 k) (confirm_instance n K False instanceID)
     (\<lambda>there. consent s0 (if there then Suc k else k)) (consent s0 k)"
proof -
  have asked: "triple (consent s0 k) (bindM (ask K q) (\<lambda>answer.
      if yes answer then ret True else throw aborted))
      (\<lambda>there. consent s0 (if there then Suc k else k)) (consent s0 k)" for q aborted
    by (rule triple_bind [OF ask_agreement]) (auto intro: triple_ret triple_throw)
  have checked: "triple (consent s0 k) (bindM (checkM c) f) Q (consent s0 k)"
    if "\<And>a. triple (consent s0 k) (f a) Q (consent s0 k)" for c f and Q :: "bool \<Rightarrow> _"
    by (rule triple_bind [OF triple_of_keeps [OF keeps_checked_value]]) (rule that)
  show ?thesis
    unfolding confirm_instance_def if_False
    by (intro first_url first_get first_report tripleP_if tripleP_Let tripleP_whole triple_throw checked asked)
      (simp_all add: triple_ret)
qed

lemma instances_agreed: "keepsP (consent s0 k) (deleteInstance n K False False instanceID)"
proof (induction n arbitrary: instanceID k)
  case (Suc n)
  have missing: "tripleP (consent s0 k) (instance_missing n K ident (deleteInstance n K False False))
      (\<lambda>_. consent s0 k) (consent s0 k)" for k ident
    unfolding keepsP_tripleP [symmetric] by (intro agreed.keepsP_instance_missing Suc) simp
  have no_id: "tripleP (consent s0 k) (no_instance_ID n K verb ident (deleteInstance n K False False))
      (\<lambda>_. consent s0 k) (consent s0 k)" for k verb ident
    unfolding keepsP_tripleP [symmetric] by (intro agreed.keepsP_no_instance_ID Suc) simp
  have deleted: "tripleP (consent s0 (Suc k)) (bindP (whole (deletion_request K path False)) (\<lambda>rsp.
      if fst rsp = 200 then whole (say success)
      else if fst rsp = 404 then instance_missing n K ident (deleteInstance n K False False)
      else reported n K problem (snd rsp))) (\<lambda>_. consent s0 k) (consent s0 k)" for k path success ident problem
    by (rule tripleP_bind [OF tripleP_whole [OF deletion_agreed]])
      (intro tripleP_if missing, simp_all add: keepsP_tripleP [symmetric] keepsP_whole agreed.keeps_say agreed.keepsP_reported)
  show ?case
    by (simp, intro impI conjI)
      (auto simp: keepsP_tripleP intro!: tripleP_bind [OF confirm_instance_agreement] missing deleted
         no_id)
qed (simp add: keepsP_None)

section \<open>The promise\<close>

text \<open>The commands that have to ask first, without the option to assume that the answer is yes.\<close>

inductive asks_first :: "nat \<Rightarrow> 'w terminal \<Rightarrow> ('w, 'z, unit) command \<Rightarrow> bool" for n K where
  group: "asks_first n K (deleteGroup n K groupName False)"
| cluster: "asks_first n K (deleteCluster n K clusterName False force)"
| "instance": "asks_first n K (deleteInstance n K False False instanceID)"
| secret: "asks_first n K (deleteSecret n K secretID False False)"
| volume: "asks_first n K (deleteVolume n K volumeID False False)"
| user: "asks_first n K (removeUser_command n K ident)"

lemma asks_first_keeps: "asks_first n K cmd \<Longrightarrow> keepsP (consent s0 k) cmd"
  by (induction rule: asks_first.induct)
    (rule groups_agreed clusters_agreed instances_agreed secrets_agreed volumes_agreed users_agreed)+



end
