(* ===== verification/ClientRequests.thy ===== *)
theory ClientRequests
  imports ClientRuns Base64Correct SecretCommands
begin

text \<open>
  The client speaks to the commands of the server: what a command of the client requests is routed,
  by the server, to the command of the server that it means.  And what it sends for a
  new secret is what the server accepts.
\<close>

section \<open>Paths\<close>

text \<open>A name that is a segment of a path.\<close>

definition segment :: "string \<Rightarrow> bool" where
  "segment t \<longleftrightarrow> t \<noteq> [] \<and> CHR ''/'' \<notin> set t \<and> CHR ''?'' \<notin> set t"

lemma split_at_none: "d \<notin> set t \<Longrightarrow> split_at d t = [t]"
  by (induction t) auto

lemma split_at_append: "d \<notin> set t \<Longrightarrow> split_at d (t @ d # rest) = t # split_at d rest"
  by (induction t) auto

lemma segment_split:
  "segment t \<Longrightarrow> split_at CHR ''/'' t = [t]"
  "segment t \<Longrightarrow> split_at CHR ''/'' (t @ CHR ''/'' # rest) = t # split_at CHR ''/'' rest"
  by (simp_all add: segment_def split_at_none split_at_append)

lemma segment_simps: "segment t \<Longrightarrow> t \<noteq> []" "segment t \<Longrightarrow> CHR ''?'' \<notin> set t"
  by (simp_all add: segment_def)

lemma base64Chars_segment: "set base64Chars \<inter> {CHR ''/'', CHR ''?''} = {}"
  by code_simp

lemma verified_segment:
  assumes "verify_id n start i" and "segment start"
  shows "segment i"
proof -
  have "i = start @ drop (length start) i"
    using assms(1) by (metis append_take_drop_id begins_with_def verify_id_def)
  moreover have "CHR ''/'' \<notin> set (drop (length start) i)" "CHR ''?'' \<notin> set (drop (length start) i)"
    using assms(1) base64Chars_segment by (auto simp: verify_id_def list_all_iff)
  ultimately show ?thesis using assms(2) by (metis Un_iff append_is_Nil_conv segment_def set_append)
qed

lemma ID_segments:
  "verifyUserID i \<Longrightarrow> segment i" "verifyInstanceID i \<Longrightarrow> segment i" "verifySecretID i \<Longrightarrow> segment i"
  "verifyVolumeID i \<Longrightarrow> segment i"
  by (auto simp: verifyUserID_def verifyInstanceID_def verifySecretID_def verifyVolumeID_def segment_def
      elim!: verified_segment [THEN segment_def [THEN iffD1]])

text \<open>Where the server takes a request for a path of its interface.\<close>

definition goes_to :: "http_method \<Rightarrow> string \<Rightarrow> endpoint \<Rightarrow> bool" where
  "goes_to m path ep \<longleftrightarrow> CHR ''?'' \<notin> set path \<and> route m (''/v1alpha3/'' @ path) = Some ep"

lemmas going = goes_to_def route_def routes_def api_def arg_def segment_split segment_simps

named_theorems goes \<open>where requests go\<close>

lemma goes_plain [goes]:
  "goes_to Get ''groups'' ListGroups" "goes_to Post ''groups'' CreateGroup"
  "goes_to Get ''clusters'' ListClusters" "goes_to Post ''multiplex'' Multiplex"
  "goes_to Get ''apps'' ListApplications" "goes_to Post ''apps/ad-hoc'' InstallAdHocApplication"
  "goes_to Get ''instances'' ListApplicationInstances"
  "goes_to Get ''users'' ListUsers" "goes_to Post ''users'' CreateUser" "goes_to Get ''whoami'' WhoAreThey"
  "goes_to Get ''secrets'' ListSecrets" "goes_to Post ''secrets'' CreateSecret"
  "goes_to Get ''volumes'' ListVolumeClaims" "goes_to Post ''volumes'' CreateVolumeClaim"
  by (simp_all add: going)

lemma goes_groups [goes]:
  assumes "segment g"
  shows "goes_to Get (''groups/'' @ g) (GetGroupInfo g)" "goes_to Put (''groups/'' @ g) (UpdateGroup g)"
    "goes_to Delete (''groups/'' @ g) (DeleteGroup g)"
  using assms by (simp_all add: going)

lemma goes_clusters [goes]:
  assumes "segment c"
  shows "goes_to Get (''clusters/'' @ c) (GetClusterInfo c)" "goes_to Delete (''clusters/'' @ c) (DeleteCluster c)"
    "goes_to Get (''clusters/'' @ c @ ''/ping'') (PingCluster c)"
    "goes_to Get (''clusters/'' @ c @ ''/allowed_groups'') (ListClusterAllowedgroups c)"
  using assms by (simp_all add: going)

lemma goes_access [goes]:
  assumes "segment c" and "segment g"
  shows "goes_to Put (access_path c g) (GrantGroupClusterAccess c g)"
    "goes_to Delete (access_path c g) (RevokeGroupClusterAccess c g)"
    "goes_to Get (access_path c g @ ''/applications'') (ListClusterGroupAllowedApplications c g)"
  using assms by (simp_all add: going access_path_def)

lemma goes_allowed [goes]:
  assumes "segment c" and "segment g" and "segment a"
  shows "goes_to Put (access_path c g @ ''/applications/'' @ a) (AllowGroupUseOfApplication c g a)"
    "goes_to Delete (access_path c g @ ''/applications/'' @ a) (DenyGroupUseOfApplication c g a)"
  using assms by (simp_all add: going access_path_def)

lemma goes_apps [goes]:
  assumes "segment a"
  shows "goes_to Get (''apps/'' @ a) (FetchApplicationConfig a)"
    "goes_to Get (''apps/'' @ a @ ''/versions'') (FetchApplicationVersions a)"
    "goes_to Get (''apps/'' @ a @ ''/info'') (FetchApplicationDocumentation a)"
    "a \<noteq> ''ad-hoc'' \<Longrightarrow> goes_to Post (''apps/'' @ a) (InstallApplication a)"
  using assms by (simp_all add: going)

lemma goes_instances [goes]:
  assumes "verifyInstanceID i"
  shows "goes_to Get (''instances/'' @ i) (FetchApplicationInstanceInfo i)"
    "goes_to Delete (''instances/'' @ i) (DeleteApplicationInstance i)"
    "goes_to Put (''instances/'' @ i @ ''/restart'') (RestartApplicationInstance i)"
    "goes_to Put (''instances/'' @ i @ ''/update'') (UpdateApplicationInstance i)"
    "goes_to Get (''instances/'' @ i @ ''/logs'') (GetApplicationInstanceLogs i)"
    "goes_to Get (''instances/'' @ i @ ''/scale'') (GetApplicationInstanceScale i)"
    "goes_to Put (''instances/'' @ i @ ''/scale'') (ScaleApplicationInstance i)"
  using ID_segments(2) [OF assms] by (simp_all add: going)

lemma goes_users [goes]:
  assumes "verifyUserID i"
  shows "goes_to Get (''users/'' @ i) (GetUserInfo i)" "goes_to Delete (''users/'' @ i) (DeleteUser i)"
  using ID_segments(1) [OF assms] by (simp_all add: going)

lemma goes_members [goes]:
  assumes "verifyUserID i" and "segment g"
  shows "goes_to Put (''users/'' @ i @ ''/groups/'' @ g) (AddUserToGroup i g)"
    "goes_to Delete (''users/'' @ i @ ''/groups/'' @ g) (RemoveUserFromGroup i g)"
  using ID_segments(1) [OF assms(1)] assms(2) by (simp_all add: going)

lemma goes_secrets [goes]:
  assumes "verifySecretID i"
  shows "goes_to Get (''secrets/'' @ i) (GetSecret i)" "goes_to Delete (''secrets/'' @ i) (DeleteSecret i)"
  using ID_segments(3) [OF assms] by (simp_all add: going)

lemma goes_volumes [goes]:
  assumes "verifyVolumeID i"
  shows "goes_to Get (''volumes/'' @ i) (FetchVolumeClaimInfo i)" "goes_to Delete (''volumes/'' @ i) (DeleteVolumeClaim i)"
  using ID_segments(4) [OF assms] by (simp_all add: going)

section \<open>Requests\<close>

text \<open>
  What of an address is the path that the server sees: all behind a checked address of the server, and
  before the question mark.
\<close>

definition reaches :: "endpoint set \<Rightarrow> http_method \<Rightarrow> string \<Rightarrow> bool" where
  "reaches eps m url \<longleftrightarrow>
     (\<exists>endpoint suffix. check_endpoint endpoint = Inr endpoint \<and> url = endpoint @ suffix \<and>
        (\<exists>ep. route m (takeWhile (\<lambda>c. c \<noteq> CHR ''?'') suffix) = Some ep \<and> (ep \<in> eps \<or> ep = ServerVersionInfo)))"

lemma reachesI:
  "check_endpoint endpoint = Inr endpoint \<Longrightarrow> route m (takeWhile (\<lambda>c. c \<noteq> CHR ''?'') suffix) = Some ep \<Longrightarrow>
     ep \<in> eps \<Longrightarrow> reaches eps m (endpoint @ suffix)"
  by (auto simp: reaches_def)

lemma good_reaches_params:
  assumes "good_url ''v1alpha3'' path url" and "\<exists>ep \<in> eps. goes_to m path ep"
  shows "reaches eps m (url @ params)"
proof -
  obtain endpoint t where e: "check_endpoint endpoint = Inr endpoint"
    and url: "url @ params = endpoint @ (''/v1alpha3/'' @ path @ ''?token='' @ t @ params)"
    using assms(1) by (auto simp: good_url_def url_of_def)
  obtain ep where ep: "ep \<in> eps" "goes_to m path ep" using assms(2) by blast
  then have "takeWhile (\<lambda>c. c \<noteq> CHR ''?'') (''/v1alpha3/'' @ path @ ''?token='' @ t @ params) = ''/v1alpha3/'' @ path"
    by (auto simp: goes_to_def takeWhile_append)
  then show ?thesis
    unfolding url using ep by (intro reachesI [OF e]) (simp_all add: goes_to_def)
qed

lemmas good_reaches = good_reaches_params good_reaches_params [where params = "[]", simplified append_Nil2]

lemma version_reaches: "version_url url \<Longrightarrow> reaches eps Get url"
proof -
  have "route Get ''/version'' = Some ServerVersionInfo" by (simp add: route_def routes_def api_def)
  then show "version_url url \<Longrightarrow> reaches eps Get url" by (fastforce simp: version_url_def reaches_def)
qed

definition asked :: "('w, 'z) client_scheme \<Rightarrow> endpoint set \<Rightarrow> ('w, 'z) client_scheme \<Rightarrow> bool" where
  "asked s0 eps s \<longleftrightarrow> apiVersion s = ''v1alpha3'' \<and>
     (\<exists>requests. sent s = sent s0 @ requests \<and> list_all (\<lambda>(m, url, body). reaches eps m url) requests)"

lemma asked_start: "apiVersion s = ''v1alpha3'' \<Longrightarrow> asked s eps s"
  by (simp add: asked_def)

interpretation asking: client_run "asked s0 eps" "''v1alpha3''" "reaches eps" for s0 eps
proof
  fix s m url body assume "asked s0 eps s" "reaches eps m url"
  then show "asked s0 eps (s\<lparr>sent := sent s @ [(m, url, body)]\<rparr>)" by (auto simp: asked_def)
qed (auto simp: asked_def version_reaches)

section \<open>Commands\<close>

lemmas requesting = asking.with_url asking.requests asking.keepsP_getting asking.keepsP_changing asking.keepsP_confirm
  asking.keeps_deletion_request asking.keepsP_instance_missing asking.keepsP_no_instance_ID good_reaches

text \<open>A command on an instance may be repeated on another one, which the user picks from a list.\<close>

definition on_instances :: "(string \<Rightarrow> endpoint set) \<Rightarrow> endpoint set" where
  "on_instances f = {ep. ep = ListApplicationInstances \<or> (\<exists>i. verifyInstanceID i \<and> ep \<in> f i)}"

lemmas instance_cases = on_instances_def mem_Collect_eq

lemma list_reached: "good_url ''v1alpha3'' ''instances'' url \<Longrightarrow> reaches (on_instances f) Get url"
  by (rule good_reaches) (auto simp: on_instances_def intro: goes)

lemma retried_asked:
  assumes "\<And>i. keepsP (asked s0 (on_instances f)) (again i)"
  shows "keepsP (asked s0 (on_instances f)) (instance_missing n K i again)"
    and "keepsP (asked s0 (on_instances f)) (no_instance_ID n K verb i again)"
  by (intro asking.keepsP_instance_missing asking.keepsP_no_instance_ID list_reached assms; assumption)+

lemma restart_asked: "keepsP (asked s0 (on_instances (\<lambda>i. {RestartApplicationInstance i}))) (restartInstance n K i)"
proof (induction n arbitrary: i)
  case (Suc n)
  show ?case
    unfolding restartInstance.simps
    by (intro retried_asked Suc requesting keeps; (unfold instance_cases, blast intro: goes_instances)?)
qed (simp add: keepsP_None)

lemma update_asked: "keepsP (asked s0 (on_instances (\<lambda>i. {UpdateApplicationInstance i}))) (updateInstance n K conf chart i)"
proof (induction n arbitrary: i)
  case (Suc n)
  show ?case
    unfolding updateInstance.simps
    by (intro retried_asked Suc requesting keeps; (unfold instance_cases, blast intro: goes_instances)?)
qed (simp add: keepsP_None)

lemma delete_asked: "keepsP (asked s0 (on_instances (\<lambda>i. {FetchApplicationInstanceInfo i, DeleteApplicationInstance i}))) (deleteInstance n K sure force i)"
proof (induction n arbitrary: i)
  case (Suc n)
  show ?case
    unfolding deleteInstance.simps confirm_instance_def
    by (intro retried_asked Suc requesting keeps; (unfold instance_cases, blast intro: goes_instances)?)
qed (simp add: keepsP_None)

lemma logs_asked: "keepsP (asked s0 (on_instances (\<lambda>i. {GetApplicationInstanceLogs i}))) (fetchInstanceLogs n K maximum container previous i)"
proof (induction n arbitrary: i)
  case (Suc n)
  show ?case
    unfolding fetchInstanceLogs.simps
    by (intro retried_asked Suc requesting keeps; (unfold instance_cases, blast intro: goes_instances)?)
qed (simp add: keepsP_None)

lemma scale_asked: "keepsP (asked s0 (on_instances (\<lambda>i. {GetApplicationInstanceScale i, ScaleApplicationInstance i}))) (scaleInstance n K replicas deployment i)"
proof (induction n arbitrary: i)
  case (Suc n)
  show ?case
    unfolding scaleInstance.simps Let_def
    by (intro retried_asked Suc requesting keeps; (unfold instance_cases, blast intro: goes_instances)?)
qed (simp add: keepsP_None)

lemma info_asked: "keepsP (asked s0 (on_instances (\<lambda>i. {FetchApplicationInstanceInfo i}))) (getInstanceInfo n K configuration i)"
proof (induction n arbitrary: i)
  case (Suc n)
  show ?case
    unfolding getInstanceInfo.simps
    by (intro retried_asked Suc requesting keeps; (unfold instance_cases, blast intro: goes_instances)?)
qed (simp add: keepsP_None)

text \<open>
  The commands of the client, and the commands of the server that they mean.  Names are segments
  of a path; identifiers are checked by the client itself.  The three commands that put an identifier
  the server told them into a path (\<open>listUserGroups\<close>, \<open>updateUser\<close>, \<open>updateUserToken\<close>) are left out.
\<close>

inductive meant :: "nat \<Rightarrow> 'w terminal \<Rightarrow> ('w, 'z, unit) command \<Rightarrow> endpoint set \<Rightarrow> bool" for n K where
  "meant n K (createGroup n K g science) {CreateGroup}"
| "segment g \<Longrightarrow> meant n K (updateGroup_command n K g email phone science description) {UpdateGroup g}"
| "segment g \<Longrightarrow> meant n K (deleteGroup n K g sure) {GetGroupInfo g, DeleteGroup g}"
| "segment g \<Longrightarrow> meant n K (getGroupInfo n K g) {GetGroupInfo g}"
| "meant n K (listGroups_command n K mine) {ListGroups}"
| "meant n K (listClusters_command n K g) {ListClusters}"
| "meant n K (listClustersAccessibleToGroup n K g) {ListClusters, Multiplex}"
| "segment c \<Longrightarrow> meant n K (getClusterInfo n K c all_nodes) {GetClusterInfo c}"
| "segment c \<Longrightarrow> meant n K (deleteCluster n K c sure force) {GetClusterInfo c, DeleteCluster c}"
| "segment c \<Longrightarrow> segment g \<Longrightarrow> meant n K (grantGroupClusterAccess n K c g) {GrantGroupClusterAccess c g}"
| "segment c \<Longrightarrow> segment g \<Longrightarrow> meant n K (revokeGroupClusterAccess n K c g) {RevokeGroupClusterAccess c g}"
| "segment c \<Longrightarrow> meant n K (listGroupWithAccessToCluster n K c) {ListClusterAllowedgroups c}"
| "segment c \<Longrightarrow> segment g \<Longrightarrow>
     meant n K (listAllowedApplications n K c g) {ListClusterGroupAllowedApplications c g}"
| "segment c \<Longrightarrow> segment g \<Longrightarrow> segment a \<Longrightarrow>
     meant n K (allowGroupUseOfApplication n K c g a) {AllowGroupUseOfApplication c g a}"
| "segment c \<Longrightarrow> segment g \<Longrightarrow> segment a \<Longrightarrow>
     meant n K (denyGroupUseOfApplication_command n K c g a) {DenyGroupUseOfApplication c g a}"
| "segment c \<Longrightarrow> meant n K (pingCluster n K c) {PingCluster c}"
| "meant n K (listApplications_command n K dev test) {ListApplications}"
| "segment a \<Longrightarrow> meant n K (getApplicationConf n K a chart out dev test) {FetchApplicationConfig a}"
| "segment a \<Longrightarrow> meant n K (getApplicationVersions n K a out dev test) {FetchApplicationVersions a}"
| "segment a \<Longrightarrow> meant n K (getApplicationDocs n K a chart out dev test) {FetchApplicationDocumentation a}"
| "segment a \<Longrightarrow> a \<noteq> ''ad-hoc'' \<Longrightarrow>
     meant n K (installApplication n K a c g conf chart False dev test) {InstallApplication a}"
| "meant n K (installApplication n K a c g conf chart True dev test) {InstallAdHocApplication}"
| "meant n K (listInstances n K g c) {ListApplicationInstances}"
| "meant n K (restartInstance n K i) (on_instances (\<lambda>i. {RestartApplicationInstance i}))"
| "meant n K (updateInstance n K conf chart i) (on_instances (\<lambda>i. {UpdateApplicationInstance i}))"
| "meant n K (deleteInstance n K sure force i) (on_instances (\<lambda>i. {FetchApplicationInstanceInfo i, DeleteApplicationInstance i}))"
| "meant n K (fetchInstanceLogs n K maximum container previous i) (on_instances (\<lambda>i. {GetApplicationInstanceLogs i}))"
| "meant n K (scaleInstance n K replicas deployment i) (on_instances (\<lambda>i. {GetApplicationInstanceScale i, ScaleApplicationInstance i}))"
| "meant n K (getInstanceInfo n K configuration i) (on_instances (\<lambda>i. {FetchApplicationInstanceInfo i}))"
| "meant n K (fetchCurrentProfile n K) {WhoAreThey}"
| "meant n K (getUserInfo n K i) {GetUserInfo i}"
| "meant n K (listUsers_command n K g) {ListUsers}"
| "meant n K (createUser n K globus name email phone institution admin) {CreateUser}"
| "meant n K (removeUser_command n K i) {GetUserInfo i, DeleteUser i}"
| "segment g \<Longrightarrow> meant n K (addUserToGroup_command n K i g) {AddUserToGroup i g}"
| "segment g \<Longrightarrow> meant n K (removeUserFromGroup_command n K i g) {RemoveUserFromGroup i g}"
| "meant n K (listSecrets_command n K g c) {ListSecrets}"
| "meant n K (getSecretInfo n K i) {GetSecret i}"
| "meant n K (createSecret n K name g c pairs) {CreateSecret}"
| "meant n K (copySecret n K name g c i) {CreateSecret}"
| "meant n K (deleteSecret n K i sure force) {GetSecret i, DeleteSecret i}"
| "meant n K (listVolumes n K g c) {ListVolumeClaims}"
| "meant n K (getVolumeInfo n K i) {FetchVolumeClaimInfo i}"
| "meant n K (createVolume n K name g c storage access mode cls) {CreateVolumeClaim}"
| "meant n K (deleteVolume n K i sure force) {FetchVolumeClaimInfo i, DeleteVolumeClaim i}"

lemmas command_defs = createGroup_def updateGroup_command_def deleteGroup_def getGroupInfo_def
  listGroups_command_def getClusterList_def listClusters_command_def listClustersAccessibleToGroup_def
  getClusterInfo_def deleteCluster_def
  grantGroupClusterAccess_def revokeGroupClusterAccess_def listGroupWithAccessToCluster_def
  listAllowedApplications_def allowGroupUseOfApplication_def denyGroupUseOfApplication_command_def
  pingCluster_def listApplications_command_def getApplicationConf_def getApplicationVersions_def
  getApplicationDocs_def put_out_def listInstances_def installApplication_def fetchCurrentProfile_def getUserInfo_def
  show_profile_def listUsers_command_def createUser_def removeUser_command_def addUserToGroup_command_def
  as_group_name_def no_user_ID_def removeUserFromGroup_command_def listSecrets_command_def getSecretInfo_def
  createSecret_def copySecret_def deleteSecret_def listVolumes_def getVolumeInfo_def createVolume_def
  deleteVolume_def

lemma meant_asked: "meant n K cmd eps \<Longrightarrow> keepsP (asked s0 eps) cmd"
  by (induction rule: meant.induct)
    (unfold command_defs if_True if_False,
    (rule restart_asked update_asked delete_asked logs_asked scale_asked info_asked
     | intro requesting keeps; (blast intro: goes)?; fail)+)



section \<open>Secrets\<close>

lemma secret_pair_split:
  assumes "secret_pair item = Inr (k, v)"
  shows "\<exists>x. item = k @ ''='' @ x \<and> k \<noteq> [] \<and> v = J_string (encodeBase64 x)"
proof -
  have "CHR ''='' \<in> set item" using assms by (auto simp: secret_pair_def split: if_splits)
  then have "item = takeWhile (\<lambda>c. c \<noteq> CHR ''='') item @ ''='' @ tl (dropWhile (\<lambda>c. c \<noteq> CHR ''='') item)"
    by (induction item) auto
  then show ?thesis using assms by (auto simp: secret_pair_def Let_def split: if_splits)
qed

lemma no_NUL_allowed: "CHR 0x00 \<notin> set allowedKeyCharacters"
  by code_simp

lemma no_NUL_encoded: "CHR 0x00 \<notin> set (encodeBase64 x)"
proof -
  have "CHR 0x00 \<notin> insert (CHR ''='') (set base64lookupTable)" by code_simp
  then show ?thesis using checked_text_chars [OF encoded_passes_check] by blast
qed

lemma check_content_encoded:
  assumes "k \<noteq> []" and "length k \<le> 253" and "set k \<subseteq> set allowedKeyCharacters"
  shows "check_content (k, J_string (encodeBase64 x)) = Pass ()"
proof -
  have "c_str k = k" using assms(3) no_NUL_allowed by (auto simp: c_str_def takeWhile_eq_all_conv)
  moreover have "c_str (encodeBase64 x) = encodeBase64 x"
    using no_NUL_encoded by (auto simp: c_str_def takeWhile_eq_all_conv)
  ultimately show ?thesis using assms encoded_passes_check [of x] by (simp add: check_content_def demand_def)
qed

text \<open>
  C30: the pairs \<open>key=value\<close> that the client accepts for a new secret pass the checks of the server,
  when their keys are of the form that Kubernetes demands, and each item decodes to the value that
  the user gave for its key.
\<close>

theorem created_secrets_are_accepted:
  assumes "mapE secret_pair data = Inr contents"
    and "\<forall>(k, v) \<in> set contents. length k \<le> 253 \<and> set k \<subseteq> set allowedKeyCharacters"
  shows "check_contents contents = Pass () \<and>
    list_all2 (\<lambda>item (k, v). \<exists>x text. item = k @ ''='' @ x \<and> v = J_string text \<and> decodeBase64 text = Inr x)
      data contents"
  using assms
proof (induction data arbitrary: contents)
  case (Cons item data)
  then obtain k v rest where pair: "secret_pair item = Inr (k, v)" and rest: "mapE secret_pair data = Inr rest"
    and contents: "contents = (k, v) # rest"
    by (auto simp: bindE_Inr_iff)
  obtain x where x: "item = k @ ''='' @ x" "k \<noteq> []" "v = J_string (encodeBase64 x)"
    using secret_pair_split [OF pair] by blast
  with Cons.IH [OF rest] Cons.prems(2) show ?case
    by (auto simp: contents check_content_encoded decode_encoded)
qed simp

theorem created_secrets_are_accepted_witness:
  "\<exists>contents. mapE secret_pair [''user=slate''] = Inr contents \<and> check_contents contents = Pass ()"
proof -
  have "mapE secret_pair [''user=slate''] = Inr [(''user'', J_string (encodeBase64 ''slate''))]"
    by (simp add: secret_pair_def)
  moreover from created_secrets_are_accepted [OF this]
  have "check_contents [(''user'', J_string (encodeBase64 ''slate''))] = Pass ()"
    by (simp add: allowedKeyCharacters_def)
  ultimately show ?thesis by blast
qed

end
