(* ===== verification/Spec2Isabelle.thy ===== *)
theory Spec2Isabelle
  imports ListingCorrect CredentialCorrect TextCorrect Promises Base64Correct Answers GzipCorrect
    TarCorrect PathCorrect InstallCorrect PlaceCorrect ClientTextCorrect TableCorrect
    ClientConsent ClientRequests
begin

text \<open>
  A verification development for the SLATE client and server
  (\<open>slateci/slate-client-server\<close>): the API server, from the request that comes in to the rows of
  the database, with the archives and compression that charts are sent in; and the command line client.
  The server keeps users, groups,
  clusters, application instances, secrets, volume claims and monitoring credentials in DynamoDB
  behind a set of in-memory caches, and acts on Kubernetes clusters with kubectl and helm.

  \<^bold>\<open>The program.\<close>  \<open>src/slate_service.cpp\<close> routes a request to one of some sixty handlers
  (\<open>src/*Commands.cpp\<close>), or unpacks a bundle of requests and runs each in a thread.  A handler
  authenticates its caller with \<open>authenticateUser\<close>, tests what the caller may do, reads and
  changes entities through one object, the \<open>PersistentStore\<close> (\<open>src/PersistentStore.cpp\<close>), and runs
  programs (\<open>src/KubeInterface.cpp\<close>).  Each operation of the store talks to DynamoDB and keeps the
  caches in step: a hash map per entity and key (\<open>userCache\<close>, \<open>userByTokenCache\<close>, ...), a multimap
  per category (\<open>userByGroupCache\<close>, ..., from \<open>include/concurrent_multimap.h\<close>), and a time at which
  a complete listing becomes stale.  The decisions that protect the service (who a token belongs
  to, which group a user is in, which group may use a cluster and which application on it) are
  taken from these caches.  The client (\<open>src/client/Client.cpp\<close>) finds the address of the server and
  the token of its user, makes a request of each of its commands, and prints what comes back as
  JSON or as a table.

  \<^bold>\<open>The store.\<close>
  \<^item> \<open>Prelude\<close>: outcomes (errors as the left part of a sum), operations as state passing with
    outcomes, their laws, and generic string functions.
  \<^item> \<open>Entities\<close>: the records of \<open>include/Entities.h\<close> and \<open>src/Entities.cpp\<close>, equality, text forms,
    and the identifier generator (the random device's value is an argument).
  \<^item> \<open>Caches\<close>: \<open>CacheRecord\<close>, the hash map operations the code uses, \<open>replaceCacheRecord\<close>, all of
    \<open>concurrent_multimap\<close>, and the macro \<open>maybeReturnCachedCategoryMembers\<close>.
  \<^item> \<open>Environment\<close>: what is outside the process, as the record \<open>env\<close> of functions on a world that
    every operation takes as an argument (clock, DynamoDB requests, temporary files, commands,
    scrypt), the statistics counters, attribute lookup, and the scan loop.
  \<^item> \<open>UserStore\<close>, \<open>GroupStore\<close>, \<open>ClusterStore\<close>, \<open>AccessStore\<close>, \<open>InstanceStore\<close>, \<open>SecretStore\<close>,
    \<open>VolumeStore\<close>, \<open>CredentialStore\<close>, \<open>ApplicationCatalog\<close>: the operations of \<open>PersistentStore\<close>, one
    definition each, in the order of the code.  The state is a record that grows from theory to
    theory (\<open>base_store\<close>, \<open>user_store\<close>, ..., \<open>persistent_store\<close>) and has a field for every data
    member of the class that the operations use; \<open>new_store\<close> is what the constructor makes.
  \<^item> \<open>Locations\<close>: the locations of clusters, in the store and by \<open>src/Geocoder.cpp\<close>.
  \<^item> \<open>TextUtil\<close>: string routines of \<open>src/ServerUtilities.cpp\<close> and \<open>src/Utilities.cpp\<close>, among them
    the comparison of versions.

  \<^bold>\<open>The handlers.\<close>
  \<^item> \<open>Web\<close>: JSON values with the preconditions of rapidjson's accessors, responses, the checks of a
    body, \<open>sendEmail\<close>, and the record \<open>services\<close>: what only the handlers use of the outside (random
    numbers, HTTP, YAML and JSON text, DNS, the mail service, files, zlib, sleeping).
  \<^item> \<open>Kube\<close> (\<open>src/KubeInterface.cpp\<close>) and \<open>Dns\<close> (\<open>src/DNSManipulator.cpp\<close>).
  \<^item> \<open>UserCommands\<close>, \<open>CredentialCommands\<close>, \<open>GroupCommands\<close>, \<open>SecretCommands\<close>, \<open>VolumeCommands\<close>,
    \<open>AccessCommands\<close>, \<open>DeletionCommands\<close>, \<open>ClusterSetup\<close>, \<open>ClusterCommands\<close>, \<open>ClusterInfo\<close>,
    \<open>ApplicationCommands\<close>, \<open>AdHocCommands\<close>, \<open>InstanceInfo\<close>, \<open>InstanceCommands\<close>: every handler of the
    file of the same subject, \<open>do_f\<close> for the function \<open>f\<close>.  \<open>DeletionCommands\<close> holds the deletion
    of instances, clusters and groups, which rest on each other, and \<open>AccessCommands\<close> the part of
    \<open>src/ClusterCommands.cpp\<close> about access and permissions.
  \<^item> \<open>Files\<close> (\<open>src/FileSystem.cpp\<close>, \<open>realpathHyp\<close>), \<open>Base64\<close>, \<open>Gzip\<close>, \<open>Tar\<close> and \<open>TarExtraction\<close>
    (\<open>src/Archive.cpp\<close>): a tar header is the 512 bytes that the structure occupies, so that what is
    written past a field lands in the next one.
  \<^item> \<open>Service\<close>: the routing table as data, \<open>execute\<close> (one command), \<open>handle\<close> (a request, with
    the exceptions that become status 500, and bundles).
  \<^item> \<open>MemoryService\<close> and \<open>Samples\<close>: an in-memory instance of \<open>env\<close> and sample entities, on which the
    witnesses of the properties are evaluated.

  \<^bold>\<open>The client.\<close>
  \<^item> \<open>ClientText\<close>: its functions on text (breaking lines, versions, edit distance, identifiers, the
    check of an address).  \<open>ClientSession\<close>: its state, a record that extends the outside world, with
    what it printed, what it sent and what its user answered; the surroundings (\<open>terminal\<close>), files
    and requests.  \<open>ClientTable\<close>: tables and the formats of output.
  \<^item> \<open>ClientCommands\<close> (groups, clusters, errors, questions), \<open>ClientInstances\<close> (applications,
    instances), \<open>ClientInfo\<close> (the two longest reports), \<open>ClientAccounts\<close> (users, secrets, volumes):
    a definition per command, under the name of the method, with \<open>_command\<close> behind it where the
    server has a function of that name.

  \<^bold>\<open>What is proved of the store.\<close>
  \<^item> \<open>Lookup\<close> states two interfaces as locales: \<open>cached_lookup\<close> (a lookup that answers from its cache
    while the record is good, and fills it otherwise) and \<open>stored_entity\<close> (an entity that is
    added, looked up and removed by ID).  \<open>EntityCaches\<close> interprets them on the model's own
    operations for users, groups, instances, secrets and volume claims, and takes from them that
    repeated lookups are free and that a store reads its own writes.
  \<^item> \<open>UserCorrect\<close>: the users table as a map, the operations as map updates, an invariant by which
    the three caches agree with the table in every reachable state, and what follows for
    authentication, removal and change of tokens.
  \<^item> \<open>GroupCorrect\<close>: memberships likewise; adding and deleting groups on every branch.
  \<^item> \<open>AccessCorrect\<close>: the cache of access decisions, with its positive and negative entries, agrees
    with the stored grants; the sets of permitted applications and their encoding.
  \<^item> \<open>CredentialCorrect\<close>: the state machine of a monitoring credential, and that no credential is
    handed out twice.
  \<^item> \<open>IdentifierCorrect\<close>: format and injectivity of identifiers, on which the composite keys rest,
    and the round trips of items, credentials and encrypted secrets.
  \<^item> \<open>ListingCorrect\<close>: listings by category and the laws of the multimap they use.
  \<^item> \<open>PlaceCorrect\<close>: the round trip of stored locations, and which DNS records may change.
  \<^item> \<open>TextCorrect\<close>: trimming, splitting, replacement, quantities; the comparison of versions always
    ends and compares dotted numbers as it should.

  \<^bold>\<open>What is proved of the server.\<close>
  \<^item> \<open>Kept\<close> has the assertions (\<open>triple\<close>, \<open>keeps\<close>) by which handlers are reasoned about and the
    collection \<open>keeps\<close> of rules that take a handler apart.
  \<^item> \<open>Footprint\<close>, \<open>DeletionFootprint\<close>, \<open>CommandFootprint\<close>, \<open>ArchiveFootprint\<close>: which tables each part
    of a handler may write (\<open>leaves\<close>), and that it leaves the caches of accounts alone (\<open>quiet\<close>).
    \<open>Confined\<close> puts them together: no command writes a table that is not its own.
  \<^item> \<open>Coherence\<close> and \<open>Served\<close>: the caches of accounts and memberships agree with the tables after
    every command; \<open>served\<close> are the states that a server gets into by answering requests, and the
    locale \<open>kept_invariant\<close> is the interface by which an invariant of accounts passes through all
    handlers; it is interpreted on the coherence of the caches and on the ordinary users' lack of rights.
  \<^item> \<open>Serving\<close>: strangers and ordinary users are refused, reading requests only read.
  \<^item> \<open>Promises\<close>, \<open>Rights\<close>, \<open>InstallCorrect\<close>: who gets what, by what is in the database at that
    moment and not by what a cache says: answers, secrets, releases, volume claims, clusters,
    installing, administrator rights.
  \<^item> \<open>Answers\<close>: the form of every answer.
  \<^item> \<open>Base64Correct\<close>, \<open>GzipCorrect\<close>, \<open>TarCorrect\<close>, \<open>PathCorrect\<close>: encoding, check sum and end of
    decompression, the round trip of archives, and where an archive may be extracted to.

  \<^bold>\<open>What is proved of the client.\<close>
  \<^item> \<open>ClientRuns\<close> states as the locale \<open>client_run\<close> what an invariant of a run has to respect, and takes
    what the commands share through it.  \<open>ClientConsent\<close> interprets it on the agreement of the user:
    nothing is deleted without it.  \<open>ClientRequests\<close> interprets it on the requests: each reaches the
    command of the server that it is meant for; and what the client sends for a secret is what the
    server accepts and decodes.
  \<^item> \<open>TableCorrect\<close>: printing ends, and tables can be read.  \<open>ClientTextCorrect\<close>: the edit distance.

  \<^bold>\<open>Hypotheses.\<close>  Nothing is assumed of the outside world but what a property names.  Of the
  database: \<open>dynamo_rw\<close> (a successful write is what the next read of the item returns, a failed
  request changes nothing), \<open>dynamo_conditional\<close>, \<open>dynamo_search\<close> and \<open>dynamo_index\<close> (queries and
  scans change nothing and return stored, matching items or their projections), which \<open>database\<close>
  and \<open>served_by\<close> put together with \<open>local_calls\<close> (commands, files and the clock write no table).
  Of the rest: \<open>clock_ok\<close>, \<open>scrypt_law\<close>, \<open>services_apart\<close> (HTTP, files, compression and so on write
  no table), \<open>fresh_ID\<close> (a new random ID is not taken), \<open>ended_with\<close> (zlib after the end of its
  data), \<open>unchanged\<close> (nobody changes the links of the file system meanwhile), \<open>exact\<close> (a printed
  coordinate), \<open>sorting\<close> (\<open>std::sort\<close> loses no row and makes up none).  Requests may fail at any time.  The store does not ask for strongly consistent
  reads, so these laws describe the service without replication lag.  The in-memory service
  satisfies them, which the witnesses use.

  \<^bold>\<open>Errors, loops and budgets.\<close>  A thrown exception is an \<open>Inl\<close> outcome, also where the code runs
  into undefined behaviour (a missing attribute read without a check, an uninitialised
  variable) or a failed assertion, and a failed request is an outcome that the operation inspects, as in the code.
  Where a loop takes a budget, \<open>None\<close> says that it was too small.  The listing loops run page by
  page until the service stops giving a key to continue from (\<open>scan_loop_more_budget\<close>: a larger
  budget never changes a result); the allocation loop for credentials has no limit in the code
  (\<open>allocation_may_never_end\<close>); decompression runs until the compressed data and the stream have
  ended, which may be never (\<open>decompression_of_one_block\<close>); the removal of a directory takes a bound
  on its depth; a bundle may hold bundles, down to a depth; a command of the client may be repeated on
  another instance, and a report of an error may ask for a version and end in another report, as
  often as the user or the server likes.  The loops that print a table need no bound
  (\<open>output_always_ends\<close>).  \<open>replaceString\<close>, which may not end, is
  a \<open>partial_function\<close>.  The other loops have a bound of their own that the model counts down: 1025
  components of a path, the looks at a pod of tiller, the polls after an installation, and in
  \<open>compareVersions\<close> the characters of the first string (\<open>compareVersions_total\<close>).  Counters are
  64-bit words that wrap; times are integers (nanoseconds), which a \<open>steady_clock\<close> cannot exhaust.

  \<^bold>\<open>Not modelled.\<close>  Interleavings inside one command: each is a sequence of steps of its own, the
  threads that some handlers and bundles start are run one after another, and the maps are atomic
  per call.  The creation of tables, the start of the process and its configuration, the
  implementation of the process and HTTP calls, logging and telemetry, which keep no state of the
  program; the vendored libraries, which are parameters; and of the command line client its options, the
  installation of a cluster and its components with kubectl, and the upgrade of the executable.
  \<open>PROJECT.json\<close> beside this directory lists every part.
\<close>

section \<open>A new server\<close>

text \<open>
  The state the constructor sets up is where the reachable states of every component begin, so
  the invariants of all caches hold from the first request on: the accounts', the memberships',
  the access decisions', the permissions' and the secrets'.
\<close>

theorem new_server_starts_coherent:
  assumes "account_rows view w" and "items_nonempty view w clusterTableName"
  shows "user_reachable E view (new_store E d w) \<and> member_reachable E view (new_store E d w) \<and>
    access_reachable E view (new_store E d w) \<and> permission_reachable E view (new_store E d w) \<and>
    secret_reachable E (new_store E d w)"
proof (intro conjI)
  show "user_reachable E view (new_store E d w)"
    using assms by (intro user_reachable.start) simp_all
  show "member_reachable E view (new_store E d w)" by (rule member_reachable.start) simp
  show "access_reachable E view (new_store E d w)"
    using assms by (intro access_reachable.start) simp_all
  show "permission_reachable E view (new_store E d w)" by (rule permission_reachable.start) simp
  show "secret_reachable E (new_store E d w)" by (rule secret_reachable.start) simp_all
qed

theorem new_server_starts_coherent_witness:
  "secret_reachable mem_env sample_store"
  using new_server_starts_coherent [of mem_view mem_start mem_env "''/var/tmp/slate''"]
  by (simp add: sample_store_def account_rows_def items_nonempty_def mem_view_def mem_start_def)

end
